(* ===== verification/Prelude.thy ===== *)
theory Prelude
  imports Complex_Main "HOL-Library.AList"
begin

text \<open>
  What every component shares: JavaScript's errors as values, strings and the character classes
  of the regular expressions in the sources, decimal numerals, truthiness, array slicing, and
  \<open>Map\<close> as an association list in insertion order.

  Conventions. A function that may throw returns \<open>js_error + 'a\<close> (\<open>Inl\<close> is the
  thrown error); one that also changes state returns the pair of that and the new state, because
  in JavaScript the effects made before a \<open>throw\<close> stay. Times are milliseconds in
  \<open>int\<close>; every \<open>Date.now()\<close> and \<open>new Date()\<close> is an argument. Strings are
  \<open>char\<close> lists (code units up to 255).
\<close>

named_theorems slice_simps \<open>lemmas that evaluate slices and padding\<close>

section \<open>Errors\<close>

text \<open>
  \<open>Error\<close> is \<open>new Error(message)\<close>; \<open>StatusError\<close> is
  \<open>Object.assign(new Error(message), {status})\<close>; \<open>HttpErr\<close> is the class
  \<open>HttpError\<close> of utils/apiError.ts; \<open>CircuitOpenError\<close> is the class of
  utils/circuitBreaker.ts; \<open>ZodFailure\<close> is a schema that does not parse;
  \<open>NotAnError\<close> is a thrown value that is not an \<open>Error\<close>.
\<close>

datatype js_error =
    Error string
  | StatusError nat string
  | HttpErr nat string string
  | CircuitOpenError string
  | ZodFailure string
  | NotAnError

fun err_message :: "js_error \<Rightarrow> string" where
  "err_message (Error m) = m"
| "err_message (StatusError _ m) = m"
| "err_message (HttpErr _ _ m) = m"
| "err_message (CircuitOpenError m) = m"
| "err_message (ZodFailure m) = m"
| "err_message NotAnError = []"

section \<open>Strings\<close>

definition code_of :: "char \<Rightarrow> nat" where
  "code_of c = of_char c"

definition in_range :: "nat \<Rightarrow> nat \<Rightarrow> char \<Rightarrow> bool" where
  "in_range lo hi c \<longleftrightarrow> lo \<le> code_of c \<and> code_of c \<le> hi"

definition is_digit :: "char \<Rightarrow> bool" where
  "is_digit c \<longleftrightarrow> in_range 48 57 c"

definition is_upper :: "char \<Rightarrow> bool" where
  "is_upper c \<longleftrightarrow> in_range 65 90 c"

definition is_lower :: "char \<Rightarrow> bool" where
  "is_lower c \<longleftrightarrow> in_range 97 122 c"

text \<open>\<open>[A-Z2-7]\<close>, the alphabet of Stellar's keys.\<close>

definition is_base32 :: "char \<Rightarrow> bool" where
  "is_base32 c \<longleftrightarrow> is_upper c \<or> in_range 50 55 c"

text \<open>\<open>[a-f0-9]\<close>\<close>

definition is_hex_lower :: "char \<Rightarrow> bool" where
  "is_hex_lower c \<longleftrightarrow> is_digit c \<or> in_range 97 102 c"

lemmas char_class_defs = code_of_def in_range_def is_digit_def is_upper_def is_lower_def
  is_base32_def is_hex_lower_def

text \<open>\<open>String.prototype.trim\<close>: white space and line terminators at both ends.\<close>

definition is_space :: "char \<Rightarrow> bool" where
  "is_space c \<longleftrightarrow> in_range 9 13 c \<or> code_of c = 32 \<or> code_of c = 160"

definition js_trim :: "string \<Rightarrow> string" where
  "js_trim s = rev (dropWhile is_space (rev (dropWhile is_space s)))"

lemma js_trim_id: "s \<noteq> [] \<Longrightarrow> \<not> is_space (hd s) \<Longrightarrow> \<not> is_space (last s) \<Longrightarrow> js_trim s = s"
proof -
  assume a: "s \<noteq> []" "\<not> is_space (hd s)" "\<not> is_space (last s)"
  have "dropWhile is_space s = s" using a(1,2) by (cases s) auto
  moreover have "dropWhile is_space (rev s) = rev s"
    using a(1,3) by (cases s rule: rev_cases) auto
  ultimately show ?thesis by (simp add: js_trim_def)
qed

lemma js_trim_idem [simp]: "js_trim (js_trim s) = js_trim s"
proof (cases "js_trim s = []")
  case True
  show ?thesis unfolding True by (simp add: js_trim_def)
next
  case False
  let ?d = "dropWhile is_space s"
  have ne: "dropWhile is_space (rev ?d) \<noteq> []" using False by (simp add: js_trim_def)
  then have l: "\<not> is_space (last (js_trim s))" using hd_dropWhile [OF ne] by (simp add: js_trim_def last_rev)
  have d: "?d = js_trim s @ rev (takeWhile is_space (rev ?d))"
    unfolding js_trim_def by (metis rev_append rev_rev_ident takeWhile_dropWhile_id)
  then have "hd ?d = hd (js_trim s)" using False by (metis hd_append2)
  moreover have "\<not> is_space (hd ?d)" using d False by (metis hd_dropWhile append_is_Nil_conv)
  ultimately show ?thesis using js_trim_id [OF False _ l] by simp
qed

text \<open>A string or \<open>null\<close> or \<open>undefined\<close> in a condition: the empty string is false too.\<close>

fun truthy :: "string option \<Rightarrow> bool" where
  "truthy None = False"
| "truthy (Some s) = (s \<noteq> [])"

lemma truthy_iff: "truthy x \<longleftrightarrow> (\<exists>s. x = Some s \<and> s \<noteq> [])"
  by (cases x) auto

text \<open>\<open>s.startsWith(p)\<close> and \<open>s.slice(n)\<close> for \<open>n \<ge> 0\<close>.\<close>

fun starts_with :: "string \<Rightarrow> string \<Rightarrow> bool" where
  "starts_with [] s = True"
| "starts_with (p # ps) [] = False"
| "starts_with (p # ps) (c # cs) = (p = c \<and> starts_with ps cs)"

lemma starts_with_iff: "starts_with p s \<longleftrightarrow> (\<exists>r. s = p @ r)"
  by (induction p s rule: starts_with.induct) auto

text \<open>\<open>s.includes(p)\<close>\<close>

fun str_includes :: "string \<Rightarrow> string \<Rightarrow> bool" where
  "str_includes p [] = (p = [])"
| "str_includes p (c # cs) = (starts_with p (c # cs) \<or> str_includes p cs)"

lemma str_includes_iff: "str_includes p s \<longleftrightarrow> (\<exists>a b. s = a @ p @ b)"
proof (induction s)
  case (Cons c cs)
  have "(\<exists>a b. c # cs = a @ p @ b) \<longleftrightarrow> starts_with p (c # cs) \<or> (\<exists>a b. cs = a @ p @ b)"
    unfolding starts_with_iff by (metis append_Cons append_Nil list.exhaust list.inject)
  with Cons show ?case by simp
qed simp

lemma str_includes_append: "str_includes p b \<Longrightarrow> str_includes p (a @ b)"
  unfolding str_includes_iff by (metis append.assoc)

text \<open>\<open>s.split(d)\<close> for a separator of one character: at least one part, in order.\<close>

fun js_split :: "char \<Rightarrow> string \<Rightarrow> string list" where
  "js_split d [] = [[]]"
| "js_split d (c # cs) =
     (if c = d then [] # js_split d cs
      else (case js_split d cs of [] \<Rightarrow> [[c]] | p # ps \<Rightarrow> (c # p) # ps))"

lemma js_split_nonempty: "js_split d s \<noteq> []"
  by (induction s) (auto split: list.splits)

lemma js_split_no_sep: "d \<notin> set s \<Longrightarrow> js_split d s = [s]"
  by (induction s) auto

lemma js_split_append_sep: "d \<notin> set s \<Longrightarrow> js_split d (s @ d # r) = s # js_split d r"
  by (induction s) auto

section \<open>Decimal numerals\<close>

definition digit_val :: "char \<Rightarrow> nat" where
  "digit_val c = code_of c - 48"

fun dec_acc :: "nat \<Rightarrow> string \<Rightarrow> nat" where
  "dec_acc a [] = a"
| "dec_acc a (c # cs) = dec_acc (10 * a + digit_val c) cs"

text \<open>The number a string of digits denotes (\<open>BigInt(s)\<close> for such a string).\<close>

definition dec_val :: "string \<Rightarrow> nat" where
  "dec_val s = dec_acc 0 s"

lemma dec_acc_shift: "dec_acc a s = a * 10 ^ length s + dec_acc 0 s"
proof (induction s arbitrary: a)
  case Nil
  show ?case by simp
next
  case (Cons c cs)
  have "dec_acc a (c # cs) = (10 * a + digit_val c) * 10 ^ length cs + dec_acc 0 cs"
    using Cons [of "10 * a + digit_val c"] by simp
  moreover have "dec_acc 0 (c # cs) = digit_val c * 10 ^ length cs + dec_acc 0 cs"
    using Cons [of "digit_val c"] by simp
  ultimately show ?case by (simp add: algebra_simps)
qed

lemma dec_val_Nil [simp]: "dec_val [] = 0"
  by (simp add: dec_val_def)

lemma dec_val_Cons: "dec_val (c # cs) = digit_val c * 10 ^ length cs + dec_val cs"
  unfolding dec_val_def by (simp add: dec_acc_shift [of "digit_val c"])

lemma dec_val_append: "dec_val (s @ t) = dec_val s * 10 ^ length t + dec_val t"
  by (induction s) (simp_all add: dec_val_Cons power_add algebra_simps)

lemma dec_val_zeros [simp]: "dec_val (replicate n (CHR ''0'')) = 0"
  by (induction n) (simp_all add: dec_val_Cons digit_val_def code_of_def)

text \<open>\<open>String(n)\<close> and \<open>`${n}`\<close> for a natural number.\<close>

fun dec_digits :: "nat \<Rightarrow> string" where
  "dec_digits n =
     (if n < 10 then [char_of (48 + n)] else dec_digits (n div 10) @ [char_of (48 + n mod 10)])"

declare dec_digits.simps [simp del]

lemma code_of_char_of: "n < 256 \<Longrightarrow> code_of (char_of n) = n"
  by (simp add: code_of_def)

lemma dec_digits_val: "dec_val (dec_digits n) = n"
proof (induction n rule: dec_digits.induct)
  case (1 n)
  show ?case
  proof (cases "n < 10")
    case True
    then show ?thesis
      by (simp add: dec_digits.simps [of n] dec_val_Cons digit_val_def code_of_char_of)
  next
    case False
    have digit: "dec_val [char_of (48 + n mod 10)] = n mod 10"
      by (simp add: dec_val_Cons digit_val_def code_of_char_of)
    from False have "dec_val (dec_digits n) = dec_val (dec_digits (n div 10)) * 10 + n mod 10"
      by (simp add: dec_digits.simps [of n] dec_val_append digit)
    then show ?thesis using "1.IH" [OF False] by simp
  qed
qed

lemma dec_digits_inj: "dec_digits m = dec_digits n \<Longrightarrow> m = n"
  by (metis dec_digits_val)

lemma dec_digits_nonempty: "dec_digits n \<noteq> []"
  by (subst dec_digits.simps) simp

lemma digits_are_digits: "list_all is_digit (dec_digits n)"
proof (induction n rule: dec_digits.induct)
  case (1 n)
  have "is_digit (char_of (48 + k))" if "k < 10" for k :: nat
    using that by (simp add: is_digit_def in_range_def code_of_char_of)
  then show ?case using 1 by (subst dec_digits.simps) simp
qed

text \<open>\<open>n.toString()\<close> of an integer: a minus sign before the digits of a negative one.\<close>

definition int_digits :: "int \<Rightarrow> string" where
  "int_digits i = (if i < 0 then CHR ''-'' # dec_digits (nat (- i)) else dec_digits (nat i))"

text \<open>
  \<open>BigInt(s)\<close>: white space around, the empty string is 0, decimal digits with an optional
  sign, or hexadecimal, octal and binary digits with their prefix. \<open>None\<close> is the
  \<open>SyntaxError\<close>.
\<close>

definition hex_val :: "char \<Rightarrow> nat" where
  "hex_val c = (if is_digit c then code_of c - 48
     else if is_lower c then code_of c - 87 else code_of c - 55)"

definition is_hex :: "char \<Rightarrow> bool" where
  "is_hex c \<longleftrightarrow> is_digit c \<or> in_range 97 102 c \<or> in_range 65 70 c"

fun radix_val :: "nat \<Rightarrow> nat \<Rightarrow> string \<Rightarrow> nat" where
  "radix_val b a [] = a"
| "radix_val b a (c # cs) = radix_val b (b * a + hex_val c) cs"

definition all_chars :: "(char \<Rightarrow> bool) \<Rightarrow> string \<Rightarrow> bool" where
  "all_chars P s \<longleftrightarrow> s \<noteq> [] \<and> list_all P s"

fun bigint_body :: "string \<Rightarrow> int option" where
  "bigint_body [] = Some 0"
| "bigint_body (c # s) =
     (if c = CHR ''+'' \<and> all_chars is_digit s then Some (int (dec_val s))
      else if c = CHR ''-'' \<and> all_chars is_digit s then Some (- int (dec_val s))
      else if all_chars is_digit (c # s) then Some (int (dec_val (c # s)))
      else if c = CHR ''0'' \<and> s \<noteq> [] \<and> hd s \<in> {CHR ''x'', CHR ''X''} \<and> all_chars is_hex (tl s)
      then Some (int (radix_val 16 0 (tl s)))
      else if c = CHR ''0'' \<and> s \<noteq> [] \<and> hd s \<in> {CHR ''o'', CHR ''O''} \<and> all_chars (in_range 48 55) (tl s)
      then Some (int (radix_val 8 0 (tl s)))
      else if c = CHR ''0'' \<and> s \<noteq> [] \<and> hd s \<in> {CHR ''b'', CHR ''B''} \<and> all_chars (in_range 48 49) (tl s)
      then Some (int (radix_val 2 0 (tl s)))
      else None)"

definition js_bigint :: "string \<Rightarrow> int option" where
  "js_bigint s = bigint_body (js_trim s)"

section \<open>JSON values\<close>

text \<open>A parsed body; a key that is absent is \<open>undefined\<close>. Numbers are exact.\<close>

datatype jval = JNull | JBool bool | JNum rat | JStr string | JArr "jval list"
  | JObj "(string \<times> jval) list"

fun jfield :: "string \<Rightarrow> jval \<Rightarrow> jval option" where
  "jfield k (JObj fs) = map_of fs k"
| "jfield k _ = None"

section \<open>Arrays\<close>

text \<open>\<open>xs.slice(0, n)\<close>: a negative \<open>n\<close> counts from the end.\<close>

definition js_slice0 :: "int \<Rightarrow> 'a list \<Rightarrow> 'a list" where
  "js_slice0 n xs =
     (if 0 \<le> n then take (nat n) xs else take (nat (int (length xs) + n)) xs)"

lemma length_js_slice0 [slice_simps]: "0 \<le> n \<Longrightarrow> length (js_slice0 n xs) = min (nat n) (length xs)"
  by (simp add: js_slice0_def)

lemma set_js_slice0: "set (js_slice0 n xs) \<subseteq> set xs"
  by (auto simp: js_slice0_def dest: in_set_takeD)

lemma js_slice0_all [slice_simps]: "int (length xs) \<le> n \<Longrightarrow> js_slice0 n xs = xs"
  by (simp add: js_slice0_def)

lemma sorted_js_slice0: "sorted (map f xs) \<Longrightarrow> sorted (map f (js_slice0 n xs))"
  by (simp add: js_slice0_def take_map [symmetric] sorted_wrt_take)

section \<open>Maps in insertion order\<close>

text \<open>
  A JavaScript \<open>Map\<close> keeps its entries in insertion order, and \<open>set\<close> of a key it
  already holds keeps that key's place: an association list with \<open>AList.update\<close> and
  \<open>AList.delete\<close>, read by \<open>map_of\<close>. A \<open>Set\<close> is a list without duplicates.
\<close>

lemma map_of_update: "map_of (AList.update k v m) = (map_of m)(k \<mapsto> v)"
  by (rule AList.update_conv')

lemma map_of_delete: "map_of (AList.delete k m) = (map_of m)(k := None)"
  by (rule AList.delete_conv')

lemmas js_map_simps [simp] = map_of_update map_of_delete

text \<open>The values of a map with distinct keys are what its lookups return.\<close>

lemma values_iff:
  "distinct (map fst m) \<Longrightarrow> v \<in> snd ` set m \<longleftrightarrow> (\<exists>k. map_of m k = Some v)"
  using ran_distinct [of m] by (auto simp: ran_def)

definition js_set_add :: "'a \<Rightarrow> 'a list \<Rightarrow> 'a list" where
  "js_set_add x xs = (if x \<in> set xs then xs else xs @ [x])"

lemma set_js_set_add [simp]: "set (js_set_add x xs) = insert x (set xs)"
  by (auto simp: js_set_add_def)

lemma distinct_js_set_add [simp]: "distinct (js_set_add x xs) = distinct xs"
  by (auto simp: js_set_add_def)

end
