(* ===== verification/Amounts.thy ===== *)
theory Amounts
  imports Prelude
begin

text \<open>
  The conversion of a decimal amount to stroops, \<open>toStroops\<close> of
  backend/src/services/paymentService.ts, and the regular expressions of that file. The reference
  is \<open>amount_value\<close>, the number of stroops that the amount denotes.
\<close>

section \<open>Regular expressions\<close>

text \<open>\<open>/^G[A-Z2-7]{55}$/\<close>\<close>

definition public_key_regex :: "string \<Rightarrow> bool" where
  "public_key_regex s =
     (case s of [] \<Rightarrow> False | c # cs \<Rightarrow> c = CHR ''G'' \<and> length cs = 55 \<and> list_all is_base32 cs)"

text \<open>\<open>/^[a-zA-Z0-9:_-]{8,128}$/\<close>\<close>

definition idempotency_regex :: "string \<Rightarrow> bool" where
  "idempotency_regex s \<longleftrightarrow> 8 \<le> length s \<and> length s \<le> 128 \<and>
     list_all (\<lambda>c. is_lower c \<or> is_upper c \<or> is_digit c \<or> c \<in> {CHR '':'', CHR ''_'', CHR ''-''}) s"

text \<open>\<open>/^\d+(\.\d{0,7})?$/\<close>\<close>

definition amount_regex :: "string \<Rightarrow> bool" where
  "amount_regex s =
     (let ds = takeWhile is_digit s; r = dropWhile is_digit s in
      ds \<noteq> [] \<and>
      (case r of [] \<Rightarrow> True | c # f \<Rightarrow> c = CHR ''.'' \<and> length f \<le> 7 \<and> list_all is_digit f))"

section \<open>toStroops\<close>

text \<open>\<open>.replace(/^0+(?=\d)/, "")\<close>: drop leading zeros as long as a digit follows.\<close>

fun strip_zeros :: "string \<Rightarrow> string" where
  "strip_zeros (c # d # r) =
     (if c = CHR ''0'' \<and> is_digit d then strip_zeros (d # r) else c # d # r)"
| "strip_zeros s = s"

definition toStroops :: "string \<Rightarrow> js_error + string" where
  "toStroops amount =
     (let parts = js_split (CHR ''.'') amount;
          wholePart = hd parts;
          fractionPart = (case tl parts of [] \<Rightarrow> [] | f # _ \<Rightarrow> f);
          padded = take 7 (fractionPart @ ''0000000'');
          combined = strip_zeros (wholePart @ padded)
      in if \<not> all_chars is_digit combined then Inl (Error ''Amount contains invalid digits'')
         else if dec_val combined \<le> 0 then Inl (Error ''Amount must be greater than zero'')
         else Inr combined)"

section \<open>The reference\<close>

definition amount_value :: "string \<Rightarrow> nat" where
  "amount_value s =
     (case js_split (CHR ''.'') s of
        w # f # _ \<Rightarrow> dec_val w * 10 ^ 7 + dec_val f * 10 ^ (7 - length f)
      | w # [] \<Rightarrow> dec_val w * 10 ^ 7
      | [] \<Rightarrow> 0)"

section \<open>Lemmas\<close>

lemma is_digit_dot: "\<not> is_digit (CHR ''.'')"
  by (simp add: is_digit_def in_range_def code_of_def)

lemma digit_val_less: "is_digit c \<Longrightarrow> digit_val c < 10"
  unfolding is_digit_def in_range_def digit_val_def by linarith

lemma char_of_digit: "is_digit c \<Longrightarrow> char_of (48 + digit_val c) = c"
  by (simp add: is_digit_def in_range_def digit_val_def code_of_def)

lemma digit_val_0: "is_digit c \<Longrightarrow> digit_val c = 0 \<longleftrightarrow> c = CHR ''0''"
proof -
  assume d: "is_digit c"
  have z: "(char_of (48 + 0 :: nat)) = CHR ''0''" by code_simp
  show ?thesis
  proof
    assume "digit_val c = 0"
    then show "c = CHR ''0''" using char_of_digit [OF d] z by simp
  qed (simp add: digit_val_def code_of_def)
qed

lemma strip_zeros_val: "dec_val (strip_zeros s) = dec_val s"
  by (induction s rule: strip_zeros.induct) (auto simp: dec_val_Cons digit_val_def code_of_def)

lemma strip_zeros_digits: "list_all is_digit s \<Longrightarrow> list_all is_digit (strip_zeros s)"
  by (induction s rule: strip_zeros.induct) auto

lemma strip_zeros_nonempty: "s \<noteq> [] \<Longrightarrow> strip_zeros s \<noteq> []"
  by (induction s rule: strip_zeros.induct) auto

lemma strip_zeros_head:
  "list_all is_digit s \<Longrightarrow> s \<noteq> [] \<Longrightarrow> length (strip_zeros s) = 1 \<or> hd (strip_zeros s) \<noteq> CHR ''0''"
  by (induction s rule: strip_zeros.induct) auto

text \<open>A numeral without leading zeros is what the number prints as.\<close>

lemma canonical_positive:
  "list_all is_digit s \<Longrightarrow> s \<noteq> [] \<Longrightarrow> hd s \<noteq> CHR ''0'' \<Longrightarrow> 0 < dec_val s"
  by (cases s) (auto simp: dec_val_Cons digit_val_0 intro: gr0I)

lemma dec_digits_canonical:
  assumes "list_all is_digit s" "s \<noteq> []" "length s = 1 \<or> hd s \<noteq> CHR ''0''"
  shows "dec_digits (dec_val s) = s"
  using assms
proof (induction s rule: rev_induct)
  case Nil
  then show ?case by simp
next
  case (snoc c s)
  have c: "is_digit c" using snoc.prems by simp
  note dc = digit_val_less [OF c] char_of_digit [OF c]
  show ?case
  proof (cases "s = []")
    case True
    then show ?thesis using dc by (simp add: dec_val_Cons dec_digits.simps [of "digit_val c"])
  next
    case False
    then have s: "list_all is_digit s" "hd s \<noteq> CHR ''0''" using snoc.prems by auto
    have pos: "0 < dec_val s" using canonical_positive [OF s(1) False s(2)] .
    have v: "dec_val (s @ [c]) = dec_val s * 10 + digit_val c"
      by (simp add: dec_val_append dec_val_Cons)
    have "\<not> dec_val (s @ [c]) < 10" using pos v by simp
    moreover have "dec_val (s @ [c]) div 10 = dec_val s" "dec_val (s @ [c]) mod 10 = digit_val c"
      using v dc by auto
    ultimately show ?thesis
      using snoc.IH s False dc by (simp add: dec_digits.simps [of "dec_val (s @ [c])"])
  qed
qed

lemma digits_no_dot: "list_all is_digit s \<Longrightarrow> CHR ''.'' \<notin> set s"
  using is_digit_dot by (auto simp: list_all_iff)

text \<open>What the regular expression accepts: digits, and perhaps a dot and at most seven digits.\<close>

lemma amount_regex_cases:
  assumes "amount_regex s"
  obtains "all_chars is_digit s"
  | w f where "s = w @ CHR ''.'' # f" "all_chars is_digit w" "list_all is_digit f" "length f \<le> 7"
proof -
  let ?w = "takeWhile is_digit s" and ?r = "dropWhile is_digit s"
  have s: "s = ?w @ ?r" by simp
  have w: "all_chars is_digit ?w"
    using assms by (auto simp: amount_regex_def Let_def all_chars_def list_all_iff dest: set_takeWhileD)
  show thesis
  proof (cases ?r)
    case Nil
    with s have "?w = s" by (metis append_Nil2)
    then show thesis using that(1) w by metis
  next
    case (Cons c f)
    then have "c = CHR ''.''" "list_all is_digit f" "length f \<le> 7"
      using assms by (auto simp: amount_regex_def Let_def)
    then show thesis using that(2) [of ?w f] w s Cons by simp
  qed
qed

lemma pad_val:
  assumes "length f \<le> 7"
  shows "dec_val (take 7 (f @ ''0000000'')) = dec_val f * 10 ^ (7 - length f)"
    and "list_all is_digit f \<Longrightarrow> list_all is_digit (take 7 (f @ ''0000000''))"
    and "length (take 7 (f @ ''0000000'')) = 7"
proof -
  have z: "''0000000'' = replicate 7 (CHR ''0'')" by code_simp
  have t: "take 7 (f @ ''0000000'') = f @ replicate (7 - length f) (CHR ''0'')"
    using assms by (simp add: z take_append take_replicate min_def)
  show "dec_val (take 7 (f @ ''0000000'')) = dec_val f * 10 ^ (7 - length f)"
    by (simp only: t dec_val_append dec_val_zeros length_replicate add_0_right)
  show "list_all is_digit f \<Longrightarrow> list_all is_digit (take 7 (f @ ''0000000''))"
    by (simp only: t) (auto simp: list_all_iff is_digit_def in_range_def code_of_def)
  show "length (take 7 (f @ ''0000000'')) = 7" using assms by simp
qed

lemma toStroops_combined:
  assumes "list_all is_digit c" "c \<noteq> []"
  shows "(if \<not> all_chars is_digit (strip_zeros c) then Inl e1
          else if dec_val (strip_zeros c) \<le> 0 then Inl e2 else Inr (strip_zeros c)) =
         (if dec_val c = 0 then Inl e2 else Inr (dec_digits (dec_val c)))"
  using assms strip_zeros_digits [OF assms(1)] strip_zeros_nonempty [OF assms(2)]
    dec_digits_canonical [of "strip_zeros c"] strip_zeros_head [OF assms]
  by (simp add: all_chars_def strip_zeros_val)

lemma toStroops_value:
  assumes "amount_regex s"
  shows "toStroops s =
    (if amount_value s = 0 then Inl (Error ''Amount must be greater than zero'')
     else Inr (dec_digits (amount_value s)))"
  using assms
proof (cases rule: amount_regex_cases)
  case 1
  then have sp: "js_split (CHR ''.'') s = [s]"
    by (simp add: js_split_no_sep digits_no_dot all_chars_def)
  have v: "dec_val (s @ ''0000000'') = amount_value s"
    using pad_val(1) [of "[]"] by (simp add: amount_value_def sp dec_val_append)
  have d: "list_all is_digit (s @ ''0000000'')" "s @ ''0000000'' \<noteq> []"
    using 1 pad_val(2) [of "[]"] by (simp_all add: all_chars_def)
  have p: "take 7 ([] @ ''0000000'') = ''0000000''" by simp
  show ?thesis
    using toStroops_combined [OF d] by (simp only: toStroops_def sp Let_def list.sel list.case p v)
next
  case (2 w f)
  then have sp: "js_split (CHR ''.'') s = [w, f]"
    by (simp add: js_split_append_sep js_split_no_sep digits_no_dot all_chars_def)
  let ?p = "take 7 (f @ ''0000000'')"
  have v: "dec_val (w @ ?p) = amount_value s"
    by (simp only: dec_val_append pad_val(1) [OF 2(4)] pad_val(3) [OF 2(4)]) (simp add: amount_value_def sp)
  have d: "list_all is_digit (w @ ?p)" "w @ ?p \<noteq> []"
    using 2 pad_val(2) [OF 2(4)] by (simp_all only: list_all_append all_chars_def) auto
  show ?thesis
    using toStroops_combined [OF d]
    by (simp only: toStroops_def sp Let_def list.sel list.case v)
qed

section \<open>Properties\<close>

text \<open>
  C11: on every amount the request schema accepts, \<open>toStroops\<close> returns the decimal numeral,
  without leading zeros, of exactly the amount in stroops (a unit is ten million), or throws because
  that is zero; it never loses a digit and never reports invalid digits.
\<close>

theorem toStroops_exact:
  assumes "amount_regex s"
  shows "toStroops s =
    (if amount_value s = 0 then Inl (Error ''Amount must be greater than zero'')
     else Inr (dec_digits (amount_value s)))"
  using assms by (rule toStroops_value)

theorem toStroops_exact_witness:
  "toStroops ''000.0000125'' = Inr ''125'' \<and> toStroops ''0.0000000'' = Inl (Error ''Amount must be greater than zero'')"
proof -
  have a: "amount_regex ''000.0000125''" "amount_regex ''0.0000000''"
    by (simp_all add: amount_regex_def char_class_defs)
  have v: "amount_value ''000.0000125'' = 125" "amount_value ''0.0000000'' = 0"
    by (simp_all add: amount_value_def dec_val_def digit_val_def code_of_def)
  have "dec_digits 125 = ''125''"
    by code_simp
  with v show ?thesis using toStroops_exact [OF a(1)] toStroops_exact [OF a(2)] by simp
qed

end
