(* ===== verification/Breaker.thy ===== *)
theory Breaker
  imports Prelude
begin

text \<open>
  The circuit breaker of backend/src/utils/circuitBreaker.ts. The class is a record, its methods
  are functions on the record. \<open>fire\<close> has two halves, as the \<open>await\<close> splits it:
  \<open>fire_enter\<close> runs before the action is started and \<open>fire_exit\<close> when the race
  between the action and the timer settles; between the two other calls may run.
  \<open>breaker_calls\<close> are the states that calls made one after the other reach,
  \<open>breaker_steps\<close> those that any interleaving of the halves reaches.
\<close>

section \<open>State\<close>

datatype circuit_state = Closed | Open | HalfOpen

datatype breaker_event = OnOpen | OnClose | OnHalfOpen

text \<open>The error percentage is exact here; \<open>failures / total * 100\<close> is rounded in the code.\<close>

record breaker_options =
  bo_timeout :: int
  bo_errorThresholdPercentage :: rat
  bo_resetTimeout :: int
  bo_volumeThreshold :: nat

text \<open>
  A listener is a number (the registered ones set the metrics gauge to that number);
  \<open>cb_notified\<close> is the sequence of listeners called so far.
\<close>

record breaker =
  cb_state :: circuit_state
  cb_failures :: nat
  cb_successes :: nat
  cb_lastFailureTime :: "int option"
  cb_options :: breaker_options
  cb_listeners :: "(breaker_event \<times> nat list) list"
  cb_notified :: "nat list"

datatype 'a settled = Resolved 'a | Rejected js_error | TimedOut

section \<open>Methods\<close>

definition new_breaker :: "int \<Rightarrow> rat \<Rightarrow> int \<Rightarrow> nat option \<Rightarrow> breaker" where
  "new_breaker timeout threshold resetTimeout volume =
     \<lparr>cb_state = Closed, cb_failures = 0, cb_successes = 0, cb_lastFailureTime = None,
      cb_options = \<lparr>bo_timeout = timeout, bo_errorThresholdPercentage = threshold,
        bo_resetTimeout = resetTimeout,
        bo_volumeThreshold = (case volume of None \<Rightarrow> 5 | Some v \<Rightarrow> v)\<rparr>,
      cb_listeners = [], cb_notified = []\<rparr>"

definition breaker_on :: "breaker_event \<Rightarrow> nat \<Rightarrow> breaker \<Rightarrow> breaker" where
  "breaker_on ev l b =
     b\<lparr>cb_listeners := AList.update ev
         ((case map_of (cb_listeners b) ev of None \<Rightarrow> [] | Some ls \<Rightarrow> ls) @ [l])
         (cb_listeners b)\<rparr>"

fun event_of :: "circuit_state \<Rightarrow> breaker_event" where
  "event_of Open = OnOpen"
| "event_of Closed = OnClose"
| "event_of HalfOpen = OnHalfOpen"

definition transitionTo :: "circuit_state \<Rightarrow> breaker \<Rightarrow> breaker" where
  "transitionTo next b =
     (if cb_state b = next then b
      else b\<lparr>cb_state := next,
             cb_notified := cb_notified b @
               (case map_of (cb_listeners b) (event_of next) of None \<Rightarrow> [] | Some ls \<Rightarrow> ls)\<rparr>)"

definition breaker_reset :: "breaker \<Rightarrow> breaker" where
  "breaker_reset b = b\<lparr>cb_failures := 0, cb_successes := 0\<rparr>"

definition onSuccess :: "breaker \<Rightarrow> breaker" where
  "onSuccess b =
     (let b1 = b\<lparr>cb_successes := cb_successes b + 1\<rparr> in
      if cb_state b1 = HalfOpen then breaker_reset (transitionTo Closed b1) else b1)"

definition errorRate :: "nat \<Rightarrow> nat \<Rightarrow> rat" where
  "errorRate failed calls = of_nat failed / of_nat calls * 100"

definition onFailure :: "int \<Rightarrow> breaker \<Rightarrow> breaker" where
  "onFailure now b =
     (let b1 = b\<lparr>cb_failures := cb_failures b + 1, cb_lastFailureTime := Some now\<rparr>;
          total = cb_failures b1 + cb_successes b1 in
      if total < bo_volumeThreshold (cb_options b1) then b1
      else if errorRate (cb_failures b1) total \<ge> bo_errorThresholdPercentage (cb_options b1)
      then transitionTo Open b1
      else b1)"

text \<open>\<open>!this.lastFailureTime\<close> holds for \<open>null\<close> and for 0.\<close>

definition shouldAttemptReset :: "int \<Rightarrow> breaker \<Rightarrow> bool" where
  "shouldAttemptReset now b =
     (case cb_lastFailureTime b of None \<Rightarrow> False
      | Some t \<Rightarrow> if t = 0 then False else now - t \<ge> bo_resetTimeout (cb_options b))"

definition fire_enter :: "int \<Rightarrow> breaker \<Rightarrow> (js_error + unit) \<times> breaker" where
  "fire_enter now b =
     (if cb_state b = Open
      then (if shouldAttemptReset now b then (Inr (), transitionTo HalfOpen b)
            else (Inl (CircuitOpenError ''Soroban RPC circuit is OPEN - request rejected''), b))
      else (Inr (), b))"

definition fire_exit :: "'a settled \<Rightarrow> int \<Rightarrow> breaker \<Rightarrow> (js_error + 'a) \<times> breaker" where
  "fire_exit outcome now b =
     (case outcome of
        Resolved v \<Rightarrow> (Inr v, onSuccess b)
      | Rejected e \<Rightarrow> (Inl e, onFailure now b)
      | TimedOut \<Rightarrow>
          (Inl (Error (''Soroban RPC call timed out after '' @
                 int_digits (bo_timeout (cb_options b)) @ ''ms'')), onFailure now b))"

definition fire :: "int \<Rightarrow> 'a settled \<Rightarrow> int \<Rightarrow> breaker \<Rightarrow> (js_error + 'a) \<times> breaker" where
  "fire now outcome settledAt b =
     (case fire_enter now b of
        (Inl e, b1) \<Rightarrow> (Inl e, b1)
      | (Inr _, b1) \<Rightarrow> fire_exit outcome settledAt b1)"

record breaker_stats =
  st_state :: circuit_state
  st_failures :: nat
  st_successes :: nat
  st_lastFailureTime :: "int option"

definition getStats :: "breaker \<Rightarrow> breaker_stats" where
  "getStats b = \<lparr>st_state = cb_state b, st_failures = cb_failures b,
     st_successes = cb_successes b, st_lastFailureTime = cb_lastFailureTime b\<rparr>"

text \<open>
  The shared instance: listeners that set the gauge to 2, 1 or 0. \<open>getSorobanBreaker\<close>
  makes it on first use and returns the same one afterwards; \<open>resetSorobanBreakerForTest\<close>
  forgets it.
\<close>

definition soroban_breaker :: breaker where
  "soroban_breaker =
     breaker_on OnClose 0 (breaker_on OnHalfOpen 1 (breaker_on OnOpen 2
       (new_breaker 10000 50 30000 (Some 5))))"

definition getSorobanBreaker :: "breaker option \<Rightarrow> breaker \<times> breaker option" where
  "getSorobanBreaker cell =
     (case cell of None \<Rightarrow> (soroban_breaker, Some soroban_breaker) | Some b \<Rightarrow> (b, Some b))"

definition resetSorobanBreakerForTest :: "breaker option \<Rightarrow> breaker option" where
  "resetSorobanBreakerForTest cell = None"

lemmas breaker_defs = transitionTo_def breaker_reset_def onSuccess_def onFailure_def Let_def
  fire_enter_def fire_exit_def fire_def

section \<open>Frame and rejection\<close>

lemma transitionTo_sel [simp]:
  "cb_state (transitionTo next b) = next"
  "cb_failures (transitionTo next b) = cb_failures b"
  "cb_successes (transitionTo next b) = cb_successes b"
  "cb_lastFailureTime (transitionTo next b) = cb_lastFailureTime b"
  "cb_options (transitionTo next b) = cb_options b"
  "cb_listeners (transitionTo next b) = cb_listeners b"
  by (simp_all add: transitionTo_def)

lemma fire_options [simp]: "cb_options (snd (fire now r t b)) = cb_options b"
  by (auto simp: breaker_defs split: settled.splits)

lemma fire_listeners [simp]: "cb_listeners (snd (fire now r t b)) = cb_listeners b"
  by (auto simp: breaker_defs split: settled.splits)

lemma fire_open_rejects:
  "cb_state b = Open \<Longrightarrow> \<not> shouldAttemptReset now b \<Longrightarrow>
     fire now r t b = (Inl (CircuitOpenError ''Soroban RPC circuit is OPEN - request rejected''), b)"
  by (simp add: fire_def fire_enter_def)

lemma fire_result_ok:
  "fst (fire now r t b) = Inr v \<Longrightarrow> r = Resolved v"
  by (auto simp: breaker_defs split: settled.splits if_splits)

lemma fire_enter_iff:
  "fst (fire_enter now b) = Inr () \<longleftrightarrow> cb_state b \<noteq> Open \<or> shouldAttemptReset now b"
  by (simp add: fire_enter_def)

section \<open>Calls one after the other\<close>

text \<open>
  A breaker that is not closed has seen enough calls, and enough of them failed. One more failure
  keeps that so, which is why a failed probe opens the circuit again.
\<close>

definition tripped :: "breaker \<Rightarrow> bool" where
  "tripped b \<longleftrightarrow>
     0 < cb_failures b \<and>
     bo_volumeThreshold (cb_options b) \<le> cb_failures b + cb_successes b \<and>
     bo_errorThresholdPercentage (cb_options b) \<le> errorRate (cb_failures b) (cb_failures b + cb_successes b)"

definition breaker_inv :: "breaker \<Rightarrow> bool" where
  "breaker_inv b \<longleftrightarrow> cb_state b \<noteq> HalfOpen \<and> (cb_state b = Open \<longrightarrow> tripped b)"

lemma errorRate_mono:
  assumes "0 < f"
  shows "errorRate f (f + s) \<le> errorRate (Suc f) (Suc (f + s))"
proof -
  have pos: "(0::rat) < of_nat f + of_nat s" "(0::rat) < 1 + (of_nat f + of_nat s)"
    using assms by (simp_all add: add_pos_nonneg)
  have "(of_nat f :: rat) * (1 + (of_nat f + of_nat s)) \<le> (1 + of_nat f) * (of_nat f + of_nat s)"
    by (simp add: algebra_simps)
  then have "(of_nat f :: rat) / (of_nat f + of_nat s) \<le> (1 + of_nat f) / (1 + (of_nat f + of_nat s))"
    using pos by (simp add: frac_le_eq divide_le_eq pos_le_divide_eq field_simps)
  then show ?thesis
    unfolding errorRate_def of_nat_Suc of_nat_add by (rule mult_right_mono) simp
qed

lemma tripped_more_failure:
  "tripped b \<Longrightarrow> tripped (b\<lparr>cb_failures := Suc (cb_failures b), cb_lastFailureTime := t\<rparr>)"
  unfolding tripped_def
  using errorRate_mono [of "cb_failures b" "cb_successes b"] by simp

lemma onFailure_tripped:
  assumes "tripped b"
  shows "cb_state (onFailure now b) = Open" and "tripped (onFailure now b)"
  using tripped_more_failure [OF assms, of "Some now"]
  by (auto simp: onFailure_def Let_def tripped_def)

lemma onFailure_open_tripped:
  "cb_state b = Closed \<Longrightarrow> cb_state (onFailure now b) = Open \<Longrightarrow> tripped (onFailure now b)"
  by (auto simp: onFailure_def Let_def tripped_def split: if_splits)

lemma onFailure_closed: "cb_state b = Closed \<Longrightarrow> cb_state (onFailure now b) \<noteq> HalfOpen"
  by (auto simp: onFailure_def Let_def)

lemma fire_exit_failure:
  "\<not> (\<exists>v. r = Resolved v) \<Longrightarrow> snd (fire_exit r t b) = onFailure t b"
  by (cases r) (auto simp: fire_exit_def)

lemma fire_inv:
  assumes "breaker_inv b"
  shows "breaker_inv (snd (fire now r t b))"
proof (cases "fst (fire_enter now b)")
  case (Inl e)
  then have "snd (fire now r t b) = b"
    by (auto simp: fire_def fire_enter_def split: if_splits)
  with assms show ?thesis by simp
next
  case (Inr u)
  let ?b = "snd (fire_enter now b)"
  have st: "cb_state ?b = Closed \<or> (cb_state ?b = HalfOpen \<and> tripped ?b)"
    using Inr assms by (cases "cb_state b") (auto simp: fire_enter_def breaker_inv_def tripped_def split: if_splits)
  have eq: "snd (fire now r t b) = snd (fire_exit r t ?b)"
    using Inr by (auto simp: fire_def split: prod.splits)
  show ?thesis
  proof (cases "\<exists>v. r = Resolved v")
    case True
    then have "snd (fire_exit r t ?b) = onSuccess ?b" by (auto simp: fire_exit_def)
    with st show ?thesis unfolding eq by (auto simp: breaker_inv_def onSuccess_def breaker_reset_def Let_def)
  next
    case False
    then have "snd (fire_exit r t ?b) = onFailure t ?b" by (rule fire_exit_failure)
    with st onFailure_tripped [of ?b t] onFailure_open_tripped [of ?b t] onFailure_closed [of ?b t]
    show ?thesis unfolding eq by (auto simp: breaker_inv_def)
  qed
qed

inductive breaker_calls :: "breaker \<Rightarrow> breaker \<Rightarrow> bool" for b0 :: breaker where
  calls_start: "breaker_calls b0 b0"
| calls_fire: "breaker_calls b0 b \<Longrightarrow> breaker_calls b0 (snd (fire now (r :: unit settled) t b))"

lemma breaker_calls_inv: "breaker_calls b0 b \<Longrightarrow> breaker_inv b0 \<Longrightarrow> breaker_inv b"
  by (induction rule: breaker_calls.induct) (simp_all add: fire_inv)

lemma new_breaker_inv: "breaker_inv (new_breaker tm th rt v)"
  by (simp add: breaker_inv_def new_breaker_def)

section \<open>Interleaved calls\<close>

text \<open>The halves of several calls in any order; \<open>n\<close> calls have entered and not settled.\<close>

datatype breaker_half = Enter int | Exit "unit settled" int

fun breaker_step :: "breaker_half \<Rightarrow> breaker \<times> nat \<Rightarrow> (breaker \<times> nat) option" where
  "breaker_step (Enter now) (b, n) =
     (case fire_enter now b of (Inl _, _) \<Rightarrow> None | (Inr _, b1) \<Rightarrow> Some (b1, Suc n))"
| "breaker_step (Exit r t) (b, n) = (if n = 0 then None else Some (snd (fire_exit r t b), n - 1))"

fun breaker_run :: "breaker_half list \<Rightarrow> breaker \<times> nat \<Rightarrow> (breaker \<times> nat) option" where
  "breaker_run [] s = Some s"
| "breaker_run (x # xs) s = (case breaker_step x s of None \<Rightarrow> None | Some s' \<Rightarrow> breaker_run xs s')"

section \<open>Properties\<close>

text \<open>
  Calls made one after the other leave the breaker either closed or open, never half-open:
  the probe that a half-open breaker lets through either closes it with both counters at zero, or
  fails and opens it again.
\<close>

theorem sequential_probe_decides:
  assumes "breaker_calls (new_breaker tm th rt v) b" and "cb_state b = Open"
    and "shouldAttemptReset now b"
  shows "cb_state (snd (fire now (Resolved (x :: 'a)) t b)) = Closed \<and>
      cb_failures (snd (fire now (Resolved x) t b)) = 0 \<and>
      cb_successes (snd (fire now (Resolved x) t b)) = 0 \<and>
      cb_state (snd (fire now (Rejected e :: 'a settled) t b)) = Open \<and>
      cb_state (snd (fire now (TimedOut :: 'a settled) t b)) = Open"
proof -
  let ?h = "transitionTo HalfOpen b"
  have "breaker_inv b"
    using assms(1) new_breaker_inv by (rule breaker_calls_inv)
  with assms(2) have trip: "tripped ?h"
    by (simp add: breaker_inv_def tripped_def)
  have enter: "fire_enter now b = (Inr (), ?h)"
    using assms(2,3) by (simp add: fire_enter_def)
  show ?thesis
    using onFailure_tripped(1) [OF trip]
    by (simp add: fire_def enter fire_exit_def onSuccess_def breaker_reset_def Let_def)
qed

definition opened_breaker :: breaker where
  "opened_breaker = snd (fire 7 (Rejected (Error ''down'') :: unit settled) 8
     (new_breaker 10000 50 30000 (Some 1)))"

theorem sequential_probe_decides_witness:
  "cb_state opened_breaker = Open \<and> shouldAttemptReset 30008 opened_breaker \<and>
   cb_state (snd (fire 30008 (Resolved ()) 30009 opened_breaker)) = Closed \<and>
   cb_state (snd (fire 30008 (TimedOut :: unit settled) 40009 opened_breaker)) = Open"
proof -
  have r: "breaker_calls (new_breaker 10000 50 30000 (Some 1)) opened_breaker"
    unfolding opened_breaker_def by (intro calls_fire calls_start)
  have o: "cb_state opened_breaker = Open" "shouldAttemptReset 30008 opened_breaker"
    by code_simp+
  show ?thesis
    using o sequential_probe_decides [OF r o, of "()" 30009 "Error ''x''"]
      sequential_probe_decides [OF r o, of "()" 40009 "Error ''x''"] by simp
qed

text \<open>
  With calls that overlap the shared breaker can stay half-open after its probe failed, so it
  keeps letting requests through to a failing RPC: late successes of calls that started before the
  circuit opened are counted while it is open and dilute the error rate.
\<close>

theorem overlapping_calls_keep_half_open:
  "case breaker_run
      (replicate 13 (Enter 1) @ replicate 5 (Exit (Rejected (Error ''down'')) 10) @
       replicate 8 (Exit (Resolved ()) 20) @
       [Enter 40000, Exit (Rejected (Error ''down'')) 40001]) (soroban_breaker, 0) of
     Some (b, n) \<Rightarrow> n = 0 \<and> cb_state b = HalfOpen \<and> fst (fire_enter 40002 b) = Inr ()
   | None \<Rightarrow> False"
  by code_simp

text \<open>\<open>k\<close> calls that time out, one after the other.\<close>

fun fail_times :: "nat \<Rightarrow> int \<Rightarrow> breaker \<Rightarrow> breaker" where
  "fail_times 0 t b = b"
| "fail_times (Suc k) t b = snd (fire t (TimedOut :: unit settled) t (fail_times k t b))"

lemma fail_times_closed:
  assumes "cb_state b = Closed" "cb_failures b = 0" "cb_successes b = s"
    "bo_errorThresholdPercentage (cb_options b) = 50" "k < s"
  shows "cb_state (fail_times k t b) = Closed \<and> cb_failures (fail_times k t b) = k \<and>
    cb_successes (fail_times k t b) = s \<and> cb_options (fail_times k t b) = cb_options b"
  using assms(5)
proof (induction k)
  case 0
  then show ?case using assms by simp
next
  case (Suc k)
  then have IH: "cb_state (fail_times k t b) = Closed" "cb_failures (fail_times k t b) = k"
    "cb_successes (fail_times k t b) = s" "cb_options (fail_times k t b) = cb_options b"
    by simp_all
  have "(of_nat (Suc k) :: rat) < of_nat s"
    using Suc.prems by (simp only: of_nat_less_iff)
  then have "\<not> 50 \<le> errorRate (Suc k) (Suc (k + s))"
    by (simp add: errorRate_def divide_simps)
  then show ?case
    using IH assms(4)
    by (auto simp: breaker_defs)
qed

text \<open>
  The error rate is over the whole life of the breaker since it last closed, not over a window:
  after \<open>s\<close> successes the shared breaker stays closed through any run of fewer than \<open>s\<close>
  failed calls, however recent and however dense.
\<close>

theorem lifetime_error_rate:
  assumes "cb_state b = Closed" "cb_failures b = 0" "cb_options b = cb_options soroban_breaker"
    and "k < cb_successes b"
  shows "cb_state (fail_times k t b) = Closed"
proof -
  have "bo_errorThresholdPercentage (cb_options b) = 50"
    by (simp add: assms(3) soroban_breaker_def breaker_on_def new_breaker_def)
  with fail_times_closed [OF assms(1,2) refl _ assms(4)] show ?thesis by blast
qed

theorem lifetime_error_rate_witness:
  "cb_state (fail_times 999 5 (soroban_breaker\<lparr>cb_successes := 1000\<rparr>)) = Closed"
  by (rule lifetime_error_rate) (simp_all add: soroban_breaker_def breaker_on_def new_breaker_def)

end
