(* ===== verification/Store.thy ===== *)
theory Store
  imports Prelude
begin

text \<open>
  The databases. Mongoose, Prisma and Postgres are not part of the repository, so a component that
  uses one takes its operations as an argument: a \<open>coll\<close>, with \<open>c_find\<close> for a query by
  a condition (\<open>find\<close>, \<open>findOne\<close>, \<open>SELECT ... WHERE\<close>), \<open>c_create\<close> for an
  insertion and \<open>c_update\<close> for a conditional update, which returns the number of documents it
  matched. The locale \<open>collection\<close> states what the code relies on: a query returns the
  documents that satisfy the condition in their natural order, an insertion appends the document or
  raises when a unique index forbids it, and an update changes the matching documents in place
  and, when none matches, nothing at all.
  \<open>list_coll\<close> is the collection as a list of documents, which the witnesses use.
\<close>

record ('d, 's) coll =
  c_find :: "('d \<Rightarrow> bool) \<Rightarrow> 's \<Rightarrow> 'd list"
  c_create :: "'d \<Rightarrow> 's \<Rightarrow> (js_error + unit) \<times> 's"
  c_update :: "('d \<Rightarrow> bool) \<Rightarrow> ('d \<Rightarrow> 'd) \<Rightarrow> 's \<Rightarrow> nat \<times> 's"

text \<open>\<open>findOne(P)\<close> and \<open>LIMIT 1\<close>: the first match, if any.\<close>

fun first_opt :: "'a list \<Rightarrow> 'a option" where
  "first_opt [] = None"
| "first_opt (x # xs) = Some x"

definition c_findOne :: "('d, 's) coll \<Rightarrow> ('d \<Rightarrow> bool) \<Rightarrow> 's \<Rightarrow> 'd option" where
  "c_findOne C P s = first_opt (c_find C P s)"

definition c_all :: "('d, 's) coll \<Rightarrow> 's \<Rightarrow> 'd list" where
  "c_all C s = c_find C (\<lambda>_. True) s"

definition list_coll :: "('d \<Rightarrow> 'd list \<Rightarrow> bool) \<Rightarrow> ('d, 'd list) coll" where
  "list_coll conflict =
     \<lparr>c_find = filter,
      c_create = (\<lambda>d s. if conflict d s then (Inl (Error ''duplicate key''), s) else (Inr (), s @ [d])),
      c_update = (\<lambda>P f s. (length (filter P s), map (\<lambda>d. if P d then f d else d) s))\<rparr>"

lemma first_opt_Some: "first_opt xs = Some x \<Longrightarrow> x \<in> set xs"
  by (cases xs) auto

lemma first_opt_None: "first_opt xs = None \<longleftrightarrow> xs = []"
  by (cases xs) auto

lemma first_opt_filter_Some: "first_opt (filter P xs) = Some x \<Longrightarrow> x \<in> set xs \<and> P x"
  using first_opt_Some [of "filter P xs" x] by simp

lemma first_opt_filter_None: "first_opt (filter P xs) = None \<longleftrightarrow> (\<forall>x\<in>set xs. \<not> P x)"
  by (simp add: first_opt_None filter_empty_conv)

lemma first_opt_filter_map:
  "(\<And>x. x \<in> set xs \<Longrightarrow> P (f x) = P x) \<Longrightarrow>
     first_opt (filter P (map f xs)) = map_option f (first_opt (filter P xs))"
  by (induction xs) auto

lemma first_opt_append: "first_opt (xs @ ys) = (case first_opt xs of None \<Rightarrow> first_opt ys | Some x \<Rightarrow> Some x)"
  by (cases xs) auto

text \<open>With a key that no two documents share, the first match for a key is the only one.\<close>

lemma first_opt_unique:
  "distinct (map k xs) \<Longrightarrow> x \<in> set xs \<Longrightarrow> first_opt (filter (\<lambda>y. k y = k x) xs) = Some x"
  by (induction xs) (auto simp: rev_image_eqI)

locale collection =
  fixes C :: "('d, 's) coll" and conflict :: "'d \<Rightarrow> 'd list \<Rightarrow> bool"
  assumes find_all: "c_find C P s = filter P (c_all C s)"
    and create_conflict: "conflict d (c_all C s) \<Longrightarrow> \<exists>e. c_create C d s = (Inl e, s)"
    and create_ok: "\<not> conflict d (c_all C s) \<Longrightarrow>
      \<exists>s'. c_create C d s = (Inr (), s') \<and> c_all C s' = c_all C s @ [d]"
    and update_all: "c_all C (snd (c_update C P f s)) = map (\<lambda>d. if P d then f d else d) (c_all C s)"
    and update_none: "(\<And>d. d \<in> set (c_all C s) \<Longrightarrow> \<not> P d) \<Longrightarrow> snd (c_update C P f s) = s"
    and update_count: "fst (c_update C P f s) = length (filter P (c_all C s))"
begin

lemma findOne_all: "c_findOne C P s = first_opt (filter P (c_all C s))"
  by (simp add: c_findOne_def find_all)

lemma findOne_Some: "c_findOne C P s = Some d \<Longrightarrow> d \<in> set (c_all C s) \<and> P d"
  unfolding findOne_all by (rule first_opt_filter_Some)

lemma findOne_None: "c_findOne C P s = None \<longleftrightarrow> (\<forall>d\<in>set (c_all C s). \<not> P d)"
  unfolding findOne_all by (rule first_opt_filter_None)

lemma create_cases:
  "(\<exists>e. c_create C d s = (Inl e, s)) \<or>
   (\<exists>s'. c_create C d s = (Inr (), s') \<and> c_all C s' = c_all C s @ [d] \<and> \<not> conflict d (c_all C s))"
  using create_conflict create_ok by blast

lemma create_result:
  "c_create C d s = (r, s') \<Longrightarrow>
     (\<exists>e. r = Inl e \<and> s' = s) \<or>
     (r = Inr () \<and> c_all C s' = c_all C s @ [d] \<and> \<not> conflict d (c_all C s))"
  using create_cases [of d s] by auto

lemma findOne_update_same:
  "(\<And>d. d \<in> set (c_all C s) \<Longrightarrow> P d \<Longrightarrow> Q (f d) = Q d) \<Longrightarrow>
     c_findOne C Q (snd (c_update C P f s)) =
       map_option (\<lambda>d. if P d then f d else d) (c_findOne C Q s)"
  by (simp add: findOne_all update_all first_opt_filter_map)

lemma findOne_append:
  "c_all C s' = c_all C s @ [d] \<Longrightarrow>
     c_findOne C Q s' = (case c_findOne C Q s of None \<Rightarrow> (if Q d then Some d else None) | Some x \<Rightarrow> Some x)"
  by (simp add: findOne_all first_opt_append split: option.split)

end

lemma list_coll_ops [simp]:
  "c_find (list_coll cf) = filter" "c_all (list_coll cf) s = s"
  "c_update (list_coll cf) P f s = (length (filter P s), map (\<lambda>d. if P d then f d else d) s)"
  by (simp_all add: list_coll_def c_all_def)

interpretation list_coll: collection "list_coll cf" cf
  by unfold_locales (auto simp: list_coll_def c_all_def intro: map_idI)

end
