(* ===== verification/TxRepo.thy ===== *)
theory TxRepo
  imports Store
begin

text \<open>
  Payout transactions (backend/src/types/payment.ts), the interface \<open>TransactionRepository\<close>
  (repositories/transactionRepository.ts) as a record of operations with its contract as the locale
  \<open>tx_repository\<close>, and the in-memory implementation
  (repositories/inMemoryTransactionRepository.ts), which interprets it.
\<close>

section \<open>Records\<close>

datatype payment_status =
  Built | Queued | AwaitingSignature | Submitted | Confirmed | Failed | Dead

datatype asset = XLM | USDC

text \<open>\<open>null\<close> and \<open>undefined\<close> fields are \<open>None\<close>.\<close>

record tx_record =
  tx_id :: string
  tx_payoutId :: string
  tx_idempotencyKey :: string
  tx_sourceAccount :: string
  tx_destinationAccount :: string
  tx_asset :: asset
  tx_amountStroops :: string
  tx_nonce :: nat
  tx_status :: payment_status
  tx_unsignedXdr :: string
  tx_signedXdr :: "string option"
  tx_txHash :: "string option"
  tx_errorMessage :: "string option"
  tx_attempts :: nat
  tx_createdAt :: int
  tx_updatedAt :: int
  tx_confirmedAt :: "int option"

text \<open>The fields that some call of \<open>update\<close> patches; \<open>None\<close> is a field left out.\<close>

record tx_patch =
  p_status :: "payment_status option"
  p_signedXdr :: "string option option"
  p_txHash :: "string option option"
  p_errorMessage :: "string option option"
  p_attempts :: "nat option"
  p_updatedAt :: "int option"
  p_confirmedAt :: "int option option"

definition empty_patch :: tx_patch where
  "empty_patch = \<lparr>p_status = None, p_signedXdr = None, p_txHash = None, p_errorMessage = None,
     p_attempts = None, p_updatedAt = None, p_confirmedAt = None\<rparr>"

fun patched :: "'a option \<Rightarrow> 'a \<Rightarrow> 'a" where
  "patched None old = old"
| "patched (Some new) old = new"

text \<open>\<open>{...current, ...patch}\<close>\<close>

definition apply_patch :: "tx_patch \<Rightarrow> tx_record \<Rightarrow> tx_record" where
  "apply_patch p t =
     t\<lparr>tx_status := patched (p_status p) (tx_status t),
       tx_signedXdr := patched (p_signedXdr p) (tx_signedXdr t),
       tx_txHash := patched (p_txHash p) (tx_txHash t),
       tx_errorMessage := patched (p_errorMessage p) (tx_errorMessage t),
       tx_attempts := patched (p_attempts p) (tx_attempts t),
       tx_updatedAt := patched (p_updatedAt p) (tx_updatedAt t),
       tx_confirmedAt := patched (p_confirmedAt p) (tx_confirmedAt t)\<rparr>"

lemma apply_patch_sel [simp]:
  "tx_id (apply_patch p t) = tx_id t" "tx_payoutId (apply_patch p t) = tx_payoutId t"
  "tx_idempotencyKey (apply_patch p t) = tx_idempotencyKey t"
  "tx_sourceAccount (apply_patch p t) = tx_sourceAccount t"
  "tx_destinationAccount (apply_patch p t) = tx_destinationAccount t"
  "tx_asset (apply_patch p t) = tx_asset t" "tx_amountStroops (apply_patch p t) = tx_amountStroops t"
  "tx_nonce (apply_patch p t) = tx_nonce t" "tx_unsignedXdr (apply_patch p t) = tx_unsignedXdr t"
  "tx_createdAt (apply_patch p t) = tx_createdAt t"
  "tx_status (apply_patch p t) = patched (p_status p) (tx_status t)"
  "tx_signedXdr (apply_patch p t) = patched (p_signedXdr p) (tx_signedXdr t)"
  "tx_txHash (apply_patch p t) = patched (p_txHash p) (tx_txHash t)"
  "tx_errorMessage (apply_patch p t) = patched (p_errorMessage p) (tx_errorMessage t)"
  "tx_attempts (apply_patch p t) = patched (p_attempts p) (tx_attempts t)"
  "tx_updatedAt (apply_patch p t) = patched (p_updatedAt p) (tx_updatedAt t)"
  "tx_confirmedAt (apply_patch p t) = patched (p_confirmedAt p) (tx_confirmedAt t)"
  by (simp_all add: apply_patch_def)

text \<open>
  The implementations differ in the time stamps they store: equality up to \<open>createdAt\<close> and
  \<open>updatedAt\<close>.
\<close>

definition no_times :: "tx_record \<Rightarrow> tx_record" where
  "no_times t = t\<lparr>tx_createdAt := 0, tx_updatedAt := 0\<rparr>"

lemma no_times_sel [simp]:
  "tx_id (no_times t) = tx_id t" "tx_payoutId (no_times t) = tx_payoutId t"
  "tx_idempotencyKey (no_times t) = tx_idempotencyKey t"
  "tx_sourceAccount (no_times t) = tx_sourceAccount t"
  "tx_destinationAccount (no_times t) = tx_destinationAccount t"
  "tx_asset (no_times t) = tx_asset t" "tx_amountStroops (no_times t) = tx_amountStroops t"
  "tx_nonce (no_times t) = tx_nonce t" "tx_unsignedXdr (no_times t) = tx_unsignedXdr t"
  "tx_status (no_times t) = tx_status t" "tx_signedXdr (no_times t) = tx_signedXdr t"
  "tx_txHash (no_times t) = tx_txHash t" "tx_errorMessage (no_times t) = tx_errorMessage t"
  "tx_attempts (no_times t) = tx_attempts t" "tx_confirmedAt (no_times t) = tx_confirmedAt t"
  by (simp_all add: no_times_def)

lemma no_times_eqD:
  assumes "no_times t = no_times u"
  shows "tx_id t = tx_id u" "tx_status t = tx_status u" "tx_idempotencyKey t = tx_idempotencyKey u"
    "tx_payoutId t = tx_payoutId u" "tx_sourceAccount t = tx_sourceAccount u"
    "tx_destinationAccount t = tx_destinationAccount u" "tx_asset t = tx_asset u"
    "tx_amountStroops t = tx_amountStroops u" "tx_nonce t = tx_nonce u"
    "tx_signedXdr t = tx_signedXdr u" "tx_txHash t = tx_txHash u" "tx_attempts t = tx_attempts u"
    "tx_errorMessage t = tx_errorMessage u" "tx_confirmedAt t = tx_confirmedAt u"
    "tx_unsignedXdr t = tx_unsignedXdr u"
  using assms by (metis no_times_sel)+

section \<open>The interface\<close>

text \<open>\<open>insert\<close> and \<open>update\<close> take the time at which the store runs them.\<close>

record 's tx_repo =
  repo_findByIdempotencyKey :: "string \<Rightarrow> 's \<Rightarrow> tx_record option"
  repo_findById :: "string \<Rightarrow> 's \<Rightarrow> tx_record option"
  repo_reserveNextNonce :: "string \<Rightarrow> 's \<Rightarrow> nat \<times> 's"
  repo_insert :: "tx_record \<Rightarrow> int \<Rightarrow> 's \<Rightarrow> (js_error + unit) \<times> 's"
  repo_update :: "string \<Rightarrow> tx_patch \<Rightarrow> int \<Rightarrow> 's \<Rightarrow> (js_error + tx_record) \<times> 's"
  repo_listByStatus :: "payment_status list \<Rightarrow> int \<Rightarrow> 's \<Rightarrow> tx_record list"

definition not_found :: "string \<Rightarrow> js_error" where
  "not_found i = Error (''Transaction '' @ i @ '' not found'')"

text \<open>
  The contract. \<open>storable\<close> says which statuses the store accepts: the in-memory store
  accepts all, the schemas of the two databases do not.
\<close>

locale tx_repository =
  fixes R :: "'s tx_repo" and inv :: "'s \<Rightarrow> bool" and storable :: "payment_status \<Rightarrow> bool"
  assumes find_id: "inv s \<Longrightarrow> repo_findById R i s = Some t \<Longrightarrow> tx_id t = i"
    and find_key: "inv s \<Longrightarrow> repo_findByIdempotencyKey R k s = Some t \<Longrightarrow>
      tx_idempotencyKey t = k \<and> repo_findById R (tx_id t) s = Some t"
    and key_of_id: "inv s \<Longrightarrow> repo_findById R i s = Some t \<Longrightarrow>
      repo_findByIdempotencyKey R (tx_idempotencyKey t) s = Some t"
    and nonce_frame: "inv s \<Longrightarrow> repo_reserveNextNonce R a s = (n, s') \<Longrightarrow>
      inv s' \<and> 0 < n \<and> repo_findById R i s' = repo_findById R i s \<and>
      repo_findByIdempotencyKey R k s' = repo_findByIdempotencyKey R k s"
    and insert_error: "inv s \<Longrightarrow> repo_insert R t now s = (Inl e, s') \<Longrightarrow> s' = s"
    and insert_ok: "inv s \<Longrightarrow> tx_id t \<noteq> [] \<Longrightarrow> repo_findById R (tx_id t) s = None \<Longrightarrow>
      repo_findByIdempotencyKey R (tx_idempotencyKey t) s = None \<Longrightarrow>
      repo_insert R t now s = (Inr (), s') \<Longrightarrow>
      inv s' \<and> (\<exists>t'. no_times t' = no_times t \<and>
        (\<forall>i. repo_findById R i s' = (if i = tx_id t then Some t' else repo_findById R i s)))"
    and update_missing: "inv s \<Longrightarrow> repo_findById R i s = None \<Longrightarrow>
      \<exists>e. repo_update R i p now s = (Inl e, s)"
    and update_refused: "inv s \<Longrightarrow> p_status p = Some st \<Longrightarrow> \<not> storable st \<Longrightarrow>
      \<exists>e. repo_update R i p now s = (Inl e, s)"
    and update_found: "inv s \<Longrightarrow> repo_findById R i s = Some t \<Longrightarrow>
      (\<And>st. p_status p = Some st \<Longrightarrow> storable st) \<Longrightarrow>
      \<exists>t' s'. repo_update R i p now s = (Inr t', s') \<and> inv s' \<and>
        no_times t' = no_times (apply_patch p t) \<and> tx_createdAt t' = tx_createdAt t \<and>
        (\<forall>j. repo_findById R j s' = (if j = i then Some t' else repo_findById R j s))"
    and list_sound: "inv s \<Longrightarrow> t \<in> set (repo_listByStatus R sts limit s) \<Longrightarrow>
      tx_status t \<in> set sts \<and> repo_findById R (tx_id t) s = Some t"
    and list_distinct: "inv s \<Longrightarrow> distinct (map tx_id (repo_listByStatus R sts limit s))"
    and list_bound: "inv s \<Longrightarrow> 0 \<le> limit \<Longrightarrow> int (length (repo_listByStatus R sts limit s)) \<le> limit"
    and list_sorted: "inv s \<Longrightarrow> sorted (map tx_createdAt (repo_listByStatus R sts limit s))"
    and list_complete: "inv s \<Longrightarrow> repo_findById R i s = Some t \<Longrightarrow> tx_status t \<in> set sts \<Longrightarrow>
      int (length (repo_listByStatus R sts limit s)) < limit \<Longrightarrow>
      t \<in> set (repo_listByStatus R sts limit s)"
begin

lemma update_result:
  assumes "inv s" and "repo_update R i p now s = (r, s')"
  shows "(\<exists>e. r = Inl e \<and> s' = s) \<or>
    (\<exists>t t'. r = Inr t' \<and> repo_findById R i s = Some t \<and> inv s' \<and>
      no_times t' = no_times (apply_patch p t) \<and>
      (\<forall>j. repo_findById R j s' = (if j = i then Some t' else repo_findById R j s)))"
proof (cases "repo_findById R i s")
  case None
  with assms update_missing [of s i p now] show ?thesis by auto
next
  case (Some t)
  show ?thesis
  proof (cases "\<exists>st. p_status p = Some st \<and> \<not> storable st")
    case True
    with assms update_refused [of s p _ i now] show ?thesis by auto
  next
    case False
    with assms Some update_found [of s i t p now] show ?thesis by auto
  qed
qed

lemma update_inv: "inv s \<Longrightarrow> inv (snd (repo_update R i p now s))"
  using update_result [of s i p now "fst (repo_update R i p now s)" "snd (repo_update R i p now s)"]
  by auto

text \<open>
  What every operation of the payment service and the workers can do to the store, seen from one
  record: leave it, or change it by a patch, which keeps all that identifies the payout.
\<close>

lemma update_other: "inv s \<Longrightarrow> j \<noteq> i \<Longrightarrow>
    repo_findById R j (snd (repo_update R i p now s)) = repo_findById R j s"
  using update_result [of s i p now "fst (repo_update R i p now s)" "snd (repo_update R i p now s)"]
  by auto

lemma update_self: "inv s \<Longrightarrow> repo_findById R i s = Some t \<Longrightarrow>
    \<exists>t'. repo_findById R i (snd (repo_update R i p now s)) = Some t' \<and>
      (t' = t \<or> no_times t' = no_times (apply_patch p t))"
  using update_result [of s i p now "fst (repo_update R i p now s)" "snd (repo_update R i p now s)"]
  by auto

lemma update_none: "inv s \<Longrightarrow> repo_findById R i s = None \<Longrightarrow>
    repo_findById R j (snd (repo_update R i p now s)) = repo_findById R j s"
  using update_missing [of s i p now] by auto

end

section \<open>The in-memory repository\<close>

record mem_repo =
  mr_records :: "(string \<times> tx_record) list"
  mr_idempotencyMap :: "(string \<times> string) list"
  mr_nonceBySource :: "(string \<times> nat) list"

definition mem_empty :: mem_repo where
  "mem_empty = \<lparr>mr_records = [], mr_idempotencyMap = [], mr_nonceBySource = []\<rparr>"

definition mem_findByIdempotencyKey :: "string \<Rightarrow> mem_repo \<Rightarrow> tx_record option" where
  "mem_findByIdempotencyKey k s =
     (case map_of (mr_idempotencyMap s) k of
        None \<Rightarrow> None
      | Some i \<Rightarrow> if i = [] then None else map_of (mr_records s) i)"

definition mem_findById :: "string \<Rightarrow> mem_repo \<Rightarrow> tx_record option" where
  "mem_findById i s = map_of (mr_records s) i"

definition mem_reserveNextNonce :: "string \<Rightarrow> mem_repo \<Rightarrow> nat \<times> mem_repo" where
  "mem_reserveNextNonce a s =
     (let current = (case map_of (mr_nonceBySource s) a of None \<Rightarrow> 0 | Some n \<Rightarrow> n);
          next = current + 1
      in (next, s\<lparr>mr_nonceBySource := AList.update a next (mr_nonceBySource s)\<rparr>))"

definition mem_insert :: "tx_record \<Rightarrow> int \<Rightarrow> mem_repo \<Rightarrow> (js_error + unit) \<times> mem_repo" where
  "mem_insert t now s =
     (Inr (), s\<lparr>mr_records := AList.update (tx_id t) t (mr_records s),
               mr_idempotencyMap := AList.update (tx_idempotencyKey t) (tx_id t) (mr_idempotencyMap s)\<rparr>)"

definition mem_update :: "string \<Rightarrow> tx_patch \<Rightarrow> int \<Rightarrow> mem_repo \<Rightarrow> (js_error + tx_record) \<times> mem_repo" where
  "mem_update i p now s =
     (case map_of (mr_records s) i of
        None \<Rightarrow> (Inl (not_found i), s)
      | Some current \<Rightarrow>
          let updated = (apply_patch p current)\<lparr>tx_updatedAt :=
                (case p_updatedAt p of None \<Rightarrow> now | Some u \<Rightarrow> u)\<rparr>
          in (Inr updated, s\<lparr>mr_records := AList.update i updated (mr_records s)\<rparr>))"

definition mem_listByStatus :: "payment_status list \<Rightarrow> int \<Rightarrow> mem_repo \<Rightarrow> tx_record list" where
  "mem_listByStatus sts limit s =
     (let rows = sort_key tx_createdAt
            (filter (\<lambda>r. tx_status r \<in> set sts) (map snd (mr_records s)))
      in js_slice0 limit rows)"

definition mem_tx_repo :: "mem_repo tx_repo" where
  "mem_tx_repo = \<lparr>repo_findByIdempotencyKey = mem_findByIdempotencyKey,
     repo_findById = mem_findById, repo_reserveNextNonce = mem_reserveNextNonce,
     repo_insert = mem_insert, repo_update = mem_update, repo_listByStatus = mem_listByStatus\<rparr>"

definition mem_inv :: "mem_repo \<Rightarrow> bool" where
  "mem_inv s \<longleftrightarrow>
     distinct (map fst (mr_records s)) \<and>
     (\<forall>i t. map_of (mr_records s) i = Some t \<longrightarrow>
        i \<noteq> [] \<and> tx_id t = i \<and> map_of (mr_idempotencyMap s) (tx_idempotencyKey t) = Some i) \<and>
     (\<forall>k i. map_of (mr_idempotencyMap s) k = Some i \<longrightarrow>
        (\<exists>t. map_of (mr_records s) i = Some t \<and> tx_idempotencyKey t = k))"

lemma mem_tx_repo_ops [simp]:
  "repo_findByIdempotencyKey mem_tx_repo = mem_findByIdempotencyKey"
  "repo_findById mem_tx_repo = mem_findById"
  "repo_reserveNextNonce mem_tx_repo = mem_reserveNextNonce"
  "repo_insert mem_tx_repo = mem_insert" "repo_update mem_tx_repo = mem_update"
  "repo_listByStatus mem_tx_repo = mem_listByStatus"
  by (simp_all add: mem_tx_repo_def)

lemma mem_empty_inv: "mem_inv mem_empty"
  by (simp add: mem_inv_def mem_empty_def)

declare map_of_eq_Some_iff [simp del]

lemma mem_invI:
  assumes "distinct (map fst (mr_records s))"
    and "\<And>i t. map_of (mr_records s) i = Some t \<Longrightarrow>
      i \<noteq> [] \<and> tx_id t = i \<and> map_of (mr_idempotencyMap s) (tx_idempotencyKey t) = Some i"
    and "\<And>k i. map_of (mr_idempotencyMap s) k = Some i \<Longrightarrow>
      \<exists>t. map_of (mr_records s) i = Some t \<and> tx_idempotencyKey t = k"
  shows "mem_inv s"
  using assms by (auto simp: mem_inv_def)

lemma mem_invD:
  assumes "mem_inv s"
  shows "distinct (map fst (mr_records s))"
    and "map_of (mr_records s) i = Some t \<Longrightarrow>
      i \<noteq> [] \<and> tx_id t = i \<and> map_of (mr_idempotencyMap s) (tx_idempotencyKey t) = Some i"
    and "map_of (mr_idempotencyMap s) k = Some i \<Longrightarrow>
      \<exists>t. map_of (mr_records s) i = Some t \<and> tx_idempotencyKey t = k"
  using assms by (auto simp: mem_inv_def)

lemma mem_update_inv:
  assumes "mem_inv s" and "map_of (mr_records s) i = Some t"
    and "tx_id u = i" and "tx_idempotencyKey u = tx_idempotencyKey t"
  shows "mem_inv (s\<lparr>mr_records := AList.update i u (mr_records s)\<rparr>)"
proof (rule mem_invI, goal_cases)
  case 1
  show ?case using mem_invD(1) [OF assms(1)] by (simp add: distinct_update)
next
  case (2 j v)
  then show ?case using mem_invD(2) [OF assms(1)] assms(2-4) by (auto split: if_splits)
next
  case (3 k j)
  then show ?case using mem_invD(3) [OF assms(1), of k j] assms(2-4) by auto
qed

lemma mem_insert_inv:
  assumes "mem_inv s" and "map_of (mr_records s) (tx_id t) = None" and "tx_id t \<noteq> []"
    and "mem_findByIdempotencyKey (tx_idempotencyKey t) s = None"
  shows "mem_inv (snd (mem_insert t now s))"
proof -
  have fresh: "map_of (mr_idempotencyMap s) (tx_idempotencyKey t) = None"
  proof (cases "map_of (mr_idempotencyMap s) (tx_idempotencyKey t)")
    case (Some i)
    with mem_invD(3) [OF assms(1) Some] mem_invD(2) [OF assms(1), of i] assms(4) show ?thesis
      by (auto simp: mem_findByIdempotencyKey_def split: if_splits)
  qed
  show ?thesis
  proof (rule mem_invI, goal_cases)
    case 1
    show ?case using mem_invD(1) [OF assms(1)] by (simp add: mem_insert_def distinct_update)
  next
    case (2 j v)
    then show ?case using mem_invD(2) [OF assms(1), of j v] assms(3) fresh
      by (auto simp: mem_insert_def split: if_splits)
  next
    case (3 k j)
    then show ?case using mem_invD(3) [OF assms(1), of k j] assms(2)
      by (auto simp: mem_insert_def split: if_splits)
  qed
qed

lemma mem_rows: "mem_inv s \<Longrightarrow> t \<in> snd ` set (mr_records s) \<longleftrightarrow> map_of (mr_records s) (tx_id t) = Some t"
  by (subst values_iff) (auto simp: mem_inv_def)

lemma mem_ids: "mem_inv s \<Longrightarrow> map (\<lambda>r. tx_id (snd r)) (mr_records s) = map fst (mr_records s)"
proof (rule map_cong)
  fix r
  assume "mem_inv s" and "r \<in> set (mr_records s)"
  then have "map_of (mr_records s) (fst r) = Some (snd r)"
    using mem_invD(1) [of s] by (simp add: map_of_eq_Some_iff)
  then show "tx_id (snd r) = fst r" using mem_invD(2) [OF \<open>mem_inv s\<close>] by simp
qed simp

lemma mem_list_set:
  "set (mem_listByStatus sts limit s) \<subseteq> {t \<in> snd ` set (mr_records s). tx_status t \<in> set sts}"
  using set_js_slice0 by (fastforce simp: mem_listByStatus_def Let_def)

lemma mem_list_distinct:
  assumes "mem_inv s"
  shows "distinct (map tx_id (mem_listByStatus sts limit s))"
proof -
  let ?rows = "filter (\<lambda>r. tx_status r \<in> set sts) (map snd (mr_records s))"
  have "distinct (map tx_id (map snd (mr_records s)))"
    using mem_ids [OF assms] mem_invD(1) [OF assms] by (simp only: map_map o_def)
  then have "distinct (map tx_id ?rows)" by (rule distinct_map_filter)
  then have "distinct (map tx_id (sort_key tx_createdAt ?rows))"
    by (simp add: distinct_map)
  then show ?thesis
    by (simp add: mem_listByStatus_def js_slice0_def Let_def take_map [symmetric])
qed

lemma mem_list_complete:
  assumes "t \<in> snd ` set (mr_records s)" and "tx_status t \<in> set sts"
    and "int (length (mem_listByStatus sts limit s)) < limit"
  shows "t \<in> set (mem_listByStatus sts limit s)"
  using assms by (auto simp: mem_listByStatus_def Let_def js_slice0_def min_def split: if_splits)

interpretation mem: tx_repository mem_tx_repo mem_inv "\<lambda>_. True"
proof (unfold_locales, goal_cases)
  case (1 s i t)
  then show ?case using mem_invD(2) [of s i t] by (simp add: mem_findById_def)
next
  case (2 s k t)
  then show ?case using mem_invD(3) [of s k] mem_invD(2) [of s]
    by (auto simp: mem_findById_def mem_findByIdempotencyKey_def split: option.splits if_splits)
next
  case (3 s i t)
  then show ?case using mem_invD(2) [of s i t]
    by (auto simp: mem_findById_def mem_findByIdempotencyKey_def)
next
  case (4 s a n s' i k)
  then have same: "mr_records s' = mr_records s" "mr_idempotencyMap s' = mr_idempotencyMap s" "0 < n"
    by (auto simp: mem_reserveNextNonce_def Let_def)
  have "mem_inv s'"
    using mem_invD [OF 4(1)] same by (intro mem_invI) simp_all
  then show ?case by (simp add: mem_findById_def mem_findByIdempotencyKey_def same split: option.split)
next
  case (5 s t now e s')
  then show ?case by (simp add: mem_insert_def)
next
  case (6 s t now s')
  then have "mem_inv s'"
    using mem_insert_inv [of s t now] by (simp add: mem_findById_def)
  with 6 show ?case by (auto simp: mem_insert_def mem_findById_def)
next
  case (7 s i p now)
  then show ?case by (simp add: mem_update_def mem_findById_def)
next
  case (8 s p st i now)
  then show ?case by simp
next
  case (9 s i t p now)
  let ?u = "(apply_patch p t)\<lparr>tx_updatedAt := (case p_updatedAt p of None \<Rightarrow> now | Some u \<Rightarrow> u)\<rparr>"
  have "mem_inv (s\<lparr>mr_records := AList.update i ?u (mr_records s)\<rparr>)"
    using 9 mem_invD(2) [of s i t]
    by (intro mem_update_inv [of s i t]) (auto simp: mem_findById_def)
  with 9 show ?case
    by (auto simp: mem_update_def mem_findById_def Let_def no_times_def)
next
  case (10 s t sts limit)
  then show ?case using mem_list_set [of sts limit s] mem_rows [of s t]
    by (auto simp: mem_findById_def)
next
  case (11 s sts limit)
  then show ?case using mem_list_distinct by simp
next
  case (12 s limit sts)
  then show ?case by (auto simp: mem_listByStatus_def Let_def js_slice0_def)
next
  case (13 s sts limit)
  then show ?case by (simp add: mem_listByStatus_def Let_def sorted_js_slice0)
next
  case (14 s i t sts limit)
  then show ?case
    using mem_list_complete [of t s sts limit] mem_rows [of s t] mem_invD(2) [of s i t]
    by (simp add: mem_findById_def)
qed

end
