(* ===== verification/TxStores.thy ===== *)
theory TxStores
  imports TxRepo
begin

text \<open>
  The two database implementations of \<open>TransactionRepository\<close>:
  backend/src/repositories/mongoTransactionRepository.ts with the schema of
  backend/src/db/models/transaction.model.ts, and
  backend/src/repositories/sqlTransactionRepository.ts with the table of backend/src/db
  (the migration that creates \<open>transactions\<close>). A document or row is a \<open>tx_record\<close>
  whose \<open>tx_id\<close> is \<open>_id\<close> or \<open>id\<close>; the collection is the parameter \<open>C\<close>.
  Both are shown to satisfy the contract \<open>tx_repository\<close> for every such collection, with the
  statuses their schemas list as the storable ones.
\<close>

section \<open>Schemas\<close>

text \<open>The \<open>enum\<close> of the Mongoose schema and the \<open>CHECK\<close> of the table.\<close>

definition schema_statuses :: "payment_status list" where
  "schema_statuses = [Built, Queued, AwaitingSignature, Submitted, Confirmed, Failed]"

definition sql_check_status :: "payment_status \<Rightarrow> bool" where
  "sql_check_status st \<longleftrightarrow> st \<in> {Built, Queued, AwaitingSignature, Submitted, Confirmed, Failed}"

definition mongo_conflict :: "tx_record \<Rightarrow> tx_record list \<Rightarrow> bool" where
  "mongo_conflict d ds \<longleftrightarrow>
     (\<exists>x\<in>set ds. tx_id x = tx_id d \<or> tx_idempotencyKey x = tx_idempotencyKey d)"

definition sql_conflict :: "tx_record \<Rightarrow> tx_record list \<Rightarrow> bool" where
  "sql_conflict d ds \<longleftrightarrow>
     (\<exists>x\<in>set ds. tx_id x = tx_id d \<or> tx_idempotencyKey x = tx_idempotencyKey d \<or>
        (tx_sourceAccount x = tx_sourceAccount d \<and> tx_nonce x = tx_nonce d))"

section \<open>Mongo\<close>

definition docToRecord :: "tx_record \<Rightarrow> tx_record" where
  "docToRecord d =
     \<lparr>tx_id = tx_id d, tx_payoutId = tx_payoutId d, tx_idempotencyKey = tx_idempotencyKey d,
      tx_sourceAccount = tx_sourceAccount d, tx_destinationAccount = tx_destinationAccount d,
      tx_asset = tx_asset d, tx_amountStroops = tx_amountStroops d, tx_nonce = tx_nonce d,
      tx_status = tx_status d, tx_unsignedXdr = tx_unsignedXdr d, tx_signedXdr = tx_signedXdr d,
      tx_txHash = tx_txHash d, tx_errorMessage = tx_errorMessage d, tx_attempts = tx_attempts d,
      tx_createdAt = tx_createdAt d, tx_updatedAt = tx_updatedAt d, tx_confirmedAt = tx_confirmedAt d\<rparr>"

definition mongo_findByIdempotencyKey ::
    "(tx_record, 's) coll \<Rightarrow> string \<Rightarrow> 's \<Rightarrow> tx_record option" where
  "mongo_findByIdempotencyKey C k s =
     map_option docToRecord (c_findOne C (\<lambda>d. tx_idempotencyKey d = k) s)"

definition mongo_findById :: "(tx_record, 's) coll \<Rightarrow> string \<Rightarrow> 's \<Rightarrow> tx_record option" where
  "mongo_findById C i s = map_option docToRecord (c_findOne C (\<lambda>d. tx_id d = i) s)"

definition mongo_reserveNextNonce :: "(tx_record, 's) coll \<Rightarrow> string \<Rightarrow> 's \<Rightarrow> nat \<times> 's" where
  "mongo_reserveNextNonce C a s =
     (let doc = first_opt (sort_key (\<lambda>d. - int (tx_nonce d)) (c_find C (\<lambda>d. tx_sourceAccount d = a) s))
      in ((case doc of None \<Rightarrow> 0 | Some d \<Rightarrow> tx_nonce d) + 1, s))"

text \<open>\<open>timestamps: true\<close> sets both time stamps at creation and \<open>updatedAt\<close> at each update.\<close>

definition mongo_insert ::
    "(tx_record, 's) coll \<Rightarrow> tx_record \<Rightarrow> int \<Rightarrow> 's \<Rightarrow> (js_error + unit) \<times> 's" where
  "mongo_insert C t now s =
     (if tx_status t \<in> set schema_statuses
      then c_create C (t\<lparr>tx_createdAt := now, tx_updatedAt := now\<rparr>) s
      else (Inl (Error ''Transaction validation failed''), s))"

text \<open>\<open>runValidators: true\<close> checks the patched paths before the update is sent.\<close>

definition mongo_update ::
    "(tx_record, 's) coll \<Rightarrow> string \<Rightarrow> tx_patch \<Rightarrow> int \<Rightarrow> 's \<Rightarrow> (js_error + tx_record) \<times> 's" where
  "mongo_update C i p now s =
     (if (case p_status p of None \<Rightarrow> False | Some st \<Rightarrow> st \<notin> set schema_statuses)
      then (Inl (Error ''Validation failed''), s)
      else
        let s' = snd (c_update C (\<lambda>d. tx_id d = i) (\<lambda>d. (apply_patch p d)\<lparr>tx_updatedAt := now\<rparr>) s)
        in (case c_findOne C (\<lambda>d. tx_id d = i) s' of
              None \<Rightarrow> (Inl (not_found i), s')
            | Some doc \<Rightarrow> (Inr (docToRecord doc), s')))"

definition mongo_listByStatus ::
    "(tx_record, 's) coll \<Rightarrow> payment_status list \<Rightarrow> int \<Rightarrow> 's \<Rightarrow> tx_record list" where
  "mongo_listByStatus C sts limit s =
     (if sts = [] \<or> limit \<le> 0 then []
      else map docToRecord
        (take (nat limit) (sort_key tx_createdAt (c_find C (\<lambda>d. tx_status d \<in> set sts) s))))"

definition mongo_tx_repo :: "(tx_record, 's) coll \<Rightarrow> 's tx_repo" where
  "mongo_tx_repo C = \<lparr>repo_findByIdempotencyKey = mongo_findByIdempotencyKey C,
     repo_findById = mongo_findById C, repo_reserveNextNonce = mongo_reserveNextNonce C,
     repo_insert = mongo_insert C, repo_update = mongo_update C,
     repo_listByStatus = mongo_listByStatus C\<rparr>"

section \<open>SQL\<close>

definition mapRow :: "tx_record \<Rightarrow> tx_record" where
  "mapRow row =
     \<lparr>tx_id = tx_id row, tx_payoutId = tx_payoutId row, tx_idempotencyKey = tx_idempotencyKey row,
      tx_sourceAccount = tx_sourceAccount row, tx_destinationAccount = tx_destinationAccount row,
      tx_asset = tx_asset row, tx_amountStroops = tx_amountStroops row, tx_nonce = tx_nonce row,
      tx_status = tx_status row, tx_unsignedXdr = tx_unsignedXdr row, tx_signedXdr = tx_signedXdr row,
      tx_txHash = tx_txHash row, tx_errorMessage = tx_errorMessage row, tx_attempts = tx_attempts row,
      tx_createdAt = tx_createdAt row, tx_updatedAt = tx_updatedAt row,
      tx_confirmedAt = tx_confirmedAt row\<rparr>"

definition sql_findByIdempotencyKey ::
    "(tx_record, 's) coll \<Rightarrow> string \<Rightarrow> 's \<Rightarrow> tx_record option" where
  "sql_findByIdempotencyKey C k s =
     (case c_findOne C (\<lambda>r. tx_idempotencyKey r = k) s of None \<Rightarrow> None | Some row \<Rightarrow> Some (mapRow row))"

definition sql_findById :: "(tx_record, 's) coll \<Rightarrow> string \<Rightarrow> 's \<Rightarrow> tx_record option" where
  "sql_findById C i s =
     (case c_findOne C (\<lambda>r. tx_id r = i) s of None \<Rightarrow> None | Some row \<Rightarrow> Some (mapRow row))"

definition sql_reserveNextNonce :: "(tx_record, 's) coll \<Rightarrow> string \<Rightarrow> 's \<Rightarrow> nat \<times> 's" where
  "sql_reserveNextNonce C a s =
     (foldr max (map tx_nonce (c_find C (\<lambda>r. tx_sourceAccount r = a) s)) 0 + 1, s)"

definition sql_insert ::
    "(tx_record, 's) coll \<Rightarrow> tx_record \<Rightarrow> int \<Rightarrow> 's \<Rightarrow> (js_error + unit) \<times> 's" where
  "sql_insert C t now s =
     (if sql_check_status (tx_status t) then c_create C t s
      else (Inl (Error ''violates check constraint chk_transactions_status''), s))"

text \<open>The \<open>UPDATE\<close> statement: every column but \<open>id\<close> and \<open>created_at\<close>.\<close>

definition sql_set_columns :: "tx_record \<Rightarrow> tx_record \<Rightarrow> tx_record" where
  "sql_set_columns u row =
     row\<lparr>tx_payoutId := tx_payoutId u, tx_idempotencyKey := tx_idempotencyKey u,
         tx_sourceAccount := tx_sourceAccount u, tx_destinationAccount := tx_destinationAccount u,
         tx_asset := tx_asset u, tx_amountStroops := tx_amountStroops u, tx_nonce := tx_nonce u,
         tx_status := tx_status u, tx_unsignedXdr := tx_unsignedXdr u, tx_signedXdr := tx_signedXdr u,
         tx_txHash := tx_txHash u, tx_errorMessage := tx_errorMessage u, tx_attempts := tx_attempts u,
         tx_updatedAt := tx_updatedAt u, tx_confirmedAt := tx_confirmedAt u\<rparr>"

definition sql_update ::
    "(tx_record, 's) coll \<Rightarrow> string \<Rightarrow> tx_patch \<Rightarrow> int \<Rightarrow> 's \<Rightarrow> (js_error + tx_record) \<times> 's" where
  "sql_update C i p now s =
     (case sql_findById C i s of
        None \<Rightarrow> (Inl (not_found i), s)
      | Some current \<Rightarrow>
          let updated = (apply_patch p current)\<lparr>tx_updatedAt := now\<rparr> in
          if sql_check_status (tx_status updated)
          then (Inr updated, snd (c_update C (\<lambda>r. tx_id r = i) (sql_set_columns updated) s))
          else (Inl (Error ''violates check constraint chk_transactions_status''), s))"

definition sql_listByStatus ::
    "(tx_record, 's) coll \<Rightarrow> payment_status list \<Rightarrow> int \<Rightarrow> 's \<Rightarrow> tx_record list" where
  "sql_listByStatus C sts limit s =
     (if sts = [] \<or> limit \<le> 0 then []
      else map mapRow
        (take (nat limit) (sort_key tx_createdAt (c_find C (\<lambda>r. tx_status r \<in> set sts) s))))"

definition sql_tx_repo :: "(tx_record, 's) coll \<Rightarrow> 's tx_repo" where
  "sql_tx_repo C = \<lparr>repo_findByIdempotencyKey = sql_findByIdempotencyKey C,
     repo_findById = sql_findById C, repo_reserveNextNonce = sql_reserveNextNonce C,
     repo_insert = sql_insert C, repo_update = sql_update C,
     repo_listByStatus = sql_listByStatus C\<rparr>"

lemma docToRecord_id [simp]: "docToRecord = id"
  by (rule ext) (simp add: docToRecord_def)

lemma mapRow_id [simp]: "mapRow = id"
  by (rule ext) (simp add: mapRow_def)

lemma repo_ops [simp]:
  "repo_findByIdempotencyKey (mongo_tx_repo C) = mongo_findByIdempotencyKey C"
  "repo_findById (mongo_tx_repo C) = mongo_findById C"
  "repo_reserveNextNonce (mongo_tx_repo C) = mongo_reserveNextNonce C"
  "repo_insert (mongo_tx_repo C) = mongo_insert C" "repo_update (mongo_tx_repo C) = mongo_update C"
  "repo_listByStatus (mongo_tx_repo C) = mongo_listByStatus C"
  "repo_findByIdempotencyKey (sql_tx_repo C) = sql_findByIdempotencyKey C"
  "repo_findById (sql_tx_repo C) = sql_findById C"
  "repo_reserveNextNonce (sql_tx_repo C) = sql_reserveNextNonce C"
  "repo_insert (sql_tx_repo C) = sql_insert C" "repo_update (sql_tx_repo C) = sql_update C"
  "repo_listByStatus (sql_tx_repo C) = sql_listByStatus C"
  by (simp_all add: mongo_tx_repo_def sql_tx_repo_def)

lemma find_rows:
  "mongo_findById C i s = c_findOne C (\<lambda>d. tx_id d = i) s"
  "sql_findById C i s = c_findOne C (\<lambda>d. tx_id d = i) s"
  "mongo_findByIdempotencyKey C k s = c_findOne C (\<lambda>d. tx_idempotencyKey d = k) s"
  "sql_findByIdempotencyKey C k s = c_findOne C (\<lambda>d. tx_idempotencyKey d = k) s"
  by (simp_all add: mongo_findById_def sql_findById_def mongo_findByIdempotencyKey_def
      sql_findByIdempotencyKey_def option.map_id split: option.split)

section \<open>A collection of transactions\<close>

definition tx_rows_inv :: "tx_record list \<Rightarrow> bool" where
  "tx_rows_inv ds \<longleftrightarrow> distinct (map tx_id ds) \<and> distinct (map tx_idempotencyKey ds)"

definition tx_coll_inv :: "(tx_record, 's) coll \<Rightarrow> 's \<Rightarrow> bool" where
  "tx_coll_inv C s \<longleftrightarrow> tx_rows_inv (c_all C s) \<and> (\<forall>d\<in>set (c_all C s). tx_status d \<noteq> Dead)"

lemma storable_iff:
  "st \<in> set schema_statuses \<longleftrightarrow> st \<noteq> Dead" "sql_check_status st \<longleftrightarrow> st \<noteq> Dead"
  by (cases st; simp add: schema_statuses_def sql_check_status_def)+

locale tx_collection = collection C conflict
  for C :: "(tx_record, 's) coll" and conflict +
  assumes conflict_id: "x \<in> set ds \<Longrightarrow> tx_id x = tx_id d \<Longrightarrow> conflict d ds"
    and conflict_key: "x \<in> set ds \<Longrightarrow> tx_idempotencyKey x = tx_idempotencyKey d \<Longrightarrow> conflict d ds"
begin

lemma find_id_iff:
  assumes "tx_coll_inv C s"
  shows "c_findOne C (\<lambda>d. tx_id d = i) s = Some t \<longleftrightarrow> t \<in> set (c_all C s) \<and> tx_id t = i"
  using assms first_opt_unique [of tx_id "c_all C s" t]
  by (auto simp: findOne_all tx_coll_inv_def tx_rows_inv_def dest: first_opt_filter_Some)

lemma find_key_iff:
  assumes "tx_coll_inv C s"
  shows "c_findOne C (\<lambda>d. tx_idempotencyKey d = k) s = Some t \<longleftrightarrow>
    t \<in> set (c_all C s) \<and> tx_idempotencyKey t = k"
  using assms first_opt_unique [of tx_idempotencyKey "c_all C s" t]
  by (auto simp: findOne_all tx_coll_inv_def tx_rows_inv_def dest: first_opt_filter_Some)

lemma create_inv:
  assumes "tx_coll_inv C s" and "c_create C d s = (Inr (), s')" and "tx_status d \<noteq> Dead"
  shows "tx_coll_inv C s'"
    and "c_findOne C (\<lambda>x. tx_id x = i) s' =
      (if i = tx_id d then Some d else c_findOne C (\<lambda>x. tx_id x = i) s)"
proof -
  have app: "c_all C s' = c_all C s @ [d]" and nc: "\<not> conflict d (c_all C s)"
    using create_result [OF assms(2)] by auto
  then have fresh: "tx_id d \<notin> tx_id ` set (c_all C s)"
    "tx_idempotencyKey d \<notin> tx_idempotencyKey ` set (c_all C s)"
    using conflict_id [of _ "c_all C s" d] conflict_key [of _ "c_all C s" d] by force+
  then show "tx_coll_inv C s'"
    using assms(1,3) by (auto simp: tx_coll_inv_def tx_rows_inv_def app)
  have "c_findOne C (\<lambda>x. tx_id x = tx_id d) s = None"
    using fresh(1) by (auto simp: findOne_None rev_image_eqI)
  then show "c_findOne C (\<lambda>x. tx_id x = i) s' =
      (if i = tx_id d then Some d else c_findOne C (\<lambda>x. tx_id x = i) s)"
    by (auto simp: findOne_append [OF app] split: option.split)
qed

lemma update_rows:
  assumes "tx_coll_inv C s"
    and "\<And>d. d \<in> set (c_all C s) \<Longrightarrow> tx_id d = i \<Longrightarrow>
      tx_id (f d) = i \<and> tx_idempotencyKey (f d) = tx_idempotencyKey d"
    and "\<And>d. d \<in> set (c_all C s) \<Longrightarrow> tx_id d = i \<Longrightarrow> tx_status (f d) \<noteq> Dead"
  shows "tx_coll_inv C (snd (c_update C (\<lambda>d. tx_id d = i) f s))"
    and "c_findOne C (\<lambda>d. tx_id d = j) (snd (c_update C (\<lambda>d. tx_id d = i) f s)) =
      map_option (\<lambda>d. if j = i then f d else d) (c_findOne C (\<lambda>d. tx_id d = j) s)"
proof -
  let ?g = "\<lambda>d. if tx_id d = i then f d else d"
  have "map tx_id (map ?g (c_all C s)) = map tx_id (c_all C s)"
    "map tx_idempotencyKey (map ?g (c_all C s)) = map tx_idempotencyKey (c_all C s)"
    using assms(2) by (auto simp: comp_def)
  then show "tx_coll_inv C (snd (c_update C (\<lambda>d. tx_id d = i) f s))"
    using assms(1,3) by (auto simp: tx_coll_inv_def tx_rows_inv_def update_all simp del: map_map)
  show "c_findOne C (\<lambda>d. tx_id d = j) (snd (c_update C (\<lambda>d. tx_id d = i) f s)) =
      map_option (\<lambda>d. if j = i then f d else d) (c_findOne C (\<lambda>d. tx_id d = j) s)"
    using assms(2)
    by (subst findOne_update_same) (auto intro: map_option_cong dest: findOne_Some)
qed

lemma list_rows:
  assumes "tx_coll_inv C s" and "0 < limit"
    and "xs = take (nat limit) (sort_key tx_createdAt (c_find C (\<lambda>d. tx_status d \<in> set sts) s))"
  shows "distinct (map tx_id xs)" and "int (length xs) \<le> limit" and "sorted (map tx_createdAt xs)"
    and "t \<in> set xs \<Longrightarrow> tx_status t \<in> set sts \<and> t \<in> set (c_all C s)"
    and "t \<in> set (c_all C s) \<Longrightarrow> tx_status t \<in> set sts \<Longrightarrow> int (length xs) < limit \<Longrightarrow> t \<in> set xs"
proof -
  have "distinct (map tx_id (c_all C s))"
    using assms(1) by (simp add: tx_coll_inv_def tx_rows_inv_def)
  then have "distinct (map tx_id (filter (\<lambda>d. tx_status d \<in> set sts) (c_all C s)))"
    by (rule distinct_map_filter)
  then show "distinct (map tx_id xs)"
    by (simp add: assms(3) find_all distinct_map take_map [symmetric])
  show "int (length xs) \<le> limit" using assms(2,3) by simp
  show "sorted (map tx_createdAt xs)"
    by (simp add: assms(3) take_map [symmetric] sorted_wrt_take)
  show "t \<in> set xs \<Longrightarrow> tx_status t \<in> set sts \<and> t \<in> set (c_all C s)"
    using assms(3) by (auto simp: find_all dest: in_set_takeD)
  show "t \<in> set (c_all C s) \<Longrightarrow> tx_status t \<in> set sts \<Longrightarrow> int (length xs) < limit \<Longrightarrow> t \<in> set xs"
    using assms(2,3) by (auto simp: find_all min_def split: if_splits)
qed

end

lemma sort_key_first:
  assumes "first_opt (sort_key f xs) = Some x"
  shows "x \<in> set xs \<and> (\<forall>y\<in>set xs. f x \<le> f y)"
proof (cases "sort_key f xs")
  case (Cons y ys)
  have "sorted (map f (sort_key f xs))" by simp
  with Cons have "\<forall>z\<in>set ys. f y \<le> f z" by simp
  moreover have "set xs = insert y (set ys)"
    by (metis Cons list.simps(15) set_sort)
  ultimately show ?thesis using assms Cons by auto
qed (use assms in simp)

lemma le_foldr_max: "n \<in> set ns \<Longrightarrow> n \<le> foldr max ns (0 :: nat)"
  by (induction ns) auto

locale mongo_tx = tx_collection C mongo_conflict for C :: "(tx_record, 's) coll"

locale sql_tx = tx_collection C sql_conflict for C :: "(tx_record, 's) coll"

sublocale mongo_tx \<subseteq> repo: tx_repository "mongo_tx_repo C" "tx_coll_inv C" "\<lambda>st. st \<in> set schema_statuses"
proof (unfold_locales, goal_cases)
  case (1 s i t)
  then show ?case by (auto simp: mongo_findById_def find_id_iff)
next
  case (2 s k t)
  then show ?case by (auto simp: mongo_findById_def mongo_findByIdempotencyKey_def find_id_iff find_key_iff)
next
  case (3 s i t)
  then show ?case by (auto simp: mongo_findById_def mongo_findByIdempotencyKey_def find_id_iff find_key_iff)
next
  case (4 s a n s' i k)
  then show ?case by (auto simp: mongo_reserveNextNonce_def Let_def)
next
  case (5 s t now e s')
  then show ?case
    using create_cases [of "t\<lparr>tx_createdAt := now, tx_updatedAt := now\<rparr>" s]
    by (auto simp: mongo_insert_def split: if_splits)
next
  case (6 s t now s')
  let ?d = "t\<lparr>tx_createdAt := now, tx_updatedAt := now\<rparr>"
  have "c_create C ?d s = (Inr (), s')" and "tx_status ?d \<noteq> Dead"
    using 6 by (auto simp: mongo_insert_def storable_iff split: if_splits)
  from create_inv [OF 6(1) this] show ?case
    by (auto simp: mongo_findById_def no_times_def intro!: exI [of _ ?d])
next
  case (7 s i p now)
  then have "snd (c_update C (\<lambda>d. tx_id d = i) f s) = s" for f
    by (intro update_none) (auto simp: mongo_findById_def findOne_None)
  with 7 show ?case by (auto simp: mongo_update_def mongo_findById_def)
next
  case (8 s p st i now)
  then show ?case by (simp add: mongo_update_def)
next
  case (9 s i t p now)
  let ?f = "\<lambda>d. (apply_patch p d)\<lparr>tx_updatedAt := now\<rparr>"
  let ?s' = "snd (c_update C (\<lambda>d. tx_id d = i) ?f s)"
  have ok: "\<not> (case p_status p of None \<Rightarrow> False | Some st \<Rightarrow> st \<notin> set schema_statuses)"
    using 9(3) by (auto split: option.splits)
  have alive: "d \<in> set (c_all C s) \<Longrightarrow> tx_status (?f d) \<noteq> Dead" for d
    using 9(1,3) by (cases "p_status p") (auto simp: tx_coll_inv_def storable_iff)
  have upd: "tx_coll_inv C ?s'"
    "c_findOne C (\<lambda>d. tx_id d = j) ?s' =
      map_option (\<lambda>d. if j = i then ?f d else d) (c_findOne C (\<lambda>d. tx_id d = j) s)" for j
    using alive by (intro update_rows [OF 9(1)]; simp)+
  have t: "c_findOne C (\<lambda>d. tx_id d = i) s = Some t"
    using 9(2) by (simp add: mongo_findById_def)
  show ?case
    using upd 9(2) t by (auto simp: mongo_update_def ok mongo_findById_def no_times_def map_option_case split: option.splits)
next
  case (10 s t sts limit)
  then show ?case
    using list_rows(4) [OF 10(1), of limit _ sts t]
    by (auto simp: mongo_listByStatus_def mongo_findById_def find_id_iff split: if_splits)
next
  case (11 s sts limit)
  then show ?case using list_rows(1) [OF 11, of limit _ sts] by (simp add: mongo_listByStatus_def)
next
  case (12 s limit sts)
  then show ?case by (auto simp: mongo_listByStatus_def)
next
  case (13 s sts limit)
  then show ?case using list_rows(3) [OF 13, of limit _ sts] by (simp add: mongo_listByStatus_def)
next
  case (14 s i t sts limit)
  then show ?case
    using list_rows(5) [OF 14(1), of limit _ sts t]
    by (auto simp: mongo_listByStatus_def mongo_findById_def find_id_iff split: if_splits)
qed

sublocale sql_tx \<subseteq> repo: tx_repository "sql_tx_repo C" "tx_coll_inv C" sql_check_status
proof (unfold_locales, goal_cases)
  case (1 s i t)
  then show ?case by (auto simp: sql_findById_def find_id_iff split: option.splits)
next
  case (2 s k t)
  then have "t \<in> set (c_all C s) \<and> tx_idempotencyKey t = k"
    by (auto simp: sql_findByIdempotencyKey_def find_key_iff split: option.splits)
  then have "c_findOne C (\<lambda>d. tx_id d = tx_id t) s = Some t" "tx_idempotencyKey t = k"
    using find_id_iff [OF 2(1)] by auto
  then show ?case by (simp add: sql_findById_def)
next
  case (3 s i t)
  then have "c_findOne C (\<lambda>r. tx_idempotencyKey r = tx_idempotencyKey t) s = Some t"
    by (auto simp: sql_findById_def find_id_iff find_key_iff split: option.splits)
  then show ?case by (simp add: sql_findByIdempotencyKey_def)
next
  case (4 s a n s' i k)
  then show ?case by (auto simp: sql_reserveNextNonce_def)
next
  case (5 s t now e s')
  then show ?case using create_cases [of t s] by (auto simp: sql_insert_def split: if_splits)
next
  case (6 s t now s')
  have "c_create C t s = (Inr (), s')" and "tx_status t \<noteq> Dead"
    using 6 by (auto simp: sql_insert_def storable_iff split: if_splits)
  from create_inv [OF 6(1) this] show ?case
    by (auto simp: sql_findById_def intro!: exI [of _ t])
next
  case (7 s i p now)
  then show ?case by (simp add: sql_update_def)
next
  case (8 s p st i now)
  then show ?case by (cases "sql_findById C i s") (auto simp: sql_update_def Let_def)
next
  case (9 s i t p now)
  let ?u = "(apply_patch p t)\<lparr>tx_updatedAt := now\<rparr>"
  have t: "c_findOne C (\<lambda>d. tx_id d = i) s = Some t"
    using 9(2) by (auto simp: sql_findById_def split: option.splits)
  then have mem: "t \<in> set (c_all C s)" "tx_id t = i"
    using find_id_iff [OF 9(1)] by auto
  have ok: "tx_status ?u \<noteq> Dead"
    using 9(1,3) mem(1) by (cases "p_status p") (auto simp: tx_coll_inv_def storable_iff)
  have only: "tx_id d = i \<Longrightarrow> d \<in> set (c_all C s) \<Longrightarrow> d = t" for d
    using find_id_iff [OF 9(1), of i d] t by simp
  have keep: "d \<in> set (c_all C s) \<Longrightarrow> tx_id d = i \<Longrightarrow>
      tx_id (sql_set_columns ?u d) = i \<and>
      tx_idempotencyKey (sql_set_columns ?u d) = tx_idempotencyKey d" for d
    using only [of d] mem by (simp add: sql_set_columns_def)
  have alive: "d \<in> set (c_all C s) \<Longrightarrow> tx_id d = i \<Longrightarrow>
      tx_status (sql_set_columns ?u d) \<noteq> Dead" for d
    using ok by (simp add: sql_set_columns_def)
  have whole: "sql_set_columns ?u t = ?u"
    by (simp add: sql_set_columns_def)
  let ?s' = "snd (c_update C (\<lambda>r. tx_id r = i) (sql_set_columns ?u) s)"
  have inv': "tx_coll_inv C ?s'"
    using keep alive by (rule update_rows(1) [OF 9(1)])
  have find': "c_findOne C (\<lambda>d. tx_id d = j) ?s' = map_option
      (\<lambda>d. if j = i then sql_set_columns ?u d else d) (c_findOne C (\<lambda>d. tx_id d = j) s)" for j
    using keep alive by (rule update_rows(2) [OF 9(1)])
  have all_find: "sql_findById C j ?s' = (if j = i then Some ?u else sql_findById C j s)" for j
    by (simp add: sql_findById_def find' t whole split: option.split)
  show ?case
  proof (intro exI conjI)
    show "repo_update (sql_tx_repo C) i p now s = (Inr ?u, ?s')"
      using 9(2) ok by (simp add: sql_update_def Let_def storable_iff)
    show "\<forall>j. repo_findById (sql_tx_repo C) j ?s' = (if j = i then Some ?u else repo_findById (sql_tx_repo C) j s)"
      using all_find by simp
  qed (use inv' in \<open>simp_all add: no_times_def\<close>)
next
  case (10 s t sts limit)
  then show ?case
    using list_rows(4) [OF 10(1), of limit _ sts t]
    by (auto simp: sql_listByStatus_def find_rows find_id_iff split: if_splits)
next
  case (11 s sts limit)
  then show ?case using list_rows(1) [OF 11, of limit _ sts] by (simp add: sql_listByStatus_def)
next
  case (12 s limit sts)
  then show ?case by (auto simp: sql_listByStatus_def)
next
  case (13 s sts limit)
  then show ?case using list_rows(3) [OF 13, of limit _ sts] by (simp add: sql_listByStatus_def)
next
  case (14 s i t sts limit)
  then show ?case
    using list_rows(5) [OF 14(1), of limit _ sts t]
    by (auto simp: sql_listByStatus_def find_rows find_id_iff split: if_splits)
qed

interpretation mongo_list: mongo_tx "list_coll mongo_conflict"
  by unfold_locales (auto simp: mongo_conflict_def)

interpretation sql_list: sql_tx "list_coll sql_conflict"
  by unfold_locales (auto simp: sql_conflict_def)

section \<open>Properties\<close>

definition sample_tx :: "string \<Rightarrow> string \<Rightarrow> nat \<Rightarrow> payment_status \<Rightarrow> tx_record" where
  "sample_tx i k n st =
     \<lparr>tx_id = i, tx_payoutId = ''1'', tx_idempotencyKey = k, tx_sourceAccount = ''GA'',
      tx_destinationAccount = ''GB'', tx_asset = XLM, tx_amountStroops = ''100'', tx_nonce = n,
      tx_status = st, tx_unsignedXdr = ''x'', tx_signedXdr = None, tx_txHash = None,
      tx_errorMessage = None, tx_attempts = 0, tx_createdAt = 0, tx_updatedAt = 0,
      tx_confirmedAt = None\<rparr>"

lemma sample_tx_sel [simp]:
  "tx_id (sample_tx i k n st) = i" "tx_idempotencyKey (sample_tx i k n st) = k"
  "tx_nonce (sample_tx i k n st) = n" "tx_status (sample_tx i k n st) = st"
  "tx_attempts (sample_tx i k n st) = 0" "tx_signedXdr (sample_tx i k n st) = None"
  "tx_destinationAccount (sample_tx i k n st) = ''GB''" "tx_amountStroops (sample_tx i k n st) = ''100''"
  "tx_payoutId (sample_tx i k n st) = ''1''" "tx_asset (sample_tx i k n st) = XLM"
  "tx_txHash (sample_tx i k n st) = None" "tx_updatedAt (sample_tx i k n st) = 0"
  by (simp_all add: sample_tx_def)

context mongo_tx
begin

lemma nonce_shared:
  assumes "tx_coll_inv C s"
    and "tx_nonce t = fst (mongo_reserveNextNonce C a s)"
    and "tx_nonce u = fst (mongo_reserveNextNonce C a (snd (mongo_reserveNextNonce C a s)))"
    and "\<not> mongo_conflict t (c_all C s)" and "\<not> mongo_conflict u (c_all C s)"
    and "tx_id t \<noteq> tx_id u" and "tx_idempotencyKey t \<noteq> tx_idempotencyKey u"
    and "tx_status t \<noteq> Dead" and "tx_status u \<noteq> Dead"
  shows "\<exists>s1 s2 t' u'. mongo_insert C t now s = (Inr (), s1) \<and> mongo_insert C u now s1 = (Inr (), s2) \<and>
    mongo_findById C (tx_id t) s2 = Some t' \<and> mongo_findById C (tx_id u) s2 = Some u' \<and>
    tx_nonce t' = tx_nonce u'"
proof -
  let ?d = "t\<lparr>tx_createdAt := now, tx_updatedAt := now\<rparr>"
  let ?e = "u\<lparr>tx_createdAt := now, tx_updatedAt := now\<rparr>"
  obtain s1 where s1: "c_create C ?d s = (Inr (), s1)" "c_all C s1 = c_all C s @ [?d]"
    using create_ok [of ?d s] assms(4) by (auto simp: mongo_conflict_def)
  have inv1: "tx_coll_inv C s1"
    using create_inv(1) [OF assms(1) s1(1)] assms(8) by simp
  obtain s2 where s2: "c_create C ?e s1 = (Inr (), s2)" "c_all C s2 = c_all C s1 @ [?e]"
    using create_ok [of ?e s1] assms(5,6,7) by (auto simp: mongo_conflict_def s1(2))
  have inv2: "tx_coll_inv C s2"
    using create_inv(1) [OF inv1 s2(1)] assms(9) by simp
  have "mongo_findById C (tx_id t) s2 = Some ?d" "mongo_findById C (tx_id u) s2 = Some ?e"
    using find_id_iff [OF inv2] by (auto simp: find_rows s1(2) s2(2))
  moreover have "tx_nonce ?d = tx_nonce ?e"
    using assms(2,3) by (simp add: mongo_reserveNextNonce_def Let_def)
  ultimately show ?thesis
    using s1(1) s2(1) assms(8,9) by (auto simp: mongo_insert_def storable_iff)
qed

end

text \<open>
  \<open>reserveNextNonce\<close> of the Mongo repository reserves nothing: two payouts of one account
  that both asked before either was inserted are both stored, with the same nonce.
\<close>

theorem mongo_nonce_not_reserved:
  assumes "mongo_tx C" and "tx_coll_inv C s"
    and "tx_nonce t = fst (mongo_reserveNextNonce C a s)"
    and "tx_nonce u = fst (mongo_reserveNextNonce C a (snd (mongo_reserveNextNonce C a s)))"
    and "\<not> mongo_conflict t (c_all C s)" and "\<not> mongo_conflict u (c_all C s)"
    and "tx_id t \<noteq> tx_id u" and "tx_idempotencyKey t \<noteq> tx_idempotencyKey u"
    and "tx_status t \<noteq> Dead" and "tx_status u \<noteq> Dead"
  shows "\<exists>s1 s2 t' u'. mongo_insert C t now s = (Inr (), s1) \<and> mongo_insert C u now s1 = (Inr (), s2) \<and>
    mongo_findById C (tx_id t) s2 = Some t' \<and> mongo_findById C (tx_id u) s2 = Some u' \<and>
    tx_nonce t' = tx_nonce u'"
  using assms by (rule mongo_tx.nonce_shared)

theorem mongo_nonce_not_reserved_witness:
  "\<exists>s1 s2 t' u'.
    mongo_insert (list_coll mongo_conflict) (sample_tx ''a'' ''k1'' 1 Built) 5 [] = (Inr (), s1) \<and>
    mongo_insert (list_coll mongo_conflict) (sample_tx ''b'' ''k2'' 1 Built) 5 s1 = (Inr (), s2) \<and>
    mongo_findById (list_coll mongo_conflict) ''a'' s2 = Some t' \<and>
    mongo_findById (list_coll mongo_conflict) ''b'' s2 = Some u' \<and> tx_nonce t' = tx_nonce u'"
  using mongo_nonce_not_reserved [of "list_coll mongo_conflict" "[]" "sample_tx ''a'' ''k1'' 1 Built" "''GA''"
      "sample_tx ''b'' ''k2'' 1 Built" 5] mongo_list.mongo_tx_axioms
  by (simp add: sample_tx_def mongo_conflict_def tx_coll_inv_def tx_rows_inv_def mongo_reserveNextNonce_def)

end
