(* ===== verification/Payment.thy ===== *)
theory Payment
  imports Amounts Breaker TxStores
begin

text \<open>
  \<open>PaymentService\<close> of backend/src/services/paymentService.ts: creating a payout transaction,
  queueing it once it is signed, submitting it to the Soroban RPC and confirming it. The service
  runs over any \<open>tx_repo\<close>, its circuit breaker is the one of Breaker.thy, and the Stellar
  SDK and the RPC server are parameters: \<open>stellar_sdk\<close> holds the SDK's functions,
  \<open>rpc_env\<close> what the server answers and what the clock shows at each reading of one call.
\<close>

section \<open>Configuration and requests\<close>

record payment_config =
  pc_liveExecution :: bool
  pc_signWithHotKey :: bool
  pc_maxGasStroops :: int
  pc_maxAttempts :: nat
  pc_confirmPollMs :: int
  pc_confirmMaxPolls :: nat
  pc_failedRetryMax :: nat
  pc_failedRetryBaseMs :: int
  pc_payoutMethodName :: string
  pc_payoutContractId :: string
  pc_sourceAccount :: string
  pc_hotSignerSecret :: "string option"
  pc_networkPassphrase :: string
  pc_sorobanRpcUrl :: string

record payout_request =
  pr_payoutId :: string
  pr_destinationAccount :: string
  pr_amount :: string
  pr_asset :: asset
  pr_idempotencyKey :: string

text \<open>\<open>CreatePayoutRequestSchema.parse\<close>: every string but the asset is trimmed first.\<close>

definition trimmed_field :: "string \<Rightarrow> jval \<Rightarrow> string option" where
  "trimmed_field k v = (case jfield k v of Some (JStr s) \<Rightarrow> Some (js_trim s) | _ \<Rightarrow> None)"

definition checked :: "(string \<Rightarrow> bool) \<Rightarrow> string option \<Rightarrow> string option" where
  "checked P x = (case x of None \<Rightarrow> None | Some s \<Rightarrow> if P s then Some s else None)"

definition asset_field :: "jval \<Rightarrow> asset option" where
  "asset_field v =
     (case jfield ''asset'' v of
        Some (JStr s) \<Rightarrow> if s = ''XLM'' then Some XLM else if s = ''USDC'' then Some USDC else None
      | _ \<Rightarrow> None)"

definition parse_payout_request :: "jval \<Rightarrow> js_error + payout_request" where
  "parse_payout_request v =
     (case (checked (\<lambda>s. 1 \<le> length s \<and> length s \<le> 128) (trimmed_field ''payoutId'' v),
            checked public_key_regex (trimmed_field ''destinationAccount'' v),
            checked amount_regex (trimmed_field ''amount'' v), asset_field v,
            checked idempotency_regex (trimmed_field ''idempotencyKey'' v)) of
        (Some p, Some d, Some a, Some s, Some k) \<Rightarrow>
          Inr \<lparr>pr_payoutId = p, pr_destinationAccount = d, pr_amount = a, pr_asset = s,
               pr_idempotencyKey = k\<rparr>
      | _ \<Rightarrow> Inl (ZodFailure ''CreatePayoutRequest''))"

section \<open>The SDK and the RPC server\<close>

text \<open>
  What \<open>contract.call\<close> is given (\<open>U64\<close>, \<open>AddressArg\<close> and \<open>I128\<close> are the three
  conversions to \<open>ScVal\<close>), and what is read off a parsed transaction. \<open>sdk_fee\<close> is
  \<open>Number(tx.fee)\<close>, \<open>None\<close> when that is not finite. \<open>iv_contract\<close> is
  \<open>Address.fromScAddress(invoke.contractAddress()).toString()\<close>, which may throw.
\<close>

datatype call_arg = U64 int | AddressArg string | I128 int

record contract_call =
  cc_contract :: string
  cc_method :: string
  cc_args :: "call_arg list"

record 'sc invoke_args =
  iv_contract :: "js_error + string"
  iv_function :: string
  iv_args :: "'sc list"

datatype 'sc host_function = InvokeContract "'sc invoke_args" | OtherHostFunction

record 'sc tx_operation =
  op_type :: string
  op_func :: "'sc host_function option"

datatype 'sc parsed_tx = FeeBump | Classic string "'sc tx_operation list"

record ('acct, 'tx, 'sc) stellar_sdk =
  sdk_build :: "'acct \<Rightarrow> contract_call \<Rightarrow> string \<Rightarrow> js_error + 'tx"
  sdk_toXDR :: "'tx \<Rightarrow> string"
  sdk_sign :: "string \<Rightarrow> 'tx \<Rightarrow> js_error + 'tx"
  sdk_fee :: "'tx \<Rightarrow> int option"
  sdk_fromXDR :: "string \<Rightarrow> string \<Rightarrow> js_error + 'sc parsed_tx"
  sdk_addressOf :: "'sc \<Rightarrow> js_error + string"
  sdk_nativeString :: "'sc \<Rightarrow> js_error + string"

datatype send_status = SendError | TryAgainLater | SendOther string

record send_result =
  sr_status :: send_status
  sr_hash :: string

datatype chain_status = ChainSuccess | ChainFailed | ChainOther string

record ('acct, 'tx, 'sc) rpc_env =
  env_getAccount :: "'acct settled"
  env_prepare :: "'tx \<Rightarrow> 'tx settled"
  env_send :: "'sc parsed_tx \<Rightarrow> send_result settled"
  env_getTransaction :: "string \<Rightarrow> chain_status settled"
  env_clock :: "nat \<Rightarrow> int"
  env_uuid :: string

record 's pay_state =
  py_db :: 's
  py_breaker :: breaker
  py_payoutsSuccess :: "asset list"

definition on_breaker :: "int \<Rightarrow> 'a settled \<Rightarrow> int \<Rightarrow> 's pay_state \<Rightarrow> (js_error + 'a) \<times> 's pay_state" where
  "on_breaker t0 r t1 s =
     (case fire t0 r t1 (py_breaker s) of (x, b) \<Rightarrow> (x, s\<lparr>py_breaker := b\<rparr>))"

definition db_update :: "'s tx_repo \<Rightarrow> string \<Rightarrow> tx_patch \<Rightarrow> int \<Rightarrow> 's pay_state \<Rightarrow>
    (js_error + tx_record) \<times> 's pay_state" where
  "db_update R i p now s =
     (case repo_update R i p now (py_db s) of (x, d) \<Rightarrow> (x, s\<lparr>py_db := d\<rparr>))"

section \<open>createPayoutTransaction\<close>

datatype payout_mode = BuildOnly | QueuedMode

record build_result =
  br_mode :: payout_mode
  br_transaction :: tx_record
  br_unsignedXdr :: string

definition deriveResponseMode :: "payment_status \<Rightarrow> payout_mode" where
  "deriveResponseMode st = (if st = Queued then QueuedMode else BuildOnly)"

definition requireTransaction :: "'s tx_repo \<Rightarrow> string \<Rightarrow> 's \<Rightarrow> js_error + tx_record" where
  "requireTransaction R i d =
     (case repo_findById R i d of None \<Rightarrow> Inl (not_found i) | Some t \<Rightarrow> Inr t)"

definition check_fee :: "payment_config \<Rightarrow> int option \<Rightarrow> js_error + unit" where
  "check_fee cfg fee =
     (case fee of
        None \<Rightarrow> Inl (Error ''Unable to determine prepared transaction fee'')
      | Some f \<Rightarrow>
          if f \<le> 0 then Inl (Error ''Unable to determine prepared transaction fee'')
          else if f > pc_maxGasStroops cfg
          then Inl (Error (''Prepared transaction fee '' @ int_digits f @ '' exceeds max gas '' @
                 int_digits (pc_maxGasStroops cfg)))
          else Inr ())"

definition payout_call :: "payment_config \<Rightarrow> payout_request \<Rightarrow> string \<Rightarrow> js_error + contract_call" where
  "payout_call cfg req stroops =
     (case js_bigint (pr_payoutId req) of
        None \<Rightarrow> Inl (Error (''Cannot convert '' @ pr_payoutId req @ '' to a BigInt''))
      | Some pid \<Rightarrow>
          Inr \<lparr>cc_contract = pc_payoutContractId cfg, cc_method = pc_payoutMethodName cfg,
               cc_args = [U64 pid, AddressArg (pr_destinationAccount req), I128 (int (dec_val stroops))]\<rparr>)"

definition buildPreparedTransaction ::
    "payment_config \<Rightarrow> ('acct, 'tx, 'sc) stellar_sdk \<Rightarrow> ('acct, 'tx, 'sc) rpc_env \<Rightarrow>
     payout_request \<Rightarrow> 's pay_state \<Rightarrow> (js_error + 'tx \<times> string) \<times> 's pay_state" where
  "buildPreparedTransaction cfg sdk env req s =
     (case on_breaker (env_clock env 0) (env_getAccount env) (env_clock env 1) s of
        (Inl e, s1) \<Rightarrow> (Inl e, s1)
      | (Inr acct, s1) \<Rightarrow>
          (case toStroops (pr_amount req) of
             Inl e \<Rightarrow> (Inl e, s1)
           | Inr stroops \<Rightarrow>
               (case payout_call cfg req stroops of
                  Inl e \<Rightarrow> (Inl e, s1)
                | Inr call \<Rightarrow>
                    (case sdk_build sdk acct call (pc_networkPassphrase cfg) of
                       Inl e \<Rightarrow> (Inl e, s1)
                     | Inr built \<Rightarrow>
                         (case on_breaker (env_clock env 2) (env_prepare env built) (env_clock env 3) s1 of
                            (Inl e, s2) \<Rightarrow> (Inl e, s2)
                          | (Inr prepared, s2) \<Rightarrow>
                              (case check_fee cfg (sdk_fee sdk prepared) of
                                 Inl e \<Rightarrow> (Inl e, s2)
                               | Inr _ \<Rightarrow> (Inr (prepared, stroops), s2)))))))"

text \<open>The status and the signed XDR of a new record (live execution, hot key or external signer).\<close>

definition initial_status ::
    "payment_config \<Rightarrow> ('acct, 'tx, 'sc) stellar_sdk \<Rightarrow> 'tx \<Rightarrow> js_error + payment_status \<times> string option" where
  "initial_status cfg sdk tx =
     (if \<not> pc_liveExecution cfg then Inr (Built, None)
      else if pc_signWithHotKey cfg \<and> truthy (pc_hotSignerSecret cfg)
      then (case sdk_sign sdk (the (pc_hotSignerSecret cfg)) tx of
              Inl e \<Rightarrow> Inl e
            | Inr signed \<Rightarrow> Inr (Queued, Some (sdk_toXDR sdk signed)))
      else Inr (AwaitingSignature, None))"

definition new_record ::
    "payment_config \<Rightarrow> payout_request \<Rightarrow> string \<Rightarrow> string \<Rightarrow> nat \<Rightarrow> payment_status \<Rightarrow> string \<Rightarrow>
     string option \<Rightarrow> int \<Rightarrow> tx_record" where
  "new_record cfg req i stroops nonce st unsigned signed now =
     \<lparr>tx_id = i, tx_payoutId = pr_payoutId req, tx_idempotencyKey = pr_idempotencyKey req,
      tx_sourceAccount = pc_sourceAccount cfg, tx_destinationAccount = pr_destinationAccount req,
      tx_asset = pr_asset req, tx_amountStroops = stroops, tx_nonce = nonce, tx_status = st,
      tx_unsignedXdr = unsigned, tx_signedXdr = signed, tx_txHash = None, tx_errorMessage = None,
      tx_attempts = 0, tx_createdAt = now, tx_updatedAt = now, tx_confirmedAt = None\<rparr>"

definition createPayoutTransaction ::
    "'s tx_repo \<Rightarrow> payment_config \<Rightarrow> ('acct, 'tx, 'sc) stellar_sdk \<Rightarrow> ('acct, 'tx, 'sc) rpc_env \<Rightarrow>
     jval \<Rightarrow> 's pay_state \<Rightarrow> (js_error + build_result) \<times> 's pay_state" where
  "createPayoutTransaction R cfg sdk env input s =
     (case parse_payout_request input of
        Inl e \<Rightarrow> (Inl e, s)
      | Inr req \<Rightarrow>
          (case repo_findByIdempotencyKey R (pr_idempotencyKey req) (py_db s) of
             Some existing \<Rightarrow>
               (Inr \<lparr>br_mode = deriveResponseMode (tx_status existing), br_transaction = existing,
                     br_unsignedXdr = tx_unsignedXdr existing\<rparr>, s)
           | None \<Rightarrow>
               (case repo_reserveNextNonce R (pc_sourceAccount cfg) (py_db s) of
                  (nonce, d1) \<Rightarrow>
                    (case buildPreparedTransaction cfg sdk env req (s\<lparr>py_db := d1\<rparr>) of
                       (Inl e, s2) \<Rightarrow> (Inl e, s2)
                     | (Inr (tx, stroops), s2) \<Rightarrow>
                         (case initial_status cfg sdk tx of
                            Inl e \<Rightarrow> (Inl e, s2)
                          | Inr (st, signed) \<Rightarrow>
                              let t = new_record cfg req (env_uuid env) stroops nonce st
                                        (sdk_toXDR sdk tx) signed (env_clock env 4) in
                              (case repo_insert R t (env_clock env 5) (py_db s2) of
                                 (Inl e, d3) \<Rightarrow> (Inl e, s2\<lparr>py_db := d3\<rparr>)
                               | (Inr _, d3) \<Rightarrow>
                                   (Inr \<lparr>br_mode = deriveResponseMode st, br_transaction = t,
                                         br_unsignedXdr = sdk_toXDR sdk tx\<rparr>,
                                    s2\<lparr>py_db := d3\<rparr>)))))))"

section \<open>queueSignedTransaction\<close>

definition audit_args ::
    "('acct, 'tx, 'sc) stellar_sdk \<Rightarrow> 'sc list \<Rightarrow> tx_record \<Rightarrow> js_error + unit" where
  "audit_args sdk args t =
     (if length args \<noteq> 3
      then Inl (Error ''Signed transaction must have exactly 3 contract arguments'')
      else (case sdk_addressOf sdk (args ! 1) of
              Inl e \<Rightarrow> Inl e
            | Inr destination \<Rightarrow>
                if destination \<noteq> tx_destinationAccount t
                then Inl (Error ''Signed transaction destination does not match the payout record'')
                else (case sdk_nativeString sdk (args ! 2) of
                        Inl e \<Rightarrow> Inl e
                      | Inr amount \<Rightarrow>
                          if amount \<noteq> tx_amountStroops t
                          then Inl (Error ''Signed transaction amount does not match the payout record'')
                          else Inr ())))"

definition audit_invocation ::
    "payment_config \<Rightarrow> ('acct, 'tx, 'sc) stellar_sdk \<Rightarrow> 'sc invoke_args \<Rightarrow> tx_record \<Rightarrow> js_error + unit" where
  "audit_invocation cfg sdk iv t =
     (case iv_contract iv of
        Inl e \<Rightarrow> Inl e
      | Inr contractId \<Rightarrow>
          if contractId \<noteq> pc_payoutContractId cfg
          then Inl (Error ''Signed transaction targets an unexpected contract'')
          else if iv_function iv \<noteq> pc_payoutMethodName cfg
          then Inl (Error ''Signed transaction calls an unexpected contract method'')
          else audit_args sdk (iv_args iv) t)"

definition audit_operation ::
    "payment_config \<Rightarrow> ('acct, 'tx, 'sc) stellar_sdk \<Rightarrow> 'sc tx_operation \<Rightarrow> tx_record \<Rightarrow> js_error + unit" where
  "audit_operation cfg sdk op t =
     (if op_type op \<noteq> ''invokeHostFunction''
      then Inl (Error ''Signed transaction operation is not a contract invocation'')
      else (case op_func op of
              None \<Rightarrow> Inl (Error ''Signed transaction operation is not a contract invocation'')
            | Some OtherHostFunction \<Rightarrow> Inl (Error ''Signed transaction does not invoke a contract'')
            | Some (InvokeContract iv) \<Rightarrow> audit_invocation cfg sdk iv t))"

definition assertSignedTransactionMatches ::
    "payment_config \<Rightarrow> ('acct, 'tx, 'sc) stellar_sdk \<Rightarrow> string \<Rightarrow> tx_record \<Rightarrow> js_error + unit" where
  "assertSignedTransactionMatches cfg sdk signedXdr t =
     (case sdk_fromXDR sdk signedXdr (pc_networkPassphrase cfg) of
        Inl _ \<Rightarrow> Inl (Error ''Signed XDR could not be parsed'')
      | Inr FeeBump \<Rightarrow> Inl (Error ''Signed transaction must not be a fee-bump transaction'')
      | Inr (Classic src ops) \<Rightarrow>
          if src \<noteq> pc_sourceAccount cfg
          then Inl (Error ''Signed transaction source account does not match the payout source'')
          else if length ops \<noteq> 1
          then Inl (Error ''Signed transaction must contain exactly one operation'')
          else audit_operation cfg sdk (ops ! 0) t)"

definition queueSignedTransaction ::
    "'s tx_repo \<Rightarrow> payment_config \<Rightarrow> ('acct, 'tx, 'sc) stellar_sdk \<Rightarrow> string \<Rightarrow> string \<Rightarrow> int \<Rightarrow>
     's pay_state \<Rightarrow> (js_error + tx_record) \<times> 's pay_state" where
  "queueSignedTransaction R cfg sdk i signedXdr now s =
     (case requireTransaction R i (py_db s) of
        Inl e \<Rightarrow> (Inl e, s)
      | Inr t \<Rightarrow>
          if tx_status t \<noteq> AwaitingSignature \<and> tx_status t \<noteq> Built
          then (Inl (Error (''Transaction '' @ i @ '' is not waiting for signature'')), s)
          else (case assertSignedTransactionMatches cfg sdk signedXdr t of
                  Inl e \<Rightarrow> (Inl e, s)
                | Inr _ \<Rightarrow>
                    db_update R i (empty_patch\<lparr>p_signedXdr := Some (Some signedXdr),
                        p_status := Some Queued, p_errorMessage := Some None,
                        p_updatedAt := Some now\<rparr>) now s))"

section \<open>submitQueuedTransaction\<close>

record submit_result =
  su_transaction :: tx_record
  su_submitted :: bool

definition as_submit :: "bool \<Rightarrow> (js_error + tx_record) \<times> 's pay_state \<Rightarrow>
    (js_error + submit_result) \<times> 's pay_state" where
  "as_submit sub r =
     (case r of (Inl e, s) \<Rightarrow> (Inl e, s)
      | (Inr t, s) \<Rightarrow> (Inr \<lparr>su_transaction = t, su_submitted = sub\<rparr>, s))"

definition failed_patch :: "string \<Rightarrow> int \<Rightarrow> tx_patch" where
  "failed_patch msg now = empty_patch\<lparr>p_status := Some Failed, p_errorMessage := Some (Some msg),
     p_updatedAt := Some now\<rparr>"

text \<open>The body of the \<open>try\<close>.\<close>

definition submit_attempt ::
    "'s tx_repo \<Rightarrow> payment_config \<Rightarrow> ('acct, 'tx, 'sc) stellar_sdk \<Rightarrow> ('acct, 'tx, 'sc) rpc_env \<Rightarrow>
     tx_record \<Rightarrow> string \<Rightarrow> nat \<Rightarrow> 's pay_state \<Rightarrow> (js_error + submit_result) \<times> 's pay_state" where
  "submit_attempt R cfg sdk env t xdr attempts s =
     (case sdk_fromXDR sdk xdr (pc_networkPassphrase cfg) of
        Inl e \<Rightarrow> (Inl e, s)
      | Inr parsed \<Rightarrow>
          (case on_breaker (env_clock env 0) (env_send env parsed) (env_clock env 1) s of
             (Inl (CircuitOpenError m), s1) \<Rightarrow> (Inr \<lparr>su_transaction = t, su_submitted = False\<rparr>, s1)
           | (Inl e, s1) \<Rightarrow> (Inl e, s1)
           | (Inr r, s1) \<Rightarrow>
               (case sr_status r of
                  SendError \<Rightarrow>
                    as_submit False (db_update R (tx_id t)
                      ((failed_patch ''Soroban rejected transaction during submission'' (env_clock env 2))
                         \<lparr>p_attempts := Some attempts, p_txHash := Some (Some (sr_hash r))\<rparr>)
                      (env_clock env 2) s1)
                | TryAgainLater \<Rightarrow>
                    as_submit False (db_update R (tx_id t)
                      (empty_patch\<lparr>p_attempts := Some attempts,
                         p_errorMessage := Some (Some ''Soroban requested retry later''),
                         p_updatedAt := Some (env_clock env 2)\<rparr>) (env_clock env 2) s1)
                | SendOther _ \<Rightarrow>
                    as_submit True (db_update R (tx_id t)
                      (empty_patch\<lparr>p_attempts := Some attempts, p_status := Some Submitted,
                         p_txHash := Some (Some (sr_hash r)), p_errorMessage := Some None,
                         p_updatedAt := Some (env_clock env 2)\<rparr>) (env_clock env 2) s1))))"

definition submitQueuedTransaction ::
    "'s tx_repo \<Rightarrow> payment_config \<Rightarrow> ('acct, 'tx, 'sc) stellar_sdk \<Rightarrow> ('acct, 'tx, 'sc) rpc_env \<Rightarrow>
     string \<Rightarrow> 's pay_state \<Rightarrow> (js_error + submit_result) \<times> 's pay_state" where
  "submitQueuedTransaction R cfg sdk env i s =
     (case requireTransaction R i (py_db s) of
        Inl e \<Rightarrow> (Inl e, s)
      | Inr t \<Rightarrow>
          if tx_status t \<noteq> Queued then (Inr \<lparr>su_transaction = t, su_submitted = False\<rparr>, s)
          else if \<not> pc_liveExecution cfg then (Inr \<lparr>su_transaction = t, su_submitted = False\<rparr>, s)
          else if \<not> truthy (tx_signedXdr t)
          then as_submit False (db_update R (tx_id t)
                 (failed_patch ''Missing signed XDR for queued transaction'' (env_clock env 0))
                 (env_clock env 0) s)
          else if tx_attempts t \<ge> pc_maxAttempts cfg
          then as_submit False (db_update R (tx_id t)
                 (failed_patch (''Max submit attempts reached ('' @ dec_digits (pc_maxAttempts cfg) @ '')'')
                   (env_clock env 0)) (env_clock env 0) s)
          else
            let attempts = tx_attempts t + 1 in
            (case submit_attempt R cfg sdk env t (the (tx_signedXdr t)) attempts s of
               (Inl e, s1) \<Rightarrow>
                 as_submit False (db_update R (tx_id t)
                   ((failed_patch (if e = NotAnError then ''Unknown submission failure'' else err_message e)
                       (env_clock env 3))\<lparr>p_attempts := Some attempts\<rparr>) (env_clock env 3) s1)
             | (Inr r, s1) \<Rightarrow> (Inr r, s1)))"

section \<open>confirmSubmittedTransaction and pollConfirmation\<close>

definition confirmSubmittedTransaction ::
    "'s tx_repo \<Rightarrow> ('acct, 'tx, 'sc) rpc_env \<Rightarrow> string \<Rightarrow> 's pay_state \<Rightarrow>
     (js_error + tx_record) \<times> 's pay_state" where
  "confirmSubmittedTransaction R env i s =
     (case requireTransaction R i (py_db s) of
        Inl e \<Rightarrow> (Inl e, s)
      | Inr t \<Rightarrow>
          if tx_status t \<noteq> Submitted \<or> \<not> truthy (tx_txHash t) then (Inr t, s)
          else
            (case on_breaker (env_clock env 0) (env_getTransaction env (the (tx_txHash t)))
                    (env_clock env 1) s of
               (Inl (CircuitOpenError m), s1) \<Rightarrow> (Inr t, s1)
             | (Inl e, s1) \<Rightarrow> (Inl e, s1)
             | (Inr ChainSuccess, s1) \<Rightarrow>
                 db_update R (tx_id t) (empty_patch\<lparr>p_status := Some Confirmed,
                     p_confirmedAt := Some (Some (env_clock env 2)), p_updatedAt := Some (env_clock env 3),
                     p_errorMessage := Some None\<rparr>) (env_clock env 3)
                   (s1\<lparr>py_payoutsSuccess := py_payoutsSuccess s1 @ [tx_asset t]\<rparr>)
             | (Inr ChainFailed, s1) \<Rightarrow>
                 db_update R (tx_id t) (failed_patch ''Transaction failed on-chain'' (env_clock env 2))
                   (env_clock env 2) s1
             | (Inr (ChainOther _), s1) \<Rightarrow> (Inr t, s1)))"

text \<open>
  The loop of \<open>pollConfirmation\<close>: \<open>n\<close> polls are left, \<open>k\<close> were made, and poll
  \<open>k\<close> sees the environment \<open>envs k\<close>. Between two polls the code waits
  \<open>confirmPollMs\<close>; the environments' clocks show it.
\<close>

fun poll_loop :: "'s tx_repo \<Rightarrow> (nat \<Rightarrow> ('acct, 'tx, 'sc) rpc_env) \<Rightarrow> nat \<Rightarrow> nat \<Rightarrow> tx_record \<Rightarrow>
    's pay_state \<Rightarrow> (js_error + tx_record) \<times> 's pay_state" where
  "poll_loop R envs 0 k current s = (Inr current, s)"
| "poll_loop R envs (Suc n) k current s =
     (case confirmSubmittedTransaction R (envs k) (tx_id current) s of
        (Inl e, s1) \<Rightarrow> (Inl e, s1)
      | (Inr t, s1) \<Rightarrow>
          if tx_status t = Confirmed \<or> tx_status t = Failed then (Inr t, s1)
          else poll_loop R envs n (Suc k) t s1)"

definition pollConfirmation :: "'s tx_repo \<Rightarrow> payment_config \<Rightarrow> (nat \<Rightarrow> ('acct, 'tx, 'sc) rpc_env) \<Rightarrow>
    string \<Rightarrow> 's pay_state \<Rightarrow> (js_error + tx_record) \<times> 's pay_state" where
  "pollConfirmation R cfg envs i s =
     (case requireTransaction R i (py_db s) of
        Inl e \<Rightarrow> (Inl e, s)
      | Inr current \<Rightarrow> poll_loop R envs (pc_confirmMaxPolls cfg) 0 current s)"

end
