(* ===== verification/PaymentFlow.thy ===== *)
theory PaymentFlow
  imports Payment
begin

text \<open>
  Correctness of the payment service over any repository that keeps the contract
  \<open>tx_repository\<close>: every operation moves the status of a payout along \<open>status_step\<close>
  only and changes nothing that identifies it, creation is idempotent, only a signed transaction
  that matches the record is queued, and a healthy RPC takes a queued payout to confirmed.
\<close>

section \<open>The status machine\<close>

inductive status_step :: "payment_status \<Rightarrow> payment_status \<Rightarrow> bool" where
  queue_built: "status_step Built Queued"
| queue_signed: "status_step AwaitingSignature Queued"
| submit_ok: "status_step Queued Submitted"
| submit_failed: "status_step Queued Failed"
| confirm_ok: "status_step Submitted Confirmed"
| confirm_failed: "status_step Submitted Failed"
| requeue: "status_step Failed Queued"
| dead_letter: "status_step Failed Dead"

declare status_step.intros [intro]

inductive_cases status_step_from [elim!]: "status_step Confirmed st" "status_step Dead st"

inductive_simps status_step_simps: "status_step st st'"

abbreviation status_reach :: "payment_status \<Rightarrow> payment_status \<Rightarrow> bool" where
  "status_reach \<equiv> status_step\<^sup>*\<^sup>*"

lemma status_reach_steps [simp]:
  "status_reach Built Queued" "status_reach AwaitingSignature Queued"
  "status_reach Queued Submitted" "status_reach Queued Failed"
  "status_reach Submitted Confirmed" "status_reach Submitted Failed"
  "status_reach Failed Queued" "status_reach Failed Dead"
  by (rule r_into_rtranclp, rule status_step.intros)+

lemma confirmed_final: "status_reach Confirmed st \<Longrightarrow> st = Confirmed"
  by (induction rule: rtranclp_induct) auto

lemma dead_final: "status_reach Dead st \<Longrightarrow> st = Dead"
  by (induction rule: rtranclp_induct) auto

lemma never_back_to_built: "status_reach st Built \<Longrightarrow> st = Built"
  by (induction st Built rule: rtranclp.induct) (auto simp: status_step_simps)

section \<open>How a record may change\<close>

definition payout_identity :: "tx_record \<Rightarrow> string list \<times> asset \<times> nat" where
  "payout_identity t =
     ([tx_id t, tx_payoutId t, tx_idempotencyKey t, tx_sourceAccount t, tx_destinationAccount t,
       tx_amountStroops t, tx_unsignedXdr t], tx_asset t, tx_nonce t)"

text \<open>Identity kept, status along the machine, attempts counted upwards and within the limit.\<close>

definition payout_le :: "payment_config \<Rightarrow> tx_record \<Rightarrow> tx_record \<Rightarrow> bool" where
  "payout_le cfg t u \<longleftrightarrow>
     payout_identity u = payout_identity t \<and> status_reach (tx_status t) (tx_status u) \<and>
     tx_attempts t \<le> tx_attempts u \<and> tx_attempts u \<le> max (tx_attempts t) (pc_maxAttempts cfg)"

definition evolves :: "'s tx_repo \<Rightarrow> payment_config \<Rightarrow> 's \<Rightarrow> 's \<Rightarrow> bool" where
  "evolves R cfg d d' \<longleftrightarrow>
     (\<forall>i t. repo_findById R i d = Some t \<longrightarrow>
        (\<exists>u. repo_findById R i d' = Some u \<and> payout_le cfg t u))"

text \<open>One record may change that way, and nothing else changes.\<close>

definition moves :: "'s tx_repo \<Rightarrow> payment_config \<Rightarrow> string \<Rightarrow> 's \<Rightarrow> 's \<Rightarrow> bool" where
  "moves R cfg i d d' \<longleftrightarrow>
     (\<forall>j. j \<noteq> i \<longrightarrow> repo_findById R j d' = repo_findById R j d) \<and>
     (case repo_findById R i d of
        None \<Rightarrow> repo_findById R i d' = None
      | Some t \<Rightarrow> \<exists>u. repo_findById R i d' = Some u \<and> payout_le cfg t u)"

lemma payout_le_refl [simp]: "payout_le cfg t t"
  by (simp add: payout_le_def)

lemma payout_le_trans: "payout_le cfg t u \<Longrightarrow> payout_le cfg u v \<Longrightarrow> payout_le cfg t v"
  unfolding payout_le_def by (auto intro: rtranclp_trans)

lemma payout_le_no_times:
  "no_times u = no_times v \<Longrightarrow> payout_le cfg t v \<Longrightarrow> payout_le cfg t u"
  by (auto simp: payout_le_def payout_identity_def dest: no_times_eqD)

lemma evolves_refl [simp]: "evolves R cfg d d"
  by (auto simp: evolves_def)

lemma evolves_trans: "evolves R cfg d d1 \<Longrightarrow> evolves R cfg d1 d2 \<Longrightarrow> evolves R cfg d d2"
  unfolding evolves_def by (meson payout_le_trans)

lemma evolves_same: "(\<And>i. repo_findById R i d' = repo_findById R i d) \<Longrightarrow> evolves R cfg d d'"
  by (auto simp: evolves_def)

lemma moves_refl [simp]: "moves R cfg i d d"
  by (auto simp: moves_def split: option.split)

lemma moves_evolves: "moves R cfg i d d' \<Longrightarrow> evolves R cfg d d'"
  unfolding evolves_def
proof (intro allI impI)
  fix j t
  assume m: "moves R cfg i d d'" and t: "repo_findById R j d = Some t"
  show "\<exists>u. repo_findById R j d' = Some u \<and> payout_le cfg t u"
  proof (cases "j = i")
    case True
    then show ?thesis using m t by (simp add: moves_def)
  next
    case False
    then show ?thesis using m t by (simp add: moves_def)
  qed
qed

lemma moves_frame: "moves R cfg i d d' \<Longrightarrow> j \<noteq> i \<Longrightarrow> repo_findById R j d' = repo_findById R j d"
  by (simp add: moves_def)

text \<open>A patch that sets the status along the machine and does not set the attempts back.\<close>

lemma payout_le_patch:
  assumes "case p_status p of None \<Rightarrow> True | Some st \<Rightarrow> status_reach (tx_status t) st"
    and "case p_attempts p of None \<Rightarrow> True
      | Some a \<Rightarrow> tx_attempts t \<le> a \<and> a \<le> max (tx_attempts t) (pc_maxAttempts cfg)"
  shows "payout_le cfg t (apply_patch p t)"
  using assms by (auto simp: payout_le_def payout_identity_def split: option.splits)

lemma empty_patch_sel [simp]:
  "p_status empty_patch = None" "p_signedXdr empty_patch = None" "p_txHash empty_patch = None"
  "p_errorMessage empty_patch = None" "p_attempts empty_patch = None"
  "p_updatedAt empty_patch = None" "p_confirmedAt empty_patch = None"
  by (simp_all add: empty_patch_def)

lemma failed_patch_sel [simp]:
  "p_status (failed_patch m now) = Some Failed" "p_attempts (failed_patch m now) = None"
  by (simp_all add: failed_patch_def)

lemma on_breaker_db [simp]:
  "py_db (snd (on_breaker t0 r t1 s)) = py_db s"
  by (simp add: on_breaker_def split: prod.split)

lemma on_breaker_result: "on_breaker t0 r t1 s = (x, s') \<Longrightarrow> py_db s' = py_db s"
  by (metis on_breaker_db snd_conv)

section \<open>One operation\<close>

context tx_repository
begin

lemma db_update_result:
  assumes "inv (py_db s)" and "db_update R i p now s = (r, s')"
  shows "(\<exists>e. r = Inl e \<and> s' = s) \<or>
    (\<exists>t t'. r = Inr t' \<and> repo_findById R i (py_db s) = Some t \<and> inv (py_db s') \<and>
      no_times t' = no_times (apply_patch p t) \<and> py_breaker s' = py_breaker s \<and>
      py_payoutsSuccess s' = py_payoutsSuccess s \<and>
      (\<forall>j. repo_findById R j (py_db s') = (if j = i then Some t' else repo_findById R j (py_db s))))"
proof -
  obtain x d where u: "repo_update R i p now (py_db s) = (x, d)"
    by (cases "repo_update R i p now (py_db s)")
  with assms(2) have "r = x" "s' = s\<lparr>py_db := d\<rparr>"
    by (auto simp: db_update_def)
  with update_result [OF assms(1) u] show ?thesis by auto
qed

lemma db_update_moves:
  assumes "inv (py_db s)" and "repo_findById R i (py_db s) = Some t"
    and "payout_le cfg t (apply_patch p t)" and "db_update R i p now s = (r, s')"
  shows "inv (py_db s') \<and> moves R cfg i (py_db s) (py_db s')"
proof -
  have "payout_le cfg t t'" if "no_times t' = no_times (apply_patch p t)" for t'
    using that assms(3) by (rule payout_le_no_times)
  then show ?thesis
    using db_update_result [OF assms(1,4)] assms(1,2) by (auto simp: moves_def)
qed

lemma db_update_error:
  assumes "inv (py_db s)" and "db_update R i p now s = (Inl e, s')"
  shows "s' = s"
  using db_update_result [OF assms] by auto

lemma as_submit_error: "as_submit b x = (Inl e, s') \<Longrightarrow> x = (Inl e, s')"
  by (auto simp: as_submit_def split: prod.splits sum.splits)

lemma as_submit_state: "as_submit b x = (r, s') \<Longrightarrow> s' = snd x"
  by (auto simp: as_submit_def split: prod.splits sum.splits)

lemma as_submit_update:
  assumes "inv (py_db s)" and "repo_findById R i (py_db s) = Some t"
    and "payout_le cfg t (apply_patch p t)" and "as_submit b (db_update R i p now s) = (r, s')"
  shows "inv (py_db s') \<and> moves R cfg i (py_db s) (py_db s')"
  using db_update_moves [OF assms(1-3), of now "fst (db_update R i p now s)" "snd (db_update R i p now s)"]
    as_submit_state [OF assms(4)] by simp

lemma submit_attempt_moves:
  assumes "inv (py_db s)" and "repo_findById R (tx_id t) (py_db s) = Some t"
    and "tx_status t = Queued" and "a = tx_attempts t + 1" and "a \<le> pc_maxAttempts cfg"
    and "submit_attempt R cfg sdk env t xdr a s = (r, s')"
  shows "inv (py_db s') \<and> moves R cfg (tx_id t) (py_db s) (py_db s') \<and> (\<forall>e. r = Inl e \<longrightarrow> py_db s' = py_db s)"
proof (cases "sdk_fromXDR sdk xdr (pc_networkPassphrase cfg)")
  case (Inl e)
  then show ?thesis using assms(1,6) by (auto simp: submit_attempt_def)
next
  case (Inr parsed)
  obtain x s1 where b: "on_breaker (env_clock env 0) (env_send env parsed) (env_clock env 1) s = (x, s1)"
    by (cases "on_breaker (env_clock env 0) (env_send env parsed) (env_clock env 1) s")
  note db = on_breaker_result [OF b]
  show ?thesis
  proof (cases x)
    case (Inl e)
    then show ?thesis using assms(1,6) Inr b db
      by (cases e) (auto simp: submit_attempt_def)
  next
    case x: (Inr res)
    obtain sub p now where p: "as_submit sub (db_update R (tx_id t) p now s1) = (r, s')"
      "p_status p \<in> {None, Some Failed, Some Submitted}" "p_attempts p = Some a"
      using assms(6) Inr b x by (cases "sr_status res") (force simp: submit_attempt_def)+
    have le: "payout_le cfg t (apply_patch p t)"
      using p(2,3) assms(3-5) by (intro payout_le_patch) auto
    have inv1: "inv (py_db s1)" "repo_findById R (tx_id t) (py_db s1) = Some t"
      using assms(1,2) db by simp_all
    have "\<forall>e. r = Inl e \<longrightarrow> py_db s' = py_db s1"
      using p(1) as_submit_error db_update_error [OF inv1(1)] by blast
    then show ?thesis
      using as_submit_update [OF inv1 le p(1)] db by simp
  qed
qed

lemma requireTransaction_Inr:
  "requireTransaction R i d = Inr t \<longleftrightarrow> repo_findById R i d = Some t"
  by (auto simp: requireTransaction_def split: option.splits)

lemma submit_moves:
  assumes "inv (py_db s)" and "submitQueuedTransaction R cfg sdk env i s = (r, s')"
  shows "inv (py_db s') \<and> moves R cfg i (py_db s) (py_db s')"
proof (cases "requireTransaction R i (py_db s)")
  case (Inl e)
  then show ?thesis using assms by (auto simp: submitQueuedTransaction_def)
next
  case (Inr t)
  then have f: "repo_findById R i (py_db s) = Some t" "tx_id t = i"
    using find_id [OF assms(1)] by (auto simp: requireTransaction_Inr)
  show ?thesis
  proof (cases "tx_status t = Queued \<and> pc_liveExecution cfg")
    case False
    then show ?thesis using assms Inr by (auto simp: submitQueuedTransaction_def split: if_splits)
  next
    case True
    have le: "payout_le cfg t (apply_patch (failed_patch m now) t)" for m now
      using True by (intro payout_le_patch) auto
    show ?thesis
    proof (cases "truthy (tx_signedXdr t) \<and> tx_attempts t < pc_maxAttempts cfg")
      case False
      with True assms(2) Inr f(2) obtain m now where
        "as_submit False (db_update R i (failed_patch m now) now s) = (r, s')"
        by (auto simp: submitQueuedTransaction_def split: if_splits)
      from as_submit_update [OF assms(1) f(1) le this] show ?thesis .
    next
      case ready: True
      let ?a = "tx_attempts t + 1"
      obtain x s1 where x: "submit_attempt R cfg sdk env t (the (tx_signedXdr t)) ?a s = (x, s1)"
        by (cases "submit_attempt R cfg sdk env t (the (tx_signedXdr t)) ?a s")
      have ev: "inv (py_db s1) \<and> moves R cfg i (py_db s) (py_db s1) \<and> (\<forall>e. x = Inl e \<longrightarrow> py_db s1 = py_db s)"
        using submit_attempt_moves [OF assms(1) _ _ refl _ x] f True ready by simp
      show ?thesis
      proof (cases x)
        case (Inl e)
        with ev have db: "py_db s1 = py_db s" by simp
        obtain p now where p: "as_submit False (db_update R i p now s1) = (r, s')"
          "p_status p = Some Failed" "p_attempts p = Some ?a"
          using assms(2) Inr True ready x Inl f(2) by (auto simp: submitQueuedTransaction_def Let_def)
        have "payout_le cfg t (apply_patch p t)"
          using p(2,3) True ready by (intro payout_le_patch) auto
        from as_submit_update [OF _ _ this p(1)] show ?thesis
          using db assms(1) f(1) by simp
      next
        case (Inr y)
        then show ?thesis
          using assms(2) \<open>requireTransaction R i (py_db s) = Inr t\<close> True ready x ev
          by (auto simp: submitQueuedTransaction_def Let_def)
      qed
    qed
  qed
qed

lemma queue_moves:
  assumes "inv (py_db s)" and "queueSignedTransaction R cfg sdk i xdr now s = (r, s')"
  shows "inv (py_db s') \<and> moves R cfg i (py_db s) (py_db s')"
proof (cases "requireTransaction R i (py_db s)")
  case (Inl e)
  then show ?thesis using assms by (auto simp: queueSignedTransaction_def)
next
  case (Inr t)
  then have f: "repo_findById R i (py_db s) = Some t" by (simp add: requireTransaction_Inr)
  let ?p = "empty_patch\<lparr>p_signedXdr := Some (Some xdr), p_status := Some Queued,
      p_errorMessage := Some None, p_updatedAt := Some now\<rparr>"
  show ?thesis
  proof (cases "db_update R i ?p now s = (r, s') \<and> tx_status t \<in> {AwaitingSignature, Built}")
    case True
    then have "payout_le cfg t (apply_patch ?p t)"
      by (intro payout_le_patch) auto
    with db_update_moves [OF assms(1) f] True show ?thesis by blast
  next
    case False
    then show ?thesis using assms Inr
      by (auto simp: queueSignedTransaction_def split: if_splits sum.splits)
  qed
qed

lemma confirm_moves:
  assumes "inv (py_db s)" and "confirmSubmittedTransaction R env i s = (r, s')"
  shows "inv (py_db s') \<and> moves R cfg i (py_db s) (py_db s')"
proof (cases "requireTransaction R i (py_db s)")
  case (Inl e)
  then show ?thesis using assms by (auto simp: confirmSubmittedTransaction_def)
next
  case (Inr t)
  then have f: "repo_findById R i (py_db s) = Some t" "tx_id t = i"
    using find_id [OF assms(1)] by (auto simp: requireTransaction_Inr)
  show ?thesis
  proof (cases "tx_status t = Submitted \<and> truthy (tx_txHash t)")
    case False
    then show ?thesis using assms Inr by (auto simp: confirmSubmittedTransaction_def)
  next
    case True
    obtain x s1 where b: "on_breaker (env_clock env 0) (env_getTransaction env (the (tx_txHash t)))
        (env_clock env 1) s = (x, s1)"
      by (cases "on_breaker (env_clock env 0) (env_getTransaction env (the (tx_txHash t))) (env_clock env 1) s")
    note db = on_breaker_result [OF b]
    have upd: "inv (py_db s') \<and> moves R cfg i (py_db s) (py_db s')"
      if "db_update R i p now s2 = (r, s')" "py_db s2 = py_db s"
        "p_status p \<in> {Some Confirmed, Some Failed}" "p_attempts p = None" for p now s2
    proof -
      have "payout_le cfg t (apply_patch p t)"
        using that(3,4) True by (intro payout_le_patch) auto
      from db_update_moves [OF _ _ this that(1)] show ?thesis
        using that(2) assms(1) f(1) by simp
    qed
    show ?thesis
    proof (cases x)
      case (Inl e)
      then show ?thesis using assms Inr True b db
        by (cases e) (auto simp: confirmSubmittedTransaction_def)
    next
      case x: (Inr c)
      show ?thesis
      proof (cases c)
        case ChainSuccess
        then have "db_update R i (empty_patch\<lparr>p_status := Some Confirmed,
            p_confirmedAt := Some (Some (env_clock env 2)), p_updatedAt := Some (env_clock env 3),
            p_errorMessage := Some None\<rparr>) (env_clock env 3)
            (s1\<lparr>py_payoutsSuccess := py_payoutsSuccess s1 @ [tx_asset t]\<rparr>) = (r, s')"
          using assms(2) Inr True b x f(2) by (simp add: confirmSubmittedTransaction_def)
        from upd [OF this] db show ?thesis by simp
      next
        case ChainFailed
        then have "db_update R i (failed_patch ''Transaction failed on-chain'' (env_clock env 2))
            (env_clock env 2) s1 = (r, s')"
          using assms(2) Inr True b x f(2) by (simp add: confirmSubmittedTransaction_def)
        from upd [OF this] db show ?thesis by simp
      next
        case (ChainOther m)
        then show ?thesis
          using assms Inr True b db x by (auto simp: confirmSubmittedTransaction_def)
      qed
    qed
  qed
qed

lemma poll_loop_evolves:
  assumes "inv (py_db s)" and "poll_loop R envs n k t s = (r, s')"
  shows "inv (py_db s') \<and> evolves R cfg (py_db s) (py_db s')"
  using assms
proof (induction n arbitrary: k t s)
  case 0
  then show ?case by simp
next
  case (Suc n)
  obtain x s1 where x: "confirmSubmittedTransaction R (envs k) (tx_id t) s = (x, s1)"
    by (cases "confirmSubmittedTransaction R (envs k) (tx_id t) s")
  have c: "inv (py_db s1) \<and> evolves R cfg (py_db s) (py_db s1)"
    using confirm_moves [OF Suc.prems(1) x, of cfg] by (auto intro: moves_evolves)
  show ?case
  proof (cases x)
    case (Inl e)
    then show ?thesis using Suc.prems x c by simp
  next
    case (Inr u)
    show ?thesis
    proof (cases "tx_status u = Confirmed \<or> tx_status u = Failed")
      case True
      then show ?thesis using Suc.prems x c Inr by auto
    next
      case False
      then have "poll_loop R envs n (Suc k) u s1 = (r, s')" using Suc.prems(2) x Inr by simp
      from Suc.IH [OF _ this] c show ?thesis by (blast intro: evolves_trans)
    qed
  qed
qed

lemma poll_evolves:
  assumes "inv (py_db s)" and "pollConfirmation R cfg envs i s = (r, s')"
  shows "inv (py_db s') \<and> evolves R cfg (py_db s) (py_db s')"
proof (cases "requireTransaction R i (py_db s)")
  case (Inl e)
  then show ?thesis using assms by (simp add: pollConfirmation_def)
next
  case (Inr t)
  then have "poll_loop R envs (pc_confirmMaxPolls cfg) 0 t s = (r, s')"
    using assms(2) by (simp add: pollConfirmation_def)
  then show ?thesis by (rule poll_loop_evolves [OF assms(1)])
qed

end

section \<open>Creation\<close>

lemma build_db:
  "buildPreparedTransaction cfg sdk env req s = (r, s') \<Longrightarrow> py_db s' = py_db s"
  unfolding buildPreparedTransaction_def
  by (auto dest!: on_breaker_result split: prod.splits sum.splits)

lemma build_amount:
  "buildPreparedTransaction cfg sdk env req s = (Inr (tx, stroops), s') \<Longrightarrow>
     toStroops (pr_amount req) = Inr stroops"
  unfolding buildPreparedTransaction_def by (auto split: prod.splits sum.splits)

definition start_status :: "payment_config \<Rightarrow> payment_status" where
  "start_status cfg =
     (if \<not> pc_liveExecution cfg then Built
      else if pc_signWithHotKey cfg \<and> truthy (pc_hotSignerSecret cfg) then Queued
      else AwaitingSignature)"

lemma initial_status_cases:
  "initial_status cfg sdk tx = Inr (st, signed) \<Longrightarrow>
     st = start_status cfg \<and> (st = Queued \<longleftrightarrow> signed \<noteq> None)"
  by (auto simp: initial_status_def start_status_def split: if_splits sum.splits)

lemma checked_Some: "checked P x = Some s \<longleftrightarrow> x = Some s \<and> P s"
  by (auto simp: checked_def split: option.splits)

lemma parse_payout_request_valid:
  assumes "parse_payout_request v = Inr req"
  shows "amount_regex (pr_amount req)" "public_key_regex (pr_destinationAccount req)"
    "idempotency_regex (pr_idempotencyKey req)"
  using assms by (auto simp: parse_payout_request_def checked_Some split: option.splits)

context tx_repository
begin

lemma create_existing:
  assumes "parse_payout_request input = Inr req"
    and "repo_findByIdempotencyKey R (pr_idempotencyKey req) (py_db s) = Some t"
  shows "createPayoutTransaction R cfg sdk env input s =
    (Inr \<lparr>br_mode = deriveResponseMode (tx_status t), br_transaction = t,
          br_unsignedXdr = tx_unsignedXdr t\<rparr>, s)"
  using assms by (simp add: createPayoutTransaction_def)

text \<open>A call that creates a record: what it stores, and that it stores nothing else.\<close>

lemma create_new:
  assumes "inv (py_db s)" and "env_uuid env \<noteq> []"
    and "repo_findById R (env_uuid env) (py_db s) = None"
    and "parse_payout_request input = Inr req"
    and "repo_findByIdempotencyKey R (pr_idempotencyKey req) (py_db s) = None"
    and "createPayoutTransaction R cfg sdk env input s = (r, s')"
  shows "inv (py_db s') \<and>
    ((\<exists>e. r = Inl e \<and> (\<forall>i. repo_findById R i (py_db s') = repo_findById R i (py_db s))) \<or>
     (\<exists>nonce unsigned signed st stroops t t'.
        toStroops (pr_amount req) = Inr stroops \<and>
        t = new_record cfg req (env_uuid env) stroops nonce st unsigned signed (env_clock env 4) \<and>
        st = start_status cfg \<and> (st = Queued \<longleftrightarrow> signed \<noteq> None) \<and>
        r = Inr \<lparr>br_mode = deriveResponseMode st, br_transaction = t, br_unsignedXdr = unsigned\<rparr> \<and>
        no_times t' = no_times t \<and>
        (\<forall>i. repo_findById R i (py_db s') =
          (if i = env_uuid env then Some t' else repo_findById R i (py_db s)))))"
proof -
  obtain nonce d1 where n: "repo_reserveNextNonce R (pc_sourceAccount cfg) (py_db s) = (nonce, d1)"
    by (cases "repo_reserveNextNonce R (pc_sourceAccount cfg) (py_db s)")
  have d1: "inv d1" "\<And>i. repo_findById R i d1 = repo_findById R i (py_db s)"
    "\<And>k. repo_findByIdempotencyKey R k d1 = repo_findByIdempotencyKey R k (py_db s)"
    using nonce_frame [OF assms(1) n] by simp_all
  obtain x s2 where b: "buildPreparedTransaction cfg sdk env req (s\<lparr>py_db := d1\<rparr>) = (x, s2)"
    by (cases "buildPreparedTransaction cfg sdk env req (s\<lparr>py_db := d1\<rparr>)")
  have s2: "py_db s2 = d1" using build_db [OF b] by simp
  show ?thesis
  proof (cases x)
    case (Inl e)
    then show ?thesis using assms(4-6) n b s2 d1 by (auto simp: createPayoutTransaction_def)
  next
    case (Inr y)
    obtain tx stroops where y: "y = (tx, stroops)" by (cases y)
    have "buildPreparedTransaction cfg sdk env req (s\<lparr>py_db := d1\<rparr>) = (Inr (tx, stroops), s2)"
      using b Inr y by simp
    then have am: "toStroops (pr_amount req) = Inr stroops" by (rule build_amount)
    show ?thesis
    proof (cases "initial_status cfg sdk tx")
      case (Inl e)
      then show ?thesis using assms(4-6) n b s2 d1 \<open>x = Inr y\<close> y
        by (auto simp: createPayoutTransaction_def)
    next
      case (Inr z)
      obtain st signed where z: "z = (st, signed)" by (cases z)
      note st = initial_status_cases [OF Inr [unfolded z]]
      let ?t = "new_record cfg req (env_uuid env) stroops nonce st (sdk_toXDR sdk tx) signed (env_clock env 4)"
      obtain q d3 where ins: "repo_insert R ?t (env_clock env 5) d1 = (q, d3)"
        by (cases "repo_insert R ?t (env_clock env 5) d1")
      note run = assms(4-6) n b s2 \<open>x = Inr y\<close> y Inr z ins
      show ?thesis
      proof (cases q)
        case (Inl e)
        then have "d3 = d1" using insert_error [OF d1(1)] ins by blast
        then show ?thesis using run d1 Inl by (auto simp: createPayoutTransaction_def Let_def)
      next
        case (Inr u)
        have "inv d3 \<and> (\<exists>t'. no_times t' = no_times ?t \<and>
            (\<forall>i. repo_findById R i d3 = (if i = tx_id ?t then Some t' else repo_findById R i d1)))"
          using assms(2,3,5) d1 ins Inr
          by (intro insert_ok [of d1 ?t "env_clock env 5" d3]) (auto simp: new_record_def)
        then obtain t' where t': "inv d3" "no_times t' = no_times ?t"
          "\<And>i. repo_findById R i d3 = (if i = env_uuid env then Some t' else repo_findById R i (py_db s))"
          using d1(2) by (auto simp: new_record_def)
        have r: "r = Inr \<lparr>br_mode = deriveResponseMode st, br_transaction = ?t,
            br_unsignedXdr = sdk_toXDR sdk tx\<rparr>" "py_db s' = d3"
          using run Inr by (auto simp: createPayoutTransaction_def Let_def)
        have "inv (py_db s')" using t'(1) r(2) by simp
        moreover have "\<forall>i. repo_findById R i (py_db s') =
            (if i = env_uuid env then Some t' else repo_findById R i (py_db s))"
          using t'(3) r(2) by simp
        ultimately show ?thesis
          using am st t'(2) r(1) by blast
      qed
    qed
  qed
qed

end

end
