(* ===== verification/Worker.thy ===== *)
theory Worker
  imports PaymentFlow
begin

text \<open>
  The background side of the payments: the batch worker (backend/src/workers/paymentWorker.ts), the
  confirmation job and its dead-letter handler (workers/txReconciler.ts) on the queue of
  queues/txQueue.ts. The queue is the list of the jobs added to it; whether Redis accepts a job
  is an argument.
\<close>

section \<open>The batch worker\<close>

record payment_worker =
  wk_txQueue :: bool
  wk_failedRetryMax :: nat
  wk_failedRetryBaseMs :: int

definition DEFAULT_FAILED_RETRY_MAX :: nat where
  "DEFAULT_FAILED_RETRY_MAX = 3"

definition DEFAULT_FAILED_RETRY_BASE_MS :: int where
  "DEFAULT_FAILED_RETRY_BASE_MS = 5000"

fun or_default :: "'a option \<Rightarrow> 'a \<Rightarrow> 'a" where
  "or_default None d = d"
| "or_default (Some x) d = x"

definition new_worker :: "bool \<Rightarrow> nat option \<Rightarrow> int option \<Rightarrow> payment_worker" where
  "new_worker q m b = \<lparr>wk_txQueue = q, wk_failedRetryMax = or_default m DEFAULT_FAILED_RETRY_MAX,
     wk_failedRetryBaseMs = or_default b DEFAULT_FAILED_RETRY_BASE_MS\<rparr>"

record worker_result =
  wr_processed :: nat
  wr_submitted :: nat
  wr_confirmed :: nat
  wr_failed :: nat
  wr_retried :: nat
  wr_deadLettered :: nat

definition no_results :: "nat \<Rightarrow> worker_result" where
  "no_results n = \<lparr>wr_processed = n, wr_submitted = 0, wr_confirmed = 0, wr_failed = 0,
     wr_retried = 0, wr_deadLettered = 0\<rparr>"

record 's work_state =
  wt_pay :: "'s pay_state"
  wt_jobs :: "string list"
  wt_result :: worker_result

datatype failed_outcome = Retried | DeadLettered | Waiting

definition dead_letter_message :: "tx_record \<Rightarrow> string" where
  "dead_letter_message t = ''Dead-lettered after '' @ dec_digits (tx_attempts t) @ '' attempt(s): '' @
     or_default (tx_errorMessage t) ''unknown failure''"

definition backoff_ms :: "payment_worker \<Rightarrow> nat \<Rightarrow> int" where
  "backoff_ms wk attempts = wk_failedRetryBaseMs wk * 2 ^ (attempts - 1)"

definition handleFailedTransaction ::
    "'s tx_repo \<Rightarrow> payment_worker \<Rightarrow> (nat \<Rightarrow> int) \<Rightarrow> tx_record \<Rightarrow> 's pay_state \<Rightarrow>
     (js_error + failed_outcome) \<times> 's pay_state" where
  "handleFailedTransaction R wk clock t s =
     (if \<not> truthy (tx_signedXdr t) \<or> tx_attempts t \<ge> wk_failedRetryMax wk
      then (case db_update R (tx_id t) (empty_patch\<lparr>p_status := Some Dead,
                    p_errorMessage := Some (Some (dead_letter_message t)),
                    p_updatedAt := Some (clock 0)\<rparr>) (clock 0) s of
              (Inl e, s1) \<Rightarrow> (Inl e, s1)
            | (Inr _, s1) \<Rightarrow> (Inr DeadLettered, s1))
      else if clock 0 - tx_updatedAt t < backoff_ms wk (tx_attempts t) then (Inr Waiting, s)
      else (case db_update R (tx_id t) (empty_patch\<lparr>p_status := Some Queued,
                    p_updatedAt := Some (clock 1)\<rparr>) (clock 1) s of
              (Inl e, s1) \<Rightarrow> (Inl e, s1)
            | (Inr _, s1) \<Rightarrow> (Inr Retried, s1)))"

text \<open>
  The body of the loop, on the record \<open>t\<close> as it was listed. \<open>add\<close> is what
  \<open>txQueue.add\<close> settles to.
\<close>

definition count_failed :: "worker_result \<Rightarrow> worker_result" where
  "count_failed c = c\<lparr>wr_failed := wr_failed c + 1\<rparr>"

definition process_failed ::
    "'s tx_repo \<Rightarrow> payment_worker \<Rightarrow> ('acct, 'tx, 'sc) rpc_env \<Rightarrow> tx_record \<Rightarrow> 's work_state \<Rightarrow> 's work_state" where
  "process_failed R wk env t w =
     (case handleFailedTransaction R wk (env_clock env) t (wt_pay w) of
        (Inl e, s1) \<Rightarrow> w\<lparr>wt_pay := s1, wt_result := count_failed (wt_result w)\<rparr>
      | (Inr Retried, s1) \<Rightarrow>
          w\<lparr>wt_pay := s1, wt_result := (wt_result w)\<lparr>wr_retried := wr_retried (wt_result w) + 1\<rparr>\<rparr>
      | (Inr DeadLettered, s1) \<Rightarrow>
          w\<lparr>wt_pay := s1, wt_result := (wt_result w)\<lparr>wr_deadLettered := wr_deadLettered (wt_result w) + 1\<rparr>\<rparr>
      | (Inr Waiting, s1) \<Rightarrow> w\<lparr>wt_pay := s1\<rparr>)"

definition process_queued ::
    "'s tx_repo \<Rightarrow> payment_config \<Rightarrow> ('acct, 'tx, 'sc) stellar_sdk \<Rightarrow> payment_worker \<Rightarrow>
     (js_error + unit) \<Rightarrow> ('acct, 'tx, 'sc) rpc_env \<Rightarrow> tx_record \<Rightarrow> 's work_state \<Rightarrow> 's work_state" where
  "process_queued R cfg sdk wk add env t w =
     (case submitQueuedTransaction R cfg sdk env (tx_id t) (wt_pay w) of
        (Inl e, s1) \<Rightarrow> w\<lparr>wt_pay := s1, wt_result := count_failed (wt_result w)\<rparr>
      | (Inr r, s1) \<Rightarrow>
          let c = wt_result w;
              c1 = (if su_submitted r then c\<lparr>wr_submitted := wr_submitted c + 1\<rparr> else c)
          in if su_submitted r \<and> wk_txQueue wk
             then (case add of
                     Inl e \<Rightarrow> w\<lparr>wt_pay := s1, wt_result := count_failed c1\<rparr>
                   | Inr _ \<Rightarrow>
                       w\<lparr>wt_pay := s1, wt_jobs := wt_jobs w @ [tx_id t],
                         wt_result := (if tx_status (su_transaction r) = Failed then count_failed c1 else c1)\<rparr>)
             else w\<lparr>wt_pay := s1,
                    wt_result := (if tx_status (su_transaction r) = Failed then count_failed c1 else c1)\<rparr>)"

definition process_submitted ::
    "'s tx_repo \<Rightarrow> payment_worker \<Rightarrow> ('acct, 'tx, 'sc) rpc_env \<Rightarrow> tx_record \<Rightarrow> 's work_state \<Rightarrow> 's work_state" where
  "process_submitted R wk env t w =
     (if wk_txQueue wk then w
      else (case confirmSubmittedTransaction R env (tx_id t) (wt_pay w) of
              (Inl e, s1) \<Rightarrow> w\<lparr>wt_pay := s1, wt_result := count_failed (wt_result w)\<rparr>
            | (Inr u, s1) \<Rightarrow>
                if tx_status u = Confirmed
                then w\<lparr>wt_pay := s1, wt_result := (wt_result w)\<lparr>wr_confirmed := wr_confirmed (wt_result w) + 1\<rparr>\<rparr>
                else if tx_status u = Failed
                then w\<lparr>wt_pay := s1, wt_result := count_failed (wt_result w)\<rparr>
                else w\<lparr>wt_pay := s1\<rparr>))"

definition process_one ::
    "'s tx_repo \<Rightarrow> payment_config \<Rightarrow> ('acct, 'tx, 'sc) stellar_sdk \<Rightarrow> payment_worker \<Rightarrow>
     (js_error + unit) \<Rightarrow> ('acct, 'tx, 'sc) rpc_env \<Rightarrow> tx_record \<Rightarrow> 's work_state \<Rightarrow> 's work_state" where
  "process_one R cfg sdk wk add env t w =
     (if tx_status t = Failed then process_failed R wk env t w
      else if tx_status t = Queued then process_queued R cfg sdk wk add env t w
      else process_submitted R wk env t w)"

text \<open>The loop: the \<open>k\<close>-th record of the batch sees \<open>adds k\<close> and \<open>envs k\<close>.\<close>

fun process_loop ::
    "'s tx_repo \<Rightarrow> payment_config \<Rightarrow> ('acct, 'tx, 'sc) stellar_sdk \<Rightarrow> payment_worker \<Rightarrow>
     (nat \<Rightarrow> js_error + unit) \<Rightarrow> (nat \<Rightarrow> ('acct, 'tx, 'sc) rpc_env) \<Rightarrow> nat \<Rightarrow> tx_record list \<Rightarrow>
     's work_state \<Rightarrow> 's work_state" where
  "process_loop R cfg sdk wk adds envs k [] w = w"
| "process_loop R cfg sdk wk adds envs k (t # ts) w =
     process_loop R cfg sdk wk adds envs (Suc k) ts
       (process_one R cfg sdk wk (adds k) (envs k) t w)"

definition batch_statuses :: "payment_status list" where
  "batch_statuses = [Queued, Submitted, Failed]"

definition processBatch ::
    "'s tx_repo \<Rightarrow> payment_config \<Rightarrow> ('acct, 'tx, 'sc) stellar_sdk \<Rightarrow> payment_worker \<Rightarrow>
     (nat \<Rightarrow> js_error + unit) \<Rightarrow> (nat \<Rightarrow> ('acct, 'tx, 'sc) rpc_env) \<Rightarrow> int \<Rightarrow> 's pay_state \<Rightarrow>
     string list \<Rightarrow> 's work_state" where
  "processBatch R cfg sdk wk adds envs limit s jobs =
     (let pending = repo_listByStatus R batch_statuses limit (py_db s) in
      process_loop R cfg sdk wk adds envs 0 pending
        \<lparr>wt_pay = s, wt_jobs = jobs, wt_result = no_results (length pending)\<rparr>)"

section \<open>The confirmation job\<close>

definition TX_CONFIRM_ATTEMPTS :: nat where
  "TX_CONFIRM_ATTEMPTS = 10"

definition reconcile_job ::
    "'s tx_repo \<Rightarrow> ('acct, 'tx, 'sc) rpc_env \<Rightarrow> string \<Rightarrow> 's pay_state \<Rightarrow> (js_error + unit) \<times> 's pay_state" where
  "reconcile_job R env i s =
     (case confirmSubmittedTransaction R env i s of
        (Inl e, s1) \<Rightarrow> (Inl e, s1)
      | (Inr t, s1) \<Rightarrow>
          if tx_status t = Submitted
          then (Inl (Error (''Transaction '' @ i @ '' still pending on-chain'')), s1)
          else (Inr (), s1))"

definition on_job_failed ::
    "'s tx_repo \<Rightarrow> string \<Rightarrow> nat option \<Rightarrow> nat \<Rightarrow> js_error \<Rightarrow> int \<Rightarrow> 's pay_state \<Rightarrow>
     (js_error + unit) \<times> 's pay_state" where
  "on_job_failed R i optAttempts attemptsMade err now s =
     (let maxAttempts = or_default optAttempts TX_CONFIRM_ATTEMPTS in
      if attemptsMade < maxAttempts then (Inr (), s)
      else (case db_update R i (empty_patch\<lparr>p_status := Some Dead,
                    p_errorMessage := Some (Some (''Confirmation failed after '' @ dec_digits maxAttempts @
                       '' attempts: '' @ err_message err)),
                    p_updatedAt := Some now\<rparr>) now s of
              (Inl e, s1) \<Rightarrow> (Inl e, s1)
            | (Inr _, s1) \<Rightarrow> (Inr (), s1)))"

end
