(* ===== verification/WorkerFlow.thy ===== *)
theory WorkerFlow
  imports Worker
begin

text \<open>
  The workers over any repository that keeps its contract: what one batch does to the store, its
  counters, and what becomes of a payout whose retries are used up.
\<close>

definition counted :: "worker_result \<Rightarrow> nat" where
  "counted c = wr_submitted c + wr_confirmed c + wr_failed c + wr_retried c + wr_deadLettered c"

lemma count_failed_sel [simp]:
  "counted (count_failed c) = Suc (counted c)" "wr_processed (count_failed c) = wr_processed c"
  "wr_deadLettered (count_failed c) = wr_deadLettered c" "wr_retried (count_failed c) = wr_retried c"
  by (simp_all add: count_failed_def counted_def)

context tx_repository
begin

section \<open>One record of the batch\<close>

lemma handle_failed_moves:
  assumes "inv (py_db s)" and "repo_findById R (tx_id t) (py_db s) = Some t"
    and "tx_status t = Failed" and "handleFailedTransaction R wk clock t s = (r, s')"
  shows "inv (py_db s') \<and> moves R cfg (tx_id t) (py_db s) (py_db s')"
proof -
  have upd: "inv (py_db s1) \<and> moves R cfg (tx_id t) (py_db s) (py_db s1)"
    if "db_update R (tx_id t) p now s = (x, s1)" "p_status p \<in> {Some Dead, Some Queued}"
      "p_attempts p = None" for p now x s1
  proof -
    have "payout_le cfg t (apply_patch p t)"
      using that(2,3) assms(3) by (intro payout_le_patch) auto
    from db_update_moves [OF assms(1,2) this that(1)] show ?thesis .
  qed
  show ?thesis
  proof (cases "r = Inr Waiting \<and> s' = s")
    case True
    then show ?thesis using assms(1) by simp
  next
    case False
    then obtain p now x where "db_update R (tx_id t) p now s = (x, s')"
      "p_status p \<in> {Some Dead, Some Queued}" "p_attempts p = None"
      using assms(4) unfolding handleFailedTransaction_def
      by (force split: if_splits prod.splits sum.splits)
    from upd [OF this] show ?thesis .
  qed
qed

lemma process_one_moves:
  assumes "inv (py_db (wt_pay w))" and "repo_findById R (tx_id t) (py_db (wt_pay w)) = Some t"
  shows "inv (py_db (wt_pay (process_one R cfg sdk wk add env t w))) \<and>
    moves R cfg (tx_id t) (py_db (wt_pay w)) (py_db (wt_pay (process_one R cfg sdk wk add env t w)))"
proof -
  consider "tx_status t = Failed" | "tx_status t = Queued" | "tx_status t \<notin> {Failed, Queued}" by auto
  then show ?thesis
  proof cases
    case 1
    obtain r s1 where h: "handleFailedTransaction R wk (env_clock env) t (wt_pay w) = (r, s1)"
      by (cases "handleFailedTransaction R wk (env_clock env) t (wt_pay w)")
    have "wt_pay (process_one R cfg sdk wk add env t w) = s1"
      using 1 h by (simp add: process_one_def process_failed_def split: sum.split failed_outcome.split)
    then show ?thesis using handle_failed_moves [OF assms 1 h, of cfg] by simp
  next
    case 2
    obtain r s1 where h: "submitQueuedTransaction R cfg sdk env (tx_id t) (wt_pay w) = (r, s1)"
      by (cases "submitQueuedTransaction R cfg sdk env (tx_id t) (wt_pay w)")
    have "wt_pay (process_one R cfg sdk wk add env t w) = s1"
      using 2 h by (simp add: process_one_def process_queued_def Let_def split: sum.split)
    then show ?thesis using submit_moves [OF assms(1) h] by simp
  next
    case 3
    obtain r s1 where h: "confirmSubmittedTransaction R env (tx_id t) (wt_pay w) = (r, s1)"
      by (cases "confirmSubmittedTransaction R env (tx_id t) (wt_pay w)")
    have "wt_pay (process_one R cfg sdk wk add env t w) = (if wk_txQueue wk then wt_pay w else s1)"
      using 3 h by (simp add: process_one_def process_submitted_def split: sum.split)
    then show ?thesis using confirm_moves [OF assms(1) h, of cfg] assms(1) by simp
  qed
qed

text \<open>
  The batch works on the records as they were listed. No record is stale when its turn comes: a
  turn changes its own record only, and the listed ids are distinct.
\<close>

lemma loop_fresh:
  assumes "moves R cfg (tx_id t) d d'" and "distinct (map tx_id (t # ts))" and "u \<in> set ts"
    and "\<And>v. v \<in> set (t # ts) \<Longrightarrow> repo_findById R (tx_id v) d = Some v"
  shows "repo_findById R (tx_id u) d' = Some u"
proof -
  have "tx_id u \<noteq> tx_id t" using assms(2) imageI [OF assms(3), of tx_id] by auto
  then show ?thesis using moves_frame [OF assms(1)] assms(3,4) by simp
qed

lemma process_loop_evolves:
  assumes "inv (py_db (wt_pay w))" and "distinct (map tx_id ts)"
    and "\<And>t. t \<in> set ts \<Longrightarrow> repo_findById R (tx_id t) (py_db (wt_pay w)) = Some t"
  shows "inv (py_db (wt_pay (process_loop R cfg sdk wk adds envs k ts w))) \<and>
    evolves R cfg (py_db (wt_pay w)) (py_db (wt_pay (process_loop R cfg sdk wk adds envs k ts w)))"
  using assms
proof (induction ts arbitrary: k w)
  case Nil
  then show ?case by simp
next
  case (Cons t ts)
  let ?w = "process_one R cfg sdk wk (adds k) (envs k) t w"
  have one: "inv (py_db (wt_pay ?w))" "moves R cfg (tx_id t) (py_db (wt_pay w)) (py_db (wt_pay ?w))"
    using process_one_moves [OF Cons.prems(1), of t cfg sdk wk "adds k" "envs k"] Cons.prems(3) by simp_all
  note fresh = loop_fresh [OF one(2) Cons.prems(2) _ Cons.prems(3)]
  have "distinct (map tx_id ts)" using Cons.prems(2) by simp
  from Cons.IH [OF one(1) this fresh] show ?case
    using moves_evolves [OF one(2)] by (auto intro: evolves_trans)
qed

lemma batch_evolves:
  assumes "inv (py_db s)"
  shows "inv (py_db (wt_pay (processBatch R cfg sdk wk adds envs limit s jobs))) \<and>
    evolves R cfg (py_db s) (py_db (wt_pay (processBatch R cfg sdk wk adds envs limit s jobs)))"
proof -
  let ?ts = "repo_listByStatus R batch_statuses limit (py_db s)"
  let ?w = "\<lparr>wt_pay = s, wt_jobs = jobs, wt_result = no_results (length ?ts)\<rparr>"
  have "inv (py_db (wt_pay ?w))" using assms by simp
  moreover have "distinct (map tx_id ?ts)" using assms by (rule list_distinct)
  moreover have "repo_findById R (tx_id t) (py_db (wt_pay ?w)) = Some t" if "t \<in> set ?ts" for t
    using list_sound [OF assms that] by simp
  ultimately show ?thesis
    using process_loop_evolves [of ?w ?ts cfg sdk wk adds envs 0]
    by (simp add: processBatch_def Let_def)
qed

section \<open>Counters\<close>

lemma submitted_status:
  assumes "inv (py_db s)" and "submitQueuedTransaction R cfg sdk env i s = (Inr r, s')"
    and "su_submitted r"
  shows "tx_status (su_transaction r) = Submitted"
proof -
  have sub: "tx_status (su_transaction r) = Submitted"
    if x: "as_submit True (db_update R j p now s1) = (Inr r, s')" "p_status p = Some Submitted"
      "inv (py_db s1)" for j p now s1
  proof -
    obtain y s2 where d: "db_update R j p now s1 = (y, s2)" by (cases "db_update R j p now s1")
    with x(1) obtain t where t: "y = Inr t" "su_transaction r = t"
      by (auto simp: as_submit_def split: sum.splits)
    from db_update_result [OF x(3) d] t x(2) show ?thesis
      by (auto dest: no_times_eqD(2))
  qed
  have no: "\<not> su_submitted r" if "as_submit False (db_update R j p now s1) = (Inr r, s')" for j p now s1
    using that by (auto simp: as_submit_def split: prod.splits sum.splits)
  have att: "tx_status (su_transaction r) = Submitted"
    if "submit_attempt R cfg sdk env t xdr a s = (Inr r, s')" for t xdr a
    using that assms(1,3) no sub on_breaker_result
    unfolding submit_attempt_def
    by (fastforce split: sum.splits prod.splits js_error.splits send_status.splits)
  show ?thesis
    using assms(2,3) no att unfolding submitQueuedTransaction_def
    by (force simp: Let_def split: sum.splits if_splits prod.splits)
qed

lemma process_one_counted:
  assumes "inv (py_db (wt_pay w))" and "\<And>e. add \<noteq> Inl e"
  shows "counted (wt_result (process_one R cfg sdk wk add env t w)) \<le> Suc (counted (wt_result w))"
proof -
  have q: "counted (wt_result (process_queued R cfg sdk wk add env t w)) \<le> Suc (counted (wt_result w))"
  proof (cases "submitQueuedTransaction R cfg sdk env (tx_id t) (wt_pay w)")
    case (Pair x s1)
    show ?thesis
    proof (cases x)
      case (Inl e)
      then show ?thesis using Pair by (simp add: process_queued_def)
    next
      case (Inr r)
      then have "su_submitted r \<Longrightarrow> tx_status (su_transaction r) = Submitted"
        using submitted_status [OF assms(1)] Pair by blast
      then show ?thesis using Pair Inr assms(2)
        by (cases add) (auto simp: process_queued_def Let_def counted_def count_failed_def)
    qed
  qed
  have "counted (wt_result (process_failed R wk env t w)) \<le> Suc (counted (wt_result w))"
    by (auto simp: process_failed_def counted_def count_failed_def split: prod.split sum.split failed_outcome.split)
  moreover have "counted (wt_result (process_submitted R wk env t w)) \<le> Suc (counted (wt_result w))"
    by (auto simp: process_submitted_def counted_def count_failed_def split: prod.split sum.split)
  ultimately show ?thesis using q by (simp add: process_one_def)
qed

lemma process_loop_counted:
  assumes "inv (py_db (wt_pay w))" and "distinct (map tx_id ts)"
    and "\<And>t. t \<in> set ts \<Longrightarrow> repo_findById R (tx_id t) (py_db (wt_pay w)) = Some t"
    and "\<And>k e. adds k \<noteq> Inl e"
  shows "counted (wt_result (process_loop R cfg sdk wk adds envs k ts w)) \<le>
    counted (wt_result w) + length ts"
  using assms(1-3)
proof (induction ts arbitrary: k w)
  case Nil
  then show ?case by simp
next
  case (Cons t ts)
  let ?w = "process_one R cfg sdk wk (adds k) (envs k) t w"
  have one: "inv (py_db (wt_pay ?w))" "moves R cfg (tx_id t) (py_db (wt_pay w)) (py_db (wt_pay ?w))"
    using process_one_moves [OF Cons.prems(1), of t cfg sdk wk "adds k" "envs k"] Cons.prems(3) by simp_all
  note fresh = loop_fresh [OF one(2) Cons.prems(2) _ Cons.prems(3)]
  have "distinct (map tx_id ts)" using Cons.prems(2) by simp
  from Cons.IH [OF one(1) this fresh, of "Suc k"] show ?case
    using process_one_counted [OF Cons.prems(1), of "adds k" cfg sdk wk "envs k" t] assms(4) by simp
qed

lemma process_one_processed:
  "wr_processed (wt_result (process_one R cfg sdk wk add env t w)) = wr_processed (wt_result w)"
  by (simp add: process_one_def process_failed_def process_queued_def process_submitted_def Let_def
      split: prod.split sum.split failed_outcome.split)

lemma process_loop_processed:
  "wr_processed (wt_result (process_loop R cfg sdk wk adds envs k ts w)) = wr_processed (wt_result w)"
  by (induction ts arbitrary: k w) (simp_all add: process_one_processed)

lemma batch_counts:
  assumes "inv (py_db s)" and "0 \<le> limit" and "\<And>k e. adds k \<noteq> Inl e"
  shows "counted (wt_result (processBatch R cfg sdk wk adds envs limit s jobs)) \<le>
      wr_processed (wt_result (processBatch R cfg sdk wk adds envs limit s jobs)) \<and>
    int (wr_processed (wt_result (processBatch R cfg sdk wk adds envs limit s jobs))) \<le> limit"
proof -
  let ?ts = "repo_listByStatus R batch_statuses limit (py_db s)"
  let ?w = "\<lparr>wt_pay = s, wt_jobs = jobs, wt_result = no_results (length ?ts)\<rparr>"
  have start: "inv (py_db (wt_pay ?w))" using assms by simp
  have "repo_findById R (tx_id t) (py_db (wt_pay ?w)) = Some t" if "t \<in> set ?ts" for t
    using list_sound [OF assms(1) that] by simp
  from process_loop_counted [OF start list_distinct [OF assms(1)] this assms(3)]
  have "counted (wt_result (process_loop R cfg sdk wk adds envs 0 ?ts ?w)) \<le>
      counted (wt_result ?w) + length ?ts" .
  then show ?thesis
    using list_bound [OF assms(1,2), of batch_statuses]
    by (simp add: processBatch_def Let_def process_loop_processed no_results_def counted_def)
qed

section \<open>Dead letters\<close>

lemma dead_refused:
  assumes "inv (py_db s)" and "\<not> storable Dead" and "p_status p = Some Dead"
  shows "\<exists>e. db_update R i p now s = (Inl e, s)"
  using update_refused [OF assms(1,3,2), of i now] by (auto simp: db_update_def)

lemma no_dead_letter:
  assumes "inv (py_db (wt_pay w))" and "\<not> storable Dead"
  shows "wr_deadLettered (wt_result (process_one R cfg sdk wk add env t w)) =
    wr_deadLettered (wt_result w)"
proof -
  let ?p = "empty_patch\<lparr>p_status := Some Dead,
      p_errorMessage := Some (Some (dead_letter_message t)), p_updatedAt := Some (env_clock env 0)\<rparr>"
  obtain e where "db_update R (tx_id t) ?p (env_clock env 0) (wt_pay w) = (Inl e, wt_pay w)"
    using dead_refused [OF assms, of ?p "tx_id t" "env_clock env 0"] by auto
  then have "fst (handleFailedTransaction R wk (env_clock env) t (wt_pay w)) \<noteq> Inr DeadLettered"
    by (auto simp: handleFailedTransaction_def split: prod.split sum.split)
  then show ?thesis
    by (auto simp: process_one_def process_failed_def process_queued_def process_submitted_def Let_def
        count_failed_def split: prod.split sum.split failed_outcome.split)
qed

lemma dead_letter_stuck:
  assumes "inv (py_db s)" and "\<not> storable Dead"
    and "\<not> truthy (tx_signedXdr t) \<or> wk_failedRetryMax wk \<le> tx_attempts t"
  shows "\<exists>e. handleFailedTransaction R wk clock t s = (Inl e, s)"
proof -
  let ?p = "empty_patch\<lparr>p_status := Some Dead,
      p_errorMessage := Some (Some (dead_letter_message t)), p_updatedAt := Some (clock 0)\<rparr>"
  obtain e where "db_update R (tx_id t) ?p (clock 0) s = (Inl e, s)"
    using dead_refused [OF assms(1,2), of ?p "tx_id t" "clock 0"] by auto
  then show ?thesis using assms(3) by (auto simp: handleFailedTransaction_def)
qed

lemma loop_dead_letter:
  assumes "inv (py_db (wt_pay w))" and "distinct (map tx_id ts)"
    and "\<And>t. t \<in> set ts \<Longrightarrow> repo_findById R (tx_id t) (py_db (wt_pay w)) = Some t"
    and "\<not> storable Dead" and "repo_findById R (tx_id u) (py_db (wt_pay w)) = Some u"
    and "tx_status u = Failed" and "\<not> truthy (tx_signedXdr u) \<or> wk_failedRetryMax wk \<le> tx_attempts u"
  shows "wr_deadLettered (wt_result (process_loop R cfg sdk wk adds envs k ts w)) =
      wr_deadLettered (wt_result w) \<and>
    repo_findById R (tx_id u) (py_db (wt_pay (process_loop R cfg sdk wk adds envs k ts w))) = Some u"
  using assms(1-3,5)
proof (induction ts arbitrary: k w)
  case Nil
  then show ?case by simp
next
  case (Cons t ts)
  let ?w = "process_one R cfg sdk wk (adds k) (envs k) t w"
  have t: "repo_findById R (tx_id t) (py_db (wt_pay w)) = Some t" using Cons.prems(3) by simp
  have one: "inv (py_db (wt_pay ?w))" "moves R cfg (tx_id t) (py_db (wt_pay w)) (py_db (wt_pay ?w))"
    using process_one_moves [OF Cons.prems(1) t, of cfg sdk wk "adds k" "envs k"] by simp_all
  note fresh = loop_fresh [OF one(2) Cons.prems(2) _ Cons.prems(3)]
  have same: "repo_findById R (tx_id u) (py_db (wt_pay ?w)) = Some u"
  proof (cases "tx_id u = tx_id t")
    case True
    then have "t = u" using t Cons.prems(4) by simp
    obtain e where "handleFailedTransaction R wk (env_clock (envs k)) t (wt_pay w) = (Inl e, wt_pay w)"
      using dead_letter_stuck [OF Cons.prems(1) assms(4), of u wk "env_clock (envs k)"] assms(7)
        \<open>t = u\<close> by auto
    then show ?thesis using assms(6) \<open>t = u\<close> Cons.prems(4)
      by (simp add: process_one_def process_failed_def)
  next
    case False
    then show ?thesis using moves_frame [OF one(2)] Cons.prems(4) by simp
  qed
  have "distinct (map tx_id ts)" using Cons.prems(2) by simp
  from Cons.IH [OF one(1) this fresh same, of "Suc k"] show ?case
    using no_dead_letter [OF Cons.prems(1) assms(4), of cfg sdk wk "adds k" "envs k" t] by simp
qed

lemma batch_dead_letter:
  assumes "inv (py_db s)" and "\<not> storable Dead" and "repo_findById R (tx_id u) (py_db s) = Some u"
    and "tx_status u = Failed" and "\<not> truthy (tx_signedXdr u) \<or> wk_failedRetryMax wk \<le> tx_attempts u"
  shows "wr_deadLettered (wt_result (processBatch R cfg sdk wk adds envs limit s jobs)) = 0 \<and>
    repo_findById R (tx_id u) (py_db (wt_pay (processBatch R cfg sdk wk adds envs limit s jobs))) = Some u"
proof -
  let ?ts = "repo_listByStatus R batch_statuses limit (py_db s)"
  let ?w = "\<lparr>wt_pay = s, wt_jobs = jobs, wt_result = no_results (length ?ts)\<rparr>"
  have start: "inv (py_db (wt_pay ?w))" using assms by simp
  have found: "repo_findById R (tx_id t) (py_db (wt_pay ?w)) = Some t" if "t \<in> set ?ts" for t
    using list_sound [OF assms(1) that] by simp
  have "repo_findById R (tx_id u) (py_db (wt_pay ?w)) = Some u" using assms(3) by simp
  from loop_dead_letter [OF start list_distinct [OF assms(1)] found assms(2) this assms(4,5)]
  show ?thesis by (simp add: processBatch_def Let_def no_results_def)
qed

end

end
