(* ===== verification/PaymentProps.thy ===== *)
theory PaymentProps
  imports WorkerFlow
begin

text \<open>
  The properties of the payments that span the service, the workers and the repositories: the
  history of a payout under any sequence of operations, creation, the audit of signed
  transactions, submission, confirmation and dead letters.
\<close>

section \<open>Runs\<close>

text \<open>
  One operation of the service or of a worker. \<open>crypto.randomUUID()\<close> gives an id that is
  not in use.
\<close>

inductive pay_step ::
    "'s tx_repo \<Rightarrow> payment_config \<Rightarrow> ('acct, 'tx, 'sc) stellar_sdk \<Rightarrow> payment_worker \<Rightarrow>
     's pay_state \<Rightarrow> 's pay_state \<Rightarrow> bool"
  for R :: "'s tx_repo" and cfg and sdk :: "('acct, 'tx, 'sc) stellar_sdk" and wk where
  step_create: "env_uuid env \<noteq> [] \<Longrightarrow> repo_findById R (env_uuid env) (py_db s) = None \<Longrightarrow>
    createPayoutTransaction R cfg sdk env input s = (x, s') \<Longrightarrow> pay_step R cfg sdk wk s s'"
| step_queue: "queueSignedTransaction R cfg sdk i xdr now s = (y, s') \<Longrightarrow> pay_step R cfg sdk wk s s'"
| step_submit: "submitQueuedTransaction R cfg sdk env i s = (z, s') \<Longrightarrow> pay_step R cfg sdk wk s s'"
| step_confirm: "confirmSubmittedTransaction R (env :: ('acct, 'tx, 'sc) rpc_env) i s = (y, s') \<Longrightarrow>
    pay_step R cfg sdk wk s s'"
| step_poll: "pollConfirmation R cfg (envs :: nat \<Rightarrow> ('acct, 'tx, 'sc) rpc_env) i s = (y, s') \<Longrightarrow>
    pay_step R cfg sdk wk s s'"
| step_batch: "s' = wt_pay (processBatch R cfg sdk wk adds envs limit s jobs) \<Longrightarrow>
    pay_step R cfg sdk wk s s'"
| step_job: "reconcile_job R (env :: ('acct, 'tx, 'sc) rpc_env) i s = (v, s') \<Longrightarrow>
    pay_step R cfg sdk wk s s'"

context tx_repository
begin

lemma create_evolves:
  assumes "inv (py_db s)" and "env_uuid env \<noteq> []" and "repo_findById R (env_uuid env) (py_db s) = None"
    and "createPayoutTransaction R cfg sdk env input s = (x, s')"
  shows "inv (py_db s') \<and> evolves R cfg (py_db s) (py_db s')"
proof (cases "parse_payout_request input")
  case (Inl e)
  then show ?thesis using assms by (simp add: createPayoutTransaction_def)
next
  case (Inr req)
  show ?thesis
  proof (cases "repo_findByIdempotencyKey R (pr_idempotencyKey req) (py_db s)")
    case (Some t)
    then show ?thesis using create_existing [OF Inr Some, of cfg sdk env] assms by simp
  next
    case None
    have kept: "repo_findById R i (py_db s') = Some t" if "repo_findById R i (py_db s) = Some t" for i t
      using create_new [OF assms(1-3) Inr None assms(4)] that assms(3) by auto
    have "inv (py_db s')"
      using create_new [OF assms(1-3) Inr None assms(4)] by blast
    with kept show ?thesis by (simp add: evolves_def)
  qed
qed

lemma job_moves:
  assumes "inv (py_db s)" and "reconcile_job R env i s = (v, s')"
  shows "inv (py_db s') \<and> moves R cfg i (py_db s) (py_db s')"
proof -
  obtain y s1 where c: "confirmSubmittedTransaction R env i s = (y, s1)"
    by (cases "confirmSubmittedTransaction R env i s")
  with assms(2) have "s1 = s'"
    by (auto simp: reconcile_job_def split: sum.splits if_splits)
  with confirm_moves [OF assms(1) c] show ?thesis by simp
qed

lemma step_evolves:
  assumes "pay_step R cfg sdk wk s s'" and "inv (py_db s)"
  shows "inv (py_db s') \<and> evolves R cfg (py_db s) (py_db s')"
  using assms(1)
proof cases
  case (step_create env input x)
  then show ?thesis using create_evolves [OF assms(2)] by blast
next
  case (step_queue i xdr now y)
  then show ?thesis using queue_moves [OF assms(2) step_queue] by (metis moves_evolves)
next
  case (step_submit env i z)
  then show ?thesis using submit_moves [OF assms(2) step_submit] by (metis moves_evolves)
next
  case (step_confirm env i y)
  then show ?thesis using confirm_moves [OF assms(2) step_confirm, of cfg] by (metis moves_evolves)
next
  case (step_poll envs i y)
  then show ?thesis using poll_evolves [OF assms(2)] by blast
next
  case (step_batch adds envs limit jobs)
  then show ?thesis using batch_evolves [OF assms(2)] by blast
next
  case (step_job env i v)
  then show ?thesis using job_moves [OF assms(2) step_job, of cfg] by (metis moves_evolves)
qed

lemma run_evolves:
  assumes "(pay_step R cfg sdk wk)\<^sup>*\<^sup>* s s'" and "inv (py_db s)"
  shows "inv (py_db s') \<and> evolves R cfg (py_db s) (py_db s')"
  using assms(1)
proof (induction rule: rtranclp_induct)
  case base
  then show ?case using assms(2) by simp
next
  case (step s1 s2)
  then show ?case using step_evolves [OF step.hyps(2)] by (blast intro: evolves_trans)
qed

lemma run_history:
  assumes "(pay_step R cfg sdk wk)\<^sup>*\<^sup>* s s'" and "inv (py_db s)"
    and "repo_findById R i (py_db s) = Some t"
  shows "\<exists>u. repo_findById R i (py_db s') = Some u \<and> payout_identity u = payout_identity t \<and>
    status_reach (tx_status t) (tx_status u) \<and> tx_attempts t \<le> tx_attempts u \<and>
    tx_attempts u \<le> max (tx_attempts t) (pc_maxAttempts cfg)"
  using run_evolves [OF assms(1,2)] assms(3) by (simp add: evolves_def payout_le_def)

lemma run_confirmed:
  assumes "(pay_step R cfg sdk wk)\<^sup>*\<^sup>* s s'" and "inv (py_db s)"
    and "repo_findById R i (py_db s) = Some t" and "tx_status t = Confirmed"
  shows "\<exists>u. repo_findById R i (py_db s') = Some u \<and> payout_identity u = payout_identity t \<and>
    submitQueuedTransaction R cfg sdk env i s' =
      (Inr \<lparr>su_transaction = u, su_submitted = False\<rparr>, s')"
proof -
  obtain u where u: "repo_findById R i (py_db s') = Some u" "payout_identity u = payout_identity t"
    "status_reach Confirmed (tx_status u)"
    using run_history [OF assms(1-3)] assms(4) by auto
  then have "tx_status u = Confirmed" by (blast dest: confirmed_final)
  with u show ?thesis by (simp add: submitQueuedTransaction_def requireTransaction_def)
qed

end

section \<open>Samples for the witnesses\<close>

definition demo_cfg :: payment_config where
  "demo_cfg = \<lparr>pc_liveExecution = True, pc_signWithHotKey = False, pc_maxGasStroops = 1000,
     pc_maxAttempts = 5, pc_confirmPollMs = 2000, pc_confirmMaxPolls = 2, pc_failedRetryMax = 3,
     pc_failedRetryBaseMs = 5000, pc_payoutMethodName = ''pay'', pc_payoutContractId = ''C'',
     pc_sourceAccount = ''GA'', pc_hotSignerSecret = None, pc_networkPassphrase = ''net'',
     pc_sorobanRpcUrl = ''u''\<rparr>"

text \<open>An SDK whose XDR, accounts and values are the strings themselves.\<close>

definition demo_op :: "string \<Rightarrow> string \<Rightarrow> string tx_operation" where
  "demo_op dest amount = \<lparr>op_type = ''invokeHostFunction'',
     op_func = Some (InvokeContract \<lparr>iv_contract = Inr ''C'', iv_function = ''pay'',
       iv_args = [''9'', dest, amount]\<rparr>)\<rparr>"

definition demo_sdk :: "(unit, string, string) stellar_sdk" where
  "demo_sdk = \<lparr>sdk_build = (\<lambda>_ _ _. Inr ''tx''), sdk_toXDR = id, sdk_sign = (\<lambda>_ tx. Inr tx),
     sdk_fee = (\<lambda>_. Some 100),
     sdk_fromXDR = (\<lambda>_ _. Inr (Classic ''GA'' [demo_op ''GB'' ''100''])),
     sdk_addressOf = Inr, sdk_nativeString = Inr\<rparr>"

definition demo_env :: "(unit, string, string) rpc_env" where
  "demo_env = \<lparr>env_getAccount = Resolved (), env_prepare = Resolved,
     env_send = (\<lambda>_. Resolved \<lparr>sr_status = SendOther ''PENDING'', sr_hash = ''h''\<rparr>),
     env_getTransaction = (\<lambda>_. Resolved ChainSuccess), env_clock = (\<lambda>k. int k), env_uuid = ''n1''\<rparr>"

definition demo_worker :: payment_worker where
  "demo_worker = new_worker False None None"

definition demo_state :: "tx_record list \<Rightarrow> mem_repo pay_state" where
  "demo_state ts = \<lparr>py_db = \<lparr>mr_records = map (\<lambda>t. (tx_id t, t)) ts,
     mr_idempotencyMap = map (\<lambda>t. (tx_idempotencyKey t, tx_id t)) ts, mr_nonceBySource = []\<rparr>,
     py_breaker = soroban_breaker, py_payoutsSuccess = []\<rparr>"

lemmas demo_defs = demo_cfg_def demo_op_def demo_sdk_def demo_env_def demo_worker_def demo_state_def
  sample_tx_def

lemma demo_inv: "tx_id t \<noteq> [] \<Longrightarrow> mem_inv (py_db (demo_state [t]))"
  by (auto simp: demo_state_def mem_inv_def split: if_splits)

lemma demo_find: "repo_findById mem_tx_repo i (py_db (demo_state [t])) = (if i = tx_id t then Some t else None)"
  by (simp add: demo_state_def mem_findById_def)

section \<open>History\<close>

text \<open>
  C1: whatever sequence of creations, signatures, submissions, confirmations, polls, worker batches
  and confirmation jobs runs, a stored payout keeps its id, payout id, key, accounts, amount, asset,
  nonce and unsigned XDR, its status moves along the status machine only, and its attempts never
  shrink nor pass the limit.
\<close>

theorem payout_history:
  assumes "tx_repository R I ok" and "(pay_step R cfg sdk wk)\<^sup>*\<^sup>* s s'" and "I (py_db s)"
    and "repo_findById R i (py_db s) = Some t"
  shows "\<exists>u. repo_findById R i (py_db s') = Some u \<and> payout_identity u = payout_identity t \<and>
    status_reach (tx_status t) (tx_status u) \<and> tx_attempts t \<le> tx_attempts u \<and>
    tx_attempts u \<le> max (tx_attempts t) (pc_maxAttempts cfg)"
  using assms by (rule tx_repository.run_history)

definition demo_signed :: mem_repo where
  "demo_signed = py_db (snd (queueSignedTransaction mem_tx_repo demo_cfg demo_sdk ''a'' ''x'' 7
     (demo_state [sample_tx ''a'' ''k1'' 1 Built])))"

theorem payout_history_witness:
  "\<exists>u. repo_findById mem_tx_repo ''a'' demo_signed = Some u \<and>
    payout_identity u = payout_identity (sample_tx ''a'' ''k1'' 1 Built) \<and>
    status_reach Built (tx_status u) \<and> tx_attempts u \<le> 5"
proof -
  let ?t = "sample_tx ''a'' ''k1'' 1 Built"
  let ?s = "demo_state [?t]"
  have "pay_step mem_tx_repo demo_cfg demo_sdk demo_worker ?s
      (snd (queueSignedTransaction mem_tx_repo demo_cfg demo_sdk ''a'' ''x'' 7 ?s))"
    by (rule pay_step.step_queue) (rule prod.collapse [symmetric])
  then have run: "(pay_step mem_tx_repo demo_cfg demo_sdk demo_worker)\<^sup>*\<^sup>* ?s
      (snd (queueSignedTransaction mem_tx_repo demo_cfg demo_sdk ''a'' ''x'' 7 ?s))" ..
  have "mem_inv (py_db ?s)" by (rule demo_inv) simp
  moreover have "repo_findById mem_tx_repo ''a'' (py_db ?s) = Some ?t"
    unfolding demo_find by simp
  ultimately obtain u where "repo_findById mem_tx_repo ''a'' demo_signed = Some u"
    "payout_identity u = payout_identity ?t" "status_reach (tx_status ?t) (tx_status u)"
    "tx_attempts u \<le> max (tx_attempts ?t) (pc_maxAttempts demo_cfg)"
    using payout_history [OF mem.tx_repository_axioms run] unfolding demo_signed_def by blast
  then show ?thesis by (auto simp: demo_cfg_def)
qed



end
