(* ===== verification/PayoutCreate.thy ===== *)
theory PayoutCreate
  imports PaymentProps
begin

text \<open>
  Properties of \<open>createPayoutTransaction\<close> and \<open>queueSignedTransaction\<close>: creation is
  idempotent and exact, and only a signed transaction that matches its record is queued.
\<close>

section \<open>Creation\<close>

context tx_repository
begin

lemma create_result_stored:
  assumes "inv (py_db s)" and "env_uuid env \<noteq> []" and "repo_findById R (env_uuid env) (py_db s) = None"
    and "parse_payout_request input = Inr req"
    and "createPayoutTransaction R cfg sdk env input s = (Inr b, s')"
  shows "inv (py_db s') \<and> (\<exists>u. repo_findById R (tx_id (br_transaction b)) (py_db s') = Some u \<and>
    repo_findByIdempotencyKey R (pr_idempotencyKey req) (py_db s') = Some u \<and>
    no_times u = no_times (br_transaction b) \<and> br_unsignedXdr b = tx_unsignedXdr u)"
proof (cases "repo_findByIdempotencyKey R (pr_idempotencyKey req) (py_db s)")
  case (Some t)
  then have "s' = s" "br_transaction b = t" "br_unsignedXdr b = tx_unsignedXdr t"
    using create_existing [OF assms(4) Some, of cfg sdk env] assms(5) by auto
  then show ?thesis using Some find_key [OF assms(1) Some] assms(1) by auto
next
  case None
  from create_new [OF assms(1-4) None assms(5)]
  obtain nonce unsigned signed st stroops t t' where
    t: "t = new_record cfg req (env_uuid env) stroops nonce st unsigned signed (env_clock env 4)"
      "b = \<lparr>br_mode = deriveResponseMode st, br_transaction = t, br_unsignedXdr = unsigned\<rparr>"
      "no_times t' = no_times t" "repo_findById R (env_uuid env) (py_db s') = Some t'"
    and inv: "inv (py_db s')" by auto
  have "tx_idempotencyKey t' = pr_idempotencyKey req" "tx_unsignedXdr t' = unsigned"
    using no_times_eqD [OF t(3)] t(1) by (simp_all add: new_record_def)
  then show ?thesis
    using key_of_id [OF inv t(4)] t inv by (auto simp: new_record_def)
qed

lemma create_again:
  assumes "inv (py_db s)" and "env_uuid env \<noteq> []" and "repo_findById R (env_uuid env) (py_db s) = None"
    and "parse_payout_request input = Inr req"
    and "createPayoutTransaction R cfg sdk env input s = (Inr b, s')"
    and "(pay_step R cfg sdk wk)\<^sup>*\<^sup>* s' s2"
    and "parse_payout_request input2 = Inr req2" and "pr_idempotencyKey req2 = pr_idempotencyKey req"
  shows "\<exists>b2. createPayoutTransaction R cfg sdk env2 input2 s2 = (Inr b2, s2) \<and>
    payout_identity (br_transaction b2) = payout_identity (br_transaction b) \<and>
    br_unsignedXdr b2 = br_unsignedXdr b"
proof -
  from create_result_stored [OF assms(1-5)] obtain u where
    u: "inv (py_db s')" "repo_findById R (tx_id (br_transaction b)) (py_db s') = Some u"
      "repo_findByIdempotencyKey R (pr_idempotencyKey req) (py_db s') = Some u"
      "no_times u = no_times (br_transaction b)" "br_unsignedXdr b = tx_unsignedXdr u" by blast
  obtain v where v: "repo_findById R (tx_id (br_transaction b)) (py_db s2) = Some v"
    "payout_identity v = payout_identity u"
    using run_history [OF assms(6) u(1,2)] by blast
  have inv2: "inv (py_db s2)" using run_evolves [OF assms(6) u(1)] by blast
  have same: "payout_identity u = payout_identity (br_transaction b)"
    using no_times_eqD [OF u(4)] by (simp add: payout_identity_def)
  have "tx_idempotencyKey v = pr_idempotencyKey req2" "tx_unsignedXdr v = tx_unsignedXdr u"
    using v(2) find_key [OF u(1,3)] assms(8) by (simp_all add: payout_identity_def)
  then have "repo_findByIdempotencyKey R (pr_idempotencyKey req2) (py_db s2) = Some v"
    using key_of_id [OF inv2 v(1)] by simp
  from create_existing [OF assms(7) this, of cfg sdk env2] show ?thesis
    using v(2) same u(5) \<open>tx_unsignedXdr v = tx_unsignedXdr u\<close> by auto
qed

lemma create_fields:
  assumes "inv (py_db s)" and "env_uuid env \<noteq> []" and "repo_findById R (env_uuid env) (py_db s) = None"
    and "parse_payout_request input = Inr req"
    and "repo_findByIdempotencyKey R (pr_idempotencyKey req) (py_db s) = None"
    and "createPayoutTransaction R cfg sdk env input s = (Inr b, s')"
  shows "\<exists>u. repo_findById R (env_uuid env) (py_db s') = Some u \<and>
    tx_destinationAccount u = pr_destinationAccount req \<and> tx_payoutId u = pr_payoutId req \<and>
    tx_asset u = pr_asset req \<and> tx_sourceAccount u = pc_sourceAccount cfg \<and>
    0 < amount_value (pr_amount req) \<and> tx_amountStroops u = dec_digits (amount_value (pr_amount req)) \<and>
    tx_attempts u = 0 \<and> tx_status u = start_status cfg \<and>
    (tx_status u = Queued \<longleftrightarrow> tx_signedXdr u \<noteq> None) \<and>
    (\<forall>j. j \<noteq> env_uuid env \<longrightarrow> repo_findById R j (py_db s') = repo_findById R j (py_db s))"
proof -
  obtain nonce unsigned signed st stroops t t' where
    t: "toStroops (pr_amount req) = Inr stroops"
      "t = new_record cfg req (env_uuid env) stroops nonce st unsigned signed (env_clock env 4)"
      "st = start_status cfg" "st = Queued \<longleftrightarrow> signed \<noteq> None" "no_times t' = no_times t"
    and find: "\<And>i. repo_findById R i (py_db s') =
      (if i = env_uuid env then Some t' else repo_findById R i (py_db s))"
    using create_new [OF assms(1-6)] by (elim conjE disjE exE) (simp, blast)
  have am: "0 < amount_value (pr_amount req) \<and> stroops = dec_digits (amount_value (pr_amount req))"
    using toStroops_value [OF parse_payout_request_valid(1) [OF assms(4)]] t(1)
    by (simp split: if_splits)
  have "tx_destinationAccount t' = pr_destinationAccount req" "tx_payoutId t' = pr_payoutId req"
    "tx_asset t' = pr_asset req" "tx_sourceAccount t' = pc_sourceAccount cfg"
    "tx_amountStroops t' = stroops" "tx_attempts t' = 0" "tx_status t' = st" "tx_signedXdr t' = signed"
    using no_times_eqD [OF t(5)] t(2) by (simp_all add: new_record_def)
  then show ?thesis using am t(3,4) find by auto
qed

lemma create_non_numeric:
  assumes "inv (py_db s)" and "parse_payout_request input = Inr req"
    and "repo_findByIdempotencyKey R (pr_idempotencyKey req) (py_db s) = None"
    and "js_bigint (pr_payoutId req) = None"
  shows "\<exists>e s'. createPayoutTransaction R cfg sdk env input s = (Inl e, s') \<and>
    py_db s' = snd (repo_reserveNextNonce R (pc_sourceAccount cfg) (py_db s))"
proof -
  obtain nonce d1 where n: "repo_reserveNextNonce R (pc_sourceAccount cfg) (py_db s) = (nonce, d1)"
    by (cases "repo_reserveNextNonce R (pc_sourceAccount cfg) (py_db s)")
  obtain x s2 where b: "buildPreparedTransaction cfg sdk env req (s\<lparr>py_db := d1\<rparr>) = (x, s2)"
    by (cases "buildPreparedTransaction cfg sdk env req (s\<lparr>py_db := d1\<rparr>)")
  have "\<exists>e. x = Inl e"
    using b assms(4) by (auto simp: buildPreparedTransaction_def payout_call_def
        split: prod.splits sum.splits)
  then show ?thesis using assms(2,3) n b build_db [OF b]
    by (auto simp: createPayoutTransaction_def)
qed

end

section \<open>The audit\<close>

lemma audit_args_iff:
  "audit_args sdk args t = Inr () \<longleftrightarrow>
     length args = 3 \<and> sdk_addressOf sdk (args ! 1) = Inr (tx_destinationAccount t) \<and>
     sdk_nativeString sdk (args ! 2) = Inr (tx_amountStroops t)"
  by (auto simp: audit_args_def split: sum.splits if_splits)

lemma audit_invocation_iff:
  "audit_invocation cfg sdk iv t = Inr () \<longleftrightarrow>
     iv_contract iv = Inr (pc_payoutContractId cfg) \<and> iv_function iv = pc_payoutMethodName cfg \<and>
     audit_args sdk (iv_args iv) t = Inr ()"
  by (auto simp: audit_invocation_def split: sum.splits if_splits)

lemma audit_operation_iff:
  "audit_operation cfg sdk op t = Inr () \<longleftrightarrow>
     op_type op = ''invokeHostFunction'' \<and>
     (\<exists>iv. op_func op = Some (InvokeContract iv) \<and> audit_invocation cfg sdk iv t = Inr ())"
  by (auto simp: audit_operation_def split: option.splits host_function.splits)

lemma audit_iff:
  "assertSignedTransactionMatches cfg sdk xdr t = Inr () \<longleftrightarrow>
     (\<exists>op. sdk_fromXDR sdk xdr (pc_networkPassphrase cfg) = Inr (Classic (pc_sourceAccount cfg) [op]) \<and>
       audit_operation cfg sdk op t = Inr ())"
proof (cases "sdk_fromXDR sdk xdr (pc_networkPassphrase cfg)")
  case (Inl e)
  then show ?thesis by (simp add: assertSignedTransactionMatches_def)
next
  case (Inr p)
  show ?thesis
  proof (cases p)
    case FeeBump
    then show ?thesis using Inr by (simp add: assertSignedTransactionMatches_def)
  next
    case (Classic src ops)
    then show ?thesis using Inr
      by (cases ops) (auto simp: assertSignedTransactionMatches_def)
  qed
qed

context tx_repository
begin

lemma queue_accepts:
  assumes "inv (py_db s)" and "queueSignedTransaction R cfg sdk i xdr now s = (Inr u, s')"
  shows "\<exists>t op iv. repo_findById R i (py_db s) = Some t \<and> tx_status t \<in> {AwaitingSignature, Built} \<and>
    sdk_fromXDR sdk xdr (pc_networkPassphrase cfg) = Inr (Classic (pc_sourceAccount cfg) [op]) \<and>
    op_func op = Some (InvokeContract iv) \<and> iv_contract iv = Inr (pc_payoutContractId cfg) \<and>
    iv_function iv = pc_payoutMethodName cfg \<and> length (iv_args iv) = 3 \<and>
    sdk_addressOf sdk (iv_args iv ! 1) = Inr (tx_destinationAccount t) \<and>
    sdk_nativeString sdk (iv_args iv ! 2) = Inr (tx_amountStroops t) \<and>
    repo_findById R i (py_db s') = Some u \<and> tx_status u = Queued \<and> tx_signedXdr u = Some xdr \<and>
    payout_identity u = payout_identity t"
proof -
  let ?p = "empty_patch\<lparr>p_signedXdr := Some (Some xdr), p_status := Some Queued,
      p_errorMessage := Some None, p_updatedAt := Some now\<rparr>"
  obtain t where t: "repo_findById R i (py_db s) = Some t" "tx_status t \<in> {AwaitingSignature, Built}"
    "assertSignedTransactionMatches cfg sdk xdr t = Inr ()" "db_update R i ?p now s = (Inr u, s')"
    using assms(2) by (auto simp: queueSignedTransaction_def requireTransaction_def
        split: sum.splits option.splits if_splits)
  from db_update_result [OF assms(1) t(4)] t(1)
  have u: "repo_findById R i (py_db s') = Some u" "no_times u = no_times (apply_patch ?p t)" by auto
  have "tx_status u = Queued" "tx_signedXdr u = Some xdr" "payout_identity u = payout_identity t"
    using no_times_eqD [OF u(2)] by (simp_all add: payout_identity_def)
  moreover obtain op iv where
    "sdk_fromXDR sdk xdr (pc_networkPassphrase cfg) = Inr (Classic (pc_sourceAccount cfg) [op])"
    "op_func op = Some (InvokeContract iv)" "audit_invocation cfg sdk iv t = Inr ()"
    using t(3) by (auto simp: audit_iff audit_operation_iff)
  ultimately show ?thesis using t(1,2) u(1)
    by (auto simp: audit_invocation_iff audit_args_iff)
qed

end

section \<open>Properties\<close>

definition demo_account :: string where
  "demo_account = CHR ''G'' # replicate 55 (CHR ''A'')"

definition demo_body :: "string \<Rightarrow> string \<Rightarrow> jval" where
  "demo_body pid amount = JObj [(''payoutId'', JStr pid), (''destinationAccount'', JStr demo_account),
     (''amount'', JStr amount), (''asset'', JStr ''XLM''), (''idempotencyKey'', JStr ''key-0001'')]"

definition demo_request :: "string \<Rightarrow> string \<Rightarrow> payout_request" where
  "demo_request pid amount = \<lparr>pr_payoutId = pid, pr_destinationAccount = demo_account,
     pr_amount = amount, pr_asset = XLM, pr_idempotencyKey = ''key-0001''\<rparr>"

lemma demo_request_sel [simp]:
  "pr_idempotencyKey (demo_request p a) = ''key-0001''" "pr_amount (demo_request p a) = a"
  "pr_payoutId (demo_request p a) = p" "pr_destinationAccount (demo_request p a) = demo_account"
  by (simp_all add: demo_request_def)

lemma demo_trim: "js_trim demo_account = demo_account"
  by (rule js_trim_id) (simp_all add: demo_account_def is_space_def char_class_defs)

lemma demo_regexes:
  "public_key_regex demo_account" "amount_regex ''1.5''" "idempotency_regex ''key-0001''"
  "\<not> is_space (CHR ''1'')" "\<not> is_space (CHR ''5'')" "\<not> is_space (CHR ''7'')"
  "\<not> is_space (CHR ''k'')" "\<not> is_space (CHR ''x'')"
  by (simp_all add: public_key_regex_def demo_account_def amount_regex_def idempotency_regex_def
      is_space_def char_class_defs list_all_iff)

lemma demo_parse:
  "parse_payout_request (demo_body ''7'' ''1.5'') = Inr (demo_request ''7'' ''1.5'')"
  "parse_payout_request (demo_body ''x7'' ''1.5'') = Inr (demo_request ''x7'' ''1.5'')"
  by (simp_all add: parse_payout_request_def demo_body_def demo_request_def trimmed_field_def
      asset_field_def checked_def js_trim_id demo_trim demo_regexes)

lemma demo_empty:
  "mem_inv (py_db (demo_state []))" "repo_findById mem_tx_repo i (py_db (demo_state [])) = None"
  "repo_findByIdempotencyKey mem_tx_repo k (py_db (demo_state [])) = None"
  by (simp_all add: demo_state_def mem_inv_def mem_findById_def mem_findByIdempotencyKey_def)

lemma demo_uuid: "env_uuid demo_env \<noteq> []"
  by (simp add: demo_env_def)

text \<open>The result of creating one payout in the empty store, and the state after it.\<close>

definition demo_created :: "(js_error + build_result) \<times> mem_repo pay_state" where
  "demo_created = createPayoutTransaction mem_tx_repo demo_cfg demo_sdk demo_env
     (demo_body ''7'' ''1.5'') (demo_state [])"

lemma demo_stroops: "toStroops ''1.5'' = Inr (dec_digits 15000000)"
  using toStroops_value [OF demo_regexes(2)]
  by (simp add: amount_value_def dec_val_def digit_val_def code_of_def)

lemma demo_bigint: "js_bigint ''7'' = Some 7" "js_bigint ''x7'' = None"
  by code_simp+

lemma demo_breaker: "fire t0 (Resolved v) t1 soroban_breaker = (Inr v, onSuccess soroban_breaker)"
  "fire t0 (Resolved v) t1 (onSuccess soroban_breaker) = (Inr v, onSuccess (onSuccess soroban_breaker))"
  by (simp_all add: fire_def fire_enter_def fire_exit_def onSuccess_def soroban_breaker_def
      new_breaker_def breaker_on_def)

lemma demo_created_ok: "\<exists>b. fst demo_created = Inr b"
proof -
  have state: "py_breaker (demo_state []) = soroban_breaker" by (simp add: demo_state_def)
  have req: "pr_amount (demo_request ''7'' ''1.5'') = ''1.5''" by simp
  have build: "\<exists>y s'. buildPreparedTransaction demo_cfg demo_sdk demo_env (demo_request ''7'' ''1.5'')
      (demo_state []\<lparr>py_db := d\<rparr>) = (Inr y, s')" for d
    by (simp add: buildPreparedTransaction_def on_breaker_def state demo_breaker demo_stroops
        payout_call_def demo_bigint check_fee_def demo_env_def demo_sdk_def demo_cfg_def)
  obtain nonce d where n: "repo_reserveNextNonce mem_tx_repo (pc_sourceAccount demo_cfg)
      (py_db (demo_state [])) = (nonce, d)" by fastforce
  obtain tx stroops s' where b: "buildPreparedTransaction demo_cfg demo_sdk demo_env
      (demo_request ''7'' ''1.5'') (demo_state []\<lparr>py_db := d\<rparr>) = (Inr (tx, stroops), s')"
    using build [of d] by auto
  have st: "initial_status demo_cfg demo_sdk tx = Inr (AwaitingSignature, None)"
    by (simp add: initial_status_def demo_cfg_def)
  show ?thesis
    unfolding demo_created_def createPayoutTransaction_def demo_parse
    by (simp only: sum.case option.case prod.case demo_request_sel demo_empty n b st)
      (simp add: Let_def mem_insert_def)
qed

text \<open>
  C3: creation is idempotent: after a successful \<open>createPayoutTransaction\<close> and any later
  operations, a call with the same idempotency key, whatever else its request says, returns the same
  payout with the same unsigned XDR and changes nothing.
\<close>

theorem create_idempotent:
  assumes "tx_repository R I ok" and "I (py_db s)" and "env_uuid env \<noteq> []"
    and "repo_findById R (env_uuid env) (py_db s) = None" and "parse_payout_request input = Inr req"
    and "createPayoutTransaction R cfg sdk env input s = (Inr b, s')"
    and "(pay_step R cfg sdk wk)\<^sup>*\<^sup>* s' s2"
    and "parse_payout_request input2 = Inr req2" and "pr_idempotencyKey req2 = pr_idempotencyKey req"
  shows "\<exists>b2. createPayoutTransaction R cfg sdk env2 input2 s2 = (Inr b2, s2) \<and>
    payout_identity (br_transaction b2) = payout_identity (br_transaction b) \<and>
    br_unsignedXdr b2 = br_unsignedXdr b"
  using assms by (rule tx_repository.create_again)

theorem create_idempotent_witness:
  "\<exists>b b2. fst demo_created = Inr b \<and>
    createPayoutTransaction mem_tx_repo demo_cfg demo_sdk demo_env (demo_body ''x7'' ''1.5'')
      (snd demo_created) = (Inr b2, snd demo_created) \<and>
    payout_identity (br_transaction b2) = payout_identity (br_transaction b)"
proof -
  obtain b where b: "fst demo_created = Inr b" using demo_created_ok by blast
  then have run: "createPayoutTransaction mem_tx_repo demo_cfg demo_sdk demo_env
      (demo_body ''7'' ''1.5'') (demo_state []) = (Inr b, snd demo_created)"
    by (metis demo_created_def prod.collapse)
  have "(pay_step mem_tx_repo demo_cfg demo_sdk demo_worker)\<^sup>*\<^sup>* (snd demo_created) (snd demo_created)"
    by simp
  from create_idempotent [OF mem.tx_repository_axioms demo_empty(1) demo_uuid demo_empty(2)
      demo_parse(1) run this demo_parse(2), of demo_env] b
  show ?thesis by auto
qed

text \<open>
  A creation with a new key stores exactly one record, under the new id: the destination,
  payout id and asset of the request, the amount as the numeral of the requested stroops, which is
  positive, no attempts, and the status that the configuration gives (built, queued with a signature,
  or awaiting one); no other record changes.
\<close>

theorem create_exact:
  assumes "tx_repository R I ok" and "I (py_db s)" and "env_uuid env \<noteq> []"
    and "repo_findById R (env_uuid env) (py_db s) = None" and "parse_payout_request input = Inr req"
    and "repo_findByIdempotencyKey R (pr_idempotencyKey req) (py_db s) = None"
    and "createPayoutTransaction R cfg sdk env input s = (Inr b, s')"
  shows "\<exists>u. repo_findById R (env_uuid env) (py_db s') = Some u \<and>
    tx_destinationAccount u = pr_destinationAccount req \<and> tx_payoutId u = pr_payoutId req \<and>
    tx_asset u = pr_asset req \<and> tx_sourceAccount u = pc_sourceAccount cfg \<and>
    0 < amount_value (pr_amount req) \<and> tx_amountStroops u = dec_digits (amount_value (pr_amount req)) \<and>
    tx_attempts u = 0 \<and> tx_status u = start_status cfg \<and>
    (tx_status u = Queued \<longleftrightarrow> tx_signedXdr u \<noteq> None) \<and>
    (\<forall>j. j \<noteq> env_uuid env \<longrightarrow> repo_findById R j (py_db s') = repo_findById R j (py_db s))"
  using assms by (rule tx_repository.create_fields)

theorem create_exact_witness:
  "\<exists>u. repo_findById mem_tx_repo ''n1'' (py_db (snd demo_created)) = Some u \<and>
    tx_destinationAccount u = demo_account \<and> tx_status u = AwaitingSignature \<and>
    tx_amountStroops u = dec_digits (amount_value ''1.5'')"
proof -
  obtain b where b: "fst demo_created = Inr b" using demo_created_ok by blast
  then have run: "createPayoutTransaction mem_tx_repo demo_cfg demo_sdk demo_env
      (demo_body ''7'' ''1.5'') (demo_state []) = (Inr b, snd demo_created)"
    by (metis demo_created_def prod.collapse)
  have key: "repo_findByIdempotencyKey mem_tx_repo (pr_idempotencyKey (demo_request ''7'' ''1.5''))
      (py_db (demo_state [])) = None" by (rule demo_empty(3))
  have "start_status demo_cfg = AwaitingSignature" "env_uuid demo_env = ''n1''"
    by (simp_all add: start_status_def demo_cfg_def demo_env_def)
  with create_exact [OF mem.tx_repository_axioms demo_empty(1) demo_uuid demo_empty(2)
      demo_parse(1) key run] show ?thesis by auto
qed

text \<open>
  The request schema accepts a payout id that is not a number, but such a request with a new
  key always fails, and only after the source account's next nonce has been reserved: nothing else
  is stored.
\<close>

theorem non_numeric_payout_id_rejected_late:
  assumes "tx_repository R I ok" and "I (py_db s)" and "parse_payout_request input = Inr req"
    and "repo_findByIdempotencyKey R (pr_idempotencyKey req) (py_db s) = None"
    and "js_bigint (pr_payoutId req) = None"
  shows "\<exists>e s'. createPayoutTransaction R cfg sdk env input s = (Inl e, s') \<and>
    py_db s' = snd (repo_reserveNextNonce R (pc_sourceAccount cfg) (py_db s))"
  using assms by (rule tx_repository.create_non_numeric)

theorem non_numeric_payout_id_rejected_late_witness:
  "\<exists>e s'. createPayoutTransaction mem_tx_repo demo_cfg demo_sdk demo_env (demo_body ''x7'' ''1.5'')
      (demo_state []) = (Inl e, s') \<and> mr_nonceBySource (py_db s') = [(''GA'', 1)]"
proof -
  have key: "repo_findByIdempotencyKey mem_tx_repo (pr_idempotencyKey (demo_request ''x7'' ''1.5''))
      (py_db (demo_state [])) = None" by (rule demo_empty(3))
  have num: "js_bigint (pr_payoutId (demo_request ''x7'' ''1.5'')) = None"
    by (simp add: demo_bigint)
  have "mr_nonceBySource (snd (repo_reserveNextNonce mem_tx_repo (pc_sourceAccount demo_cfg)
      (py_db (demo_state [])))) = [(''GA'', 1)]"
    by (simp add: mem_reserveNextNonce_def demo_cfg_def demo_state_def)
  with non_numeric_payout_id_rejected_late [OF mem.tx_repository_axioms demo_empty(1)
      demo_parse(2) key num, of demo_cfg demo_sdk demo_env] show ?thesis by auto
qed

text \<open>
  C8: \<open>queueSignedTransaction\<close> queues a payout only if it was waiting for a signature and the
  signed XDR is a classic transaction of the configured source whose single operation calls the
  configured method of the configured contract with three arguments, the destination and the amount
  of the record; the record then holds that XDR and keeps its identity.
\<close>

theorem queued_transaction_audited:
  assumes "tx_repository R I ok" and "I (py_db s)"
    and "queueSignedTransaction R cfg sdk i xdr now s = (Inr u, s')"
  shows "\<exists>t op iv. repo_findById R i (py_db s) = Some t \<and> tx_status t \<in> {AwaitingSignature, Built} \<and>
    sdk_fromXDR sdk xdr (pc_networkPassphrase cfg) = Inr (Classic (pc_sourceAccount cfg) [op]) \<and>
    op_func op = Some (InvokeContract iv) \<and> iv_contract iv = Inr (pc_payoutContractId cfg) \<and>
    iv_function iv = pc_payoutMethodName cfg \<and> length (iv_args iv) = 3 \<and>
    sdk_addressOf sdk (iv_args iv ! 1) = Inr (tx_destinationAccount t) \<and>
    sdk_nativeString sdk (iv_args iv ! 2) = Inr (tx_amountStroops t) \<and>
    repo_findById R i (py_db s') = Some u \<and> tx_status u = Queued \<and> tx_signedXdr u = Some xdr \<and>
    payout_identity u = payout_identity t"
  using assms by (rule tx_repository.queue_accepts)

theorem queued_transaction_audited_witness:
  "\<exists>u s' op. queueSignedTransaction mem_tx_repo demo_cfg demo_sdk ''a'' ''x'' 7
      (demo_state [sample_tx ''a'' ''k1'' 1 Built]) = (Inr u, s') \<and>
    sdk_fromXDR demo_sdk ''x'' ''net'' = Inr (Classic ''GA'' [op]) \<and>
    tx_status u = Queued \<and> tx_signedXdr u = Some ''x''"
proof -
  let ?s = "demo_state [sample_tx ''a'' ''k1'' 1 Built]"
  let ?r = "queueSignedTransaction mem_tx_repo demo_cfg demo_sdk ''a'' ''x'' 7 ?s"
  have "(case fst ?r of Inl _ \<Rightarrow> False | Inr _ \<Rightarrow> True)" by code_simp
  then obtain u s' where r: "?r = (Inr u, s')" by (cases ?r) (auto split: sum.splits)
  have "mem_inv (py_db ?s)" by (rule demo_inv) simp
  from queued_transaction_audited [OF mem.tx_repository_axioms this r] r show ?thesis
    by (auto simp: demo_cfg_def)
qed

text \<open>
  The audit reads neither the first argument of the call, the payout id, nor the asset: an
  invocation that differs from an accepted one in the payout id alone is accepted too, and a signed
  transaction accepted for one record is accepted for every record with the same destination and
  amount, whatever its payout id and asset.
\<close>

theorem audit_ignores_payout_id:
  assumes "tx_destinationAccount t = tx_destinationAccount u"
    and "tx_amountStroops t = tx_amountStroops u"
  shows "assertSignedTransactionMatches cfg sdk xdr t = assertSignedTransactionMatches cfg sdk xdr u \<and>
    audit_args sdk (a # args) t = audit_args sdk (b # args) u"
proof -
  have args: "audit_args sdk xs t = audit_args sdk xs u" for xs
    by (simp only: audit_args_def assms)
  have op: "audit_operation cfg sdk op t = audit_operation cfg sdk op u" for op
    by (simp only: audit_operation_def audit_invocation_def args)
  have "assertSignedTransactionMatches cfg sdk xdr t = assertSignedTransactionMatches cfg sdk xdr u"
    by (simp only: assertSignedTransactionMatches_def op)
  moreover have nth: "(x # args) ! 1 = args ! 0" "(x # args) ! 2 = args ! 1" for x
    by (simp_all add: numeral_2_eq_2)
  have "audit_args sdk (a # args) u = audit_args sdk (b # args) u"
    by (simp only: audit_args_def nth list.size)
  ultimately show ?thesis by (simp only: args)
qed

theorem audit_ignores_payout_id_witness:
  "assertSignedTransactionMatches demo_cfg demo_sdk ''x'' (sample_tx ''a'' ''k1'' 1 Built) = Inr () \<and>
   assertSignedTransactionMatches demo_cfg demo_sdk ''x''
     ((sample_tx ''b'' ''k2'' 2 Built)\<lparr>tx_payoutId := ''2'', tx_asset := USDC\<rparr>) = Inr ()"
proof -
  have "assertSignedTransactionMatches demo_cfg demo_sdk ''x'' (sample_tx ''a'' ''k1'' 1 Built) = Inr ()"
    by code_simp
  then show ?thesis
    using audit_ignores_payout_id [of "sample_tx ''a'' ''k1'' 1 Built"
        "(sample_tx ''b'' ''k2'' 2 Built)\<lparr>tx_payoutId := ''2'', tx_asset := USDC\<rparr>" demo_cfg demo_sdk "''x''"
        "''p''" Nil "''q''"]
    by simp
qed

end
