(* ===== verification/PayoutSubmit.thy ===== *)
theory PayoutSubmit
  imports PaymentProps
begin

text \<open>
  Properties of submission, confirmation, the batch worker and the confirmation job: when the RPC
  is called at all, what an open circuit does, that a healthy RPC takes a queued payout to
  confirmed, the worker's counters and backoff, and what becomes of dead letters.
\<close>

section \<open>Lemmas\<close>

definition may_send :: "payment_config \<Rightarrow> tx_record \<Rightarrow> bool" where
  "may_send cfg t \<longleftrightarrow> tx_status t = Queued \<and> pc_liveExecution cfg \<and> truthy (tx_signedXdr t) \<and>
     tx_attempts t < pc_maxAttempts cfg"

lemma as_submit_db [simp]: "snd (as_submit b r) = snd r"
  by (auto simp: as_submit_def split: prod.split sum.split)

lemma db_update_breaker [simp]: "py_breaker (snd (db_update R i p now s)) = py_breaker s"
  by (simp add: db_update_def split: prod.split)

lemma submit_not_sent:
  assumes "\<And>t. repo_findById R i (py_db s) = Some t \<Longrightarrow> \<not> may_send cfg t"
  shows "submitQueuedTransaction R cfg sdk (env\<lparr>env_send := g\<rparr>) i s =
      submitQueuedTransaction R cfg sdk env i s \<and>
    py_breaker (snd (submitQueuedTransaction R cfg sdk env i s)) = py_breaker s"
  using assms
  by (auto simp: submitQueuedTransaction_def requireTransaction_def may_send_def split: option.split)

lemma on_breaker_closed:
  "cb_state (py_breaker s) = Closed \<Longrightarrow>
     on_breaker t0 (Resolved v) t1 s = (Inr v, s\<lparr>py_breaker := onSuccess (py_breaker s)\<rparr>)"
  by (simp add: on_breaker_def fire_def fire_enter_def fire_exit_def)

lemma onSuccess_closed: "cb_state b = Closed \<Longrightarrow> cb_state (onSuccess b) = Closed"
  by (simp add: onSuccess_def)

lemma on_breaker_open:
  "cb_state (py_breaker s) = Open \<Longrightarrow> \<not> shouldAttemptReset t0 (py_breaker s) \<Longrightarrow>
     on_breaker t0 r t1 s =
       (Inl (CircuitOpenError ''Soroban RPC circuit is OPEN - request rejected''), s)"
  by (simp add: on_breaker_def fire_open_rejects)

context tx_repository
begin

lemma db_update_ok:
  assumes "inv (py_db s)" and "repo_findById R i (py_db s) = Some t"
    and "\<And>st. p_status p = Some st \<Longrightarrow> storable st"
  shows "\<exists>t' s'. db_update R i p now s = (Inr t', s') \<and> inv (py_db s') \<and>
    no_times t' = no_times (apply_patch p t) \<and> repo_findById R i (py_db s') = Some t' \<and>
    py_breaker s' = py_breaker s"
proof -
  from update_found [OF assms(1,2), of p now] assms(3)
  obtain t' d' where u: "repo_update R i p now (py_db s) = (Inr t', d')" "inv d'"
    "no_times t' = no_times (apply_patch p t)"
    "\<And>j. repo_findById R j d' = (if j = i then Some t' else repo_findById R j (py_db s))" by blast
  then have "db_update R i p now s = (Inr t', s\<lparr>py_db := d'\<rparr>)" by (simp add: db_update_def)
  with u show ?thesis by simp
qed

lemma submit_healthy:
  assumes "inv (py_db s)" and "repo_findById R i (py_db s) = Some t" and "may_send cfg t"
    and "storable Submitted" and "cb_state (py_breaker s) = Closed"
    and "sdk_fromXDR sdk (the (tx_signedXdr t)) (pc_networkPassphrase cfg) = Inr parsed"
    and "env_send env parsed = Resolved \<lparr>sr_status = SendOther m, sr_hash = h\<rparr>"
  shows "\<exists>u s'. submitQueuedTransaction R cfg sdk env i s =
      (Inr \<lparr>su_transaction = u, su_submitted = True\<rparr>, s') \<and> inv (py_db s') \<and>
    repo_findById R i (py_db s') = Some u \<and> tx_status u = Submitted \<and> tx_txHash u = Some h \<and>
    tx_attempts u = tx_attempts t + 1 \<and> payout_identity u = payout_identity t \<and>
    cb_state (py_breaker s') = Closed"
proof -
  let ?p = "empty_patch\<lparr>p_attempts := Some (tx_attempts t + 1), p_status := Some Submitted,
      p_txHash := Some (Some h), p_errorMessage := Some None, p_updatedAt := Some (env_clock env 2)\<rparr>"
  let ?s = "s\<lparr>py_breaker := onSuccess (py_breaker s)\<rparr>"
  obtain t' s' where u: "db_update R i ?p (env_clock env 2) ?s = (Inr t', s')" "inv (py_db s')"
    "no_times t' = no_times (apply_patch ?p t)" "repo_findById R i (py_db s') = Some t'"
    "py_breaker s' = onSuccess (py_breaker s)"
    using db_update_ok [of ?s i t ?p "env_clock env 2"] assms(1,2,4) by auto
  have b: "on_breaker (env_clock env 0) (env_send env parsed) (env_clock env 1) s =
      (Inr \<lparr>sr_status = SendOther m, sr_hash = h\<rparr>, ?s)"
    using assms(5,7) by (simp add: on_breaker_closed)
  have "submitQueuedTransaction R cfg sdk env i s =
      (Inr \<lparr>su_transaction = t', su_submitted = True\<rparr>, s')"
    using assms(2,3,6) b u(1) find_id [OF assms(1,2)]
    by (simp add: submitQueuedTransaction_def requireTransaction_def may_send_def submit_attempt_def
        as_submit_def)
  then show ?thesis
    using u no_times_eqD [OF u(3)] onSuccess_closed [OF assms(5)]
    by (simp add: payout_identity_def)
qed

lemma confirm_healthy:
  assumes "inv (py_db s)" and "repo_findById R i (py_db s) = Some t" and "tx_status t = Submitted"
    and "truthy (tx_txHash t)" and "storable Confirmed" and "cb_state (py_breaker s) = Closed"
    and "env_getTransaction env (the (tx_txHash t)) = Resolved ChainSuccess"
  shows "\<exists>u s'. confirmSubmittedTransaction R env i s = (Inr u, s') \<and>
    repo_findById R i (py_db s') = Some u \<and> tx_status u = Confirmed \<and>
    payout_identity u = payout_identity t \<and>
    py_payoutsSuccess s' = py_payoutsSuccess s @ [tx_asset t]"
proof -
  let ?p = "empty_patch\<lparr>p_status := Some Confirmed,
      p_confirmedAt := Some (Some (env_clock env 2)), p_updatedAt := Some (env_clock env 3),
      p_errorMessage := Some None\<rparr>"
  let ?s = "s\<lparr>py_breaker := onSuccess (py_breaker s),
      py_payoutsSuccess := py_payoutsSuccess s @ [tx_asset t]\<rparr>"
  obtain t' s' where u: "db_update R i ?p (env_clock env 3) ?s = (Inr t', s')"
    "no_times t' = no_times (apply_patch ?p t)" "repo_findById R i (py_db s') = Some t'"
    using db_update_ok [of ?s i t ?p "env_clock env 3"] assms(1,2,5) by auto
  have "py_payoutsSuccess s' = py_payoutsSuccess ?s"
    using u(1) by (auto simp: db_update_def split: prod.splits)
  moreover have "confirmSubmittedTransaction R env i s = (Inr t', s')"
    using assms(2,3,4,6,7) u(1) find_id [OF assms(1,2)]
    by (simp add: confirmSubmittedTransaction_def requireTransaction_def on_breaker_closed)
  ultimately show ?thesis using u(3) no_times_eqD [OF u(2)]
    by (simp add: payout_identity_def)
qed

lemma submit_then_confirm:
  assumes "inv (py_db s)" and "repo_findById R i (py_db s) = Some t" and "may_send cfg t"
    and "storable Submitted" and "storable Confirmed" and "cb_state (py_breaker s) = Closed"
    and "sdk_fromXDR sdk (the (tx_signedXdr t)) (pc_networkPassphrase cfg) = Inr parsed"
    and "env_send env parsed = Resolved \<lparr>sr_status = SendOther m, sr_hash = h\<rparr>" and "h \<noteq> []"
    and "env_getTransaction env h = Resolved ChainSuccess"
  shows "\<exists>u s'. confirmSubmittedTransaction R env i (snd (submitQueuedTransaction R cfg sdk env i s)) =
      (Inr u, s') \<and>
    repo_findById R i (py_db s') = Some u \<and> tx_status u = Confirmed \<and>
    payout_identity u = payout_identity t"
proof -
  from submit_healthy [OF assms(1-4,6-8)] obtain u s1 where
    s1: "submitQueuedTransaction R cfg sdk env i s = (Inr \<lparr>su_transaction = u, su_submitted = True\<rparr>, s1)"
      "inv (py_db s1)" "repo_findById R i (py_db s1) = Some u" "tx_status u = Submitted"
      "tx_txHash u = Some h" "payout_identity u = payout_identity t" "cb_state (py_breaker s1) = Closed"
    by blast
  have "truthy (tx_txHash u)" "env_getTransaction env (the (tx_txHash u)) = Resolved ChainSuccess"
    using s1(5) assms(9,10) by simp_all
  from confirm_healthy [OF s1(2,3,4) this(1) assms(5) s1(7) this(2)]
  obtain v s2 where "confirmSubmittedTransaction R env i s1 = (Inr v, s2)"
    "repo_findById R i (py_db s2) = Some v" "tx_status v = Confirmed"
    "payout_identity v = payout_identity u" by blast
  then show ?thesis using s1(1,6) by auto
qed

lemma poll_loop_confirms:
  assumes "inv (py_db s)" and "repo_findById R i (py_db s) = Some t" and "tx_status t = Submitted"
    and "tx_txHash t = Some h" and "h \<noteq> []" and "storable Confirmed"
    and "cb_state (py_breaker s) = Closed" and "k < n"
    and "\<And>j. j < k \<Longrightarrow> \<exists>m. env_getTransaction (envs (b + j)) h = Resolved (ChainOther m)"
    and "env_getTransaction (envs (b + k)) h = Resolved ChainSuccess"
  shows "\<exists>u s'. poll_loop R envs n b t s = (Inr u, s') \<and> repo_findById R i (py_db s') = Some u \<and>
    tx_status u = Confirmed \<and> payout_identity u = payout_identity t"
  using assms
proof (induction k arbitrary: n b s)
  case 0
  then obtain n' where n: "n = Suc n'" by (cases n) auto
  have "truthy (tx_txHash t)" "env_getTransaction (envs b) (the (tx_txHash t)) = Resolved ChainSuccess"
    using "0.prems" by simp_all
  from confirm_healthy [OF "0.prems"(1-3) this(1) "0.prems"(6,7) this(2)]
  show ?case using n find_id [OF "0.prems"(1,2)] by auto
next
  case (Suc k)
  then obtain n' where n: "n = Suc n'" "k < n'" by (cases n) auto
  let ?s = "s\<lparr>py_breaker := onSuccess (py_breaker s)\<rparr>"
  obtain m where "env_getTransaction (envs b) h = Resolved (ChainOther m)"
    using Suc.prems(9) [of 0] by auto
  then have c: "confirmSubmittedTransaction R (envs b) (tx_id t) s = (Inr t, ?s)"
    using Suc.prems(2-5,7) find_id [OF Suc.prems(1,2)]
    by (simp add: confirmSubmittedTransaction_def requireTransaction_def on_breaker_closed)
  have "\<exists>m. env_getTransaction (envs (Suc b + j)) h = Resolved (ChainOther m)" if "j < k" for j
    using Suc.prems(9) [of "Suc j"] that by simp
  moreover have "env_getTransaction (envs (Suc b + k)) h = Resolved ChainSuccess"
    using Suc.prems(10) by simp
  ultimately show ?case
    using Suc.IH [of ?s n' "Suc b"] Suc.prems(1-7) n c onSuccess_closed by simp
qed

lemma poll_confirms:
  assumes "inv (py_db s)" and "repo_findById R i (py_db s) = Some t" and "tx_status t = Submitted"
    and "tx_txHash t = Some h" and "h \<noteq> []" and "storable Confirmed"
    and "cb_state (py_breaker s) = Closed" and "k < pc_confirmMaxPolls cfg"
    and "\<And>j. j < k \<Longrightarrow> \<exists>m. env_getTransaction (envs j) h = Resolved (ChainOther m)"
    and "env_getTransaction (envs k) h = Resolved ChainSuccess"
  shows "\<exists>u s'. pollConfirmation R cfg envs i s = (Inr u, s') \<and>
    repo_findById R i (py_db s') = Some u \<and> tx_status u = Confirmed \<and>
    payout_identity u = payout_identity t"
  using poll_loop_confirms [OF assms(1-8), of envs 0] assms(2,9,10)
  by (simp add: pollConfirmation_def requireTransaction_def)

lemma job_exhausted:
  assumes "inv (py_db s)" and "repo_findById R i (py_db s) = Some t" and "storable Dead"
    and "or_default opts TX_CONFIRM_ATTEMPTS \<le> made"
  shows "\<exists>u s'. on_job_failed R i opts made err now s = (Inr (), s') \<and>
    repo_findById R i (py_db s') = Some u \<and> tx_status u = Dead"
proof -
  let ?p = "empty_patch\<lparr>p_status := Some Dead, p_errorMessage := Some (Some (''Confirmation failed after '' @
      dec_digits (or_default opts TX_CONFIRM_ATTEMPTS) @ '' attempts: '' @ err_message err)),
      p_updatedAt := Some now\<rparr>"
  obtain t' s' where u: "db_update R i ?p now s = (Inr t', s')"
    "no_times t' = no_times (apply_patch ?p t)" "repo_findById R i (py_db s') = Some t'"
    using db_update_ok [of s i t ?p now] assms(1-3) by auto
  then show ?thesis using assms(4) no_times_eqD(2) [OF u(2)]
    by (simp add: on_job_failed_def Let_def)
qed

lemma requeue_exact:
  assumes "inv (py_db s)" and "repo_findById R (tx_id t) (py_db s) = Some t" and "storable Queued"
    and "truthy (tx_signedXdr t)" and "tx_attempts t < wk_failedRetryMax wk"
  shows "fst (handleFailedTransaction R wk clock t s) =
    (if clock 0 - tx_updatedAt t < wk_failedRetryBaseMs wk * 2 ^ (tx_attempts t - 1)
     then Inr Waiting else Inr Retried)"
proof -
  let ?p = "empty_patch\<lparr>p_status := Some Queued, p_updatedAt := Some (clock 1)\<rparr>"
  obtain t' s' where "db_update R (tx_id t) ?p (clock 1) s = (Inr t', s')"
    using db_update_ok [of s "tx_id t" t ?p "clock 1"] assms(1-3) by auto
  then show ?thesis using assms(4,5) by (simp add: handleFailedTransaction_def backoff_ms_def)
qed

end

section \<open>Submission and confirmation\<close>

text \<open>
  The RPC server is asked to send a transaction only for a payout that is queued, with live
  execution on, a signed XDR and attempts left: otherwise what it would answer has no influence on
  the result, and the breaker sees no call.
\<close>

theorem rpc_only_when_due:
  assumes "\<And>t. repo_findById R i (py_db s) = Some t \<Longrightarrow> \<not> may_send cfg t"
  shows "submitQueuedTransaction R cfg sdk (env\<lparr>env_send := g\<rparr>) i s =
      submitQueuedTransaction R cfg sdk env i s \<and>
    py_breaker (snd (submitQueuedTransaction R cfg sdk env i s)) = py_breaker s"
  using assms by (rule submit_not_sent)

theorem rpc_only_when_due_witness:
  "submitQueuedTransaction mem_tx_repo demo_cfg demo_sdk (demo_env\<lparr>env_send := (\<lambda>_. TimedOut)\<rparr>) ''a''
      (demo_state [sample_tx ''a'' ''k1'' 1 Queued]) =
   submitQueuedTransaction mem_tx_repo demo_cfg demo_sdk demo_env ''a''
      (demo_state [sample_tx ''a'' ''k1'' 1 Queued])"
proof -
  have "\<not> may_send demo_cfg t"
    if "repo_findById mem_tx_repo ''a'' (py_db (demo_state [sample_tx ''a'' ''k1'' 1 Queued])) = Some t" for t
    using that unfolding demo_find by (auto simp: may_send_def)
  from rpc_only_when_due [OF this] show ?thesis by blast
qed

definition demo_queued :: "payment_status \<Rightarrow> string option \<Rightarrow> tx_record" where
  "demo_queued st h = (sample_tx ''a'' ''k1'' 1 st)\<lparr>tx_signedXdr := Some ''x'', tx_txHash := h\<rparr>"

lemma demo_queued_sel [simp]:
  "tx_id (demo_queued st h) = ''a''" "tx_status (demo_queued st h) = st"
  "tx_txHash (demo_queued st h) = h" "tx_signedXdr (demo_queued st h) = Some ''x''"
  "tx_attempts (demo_queued st h) = 0" "tx_updatedAt (demo_queued st h) = 0"
  by (simp_all add: demo_queued_def)

lemma demo_queued_state:
  "mem_inv (py_db (demo_state [demo_queued st h]))"
  "repo_findById mem_tx_repo ''a'' (py_db (demo_state [demo_queued st h])) = Some (demo_queued st h)"
  "cb_state (py_breaker (demo_state [demo_queued st h])) = Closed"
proof -
  show "mem_inv (py_db (demo_state [demo_queued st h]))" by (rule demo_inv) simp
  show "repo_findById mem_tx_repo ''a'' (py_db (demo_state [demo_queued st h])) = Some (demo_queued st h)"
    unfolding demo_find by simp
  show "cb_state (py_breaker (demo_state [demo_queued st h])) = Closed"
    by (simp add: demo_state_def soroban_breaker_def breaker_on_def new_breaker_def)
qed

lemma demo_may_send: "may_send demo_cfg (demo_queued Queued h)"
  by (simp add: may_send_def demo_cfg_def)

text \<open>
  C37: when the server accepts the transaction and the chain reports success, submission followed by
  confirmation takes a queued payout, from a closed circuit, to confirmed, with its identity kept.
\<close>

theorem healthy_payout_confirmed:
  assumes "tx_repository R I ok" and "I (py_db s)" and "repo_findById R i (py_db s) = Some t"
    and "may_send cfg t" and "ok Submitted" and "ok Confirmed" and "cb_state (py_breaker s) = Closed"
    and "sdk_fromXDR sdk (the (tx_signedXdr t)) (pc_networkPassphrase cfg) = Inr parsed"
    and "env_send env parsed = Resolved \<lparr>sr_status = SendOther m, sr_hash = h\<rparr>" and "h \<noteq> []"
    and "env_getTransaction env h = Resolved ChainSuccess"
  shows "\<exists>u s'. confirmSubmittedTransaction R env i (snd (submitQueuedTransaction R cfg sdk env i s)) =
      (Inr u, s') \<and>
    repo_findById R i (py_db s') = Some u \<and> tx_status u = Confirmed \<and>
    payout_identity u = payout_identity t"
  using assms by (rule tx_repository.submit_then_confirm)

theorem healthy_payout_confirmed_witness:
  "\<exists>u s'. confirmSubmittedTransaction mem_tx_repo demo_env ''a''
      (snd (submitQueuedTransaction mem_tx_repo demo_cfg demo_sdk demo_env ''a''
         (demo_state [demo_queued Queued None]))) = (Inr u, s') \<and> tx_status u = Confirmed"
proof -
  let ?p = "Classic ''GA'' [demo_op ''GB'' ''100'']"
  have x: "sdk_fromXDR demo_sdk (the (tx_signedXdr (demo_queued Queued None)))
      (pc_networkPassphrase demo_cfg) = Inr ?p" by (simp add: demo_sdk_def)
  have "env_send demo_env ?p = Resolved \<lparr>sr_status = SendOther ''PENDING'', sr_hash = ''h''\<rparr>"
    "''h'' \<noteq> []" "env_getTransaction demo_env ''h'' = Resolved ChainSuccess"
    by (simp_all add: demo_env_def)
  from healthy_payout_confirmed [OF mem.tx_repository_axioms demo_queued_state(1,2) demo_may_send
      TrueI TrueI demo_queued_state(3) x this] show ?thesis by blast
qed

text \<open>
  \<open>pollConfirmation\<close> returns the confirmed payout if the chain reports success at one of
  its polls and nothing final before it, as long as that poll is within \<open>confirmMaxPolls\<close>.
\<close>

theorem poll_reaches_confirmation:
  assumes "tx_repository R I ok" and "I (py_db s)" and "repo_findById R i (py_db s) = Some t"
    and "tx_status t = Submitted" and "tx_txHash t = Some h" and "h \<noteq> []" and "ok Confirmed"
    and "cb_state (py_breaker s) = Closed" and "k < pc_confirmMaxPolls cfg"
    and "\<And>j. j < k \<Longrightarrow> \<exists>m. env_getTransaction (envs j) h = Resolved (ChainOther m)"
    and "env_getTransaction (envs k) h = Resolved ChainSuccess"
  shows "\<exists>u s'. pollConfirmation R cfg envs i s = (Inr u, s') \<and>
    repo_findById R i (py_db s') = Some u \<and> tx_status u = Confirmed \<and>
    payout_identity u = payout_identity t"
  using assms by (rule tx_repository.poll_confirms)

definition demo_polls :: "nat \<Rightarrow> (unit, string, string) rpc_env" where
  "demo_polls k = (if k = 0 then demo_env\<lparr>env_getTransaction := (\<lambda>_. Resolved (ChainOther ''NOT_FOUND''))\<rparr>
     else demo_env)"

theorem poll_reaches_confirmation_witness:
  "\<exists>u s'. pollConfirmation mem_tx_repo demo_cfg demo_polls ''a''
      (demo_state [demo_queued Submitted (Some ''h'')]) = (Inr u, s') \<and> tx_status u = Confirmed"
proof -
  have st: "tx_status (demo_queued Submitted (Some ''h'')) = Submitted"
    "tx_txHash (demo_queued Submitted (Some ''h'')) = Some ''h''" "''h'' \<noteq> []" by simp_all
  have polls: "1 < pc_confirmMaxPolls demo_cfg"
    "\<And>j. j < 1 \<Longrightarrow> \<exists>m. env_getTransaction (demo_polls j) ''h'' = Resolved (ChainOther m)"
    "env_getTransaction (demo_polls 1) ''h'' = Resolved ChainSuccess"
    by (simp_all add: demo_cfg_def demo_polls_def demo_env_def)
  note q = demo_queued_state [of Submitted "Some ''h''"]
  from poll_reaches_confirmation [OF mem.tx_repository_axioms q(1,2) st TrueI q(3),
      of 1 demo_cfg demo_polls] polls
  show ?thesis by blast
qed

text \<open>
  While the circuit is open and its reset time has not come, submitting a payout that is due
  returns it as not submitted and confirming any payout returns it as it is, and neither changes
  anything: no attempt is used up.
\<close>

theorem open_circuit_costs_nothing:
  assumes "repo_findById R i (py_db s) = Some t" and "may_send cfg t"
    and "sdk_fromXDR sdk (the (tx_signedXdr t)) (pc_networkPassphrase cfg) = Inr parsed"
    and "cb_state (py_breaker s) = Open" and "\<not> shouldAttemptReset (env_clock env 0) (py_breaker s)"
  shows "submitQueuedTransaction R cfg sdk env i s = (Inr \<lparr>su_transaction = t, su_submitted = False\<rparr>, s) \<and>
    confirmSubmittedTransaction R env i s = (Inr t, s)"
  using assms
  by (simp add: submitQueuedTransaction_def requireTransaction_def may_send_def submit_attempt_def
      on_breaker_open confirmSubmittedTransaction_def)

definition demo_open :: "mem_repo pay_state" where
  "demo_open = (demo_state [demo_queued Queued None])\<lparr>py_breaker :=
     soroban_breaker\<lparr>cb_state := Open, cb_lastFailureTime := Some 5\<rparr>\<rparr>"

theorem open_circuit_costs_nothing_witness:
  "submitQueuedTransaction mem_tx_repo demo_cfg demo_sdk demo_env ''a'' demo_open =
     (Inr \<lparr>su_transaction = demo_queued Queued None, su_submitted = False\<rparr>, demo_open)"
proof -
  have f: "repo_findById mem_tx_repo ''a'' (py_db demo_open) = Some (demo_queued Queued None)"
    using demo_queued_state(2) [of Queued None] by (simp add: demo_open_def)
  have x: "sdk_fromXDR demo_sdk (the (tx_signedXdr (demo_queued Queued None)))
      (pc_networkPassphrase demo_cfg) = Inr (Classic ''GA'' [demo_op ''GB'' ''100''])"
    by (simp add: demo_sdk_def)
  have "cb_state (py_breaker demo_open) = Open"
    "\<not> shouldAttemptReset (env_clock demo_env 0) (py_breaker demo_open)"
    by (simp_all add: demo_open_def shouldAttemptReset_def demo_env_def soroban_breaker_def
        breaker_on_def new_breaker_def)
  from open_circuit_costs_nothing [OF f demo_may_send x this] show ?thesis by blast
qed

end
