(* ===== verification/WorkerProps.thy ===== *)
theory WorkerProps
  imports PayoutSubmit
begin

text \<open>
  Properties of the batch worker and the confirmation job.
\<close>

text \<open>
  A batch processes at most \<open>limit\<close> payouts, and when the queue accepts its jobs every
  processed payout is counted at most once among submitted, confirmed, failed, retried and
  dead-lettered.
\<close>

theorem batch_counts_consistent:
  assumes "tx_repository R I ok" and "I (py_db s)" and "0 \<le> limit" and "\<And>k e. adds k \<noteq> Inl e"
  shows "counted (wt_result (processBatch R cfg sdk wk adds envs limit s jobs)) \<le>
      wr_processed (wt_result (processBatch R cfg sdk wk adds envs limit s jobs)) \<and>
    int (wr_processed (wt_result (processBatch R cfg sdk wk adds envs limit s jobs))) \<le> limit"
  using assms by (rule tx_repository.batch_counts)

theorem batch_counts_consistent_witness:
  "int (wr_processed (wt_result (processBatch mem_tx_repo demo_cfg demo_sdk demo_worker
      (\<lambda>_. Inr ()) (\<lambda>_. demo_env) 25 (demo_state [demo_queued Queued None]) []))) \<le> 25"
proof -
  have "\<And>(k :: nat) (e :: js_error). (\<lambda>_. Inr ()) k \<noteq> Inl e" by simp
  from batch_counts_consistent [OF mem.tx_repository_axioms demo_queued_state(1) _ this,
      of 25 demo_cfg demo_sdk demo_worker "\<lambda>_. demo_env" Queued None "[]"]
  show ?thesis by simp
qed

text \<open>
  A failed payout that has a signed XDR and retries left is put back in the queue exactly when
  \<open>failedRetryBaseMs * 2 ^ (attempts - 1)\<close> milliseconds (one base delay before the first
  attempt) have passed since its last update; until then it waits.
\<close>

theorem retry_backoff_exact:
  assumes "tx_repository R I ok" and "I (py_db s)"
    and "repo_findById R (tx_id t) (py_db s) = Some t" and "ok Queued"
    and "truthy (tx_signedXdr t)" and "tx_attempts t < wk_failedRetryMax wk"
  shows "fst (handleFailedTransaction R wk clock t s) =
    (if clock 0 - tx_updatedAt t < wk_failedRetryBaseMs wk * 2 ^ (tx_attempts t - 1)
     then Inr Waiting else Inr Retried)"
  using assms by (rule tx_repository.requeue_exact)

theorem retry_backoff_exact_witness:
  "fst (handleFailedTransaction mem_tx_repo demo_worker (\<lambda>_. 4999) (demo_queued Failed None)
      (demo_state [demo_queued Failed None])) = Inr Waiting \<and>
   fst (handleFailedTransaction mem_tx_repo demo_worker (\<lambda>_. 5000) (demo_queued Failed None)
      (demo_state [demo_queued Failed None])) = Inr Retried"
proof -
  let ?t = "demo_queued Failed None"
  have f: "repo_findById mem_tx_repo (tx_id ?t) (py_db (demo_state [?t])) = Some ?t"
    using demo_queued_state(2) by simp
  have r: "truthy (tx_signedXdr ?t)" "tx_attempts ?t < wk_failedRetryMax demo_worker"
    "wk_failedRetryBaseMs demo_worker = 5000"
    by (simp_all add: demo_worker_def new_worker_def DEFAULT_FAILED_RETRY_MAX_def
        DEFAULT_FAILED_RETRY_BASE_MS_def)
  note e = retry_backoff_exact [OF mem.tx_repository_axioms demo_queued_state(1) f TrueI r(1,2)]
  from e [of "\<lambda>_. 4999"] e [of "\<lambda>_. 5000"] show ?thesis by (simp add: r(3))
qed

context mongo_tx
begin

lemma repository: "tx_repository (mongo_tx_repo C) (tx_coll_inv C) (\<lambda>st. st \<in> set schema_statuses)"
  by (rule repo.tx_repository_axioms)

end

context sql_tx
begin

lemma repository: "tx_repository (sql_tx_repo C) (tx_coll_inv C) sql_check_status"
  by (rule repo.tx_repository_axioms)

end

text \<open>
  With the Mongo repository or the SQL one, no batch ever dead-letters a payout, because neither
  schema accepts the status dead: the counter stays 0, and a failed payout whose retries are used up,
  or that has no signed XDR, is left exactly as it was, to be listed by every later batch.
\<close>

theorem database_never_dead_letters:
  assumes "mongo_tx C \<and> R = mongo_tx_repo C \<or> sql_tx C \<and> R = sql_tx_repo C"
    and "tx_coll_inv C (py_db s)" and "repo_findById R (tx_id u) (py_db s) = Some u"
    and "tx_status u = Failed" and "\<not> truthy (tx_signedXdr u) \<or> wk_failedRetryMax wk \<le> tx_attempts u"
  shows "wr_deadLettered (wt_result (processBatch R cfg sdk wk adds envs limit s jobs)) = 0 \<and>
    repo_findById R (tx_id u) (py_db (wt_pay (processBatch R cfg sdk wk adds envs limit s jobs))) = Some u"
  using assms(1)
proof (elim disjE conjE)
  assume m: "mongo_tx C" and R: "R = mongo_tx_repo C"
  have "tx_repository R (tx_coll_inv C) (\<lambda>st. st \<in> set schema_statuses)"
    unfolding R using m by (rule mongo_tx.repository)
  then show ?thesis
    using assms(2) _ assms(3-5) by (rule tx_repository.batch_dead_letter) (simp add: schema_statuses_def)
next
  assume m: "sql_tx C" and R: "R = sql_tx_repo C"
  have "tx_repository R (tx_coll_inv C) sql_check_status"
    unfolding R using m by (rule sql_tx.repository)
  then show ?thesis
    using assms(2) _ assms(3-5) by (rule tx_repository.batch_dead_letter) (simp add: sql_check_status_def)
qed

definition demo_pay :: "'s \<Rightarrow> 's pay_state" where
  "demo_pay d = \<lparr>py_db = d, py_breaker = soroban_breaker, py_payoutsSuccess = []\<rparr>"

theorem database_never_dead_letters_witness:
  "wr_deadLettered (wt_result (processBatch (mongo_tx_repo (list_coll mongo_conflict)) demo_cfg demo_sdk
      demo_worker (\<lambda>_. Inr ()) (\<lambda>_. demo_env) 25
      (demo_pay [sample_tx ''a'' ''k1'' 1 Failed]) [])) = 0"
proof -
  let ?C = "list_coll mongo_conflict" and ?t = "sample_tx ''a'' ''k1'' 1 Failed"
  have c: "mongo_tx ?C \<and> mongo_tx_repo ?C = mongo_tx_repo ?C \<or> sql_tx ?C \<and> mongo_tx_repo ?C = sql_tx_repo ?C"
    using mongo_list.mongo_tx_axioms by simp
  have i: "tx_coll_inv ?C (py_db (demo_pay [?t]))"
    by (simp add: demo_pay_def tx_coll_inv_def tx_rows_inv_def c_all_def list_coll_def schema_statuses_def)
  have f: "repo_findById (mongo_tx_repo ?C) (tx_id ?t) (py_db (demo_pay [?t])) = Some ?t"
    by (simp add: demo_pay_def mongo_findById_def c_findOne_def list_coll_def)
  show ?thesis
    using database_never_dead_letters [OF c i f, of demo_worker demo_cfg demo_sdk "\<lambda>_. Inr ()"
        "\<lambda>_. demo_env" 25 "[]"] by simp
qed

text \<open>
  When the confirmation job has failed for the last time, its handler marks the payout dead
  whatever its status is: a payout confirmed in the meantime is overwritten.
\<close>

theorem exhausted_job_overwrites_status:
  assumes "tx_repository R I ok" and "I (py_db s)" and "repo_findById R i (py_db s) = Some t"
    and "ok Dead" and "or_default opts TX_CONFIRM_ATTEMPTS \<le> made"
  shows "\<exists>u s'. on_job_failed R i opts made err now s = (Inr (), s') \<and>
    repo_findById R i (py_db s') = Some u \<and> tx_status u = Dead"
  using assms by (rule tx_repository.job_exhausted)

theorem exhausted_job_overwrites_status_witness:
  "\<exists>(u :: tx_record) s'. on_job_failed mem_tx_repo ''a'' None 10 (Error ''timeout'') 7
      (demo_state [demo_queued Confirmed (Some ''h'')]) = (Inr (), s') \<and> tx_status u = Dead"
proof -
  have "or_default None TX_CONFIRM_ATTEMPTS \<le> 10" by (simp add: TX_CONFIRM_ATTEMPTS_def)
  from exhausted_job_overwrites_status [OF mem.tx_repository_axioms demo_queued_state(1,2) TrueI this,
      of "Error ''timeout''" 7 Confirmed "Some ''h''"]
  show ?thesis by blast
qed

end
