(* ===== verification/Rounds.thy ===== *)
theory Rounds
  imports Store Amounts "HOL-Library.List_Lexorder" "HOL-Library.Char_ord"
begin

text \<open>
  Rounds of an arena: the types and schemas of backend/src/types/round.ts, the repository of
  backend/src/repositories/roundRepository.ts over a table of rounds and a table of elimination
  logs (each a collection parameter, as Prisma is not part of the repository), the on-chain readers
  of backend/src/services/onChainReader.ts, and the service of backend/src/services/roundService.ts.
  Stakes, yields and amounts are exact rationals; the code computes them in doubles.
\<close>

section \<open>Types\<close>

datatype round_state = OPEN | CLOSED | RESOLVED | SETTLED

fun state_name :: "round_state \<Rightarrow> string" where
  "state_name OPEN = ''OPEN''"
| "state_name CLOSED = ''CLOSED''"
| "state_name RESOLVED = ''RESOLVED''"
| "state_name SETTLED = ''SETTLED''"

record player_choice =
  ch_userId :: string
  ch_choice :: string
  ch_stake :: rat

record round_input =
  in_roundId :: string
  in_playerChoices :: "player_choice list"
  in_allActivePlayerIds :: "string list"
  in_oracleYield :: rat
  in_randomSeed :: "string option"
  in_arenaContractId :: string

record payout =
  po_userId :: string
  po_amount :: rat

record round_resolution =
  rs_eliminatedPlayers :: "string list"
  rs_payouts :: "payout list"
  rs_poolBalances :: "(string \<times> rat) list"

record round_metadata =
  md_playerChoices :: "player_choice list"
  md_oracleYield :: rat
  md_randomSeed :: "string option"
  md_resolution :: "round_resolution option"

text \<open>A JSON column that is not null: the object that the code wrote, or a value of another kind.\<close>

datatype meta_json = JMeta round_metadata | JNotObject

record round_row =
  row_id :: string
  row_arenaId :: string
  row_roundNumber :: nat
  row_state :: string
  row_metadata :: "meta_json option"
  row_createdAt :: int
  row_updatedAt :: int

record round_data =
  rd_id :: string
  rd_arenaId :: string
  rd_roundNumber :: nat
  rd_state :: round_state
  rd_playerChoices :: "player_choice list"
  rd_oracleYield :: "rat option"
  rd_randomSeed :: "string option"
  rd_resolution :: "round_resolution option"
  rd_metadata :: "round_metadata option"
  rd_createdAt :: int
  rd_updatedAt :: int

record elimination =
  el_roundId :: string
  el_userId :: string
  el_reason :: string

subsection \<open>Schemas\<close>

text \<open>
  \<open>z.string().uuid()\<close>, as far as it matters here: five groups of hexadecimal digits of 8, 4,
  4, 4 and 12, separated by hyphens.
\<close>

definition is_uuid :: "string \<Rightarrow> bool" where
  "is_uuid s \<longleftrightarrow> map length (js_split (CHR ''-'') s) = [8, 4, 4, 4, 12] \<and>
     list_all (list_all is_hex) (js_split (CHR ''-'') s)"

definition contract_id_regex :: "string \<Rightarrow> bool" where
  "contract_id_regex s =
     (case s of [] \<Rightarrow> False | c # cs \<Rightarrow> c = CHR ''C'' \<and> length cs = 55 \<and> list_all is_base32 cs)"

definition seed_regex :: "string \<Rightarrow> bool" where
  "seed_regex s \<longleftrightarrow> length s = 64 \<and> list_all is_hex_lower s"

definition player_choice_ok :: "player_choice \<Rightarrow> bool" where
  "player_choice_ok p \<longleftrightarrow> is_uuid (ch_userId p) \<and> ch_choice p \<in> {''heads'', ''tails''} \<and> 0 < ch_stake p"

definition round_input_ok :: "round_input \<Rightarrow> bool" where
  "round_input_ok i \<longleftrightarrow> is_uuid (in_roundId i) \<and>
     1 \<le> length (in_playerChoices i) \<and> length (in_playerChoices i) \<le> 500 \<and>
     list_all player_choice_ok (in_playerChoices i) \<and>
     1 \<le> length (in_allActivePlayerIds i) \<and> length (in_allActivePlayerIds i) \<le> 500 \<and>
     list_all is_uuid (in_allActivePlayerIds i) \<and>
     0 \<le> in_oracleYield i \<and> in_oracleYield i \<le> 100 \<and>
     (case in_randomSeed i of None \<Rightarrow> True | Some s \<Rightarrow> seed_regex s) \<and>
     contract_id_regex (in_arenaContractId i)"

section \<open>The repository\<close>

record ('r, 'e) round_db =
  db_rounds :: 'r
  db_logs :: 'e

definition parseState :: "string \<Rightarrow> round_state" where
  "parseState s =
     (if s = ''OPEN'' then OPEN else if s = ''CLOSED'' then CLOSED
      else if s = ''RESOLVED'' then RESOLVED else if s = ''SETTLED'' then SETTLED else OPEN)"

definition fromJsonMetadata :: "meta_json option \<Rightarrow> round_metadata option" where
  "fromJsonMetadata m = (case m of Some (JMeta md) \<Rightarrow> Some md | _ \<Rightarrow> None)"

definition toJsonMetadata :: "round_metadata \<Rightarrow> meta_json" where
  "toJsonMetadata md = JMeta md"

definition mapRound :: "round_row \<Rightarrow> round_data" where
  "mapRound r =
     (let md = fromJsonMetadata (row_metadata r) in
      \<lparr>rd_id = row_id r, rd_arenaId = row_arenaId r, rd_roundNumber = row_roundNumber r,
       rd_state = parseState (row_state r),
       rd_playerChoices = (case md of None \<Rightarrow> [] | Some m \<Rightarrow> md_playerChoices m),
       rd_oracleYield = map_option md_oracleYield md,
       rd_randomSeed = Option.bind md md_randomSeed,
       rd_resolution = Option.bind md md_resolution,
       rd_metadata = md, rd_createdAt = row_createdAt r, rd_updatedAt = row_updatedAt r\<rparr>)"

text \<open>The columns that Prisma fills in (\<open>@default\<close>) are the id and the time.\<close>

definition round_create ::
    "(round_row, 'r) coll \<Rightarrow> string \<Rightarrow> int \<Rightarrow> string \<Rightarrow> nat \<Rightarrow> ('r, 'e) round_db \<Rightarrow>
     (js_error + round_data) \<times> ('r, 'e) round_db" where
  "round_create RC newId now arenaId n s =
     (let row = \<lparr>row_id = newId, row_arenaId = arenaId, row_roundNumber = n, row_state = ''OPEN'',
            row_metadata = None, row_createdAt = now, row_updatedAt = now\<rparr>
      in (case c_create RC row (db_rounds s) of
            (Inl e, r) \<Rightarrow> (Inl e, s\<lparr>db_rounds := r\<rparr>)
          | (Inr _, r) \<Rightarrow> (Inr (mapRound row), s\<lparr>db_rounds := r\<rparr>)))"

definition round_findById :: "(round_row, 'r) coll \<Rightarrow> string \<Rightarrow> ('r, 'e) round_db \<Rightarrow> round_data option" where
  "round_findById RC i s = map_option mapRound (c_findOne RC (\<lambda>r. row_id r = i) (db_rounds s))"

definition round_findByArenaAndNumber ::
    "(round_row, 'r) coll \<Rightarrow> string \<Rightarrow> nat \<Rightarrow> ('r, 'e) round_db \<Rightarrow> round_data option" where
  "round_findByArenaAndNumber RC a n s =
     map_option mapRound (c_findOne RC (\<lambda>r. row_arenaId r = a \<and> row_roundNumber r = n) (db_rounds s))"

definition elimination_rows :: "string \<Rightarrow> string list \<Rightarrow> elimination list" where
  "elimination_rows i ids =
     map (\<lambda>u. \<lparr>el_roundId = i, el_userId = u, el_reason = ''ELIMINATED_BY_ROUND''\<rparr>) ids"

text \<open>\<open>createMany\<close>: all rows, or an error and none.\<close>

fun create_all :: "('d, 'e) coll \<Rightarrow> 'd list \<Rightarrow> 'e \<Rightarrow> (js_error + unit) \<times> 'e" where
  "create_all EC [] e = (Inr (), e)"
| "create_all EC (d # ds) e =
     (case c_create EC d e of (Inl x, e') \<Rightarrow> (Inl x, e') | (Inr _, e') \<Rightarrow> create_all EC ds e')"

definition createMany :: "('d, 'e) coll \<Rightarrow> 'd list \<Rightarrow> 'e \<Rightarrow> (js_error + unit) \<times> 'e" where
  "createMany EC ds e = (case create_all EC ds e of (Inl x, _) \<Rightarrow> (Inl x, e) | r \<Rightarrow> r)"

definition with_resolution :: "round_metadata \<Rightarrow> round_resolution \<Rightarrow> round_metadata" where
  "with_resolution md res = md\<lparr>md_resolution := Some res\<rparr>"

text \<open>\<open>update\<close> of a missing row raises (Prisma's P2025).\<close>

definition saveResolution ::
    "(round_row, 'r) coll \<Rightarrow> (elimination, 'e) coll \<Rightarrow> string \<Rightarrow> round_resolution \<Rightarrow> round_metadata \<Rightarrow>
     int \<Rightarrow> ('r, 'e) round_db \<Rightarrow> (js_error + unit) \<times> ('r, 'e) round_db" where
  "saveResolution RC EC i res md now s =
     (case c_update RC (\<lambda>r. row_id r = i)
             (\<lambda>r. r\<lparr>row_metadata := Some (toJsonMetadata (with_resolution md res)), row_updatedAt := now\<rparr>)
             (db_rounds s) of
        (n, r) \<Rightarrow>
          if n = 0 then (Inl (Error ''Record to update not found.''), s)
          else if rs_eliminatedPlayers res = [] then (Inr (), s\<lparr>db_rounds := r\<rparr>)
          else (case createMany EC (elimination_rows i (rs_eliminatedPlayers res)) (db_logs s) of
                  (x, e) \<Rightarrow> (x, s\<lparr>db_rounds := r, db_logs := e\<rparr>)))"

definition updateState ::
    "(round_row, 'r) coll \<Rightarrow> string \<Rightarrow> round_state \<Rightarrow> int \<Rightarrow> ('r, 'e) round_db \<Rightarrow>
     (js_error + unit) \<times> ('r, 'e) round_db" where
  "updateState RC i st now s =
     (case c_update RC (\<lambda>r. row_id r = i) (\<lambda>r. r\<lparr>row_state := state_name st, row_updatedAt := now\<rparr>)
             (db_rounds s) of
        (n, r) \<Rightarrow> if n = 0 then (Inl (Error ''Record to update not found.''), s)
                  else (Inr (), s\<lparr>db_rounds := r\<rparr>))"

text \<open>The transaction: an error in it restores the state before it.\<close>

definition resolveAtomically ::
    "(round_row, 'r) coll \<Rightarrow> (elimination, 'e) coll \<Rightarrow> string \<Rightarrow> round_state \<Rightarrow> round_resolution \<Rightarrow>
     round_metadata \<Rightarrow> int \<Rightarrow> ('r, 'e) round_db \<Rightarrow> (js_error + unit) \<times> ('r, 'e) round_db" where
  "resolveAtomically RC EC i st res md now s =
     (case c_update RC (\<lambda>r. row_id r = i \<and> row_state r \<in> {state_name OPEN, state_name CLOSED})
             (\<lambda>r. r\<lparr>row_state := state_name st,
                    row_metadata := Some (toJsonMetadata (with_resolution md res)), row_updatedAt := now\<rparr>)
             (db_rounds s) of
        (n, r) \<Rightarrow>
          if n = 0
          then (Inl (Error (''Round '' @ i @ '' was already resolved by a concurrent request'')), s)
          else if rs_eliminatedPlayers res = [] then (Inr (), s\<lparr>db_rounds := r\<rparr>)
          else (case createMany EC (elimination_rows i (rs_eliminatedPlayers res)) (db_logs s) of
                  (Inl e, _) \<Rightarrow> (Inl e, s)
                | (Inr _, e) \<Rightarrow> (Inr (), s\<lparr>db_rounds := r, db_logs := e\<rparr>)))"

text \<open>
  Pages. A cursor is the offset it encodes; \<open>decodeCursor\<close> yields 0 for anything malformed, so
  it is the argument here, as an integer that the payload held, or nothing.
\<close>

record 'a paginated =
  pg_items :: "'a list"
  pg_cursor :: "nat option"
  pg_hasMore :: bool

definition decodeCursor :: "int option \<Rightarrow> nat" where
  "decodeCursor payload = (case payload of None \<Rightarrow> 0 | Some k \<Rightarrow> if k < 0 then 0 else nat k)"

definition page_rows :: "round_row list \<Rightarrow> round_row list" where
  "page_rows rows = sort_key row_roundNumber (sort_key row_id rows)"

definition listByArenaId ::
    "(round_row, 'r) coll \<Rightarrow> string \<Rightarrow> nat \<Rightarrow> int option option \<Rightarrow> ('r, 'e) round_db \<Rightarrow> round_data paginated" where
  "listByArenaId RC a lm cursor s =
     (let offset = (case cursor of None \<Rightarrow> 0 | Some payload \<Rightarrow> decodeCursor payload);
          rounds = take (lm + 1) (drop offset
            (page_rows (c_find RC (\<lambda>r. row_arenaId r = a) (db_rounds s))));
          hasMore = length rounds > lm
      in \<lparr>pg_items = map mapRound (take lm rounds),
          pg_cursor = (if hasMore then Some (offset + lm) else None), pg_hasMore = hasMore\<rparr>)"

end
