(* ===== verification/RoundService.thy ===== *)
theory RoundService
  imports Rounds
begin

text \<open>
  The on-chain readers of backend/src/services/onChainReader.ts and \<open>RoundService\<close> of
  backend/src/services/roundService.ts. The RPC server and the SDK are parameters; each field of
  \<open>resolve_env\<close> is what one call of them settles to during one resolution.
\<close>

section \<open>On-chain readers\<close>

text \<open>
  What \<open>simulateTransaction\<close> answers to a view call, with the value that \<open>scValToNative\<close>
  makes of the result; the answer may also be an error raised on the way there.
\<close>

datatype 'v simulation = SimError string | SimNoResult | SimValue 'v

definition simulateViewCall :: "string \<Rightarrow> js_error + 'v simulation \<Rightarrow> js_error + 'v" where
  "simulateViewCall fn r =
     (case r of
        Inl e \<Rightarrow> Inl e
      | Inr (SimError m) \<Rightarrow> Inl (Error (''Simulation error for '' @ fn @ '': '' @ m))
      | Inr SimNoResult \<Rightarrow> Inl (Error (''Simulation returned no result for '' @ fn))
      | Inr (SimValue v) \<Rightarrow> Inr v)"

text \<open>Every reader catches what the call throws and answers with a default.\<close>

definition or_catch :: "'a \<Rightarrow> js_error + 'a \<Rightarrow> 'a" where
  "or_catch d r = (case r of Inl _ \<Rightarrow> d | Inr v \<Rightarrow> v)"

definition getOnChainGameState :: "js_error + string simulation \<Rightarrow> string" where
  "getOnChainGameState r = or_catch ''Open'' (simulateViewCall ''game_state'' r)"

definition getOnChainPlayerCount :: "js_error + int simulation \<Rightarrow> int" where
  "getOnChainPlayerCount r = or_catch 0 (simulateViewCall ''get_player_count'' r)"

definition getOnChainPlayers :: "js_error + string list simulation \<Rightarrow> string list" where
  "getOnChainPlayers r = or_catch [] (simulateViewCall ''get_players'' r)"

definition getOnChainActivePlayerIds :: "js_error + (string \<times> bool) list simulation \<Rightarrow> string list" where
  "getOnChainActivePlayerIds r =
     or_catch [] (map_sum id (\<lambda>entries. map fst (filter snd entries)) (simulateViewCall ''get_players'' r))"

definition getOnChainWinner :: "js_error + string option simulation \<Rightarrow> string option" where
  "getOnChainWinner r = or_catch None (simulateViewCall ''get_winner'' r)"

definition getOnChainTotalYield :: "js_error + int simulation \<Rightarrow> int" where
  "getOnChainTotalYield r = or_catch 0 (simulateViewCall ''get_total_yield'' r)"

definition mapGameStateToStatus :: "string \<Rightarrow> bool \<Rightarrow> string" where
  "mapGameStateToStatus gameState prizeClaimed =
     (if gameState = ''Open'' then ''open''
      else if gameState = ''InProgress'' then ''active''
      else if gameState = ''Finished'' then (if prizeClaimed then ''settled'' else ''finished'')
      else if gameState = ''Cancelled'' then ''cancelled''
      else ''active'')"

section \<open>submitOnChainResolve\<close>

datatype resolve_simulation = RSimError string | RSimSuccess | RSimOther

record resolve_send =
  sn_status :: string
  sn_hash :: string
  sn_errorResultXdr :: "string option"

record poll_status =
  ps_status :: string
  ps_errorResultXdr :: "string option"

record stellar_config =
  sc_sorobanRpcUrl :: string
  sc_networkPassphrase :: string
  sc_roundConfirmPollMs :: rat
  sc_roundConfirmMaxPolls :: nat

text \<open>
  \<open>re_build\<close> is the \<open>Server\<close>, \<open>Keypair\<close>, \<open>getAccount\<close>, \<open>Contract\<close> and
  \<open>TransactionBuilder\<close> calls before the simulation, \<open>re_assemble\<close> the assembly and
  signature after it, \<open>re_random\<close> the values of \<open>Math.random()\<close>, one per poll.
\<close>

record resolve_env =
  re_signerSecret :: "string option"
  re_build :: "js_error + unit"
  re_simulate :: "js_error + resolve_simulation"
  re_assemble :: "js_error + unit"
  re_send :: "js_error + resolve_send"
  re_getTransaction :: "nat \<Rightarrow> js_error + poll_status"
  re_random :: "nat \<Rightarrow> rat"
  re_players :: "js_error + (string \<times> bool) list simulation"
  re_winner :: "js_error + string option simulation"
  re_refreshMetrics :: "js_error + unit"
  re_now :: int

definition poll_delay :: "rat \<Rightarrow> nat \<Rightarrow> rat \<Rightarrow> rat" where
  "poll_delay base attempt rnd = min (base * (3 / 2) ^ attempt * (9 / 10 + rnd * (2 / 10))) 30000"

text \<open>The polls that are left, the number of the next one, the delays waited so far.\<close>

fun resolve_polls ::
    "resolve_env \<Rightarrow> stellar_config \<Rightarrow> nat \<Rightarrow> string \<Rightarrow> nat \<Rightarrow> nat \<Rightarrow> rat list \<Rightarrow>
     (js_error + nat) \<times> rat list" where
  "resolve_polls env cfg roundNumber hash 0 k waited =
     (Inl (Error (''resolve_round transaction timed out after '' @ dec_digits (sc_roundConfirmMaxPolls cfg) @
        '' polls: hash='' @ hash)), waited)"
| "resolve_polls env cfg roundNumber hash (Suc n) k waited =
     (let waited' = waited @ [poll_delay (sc_roundConfirmPollMs cfg) k (re_random env k)] in
      (case re_getTransaction env k of
         Inl e \<Rightarrow> (Inl e, waited')
       | Inr st \<Rightarrow>
           if ps_status st = ''SUCCESS'' then (Inr roundNumber, waited')
           else if ps_status st = ''FAILED''
           then (Inl (Error (''resolve_round transaction failed: hash='' @ hash @ '' errorResultXdr='' @
                   (case ps_errorResultXdr st of None \<Rightarrow> ''unknown'' | Some x \<Rightarrow> x))), waited')
           else resolve_polls env cfg roundNumber hash n (Suc k) waited'))"

definition submitOnChainResolve ::
    "resolve_env \<Rightarrow> stellar_config \<Rightarrow> string \<Rightarrow> nat \<Rightarrow> (js_error + nat) \<times> rat list" where
  "submitOnChainResolve env cfg contractId roundNumber =
     (if \<not> truthy (re_signerSecret env)
      then (Inl (Error ''ARENA_ADMIN_SECRET is not configured. Cannot submit on-chain resolve_round.''), [])
      else (case re_build env of
        Inl e \<Rightarrow> (Inl e, [])
      | Inr _ \<Rightarrow>
        (case re_simulate env of
           Inl e \<Rightarrow> (Inl e, [])
         | Inr (RSimError m) \<Rightarrow> (Inl (Error (''resolve_round simulation failed: '' @ m)), [])
         | Inr RSimOther \<Rightarrow> (Inl (Error ''resolve_round simulation returned no result''), [])
         | Inr RSimSuccess \<Rightarrow>
             (case re_assemble env of
                Inl e \<Rightarrow> (Inl e, [])
              | Inr _ \<Rightarrow>
                  (case re_send env of
                     Inl e \<Rightarrow> (Inl e, [])
                   | Inr r \<Rightarrow>
                       if sn_status r = ''PENDING'' \<or> sn_status r = ''DUPLICATE''
                       then resolve_polls env cfg roundNumber (sn_hash r) (sc_roundConfirmMaxPolls cfg) 0 []
                       else (Inl (Error (''resolve_round send failed: '' @
                               (case sn_errorResultXdr r of None \<Rightarrow> sn_status r | Some x \<Rightarrow> x))), []))))))"

section \<open>resolveRound and closeRound\<close>

definition eliminated_players :: "string list \<Rightarrow> string list \<Rightarrow> string list" where
  "eliminated_players activeSet ids = filter (\<lambda>i. i \<notin> set activeSet) ids"

definition stake_sum :: "player_choice list \<Rightarrow> rat" where
  "stake_sum ps = sum_list (map ch_stake ps)"

definition computePayouts ::
    "string option \<Rightarrow> player_choice list \<Rightarrow> string list \<Rightarrow> rat \<Rightarrow> payout list" where
  "computePayouts onChainWinner playerChoices eliminatedPlayers oracleYield =
     (if \<not> truthy onChainWinner then []
      else
        let winner = the onChainWinner;
            eliminatedStake = stake_sum (filter (\<lambda>p. ch_userId p \<in> set eliminatedPlayers) playerChoices);
            prizePool = eliminatedStake * (1 + oracleYield / 100);
            winnerStake = (case find (\<lambda>p. ch_userId p = winner) playerChoices of
                None \<Rightarrow> 0 | Some p \<Rightarrow> ch_stake p)
        in [\<lparr>po_userId = winner, po_amount = winnerStake + prizePool\<rparr>])"

fun computePoolBalances :: "player_choice list \<Rightarrow> string list \<Rightarrow> (string \<times> rat) list \<Rightarrow> (string \<times> rat) list" where
  "computePoolBalances [] eliminatedPlayers balances = balances"
| "computePoolBalances (p # ps) eliminatedPlayers balances =
     computePoolBalances ps eliminatedPlayers
       (AList.update (ch_userId p) (if ch_userId p \<in> set eliminatedPlayers then 0 else ch_stake p) balances)"

text \<open>What a resolution computes from the chain's answers.\<close>

definition resolution_of :: "round_input \<Rightarrow> resolve_env \<Rightarrow> round_resolution" where
  "resolution_of inp env =
     (let eliminated = eliminated_players (getOnChainActivePlayerIds (re_players env)) (in_allActivePlayerIds inp)
      in \<lparr>rs_eliminatedPlayers = eliminated,
          rs_payouts = computePayouts (getOnChainWinner (re_winner env)) (in_playerChoices inp) eliminated
            (in_oracleYield inp),
          rs_poolBalances = computePoolBalances (in_playerChoices inp) eliminated []\<rparr>)"

definition metadata_of :: "round_input \<Rightarrow> round_resolution \<Rightarrow> round_metadata" where
  "metadata_of inp res =
     \<lparr>md_playerChoices = in_playerChoices inp, md_oracleYield = in_oracleYield inp,
      md_randomSeed = in_randomSeed inp, md_resolution = Some res\<rparr>"

text \<open>
  The call before and after its wait for the chain: \<open>resolve_check\<close> reads the round and submits,
  \<open>resolve_commit\<close> writes. Other requests may run between the two.
\<close>

definition resolve_check ::
    "(round_row, 'r) coll \<Rightarrow> stellar_config \<Rightarrow> round_input \<Rightarrow> resolve_env \<Rightarrow> ('r, 'e) round_db \<Rightarrow> js_error + nat" where
  "resolve_check RC cfg inp env s =
     (case round_findById RC (in_roundId inp) s of
        None \<Rightarrow> Inl (Error ''Round not found'')
      | Some rnd \<Rightarrow>
          if rd_state rnd \<noteq> OPEN \<and> rd_state rnd \<noteq> CLOSED
          then Inl (Error (''Round already in state: '' @ state_name (rd_state rnd)))
          else fst (submitOnChainResolve env cfg (in_arenaContractId inp) (rd_roundNumber rnd)))"

definition resolve_commit ::
    "(round_row, 'r) coll \<Rightarrow> (elimination, 'e) coll \<Rightarrow> round_input \<Rightarrow> resolve_env \<Rightarrow> ('r, 'e) round_db \<Rightarrow>
     (js_error + round_resolution) \<times> ('r, 'e) round_db" where
  "resolve_commit RC EC inp env s =
     (let res = resolution_of inp env in
      (case resolveAtomically RC EC (in_roundId inp) RESOLVED res (metadata_of inp res) (re_now env) s of
         (Inl e, s1) \<Rightarrow> (Inl e, s1)
       | (Inr _, s1) \<Rightarrow>
           (case re_refreshMetrics env of
              Inl e \<Rightarrow> (Inl e, s1)
            | Inr _ \<Rightarrow> (Inr res, s1))))"

definition resolveRound ::
    "(round_row, 'r) coll \<Rightarrow> (elimination, 'e) coll \<Rightarrow> stellar_config \<Rightarrow> round_input \<Rightarrow> resolve_env \<Rightarrow>
     ('r, 'e) round_db \<Rightarrow> (js_error + round_resolution) \<times> ('r, 'e) round_db" where
  "resolveRound RC EC cfg inp env s =
     (case resolve_check RC cfg inp env s of
        Inl e \<Rightarrow> (Inl e, s)
      | Inr _ \<Rightarrow> resolve_commit RC EC inp env s)"

text \<open>\<open>closeRound\<close> also reads first and writes later.\<close>

definition close_check :: "(round_row, 'r) coll \<Rightarrow> string \<Rightarrow> ('r, 'e) round_db \<Rightarrow> js_error + unit" where
  "close_check RC i s =
     (case round_findById RC i s of
        None \<Rightarrow> Inl (Error (''Round '' @ i @ '' not found''))
      | Some rnd \<Rightarrow>
          if rd_state rnd \<noteq> OPEN
          then Inl (Error (''Round is not OPEN (current state: '' @ state_name (rd_state rnd) @ '')''))
          else Inr ())"

definition close_write ::
    "(round_row, 'r) coll \<Rightarrow> string \<Rightarrow> int \<Rightarrow> ('r, 'e) round_db \<Rightarrow> (js_error + round_state) \<times> ('r, 'e) round_db" where
  "close_write RC i now s =
     (case updateState RC i CLOSED now s of
        (Inl e, s1) \<Rightarrow> (Inl e, s1)
      | (Inr _, s1) \<Rightarrow> (Inr CLOSED, s1))"

definition closeRound ::
    "(round_row, 'r) coll \<Rightarrow> string \<Rightarrow> int \<Rightarrow> ('r, 'e) round_db \<Rightarrow> (js_error + round_state) \<times> ('r, 'e) round_db" where
  "closeRound RC i now s =
     (case close_check RC i s of Inl e \<Rightarrow> (Inl e, s) | Inr _ \<Rightarrow> close_write RC i now s)"

section \<open>The controller\<close>

definition RoundController_resolveRound ::
    "(round_row, 'r) coll \<Rightarrow> (elimination, 'e) coll \<Rightarrow> stellar_config \<Rightarrow> round_input \<Rightarrow> resolve_env \<Rightarrow>
     ('r, 'e) round_db \<Rightarrow> (js_error + round_resolution) \<times> ('r, 'e) round_db" where
  "RoundController_resolveRound RC EC cfg inp env s =
     (if \<not> round_input_ok inp then (Inl (ZodFailure ''RoundInput''), s)
      else (case resolveRound RC EC cfg inp env s of
              (Inl e, s1) \<Rightarrow>
                (Inl (HttpErr 500 ''ROUND_RESOLVE_FAILED''
                   (if e = NotAnError then ''Failed to resolve round'' else err_message e)), s1)
            | r \<Rightarrow> r))"

fun includes_sub :: "string \<Rightarrow> string \<Rightarrow> bool" where
  "includes_sub p [] = (p = [])"
| "includes_sub p (c # cs) = (starts_with p (c # cs) \<or> includes_sub p cs)"

definition close_error :: "js_error \<Rightarrow> js_error" where
  "close_error e =
     (let message = (if e = NotAnError then ''Failed to close round'' else err_message e);
          status = (if includes_sub ''not found'' message then 404
                    else if includes_sub ''not OPEN'' message then 409 else 500 :: nat);
          code = (if status = 404 then ''ROUND_NOT_FOUND''
                  else if status = 409 then ''ROUND_INVALID_STATE'' else ''ROUND_CLOSE_FAILED'')
      in HttpErr status code message)"

definition RoundController_closeRound ::
    "(round_row, 'r) coll \<Rightarrow> string option \<Rightarrow> int \<Rightarrow> ('r, 'e) round_db \<Rightarrow>
     (js_error + round_state) \<times> ('r, 'e) round_db" where
  "RoundController_closeRound RC optId now s =
     (if \<not> truthy optId then (Inl (HttpErr 400 ''ROUND_ID_REQUIRED'' ''Round ID is required''), s)
      else (case closeRound RC (the optId) now s of
              (Inl e, s1) \<Rightarrow> (Inl (close_error e), s1)
            | r \<Rightarrow> r))"

end
