(* ===== verification/RoundFlow.thy ===== *)
theory RoundFlow
  imports RoundService
begin

text \<open>
  Lemmas about rounds over any two tables that keep the contract \<open>collection\<close>: what each
  operation does to the rows, resolution as a step relation, pages, polls and pool balances.
\<close>

section \<open>The tables\<close>

text \<open>The unique keys of the table of rounds: the id, and the arena with the round number.\<close>

definition round_conflict :: "round_row \<Rightarrow> round_row list \<Rightarrow> bool" where
  "round_conflict d ds \<longleftrightarrow>
     (\<exists>x\<in>set ds. row_id x = row_id d \<or>
        (row_arenaId x = row_arenaId d \<and> row_roundNumber x = row_roundNumber d))"

definition no_conflict :: "'d \<Rightarrow> 'd list \<Rightarrow> bool" where
  "no_conflict d ds \<longleftrightarrow> False"

definition resolvable :: "round_row \<Rightarrow> bool" where
  "resolvable r \<longleftrightarrow> row_state r \<in> {state_name OPEN, state_name CLOSED}"

definition resolved_row :: "round_resolution \<Rightarrow> round_metadata \<Rightarrow> int \<Rightarrow> round_row \<Rightarrow> round_row" where
  "resolved_row res md now r = r\<lparr>row_state := state_name RESOLVED,
     row_metadata := Some (JMeta (with_resolution md res)), row_updatedAt := now\<rparr>"

lemma resolved_row_sel [simp]:
  "row_id (resolved_row res md now r) = row_id r"
  "row_state (resolved_row res md now r) = ''RESOLVED''"
  "row_metadata (resolved_row res md now r) = Some (JMeta (with_resolution md res))"
  by (simp_all add: resolved_row_def)

lemma not_resolvable: "\<not> resolvable (resolved_row res md now r)"
  by (simp add: resolvable_def)

lemma parseState_name [simp]: "parseState (state_name st) = st"
  by (cases st) (simp_all add: parseState_def)

lemma mapRound_sel [simp]:
  "rd_id (mapRound r) = row_id r" "rd_state (mapRound r) = parseState (row_state r)"
  "rd_roundNumber (mapRound r) = row_roundNumber r" "rd_arenaId (mapRound r) = row_arenaId r"
  by (simp_all add: mapRound_def Let_def)

definition round_rows :: "(round_row, 'r) coll \<Rightarrow> ('r, 'e) round_db \<Rightarrow> round_row list" where
  "round_rows RC s = c_all RC (db_rounds s)"

definition log_rows :: "(elimination, 'e) coll \<Rightarrow> ('r, 'e) round_db \<Rightarrow> elimination list" where
  "log_rows EC s = c_all EC (db_logs s)"

text \<open>Whether round \<open>i\<close> can still be resolved.\<close>

definition open_round :: "(round_row, 'r) coll \<Rightarrow> string \<Rightarrow> ('r, 'e) round_db \<Rightarrow> bool" where
  "open_round RC i s \<longleftrightarrow> (\<exists>r\<in>set (round_rows RC s). row_id r = i \<and> resolvable r)"

locale round_tables =
  rounds: collection RC round_conflict + logs: collection EC no_conflict
  for RC :: "(round_row, 'r) coll" and EC :: "(elimination, 'e) coll"
begin

abbreviation rows :: "('r, 'e) round_db \<Rightarrow> round_row list" where
  "rows \<equiv> round_rows RC"

abbreviation logged :: "('r, 'e) round_db \<Rightarrow> elimination list" where
  "logged \<equiv> log_rows EC"

abbreviation is_open :: "string \<Rightarrow> ('r, 'e) round_db \<Rightarrow> bool" where
  "is_open \<equiv> open_round RC"

lemmas rows_def = round_rows_def

lemma findById_rows: "round_findById RC i s = map_option mapRound (first_opt (filter (\<lambda>r. row_id r = i) (rows s)))"
  by (simp add: round_findById_def rounds.findOne_all rows_def)

lemma create_all_rows:
  "\<exists>e'. create_all EC ds e = (Inr (), e') \<and> c_all EC e' = c_all EC e @ ds"
proof (induction ds arbitrary: e)
  case Nil
  then show ?case by simp
next
  case (Cons d ds)
  obtain e1 where e1: "c_create EC d e = (Inr (), e1)" "c_all EC e1 = c_all EC e @ [d]"
    using logs.create_ok [of d e] by (auto simp: no_conflict_def)
  obtain e2 where "create_all EC ds e1 = (Inr (), e2)" "c_all EC e2 = c_all EC e1 @ ds"
    using Cons.IH by blast
  then show ?case using e1 by simp
qed

lemma createMany_rows:
  "\<exists>e'. createMany EC ds e = (Inr (), e') \<and> c_all EC e' = c_all EC e @ ds"
  using create_all_rows [of ds e] by (auto simp: createMany_def)

text \<open>A resolution finds a row to claim, or it changes nothing.\<close>

lemma resolve_rows:
  "(\<exists>r\<in>set (rows s). row_id r = i \<and> resolvable r) \<and>
     (\<exists>s'. resolveAtomically RC EC i RESOLVED res md now s = (Inr (), s') \<and>
        rows s' = map (\<lambda>r. if row_id r = i \<and> resolvable r then resolved_row res md now r else r) (rows s) \<and>
        logged s' = logged s @ elimination_rows i (rs_eliminatedPlayers res)) \<or>
   (\<forall>r\<in>set (rows s). row_id r = i \<longrightarrow> \<not> resolvable r) \<and>
     (\<exists>e. resolveAtomically RC EC i RESOLVED res md now s = (Inl e, s))"
proof -
  let ?P = "\<lambda>r. row_id r = i \<and> row_state r \<in> {state_name OPEN, state_name CLOSED}"
  let ?f = "\<lambda>r. r\<lparr>row_state := state_name RESOLVED,
      row_metadata := Some (toJsonMetadata (with_resolution md res)), row_updatedAt := now\<rparr>"
  obtain n t where u: "c_update RC ?P ?f (db_rounds s) = (n, t)"
    by (cases "c_update RC ?P ?f (db_rounds s)")
  have n: "n = length (filter ?P (rows s))"
    using rounds.update_count [of ?P ?f "db_rounds s"] u by (simp add: rows_def)
  have t: "c_all RC t = map (\<lambda>r. if row_id r = i \<and> resolvable r then resolved_row res md now r else r) (rows s)"
  proof -
    have "(\<lambda>r. if ?P r then ?f r else r) =
        (\<lambda>r. if row_id r = i \<and> resolvable r then resolved_row res md now r else r)"
      by (rule ext) (simp only: resolvable_def resolved_row_def toJsonMetadata_def)
    then show ?thesis
      using rounds.update_all [of ?P ?f "db_rounds s"] by (simp only: u snd_conv rows_def)
  qed
  obtain e' where e': "createMany EC (elimination_rows i (rs_eliminatedPlayers res)) (db_logs s) = (Inr (), e')"
    "c_all EC e' = logged s @ elimination_rows i (rs_eliminatedPlayers res)"
    using createMany_rows by (metis log_rows_def)
  show ?thesis
  proof (cases "n = 0")
    case True
    then have "\<forall>r\<in>set (rows s). row_id r = i \<longrightarrow> \<not> resolvable r"
      using n by (auto simp: filter_empty_conv resolvable_def)
    then show ?thesis using True u by (auto simp: resolveAtomically_def)
  next
    case False
    then have "filter ?P (rows s) \<noteq> []" using n by auto
    then obtain r where "r \<in> set (rows s)" "row_id r = i" "resolvable r"
      by (auto simp: filter_empty_conv resolvable_def)
    moreover have "\<exists>s'. resolveAtomically RC EC i RESOLVED res md now s = (Inr (), s') \<and>
        c_all RC (db_rounds s') = c_all RC t \<and>
        logged s' = logged s @ elimination_rows i (rs_eliminatedPlayers res)"
      using False u e' by (auto simp: resolveAtomically_def log_rows_def elimination_rows_def)
    ultimately show ?thesis using t by (auto simp: rows_def)
  qed
qed

lemma commit_cases:
  assumes "resolve_commit RC EC inp env s = (x, s')"
  shows "is_open (in_roundId inp) s \<and> \<not> is_open (in_roundId inp) s' \<and>
      rows s' = map (\<lambda>r. if row_id r = in_roundId inp \<and> resolvable r
        then resolved_row (resolution_of inp env) (metadata_of inp (resolution_of inp env)) (re_now env) r
        else r) (rows s) \<and>
      logged s' = logged s @ elimination_rows (in_roundId inp) (rs_eliminatedPlayers (resolution_of inp env)) \<and>
      x = (case re_refreshMetrics env of Inl e \<Rightarrow> Inl e | Inr _ \<Rightarrow> Inr (resolution_of inp env)) \<or>
    \<not> is_open (in_roundId inp) s \<and> s' = s \<and> (\<exists>e. x = Inl e)"
proof -
  let ?i = "in_roundId inp" and ?res = "resolution_of inp env"
  let ?md = "metadata_of inp ?res" and ?now = "re_now env"
  from resolve_rows [of s ?i ?res ?md ?now] show ?thesis
  proof (elim disjE conjE exE)
    fix s1
    assume r: "resolveAtomically RC EC ?i RESOLVED ?res ?md ?now s = (Inr (), s1)"
      "rows s1 = map (\<lambda>r. if row_id r = ?i \<and> resolvable r then resolved_row ?res ?md ?now r else r) (rows s)"
      "logged s1 = logged s @ elimination_rows ?i (rs_eliminatedPlayers ?res)"
      and o: "\<exists>r\<in>set (rows s). row_id r = ?i \<and> resolvable r"
    have x: "s' = s1" "x = (case re_refreshMetrics env of Inl e \<Rightarrow> Inl e | Inr _ \<Rightarrow> Inr ?res)"
      using assms r(1) by (auto simp: resolve_commit_def Let_def split: sum.splits)
    have "\<not> is_open ?i s1"
      using not_resolvable unfolding open_round_def r(2) by (auto split: if_splits)
    moreover have "is_open ?i s" using o by (simp add: open_round_def)
    ultimately show ?thesis using x r(2,3) by blast
  next
    fix e
    assume "\<forall>r\<in>set (rows s). row_id r = ?i \<longrightarrow> \<not> resolvable r"
      and "resolveAtomically RC EC ?i RESOLVED ?res ?md ?now s = (Inl e, s)"
    moreover from this have "s' = s" "\<exists>e. x = Inl e"
      using assms by (auto simp: resolve_commit_def Let_def)
    ultimately show ?thesis unfolding open_round_def by blast
  qed
qed

lemma updateState_rows:
  assumes "updateState RC i st now s = (x, s')"
  shows "logged s' = logged s \<and> (s' = s \<or>
    rows s' = map (\<lambda>r. if row_id r = i then r\<lparr>row_state := state_name st, row_updatedAt := now\<rparr> else r) (rows s))"
proof -
  let ?f = "\<lambda>r. r\<lparr>row_state := state_name st, row_updatedAt := now\<rparr>"
  obtain n t where u: "c_update RC (\<lambda>r. row_id r = i) ?f (db_rounds s) = (n, t)"
    by (cases "c_update RC (\<lambda>r. row_id r = i) ?f (db_rounds s)")
  then have "c_all RC t = map (\<lambda>r. if row_id r = i then ?f r else r) (rows s)"
    using rounds.update_all [of "\<lambda>r. row_id r = i" ?f "db_rounds s"] by (simp add: rows_def)
  then show ?thesis using assms u
    by (auto simp: updateState_def rows_def log_rows_def split: if_splits)
qed

end

text \<open>The model's own tables, as lists of rows, satisfy the contract.\<close>

interpretation list_tables: round_tables "list_coll round_conflict" "list_coll no_conflict"
  by unfold_locales

end
