(* ===== verification/RoundProps.thy ===== *)
theory RoundProps
  imports RoundFlow
begin

text \<open>
  Properties of rounds: a round is resolved at most once however the requests interleave, unless a
  close that read it before writes after; what a resolution stores; what the service does with what
  the chain answers; and the polls, the pages and the pool balances.
\<close>

section \<open>Steps of concurrent requests\<close>

text \<open>
  A step is the write of a resolution (its read and its wait for the chain may lie any number of
  steps back), a close whose read and write are not separated, or the creation of a round.
\<close>

inductive round_step ::
    "(round_row, 'r) coll \<Rightarrow> (elimination, 'e) coll \<Rightarrow> ('r, 'e) round_db \<Rightarrow> ('r, 'e) round_db \<Rightarrow> bool"
  for RC :: "(round_row, 'r) coll" and EC :: "(elimination, 'e) coll" where
  resolve_step: "resolve_commit RC EC inp env s = (x, s') \<Longrightarrow> round_step RC EC s s'"
| close_step: "closeRound RC i now s = (y, s') \<Longrightarrow> round_step RC EC s s'"
| create_step: "round_create RC newId now a n s = (z, s') \<Longrightarrow> round_step RC EC s s'"

definition round_final :: "(round_row, 'r) coll \<Rightarrow> string \<Rightarrow> ('r, 'e) round_db \<Rightarrow> bool" where
  "round_final RC i s \<longleftrightarrow> (\<exists>r\<in>set (round_rows RC s). row_id r = i) \<and>
     (\<forall>r\<in>set (round_rows RC s). row_id r = i \<longrightarrow> row_state r \<in> {''RESOLVED'', ''SETTLED''})"

lemma round_final_iff:
  "round_final RC i s \<longleftrightarrow> filter (\<lambda>r. row_id r = i) (round_rows RC s) \<noteq> [] \<and>
     (\<forall>r\<in>set (filter (\<lambda>r. row_id r = i) (round_rows RC s)). row_state r \<in> {''RESOLVED'', ''SETTLED''})"
  unfolding round_final_def filter_empty_conv by auto

definition logs_of :: "(elimination, 'e) coll \<Rightarrow> string \<Rightarrow> ('r, 'e) round_db \<Rightarrow> elimination list" where
  "logs_of EC i s = filter (\<lambda>l. el_roundId l = i) (log_rows EC s)"

lemma final_not_resolvable: "row_state r \<in> {''RESOLVED'', ''SETTLED''} \<Longrightarrow> \<not> resolvable r"
  by (auto simp: resolvable_def)

lemma logs_elimination: "filter (\<lambda>l. el_roundId l = i) (elimination_rows j ids) =
    (if i = j then elimination_rows j ids else [])"
  by (auto simp: elimination_rows_def filter_empty_conv intro: filter_True)

lemma set_map_if: "x \<in> set (map (\<lambda>r. if P r then f r else r) xs) \<Longrightarrow>
    (\<exists>r\<in>set xs. P r \<and> x = f r) \<or> (x \<in> set xs \<and> \<not> P x)"
  by auto

lemma filter_map_if:
  assumes "\<And>r. P r \<Longrightarrow> row_id r \<noteq> i" and "\<And>r. row_id (f r) = row_id r"
  shows "filter (\<lambda>r. row_id r = i) (map (\<lambda>r. if P r then f r else r) xs) = filter (\<lambda>r. row_id r = i) xs"
  by (induction xs) (simp_all add: assms)

lemma round_final_same:
  "filter (\<lambda>r. row_id r = i) (round_rows RC s') = filter (\<lambda>r. row_id r = i) (round_rows RC s) \<Longrightarrow>
     round_final RC i s' = round_final RC i s"
  unfolding round_final_iff by simp

context round_tables
begin

lemma final_not_open: "round_final RC i s \<Longrightarrow> \<not> open_round RC i s"
  using final_not_resolvable by (auto simp: round_final_def open_round_def)

lemma commit_final:
  assumes "distinct (map row_id (rows s))" and "resolve_commit RC EC inp env s = (Inr res, s')"
  shows "round_final RC (in_roundId inp) s' \<and>
    logs_of EC (in_roundId inp) s' = logs_of EC (in_roundId inp) s @
      elimination_rows (in_roundId inp) (rs_eliminatedPlayers res)"
proof -
  let ?i = "in_roundId inp" and ?res = "resolution_of inp env"
  from commit_cases [OF assms(2)] have
    o: "open_round RC ?i s" and
    rows': "rows s' = map (\<lambda>r. if row_id r = ?i \<and> resolvable r
        then resolved_row ?res (metadata_of inp ?res) (re_now env) r else r) (rows s)" and
    logs: "logged s' = logged s @ elimination_rows ?i (rs_eliminatedPlayers ?res)" and
    res: "res = ?res"
    by (auto split: sum.splits)
  obtain r0 where r0: "r0 \<in> set (rows s)" "row_id r0 = ?i" "resolvable r0"
    using o by (auto simp: open_round_def)
  have only: "r = r0" if "r \<in> set (rows s)" "row_id r = ?i" for r
    using that r0 assms(1) by (auto simp: distinct_map inj_on_def)
  have "row_state x = ''RESOLVED''" if x: "x \<in> set (rows s')" "row_id x = ?i" for x
  proof -
    consider r where "x = resolved_row ?res (metadata_of inp ?res) (re_now env) r"
      | "x \<in> set (rows s)" "\<not> (row_id x = ?i \<and> resolvable x)"
      using set_map_if [OF x(1) [unfolded rows']] by blast
    then show ?thesis
    proof cases
      case 1
      then show ?thesis by simp
    next
      case 2
      with only [of x] x(2) r0(3) show ?thesis by simp
    qed
  qed
  moreover have "\<exists>x\<in>set (rows s'). row_id x = ?i"
  proof
    let ?g = "\<lambda>r. if row_id r = ?i \<and> resolvable r
        then resolved_row ?res (metadata_of inp ?res) (re_now env) r else r"
    show "row_id (?g r0) = ?i" using r0(2,3) by simp
    show "?g r0 \<in> set (rows s')" unfolding rows' set_map using r0(1) by (rule imageI)
  qed
  ultimately have "round_final RC ?i s'" by (simp add: round_final_def)
  then show ?thesis using logs res by (simp add: logs_of_def logs_elimination)
qed

lemma step_final:
  assumes "round_step RC EC s s'" and "round_final RC i s"
  shows "round_final RC i s' \<and> logs_of EC i s' = logs_of EC i s"
  using assms(1)
proof cases
  case (resolve_step inp env x)
  show ?thesis
  proof (cases "in_roundId inp = i")
    case True
    have "s' = s"
      using commit_cases [OF resolve_step] final_not_open [OF assms(2)] unfolding True by blast
    then show ?thesis using assms(2) by simp
  next
    case False
    from commit_cases [OF resolve_step] show ?thesis
    proof (elim disjE conjE)
      assume r: "rows s' = map (\<lambda>r. if row_id r = in_roundId inp \<and> resolvable r
          then resolved_row (resolution_of inp env) (metadata_of inp (resolution_of inp env)) (re_now env) r
          else r) (rows s)"
        and l: "logged s' = logged s @ elimination_rows (in_roundId inp) (rs_eliminatedPlayers (resolution_of inp env))"
      have "filter (\<lambda>r. row_id r = i) (rows s') = filter (\<lambda>r. row_id r = i) (rows s)"
        unfolding r by (rule filter_map_if) (use False in simp_all)
      then have "round_final RC i s'" using round_final_same assms(2) by blast
      then show ?thesis using l False by (simp add: logs_of_def logs_elimination)
    next
      assume "s' = s"
      then show ?thesis using assms(2) by simp
    qed
  qed
next
  case (close_step j now y)
  show ?thesis
  proof (cases "close_check RC j s")
    case (Inl e)
    then show ?thesis using close_step assms(2) by (simp add: closeRound_def)
  next
    case (Inr u)
    have "j \<noteq> i"
    proof
      assume "j = i"
      obtain r where r: "first_opt (filter (\<lambda>r. row_id r = i) (rows s)) = Some r"
        using assms(2) first_opt_filter_None [of "\<lambda>r. row_id r = i" "rows s"]
        by (cases "first_opt (filter (\<lambda>r. row_id r = i) (rows s))") (auto simp: round_final_def)
      then have "row_state r \<in> {''RESOLVED'', ''SETTLED''}"
        using assms(2) first_opt_filter_Some [OF r] by (auto simp: round_final_def)
      then show False using Inr r \<open>j = i\<close>
        by (auto simp: close_check_def findById_rows parseState_def split: if_splits)
    qed
    obtain z s1 where z: "updateState RC j CLOSED now s = (z, s1)" by (cases "updateState RC j CLOSED now s")
    then have "s1 = s'" using close_step Inr by (auto simp: closeRound_def close_write_def split: sum.splits)
    with updateState_rows [OF z] have same: "logged s' = logged s" "s' = s \<or>
        rows s' = map (\<lambda>r. if row_id r = j then r\<lparr>row_state := state_name CLOSED, row_updatedAt := now\<rparr> else r) (rows s)"
      by auto
    have "filter (\<lambda>r. row_id r = i) (rows s') = filter (\<lambda>r. row_id r = i) (rows s)"
      using same(2)
    proof
      assume "rows s' = map (\<lambda>r. if row_id r = j then r\<lparr>row_state := state_name CLOSED, row_updatedAt := now\<rparr> else r) (rows s)"
      then show ?thesis by (simp only:) (rule filter_map_if, use \<open>j \<noteq> i\<close> in simp_all)
    qed simp
    then have "round_final RC i s'" using round_final_same assms(2) by blast
    then show ?thesis using same(1) by (simp add: logs_of_def)
  qed
next
  case (create_step newId now a n z)
  obtain x r where c: "c_create RC \<lparr>row_id = newId, row_arenaId = a, row_roundNumber = n,
      row_state = ''OPEN'', row_metadata = None, row_createdAt = now, row_updatedAt = now\<rparr> (db_rounds s) = (x, r)"
    by (cases "c_create RC \<lparr>row_id = newId, row_arenaId = a, row_roundNumber = n,
      row_state = ''OPEN'', row_metadata = None, row_createdAt = now, row_updatedAt = now\<rparr> (db_rounds s)")
  then have s': "s' = s\<lparr>db_rounds := r\<rparr>"
    using create_step by (auto simp: round_create_def Let_def split: sum.splits)
  from rounds.create_result [OF c] show ?thesis
  proof (elim disjE exE conjE)
    fix e
    assume "r = db_rounds s"
    then show ?thesis using s' assms(2) by simp
  next
    assume r: "c_all RC r = c_all RC (db_rounds s) @ [\<lparr>row_id = newId, row_arenaId = a,
        row_roundNumber = n, row_state = ''OPEN'', row_metadata = None, row_createdAt = now, row_updatedAt = now\<rparr>]"
      and nc: "\<not> round_conflict \<lparr>row_id = newId, row_arenaId = a, row_roundNumber = n,
        row_state = ''OPEN'', row_metadata = None, row_createdAt = now, row_updatedAt = now\<rparr> (c_all RC (db_rounds s))"
    from nc assms(2) have "newId \<noteq> i"
      by (auto simp: round_conflict_def round_final_def rows_def)
    then show ?thesis using s' r assms(2) by (auto simp: round_final_def rows_def logs_of_def log_rows_def)
  qed
qed

lemma steps_final:
  assumes "(round_step RC EC)\<^sup>*\<^sup>* s s'" and "round_final RC i s"
  shows "round_final RC i s' \<and> logs_of EC i s' = logs_of EC i s"
  using assms
proof (induction rule: rtranclp_induct)
  case base
  then show ?case by simp
next
  case (step s1 s2)
  then show ?case using step_final by metis
qed

lemma once:
  assumes "distinct (map row_id (rows s))" and "resolve_commit RC EC inp env s = (Inr res, s1)"
    and "(round_step RC EC)\<^sup>*\<^sup>* s1 s2" and "in_roundId inp2 = in_roundId inp"
  shows "(\<exists>e. resolve_commit RC EC inp2 env2 s2 = (Inl e, s2)) \<and>
    logs_of EC (in_roundId inp) s2 = logs_of EC (in_roundId inp) s @
      elimination_rows (in_roundId inp) (rs_eliminatedPlayers res)"
proof -
  obtain x s3 where x: "resolve_commit RC EC inp2 env2 s2 = (x, s3)"
    by (cases "resolve_commit RC EC inp2 env2 s2")
  have f: "round_final RC (in_roundId inp) s2" "logs_of EC (in_roundId inp) s2 =
      logs_of EC (in_roundId inp) s @ elimination_rows (in_roundId inp) (rs_eliminatedPlayers res)"
    using steps_final [OF assms(3)] commit_final [OF assms(1,2)] by simp_all
  from final_not_open [OF f(1)] commit_cases [OF x] x f(2) assms(4) show ?thesis by auto
qed

end

end
