(* ===== verification/RoundResults.thy ===== *)
theory RoundResults
  imports RoundProps
begin

text \<open>
  What a resolution computes and stores, what concurrent requests can do to a round, the polls, the
  pages and the pool balances: lemmas and properties.
\<close>

section \<open>Lemmas\<close>

context round_tables
begin

lemma find_row:
  assumes "distinct (map row_id (rows s))" and "r \<in> set (rows s)"
  shows "round_findById RC (row_id r) s = Some (mapRound r)"
  using first_opt_unique [OF assms] by (simp add: findById_rows)

lemma find_open:
  assumes "round_findById RC i s = Some d" and "rd_state d = OPEN \<or> rd_state d = CLOSED"
  shows "\<exists>r\<in>set (rows s). row_id r = i"
proof -
  obtain r where "first_opt (filter (\<lambda>r. row_id r = i) (rows s)) = Some r"
    using assms(1) by (auto simp: findById_rows)
  from first_opt_filter_Some [OF this] show ?thesis by auto
qed

lemma commit_open:
  assumes "open_round RC (in_roundId inp) s"
  shows "\<exists>s'. resolve_commit RC EC inp env s =
      (case re_refreshMetrics env of Inl e \<Rightarrow> Inl e | Inr _ \<Rightarrow> Inr (resolution_of inp env), s') \<and>
    rows s' = map (\<lambda>r. if row_id r = in_roundId inp \<and> resolvable r
        then resolved_row (resolution_of inp env) (metadata_of inp (resolution_of inp env)) (re_now env) r
        else r) (rows s) \<and>
    logged s' = logged s @ elimination_rows (in_roundId inp) (rs_eliminatedPlayers (resolution_of inp env))"
proof -
  obtain x s' where x: "resolve_commit RC EC inp env s = (x, s')"
    by (cases "resolve_commit RC EC inp env s")
  from commit_cases [OF x] assms have
    "x = (case re_refreshMetrics env of Inl e \<Rightarrow> Inl e | Inr _ \<Rightarrow> Inr (resolution_of inp env))"
    "rows s' = map (\<lambda>r. if row_id r = in_roundId inp \<and> resolvable r
        then resolved_row (resolution_of inp env) (metadata_of inp (resolution_of inp env)) (re_now env) r
        else r) (rows s)"
    "logged s' = logged s @ elimination_rows (in_roundId inp) (rs_eliminatedPlayers (resolution_of inp env))"
    by blast+
  with x show ?thesis by blast
qed

lemma resolve_stores:
  assumes "distinct (map row_id (rows s))" and "resolveRound RC EC cfg inp env s = (Inr res, s')"
  shows "\<exists>d. res = resolution_of inp env \<and> round_findById RC (in_roundId inp) s' = Some d \<and>
    rd_state d = RESOLVED \<and> rd_resolution d = Some res \<and>
    (\<forall>j. j \<noteq> in_roundId inp \<longrightarrow> round_findById RC j s' = round_findById RC j s) \<and>
    log_rows EC s' = log_rows EC s @ elimination_rows (in_roundId inp) (rs_eliminatedPlayers res)"
proof -
  let ?i = "in_roundId inp" and ?res = "resolution_of inp env"
  let ?g = "resolved_row ?res (metadata_of inp ?res) (re_now env)"
  have c: "resolve_commit RC EC inp env s = (Inr res, s')"
    using assms(2) by (auto simp: resolveRound_def split: sum.splits)
  from commit_cases [OF c] have o: "open_round RC ?i s" and
    r: "rows s' = map (\<lambda>r. if row_id r = ?i \<and> resolvable r then ?g r else r) (rows s)" and
    l: "logged s' = logged s @ elimination_rows ?i (rs_eliminatedPlayers ?res)" and res: "res = ?res"
    by (auto split: sum.splits)
  obtain r0 where r0: "r0 \<in> set (rows s)" "row_id r0 = ?i" "resolvable r0"
    using o by (auto simp: open_round_def)
  have ids: "map row_id (rows s') = map row_id (rows s)" unfolding r by simp
  have "?g r0 \<in> set (rows s')" unfolding r using r0 by force
  from find_row [OF _ this] have f: "round_findById RC ?i s' = Some (mapRound (?g r0))"
    using assms(1) ids r0(2) by simp
  have "round_findById RC j s' = round_findById RC j s" if "j \<noteq> ?i" for j
    unfolding findById_rows r by (subst filter_map_if) (use that in simp_all)
  then show ?thesis using f l res
    by (simp add: mapRound_def Let_def fromJsonMetadata_def with_resolution_def parseState_def)
qed

lemma close_race:
  assumes "distinct (map row_id (rows s))" and "r \<in> set (rows s)" and "row_id r = i"
    and "row_state r = ''OPEN''" and "in_roundId inp = i" and "in_roundId inp2 = i"
    and "re_refreshMetrics env = Inr ()" and "re_refreshMetrics env2 = Inr ()"
  shows "close_check RC i s = Inr () \<and>
    (\<exists>s1 s2 s3. resolve_commit RC EC inp env s = (Inr (resolution_of inp env), s1) \<and>
       close_write RC i now s1 = (Inr CLOSED, s2) \<and>
       resolve_commit RC EC inp2 env2 s2 = (Inr (resolution_of inp2 env2), s3) \<and>
       log_rows EC s3 = log_rows EC s @
         elimination_rows i (rs_eliminatedPlayers (resolution_of inp env)) @
         elimination_rows i (rs_eliminatedPlayers (resolution_of inp2 env2)))"
proof -
  have chk: "close_check RC i s = Inr ()"
    using find_row [OF assms(1,2)] assms(3,4) by (simp add: close_check_def parseState_def)
  have o: "open_round RC (in_roundId inp) s"
    using assms(2-5) by (auto simp: open_round_def resolvable_def)
  let ?g = "resolved_row (resolution_of inp env) (metadata_of inp (resolution_of inp env)) (re_now env)"
  obtain s1 where s1: "resolve_commit RC EC inp env s = (Inr (resolution_of inp env), s1)"
    "rows s1 = map (\<lambda>r. if row_id r = in_roundId inp \<and> resolvable r then ?g r else r) (rows s)"
    "logged s1 = logged s @ elimination_rows (in_roundId inp) (rs_eliminatedPlayers (resolution_of inp env))"
    using commit_open [OF o, of env] assms(7) by auto
  have g: "?g r \<in> set (rows s1)"
    unfolding s1(2) using assms(2-5) by (force simp: resolvable_def)
  let ?f = "\<lambda>r. r\<lparr>row_state := state_name CLOSED, row_updatedAt := now\<rparr>"
  obtain n t where u: "c_update RC (\<lambda>r. row_id r = i) ?f (db_rounds s1) = (n, t)"
    by (cases "c_update RC (\<lambda>r. row_id r = i) ?f (db_rounds s1)")
  have "filter (\<lambda>r. row_id r = i) (rows s1) \<noteq> []"
    using g assms(3) unfolding filter_empty_conv by (intro notI) (drule bspec, assumption, simp)
  then have n: "n \<noteq> 0"
    using rounds.update_count [of "\<lambda>r. row_id r = i" ?f "db_rounds s1"] u by (simp add: rows_def)
  let ?s2 = "s1\<lparr>db_rounds := t\<rparr>"
  have w: "close_write RC i now s1 = (Inr CLOSED, ?s2)"
    using u n by (simp add: close_write_def updateState_def)
  have r2: "rows ?s2 = map (\<lambda>r. if row_id r = i then ?f r else r) (rows s1)"
    using rounds.update_all [of "\<lambda>r. row_id r = i" ?f "db_rounds s1"] u by (simp add: rows_def)
  have "?f (?g r) \<in> set (rows ?s2)" unfolding r2 using g assms(3) by force
  then have o2: "open_round RC (in_roundId inp2) ?s2"
    unfolding open_round_def
    by (rule bexI [rotated]) (use assms(3,6) in \<open>simp add: resolvable_def\<close>)
  from commit_open [OF o2, of env2] assms(8) obtain s3 where s3:
    "resolve_commit RC EC inp2 env2 ?s2 = (Inr (resolution_of inp2 env2), s3)"
    "logged s3 = logged ?s2 @ elimination_rows i (rs_eliminatedPlayers (resolution_of inp2 env2))"
    using assms(6) by auto
  have "logged ?s2 = logged s1" by (simp add: log_rows_def)
  then show ?thesis using chk s1(1,3) w s3 assms(5) by auto
qed

lemma metrics_failure:
  assumes "distinct (map row_id (rows s))" and "resolve_check RC cfg inp env s = Inr n"
    and "open_round RC (in_roundId inp) s" and "re_refreshMetrics env = Inl e"
  shows "\<exists>s'. resolveRound RC EC cfg inp env s = (Inl e, s') \<and> round_final RC (in_roundId inp) s' \<and>
    (\<forall>env2. \<exists>e2. resolveRound RC EC cfg inp env2 s' = (Inl e2, s'))"
proof -
  let ?env = "env\<lparr>re_refreshMetrics := Inr ()\<rparr>"
  have same: "resolution_of inp ?env = resolution_of inp env" by (simp add: resolution_of_def)
  obtain s' where s': "resolve_commit RC EC inp ?env s = (Inr (resolution_of inp env), s')"
    using commit_open [OF assms(3), of ?env] same by auto
  then have "resolve_commit RC EC inp env s = (Inl e, s')"
    using assms(4) same by (auto simp: resolve_commit_def Let_def split: prod.splits sum.splits)
  then have run: "resolveRound RC EC cfg inp env s = (Inl e, s')"
    using assms(2) by (simp add: resolveRound_def)
  have f: "round_final RC (in_roundId inp) s'" using commit_final [OF assms(1) s'] by blast
  have "\<exists>e2. resolveRound RC EC cfg inp env2 s' = (Inl e2, s')" for env2
  proof (cases "resolve_check RC cfg inp env2 s'")
    case (Inl e2)
    then show ?thesis by (simp add: resolveRound_def)
  next
    case (Inr n2)
    obtain x s3 where x: "resolve_commit RC EC inp env2 s' = (x, s3)"
      by (cases "resolve_commit RC EC inp env2 s'")
    from commit_cases [OF x] final_not_open [OF f] have "s3 = s' \<and> (\<exists>e2. x = Inl e2)" by blast
    then show ?thesis using Inr x by (auto simp: resolveRound_def)
  qed
  then show ?thesis using run f by blast
qed

lemma resolve_total:
  assumes "resolve_check RC cfg inp env s = Inr n" and "open_round RC (in_roundId inp) s"
    and "re_refreshMetrics env = Inr ()"
  shows "\<exists>s'. resolveRound RC EC cfg inp env s = (Inr (resolution_of inp env), s')"
  using commit_open [OF assms(2), of env] assms(1,3) by (auto simp: resolveRound_def)

end

subsection \<open>Eliminations, payouts and balances\<close>

lemma failed_read: "\<forall>v. re_players env \<noteq> Inr (SimValue v) \<Longrightarrow>
    rs_eliminatedPlayers (resolution_of inp env) = in_allActivePlayerIds inp"
proof -
  assume a: "\<forall>v. re_players env \<noteq> Inr (SimValue v)"
  have "getOnChainActivePlayerIds (re_players env) = []"
  proof (cases "re_players env")
    case (Inl e)
    then show ?thesis by (simp add: getOnChainActivePlayerIds_def simulateViewCall_def or_catch_def)
  next
    case (Inr r)
    then show ?thesis using a
      by (cases r) (simp_all add: getOnChainActivePlayerIds_def simulateViewCall_def or_catch_def)
  qed
  then show ?thesis by (simp add: resolution_of_def Let_def eliminated_players_def)
qed

lemma uuid_not_key: "is_uuid s \<Longrightarrow> \<not> public_key_regex s"
proof
  assume u: "is_uuid s" and k: "public_key_regex s"
  obtain cs where s: "s = CHR ''G'' # cs" using k by (auto simp: public_key_regex_def split: list.splits)
  obtain p ps where p: "js_split (CHR ''-'') cs = p # ps" using js_split_nonempty by (metis list.exhaust)
  have "is_hex (CHR ''G'')" using u s p by (simp add: is_uuid_def)
  then show False by (simp add: is_hex_def char_class_defs)
qed

lemma no_address_active:
  assumes "round_input_ok inp" and "re_players env = Inr (SimValue es)"
    and "\<And>a b. (a, b) \<in> set es \<Longrightarrow> public_key_regex a"
  shows "rs_eliminatedPlayers (resolution_of inp env) = in_allActivePlayerIds inp"
proof -
  have act: "getOnChainActivePlayerIds (re_players env) = map fst (filter snd es)"
    by (simp add: assms(2) getOnChainActivePlayerIds_def simulateViewCall_def or_catch_def)
  have "i \<notin> set (map fst (filter snd es))" if "i \<in> set (in_allActivePlayerIds inp)" for i
  proof
    assume "i \<in> set (map fst (filter snd es))"
    then have "public_key_regex i" using assms(3) by auto
    moreover have "is_uuid i" using assms(1) that by (auto simp: round_input_ok_def list_all_iff)
    ultimately show False using uuid_not_key by blast
  qed
  then show ?thesis
    by (auto simp: resolution_of_def Let_def eliminated_players_def act intro: filter_True)
qed

lemma find_key_None:
  assumes "list_all player_choice_ok ps" and "public_key_regex w"
  shows "find (\<lambda>p. ch_userId p = w) ps = None"
  using assms uuid_not_key by (auto simp: find_None_iff list_all_iff player_choice_ok_def)

lemma pool_balances_gen:
  assumes "distinct (map ch_userId ps)"
  shows "map_of (computePoolBalances ps el b) u =
    (case find (\<lambda>p. ch_userId p = u) ps of None \<Rightarrow> map_of b u
     | Some p \<Rightarrow> Some (if u \<in> set el then 0 else ch_stake p))"
  using assms
proof (induction ps arbitrary: b)
  case Nil
  then show ?case by simp
next
  case (Cons p ps)
  have "ch_userId p = u \<Longrightarrow> find (\<lambda>p. ch_userId p = u) ps = None"
    using Cons.prems by (auto simp: find_None_iff image_iff)
  then show ?case using Cons by (auto split: option.split)
qed

lemma stake_sum_split:
  assumes "distinct (map ch_userId ps)" and "p \<in> set ps"
  shows "stake_sum ps = ch_stake p + stake_sum (filter (\<lambda>q. ch_userId q \<noteq> ch_userId p) ps)"
  using assms
proof (induction ps)
  case Nil
  then show ?case by simp
next
  case (Cons q ps)
  show ?case
  proof (cases "q = p")
    case True
    then have "filter (\<lambda>q. ch_userId q \<noteq> ch_userId p) ps = ps"
      using Cons.prems by (intro filter_True) (auto simp: image_iff)
    then show ?thesis using True by (simp add: stake_sum_def)
  next
    case False
    then have "p \<in> set ps" "ch_userId q \<noteq> ch_userId p" using Cons.prems by auto
    then show ?thesis using Cons by (simp add: stake_sum_def)
  qed
qed

subsection \<open>Polls and pages\<close>

text \<open>Neither the players nor the metrics matter before the write.\<close>

lemma polls_frame:
  "resolve_polls (env\<lparr>re_refreshMetrics := x\<rparr>) cfg m h n k ws = resolve_polls env cfg m h n k ws"
  "resolve_polls (env\<lparr>re_players := y\<rparr>) cfg m h n k ws = resolve_polls env cfg m h n k ws"
  by (induction n arbitrary: k ws) (simp_all add: Let_def split: sum.split)

lemma env_frame:
  "re_signerSecret (env\<lparr>re_refreshMetrics := x\<rparr>) = re_signerSecret env"
  "re_build (env\<lparr>re_refreshMetrics := x\<rparr>) = re_build env"
  "re_simulate (env\<lparr>re_refreshMetrics := x\<rparr>) = re_simulate env"
  "re_assemble (env\<lparr>re_refreshMetrics := x\<rparr>) = re_assemble env"
  "re_send (env\<lparr>re_refreshMetrics := x\<rparr>) = re_send env"
  "re_signerSecret (env\<lparr>re_players := y\<rparr>) = re_signerSecret env"
  "re_build (env\<lparr>re_players := y\<rparr>) = re_build env"
  "re_simulate (env\<lparr>re_players := y\<rparr>) = re_simulate env"
  "re_assemble (env\<lparr>re_players := y\<rparr>) = re_assemble env"
  "re_send (env\<lparr>re_players := y\<rparr>) = re_send env"
  by simp_all

lemma submit_frame:
  "submitOnChainResolve (env\<lparr>re_refreshMetrics := x\<rparr>) cfg c n = submitOnChainResolve env cfg c n"
  "submitOnChainResolve (env\<lparr>re_players := y\<rparr>) cfg c n = submitOnChainResolve env cfg c n"
  unfolding submitOnChainResolve_def polls_frame env_frame by (rule refl)+

lemma check_frame:
  "resolve_check RC cfg inp (env\<lparr>re_refreshMetrics := x\<rparr>) s = resolve_check RC cfg inp env s"
  "resolve_check RC cfg inp (env\<lparr>re_players := y\<rparr>) s = resolve_check RC cfg inp env s"
  by (simp_all only: resolve_check_def submit_frame)

lemma polls_waits:
  assumes "\<forall>w\<in>set ws. w \<le> 30000"
  shows "length (snd (resolve_polls env cfg m h n k ws)) \<le> length ws + n \<and>
    (\<forall>w\<in>set (snd (resolve_polls env cfg m h n k ws)). w \<le> 30000)"
  using assms
proof (induction n arbitrary: k ws)
  case 0
  then show ?case by simp
next
  case (Suc n)
  let ?ws = "ws @ [poll_delay (sc_roundConfirmPollMs cfg) k (re_random env k)]"
  have "\<forall>w\<in>set ?ws. w \<le> 30000" using Suc.prems by (simp add: poll_delay_def)
  from Suc.IH [OF this, of "Suc k"] this show ?case by (auto simp: Let_def split: sum.split)
qed

lemma sum_list_bound: "\<forall>w\<in>set ws. w \<le> (c :: rat) \<Longrightarrow> sum_list ws \<le> of_nat (length ws) * c"
  by (induction ws) (auto simp: algebra_simps)

text \<open>Following the cursors from a start offset.\<close>

fun walk_pages :: "(round_row, 'r) coll \<Rightarrow> string \<Rightarrow> nat \<Rightarrow> ('r, 'e) round_db \<Rightarrow> nat \<Rightarrow> nat \<Rightarrow> round_data list" where
  "walk_pages RC a lm s 0 offset = []"
| "walk_pages RC a lm s (Suc fuel) offset =
     (let p = listByArenaId RC a lm (Some (Some (int offset))) s in
      pg_items p @ (case pg_cursor p of None \<Rightarrow> [] | Some off \<Rightarrow> walk_pages RC a lm s fuel off))"

definition arena_rounds :: "(round_row, 'r) coll \<Rightarrow> string \<Rightarrow> ('r, 'e) round_db \<Rightarrow> round_row list" where
  "arena_rounds RC a s = page_rows (c_find RC (\<lambda>r. row_arenaId r = a) (db_rounds s))"

lemma walk_pages_drop:
  assumes "0 < lm" and "length (arena_rounds RC a s) \<le> offset + fuel"
  shows "walk_pages RC a lm s fuel offset = map mapRound (drop offset (arena_rounds RC a s))"
  using assms(2)
proof (induction fuel arbitrary: offset)
  case 0
  then show ?case by simp
next
  case (Suc fuel)
  let ?rs = "arena_rounds RC a s"
  have items: "pg_items (listByArenaId RC a lm (Some (Some (int offset))) s) = map mapRound (take lm (drop offset ?rs))"
    by (simp add: listByArenaId_def Let_def decodeCursor_def arena_rounds_def min_def)
  have cur: "pg_cursor (listByArenaId RC a lm (Some (Some (int offset))) s) =
      (if lm < length ?rs - offset then Some (offset + lm) else None)"
    by (auto simp: listByArenaId_def Let_def decodeCursor_def arena_rounds_def)
  show ?case
  proof (cases "lm < length ?rs - offset")
    case True
    have "walk_pages RC a lm s fuel (offset + lm) = map mapRound (drop (offset + lm) ?rs)"
      using Suc.prems assms(1) by (intro Suc.IH) simp
    then have "walk_pages RC a lm s (Suc fuel) offset =
        map mapRound (take lm (drop offset ?rs) @ drop lm (drop offset ?rs))"
      using True items cur by (simp add: Let_def add.commute)
    then show ?thesis by (simp only: append_take_drop_id)
  next
    case False
    then show ?thesis using items cur by (simp add: Let_def)
  qed
qed

section \<open>Properties\<close>


definition sample_row :: "string \<Rightarrow> string \<Rightarrow> round_row" where
  "sample_row i st = \<lparr>row_id = i, row_arenaId = ''A'', row_roundNumber = 1, row_state = st,
     row_metadata = None, row_createdAt = 0, row_updatedAt = 0\<rparr>"

definition sample_db :: "string \<Rightarrow> (round_row list, elimination list) round_db" where
  "sample_db st = \<lparr>db_rounds = [sample_row ''r1'' st], db_logs = []\<rparr>"

definition sample_input :: "string \<Rightarrow> string list \<Rightarrow> round_input" where
  "sample_input i ids = \<lparr>in_roundId = i,
     in_playerChoices = map (\<lambda>u. \<lparr>ch_userId = u, ch_choice = ''heads'', ch_stake = 10\<rparr>) ids,
     in_allActivePlayerIds = ids, in_oracleYield = 5, in_randomSeed = None, in_arenaContractId = ''C''\<rparr>"

definition sample_chain :: "(string \<times> bool) list \<Rightarrow> string option \<Rightarrow> resolve_env" where
  "sample_chain players winner = \<lparr>re_signerSecret = Some ''S'', re_build = Inr (), re_simulate = Inr RSimSuccess,
     re_assemble = Inr (), re_send = Inr \<lparr>sn_status = ''PENDING'', sn_hash = ''h'', sn_errorResultXdr = None\<rparr>,
     re_getTransaction = (\<lambda>_. Inr \<lparr>ps_status = ''SUCCESS'', ps_errorResultXdr = None\<rparr>),
     re_random = (\<lambda>_. 0), re_players = Inr (SimValue players), re_winner = Inr (SimValue winner),
     re_refreshMetrics = Inr (), re_now = 9\<rparr>"

definition sample_stellar :: stellar_config where
  "sample_stellar = \<lparr>sc_sorobanRpcUrl = ''u'', sc_networkPassphrase = ''n'',
     sc_roundConfirmPollMs = 2500, sc_roundConfirmMaxPolls = 20\<rparr>"

abbreviation rounds_c :: "(round_row, round_row list) coll" where
  "rounds_c \<equiv> list_coll round_conflict"

abbreviation logs_c :: "(elimination, elimination list) coll" where
  "logs_c \<equiv> list_coll no_conflict"

lemma sample_rows: "round_rows rounds_c (sample_db st) = [sample_row ''r1'' st]"
  by (simp add: round_rows_def sample_db_def)

lemma sample_distinct: "distinct (map row_id (round_rows rounds_c (sample_db st)))"
  by (simp add: sample_rows)

lemma sample_open: "open_round rounds_c (in_roundId (sample_input ''r1'' ids)) (sample_db ''OPEN'')"
  by (simp add: open_round_def sample_rows sample_row_def sample_input_def resolvable_def)

lemma sample_refresh: "re_refreshMetrics (sample_chain ps w) = Inr ()"
  by (simp add: sample_chain_def)

lemma sample_check:
  "resolve_check rounds_c sample_stellar (sample_input ''r1'' ids) (sample_chain ps w) (sample_db ''OPEN'') = Inr 1"
proof -
  have p: "resolve_polls (sample_chain ps w) sample_stellar 1 ''h'' 20 0 [] =
      (Inr 1, [poll_delay (sc_roundConfirmPollMs sample_stellar) 0 (re_random (sample_chain ps w) 0)])"
    using resolve_polls.simps(2) [of "sample_chain ps w" sample_stellar 1 "''h''" 19 0 "[]"]
    by (simp add: sample_chain_def)
  have "round_findById rounds_c (in_roundId (sample_input ''r1'' ids)) (sample_db ''OPEN'') =
      Some (mapRound (sample_row ''r1'' ''OPEN''))"
    by (simp add: round_findById_def c_findOne_def sample_db_def sample_row_def sample_input_def)
  moreover have "submitOnChainResolve (sample_chain ps w) sample_stellar c 1 =
      resolve_polls (sample_chain ps w) sample_stellar 1 ''h'' 20 0 []" for c
    by (simp add: submitOnChainResolve_def sample_chain_def sample_stellar_def)
  ultimately show ?thesis
    using p by (simp add: resolve_check_def sample_row_def parseState_def)
qed

lemma sample_commit:
  "\<exists>s1. resolve_commit rounds_c logs_c (sample_input ''r1'' ids) (sample_chain ps w) (sample_db ''OPEN'') =
     (Inr (resolution_of (sample_input ''r1'' ids) (sample_chain ps w)), s1)"
  using list_tables.commit_open [OF sample_open, where env = "sample_chain ps w"] by (auto simp: sample_refresh)


text \<open>
  The guard fails against a close: when \<open>closeRound\<close> reads an open round before a
  resolution of it is written and writes after, it sets the resolved round back to CLOSED, a second
  resolution of the same round succeeds, and the eliminations of both are logged.
\<close>

theorem close_reopens_resolved_round:
  assumes "round_tables RC EC" and "distinct (map row_id (round_rows RC s))"
    and "r \<in> set (round_rows RC s)" and "row_id r = i"
    and "row_state r = ''OPEN''" and "in_roundId inp = i" and "in_roundId inp2 = i"
    and "re_refreshMetrics env = Inr ()" and "re_refreshMetrics env2 = Inr ()"
  shows "close_check RC i s = Inr () \<and>
    (\<exists>s1 s2 s3. resolve_commit RC EC inp env s = (Inr (resolution_of inp env), s1) \<and>
       close_write RC i now s1 = (Inr CLOSED, s2) \<and>
       resolve_commit RC EC inp2 env2 s2 = (Inr (resolution_of inp2 env2), s3) \<and>
       log_rows EC s3 = log_rows EC s @
         elimination_rows i (rs_eliminatedPlayers (resolution_of inp env)) @
         elimination_rows i (rs_eliminatedPlayers (resolution_of inp2 env2)))"
  using assms by (rule round_tables.close_race)

theorem close_reopens_resolved_round_witness:
  "\<exists>s1 s2 s3. resolve_commit rounds_c logs_c (sample_input ''r1'' [''u'']) (sample_chain [] None)
      (sample_db ''OPEN'') = (Inr (resolution_of (sample_input ''r1'' [''u'']) (sample_chain [] None)), s1) \<and>
    close_write rounds_c ''r1'' 7 s1 = (Inr CLOSED, s2) \<and>
    resolve_commit rounds_c logs_c (sample_input ''r1'' [''u'']) (sample_chain [] None) s2 =
      (Inr (resolution_of (sample_input ''r1'' [''u'']) (sample_chain [] None)), s3)"
proof -
  have r: "sample_row ''r1'' ''OPEN'' \<in> set (round_rows rounds_c (sample_db ''OPEN''))"
    "row_id (sample_row ''r1'' ''OPEN'') = ''r1''" "row_state (sample_row ''r1'' ''OPEN'') = ''OPEN''"
    by (simp_all add: sample_rows sample_row_def)
  have i: "in_roundId (sample_input ''r1'' [''u'']) = ''r1''" by (simp add: sample_input_def)
  from close_reopens_resolved_round [OF list_tables.round_tables_axioms sample_distinct r i i
      sample_refresh sample_refresh] show ?thesis by blast
qed

text \<open>
  C15: a successful \<open>resolveRound\<close> leaves the round RESOLVED with exactly the returned resolution
  stored, appends one log row for each eliminated player, and changes no other round.
\<close>

theorem resolution_stored:
  assumes "round_tables RC EC" and "distinct (map row_id (round_rows RC s))"
    and "resolveRound RC EC cfg inp env s = (Inr res, s')"
  shows "\<exists>d. res = resolution_of inp env \<and> round_findById RC (in_roundId inp) s' = Some d \<and>
    rd_state d = RESOLVED \<and> rd_resolution d = Some res \<and>
    (\<forall>j. j \<noteq> in_roundId inp \<longrightarrow> round_findById RC j s' = round_findById RC j s) \<and>
    log_rows EC s' = log_rows EC s @ elimination_rows (in_roundId inp) (rs_eliminatedPlayers res)"
  using assms by (rule round_tables.resolve_stores)

theorem resolution_stored_witness:
  "\<exists>res s' d. resolveRound rounds_c logs_c sample_stellar (sample_input ''r1'' [''u'', ''v''])
      (sample_chain [(''u'', True)] None) (sample_db ''OPEN'') = (Inr res, s') \<and>
    round_findById rounds_c ''r1'' s' = Some d \<and> rd_state d = RESOLVED"
proof -
  obtain s' where s': "resolveRound rounds_c logs_c sample_stellar (sample_input ''r1'' [''u'', ''v''])
      (sample_chain [(''u'', True)] None) (sample_db ''OPEN'') =
      (Inr (resolution_of (sample_input ''r1'' [''u'', ''v'']) (sample_chain [(''u'', True)] None)), s')"
    using list_tables.resolve_total [OF sample_check sample_open sample_refresh] by blast
  have "in_roundId (sample_input ''r1'' [''u'', ''v'']) = ''r1''" by (simp add: sample_input_def)
  with resolution_stored [OF list_tables.round_tables_axioms sample_distinct s'] s' show ?thesis
    by metis
qed

end
