(* ===== verification/RoundValues.thy ===== *)
theory RoundValues
  imports RoundResults
begin

text \<open>
  Properties of what a resolution computes from the chain's answers, of its error paths, of its
  polls and of the pages of rounds.
\<close>

text \<open>
  When refreshing the metrics fails, \<open>resolveRound\<close> reports an error although the round has
  been resolved: it is final, and every retry fails without changing anything.
\<close>

theorem error_after_resolution:
  assumes "round_tables RC EC" and "distinct (map row_id (round_rows RC s))"
    and "resolve_check RC cfg inp env s = Inr n" and "open_round RC (in_roundId inp) s"
    and "re_refreshMetrics env = Inl e"
  shows "\<exists>s'. resolveRound RC EC cfg inp env s = (Inl e, s') \<and> round_final RC (in_roundId inp) s' \<and>
    (\<forall>env2. \<exists>e2. resolveRound RC EC cfg inp env2 s' = (Inl e2, s'))"
  using assms by (rule round_tables.metrics_failure)

theorem error_after_resolution_witness:
  "\<exists>s'. resolveRound rounds_c logs_c sample_stellar (sample_input ''r1'' [''u''])
      (sample_chain [] None\<lparr>re_refreshMetrics := Inl NotAnError\<rparr>) (sample_db ''OPEN'') = (Inl NotAnError, s') \<and>
    round_final rounds_c ''r1'' s'"
proof -
  let ?env = "sample_chain [] None\<lparr>re_refreshMetrics := Inl NotAnError\<rparr>"
  have c: "resolve_check rounds_c sample_stellar (sample_input ''r1'' [''u'']) ?env (sample_db ''OPEN'') = Inr 1"
    unfolding check_frame by (rule sample_check)
  have e: "re_refreshMetrics ?env = Inl NotAnError" "in_roundId (sample_input ''r1'' [''u'']) = ''r1''"
    by (simp_all add: sample_input_def)
  from error_after_resolution [OF list_tables.round_tables_axioms sample_distinct c sample_open e(1)] e(2)
  show ?thesis by auto
qed

text \<open>
  A failed read of the players after the on-chain resolution is not an error: the reader answers
  with the empty list, so the resolution goes through and eliminates every player of the round.
\<close>

theorem failed_read_eliminates_everyone:
  assumes "round_tables RC EC" and "\<forall>v. re_players env \<noteq> Inr (SimValue v)"
    and "resolve_check RC cfg inp env s = Inr n" and "open_round RC (in_roundId inp) s"
    and "re_refreshMetrics env = Inr ()"
  shows "rs_eliminatedPlayers (resolution_of inp env) = in_allActivePlayerIds inp \<and>
    (\<exists>s'. resolveRound RC EC cfg inp env s = (Inr (resolution_of inp env), s'))"
  using failed_read [OF assms(2)] round_tables.resolve_total [OF assms(1,3,4,5)] by blast

theorem failed_read_eliminates_everyone_witness:
  "rs_eliminatedPlayers (resolution_of (sample_input ''r1'' [''u'', ''v''])
      (sample_chain [] None\<lparr>re_players := Inr (SimError ''timeout'')\<rparr>)) = [''u'', ''v'']"
proof -
  let ?env = "sample_chain [] None\<lparr>re_players := Inr (SimError ''timeout'')\<rparr>"
  have c: "resolve_check rounds_c sample_stellar (sample_input ''r1'' [''u'', ''v'']) ?env (sample_db ''OPEN'') = Inr 1"
    unfolding check_frame by (rule sample_check)
  have e: "\<forall>v. re_players ?env \<noteq> Inr (SimValue v)" "re_refreshMetrics ?env = Inr ()"
    by (simp_all add: sample_chain_def)
  from failed_read_eliminates_everyone [OF list_tables.round_tables_axioms e(1) c sample_open e(2)]
  show ?thesis by (simp add: sample_input_def)
qed

text \<open>
  Player ids are UUIDs by the request schema, but the chain reports wallet addresses, and no UUID
  is one: on every accepted request the successful read eliminates every player too, the winners
  among them, and the payout of an on-chain winner never contains the winner's own stake.
\<close>

theorem uuid_players_all_eliminated:
  assumes "round_input_ok inp" and "re_players env = Inr (SimValue es)"
    and "\<And>a b. (a, b) \<in> set es \<Longrightarrow> public_key_regex a"
    and "re_winner env = Inr (SimValue (Some w))" and "public_key_regex w"
  shows "rs_eliminatedPlayers (resolution_of inp env) = in_allActivePlayerIds inp \<and>
    rs_payouts (resolution_of inp env) = [\<lparr>po_userId = w,
      po_amount = stake_sum (filter (\<lambda>p. ch_userId p \<in> set (in_allActivePlayerIds inp)) (in_playerChoices inp)) *
        (1 + in_oracleYield inp / 100)\<rparr>]"
proof -
  note el = no_address_active [OF assms(1-3)]
  have win: "getOnChainWinner (re_winner env) = Some w" "w \<noteq> []"
    using assms(4,5) by (auto simp: getOnChainWinner_def simulateViewCall_def or_catch_def public_key_regex_def)
  have "list_all player_choice_ok (in_playerChoices inp)" using assms(1) by (simp add: round_input_ok_def)
  from find_key_None [OF this assms(5)] have f: "find (\<lambda>p. ch_userId p = w) (in_playerChoices inp) = None" .
  have "rs_payouts (resolution_of inp env) =
      computePayouts (Some w) (in_playerChoices inp) (rs_eliminatedPlayers (resolution_of inp env)) (in_oracleYield inp)"
    by (simp add: resolution_of_def Let_def win)
  then show ?thesis using el win f by (simp add: computePayouts_def Let_def)
qed

definition sample_uuid :: string where
  "sample_uuid = ''00000000-0000-4000-8000-00000000000a''"

definition sample_wallet :: string where
  "sample_wallet = CHR ''G'' # replicate 55 (CHR ''A'')"

definition valid_input :: round_input where
  "valid_input = (sample_input sample_uuid [sample_uuid])\<lparr>in_arenaContractId := CHR ''C'' # replicate 55 (CHR ''A'')\<rparr>"

lemma valid_input_ok: "round_input_ok valid_input"
proof -
  have "js_split (CHR ''-'') sample_uuid = [''00000000'', ''0000'', ''4000'', ''8000'', ''00000000000a'']"
    by (simp add: sample_uuid_def)
  then have u: "is_uuid sample_uuid"
    by (simp add: is_uuid_def is_hex_def char_class_defs)
  have "contract_id_regex (CHR ''C'' # replicate 55 (CHR ''A''))"
    by (simp add: contract_id_regex_def list_all_iff char_class_defs)
  then show ?thesis using u
    by (simp add: valid_input_def sample_input_def round_input_ok_def player_choice_ok_def)
qed

theorem uuid_players_all_eliminated_witness:
  "rs_eliminatedPlayers (resolution_of valid_input (sample_chain [(sample_wallet, True)] (Some sample_wallet))) =
    [sample_uuid]"
proof -
  have k: "public_key_regex sample_wallet"
    by (simp add: sample_wallet_def public_key_regex_def list_all_iff char_class_defs)
  have es: "\<And>a b. (a, b) \<in> set [(sample_wallet, True)] \<Longrightarrow> public_key_regex a" using k by simp
  have "re_players (sample_chain [(sample_wallet, True)] (Some sample_wallet)) = Inr (SimValue [(sample_wallet, True)])"
    "re_winner (sample_chain [(sample_wallet, True)] (Some sample_wallet)) = Inr (SimValue (Some sample_wallet))"
    by (simp_all add: sample_chain_def)
  from uuid_players_all_eliminated [OF valid_input_ok this(1) es this(2) k] show ?thesis
    by (simp add: valid_input_def sample_input_def)
qed

text \<open>
  When one player is left, the on-chain winner, and all others are eliminated, the single payout
  is the whole pool plus the yield on the eliminated stakes only, and the pool balances leave the
  winner the own stake and everybody else nothing.
\<close>

theorem last_survivor_takes_pool:
  assumes "distinct (map ch_userId ps)" and "p \<in> set ps" and "ch_userId p \<noteq> []"
    and "\<And>q. q \<in> set ps \<Longrightarrow> ch_userId q \<in> set el \<longleftrightarrow> ch_userId q \<noteq> ch_userId p"
  shows "computePayouts (Some (ch_userId p)) ps el y =
      [\<lparr>po_userId = ch_userId p, po_amount = stake_sum ps + (stake_sum ps - ch_stake p) * (y / 100)\<rparr>] \<and>
    (\<forall>q\<in>set ps. map_of (computePoolBalances ps el []) (ch_userId q) = Some (if q = p then ch_stake p else 0))"
proof -
  have fil: "filter (\<lambda>q. ch_userId q \<in> set el) ps = filter (\<lambda>q. ch_userId q \<noteq> ch_userId p) ps"
    using assms(4) by (intro filter_cong) auto
  have found: "find (\<lambda>q. ch_userId q = ch_userId r) ps = Some r" if "r \<in> set ps" for r
    using that assms(1) by (induction ps) auto
  have inj: "ch_userId q = ch_userId p \<longleftrightarrow> q = p" if "q \<in> set ps" for q
    using that assms(1,2) by (auto simp: distinct_map inj_on_def)
  have bal: "map_of (computePoolBalances ps el []) (ch_userId q) = Some (if q = p then ch_stake p else 0)"
    if "q \<in> set ps" for q
    using pool_balances_gen [OF assms(1), of el "[]" "ch_userId q"] found [OF that] assms(4) [OF that] inj [OF that]
    by auto
  have rest: "stake_sum (filter (\<lambda>q. ch_userId q \<noteq> ch_userId p) ps) = stake_sum ps - ch_stake p"
    using stake_sum_split [OF assms(1,2)] by simp
  have "computePayouts (Some (ch_userId p)) ps el y =
      [\<lparr>po_userId = ch_userId p, po_amount = ch_stake p + (stake_sum ps - ch_stake p) * (1 + y / 100)\<rparr>]"
    using assms(3) found [OF assms(2)] by (simp add: computePayouts_def Let_def fil rest)
  then show ?thesis using bal by (simp add: algebra_simps)
qed

definition sample_choice :: "string \<Rightarrow> rat \<Rightarrow> player_choice" where
  "sample_choice u x = \<lparr>ch_userId = u, ch_choice = ''heads'', ch_stake = x\<rparr>"

lemma sample_choice_sel [simp]: "ch_userId (sample_choice u x) = u" "ch_stake (sample_choice u x) = x"
  by (simp_all add: sample_choice_def)

theorem last_survivor_takes_pool_witness:
  "computePayouts (Some ''w'') [sample_choice ''a'' 30, sample_choice ''w'' 10] [''a''] 5 =
     [\<lparr>po_userId = ''w'', po_amount = 40 + 30 * (5 / 100)\<rparr>]"
proof -
  let ?ps = "[sample_choice ''a'' 30, sample_choice ''w'' 10]"
  have h: "distinct (map ch_userId ?ps)" "sample_choice ''w'' 10 \<in> set ?ps"
    "ch_userId (sample_choice ''w'' 10) \<noteq> []"
    "\<And>q. q \<in> set ?ps \<Longrightarrow> ch_userId q \<in> set [''a''] \<longleftrightarrow> ch_userId q \<noteq> ch_userId (sample_choice ''w'' 10)"
    by auto
  from last_survivor_takes_pool [OF h, of 5] show ?thesis by (simp add: stake_sum_def)
qed

text \<open>
  Submitting a resolution polls at most \<open>roundConfirmMaxPolls\<close> times and waits at most 30
  seconds before each poll, whatever the base delay and the random jitter are.
\<close>

theorem confirmation_polls_bounded:
  "length (snd (submitOnChainResolve env cfg contract n)) \<le> sc_roundConfirmMaxPolls cfg \<and>
   sum_list (snd (submitOnChainResolve env cfg contract n)) \<le> of_nat (sc_roundConfirmMaxPolls cfg) * 30000"
proof -
  let ?ws = "snd (submitOnChainResolve env cfg contract n)"
  have "?ws = [] \<or> (\<exists>h. ?ws = snd (resolve_polls env cfg n h (sc_roundConfirmMaxPolls cfg) 0 []))"
    by (auto simp: submitOnChainResolve_def split: sum.split resolve_simulation.split)
  then have b: "length ?ws \<le> sc_roundConfirmMaxPolls cfg" "\<forall>w\<in>set ?ws. w \<le> 30000"
    using polls_waits [of "[]" env cfg n _ "sc_roundConfirmMaxPolls cfg" 0] by auto
  have "sum_list ?ws \<le> of_nat (length ?ws) * 30000" using b(2) by (rule sum_list_bound)
  also have "\<dots> \<le> of_nat (sc_roundConfirmMaxPolls cfg) * 30000" using b(1) by simp
  finally show ?thesis using b(1) by simp
qed

text \<open>
  Following the cursors of \<open>listByArenaId\<close> from the first page, with any page size above 0,
  returns every round of the arena exactly once and in order.
\<close>

theorem pages_cover_all_rounds:
  assumes "0 < lm"
  shows "walk_pages RC a lm s (length (arena_rounds RC a s)) 0 = map mapRound (arena_rounds RC a s)"
  using walk_pages_drop [OF assms, of RC a s 0 "length (arena_rounds RC a s)"] by simp

theorem pages_cover_all_rounds_witness:
  "walk_pages rounds_c ''A'' 1 (sample_db ''OPEN'') 1 0 = [mapRound (sample_row ''r1'' ''OPEN'')]"
proof -
  have r: "arena_rounds rounds_c ''A'' (sample_db ''OPEN'') = [sample_row ''r1'' ''OPEN'']"
    by (simp add: arena_rounds_def page_rows_def sample_db_def sample_row_def)
  show ?thesis
    using pages_cover_all_rounds [of 1 rounds_c "''A''" "sample_db ''OPEN''"] by (simp add: r)
qed

end
