(* ===== verification/Sessions.thy ===== *)
theory Sessions
  imports Prelude
begin

text \<open>
  The session store of backend/src/cache/sessionStore.ts. Redis is not part of the repository: its
  commands are the record \<open>redis\<close>, and the locale \<open>redis_store\<close> states what its
  documentation promises of the ones the code uses. \<open>list_redis\<close> is a store made of lists.
\<close>

section \<open>Redis\<close>

text \<open>
  Times are milliseconds; \<open>rd_get now k\<close> is \<open>GET k\<close> at that time. \<open>rd_set now k v ttl\<close> is
  \<open>SET k v EX ttl\<close>, with the ttl in seconds.
\<close>

record 's redis =
  rd_get :: "int \<Rightarrow> string \<Rightarrow> 's \<Rightarrow> string option"
  rd_set :: "int \<Rightarrow> string \<Rightarrow> string \<Rightarrow> int \<Rightarrow> 's \<Rightarrow> 's"
  rd_del :: "string \<Rightarrow> 's \<Rightarrow> 's"
  rd_sadd :: "string \<Rightarrow> string \<Rightarrow> 's \<Rightarrow> 's"
  rd_srem :: "string \<Rightarrow> string \<Rightarrow> 's \<Rightarrow> 's"
  rd_smembers :: "string \<Rightarrow> 's \<Rightarrow> string list"

locale redis_store =
  fixes D :: "'s redis"
  assumes get_set: "rd_get D n' k' (rd_set D n k v ttl s) =
      (if k' = k then (if n' < n + ttl * 1000 then Some v else None) else rd_get D n' k' s)"
    and get_del: "rd_get D n k' (rd_del D k s) = (if k' = k then None else rd_get D n k' s)"
    and get_sadd: "k' \<noteq> k \<Longrightarrow> rd_get D n k' (rd_sadd D k x s) = rd_get D n k' s"
    and get_srem: "k' \<noteq> k \<Longrightarrow> rd_get D n k' (rd_srem D k x s) = rd_get D n k' s"
    and members_set: "k' \<noteq> k \<Longrightarrow> rd_smembers D k' (rd_set D n k v ttl s) = rd_smembers D k' s"
    and members_del: "rd_smembers D k' (rd_del D k s) = (if k' = k then [] else rd_smembers D k' s)"
    and members_sadd: "set (rd_smembers D k' (rd_sadd D k x s)) =
      (if k' = k then insert x (set (rd_smembers D k s)) else set (rd_smembers D k' s))"
    and members_srem: "set (rd_smembers D k' (rd_srem D k x s)) =
      (if k' = k then set (rd_smembers D k s) - {x} else set (rd_smembers D k' s))"

section \<open>SessionStore\<close>

definition jtiKey :: "string \<Rightarrow> string" where
  "jtiKey j = ''auth:jti:'' @ j"

definition walletKey :: "string \<Rightarrow> string" where
  "walletKey w = ''auth:wallet:'' @ w"

definition addSession :: "'s redis \<Rightarrow> int \<Rightarrow> string \<Rightarrow> string \<Rightarrow> rat \<Rightarrow> 's \<Rightarrow> 's" where
  "addSession D now w j ttlSeconds s =
     (let ttl = max 1 \<lfloor>ttlSeconds\<rfloor> in rd_sadd D (walletKey w) j (rd_set D now (jtiKey j) w ttl s))"

definition isActive :: "'s redis \<Rightarrow> int \<Rightarrow> string \<Rightarrow> 's \<Rightarrow> bool" where
  "isActive D now j s \<longleftrightarrow> rd_get D now (jtiKey j) s \<noteq> None"

definition removeSession :: "'s redis \<Rightarrow> int \<Rightarrow> string \<Rightarrow> 's \<Rightarrow> 's" where
  "removeSession D now j s =
     (let w = rd_get D now (jtiKey j) s; s1 = rd_del D (jtiKey j) s in
      if truthy w then rd_srem D (walletKey (the w)) j s1 else s1)"

definition removeAllSessions :: "'s redis \<Rightarrow> string \<Rightarrow> 's \<Rightarrow> nat \<times> 's" where
  "removeAllSessions D w s =
     (let jtis = rd_smembers D (walletKey w) s in
      if jtis = [] then (0, rd_del D (walletKey w) s)
      else (length jtis, rd_del D (walletKey w) (fold (\<lambda>j. rd_del D (jtiKey j)) jtis s)))"

section \<open>Lemmas\<close>

lemma jtiKey_inj [simp]: "jtiKey i = jtiKey j \<longleftrightarrow> i = j"
  by (simp add: jtiKey_def)

lemma walletKey_inj [simp]: "walletKey v = walletKey w \<longleftrightarrow> v = w"
  by (simp add: walletKey_def)

lemma jti_wallet [simp]: "jtiKey j \<noteq> walletKey w" "walletKey w \<noteq> jtiKey j"
  by (simp_all add: jtiKey_def walletKey_def)

text \<open>Every active session is in the set of its wallet.\<close>

definition session_inv :: "'s redis \<Rightarrow> 's \<Rightarrow> bool" where
  "session_inv D s \<longleftrightarrow>
     (\<forall>n j w. rd_get D n (jtiKey j) s = Some w \<longrightarrow> j \<in> set (rd_smembers D (walletKey w) s))"

context redis_store
begin

lemma get_dels: "rd_get D n k (fold (\<lambda>j. rd_del D (jtiKey j)) js s) =
    (if k \<in> jtiKey ` set js then None else rd_get D n k s)"
  by (induction js arbitrary: s) (auto simp: get_del)

lemma members_dels: "rd_smembers D (walletKey w) (fold (\<lambda>j. rd_del D (jtiKey j)) js s) = rd_smembers D (walletKey w) s"
  by (induction js arbitrary: s) (auto simp: members_del)

lemma add_get: "rd_get D n (jtiKey i) (addSession D now w j ttl s) =
    (if i = j then (if n < now + max 1 \<lfloor>ttl\<rfloor> * 1000 then Some w else None) else rd_get D n (jtiKey i) s)"
  by (simp add: addSession_def Let_def get_sadd get_set)

lemma remove_get: "rd_get D n (jtiKey i) (removeSession D now j s) =
    (if i = j then None else rd_get D n (jtiKey i) s)"
  by (simp add: removeSession_def Let_def get_srem get_del)

lemma remove_all_get: "rd_get D n (jtiKey i) (snd (removeAllSessions D w s)) =
    (if i \<in> set (rd_smembers D (walletKey w) s) then None else rd_get D n (jtiKey i) s)"
  by (auto simp: removeAllSessions_def Let_def get_del get_dels)

lemma add_members: "set (rd_smembers D (walletKey v) (addSession D now w j ttl s)) =
    (if v = w then insert j (set (rd_smembers D (walletKey w) s)) else set (rd_smembers D (walletKey v) s))"
  by (simp add: addSession_def Let_def members_sadd members_set)

lemma add_inv: "session_inv D s \<Longrightarrow> session_inv D (addSession D now w j ttl s)"
  unfolding session_inv_def
  by (auto simp: add_get add_members split: if_splits)

lemma remove_inv:
  assumes "session_inv D s"
  shows "session_inv D (removeSession D now j s)"
  unfolding session_inv_def
proof (intro allI impI)
  fix n i w
  assume "rd_get D n (jtiKey i) (removeSession D now j s) = Some w"
  then have i: "i \<noteq> j" "rd_get D n (jtiKey i) s = Some w" by (auto simp: remove_get split: if_splits)
  then have "i \<in> set (rd_smembers D (walletKey w) s)" using assms by (auto simp: session_inv_def)
  then show "i \<in> set (rd_smembers D (walletKey w) (removeSession D now j s))"
    using i(1) by (auto simp: removeSession_def Let_def members_srem members_del)
qed

lemma remove_all_inv:
  assumes "session_inv D s"
  shows "session_inv D (snd (removeAllSessions D w s))"
  unfolding session_inv_def
proof (intro allI impI)
  fix n i v
  assume "rd_get D n (jtiKey i) (snd (removeAllSessions D w s)) = Some v"
  then have i: "i \<notin> set (rd_smembers D (walletKey w) s)" "rd_get D n (jtiKey i) s = Some v"
    by (auto simp: remove_all_get split: if_splits)
  then have "i \<in> set (rd_smembers D (walletKey v) s)" using assms by (auto simp: session_inv_def)
  moreover from this have "v \<noteq> w" using i(1) by blast
  ultimately show "i \<in> set (rd_smembers D (walletKey v) (snd (removeAllSessions D w s)))"
    by (auto simp: removeAllSessions_def Let_def members_del members_dels)
qed

lemma remove_all_dead:
  assumes "session_inv D s" and "rd_get D n (jtiKey j) s = Some w"
  shows "\<not> isActive D m j (snd (removeAllSessions D w s))"
  using assms by (auto simp: isActive_def remove_all_get session_inv_def)

end

section \<open>A store of lists\<close>

record list_store =
  ls_strings :: "(string \<times> string \<times> int) list"
  ls_sets :: "(string \<times> string list) list"

definition set_of :: "string \<Rightarrow> list_store \<Rightarrow> string list" where
  "set_of k s = (case map_of (ls_sets s) k of None \<Rightarrow> [] | Some xs \<Rightarrow> xs)"

definition list_redis :: "list_store redis" where
  "list_redis =
     \<lparr>rd_get = (\<lambda>n k s. case map_of (ls_strings s) k of
          None \<Rightarrow> None | Some (v, e) \<Rightarrow> if n < e then Some v else None),
      rd_set = (\<lambda>n k v ttl s. s\<lparr>ls_strings := AList.update k (v, n + ttl * 1000) (ls_strings s)\<rparr>),
      rd_del = (\<lambda>k s. s\<lparr>ls_strings := AList.delete k (ls_strings s), ls_sets := AList.delete k (ls_sets s)\<rparr>),
      rd_sadd = (\<lambda>k x s. s\<lparr>ls_sets := AList.update k (js_set_add x (set_of k s)) (ls_sets s)\<rparr>),
      rd_srem = (\<lambda>k x s. s\<lparr>ls_sets := AList.update k (filter (\<lambda>y. y \<noteq> x) (set_of k s)) (ls_sets s)\<rparr>),
      rd_smembers = set_of\<rparr>"

definition empty_store :: list_store where
  "empty_store = \<lparr>ls_strings = [], ls_sets = []\<rparr>"

interpretation list_redis: redis_store list_redis
  by unfold_locales (auto simp: list_redis_def set_of_def split: option.split)

lemma empty_store_inv: "session_inv list_redis empty_store"
  by (simp add: session_inv_def list_redis_def empty_store_def)

end
