(* ===== verification/Auth.thy ===== *)
theory Auth
  imports Sessions Store Amounts
begin

text \<open>
  Authentication: \<open>AuthService\<close> of backend/src/services/authService.ts with the documents of
  backend/src/db/models, the guards of backend/src/middleware/auth.ts and the confirmation tokens of
  backend/src/services/adminService.ts. The JWT library, the hash and Keypair.verify are parameters
  (\<open>auth_lib\<close>), as are the collections; what one call reads from the clock and the random
  generators is its \<open>auth_env\<close>.
\<close>

section \<open>Documents and parameters\<close>

record nonce_doc =
  nd_id :: string
  nd_walletAddress :: string
  nd_nonce :: string
  nd_used :: bool
  nd_expiresAt :: int
  nd_createdAt :: int

record user_doc =
  us_id :: string
  us_walletAddress :: string
  us_joinedAt :: int
  us_lastLoginAt :: int
  us_displayName :: "string option"

record refresh_doc =
  rt_id :: string
  rt_tokenHash :: string
  rt_familyId :: string
  rt_userId :: string
  rt_used :: bool
  rt_revoked :: bool
  rt_expiresAt :: int

datatype token_type = AccessToken | RefreshToken | OtherToken

record jwt_payload =
  jp_sub :: string
  jp_wallet :: string
  jp_type :: token_type
  jp_jti :: string

record token_pair =
  tp_accessToken :: string
  tp_refreshToken :: string

text \<open>
  \<open>al_verifySignature\<close> is \<open>None\<close> when a conversion or the check raises. \<open>al_jwtVerify\<close> takes
  the token, the secret and the time, \<open>al_jwtSign\<close> the payload, the secret, the lifetime and the time.
\<close>

record auth_lib =
  al_hash :: "string \<Rightarrow> string"
  al_jwtSign :: "jwt_payload \<Rightarrow> string \<Rightarrow> rat \<Rightarrow> int \<Rightarrow> string"
  al_jwtVerify :: "string \<Rightarrow> string \<Rightarrow> int \<Rightarrow> jwt_payload option"
  al_verifySignature :: "string \<Rightarrow> string \<Rightarrow> string \<Rightarrow> bool option"

text \<open>The environment variables that are read as numbers: \<open>None\<close> is what is not finite.\<close>

record auth_config =
  ac_jwtSecret :: "string option"
  ac_nonceTtl :: "rat option"
  ac_refreshTtl :: "rat option"
  ac_accessTtl :: "rat option"

record auth_env =
  ae_now :: int
  ae_randomHex :: string
  ae_docId :: string
  ae_userId :: string
  ae_accessJti :: string
  ae_refreshJti :: string
  ae_familyId :: string

record ('n, 'u, 't, 'r) auth_state =
  au_nonces :: 'n
  au_users :: 'u
  au_tokens :: 't
  au_redis :: 'r

record ('n, 'u, 't, 'r) auth_stores =
  st_nonces :: "(nonce_doc, 'n) coll"
  st_users :: "(user_doc, 'u) coll"
  st_tokens :: "(refresh_doc, 't) coll"
  st_redis :: "'r redis"

section \<open>Helpers\<close>

definition NONCE_PREFIX :: string where
  "NONCE_PREFIX = ''Sign this message to authenticate with InverseArena:'' @ [char_of (10 :: nat)]"

definition getJwtSecret :: "auth_config \<Rightarrow> js_error + string" where
  "getJwtSecret cfg =
     (case ac_jwtSecret cfg of
        None \<Rightarrow> Inl (Error ''JWT_SECRET must be set and at least 32 characters'')
      | Some s \<Rightarrow> if length s < 32 then Inl (Error ''JWT_SECRET must be set and at least 32 characters'')
                  else Inr s)"

definition positive_or :: "rat \<Rightarrow> rat option \<Rightarrow> rat" where
  "positive_or d v = (case v of None \<Rightarrow> d | Some x \<Rightarrow> if x > 0 then x else d)"

definition nonceTtlSeconds :: "auth_config \<Rightarrow> rat" where
  "nonceTtlSeconds cfg = positive_or 300 (ac_nonceTtl cfg)"

definition refreshTokenTtlSeconds :: "auth_config \<Rightarrow> rat" where
  "refreshTokenTtlSeconds cfg = positive_or (7 * 24 * 60 * 60) (ac_refreshTtl cfg)"

definition accessTokenTtlSeconds :: "auth_config \<Rightarrow> rat" where
  "accessTokenTtlSeconds cfg = positive_or (15 * 60) (ac_accessTtl cfg)"

definition after_seconds :: "int \<Rightarrow> rat \<Rightarrow> int" where
  "after_seconds now ttl = \<lfloor>of_int now + ttl * 1000\<rfloor>"

definition validateWalletAddress :: "string \<Rightarrow> js_error + unit" where
  "validateWalletAddress w =
     (if public_key_regex w then Inr () else Inl (StatusError 400 ''Invalid Stellar wallet address''))"

definition unauthorized :: "string \<Rightarrow> js_error" where
  "unauthorized m = StatusError 401 m"

section \<open>Nonces and login\<close>

definition valid_nonce :: "string \<Rightarrow> int \<Rightarrow> nonce_doc \<Rightarrow> bool" where
  "valid_nonce w now d \<longleftrightarrow> nd_walletAddress d = w \<and> \<not> nd_used d \<and> nd_expiresAt d > now"

definition requestNonce ::
    "('n, 'u, 't, 'r) auth_stores \<Rightarrow> auth_config \<Rightarrow> auth_env \<Rightarrow> string \<Rightarrow> ('n, 'u, 't, 'r) auth_state \<Rightarrow>
     (js_error + string \<times> int) \<times> ('n, 'u, 't, 'r) auth_state" where
  "requestNonce S cfg env w s =
     (case validateWalletAddress w of
        Inl e \<Rightarrow> (Inl e, s)
      | Inr _ \<Rightarrow>
          let nonce = NONCE_PREFIX @ ae_randomHex env;
              expiresAt = after_seconds (ae_now env) (nonceTtlSeconds cfg);
              n1 = snd (c_update (st_nonces S) (valid_nonce w (ae_now env)) (\<lambda>d. d\<lparr>nd_used := True\<rparr>) (au_nonces s))
          in (case c_create (st_nonces S) \<lparr>nd_id = ae_docId env, nd_walletAddress = w, nd_nonce = nonce,
                     nd_used = False, nd_expiresAt = expiresAt, nd_createdAt = ae_now env\<rparr> n1 of
                (Inl e, n2) \<Rightarrow> (Inl e, s\<lparr>au_nonces := n2\<rparr>)
              | (Inr _, n2) \<Rightarrow> (Inr (nonce, expiresAt), s\<lparr>au_nonces := n2\<rparr>)))"

text \<open>\<open>findOne(...).sort({createdAt: -1})\<close>\<close>

definition latest_nonce :: "(nonce_doc, 'n) coll \<Rightarrow> string \<Rightarrow> int \<Rightarrow> 'n \<Rightarrow> nonce_doc option" where
  "latest_nonce NC w now n = first_opt (sort_key (\<lambda>d. - nd_createdAt d) (c_find NC (valid_nonce w now) n))"

text \<open>\<open>findOneAndUpdate\<close> with \<open>upsert\<close>: the first user of the wallet, or a new one.\<close>

definition upsert_user ::
    "(user_doc, 'u) coll \<Rightarrow> auth_env \<Rightarrow> string \<Rightarrow> 'u \<Rightarrow> (js_error + user_doc) \<times> 'u" where
  "upsert_user UC env w u =
     (case c_findOne UC (\<lambda>d. us_walletAddress d = w) u of
        Some d \<Rightarrow>
          let d' = d\<lparr>us_lastLoginAt := ae_now env\<rparr>
          in (Inr d', snd (c_update UC (\<lambda>x. us_id x = us_id d) (\<lambda>x. x\<lparr>us_lastLoginAt := ae_now env\<rparr>) u))
      | None \<Rightarrow>
          let d = \<lparr>us_id = ae_userId env, us_walletAddress = w, us_joinedAt = ae_now env,
                   us_lastLoginAt = ae_now env, us_displayName = None\<rparr>
          in (case c_create UC d u of (Inl e, u') \<Rightarrow> (Inl e, u') | (Inr _, u') \<Rightarrow> (Inr d, u')))"

definition issueTokenPair ::
    "('n, 'u, 't, 'r) auth_stores \<Rightarrow> auth_lib \<Rightarrow> auth_config \<Rightarrow> auth_env \<Rightarrow> string \<Rightarrow> string \<Rightarrow> string option \<Rightarrow>
     ('n, 'u, 't, 'r) auth_state \<Rightarrow> (js_error + token_pair) \<times> ('n, 'u, 't, 'r) auth_state" where
  "issueTokenPair S L cfg env userId w existingFamilyId s =
     (case getJwtSecret cfg of
        Inl e \<Rightarrow> (Inl e, s)
      | Inr secret \<Rightarrow>
          let accessTtl = accessTokenTtlSeconds cfg; refreshTtl = refreshTokenTtlSeconds cfg;
              now = ae_now env;
              accessToken = al_jwtSign L \<lparr>jp_sub = userId, jp_wallet = w, jp_type = AccessToken,
                  jp_jti = ae_accessJti env\<rparr> secret accessTtl now;
              refreshToken = al_jwtSign L \<lparr>jp_sub = userId, jp_wallet = w, jp_type = RefreshToken,
                  jp_jti = ae_refreshJti env\<rparr> secret refreshTtl now
          in (case c_create (st_tokens S) \<lparr>rt_id = ae_docId env, rt_tokenHash = al_hash L refreshToken,
                     rt_familyId = (case existingFamilyId of None \<Rightarrow> ae_familyId env | Some f \<Rightarrow> f),
                     rt_userId = userId, rt_used = False, rt_revoked = False,
                     rt_expiresAt = after_seconds now refreshTtl\<rparr> (au_tokens s) of
                (Inl e, t) \<Rightarrow> (Inl e, s\<lparr>au_tokens := t\<rparr>)
              | (Inr _, t) \<Rightarrow>
                  let r1 = addSession (st_redis S) now w (ae_accessJti env) accessTtl (au_redis s);
                      r2 = addSession (st_redis S) now w (ae_refreshJti env) refreshTtl r1
                  in (Inr \<lparr>tp_accessToken = accessToken, tp_refreshToken = refreshToken\<rparr>,
                      s\<lparr>au_tokens := t, au_redis := r2\<rparr>)))"

definition verifySignatureAndLogin ::
    "('n, 'u, 't, 'r) auth_stores \<Rightarrow> auth_lib \<Rightarrow> auth_config \<Rightarrow> auth_env \<Rightarrow> string \<Rightarrow> string \<Rightarrow>
     ('n, 'u, 't, 'r) auth_state \<Rightarrow> (js_error + token_pair \<times> user_doc) \<times> ('n, 'u, 't, 'r) auth_state" where
  "verifySignatureAndLogin S L cfg env w sig s =
     (case validateWalletAddress w of
        Inl e \<Rightarrow> (Inl e, s)
      | Inr _ \<Rightarrow>
          (case latest_nonce (st_nonces S) w (ae_now env) (au_nonces s) of
             None \<Rightarrow> (Inl (unauthorized ''No valid nonce found - request a new one''), s)
           | Some rec \<Rightarrow>
               if al_verifySignature L w (nd_nonce rec) sig \<noteq> Some True
               then (Inl (unauthorized ''Invalid signature''), s)
               else
                 let n1 = snd (c_update (st_nonces S) (\<lambda>d. nd_id d = nd_id rec) (\<lambda>d. d\<lparr>nd_used := True\<rparr>) (au_nonces s));
                     s1 = s\<lparr>au_nonces := n1\<rparr>
                 in (case upsert_user (st_users S) env w (au_users s1) of
                       (Inl e, u) \<Rightarrow> (Inl e, s1\<lparr>au_users := u\<rparr>)
                     | (Inr user, u) \<Rightarrow>
                         (case issueTokenPair S L cfg env (us_id user) w None (s1\<lparr>au_users := u\<rparr>) of
                            (Inl e, s2) \<Rightarrow> (Inl e, s2)
                          | (Inr tokens, s2) \<Rightarrow> (Inr (tokens, user), s2)))))"

section \<open>Refresh, logout, verification\<close>

definition decode_token :: "auth_lib \<Rightarrow> auth_config \<Rightarrow> auth_env \<Rightarrow> string \<Rightarrow> jwt_payload option" where
  "decode_token L cfg env token =
     (case getJwtSecret cfg of Inl _ \<Rightarrow> None | Inr secret \<Rightarrow> al_jwtVerify L token secret (ae_now env))"

definition refreshTokens ::
    "('n, 'u, 't, 'r) auth_stores \<Rightarrow> auth_lib \<Rightarrow> auth_config \<Rightarrow> auth_env \<Rightarrow> string \<Rightarrow>
     ('n, 'u, 't, 'r) auth_state \<Rightarrow> (js_error + token_pair) \<times> ('n, 'u, 't, 'r) auth_state" where
  "refreshTokens S L cfg env token s =
     (case decode_token L cfg env token of
        None \<Rightarrow> (Inl (unauthorized ''Invalid or expired refresh token''), s)
      | Some payload \<Rightarrow>
          if jp_type payload \<noteq> RefreshToken
          then (Inl (unauthorized ''Token is not a refresh token''), s)
          else if jp_jti payload \<noteq> [] \<and> \<not> isActive (st_redis S) (ae_now env) (jp_jti payload) (au_redis s)
          then (Inl (unauthorized ''Refresh token has been revoked''), s)
          else
            (case c_findOne (st_tokens S) (\<lambda>d. rt_tokenHash d = al_hash L token) (au_tokens s) of
               None \<Rightarrow> (Inl (unauthorized ''Refresh token has been revoked or expired''), s)
             | Some stored \<Rightarrow>
                 if rt_revoked stored then (Inl (unauthorized ''Refresh token has been revoked''), s)
                 else if rt_used stored
                 then (Inl (unauthorized ''Refresh token reuse detected - all sessions invalidated''),
                       s\<lparr>au_tokens := snd (c_update (st_tokens S) (\<lambda>d. rt_familyId d = rt_familyId stored)
                                           (\<lambda>d. d\<lparr>rt_revoked := True\<rparr>) (au_tokens s)),
                         au_redis := snd (removeAllSessions (st_redis S) (jp_wallet payload) (au_redis s))\<rparr>)
                 else
                   let t1 = snd (c_update (st_tokens S) (\<lambda>d. rt_id d = rt_id stored)
                                   (\<lambda>d. d\<lparr>rt_used := True\<rparr>) (au_tokens s));
                       r1 = (if jp_jti payload \<noteq> []
                             then removeSession (st_redis S) (ae_now env) (jp_jti payload) (au_redis s)
                             else au_redis s)
                   in issueTokenPair S L cfg env (jp_sub payload) (jp_wallet payload) (Some (rt_familyId stored))
                        (s\<lparr>au_tokens := t1, au_redis := r1\<rparr>)))"

definition logout :: "('n, 'u, 't, 'r) auth_stores \<Rightarrow> auth_env \<Rightarrow> string \<Rightarrow> ('n, 'u, 't, 'r) auth_state \<Rightarrow>
    ('n, 'u, 't, 'r) auth_state" where
  "logout S env j s = s\<lparr>au_redis := removeSession (st_redis S) (ae_now env) j (au_redis s)\<rparr>"

definition revokeAllSessions :: "('n, 'u, 't, 'r) auth_stores \<Rightarrow> string \<Rightarrow> string \<Rightarrow>
    ('n, 'u, 't, 'r) auth_state \<Rightarrow> nat \<times> ('n, 'u, 't, 'r) auth_state" where
  "revokeAllSessions S w userId s =
     (let n = fst (removeAllSessions (st_redis S) w (au_redis s)) in
      (n, s\<lparr>au_redis := snd (removeAllSessions (st_redis S) w (au_redis s)),
            au_tokens := snd (c_update (st_tokens S) (\<lambda>d. rt_userId d = userId \<and> \<not> rt_revoked d)
                                (\<lambda>d. d\<lparr>rt_revoked := True\<rparr>) (au_tokens s))\<rparr>))"

definition verifyAccessToken ::
    "('n, 'u, 't, 'r) auth_stores \<Rightarrow> auth_lib \<Rightarrow> auth_config \<Rightarrow> auth_env \<Rightarrow> string \<Rightarrow>
     ('n, 'u, 't, 'r) auth_state \<Rightarrow> js_error + jwt_payload" where
  "verifyAccessToken S L cfg env token s =
     (case decode_token L cfg env token of
        None \<Rightarrow> Inl (unauthorized ''Invalid or expired access token'')
      | Some payload \<Rightarrow>
          if jp_type payload \<noteq> AccessToken then Inl (unauthorized ''Token is not an access token'')
          else if jp_jti payload = [] \<or> \<not> isActive (st_redis S) (ae_now env) (jp_jti payload) (au_redis s)
          then Inl (unauthorized ''Session has been revoked'')
          else Inr payload)"

section \<open>Guards\<close>

record auth_user =
  ru_id :: string
  ru_walletAddress :: string
  ru_jti :: string

definition bearer_token :: "string option \<Rightarrow> string" where
  "bearer_token header =
     (let h = (case header of None \<Rightarrow> [] | Some h \<Rightarrow> h) in
      if starts_with ''Bearer '' h then drop 7 h else [])"

definition requireAuth ::
    "('n, 'u, 't, 'r) auth_stores \<Rightarrow> auth_lib \<Rightarrow> auth_config \<Rightarrow> auth_env \<Rightarrow> string option \<Rightarrow>
     ('n, 'u, 't, 'r) auth_state \<Rightarrow> js_error + auth_user" where
  "requireAuth S L cfg env header s =
     (let token = bearer_token header in
      if token = [] then Inl (HttpErr 401 ''UNAUTHORIZED'' ''Unauthorized'')
      else (case verifyAccessToken S L cfg env token s of
              Inl e \<Rightarrow> Inl e
            | Inr p \<Rightarrow> Inr \<lparr>ru_id = jp_sub p, ru_walletAddress = jp_wallet p, ru_jti = jp_jti p\<rparr>))"

definition new_ApiKeyAuthProvider :: "string option \<Rightarrow> js_error + string" where
  "new_ApiKeyAuthProvider key =
     (if \<not> truthy key then Inl (Error ''ADMIN_API_KEY environment variable is required'')
      else if length (the key) < 32
      then Inl (Error ''ADMIN_API_KEY must be at least 32 characters to resist brute-force and timing attacks'')
      else Inr (the key))"

text \<open>
  \<open>timingSafeEqual\<close> raises when the two buffers, the strings in UTF-8, differ in their length:
  \<open>s.length\<close> counts characters, a buffer counts bytes.
\<close>

definition utf8_length :: "string \<Rightarrow> nat" where
  "utf8_length s = sum_list (map (\<lambda>c. if code_of c < 128 then 1 else 2) s)"

definition isAdmin :: "string \<Rightarrow> string option \<Rightarrow> js_error + bool" where
  "isAdmin apiKey header =
     (let token = bearer_token header in
      if token = [] \<or> length token \<noteq> length apiKey then Inr False
      else if utf8_length token \<noteq> utf8_length apiKey
      then Inl (Error ''Input buffers must have the same byte length'')
      else Inr (token = apiKey))"

definition getAdminId :: "string option \<Rightarrow> string" where
  "getAdminId header = ''apikey:'' @ take 8 (bearer_token header)"

definition requireAdmin :: "string \<Rightarrow> string option \<Rightarrow> js_error + string" where
  "requireAdmin apiKey header =
     (case isAdmin apiKey header of
        Inl e \<Rightarrow> Inl e
      | Inr ok \<Rightarrow> if \<not> ok then Inl (HttpErr 401 ''UNAUTHORIZED'' ''Unauthorized'')
                  else Inr (getAdminId header))"

section \<open>Confirmation tokens\<close>

record confirmation_doc =
  ct_id :: string
  ct_adminId :: string
  ct_tokenHash :: string
  ct_action :: string
  ct_resourceId :: string
  ct_used :: bool
  ct_expiresAt :: int

definition ttlSeconds :: "rat option \<Rightarrow> rat" where
  "ttlSeconds env = positive_or 900 env"

definition requestToken ::
    "(confirmation_doc, 's) coll \<Rightarrow> (string \<Rightarrow> string) \<Rightarrow> rat option \<Rightarrow> string \<Rightarrow> string \<Rightarrow> int \<Rightarrow>
     string \<Rightarrow> string \<Rightarrow> string \<Rightarrow> 's \<Rightarrow> (js_error + string \<times> int) \<times> 's" where
  "requestToken CC hash ttl docId rawToken now adminId action resourceId s =
     (let expiresAt = after_seconds now (ttlSeconds ttl) in
      (case c_create CC \<lparr>ct_id = docId, ct_adminId = adminId, ct_tokenHash = hash rawToken,
              ct_action = action, ct_resourceId = resourceId, ct_used = False, ct_expiresAt = expiresAt\<rparr> s of
         (Inl e, s1) \<Rightarrow> (Inl e, s1)
       | (Inr _, s1) \<Rightarrow> (Inr (rawToken, expiresAt), s1)))"

definition verifyAndConsumeToken ::
    "(confirmation_doc, 's) coll \<Rightarrow> (string \<Rightarrow> string) \<Rightarrow> int \<Rightarrow> string \<Rightarrow> string \<Rightarrow> string \<Rightarrow> string \<Rightarrow> 's \<Rightarrow>
     (js_error + unit) \<times> 's" where
  "verifyAndConsumeToken CC hash now rawToken action resourceId adminId s =
     (case c_findOne CC (\<lambda>d. ct_tokenHash d = hash rawToken) s of
        None \<Rightarrow> (Inl (StatusError 404 ''Confirmation token not found''), s)
      | Some rec \<Rightarrow>
          if ct_used rec then (Inl (StatusError 409 ''Confirmation token already used''), s)
          else if ct_expiresAt rec < now then (Inl (StatusError 410 ''Confirmation token expired''), s)
          else if ct_action rec \<noteq> action \<or> ct_resourceId rec \<noteq> resourceId
          then (Inl (StatusError 403 ''Confirmation token action or resource mismatch''), s)
          else if ct_adminId rec \<noteq> adminId
          then (Inl (StatusError 403 ''Confirmation token belongs to a different admin''), s)
          else (Inr (), snd (c_update CC (\<lambda>d. ct_id d = ct_id rec) (\<lambda>d. d\<lparr>ct_used := True\<rparr>) s)))"

end
