(* ===== verification/AuthProps.thy ===== *)
theory AuthProps
  imports Auth
begin

text \<open>
  Properties of authentication over any stores that keep their contracts: revoking all sessions,
  replayed refresh tokens, single-use nonces and single-use confirmation tokens.
\<close>

section \<open>Steps\<close>

text \<open>
  One request. \<open>j\<close> is a token id that was handed out before, and \<open>crypto.randomUUID()\<close> does
  not return it again.
\<close>

inductive auth_step ::
    "('n, 'u, 't, 'r) auth_stores \<Rightarrow> auth_lib \<Rightarrow> auth_config \<Rightarrow> string \<Rightarrow>
     ('n, 'u, 't, 'r) auth_state \<Rightarrow> ('n, 'u, 't, 'r) auth_state \<Rightarrow> bool"
  for S L cfg j where
  step_nonce: "requestNonce S cfg env w s = (a, s') \<Longrightarrow> auth_step S L cfg j s s'"
| step_login: "verifySignatureAndLogin S L cfg env w sig s = (b, s') \<Longrightarrow>
    ae_accessJti env \<noteq> j \<Longrightarrow> ae_refreshJti env \<noteq> j \<Longrightarrow> auth_step S L cfg j s s'"
| step_refresh: "refreshTokens S L cfg env token s = (c, s') \<Longrightarrow>
    ae_accessJti env \<noteq> j \<Longrightarrow> ae_refreshJti env \<noteq> j \<Longrightarrow> auth_step S L cfg j s s'"
| step_logout: "logout S env i s = s' \<Longrightarrow> auth_step S L cfg j s s'"
| step_revoke: "revokeAllSessions S w uid s = (d, s') \<Longrightarrow> auth_step S L cfg j s s'"

locale auth_service =
  nonces: collection "st_nonces S" nconf + tokens: collection "st_tokens S" tconf +
  redis: redis_store "st_redis S"
  for S :: "('n, 'u, 't, 'r) auth_stores" and nconf and tconf
begin

abbreviation active :: "int \<Rightarrow> string \<Rightarrow> ('n, 'u, 't, 'r) auth_state \<Rightarrow> bool" where
  "active n j s \<equiv> isActive (st_redis S) n j (au_redis s)"

abbreviation inv_ok :: "('n, 'u, 't, 'r) auth_state \<Rightarrow> bool" where
  "inv_ok s \<equiv> session_inv (st_redis S) (au_redis s)"

lemma issue_redis:
  assumes "issueTokenPair S L cfg env uid w fam s = (x, s')"
  shows "au_redis s' = au_redis s \<or>
    au_redis s' = addSession (st_redis S) (ae_now env) w (ae_refreshJti env) (refreshTokenTtlSeconds cfg)
      (addSession (st_redis S) (ae_now env) w (ae_accessJti env) (accessTokenTtlSeconds cfg) (au_redis s))"
  using assms by (auto simp: issueTokenPair_def Let_def split: sum.splits prod.splits)

lemma issue_inv: "issueTokenPair S L cfg env uid w fam s = (x, s') \<Longrightarrow> inv_ok s \<Longrightarrow> inv_ok s'"
  using issue_redis [of L cfg env uid w fam s x s'] redis.add_inv by auto

lemma issue_dead: "issueTokenPair S L cfg env uid w fam s = (x, s') \<Longrightarrow> ae_accessJti env \<noteq> j \<Longrightarrow>
    ae_refreshJti env \<noteq> j \<Longrightarrow> (\<forall>n. \<not> active n j s) \<Longrightarrow> \<not> active n j s'"
  using issue_redis [of L cfg env uid w fam s x s'] by (auto simp: isActive_def redis.add_get)

lemma issue_nonces: "issueTokenPair S L cfg env uid w fam s = (x, s') \<Longrightarrow> au_nonces s' = au_nonces s"
  by (auto simp: issueTokenPair_def Let_def split: sum.splits prod.splits)

text \<open>The sessions after a step: the ones before, or after a removal, or with two added ones.\<close>

lemma nonce_redis: "requestNonce S cfg env w s = (a, s') \<Longrightarrow> au_redis s' = au_redis s"
  by (auto simp: requestNonce_def Let_def split: sum.splits prod.splits)

lemma login_redis:
  assumes "verifySignatureAndLogin S L cfg env w sig s = (b, s')"
  shows "au_redis s' = au_redis s \<or>
    (\<exists>uid x s1. au_redis s1 = au_redis s \<and> issueTokenPair S L cfg env uid w None s1 = (x, s'))"
proof (cases "validateWalletAddress w")
  case (Inl e)
  then show ?thesis using assms by (simp add: verifySignatureAndLogin_def)
next
  case (Inr u)
  show ?thesis
  proof (cases "latest_nonce (st_nonces S) w (ae_now env) (au_nonces s)")
    case None
    then show ?thesis using assms Inr by (simp add: verifySignatureAndLogin_def)
  next
    case (Some rec)
    show ?thesis
    proof (cases "al_verifySignature L w (nd_nonce rec) sig = Some True")
      case False
      then show ?thesis using assms Inr Some by (simp add: verifySignatureAndLogin_def)
    next
      case True
      let ?s1 = "s\<lparr>au_nonces := snd (c_update (st_nonces S) (\<lambda>d. nd_id d = nd_id rec)
          (\<lambda>d. d\<lparr>nd_used := True\<rparr>) (au_nonces s))\<rparr>"
      obtain z uu where z: "upsert_user (st_users S) env w (au_users ?s1) = (z, uu)"
        by (cases "upsert_user (st_users S) env w (au_users ?s1)")
      show ?thesis
      proof (cases z)
        case (Inl e)
        then have "s' = ?s1\<lparr>au_users := uu\<rparr>"
          using assms \<open>validateWalletAddress w = Inr u\<close> Some True z
          by (simp add: verifySignatureAndLogin_def Let_def)
        then show ?thesis by simp
      next
        case (Inr user)
        obtain x s2 where x: "issueTokenPair S L cfg env (us_id user) w None (?s1\<lparr>au_users := uu\<rparr>) = (x, s2)"
          by (cases "issueTokenPair S L cfg env (us_id user) w None (?s1\<lparr>au_users := uu\<rparr>)")
        then have "s2 = s'"
          using assms \<open>validateWalletAddress w = Inr u\<close> Some True z Inr
          by (simp add: verifySignatureAndLogin_def Let_def split: sum.splits)
        moreover have "au_redis (?s1\<lparr>au_users := uu\<rparr>) = au_redis s" by simp
        ultimately show ?thesis using x by blast
      qed
    qed
  qed
qed

lemma refresh_cases:
  assumes "refreshTokens S L cfg env token s = (c, s')"
  shows "(s' = s \<and> (\<exists>m. c = Inl (unauthorized m))) \<or>
    (\<exists>p t. decode_token L cfg env token = Some p \<and> (\<exists>m. c = Inl (unauthorized m)) \<and>
       s' = s\<lparr>au_tokens := t, au_redis := snd (removeAllSessions (st_redis S) (jp_wallet p) (au_redis s))\<rparr>) \<or>
    (\<exists>p t fam. decode_token L cfg env token = Some p \<and>
       issueTokenPair S L cfg env (jp_sub p) (jp_wallet p) fam
         (s\<lparr>au_tokens := t, au_redis := (if jp_jti p \<noteq> []
             then removeSession (st_redis S) (ae_now env) (jp_jti p) (au_redis s) else au_redis s)\<rparr>) = (c, s'))"
proof (cases "decode_token L cfg env token")
  case None
  then show ?thesis using assms by (auto simp: refreshTokens_def)
next
  case (Some p)
  show ?thesis
  proof (cases "jp_type p \<noteq> RefreshToken \<or> (jp_jti p \<noteq> [] \<and> \<not> active (ae_now env) (jp_jti p) s)")
    case True
    then show ?thesis using assms Some by (auto simp: refreshTokens_def split: if_splits)
  next
    case False
    show ?thesis
    proof (cases "c_findOne (st_tokens S) (\<lambda>d. rt_tokenHash d = al_hash L token) (au_tokens s)")
      case None
      then show ?thesis using assms Some False by (auto simp: refreshTokens_def)
    next
      case st: (Some stored)
      then show ?thesis using assms Some False
        by (cases "rt_revoked stored"; cases "rt_used stored") (auto simp: refreshTokens_def Let_def)
    qed
  qed
qed

lemma step_inv:
  assumes "auth_step S L cfg j s s'" and "inv_ok s"
  shows "inv_ok s'"
  using assms(1)
proof cases
  case (step_nonce env w a)
  then show ?thesis using nonce_redis assms(2) by metis
next
  case (step_login env w sig b)
  from login_redis [OF step_login(1)] show ?thesis
    using assms(2) issue_inv by (metis)
next
  case (step_refresh env token c)
  from refresh_cases [OF step_refresh(1)] show ?thesis
    using assms(2) redis.remove_all_inv redis.remove_inv by (auto dest!: issue_inv split: if_splits)
next
  case (step_logout env i)
  then show ?thesis using assms(2) redis.remove_inv by (auto simp: logout_def)
next
  case (step_revoke w uid d)
  then show ?thesis using assms(2) redis.remove_all_inv by (auto simp: revokeAllSessions_def Let_def)
qed

lemma step_dead:
  assumes "auth_step S L cfg j s s'" and "\<forall>n. \<not> active n j s"
  shows "\<forall>n. \<not> active n j s'"
  using assms(1)
proof cases
  case (step_nonce env w a)
  then show ?thesis using nonce_redis assms(2) by metis
next
  case (step_login env w sig b)
  from login_redis [OF step_login(1)] show ?thesis
    using assms(2) issue_dead step_login(2,3) by metis
next
  case (step_refresh env token c)
  have rem: "\<forall>n. \<not> active n j (s\<lparr>au_tokens := t, au_redis := (if jp_jti p \<noteq> []
      then removeSession (st_redis S) (ae_now env) (jp_jti p) (au_redis s) else au_redis s)\<rparr>)" for t p
    using assms(2) by (auto simp: isActive_def redis.remove_get)
  from refresh_cases [OF step_refresh(1)] show ?thesis
  proof (elim disjE exE conjE)
    fix p t fam
    assume "issueTokenPair S L cfg env (jp_sub p) (jp_wallet p) fam
        (s\<lparr>au_tokens := t, au_redis := (if jp_jti p \<noteq> []
            then removeSession (st_redis S) (ae_now env) (jp_jti p) (au_redis s) else au_redis s)\<rparr>) = (c, s')"
    from issue_dead [OF this step_refresh(2,3) rem] show ?thesis by blast
  qed (use assms(2) in \<open>auto simp: isActive_def redis.remove_all_get\<close>)
next
  case (step_logout env i)
  then show ?thesis using assms(2) by (auto simp: logout_def isActive_def redis.remove_get)
next
  case (step_revoke w uid d)
  then show ?thesis using assms(2)
    by (auto simp: revokeAllSessions_def Let_def isActive_def redis.remove_all_get split: if_splits)
qed

lemma steps_dead: "(auth_step S L cfg j)\<^sup>*\<^sup>* s s' \<Longrightarrow> \<forall>n. \<not> active n j s \<Longrightarrow> \<forall>n. \<not> active n j s'"
proof (induction rule: rtranclp_induct)
  case (step s1 s2)
  show ?case using step_dead [OF step.hyps(2) step.IH [OF step.prems]] .
qed

lemma steps_inv: "(auth_step S L cfg j)\<^sup>*\<^sup>* s s' \<Longrightarrow> inv_ok s \<Longrightarrow> inv_ok s'"
  by (induction rule: rtranclp_induct) (auto dest: step_inv)

section \<open>Revocation and replay\<close>

lemma revoke_kills:
  assumes "inv_ok s" and "revokeAllSessions S w uid s = (n, s')"
    and "rd_get (st_redis S) m (jtiKey (jp_jti p)) (au_redis s) = Some w"
    and "jp_jti p \<noteq> []" and "decode_token L cfg env token = Some p"
  shows "(\<exists>e. verifyAccessToken S L cfg env token s' = Inl e) \<and>
    (\<exists>e. refreshTokens S L cfg env token s' = (Inl e, s'))"
proof -
  have "\<not> active k (jp_jti p) s'" for k
    using assms(2) redis.remove_all_dead [OF assms(1,3)] by (auto simp: revokeAllSessions_def Let_def)
  then show ?thesis using assms(4,5)
    by (auto simp: verifyAccessToken_def refreshTokens_def unauthorized_def)
qed

lemma refresh_kills:
  assumes "refreshTokens S L cfg env token s = (Inr tokens, s')" and "decode_token L cfg env token = Some p"
    and "jp_jti p \<noteq> []" and "ae_accessJti env \<noteq> jp_jti p" and "ae_refreshJti env \<noteq> jp_jti p"
  shows "\<forall>n. \<not> active n (jp_jti p) s'"
  using refresh_cases [OF assms(1)]
proof (elim disjE exE conjE)
  fix q t fam
  assume q: "decode_token L cfg env token = Some q"
    and i: "issueTokenPair S L cfg env (jp_sub q) (jp_wallet q) fam
        (s\<lparr>au_tokens := t, au_redis := (if jp_jti q \<noteq> []
            then removeSession (st_redis S) (ae_now env) (jp_jti q) (au_redis s) else au_redis s)\<rparr>) = (Inr tokens, s')"
  have "\<forall>n. \<not> active n (jp_jti p) (s\<lparr>au_tokens := t, au_redis := (if jp_jti q \<noteq> []
            then removeSession (st_redis S) (ae_now env) (jp_jti q) (au_redis s) else au_redis s)\<rparr>)"
    using q assms(2,3) by (simp add: isActive_def redis.remove_get)
  from issue_dead [OF i assms(4,5) this] show ?thesis by blast
qed simp_all

lemma replay:
  assumes "refreshTokens S L cfg env token s = (Inr tokens, s1)" and "decode_token L cfg env token = Some p"
    and "jp_jti p \<noteq> []" and "ae_accessJti env \<noteq> jp_jti p" and "ae_refreshJti env \<noteq> jp_jti p"
    and "(auth_step S L cfg (jp_jti p))\<^sup>*\<^sup>* s1 s2" and "decode_token L cfg env2 token = Some p"
  shows "refreshTokens S L cfg env2 token s2 = (Inl (unauthorized ''Refresh token has been revoked''), s2)"
proof -
  have "jp_type p = RefreshToken"
    using assms(1,2) by (auto simp: refreshTokens_def split: if_splits)
  moreover have "\<not> active (ae_now env2) (jp_jti p) s2"
    using steps_dead [OF assms(6) refresh_kills [OF assms(1-5)]] by blast
  ultimately show ?thesis using assms(3,7) by (simp add: refreshTokens_def)
qed

section \<open>Nonces\<close>

lemma request_valid:
  assumes "requestNonce S cfg env w s = (Inr r, s1)" and "ae_now env \<le> n"
    and "d \<in> set (c_all (st_nonces S) (au_nonces s1))" and "valid_nonce w n d"
  shows "nd_id d = ae_docId env"
proof -
  let ?V = "valid_nonce w (ae_now env)" and ?f = "\<lambda>d. d\<lparr>nd_used := True\<rparr>"
  let ?n1 = "snd (c_update (st_nonces S) ?V ?f (au_nonces s))"
  let ?x = "\<lparr>nd_id = ae_docId env, nd_walletAddress = w, nd_nonce = NONCE_PREFIX @ ae_randomHex env,
      nd_used = False, nd_expiresAt = after_seconds (ae_now env) (nonceTtlSeconds cfg), nd_createdAt = ae_now env\<rparr>"
  obtain y n2 where c: "c_create (st_nonces S) ?x ?n1 = (y, n2)"
    by (cases "c_create (st_nonces S) ?x ?n1")
  have val: "validateWalletAddress w = Inr ()"
    using assms(1) by (cases "validateWalletAddress w") (simp_all add: requestNonce_def)
  have "y = Inr () \<and> au_nonces s1 = n2"
  proof (cases y)
    case (Inl e)
    then show ?thesis using assms(1) by (simp add: requestNonce_def val Let_def c)
  next
    case (Inr v)
    have "snd (requestNonce S cfg env w s) = s\<lparr>au_nonces := n2\<rparr>"
      by (simp add: requestNonce_def val Let_def c Inr)
    then have "au_nonces s1 = n2" unfolding assms(1) by simp
    then show ?thesis using Inr by simp
  qed
  then have y: "y = Inr ()" "au_nonces s1 = n2" by simp_all
  have "\<not> (\<exists>e. y = Inl e)" using y(1) by simp
  then have x: "c_all (st_nonces S) (au_nonces s1) = c_all (st_nonces S) ?n1 @ [?x]"
    unfolding y(2) using nonces.create_result [OF c] by blast
  have "\<not> valid_nonce w n d" if "d \<in> set (c_all (st_nonces S) ?n1)"
  proof -
    from that obtain e where "d = (if ?V e then ?f e else e)" unfolding nonces.update_all set_map image_iff by blast
    then show ?thesis using assms(2) by (cases "?V e") (auto simp: valid_nonce_def)
  qed
  with assms(4) have "d \<notin> set (c_all (st_nonces S) ?n1)" by blast
  with assms(3) have "d = ?x" unfolding x by simp
  then show ?thesis by simp
qed

lemma login_marks:
  assumes "verifySignatureAndLogin S L cfg env w sig s = (Inr r, s')"
  shows "\<exists>rec. rec \<in> set (c_all (st_nonces S) (au_nonces s)) \<and> valid_nonce w (ae_now env) rec \<and>
    c_all (st_nonces S) (au_nonces s') =
      map (\<lambda>d. if nd_id d = nd_id rec then d\<lparr>nd_used := True\<rparr> else d) (c_all (st_nonces S) (au_nonces s)) \<and>
    public_key_regex w"
proof -
  have w: "public_key_regex w"
    using assms by (auto simp: verifySignatureAndLogin_def validateWalletAddress_def split: if_splits)
  then obtain rec where rec: "latest_nonce (st_nonces S) w (ae_now env) (au_nonces s) = Some rec"
    using assms by (cases "latest_nonce (st_nonces S) w (ae_now env) (au_nonces s)")
      (auto simp: verifySignatureAndLogin_def validateWalletAddress_def)
  have v: "al_verifySignature L w (nd_nonce rec) sig = Some True"
    using assms w rec by (auto simp: verifySignatureAndLogin_def validateWalletAddress_def split: if_splits)
  have "au_nonces s' = snd (c_update (st_nonces S) (\<lambda>d. nd_id d = nd_id rec)
      (\<lambda>d. d\<lparr>nd_used := True\<rparr>) (au_nonces s))"
    using assms w rec v
    by (auto simp: verifySignatureAndLogin_def validateWalletAddress_def Let_def
        split: prod.splits sum.splits dest!: issue_nonces)
  then have all: "c_all (st_nonces S) (au_nonces s') =
      map (\<lambda>d. if nd_id d = nd_id rec then d\<lparr>nd_used := True\<rparr> else d) (c_all (st_nonces S) (au_nonces s))"
    by (simp add: nonces.update_all)
  have "rec \<in> set (c_find (st_nonces S) (valid_nonce w (ae_now env)) (au_nonces s))"
    using first_opt_Some [OF rec [unfolded latest_nonce_def]] by simp
  then have "rec \<in> set (c_all (st_nonces S) (au_nonces s))" "valid_nonce w (ae_now env) rec"
    unfolding nonces.find_all by simp_all
  then show ?thesis using all w by blast
qed

lemma nonce_once:
  assumes "requestNonce S cfg env0 w s = (Inr r0, s1)"
    and "verifySignatureAndLogin S L cfg env1 w sig s1 = (Inr r1, s2)"
    and "ae_now env0 \<le> ae_now env1" and "ae_now env0 \<le> ae_now env2"
  shows "verifySignatureAndLogin S L cfg env2 w sig2 s2 =
    (Inl (unauthorized ''No valid nonce found - request a new one''), s2)"
proof -
  obtain rec where rec: "rec \<in> set (c_all (st_nonces S) (au_nonces s1))" "valid_nonce w (ae_now env1) rec"
    "c_all (st_nonces S) (au_nonces s2) =
      map (\<lambda>d. if nd_id d = nd_id rec then d\<lparr>nd_used := True\<rparr> else d) (c_all (st_nonces S) (au_nonces s1))"
    "public_key_regex w"
    using login_marks [OF assms(2)] by blast
  have id: "nd_id rec = ae_docId env0" using request_valid [OF assms(1,3) rec(1,2)] .
  have "\<not> valid_nonce w (ae_now env2) d" if d: "d \<in> set (c_all (st_nonces S) (au_nonces s2))" for d
  proof
    assume v: "valid_nonce w (ae_now env2) d"
    from d obtain e where e: "e \<in> set (c_all (st_nonces S) (au_nonces s1))"
      "d = (if nd_id e = nd_id rec then e\<lparr>nd_used := True\<rparr> else e)" unfolding rec(3) by auto
    show False
    proof (cases "nd_id e = nd_id rec")
      case True
      then show False using v e(2) by (simp add: valid_nonce_def)
    next
      case False
      then have "nd_id e = ae_docId env0" using request_valid [OF assms(1,4) e(1)] v e(2) by simp
      then show False using False id by simp
    qed
  qed
  then have "c_find (st_nonces S) (valid_nonce w (ae_now env2)) (au_nonces s2) = []"
    unfolding nonces.find_all by (simp add: filter_empty_conv)
  then have "latest_nonce (st_nonces S) w (ae_now env2) (au_nonces s2) = None"
    by (simp add: latest_nonce_def)
  then show ?thesis using rec(4) by (simp add: verifySignatureAndLogin_def validateWalletAddress_def)
qed

end

section \<open>Confirmation tokens\<close>

locale confirmation_tokens = collection C conflict
  for C :: "(confirmation_doc, 's) coll" and conflict
begin

lemma consume_once:
  assumes "verifyAndConsumeToken C hash now raw action resource admin s = (Inr (), s')"
  shows "verifyAndConsumeToken C hash now2 raw action2 resource2 admin2 s' =
    (Inl (StatusError 409 ''Confirmation token already used''), s')"
proof -
  obtain rec where rec: "c_findOne C (\<lambda>d. ct_tokenHash d = hash raw) s = Some rec"
    "s' = snd (c_update C (\<lambda>d. ct_id d = ct_id rec) (\<lambda>d. d\<lparr>ct_used := True\<rparr>) s)"
    using assms by (auto simp: verifyAndConsumeToken_def split: option.splits if_splits)
  have "c_findOne C (\<lambda>d. ct_tokenHash d = hash raw) s' = Some (rec\<lparr>ct_used := True\<rparr>)"
    unfolding rec(2) by (subst findOne_update_same) (simp_all add: rec(1))
  then show ?thesis by (simp add: verifyAndConsumeToken_def)
qed

end

end
