(* ===== verification/AuthResults.thy ===== *)
theory AuthResults
  imports AuthProps
begin

text \<open>
  The properties of authentication, and the stores of lists on which they are instantiated.
\<close>

section \<open>Stores of lists\<close>

definition nonce_conflict :: "nonce_doc \<Rightarrow> nonce_doc list \<Rightarrow> bool" where
  "nonce_conflict d ds \<longleftrightarrow> (\<exists>x\<in>set ds. nd_id x = nd_id d)"

definition token_conflict :: "refresh_doc \<Rightarrow> refresh_doc list \<Rightarrow> bool" where
  "token_conflict d ds \<longleftrightarrow> (\<exists>x\<in>set ds. rt_id x = rt_id d \<or> rt_tokenHash x = rt_tokenHash d)"

definition user_conflict :: "user_doc \<Rightarrow> user_doc list \<Rightarrow> bool" where
  "user_conflict d ds \<longleftrightarrow> (\<exists>x\<in>set ds. us_id x = us_id d \<or> us_walletAddress x = us_walletAddress d)"

definition confirmation_conflict :: "confirmation_doc \<Rightarrow> confirmation_doc list \<Rightarrow> bool" where
  "confirmation_conflict d ds \<longleftrightarrow> (\<exists>x\<in>set ds. ct_id x = ct_id d \<or> ct_tokenHash x = ct_tokenHash d)"

definition list_stores ::
    "(nonce_doc list, user_doc list, refresh_doc list, list_store) auth_stores" where
  "list_stores = \<lparr>st_nonces = list_coll nonce_conflict, st_users = list_coll user_conflict,
     st_tokens = list_coll token_conflict, st_redis = list_redis\<rparr>"

lemma list_stores_sel [simp]:
  "st_nonces list_stores = list_coll nonce_conflict" "st_users list_stores = list_coll user_conflict"
  "st_tokens list_stores = list_coll token_conflict" "st_redis list_stores = list_redis"
  by (simp_all add: list_stores_def)

interpretation list_auth: auth_service list_stores nonce_conflict token_conflict
  by (intro auth_service.intro)
    (simp_all add: list_coll.collection_axioms list_redis.redis_store_axioms)

interpretation list_confirmations: confirmation_tokens "list_coll confirmation_conflict" confirmation_conflict
  by unfold_locales

definition toy_lib :: auth_lib where
  "toy_lib = \<lparr>al_hash = id, al_jwtSign = (\<lambda>p _ _ _. jp_jti p),
     al_jwtVerify = (\<lambda>t _ _. Some \<lparr>jp_sub = ''1'', jp_wallet = ''W'', jp_type = RefreshToken, jp_jti = t\<rparr>),
     al_verifySignature = (\<lambda>_ _ _. Some True)\<rparr>"

definition toy_cfg :: auth_config where
  "toy_cfg = \<lparr>ac_jwtSecret = Some (replicate 32 (CHR ''x'')), ac_nonceTtl = None,
     ac_refreshTtl = None, ac_accessTtl = None\<rparr>"

definition toy_env :: auth_env where
  "toy_env = \<lparr>ae_now = 1000, ae_randomHex = ''ab'', ae_docId = ''d1'', ae_userId = ''u1'',
     ae_accessJti = ''a1'', ae_refreshJti = ''r1'', ae_familyId = ''f1''\<rparr>"

definition toy_payload :: jwt_payload where
  "toy_payload = \<lparr>jp_sub = ''1'', jp_wallet = ''W'', jp_type = RefreshToken, jp_jti = ''t0''\<rparr>"

definition toy_state :: "(nonce_doc list, user_doc list, refresh_doc list, list_store) auth_state" where
  "toy_state = \<lparr>au_nonces = [], au_users = [],
     au_tokens = [\<lparr>rt_id = ''d0'', rt_tokenHash = ''t0'', rt_familyId = ''f0'', rt_userId = ''1'',
       rt_used = False, rt_revoked = False, rt_expiresAt = 99999\<rparr>],
     au_redis = \<lparr>ls_strings = [(jtiKey ''t0'', (''W'', 99999))], ls_sets = [(walletKey ''W'', [''t0''])]\<rparr>\<rparr>"

lemma toy_decode: "decode_token toy_lib toy_cfg toy_env ''t0'' = Some toy_payload"
  by (simp add: decode_token_def getJwtSecret_def toy_cfg_def toy_lib_def toy_payload_def)

lemma toy_refresh: "\<exists>t s1. refreshTokens list_stores toy_lib toy_cfg toy_env ''t0'' toy_state = (Inr t, s1)"
proof -
  have act: "isActive list_redis (ae_now toy_env) (jp_jti toy_payload) (au_redis toy_state)"
    by (simp add: isActive_def list_redis_def toy_state_def toy_payload_def toy_env_def)
  have tok: "c_findOne (list_coll token_conflict) (\<lambda>d. rt_tokenHash d = al_hash toy_lib ''t0'') (au_tokens toy_state) =
      Some \<lparr>rt_id = ''d0'', rt_tokenHash = ''t0'', rt_familyId = ''f0'', rt_userId = ''1'',
       rt_used = False, rt_revoked = False, rt_expiresAt = 99999\<rparr>"
    by (simp add: c_findOne_def toy_state_def toy_lib_def)
  have "jp_type toy_payload = RefreshToken" by (simp add: toy_payload_def)
  then show ?thesis using toy_decode act tok
    by (simp add: refreshTokens_def issueTokenPair_def getJwtSecret_def toy_cfg_def Let_def
        list_coll_def toy_state_def token_conflict_def toy_env_def toy_lib_def)
qed

section \<open>Properties\<close>

text \<open>
  C17: \<open>revokeAllSessions\<close> takes effect at once: in a state reached by any sequence of requests,
  every token whose id was active for the wallet is rejected afterwards, by
  \<open>verifyAccessToken\<close> and by \<open>refreshTokens\<close>, which then changes nothing.
\<close>

theorem revoke_all_ends_sessions:
  assumes "auth_service S nconf tconf" and "session_inv (st_redis S) (au_redis s0)"
    and "(auth_step S L cfg j)\<^sup>*\<^sup>* s0 s" and "revokeAllSessions S w uid s = (n, s')"
    and "rd_get (st_redis S) m (jtiKey (jp_jti p)) (au_redis s) = Some w"
    and "jp_jti p \<noteq> []" and "decode_token L cfg env token = Some p"
  shows "(\<exists>e. verifyAccessToken S L cfg env token s' = Inl e) \<and>
    (\<exists>e. refreshTokens S L cfg env token s' = (Inl e, s'))"
  using auth_service.revoke_kills [OF assms(1) auth_service.steps_inv [OF assms(1,3,2)] assms(4-7)] .

theorem revoke_all_ends_sessions_witness:
  "\<exists>e. refreshTokens list_stores toy_lib toy_cfg toy_env ''t0''
      (snd (revokeAllSessions list_stores ''W'' ''1'' toy_state)) =
    (Inl e, snd (revokeAllSessions list_stores ''W'' ''1'' toy_state))"
proof -
  have inv: "session_inv (st_redis list_stores) (au_redis toy_state)"
    by (auto simp: session_inv_def list_redis_def set_of_def toy_state_def split: if_splits)
  have run: "(auth_step list_stores toy_lib toy_cfg ''t0'')\<^sup>*\<^sup>* toy_state toy_state" by simp
  have rev: "revokeAllSessions list_stores ''W'' ''1'' toy_state =
      (fst (revokeAllSessions list_stores ''W'' ''1'' toy_state), snd (revokeAllSessions list_stores ''W'' ''1'' toy_state))"
    by simp
  have act: "rd_get (st_redis list_stores) 5 (jtiKey (jp_jti toy_payload)) (au_redis toy_state) = Some ''W''"
    "jp_jti toy_payload \<noteq> []"
    by (simp_all add: list_redis_def toy_state_def toy_payload_def)
  from revoke_all_ends_sessions [OF list_auth.auth_service_axioms inv run rev act toy_decode]
  show ?thesis by blast
qed

text \<open>
  A refresh token works once, and its reuse is never detected: once it has been refreshed, every
  later presentation of it, after any requests, fails at the revocation check with
  Refresh token has been revoked and changes nothing, so the branch that revokes the token family
  and all sessions of the wallet is not reached.
\<close>

theorem refresh_reuse_not_detected:
  assumes "auth_service S nconf tconf" and "refreshTokens S L cfg env token s = (Inr tokens, s1)"
    and "decode_token L cfg env token = Some p" and "jp_jti p \<noteq> []"
    and "ae_accessJti env \<noteq> jp_jti p" and "ae_refreshJti env \<noteq> jp_jti p"
    and "(auth_step S L cfg (jp_jti p))\<^sup>*\<^sup>* s1 s2" and "decode_token L cfg env2 token = Some p"
  shows "refreshTokens S L cfg env2 token s2 = (Inl (unauthorized ''Refresh token has been revoked''), s2)"
  using assms by (rule auth_service.replay)

theorem refresh_reuse_not_detected_witness:
  "\<exists>t s1. refreshTokens list_stores toy_lib toy_cfg toy_env ''t0'' toy_state = (Inr t, s1) \<and>
    refreshTokens list_stores toy_lib toy_cfg toy_env ''t0'' s1 =
      (Inl (unauthorized ''Refresh token has been revoked''), s1)"
proof -
  obtain t s1 where r: "refreshTokens list_stores toy_lib toy_cfg toy_env ''t0'' toy_state = (Inr t, s1)"
    using toy_refresh by blast
  have p: "jp_jti toy_payload \<noteq> []" "ae_accessJti toy_env \<noteq> jp_jti toy_payload"
    "ae_refreshJti toy_env \<noteq> jp_jti toy_payload"
    by (simp_all add: toy_payload_def toy_env_def)
  have run: "(auth_step list_stores toy_lib toy_cfg (jp_jti toy_payload))\<^sup>*\<^sup>* s1 s1" by simp
  from refresh_reuse_not_detected [OF list_auth.auth_service_axioms r toy_decode p run toy_decode] r
  show ?thesis by blast
qed

text \<open>
  A login nonce is good for one login: after \<open>requestNonce\<close> and a successful login, the next
  login of the wallet fails for want of a valid nonce, whatever signature it brings, because the
  request had retired all older nonces.
\<close>

theorem nonce_single_use:
  assumes "auth_service S nconf tconf" and "requestNonce S cfg env0 w s = (Inr r0, s1)"
    and "verifySignatureAndLogin S L cfg env1 w sig s1 = (Inr r1, s2)"
    and "ae_now env0 \<le> ae_now env1" and "ae_now env0 \<le> ae_now env2"
  shows "verifySignatureAndLogin S L cfg env2 w sig2 s2 =
    (Inl (unauthorized ''No valid nonce found - request a new one''), s2)"
  using assms by (rule auth_service.nonce_once)

definition toy_wallet :: string where
  "toy_wallet = CHR ''G'' # replicate 55 (CHR ''A'')"

lemma toy_wallet_key: "public_key_regex toy_wallet"
  by (simp add: toy_wallet_def public_key_regex_def list_all_iff char_class_defs)

definition toy_requested :: "(nonce_doc list, user_doc list, refresh_doc list, list_store) auth_state" where
  "toy_requested = snd (requestNonce list_stores toy_cfg toy_env toy_wallet toy_state)"

lemma toy_request:
  "\<exists>r. requestNonce list_stores toy_cfg toy_env toy_wallet toy_state = (Inr r, toy_requested) \<and>
    au_nonces toy_requested = [\<lparr>nd_id = ''d1'', nd_walletAddress = toy_wallet, nd_nonce = NONCE_PREFIX @ ''ab'',
      nd_used = False, nd_expiresAt = 301000, nd_createdAt = 1000\<rparr>] \<and>
    au_tokens toy_requested = au_tokens toy_state"
  by (simp add: toy_requested_def requestNonce_def validateWalletAddress_def toy_wallet_key Let_def
      list_coll_def toy_state_def nonce_conflict_def toy_env_def toy_cfg_def after_seconds_def
      nonceTtlSeconds_def positive_or_def)

lemma toy_login:
  "\<exists>r s2. verifySignatureAndLogin list_stores toy_lib toy_cfg toy_env toy_wallet ''s'' toy_requested = (Inr r, s2)"
proof -
  obtain r0 where n: "au_nonces toy_requested = [\<lparr>nd_id = ''d1'', nd_walletAddress = toy_wallet,
      nd_nonce = NONCE_PREFIX @ ''ab'', nd_used = False, nd_expiresAt = 301000, nd_createdAt = 1000\<rparr>]"
    "au_tokens toy_requested = au_tokens toy_state"
    using toy_request by blast
  have sec: "getJwtSecret toy_cfg = Inr (replicate 32 (CHR ''x''))"
    by (simp add: getJwtSecret_def toy_cfg_def)
  have "\<exists>d u. upsert_user (list_coll user_conflict) toy_env toy_wallet (au_users s) = (Inr d, u)"
    if "au_users s = au_users toy_requested" for s :: "(nonce_doc list, user_doc list, refresh_doc list, list_store) auth_state"
  proof -
    have "au_users toy_requested = []"
      by (simp add: toy_requested_def requestNonce_def validateWalletAddress_def toy_wallet_key Let_def
          list_coll_def toy_state_def nonce_conflict_def)
    then show ?thesis using that
      by (simp add: upsert_user_def c_findOne_def list_coll_def user_conflict_def Let_def)
  qed
  then obtain d u where up: "upsert_user (list_coll user_conflict) toy_env toy_wallet (au_users toy_requested) = (Inr d, u)"
    by blast
  have lat: "latest_nonce (list_coll nonce_conflict) toy_wallet (ae_now toy_env) (au_nonces toy_requested) =
      Some \<lparr>nd_id = ''d1'', nd_walletAddress = toy_wallet, nd_nonce = NONCE_PREFIX @ ''ab'',
        nd_used = False, nd_expiresAt = 301000, nd_createdAt = 1000\<rparr>"
    by (simp add: latest_nonce_def n valid_nonce_def toy_env_def)
  have sig: "al_verifySignature toy_lib w x y = Some True" for w x y by (simp add: toy_lib_def)
  have cre: "\<exists>t. c_create (list_coll token_conflict) \<lparr>rt_id = ''d1'', rt_tokenHash = ''r1'', rt_familyId = fam,
      rt_userId = uid, rt_used = False, rt_revoked = False, rt_expiresAt = e\<rparr> (au_tokens toy_state) = (Inr (), t)"
    for fam uid e
    by (simp add: list_coll_def token_conflict_def toy_state_def)
  have "\<exists>p s2. issueTokenPair list_stores toy_lib toy_cfg toy_env uid toy_wallet None s = (Inr p, s2)"
    if "au_tokens s = au_tokens toy_state" for uid
      and s :: "(nonce_doc list, user_doc list, refresh_doc list, list_store) auth_state"
  proof -
    obtain t where t: "c_create (list_coll token_conflict) \<lparr>rt_id = ''d1'', rt_tokenHash = ''r1'', rt_familyId = ''f1'',
      rt_userId = uid, rt_used = False, rt_revoked = False,
      rt_expiresAt = after_seconds 1000 (refreshTokenTtlSeconds toy_cfg)\<rparr> (au_tokens toy_state) = (Inr (), t)"
      using cre by blast
    show ?thesis
      using that sec t by (simp add: issueTokenPair_def Let_def toy_lib_def toy_env_def)
  qed
  then obtain p s2 where "issueTokenPair list_stores toy_lib toy_cfg toy_env (us_id d) toy_wallet None
      (toy_requested\<lparr>au_nonces := snd (c_update (list_coll nonce_conflict) (\<lambda>x. nd_id x = ''d1'')
         (\<lambda>d. d\<lparr>nd_used := True\<rparr>) (au_nonces toy_requested)), au_users := u\<rparr>) = (Inr p, s2)"
    using n(2) by force
  then show ?thesis
    using toy_wallet_key up lat sig
    by (simp add: verifySignatureAndLogin_def validateWalletAddress_def Let_def)
qed

theorem nonce_single_use_witness:
  "\<exists>r s2. verifySignatureAndLogin list_stores toy_lib toy_cfg toy_env toy_wallet ''s'' toy_requested = (Inr r, s2) \<and>
    verifySignatureAndLogin list_stores toy_lib toy_cfg toy_env toy_wallet ''s'' s2 =
      (Inl (unauthorized ''No valid nonce found - request a new one''), s2)"
proof -
  obtain r where r: "requestNonce list_stores toy_cfg toy_env toy_wallet toy_state = (Inr r, toy_requested)"
    using toy_request by blast
  obtain r1 s2 where l: "verifySignatureAndLogin list_stores toy_lib toy_cfg toy_env toy_wallet ''s'' toy_requested = (Inr r1, s2)"
    using toy_login by blast
  from nonce_single_use [OF list_auth.auth_service_axioms r l, of toy_env "''s''"] l show ?thesis by auto
qed

text \<open>
  An admin confirmation token is consumed by its first success, which needs the token's own
  action, resource and admin and an unexpired, unused record; every later use fails with status 409
  whatever it asks for.
\<close>

theorem confirmation_token_single_use:
  assumes "collection CC conflict"
    and "verifyAndConsumeToken CC hash now raw action resource admin s = (Inr (), s')"
  shows "verifyAndConsumeToken CC hash now2 raw action2 resource2 admin2 s' =
      (Inl (StatusError 409 ''Confirmation token already used''), s') \<and>
    (\<exists>rec. c_findOne CC (\<lambda>d. ct_tokenHash d = hash raw) s = Some rec \<and> \<not> ct_used rec \<and>
      now \<le> ct_expiresAt rec \<and> ct_action rec = action \<and> ct_resourceId rec = resource \<and> ct_adminId rec = admin)"
  using confirmation_tokens.consume_once [OF confirmation_tokens.intro [OF assms(1)] assms(2)] assms(2)
  by (auto simp: verifyAndConsumeToken_def split: option.splits if_splits)

definition toy_confirmation :: confirmation_doc where
  "toy_confirmation = \<lparr>ct_id = ''c1'', ct_adminId = ''adm'', ct_tokenHash = ''tok'', ct_action = ''pause'',
     ct_resourceId = ''A'', ct_used = False, ct_expiresAt = 100\<rparr>"

theorem confirmation_token_single_use_witness:
  "\<exists>s'. verifyAndConsumeToken (list_coll confirmation_conflict) id 50 ''tok'' ''pause'' ''A'' ''adm'' [toy_confirmation] = (Inr (), s') \<and>
    verifyAndConsumeToken (list_coll confirmation_conflict) id 60 ''tok'' ''pause'' ''A'' ''adm'' s' =
      (Inl (StatusError 409 ''Confirmation token already used''), s')"
proof -
  have "\<exists>s'. verifyAndConsumeToken (list_coll confirmation_conflict) id 50 ''tok'' ''pause'' ''A'' ''adm'' [toy_confirmation] = (Inr (), s')"
    by (simp add: verifyAndConsumeToken_def c_findOne_def toy_confirmation_def)
  then obtain s' where s': "verifyAndConsumeToken (list_coll confirmation_conflict) id 50 ''tok'' ''pause'' ''A'' ''adm'' [toy_confirmation] = (Inr (), s')"
    by blast
  from confirmation_token_single_use [OF list_coll.collection_axioms s'] s' show ?thesis by blast
qed

end
