(* ===== verification/ArenaStats.thy ===== *)
theory ArenaStats
  imports RoundService
begin

text \<open>
  Arena statistics: \<open>ArenaStatsService\<close> of backend/src/services/arenaStatsService.ts and
  \<open>getSnapshot\<close> of backend/src/services/arenaService.ts. What
  Prisma returns is an argument, and so is the answer of each view call. A field of a JSON column is
  read at the type the code casts it to; \<open>None\<close> is a field that is absent or null.
\<close>

section \<open>Rows\<close>

record log_row =
  lg_id :: string
  lg_userId :: string
  lg_reason :: "string option"
  lg_eliminatedAt :: int

record round_meta =
  rm_playerChoices :: "rat option list option"
  rm_oracleYield :: "rat option"

record arena_round =
  ar_roundNumber :: nat
  ar_state :: string
  ar_metadata :: "round_meta option"
  ar_logs :: "log_row list"

record arena_meta =
  am_name :: "string option"
  am_entryFee :: "rat option"
  am_minStake :: "rat option"
  am_maxPlayers :: "int option"
  am_joinDeadline :: "string option"
  am_stakeToken :: "string option"
  am_contractAddress :: "string option"
  am_vaultContractAddress :: "string option"

record arena_row =
  an_id :: string
  an_metadata :: "arena_meta option"
  an_rounds :: "arena_round list"

record arena_stats =
  as_arenaId :: string
  as_arenaName :: string
  as_currentPot :: rat
  as_playerCount :: int
  as_maxPlayers :: int
  as_survivorCount :: int
  as_currentRound :: nat
  as_entryFee :: rat
  as_stakeToken :: string
  as_joinDeadline :: "string option"
  as_yieldAccrued :: rat
  as_status :: string
  as_lastUpdated :: int

text \<open>What the calls of one \<open>getArenaStats\<close> settle to.\<close>

record stats_env =
  se_arena :: "js_error + arena_row option"
  se_poolCount :: "js_error + int"
  se_playerCount :: "js_error + int simulation"
  se_totalYield :: "js_error + int simulation"
  se_gameState :: "js_error + string simulation"
  se_now :: int

section \<open>getArenaStats\<close>

definition or_else :: "'a option \<Rightarrow> 'a \<Rightarrow> 'a" where
  "or_else x d = (case x of None \<Rightarrow> d | Some v \<Rightarrow> v)"

definition no_meta :: arena_meta where
  "no_meta = \<lparr>am_name = None, am_entryFee = None, am_minStake = None, am_maxPlayers = None,
     am_joinDeadline = None, am_stakeToken = None, am_contractAddress = None,
     am_vaultContractAddress = None\<rparr>"

definition last_opt :: "'a list \<Rightarrow> 'a option" where
  "last_opt xs = (if xs = [] then None else Some (last xs))"

definition pot_of :: "arena_round option \<Rightarrow> rat" where
  "pot_of r =
     (case r of None \<Rightarrow> 0
      | Some r \<Rightarrow> (case ar_metadata r of None \<Rightarrow> 0
          | Some m \<Rightarrow> foldl (\<lambda>sum p. sum + or_else p 0) 0 (or_else (rm_playerChoices m) [])))"

definition round_yield :: "arena_round \<Rightarrow> rat" where
  "round_yield r =
     (case ar_metadata r of None \<Rightarrow> 0 | Some m \<Rightarrow> or_else (rm_oracleYield m) 0)"

definition db_yield :: "arena_round list \<Rightarrow> rat" where
  "db_yield rounds = foldl (\<lambda>y r. if ar_state r = ''RESOLVED'' then y + round_yield r else y) 0 rounds"

text \<open>\<open>eliminatedUserIds\<close>, a set in insertion order.\<close>

definition eliminated_ids :: "arena_round list \<Rightarrow> string list" where
  "eliminated_ids rounds = fold (\<lambda>r s. fold (\<lambda>l. js_set_add (lg_userId l)) (ar_logs r) s) rounds []"

definition to_lower :: "string \<Rightarrow> string" where
  "to_lower s = map (\<lambda>c. if is_upper c then char_of (code_of c + 32) else c) s"

definition deriveStatusFromRounds :: "arena_round list \<Rightarrow> string" where
  "deriveStatusFromRounds rounds =
     (if rounds = [] then ''pending''
      else let st = ar_state (last rounds) in
        if list_ex (\<lambda>r. ar_state r = ''SETTLED'') rounds then ''settled''
        else if st \<in> {''OPEN'', ''CLOSED'', ''RESOLVED''} then ''active''
        else if st = ''SETTLED'' then ''settled''
        else to_lower st)"

text \<open>\<open>await\<close> of a reader that has caught its own errors, inside a \<open>try\<close>.\<close>

definition awaited :: "'a \<Rightarrow> js_error + 'a" where
  "awaited v = Inr v"

definition stats_playerCount :: "stats_env \<Rightarrow> string option \<Rightarrow> js_error + int" where
  "stats_playerCount env contractAddress =
     (if truthy contractAddress
      then (case awaited (getOnChainPlayerCount (se_playerCount env)) of
              Inl _ \<Rightarrow> se_poolCount env | Inr n \<Rightarrow> Inr n)
      else se_poolCount env)"

definition stats_yield :: "stats_env \<Rightarrow> string option \<Rightarrow> arena_round list \<Rightarrow> rat" where
  "stats_yield env vault rounds =
     (if truthy vault
      then (case awaited (getOnChainTotalYield (se_totalYield env)) of
              Inl _ \<Rightarrow> db_yield rounds | Inr y \<Rightarrow> of_int y)
      else db_yield rounds)"

definition stats_status :: "stats_env \<Rightarrow> string option \<Rightarrow> arena_round list \<Rightarrow> string" where
  "stats_status env contractAddress rounds =
     (if truthy contractAddress
      then (case awaited (getOnChainGameState (se_gameState env)) of
              Inl _ \<Rightarrow> deriveStatusFromRounds rounds
            | Inr g \<Rightarrow> mapGameStateToStatus g (list_ex (\<lambda>r. ar_state r = ''SETTLED'') rounds))
      else deriveStatusFromRounds rounds)"

definition getArenaStats :: "stats_env \<Rightarrow> string \<Rightarrow> js_error + arena_stats" where
  "getArenaStats env arenaId =
     (case se_arena env of
        Inl e \<Rightarrow> Inl e
      | Inr None \<Rightarrow> Inl (Error (''Arena with ID '' @ arenaId @ '' not found''))
      | Inr (Some arena) \<Rightarrow>
          let metadata = or_else (an_metadata arena) no_meta;
              rounds = an_rounds arena;
              contractAddress = am_contractAddress metadata;
              vault = (case am_vaultContractAddress metadata of None \<Rightarrow> contractAddress | v \<Rightarrow> v)
          in (case stats_playerCount env contractAddress of
                Inl e \<Rightarrow> Inl e
              | Inr playerCount \<Rightarrow>
                  Inr \<lparr>as_arenaId = arenaId,
                    as_arenaName = or_else (am_name metadata) (''Arena '' @ take 8 arenaId),
                    as_currentPot = pot_of (last_opt rounds),
                    as_playerCount = playerCount,
                    as_maxPlayers = or_else (am_maxPlayers metadata) 0,
                    as_survivorCount = max 0 (playerCount - int (length (eliminated_ids rounds))),
                    as_currentRound = (case last_opt rounds of None \<Rightarrow> 0 | Some r \<Rightarrow> ar_roundNumber r),
                    as_entryFee = or_else (am_entryFee metadata) (or_else (am_minStake metadata) 0),
                    as_stakeToken = or_else (am_stakeToken metadata) ''XLM'',
                    as_joinDeadline = am_joinDeadline metadata,
                    as_yieldAccrued = stats_yield env vault rounds,
                    as_status = stats_status env contractAddress rounds,
                    as_lastUpdated = se_now env\<rparr>))"

section \<open>Snapshots\<close>

record snapshot_elimination =
  sl_id :: string
  sl_userId :: string
  sl_roundNumber :: nat
  sl_reason :: "string option"
  sl_eliminatedAt :: int

record arena_snapshot =
  sp_arenaId :: string
  sp_currentRound :: nat
  sp_playerCount :: int
  sp_survivorCount :: int
  sp_status :: string
  sp_recentEliminations :: "snapshot_elimination list"
  sp_lastRoundState :: "string option"

definition recent_eliminations :: "arena_round list \<Rightarrow> snapshot_elimination list" where
  "recent_eliminations rounds =
     concat (map (\<lambda>r. map (\<lambda>l. \<lparr>sl_id = lg_id l, sl_userId = lg_userId l, sl_roundNumber = ar_roundNumber r,
       sl_reason = lg_reason l, sl_eliminatedAt = lg_eliminatedAt l\<rparr>) (ar_logs r)) rounds)"

definition snapshot_of :: "string \<Rightarrow> arena_row \<Rightarrow> arena_stats \<Rightarrow> arena_snapshot" where
  "snapshot_of arenaId arena stats =
     \<lparr>sp_arenaId = arenaId, sp_currentRound = as_currentRound stats, sp_playerCount = as_playerCount stats,
      sp_survivorCount = as_survivorCount stats, sp_status = as_status stats,
      sp_recentEliminations = recent_eliminations (an_rounds arena),
      sp_lastRoundState = map_option ar_state (last_opt (an_rounds arena))\<rparr>"

text \<open>\<open>transaction\<close> is Prisma's \<open>$transaction\<close> on the query and the promise of the statistics.\<close>

definition getSnapshot ::
    "(js_error + arena_row option \<Rightarrow> js_error + arena_stats \<Rightarrow> js_error + arena_row option \<times> arena_stats) \<Rightarrow>
     stats_env \<Rightarrow> string \<Rightarrow> js_error + arena_snapshot" where
  "getSnapshot transaction env arenaId =
     (case transaction (se_arena env) (getArenaStats env arenaId) of
        Inl e \<Rightarrow> Inl e
      | Inr (None, stats) \<Rightarrow> Inl (Error (''Arena with ID '' @ arenaId @ '' not found''))
      | Inr (Some arena, stats) \<Rightarrow> Inr (snapshot_of arenaId arena stats))"

section \<open>Lemmas\<close>

lemma set_eliminated_fold:
  "set (fold (\<lambda>r s. fold (\<lambda>l. js_set_add (lg_userId l)) (ar_logs r) s) rounds s0) =
     set s0 \<union> lg_userId ` (\<Union>r\<in>set rounds. set (ar_logs r))"
proof (induction rounds arbitrary: s0)
  case (Cons r rs)
  have "set (fold (\<lambda>l. js_set_add (lg_userId l)) ls s) = set s \<union> lg_userId ` set ls" for ls :: "log_row list" and s
    by (induction ls arbitrary: s) auto
  then show ?case using Cons by auto
qed simp

lemma distinct_eliminated: "distinct (eliminated_ids rounds)"
proof -
  have in_fold: "distinct (fold (\<lambda>l. js_set_add (lg_userId l)) ls s)" if "distinct s" for ls :: "log_row list" and s
    using that by (induction ls arbitrary: s) auto
  have "distinct (fold (\<lambda>r s. fold (\<lambda>l. js_set_add (lg_userId l)) (ar_logs r) s) rounds s0)" if "distinct s0" for s0
    using that by (induction rounds arbitrary: s0) (auto intro: in_fold)
  then show ?thesis by (simp add: eliminated_ids_def)
qed

lemma length_eliminated:
  "length (eliminated_ids rounds) = card (lg_userId ` (\<Union>r\<in>set rounds. set (ar_logs r)))"
  using distinct_card [OF distinct_eliminated [of rounds]] set_eliminated_fold [of rounds "[]"]
  by (simp add: eliminated_ids_def)

end
