(* ===== verification/Poller.thy ===== *)
theory Poller
  imports ArenaStats Breaker
begin

text \<open>
  The shared arena poller of backend/src/cache/arenaPoller.ts. A poller state is an object that the
  closures of its poll loop and of its subscribers' unsubscribe functions keep, so the world has a
  heap of them, which only grows; \<open>pollers\<close> maps an arena to the reference of its current state.
  A poll has two halves: \<open>poll_begin\<close> up to the \<open>await\<close> of the breaker and \<open>poll_settle\<close>
  when that settles. A subscriber is named by a string, and \<open>fails sub n\<close> says that the send of
  the event number \<open>n\<close> to it raises; the field \<open>createdAt\<close> of the events is left out.
\<close>

section \<open>State\<close>

record resolved_payload =
  rp_arenaId :: string
  rp_roundNumber :: nat
  rp_playerCount :: int
  rp_survivorCount :: int
  rp_status :: string

record finished_payload =
  fp_arenaId :: string
  fp_roundNumber :: nat
  fp_survivorCount :: int
  fp_status :: string

text \<open>The events, each but the heartbeat with its sequence number.\<close>

datatype sse_event =
    Snapshot nat arena_snapshot
  | PlayerEliminated nat snapshot_elimination
  | RoundResolved nat resolved_payload
  | GameFinished nat finished_payload
  | StreamError nat string
  | Heartbeat int

text \<open>
  \<open>pl_pollTimer\<close> is the delay of a timer that has not fired: the code keeps the handle of a
  fired one, on which \<open>clearTimeout\<close> does nothing. \<open>pl_arenaId\<close> is the argument
  \<open>arenaId\<close> that the closures share.
\<close>

record poller =
  pl_arenaId :: string
  pl_subscribers :: "string list"
  pl_pollTimer :: "int option"
  pl_heartbeatTimer :: bool
  pl_lastRoundState :: "string option"
  pl_lastStatus :: "string option"
  pl_lastSurvivorCount :: "int option"
  pl_seenEliminations :: "string list"
  pl_sequence :: nat
  pl_consecutiveFailures :: nat

definition new_poller :: "string \<Rightarrow> poller" where
  "new_poller arenaId =
     \<lparr>pl_arenaId = arenaId, pl_subscribers = [], pl_pollTimer = None, pl_heartbeatTimer = False,
      pl_lastRoundState = None, pl_lastStatus = None, pl_lastSurvivorCount = None,
      pl_seenEliminations = [], pl_sequence = 0, pl_consecutiveFailures = 0\<rparr>"

text \<open>A poll that awaits the breaker: its state, and whether the breaker admitted the call.\<close>

type_synonym waiting = "nat \<times> (js_error + unit)"

record poll_world =
  pw_heap :: "poller list"
  pw_pollers :: "(string \<times> nat) list"
  pw_waiting :: "waiting list"
  pw_breaker :: breaker
  pw_sent :: "(nat \<times> string \<times> sse_event) list"

definition POLL_INTERVAL_MS :: int where "POLL_INTERVAL_MS = 2500"

definition POLL_RETRY_MAX_MS :: int where "POLL_RETRY_MAX_MS = 60000"

definition computePollDelay :: "int \<Rightarrow> int" where
  "computePollDelay consecutiveFailures =
     (if consecutiveFailures \<le> 0 then POLL_INTERVAL_MS
      else min (POLL_INTERVAL_MS * 2 ^ nat (consecutiveFailures - 1)) POLL_RETRY_MAX_MS)"

section \<open>One poll\<close>

type_synonym sends = "(string \<times> sse_event) list"

text \<open>
  One send: the number is taken before the call, and the rest of the \<open>try\<close> block is left when
  it raises (the first component is then \<open>False\<close>).
\<close>

definition send :: "(string \<Rightarrow> nat \<Rightarrow> bool) \<Rightarrow> string \<Rightarrow> (nat \<Rightarrow> sse_event) \<Rightarrow> poller \<Rightarrow> bool \<times> poller \<times> sends" where
  "send fails sub mk p =
     (let n = pl_sequence p + 1; p' = p\<lparr>pl_sequence := n\<rparr> in
      if fails sub n then (False, p', []) else (True, p', [(sub, mk n)]))"

definition and_then ::
    "bool \<times> poller \<times> sends \<Rightarrow> (poller \<Rightarrow> bool \<times> poller \<times> sends) \<Rightarrow> bool \<times> poller \<times> sends" where
  "and_then r f =
     (case r of (ok, p, out) \<Rightarrow>
        if \<not> ok then (False, p, out)
        else (case f p of (ok', p', out') \<Rightarrow> (ok', p', out @ out')))"

definition send_when ::
    "bool \<Rightarrow> (string \<Rightarrow> nat \<Rightarrow> bool) \<Rightarrow> string \<Rightarrow> (nat \<Rightarrow> sse_event) \<Rightarrow> poller \<Rightarrow> bool \<times> poller \<times> sends" where
  "send_when c fails sub mk p = (if c then send fails sub mk p else (True, p, []))"

fun send_eliminations ::
    "(string \<Rightarrow> nat \<Rightarrow> bool) \<Rightarrow> string \<Rightarrow> snapshot_elimination list \<Rightarrow> poller \<Rightarrow> bool \<times> poller \<times> sends" where
  "send_eliminations fails sub [] p = (True, p, [])"
| "send_eliminations fails sub (e # es) p =
     (if sl_id e \<in> set (pl_seenEliminations p) then send_eliminations fails sub es p
      else and_then
             (send fails sub (\<lambda>n. PlayerEliminated n e)
                (p\<lparr>pl_seenEliminations := js_set_add (sl_id e) (pl_seenEliminations p)\<rparr>))
             (send_eliminations fails sub es))"

definition is_terminal :: "string option \<Rightarrow> int option \<Rightarrow> bool" where
  "is_terminal status survivors \<longleftrightarrow>
     status = Some ''settled'' \<or> (case survivors of None \<Rightarrow> False | Some n \<Rightarrow> n \<le> 1)"

text \<open>What one subscriber is sent by a poll after the first.\<close>

definition send_changes ::
    "(string \<Rightarrow> nat \<Rightarrow> bool) \<Rightarrow> arena_snapshot \<Rightarrow> string \<Rightarrow> poller \<Rightarrow> bool \<times> poller \<times> sends" where
  "send_changes fails snap sub p =
     and_then
       (and_then (send_eliminations fails sub (sp_recentEliminations snap) p)
          (send_when (sp_lastRoundState snap = Some ''RESOLVED'' \<and> pl_lastRoundState p \<noteq> Some ''RESOLVED'')
             fails sub (\<lambda>n. RoundResolved n \<lparr>rp_arenaId = sp_arenaId snap, rp_roundNumber = sp_currentRound snap,
                rp_playerCount = sp_playerCount snap, rp_survivorCount = sp_survivorCount snap,
                rp_status = sp_status snap\<rparr>)))
       (send_when (is_terminal (Some (sp_status snap)) (Some (sp_survivorCount snap)) \<and>
                   \<not> is_terminal (pl_lastStatus p) (pl_lastSurvivorCount p))
          fails sub (\<lambda>n. GameFinished n \<lparr>fp_arenaId = sp_arenaId snap, fp_roundNumber = sp_currentRound snap,
             fp_survivorCount = sp_survivorCount snap, fp_status = sp_status snap\<rparr>))"

text \<open>\<open>for (const sub of state.subscribers) try { ... } catch {}\<close>\<close>

fun for_subscribers ::
    "(string \<Rightarrow> poller \<Rightarrow> bool \<times> poller \<times> sends) \<Rightarrow> string list \<Rightarrow> poller \<Rightarrow> poller \<times> sends" where
  "for_subscribers body [] p = (p, [])"
| "for_subscribers body (sub # subs) p =
     (case body sub p of (ok, p1, out) \<Rightarrow>
        (case for_subscribers body subs p1 of (p2, out2) \<Rightarrow> (p2, out @ out2)))"

definition remember :: "arena_snapshot \<Rightarrow> poller \<Rightarrow> poller" where
  "remember snap p = p\<lparr>pl_lastRoundState := sp_lastRoundState snap, pl_lastStatus := Some (sp_status snap),
     pl_lastSurvivorCount := Some (sp_survivorCount snap)\<rparr>"

definition isFirstPoll :: "poller \<Rightarrow> bool" where
  "isFirstPoll p \<longleftrightarrow> pl_lastRoundState p = None \<and> pl_lastStatus p = None"

definition poll_success :: "(string \<Rightarrow> nat \<Rightarrow> bool) \<Rightarrow> arena_snapshot \<Rightarrow> poller \<Rightarrow> poller \<times> sends" where
  "poll_success fails snap p0 =
     (let p = p0\<lparr>pl_consecutiveFailures := 0\<rparr> in
      if isFirstPoll p
      then let p1 = remember snap p;
               p2 = p1\<lparr>pl_seenEliminations :=
                      fold (\<lambda>e. js_set_add (sl_id e)) (sp_recentEliminations snap) (pl_seenEliminations p1)\<rparr>
           in for_subscribers (\<lambda>sub. send fails sub (\<lambda>n. Snapshot n snap)) (pl_subscribers p2) p2
      else (case for_subscribers (send_changes fails snap) (pl_subscribers p) p of
              (p1, out) \<Rightarrow> (remember snap p1, out)))"

definition poll_failure :: "(string \<Rightarrow> nat \<Rightarrow> bool) \<Rightarrow> js_error \<Rightarrow> poller \<Rightarrow> poller \<times> sends" where
  "poll_failure fails e p0 =
     (let p = p0\<lparr>pl_consecutiveFailures := pl_consecutiveFailures p0 + 1\<rparr>;
          m = (if e = NotAnError then ''Failed to stream arena updates'' else err_message e)
      in for_subscribers (\<lambda>sub. send fails sub (\<lambda>n. StreamError n m)) (pl_subscribers p) p)"

text \<open>The \<open>finally\<close> block.\<close>

definition rearm :: "poller \<Rightarrow> poller" where
  "rearm p = (if pl_subscribers p \<noteq> []
              then p\<lparr>pl_pollTimer := Some (computePollDelay (int (pl_consecutiveFailures p)))\<rparr> else p)"

definition poll_result :: "(string \<Rightarrow> nat \<Rightarrow> bool) \<Rightarrow> js_error + arena_snapshot \<Rightarrow> poller \<Rightarrow> poller \<times> sends" where
  "poll_result fails r p =
     (case (case r of Inl e \<Rightarrow> poll_failure fails e p | Inr snap \<Rightarrow> poll_success fails snap p) of
        (p', out) \<Rightarrow> (rearm p', out))"

section \<open>The world\<close>

definition poll_begin :: "int \<Rightarrow> nat \<Rightarrow> poll_world \<Rightarrow> poll_world" where
  "poll_begin now r w =
     (if pl_subscribers (pw_heap w ! r) = [] then w
      else (case fire_enter now (pw_breaker w) of
              (adm, b) \<Rightarrow> w\<lparr>pw_waiting := pw_waiting w @ [(r, adm)], pw_breaker := b\<rparr>))"

definition startPollLoop :: "int \<Rightarrow> nat \<Rightarrow> poll_world \<Rightarrow> poll_world" where
  "startPollLoop now r w =
     poll_begin now r (w\<lparr>pw_heap := (pw_heap w)[r := (pw_heap w ! r)\<lparr>pl_heartbeatTimer := True\<rparr>]\<rparr>)"

definition stopPollLoop :: "poller \<Rightarrow> poller" where
  "stopPollLoop p = p\<lparr>pl_pollTimer := None, pl_heartbeatTimer := False\<rparr>"

text \<open>The reference of the arena's state, made when there is none, and the world with it.\<close>

definition find_or_create :: "string \<Rightarrow> poll_world \<Rightarrow> nat \<times> poll_world" where
  "find_or_create arenaId w =
     (case map_of (pw_pollers w) arenaId of
        Some r \<Rightarrow> (r, w)
      | None \<Rightarrow> (length (pw_heap w),
          w\<lparr>pw_heap := pw_heap w @ [new_poller arenaId],
            pw_pollers := AList.update arenaId (length (pw_heap w)) (pw_pollers w)\<rparr>))"

text \<open>The result is the unsubscribe function, that is the reference its closure keeps.\<close>

definition subscribeArena :: "int \<Rightarrow> string \<Rightarrow> string \<Rightarrow> poll_world \<Rightarrow> nat \<times> poll_world" where
  "subscribeArena now arenaId sub w =
     (case find_or_create arenaId w of
        (r, w1) \<Rightarrow>
          let p = (pw_heap w1 ! r)\<lparr>pl_subscribers := js_set_add sub (pl_subscribers (pw_heap w1 ! r))\<rparr>;
              w2 = w1\<lparr>pw_heap := (pw_heap w1)[r := p]\<rparr>
          in (r, if length (pl_subscribers p) = 1 then startPollLoop now r w2 else w2))"

definition unsubscribe :: "nat \<Rightarrow> string \<Rightarrow> poll_world \<Rightarrow> poll_world" where
  "unsubscribe r sub w =
     (let p = (pw_heap w ! r)\<lparr>pl_subscribers := remove1 sub (pl_subscribers (pw_heap w ! r))\<rparr> in
      if pl_subscribers p = []
      then w\<lparr>pw_heap := (pw_heap w)[r := stopPollLoop p],
             pw_pollers := AList.delete (pl_arenaId p) (pw_pollers w)\<rparr>
      else w\<lparr>pw_heap := (pw_heap w)[r := p]\<rparr>)"

text \<open>The timer of a state fires.\<close>

definition timer_fires :: "int \<Rightarrow> nat \<Rightarrow> poll_world \<Rightarrow> poll_world" where
  "timer_fires now r w =
     poll_begin now r (w\<lparr>pw_heap := (pw_heap w)[r := (pw_heap w ! r)\<lparr>pl_pollTimer := None\<rparr>]\<rparr>)"

text \<open>The \<open>i\<close>-th waiting poll continues: a call the breaker refused with that error.\<close>

definition poll_settle ::
    "(string \<Rightarrow> nat \<Rightarrow> bool) \<Rightarrow> int \<Rightarrow> nat \<Rightarrow> arena_snapshot settled \<Rightarrow> poll_world \<Rightarrow> poll_world" where
  "poll_settle fails now i outcome w =
     (case pw_waiting w ! i of
        (r, adm) \<Rightarrow>
          (case (case adm of Inl e \<Rightarrow> (Inl e, pw_breaker w) | Inr _ \<Rightarrow> fire_exit outcome now (pw_breaker w)) of
             (res, b) \<Rightarrow>
               (case poll_result fails res (pw_heap w ! r) of
                  (p, out) \<Rightarrow>
                    w\<lparr>pw_heap := (pw_heap w)[r := p],
                      pw_waiting := take i (pw_waiting w) @ drop (Suc i) (pw_waiting w),
                      pw_breaker := b,
                      pw_sent := pw_sent w @ map (\<lambda>(s, ev). (r, s, ev)) out\<rparr>)))"

definition heartbeat :: "int \<Rightarrow> nat \<Rightarrow> poll_world \<Rightarrow> poll_world" where
  "heartbeat now r w =
     w\<lparr>pw_sent := pw_sent w @ map (\<lambda>s. (r, s, Heartbeat now)) (pl_subscribers (pw_heap w ! r))\<rparr>"

text \<open>
  The route makes a new subscriber object for each request and unsubscribes it when the request
  closes, which happens once. The breaker is shared with the rest of the backend, so it may change
  between two steps.
\<close>

inductive poller_step :: "poll_world \<Rightarrow> poll_world \<Rightarrow> bool" where
  subscribe_step: "\<forall>p\<in>set (pw_heap w). sub \<notin> set (pl_subscribers p) \<Longrightarrow>
      poller_step w (snd (subscribeArena now arenaId sub w))"
| unsubscribe_step: "r < length (pw_heap w) \<Longrightarrow> sub \<in> set (pl_subscribers (pw_heap w ! r)) \<Longrightarrow>
      poller_step w (unsubscribe r sub w)"
| timer_step: "r < length (pw_heap w) \<Longrightarrow> pl_pollTimer (pw_heap w ! r) \<noteq> None \<Longrightarrow>
      poller_step w (timer_fires now r w)"
| settle_step: "i < length (pw_waiting w) \<Longrightarrow> poller_step w (poll_settle fails now i outcome w)"
| heartbeat_step: "r < length (pw_heap w) \<Longrightarrow> pl_heartbeatTimer (pw_heap w ! r) \<Longrightarrow>
      poller_step w (heartbeat now r w)"
| breaker_step: "poller_step w (w\<lparr>pw_breaker := b\<rparr>)"

definition empty_world :: "breaker \<Rightarrow> poll_world" where
  "empty_world b = \<lparr>pw_heap = [], pw_pollers = [], pw_waiting = [], pw_breaker = b, pw_sent = []\<rparr>"

end
