(* ===== verification/PollerProps.thy ===== *)
theory PollerProps
  imports Poller
begin

text \<open>
  Properties of the arena poller: one poll loop for each arena that is watched, and who receives
  which events.
\<close>

section \<open>What a poll leaves alone\<close>

definition same_shape :: "poller \<Rightarrow> poller \<Rightarrow> bool" where
  "same_shape p q \<longleftrightarrow> pl_subscribers q = pl_subscribers p \<and> pl_arenaId q = pl_arenaId p \<and>
     pl_heartbeatTimer q = pl_heartbeatTimer p \<and> pl_pollTimer q = pl_pollTimer p \<and>
     pl_lastStatus q = pl_lastStatus p \<and> pl_lastRoundState q = pl_lastRoundState p \<and>
     pl_lastSurvivorCount q = pl_lastSurvivorCount p"

lemma same_shape_refl [simp]: "same_shape p p"
  by (simp add: same_shape_def)

lemma same_shape_trans: "same_shape p q \<Longrightarrow> same_shape q r \<Longrightarrow> same_shape p r"
  by (simp add: same_shape_def)

lemma send_shape: "send fails sub mk p = (ok, q, out) \<Longrightarrow> same_shape p q"
  by (auto simp: send_def Let_def same_shape_def split: if_splits)

lemma send_when_shape: "send_when c fails sub mk p = (ok, q, out) \<Longrightarrow> same_shape p q"
  by (auto simp: send_when_def split: if_splits dest: send_shape)

lemma and_then_shape:
  assumes "and_then (ok, p1, out) f = (ok', q, out')" and "same_shape p p1"
    and "\<And>ok2 q2 out2. f p1 = (ok2, q2, out2) \<Longrightarrow> same_shape p1 q2"
  shows "same_shape p q"
  using assms by (auto simp: and_then_def split: if_splits prod.splits intro: same_shape_trans)

lemma send_eliminations_shape: "send_eliminations fails sub es p = (ok, q, out) \<Longrightarrow> same_shape p q"
proof (induction es arbitrary: p ok q out)
  case (Cons e es)
  show ?case
  proof (cases "sl_id e \<in> set (pl_seenEliminations p)")
    case False
    let ?p = "p\<lparr>pl_seenEliminations := js_set_add (sl_id e) (pl_seenEliminations p)\<rparr>"
    obtain ok1 p1 out1 where s: "send fails sub (\<lambda>n. PlayerEliminated n e) ?p = (ok1, p1, out1)"
      by (metis prod_cases3)
    have "same_shape p ?p" by (simp add: same_shape_def)
    with send_shape [OF s] have "same_shape p p1" by (blast intro: same_shape_trans)
    with and_then_shape [of ok1 p1 out1 "send_eliminations fails sub es" ok q out p] Cons s False
    show ?thesis by auto
  qed (use Cons in simp)
qed simp

lemma send_changes_shape: "send_changes fails snap sub p = (ok, q, out) \<Longrightarrow> same_shape p q"
proof -
  assume a: "send_changes fails snap sub p = (ok, q, out)"
  obtain ok1 p1 out1 where e: "send_eliminations fails sub (sp_recentEliminations snap) p = (ok1, p1, out1)"
    by (metis prod_cases3)
  let ?f = "send_when (sp_lastRoundState snap = Some ''RESOLVED'' \<and> pl_lastRoundState p \<noteq> Some ''RESOLVED'')
     fails sub (\<lambda>n. RoundResolved n \<lparr>rp_arenaId = sp_arenaId snap, rp_roundNumber = sp_currentRound snap,
       rp_playerCount = sp_playerCount snap, rp_survivorCount = sp_survivorCount snap,
       rp_status = sp_status snap\<rparr>)"
  obtain ok2 p2 out2 where f: "and_then (ok1, p1, out1) ?f = (ok2, p2, out2)" by (metis prod_cases3)
  have "same_shape p p2"
    using and_then_shape [OF f send_eliminations_shape [OF e]] send_when_shape by blast
  with and_then_shape [of ok2 p2 out2 _ ok q out p] send_when_shape a e f
  show ?thesis unfolding send_changes_def e f by blast
qed

lemma for_subscribers_shape:
  assumes "\<And>sub p ok q out. body sub p = (ok, q, out) \<Longrightarrow> same_shape p q"
  shows "for_subscribers body subs p = (q, out) \<Longrightarrow> same_shape p q"
proof (induction subs arbitrary: p q out)
  case (Cons sub subs)
  then show ?case
    by (auto split: prod.splits dest!: assms intro: same_shape_trans)
qed simp

lemma poll_result_shape:
  assumes "poll_result fails r p = (q, out)"
  shows "pl_subscribers q = pl_subscribers p \<and> pl_arenaId q = pl_arenaId p \<and>
    pl_heartbeatTimer q = pl_heartbeatTimer p \<and>
    (pl_pollTimer q \<noteq> None \<longleftrightarrow> pl_subscribers p \<noteq> [] \<or> pl_pollTimer p \<noteq> None) \<and>
    (pl_lastStatus q = None \<longrightarrow> pl_lastStatus p = None)"
proof -
  obtain p1 where p1: "(case r of Inl e \<Rightarrow> poll_failure fails e p | Inr snap \<Rightarrow> poll_success fails snap p) = (p1, out)"
    and q: "q = rearm p1"
    using assms by (auto simp: poll_result_def split: prod.splits)
  have "pl_subscribers p1 = pl_subscribers p \<and> pl_arenaId p1 = pl_arenaId p \<and>
      pl_heartbeatTimer p1 = pl_heartbeatTimer p \<and> pl_pollTimer p1 = pl_pollTimer p \<and>
      (pl_lastStatus p1 = None \<longrightarrow> pl_lastStatus p = None)"
  proof (cases r)
    case (Inl e)
    have "same_shape (p\<lparr>pl_consecutiveFailures := pl_consecutiveFailures p + 1\<rparr>) p1"
      by (rule for_subscribers_shape) (use p1 Inl in \<open>auto simp: poll_failure_def Let_def intro: send_shape\<close>)
    then show ?thesis by (simp add: same_shape_def)
  next
    case (Inr snap)
    show ?thesis
    proof (cases "isFirstPoll (p\<lparr>pl_consecutiveFailures := 0\<rparr>)")
      case True
      let ?p2 = "remember snap (p\<lparr>pl_consecutiveFailures := 0\<rparr>)"
      have "same_shape (?p2\<lparr>pl_seenEliminations :=
          fold (\<lambda>e. js_set_add (sl_id e)) (sp_recentEliminations snap) (pl_seenEliminations ?p2)\<rparr>) p1"
        by (rule for_subscribers_shape)
          (use p1 Inr True in \<open>auto simp: poll_success_def Let_def intro: send_shape\<close>)
      then show ?thesis by (simp add: same_shape_def remember_def)
    next
      case False
      then obtain p0 where f: "for_subscribers (send_changes fails snap) (pl_subscribers p)
          (p\<lparr>pl_consecutiveFailures := 0\<rparr>) = (p0, out)" and "p1 = remember snap p0"
        using p1 Inr by (auto simp: poll_success_def Let_def split: prod.splits)
      moreover have "same_shape (p\<lparr>pl_consecutiveFailures := 0\<rparr>) p0"
        by (rule for_subscribers_shape [OF _ f]) (rule send_changes_shape)
      ultimately show ?thesis by (simp add: same_shape_def remember_def)
    qed
  qed
  then show ?thesis by (auto simp: q rearm_def)
qed

section \<open>One loop for each arena\<close>

definition waits :: "nat \<Rightarrow> poll_world \<Rightarrow> nat" where
  "waits r w = length (filter (\<lambda>x. fst x = r) (pw_waiting w))"

text \<open>The poll loops of a state: a timer that will fire, or a poll that waits.\<close>

definition loops :: "nat \<Rightarrow> poll_world \<Rightarrow> nat" where
  "loops r w = (if pl_pollTimer (pw_heap w ! r) \<noteq> None then 1 else 0) + waits r w"

definition object_ok :: "poll_world \<Rightarrow> nat \<Rightarrow> bool" where
  "object_ok w r \<longleftrightarrow>
     (if pl_subscribers (pw_heap w ! r) \<noteq> []
      then map_of (pw_pollers w) (pl_arenaId (pw_heap w ! r)) = Some r \<and> loops r w = 1 \<and>
           pl_heartbeatTimer (pw_heap w ! r)
      else pl_pollTimer (pw_heap w ! r) = None \<and> \<not> pl_heartbeatTimer (pw_heap w ! r))"

definition poll_inv :: "poll_world \<Rightarrow> bool" where
  "poll_inv w \<longleftrightarrow>
     (\<forall>a r. map_of (pw_pollers w) a = Some r \<longrightarrow>
        r < length (pw_heap w) \<and> pl_arenaId (pw_heap w ! r) = a \<and> pl_subscribers (pw_heap w ! r) \<noteq> []) \<and>
     (\<forall>r<length (pw_heap w). object_ok w r) \<and>
     (\<forall>x\<in>set (pw_waiting w). fst x < length (pw_heap w))"

lemma waits_fresh: "poll_inv w \<Longrightarrow> length (pw_heap w) \<le> r \<Longrightarrow> waits r w = 0"
  by (auto simp: poll_inv_def waits_def filter_empty_conv)

lemma waits_remove:
  assumes "i < length xs"
  shows "length (filter (\<lambda>x. fst x = r) xs) =
    length (filter (\<lambda>x. fst x = r) (take i xs @ drop (Suc i) xs)) + (if fst (xs ! i) = r then 1 else 0)"
proof -
  have "xs = take i xs @ xs ! i # drop (Suc i) xs" using assms by (rule id_take_nth_drop)
  then have "filter (\<lambda>x. fst x = r) xs = filter (\<lambda>x. fst x = r) (take i xs) @
      filter (\<lambda>x. fst x = r) (xs ! i # drop (Suc i) xs)"
    by (metis filter_append)
  then show ?thesis by simp
qed

lemma poll_invD:
  assumes "poll_inv w" and "r < length (pw_heap w)"
  shows "object_ok w r"
  using assms by (simp add: poll_inv_def)

lemma inv_local:
  assumes i: "poll_inv w" and r: "r < length (pw_heap w)"
    and m: "pw_pollers w' = pw_pollers w" and h: "pw_heap w' = (pw_heap w)[r := p]"
    and s: "(pl_subscribers p = []) = (pl_subscribers (pw_heap w ! r) = [])"
      "pl_arenaId p = pl_arenaId (pw_heap w ! r)" "pl_heartbeatTimer p = pl_heartbeatTimer (pw_heap w ! r)"
    and l: "pl_subscribers p \<noteq> [] \<Longrightarrow> loops r w' = 1" "pl_subscribers p = [] \<Longrightarrow> pl_pollTimer p = None"
    and v: "\<And>r'. r' \<noteq> r \<Longrightarrow> waits r' w' = waits r' w"
    and b: "\<And>x. x \<in> set (pw_waiting w') \<Longrightarrow> fst x < length (pw_heap w)"
  shows "poll_inv w'"
proof -
  have o: "object_ok w' r'" if "r' < length (pw_heap w)" for r'
  proof (cases "r' = r")
    case True
    with poll_invD [OF i r] s l show ?thesis by (simp add: object_ok_def h m r split: if_splits)
  next
    case False
    then have "pw_heap w' ! r' = pw_heap w ! r'" by (simp add: h)
    with v [OF False] have "loops r' w' = loops r' w" by (simp add: loops_def)
    with poll_invD [OF i that] \<open>pw_heap w' ! r' = pw_heap w ! r'\<close> show ?thesis
      by (simp add: object_ok_def m)
  qed
  have map: "r' < length (pw_heap w) \<and> pl_arenaId (pw_heap w' ! r') = a \<and> pl_subscribers (pw_heap w' ! r') \<noteq> []"
    if "map_of (pw_pollers w) a = Some r'" for a r'
    using i that s by (cases "r' = r") (auto simp: poll_inv_def h r)
  from o map b show ?thesis by (simp add: poll_inv_def m h)
qed

lemma waits_append: "waits r (w\<lparr>pw_waiting := pw_waiting w @ [(r0, a)], pw_breaker := b\<rparr>) =
    waits r w + (if r = r0 then 1 else 0)"
  by (simp add: waits_def)

lemma timer_inv:
  assumes i: "poll_inv w" and r: "r < length (pw_heap w)" and t: "pl_pollTimer (pw_heap w ! r) \<noteq> None"
  shows "poll_inv (timer_fires now r w)"
proof -
  let ?p = "(pw_heap w ! r)\<lparr>pl_pollTimer := None\<rparr>"
  have subs: "pl_subscribers (pw_heap w ! r) \<noteq> []" and "loops r w = 1"
    using poll_invD [OF i r] t by (auto simp: object_ok_def split: if_splits)
  then have w0: "waits r w = 0" using t by (simp add: loops_def)
  obtain adm b where f: "fire_enter now (pw_breaker w) = (adm, b)" by fastforce
  have eq: "timer_fires now r w = w\<lparr>pw_heap := (pw_heap w)[r := ?p],
      pw_waiting := pw_waiting w @ [(r, adm)], pw_breaker := b\<rparr>"
    using subs r f by (simp add: timer_fires_def poll_begin_def)
  show ?thesis
    by (rule inv_local [OF i r, of _ ?p])
      (use i r subs w0 in \<open>auto simp: eq loops_def waits_def poll_inv_def\<close>)
qed

lemma settle_inv:
  assumes i: "poll_inv w" and k: "k < length (pw_waiting w)"
  shows "poll_inv (poll_settle fails now k outcome w)"
proof -
  obtain r adm where x: "pw_waiting w ! k = (r, adm)" by fastforce
  obtain res b where b: "(case adm of Inl e \<Rightarrow> (Inl e, pw_breaker w) | Inr _ \<Rightarrow> fire_exit outcome now (pw_breaker w)) = (res, b)"
    by fastforce
  obtain p out where p: "poll_result fails res (pw_heap w ! r) = (p, out)" by fastforce
  have inx: "(r, adm) \<in> set (pw_waiting w)" using k x by (metis nth_mem)
  then have r: "r < length (pw_heap w)" using i by (auto simp: poll_inv_def)
  note sh = poll_result_shape [OF p]
  have wr: "waits r' w = length (filter (\<lambda>x. fst x = r') (take k (pw_waiting w) @ drop (Suc k) (pw_waiting w)))
      + (if r' = r then 1 else 0)" for r'
    using waits_remove [OF k, of r'] by (simp add: waits_def x)
  have eq: "poll_settle fails now k outcome w = w\<lparr>pw_heap := (pw_heap w)[r := p],
      pw_waiting := take k (pw_waiting w) @ drop (Suc k) (pw_waiting w), pw_breaker := b,
      pw_sent := pw_sent w @ map (\<lambda>(s, ev). (r, s, ev)) out\<rparr>"
    by (simp add: poll_settle_def x b p)
  show ?thesis
  proof (rule inv_local [OF i r, of _ p])
    show "(pl_subscribers p = []) = (pl_subscribers (pw_heap w ! r) = [])"
      and "pl_arenaId p = pl_arenaId (pw_heap w ! r)"
      and "pl_heartbeatTimer p = pl_heartbeatTimer (pw_heap w ! r)" using sh by auto
    show "loops r (poll_settle fails now k outcome w) = 1" if "pl_subscribers p \<noteq> []"
    proof -
      have "loops r w = 1" using poll_invD [OF i r] that sh by (auto simp: object_ok_def split: if_splits)
      with wr [of r] have "waits r w = 1"
          "length (filter (\<lambda>x. fst x = r) (take k (pw_waiting w) @ drop (Suc k) (pw_waiting w))) = 0"
        by (auto simp: loops_def split: if_splits)
      then show ?thesis using sh that r by (auto simp: eq loops_def waits_def)
    qed
    show "pl_pollTimer p = None" if "pl_subscribers p = []"
      using poll_invD [OF i r] that sh by (auto simp: object_ok_def split: if_splits)
    show "waits r' (poll_settle fails now k outcome w) = waits r' w" if "r' \<noteq> r" for r'
      using wr [of r'] that by (simp add: eq waits_def)
    show "fst x < length (pw_heap w)" if "x \<in> set (pw_waiting (poll_settle fails now k outcome w))" for x
      using i that by (auto simp: eq poll_inv_def dest: in_set_takeD in_set_dropD)
  qed (simp_all add: eq)
qed

lemma unsubscribe_inv:
  assumes i: "poll_inv w" and r: "r < length (pw_heap w)" and s: "sub \<in> set (pl_subscribers (pw_heap w ! r))"
  shows "poll_inv (unsubscribe r sub w)"
proof -
  let ?o = "pw_heap w ! r"
  let ?p = "?o\<lparr>pl_subscribers := remove1 sub (pl_subscribers ?o)\<rparr>"
  have ne: "pl_subscribers ?o \<noteq> []" using s by auto
  with poll_invD [OF i r] have ok: "map_of (pw_pollers w) (pl_arenaId ?o) = Some r" "loops r w = 1"
    by (auto simp: object_ok_def split: if_splits)
  show ?thesis
  proof (cases "pl_subscribers ?p = []")
    case False
    then have eq: "unsubscribe r sub w = w\<lparr>pw_heap := (pw_heap w)[r := ?p]\<rparr>"
      by (simp add: unsubscribe_def Let_def)
    show ?thesis
    proof (rule inv_local [OF i r, of _ ?p])
      show "(pl_subscribers ?p = []) = (pl_subscribers ?o = [])" using False ne by simp
      show "loops r (unsubscribe r sub w) = 1"
        using ok(2) r by (simp add: eq loops_def waits_def)
      show "fst x < length (pw_heap w)" if "x \<in> set (pw_waiting (unsubscribe r sub w))" for x
        using i that by (simp add: eq poll_inv_def)
    qed (use False in \<open>simp_all add: eq waits_def\<close>)
  next
    case True
    have eq: "unsubscribe r sub w = w\<lparr>pw_heap := (pw_heap w)[r := stopPollLoop ?p],
        pw_pollers := AList.delete (pl_arenaId ?o) (pw_pollers w)\<rparr>"
      using True by (simp add: unsubscribe_def Let_def)
    have o: "object_ok (unsubscribe r sub w) r'" if "r' < length (pw_heap w)" for r'
    proof (cases "r' = r")
      case same: True
      with True show ?thesis by (simp add: eq object_ok_def stopPollLoop_def r)
    next
      case False
      have "pl_arenaId (pw_heap w ! r') \<noteq> pl_arenaId ?o" if "pl_subscribers (pw_heap w ! r') \<noteq> []"
        using poll_invD [OF i \<open>r' < length (pw_heap w)\<close>] ok(1) that False by (auto simp: object_ok_def)
      moreover have "loops r' (unsubscribe r sub w) = loops r' w" "pw_heap (unsubscribe r sub w) ! r' = pw_heap w ! r'"
        using False by (simp_all add: eq loops_def waits_def)
      ultimately show ?thesis using poll_invD [OF i that]
        by (auto simp: object_ok_def) (simp_all add: eq)
    qed
    have map: "r' < length (pw_heap w) \<and> pl_arenaId (pw_heap (unsubscribe r sub w) ! r') = a \<and>
        pl_subscribers (pw_heap (unsubscribe r sub w) ! r') \<noteq> []"
      if "map_of (pw_pollers (unsubscribe r sub w)) a = Some r'" for a r'
    proof -
      have a: "a \<noteq> pl_arenaId ?o" "map_of (pw_pollers w) a = Some r'"
        using that by (auto simp: eq split: if_splits)
      then have "r' \<noteq> r" using i by (auto simp: poll_inv_def)
      with a i show ?thesis by (auto simp: eq poll_inv_def)
    qed
    from o map i show ?thesis by (simp add: poll_inv_def eq)
  qed
qed

lemma subscribe_inv:
  assumes i: "poll_inv w" and fresh: "\<forall>p\<in>set (pw_heap w). sub \<notin> set (pl_subscribers p)"
  shows "poll_inv (snd (subscribeArena now a sub w))"
proof (cases "map_of (pw_pollers w) a")
  case (Some r)
  let ?o = "pw_heap w ! r"
  let ?p = "?o\<lparr>pl_subscribers := pl_subscribers ?o @ [sub]\<rparr>"
  have r: "r < length (pw_heap w)" and ne: "pl_subscribers ?o \<noteq> []"
    using i Some by (auto simp: poll_inv_def)
  have "sub \<notin> set (pl_subscribers ?o)" using fresh r by auto
  then have eq: "snd (subscribeArena now a sub w) = w\<lparr>pw_heap := (pw_heap w)[r := ?p]\<rparr>"
    using ne by (simp add: subscribeArena_def find_or_create_def Some Let_def js_set_add_def)
  have "loops r w = 1" using poll_invD [OF i r] ne by (auto simp: object_ok_def split: if_splits)
  then show ?thesis
    by (intro inv_local [OF i r, of _ ?p])
      (use i r ne in \<open>auto simp: eq loops_def waits_def poll_inv_def\<close>)
next
  case None
  let ?r = "length (pw_heap w)"
  let ?p = "(new_poller a)\<lparr>pl_subscribers := [sub], pl_heartbeatTimer := True\<rparr>"
  obtain adm b where f: "fire_enter now (pw_breaker w) = (adm, b)" by fastforce
  have eq: "snd (subscribeArena now a sub w) = w\<lparr>pw_heap := pw_heap w @ [?p],
      pw_pollers := AList.update a ?r (pw_pollers w), pw_waiting := pw_waiting w @ [(?r, adm)], pw_breaker := b\<rparr>"
    by (simp add: subscribeArena_def find_or_create_def None Let_def js_set_add_def new_poller_def
        startPollLoop_def poll_begin_def f list_update_append)
  have w0: "waits ?r w = 0" by (rule waits_fresh [OF i]) simp
  have o: "object_ok (snd (subscribeArena now a sub w)) r'" if "r' < Suc ?r" for r'
  proof (cases "r' = ?r")
    case True
    with w0 show ?thesis by (simp add: eq object_ok_def loops_def waits_def new_poller_def)
  next
    case False
    with that have r': "r' < ?r" by simp
    have "pl_arenaId (pw_heap w ! r') \<noteq> a" if "pl_subscribers (pw_heap w ! r') \<noteq> []"
      using poll_invD [OF i r'] that None by (auto simp: object_ok_def)
    moreover have "pw_heap (snd (subscribeArena now a sub w)) ! r' = pw_heap w ! r'"
        "loops r' (snd (subscribeArena now a sub w)) = loops r' w"
      using r' by (simp_all add: eq loops_def waits_def nth_append)
    ultimately show ?thesis using poll_invD [OF i r']
      by (auto simp: object_ok_def) (simp_all add: eq)
  qed
  have map: "r' < Suc ?r \<and> pl_arenaId (pw_heap (snd (subscribeArena now a sub w)) ! r') = a' \<and>
      pl_subscribers (pw_heap (snd (subscribeArena now a sub w)) ! r') \<noteq> []"
    if "map_of (pw_pollers (snd (subscribeArena now a sub w))) a' = Some r'" for a' r'
  proof (cases "a' = a")
    case True
    with that show ?thesis by (auto simp: eq new_poller_def)
  next
    case False
    with that have m: "map_of (pw_pollers w) a' = Some r'" by (simp add: eq)
    with i have "r' < ?r \<and> pl_arenaId (pw_heap w ! r') = a' \<and> pl_subscribers (pw_heap w ! r') \<noteq> []"
      by (simp add: poll_inv_def)
    then show ?thesis by (auto simp: eq nth_append)
  qed
  have "\<forall>x\<in>set (pw_waiting (snd (subscribeArena now a sub w))). fst x < Suc ?r"
    using i by (auto simp: eq poll_inv_def)
  with o map show ?thesis by (simp add: poll_inv_def eq)
qed

lemma poller_step_inv: "poller_step w w' \<Longrightarrow> poll_inv w \<Longrightarrow> poll_inv w'"
proof (induction rule: poller_step.induct)
  case (heartbeat_step r w now)
  have "object_ok (heartbeat now r w) r' = object_ok w r'" for r'
    by (simp add: object_ok_def loops_def waits_def heartbeat_def)
  with heartbeat_step show ?case by (simp add: poll_inv_def) (simp add: heartbeat_def)
next
  case (breaker_step w b)
  have "object_ok (w\<lparr>pw_breaker := b\<rparr>) r' = object_ok w r'" for r'
    by (simp add: object_ok_def loops_def waits_def)
  with breaker_step show ?case by (simp add: poll_inv_def)
qed (simp_all add: subscribe_inv unsubscribe_inv timer_inv settle_inv)

lemma poller_steps_inv: "poller_step\<^sup>*\<^sup>* w w' \<Longrightarrow> poll_inv w \<Longrightarrow> poll_inv w'"
  by (induction rule: rtranclp_induct) (auto intro: poller_step_inv)

lemma empty_world_inv: "poll_inv (empty_world b)"
  by (simp add: poll_inv_def empty_world_def)

end
