(* ===== verification/PollerResults.thy ===== *)
theory PollerResults
  imports PollerProps
begin

text \<open>
  The results on the arena poller, with a world in which two clients watch one arena.
\<close>

section \<open>One loop for each arena\<close>

lemma one_loop:
  assumes "poller_step\<^sup>*\<^sup>* (empty_world b) w"
  shows "(map_of (pw_pollers w) a = Some r \<longrightarrow> pl_subscribers (pw_heap w ! r) \<noteq> [] \<and> loops r w = 1) \<and>
    (\<forall>r'<length (pw_heap w). pl_arenaId (pw_heap w ! r') = a \<and> map_of (pw_pollers w) a \<noteq> Some r' \<longrightarrow>
       pl_subscribers (pw_heap w ! r') = [] \<and> pl_pollTimer (pw_heap w ! r') = None \<and>
       \<not> pl_heartbeatTimer (pw_heap w ! r'))"
proof -
  have i: "poll_inv w" by (rule poller_steps_inv [OF assms empty_world_inv])
  have o: "object_ok w r" if "r < length (pw_heap w)" for r by (rule poll_invD [OF i that])
  have m: "r < length (pw_heap w) \<and> pl_subscribers (pw_heap w ! r) \<noteq> []" if "map_of (pw_pollers w) a = Some r" for r
    using i that by (simp add: poll_inv_def)
  show ?thesis
    using m o [of r] by (auto simp: object_ok_def split: if_splits dest: o)
qed

text \<open>
  C16: one poll loop for each arena that is watched, however subscriptions, disconnections, timers and
  polls interleave: the state in the map has subscribers and exactly one loop (a timer that will fire
  or a poll that waits), and every abandoned state of the arena has no subscriber and no timer, so a
  poll of it that still waits is its last.
\<close>

theorem one_poll_loop:
  assumes "poller_step\<^sup>*\<^sup>* (empty_world b) w"
  shows "(map_of (pw_pollers w) a = Some r \<longrightarrow> pl_subscribers (pw_heap w ! r) \<noteq> [] \<and> loops r w = 1) \<and>
    (\<forall>r'<length (pw_heap w). pl_arenaId (pw_heap w ! r') = a \<and> map_of (pw_pollers w) a \<noteq> Some r' \<longrightarrow>
       pl_subscribers (pw_heap w ! r') = [] \<and> pl_pollTimer (pw_heap w ! r') = None \<and>
       \<not> pl_heartbeatTimer (pw_heap w ! r'))"
  using assms by (rule one_loop)

definition toy_breaker :: breaker where
  "toy_breaker = new_breaker 3000 50 30000 None"

definition toy_world1 :: poll_world where
  "toy_world1 = snd (subscribeArena 0 ''A'' ''s1'' (empty_world toy_breaker))"

definition toy_world2 :: poll_world where
  "toy_world2 = snd (subscribeArena 5 ''A'' ''s2'' toy_world1)"

lemmas toy_world_simps = toy_world2_def toy_world1_def empty_world_def toy_breaker_def new_breaker_def
  subscribeArena_def find_or_create_def Let_def js_set_add_def new_poller_def startPollLoop_def
  poll_begin_def fire_enter_def

lemma toy_world_steps: "poller_step\<^sup>*\<^sup>* (empty_world toy_breaker) toy_world2"
proof -
  have "poller_step (empty_world toy_breaker) toy_world1"
    unfolding toy_world1_def by (rule subscribe_step) (simp add: empty_world_def)
  moreover have "poller_step toy_world1 toy_world2"
    unfolding toy_world2_def by (rule subscribe_step) (simp add: toy_world_simps)
  ultimately show ?thesis by auto
qed

theorem one_poll_loop_witness:
  "map_of (pw_pollers toy_world2) ''A'' = Some 0 \<and>
   pl_subscribers (pw_heap toy_world2 ! 0) = [''s1'', ''s2''] \<and> loops 0 toy_world2 = 1"
proof -
  have "map_of (pw_pollers toy_world2) ''A'' = Some 0" "pl_subscribers (pw_heap toy_world2 ! 0) = [''s1'', ''s2'']"
    by (simp_all add: toy_world_simps)
  with one_poll_loop [OF toy_world_steps, of "''A''" 0] show ?thesis by simp
qed

section \<open>Who is told of eliminations\<close>

fun elimination_of :: "sse_event \<Rightarrow> snapshot_elimination option" where
  "elimination_of (PlayerEliminated n e) = Some e"
| "elimination_of _ = None"

definition eliminations_to :: "string \<Rightarrow> sends \<Rightarrow> snapshot_elimination list" where
  "eliminations_to s out = List.map_filter (\<lambda>(s', ev). if s' = s then elimination_of ev else None) out"

lemma eliminations_to_append [simp]: "eliminations_to s (xs @ ys) = eliminations_to s xs @ eliminations_to s ys"
  by (induction xs) (auto simp: eliminations_to_def map_filter_simps split: option.splits)

lemma eliminations_to_Nil [simp]: "eliminations_to s [] = []"
  by (simp add: eliminations_to_def map_filter_simps)

lemma eliminations_to_Cons [simp]: "eliminations_to s ((s', ev) # xs) =
    (if s' = s then (case elimination_of ev of None \<Rightarrow> [] | Some e \<Rightarrow> [e]) else []) @ eliminations_to s xs"
  by (auto simp: eliminations_to_def map_filter_simps split: option.splits)

abbreviation never :: "string \<Rightarrow> nat \<Rightarrow> bool" where "never \<equiv> \<lambda>_ _. False"

lemma send_never: "send never sub mk p = (True, p\<lparr>pl_sequence := pl_sequence p + 1\<rparr>, [(sub, mk (pl_sequence p + 1))])"
  by (simp add: send_def Let_def)

lemma and_then_True: "and_then (True, p, out) f = (case f p of (ok, q, out2) \<Rightarrow> (ok, q, out @ out2))"
  by (simp add: and_then_def)

lemma send_when_never:
  "\<exists>q out. send_when c never sub mk p = (True, q, out) \<and> pl_seenEliminations q = pl_seenEliminations p \<and>
     out = (if c then [(sub, mk (pl_sequence p + 1))] else [])"
  by (auto simp: send_when_def send_never)

lemma send_eliminations_seen:
  "\<forall>e\<in>set es. sl_id e \<in> set (pl_seenEliminations p) \<Longrightarrow> send_eliminations fails sub es p = (True, p, [])"
  by (induction es) auto

lemma send_eliminations_new:
  "distinct (map sl_id es) \<Longrightarrow> \<exists>q out. send_eliminations never sub es p = (True, q, out) \<and>
     set (pl_seenEliminations q) = set (pl_seenEliminations p) \<union> sl_id ` set es \<and>
     eliminations_to s out = (if s = sub then filter (\<lambda>e. sl_id e \<notin> set (pl_seenEliminations p)) es else [])"
proof (induction es arbitrary: p)
  case (Cons e es)
  show ?case
  proof (cases "sl_id e \<in> set (pl_seenEliminations p)")
    case True
    with Cons.IH [of p] Cons.prems show ?thesis by auto
  next
    case False
    let ?p = "p\<lparr>pl_seenEliminations := js_set_add (sl_id e) (pl_seenEliminations p),
       pl_sequence := pl_sequence p + 1\<rparr>"
    obtain q out where ih: "send_eliminations never sub es ?p = (True, q, out)"
        "set (pl_seenEliminations q) = set (pl_seenEliminations ?p) \<union> sl_id ` set es"
        "eliminations_to s out = (if s = sub then filter (\<lambda>e. sl_id e \<notin> set (pl_seenEliminations ?p)) es else [])"
      using Cons.IH [of ?p] Cons.prems by auto
    have "filter (\<lambda>x. sl_id x \<noteq> sl_id e \<and> sl_id x \<notin> set (pl_seenEliminations p)) es =
        filter (\<lambda>x. sl_id x \<notin> set (pl_seenEliminations p)) es"
      using Cons.prems by (intro filter_cong) (auto, metis image_eqI)
    with ih False show ?thesis by (auto simp: send_never and_then_True)
  qed
qed simp

lemma send_changes_never:
  assumes "distinct (map sl_id (sp_recentEliminations snap))"
  shows "\<exists>q out. send_changes never snap sub p = (True, q, out) \<and>
     set (pl_seenEliminations q) = set (pl_seenEliminations p) \<union> sl_id ` set (sp_recentEliminations snap) \<and>
     eliminations_to s out = (if s = sub
       then filter (\<lambda>e. sl_id e \<notin> set (pl_seenEliminations p)) (sp_recentEliminations snap) else [])"
proof -
  obtain q1 o1 where 1: "send_eliminations never sub (sp_recentEliminations snap) p = (True, q1, o1)"
      "set (pl_seenEliminations q1) = set (pl_seenEliminations p) \<union> sl_id ` set (sp_recentEliminations snap)"
      "eliminations_to s o1 = (if s = sub
         then filter (\<lambda>e. sl_id e \<notin> set (pl_seenEliminations p)) (sp_recentEliminations snap) else [])"
    using send_eliminations_new [OF assms, of sub p s] by blast
  let ?c2 = "sp_lastRoundState snap = Some ''RESOLVED'' \<and> pl_lastRoundState p \<noteq> Some ''RESOLVED''"
  let ?m2 = "\<lambda>n. RoundResolved n \<lparr>rp_arenaId = sp_arenaId snap, rp_roundNumber = sp_currentRound snap,
     rp_playerCount = sp_playerCount snap, rp_survivorCount = sp_survivorCount snap, rp_status = sp_status snap\<rparr>"
  let ?c3 = "is_terminal (Some (sp_status snap)) (Some (sp_survivorCount snap)) \<and>
     \<not> is_terminal (pl_lastStatus p) (pl_lastSurvivorCount p)"
  let ?m3 = "\<lambda>n. GameFinished n \<lparr>fp_arenaId = sp_arenaId snap, fp_roundNumber = sp_currentRound snap,
     fp_survivorCount = sp_survivorCount snap, fp_status = sp_status snap\<rparr>"
  obtain q2 o2 where 2: "send_when ?c2 never sub ?m2 q1 = (True, q2, o2)"
      "pl_seenEliminations q2 = pl_seenEliminations q1" "o2 = (if ?c2 then [(sub, ?m2 (pl_sequence q1 + 1))] else [])"
    using send_when_never [of ?c2 sub ?m2 q1] by blast
  obtain q3 o3 where 3: "send_when ?c3 never sub ?m3 q2 = (True, q3, o3)"
      "pl_seenEliminations q3 = pl_seenEliminations q2" "o3 = (if ?c3 then [(sub, ?m3 (pl_sequence q2 + 1))] else [])"
    using send_when_never [of ?c3 sub ?m3 q2] by blast
  have "send_changes never snap sub p = (True, q3, (o1 @ o2) @ o3)"
    unfolding send_changes_def 1(1) and_then_True by (simp only: 2(1) 3(1) prod.case and_then_True)
  moreover have "eliminations_to s o2 = []" "eliminations_to s o3 = []" unfolding 2(3) 3(3) by simp_all
  ultimately show ?thesis using 1 2 3 by auto
qed

lemma later_subscribers:
  assumes "distinct (map sl_id (sp_recentEliminations snap))"
  shows "sl_id ` set (sp_recentEliminations snap) \<subseteq> set (pl_seenEliminations p) \<Longrightarrow>
    for_subscribers (send_changes never snap) subs p = (q, out) \<Longrightarrow> eliminations_to s out = []"
proof (induction subs arbitrary: p q out)
  case (Cons sub subs)
  obtain p1 o1 where 1: "send_changes never snap sub p = (True, p1, o1)"
      "set (pl_seenEliminations p1) = set (pl_seenEliminations p) \<union> sl_id ` set (sp_recentEliminations snap)"
      "eliminations_to s o1 = (if s = sub
         then filter (\<lambda>e. sl_id e \<notin> set (pl_seenEliminations p)) (sp_recentEliminations snap) else [])"
    using send_changes_never [OF assms, of sub p s] by blast
  have "filter (\<lambda>e. sl_id e \<notin> set (pl_seenEliminations p)) (sp_recentEliminations snap) = []"
    using Cons.prems(1) by (auto simp: filter_empty_conv)
  with 1 have "eliminations_to s o1 = []" by simp
  moreover obtain q2 o2 where 2: "for_subscribers (send_changes never snap) subs p1 = (q2, o2)" by fastforce
  moreover have "eliminations_to s o2 = []" by (rule Cons.IH [OF _ 2]) (use 1 in auto)
  ultimately show ?case using Cons.prems(2) 1(1) by auto
qed simp

lemma first_subscriber:
  assumes "distinct (map sl_id (sp_recentEliminations snap))" and "\<not> isFirstPoll p"
    and "pl_subscribers p = sub # subs" and "poll_success never snap p = (q, out)"
  shows "eliminations_to s out = (if s = sub
     then filter (\<lambda>e. sl_id e \<notin> set (pl_seenEliminations p)) (sp_recentEliminations snap) else [])"
proof -
  let ?p = "p\<lparr>pl_consecutiveFailures := 0\<rparr>"
  obtain p1 o1 where 1: "send_changes never snap sub ?p = (True, p1, o1)"
      "set (pl_seenEliminations p1) = set (pl_seenEliminations p) \<union> sl_id ` set (sp_recentEliminations snap)"
      "eliminations_to s o1 = (if s = sub
         then filter (\<lambda>e. sl_id e \<notin> set (pl_seenEliminations p)) (sp_recentEliminations snap) else [])"
    using send_changes_never [OF assms(1), of sub ?p s] by auto
  obtain q2 o2 where 2: "for_subscribers (send_changes never snap) subs p1 = (q2, o2)" by fastforce
  have "out = o1 @ o2"
    using assms(2-4) 1(1) 2 by (auto simp: poll_success_def Let_def isFirstPoll_def)
  moreover have "eliminations_to s o2 = []" by (rule later_subscribers [OF assms(1) _ 2]) (use 1 in auto)
  ultimately show ?thesis using 1(3) by simp
qed

text \<open>
  The eliminations of a poll are sent to the subscriber that joined first, each new one once and in
  order, and to no other: the loop marks an elimination as seen for all when it sends it to one.
\<close>

theorem eliminations_to_first_only:
  assumes "distinct (map sl_id (sp_recentEliminations snap))" and "\<not> isFirstPoll p"
    and "pl_subscribers p = sub # subs" and "poll_success (\<lambda>_ _. False) snap p = (q, out)"
  shows "eliminations_to sub out =
      filter (\<lambda>e. sl_id e \<notin> set (pl_seenEliminations p)) (sp_recentEliminations snap) \<and>
    (\<forall>s. s \<noteq> sub \<longrightarrow> eliminations_to s out = [])"
  using first_subscriber [OF assms] by simp

definition toy_elimination :: snapshot_elimination where
  "toy_elimination = \<lparr>sl_id = ''l1'', sl_userId = ''u1'', sl_roundNumber = 1, sl_reason = None, sl_eliminatedAt = 7\<rparr>"

definition toy_snapshot :: arena_snapshot where
  "toy_snapshot = \<lparr>sp_arenaId = ''A'', sp_currentRound = 1, sp_playerCount = 4, sp_survivorCount = 3,
     sp_status = ''active'', sp_recentEliminations = [toy_elimination], sp_lastRoundState = Some ''RESOLVED''\<rparr>"

definition toy_poller :: poller where
  "toy_poller = (new_poller ''A'')\<lparr>pl_subscribers := [''s1'', ''s2''], pl_lastRoundState := Some ''OPEN'',
     pl_lastStatus := Some ''active'', pl_lastSurvivorCount := Some 4\<rparr>"

theorem eliminations_to_first_only_witness:
  "\<exists>q out. poll_success (\<lambda>_ _. False) toy_snapshot toy_poller = (q, out) \<and>
    eliminations_to ''s1'' out = [toy_elimination] \<and> eliminations_to ''s2'' out = []"
proof -
  obtain q out where r: "poll_success (\<lambda>_ _. False) toy_snapshot toy_poller = (q, out)" by fastforce
  have "eliminations_to ''s1'' out = [toy_elimination] \<and> eliminations_to ''s2'' out = []"
    using eliminations_to_first_only [OF _ _ _ r, of "''s1''" "[''s2'']"]
    by (simp add: toy_snapshot_def toy_poller_def isFirstPoll_def new_poller_def)
  with r show ?thesis by blast
qed

section \<open>Who gets a snapshot\<close>

fun is_snapshot :: "sse_event \<Rightarrow> bool" where
  "is_snapshot (Snapshot n s) = True"
| "is_snapshot _ = False"

definition snapshots_of :: "nat \<Rightarrow> poll_world \<Rightarrow> (nat \<times> string \<times> sse_event) list" where
  "snapshots_of r w = filter (\<lambda>(r', s, ev). r' = r \<and> is_snapshot ev) (pw_sent w)"

definition no_snapshot :: "sends \<Rightarrow> bool" where
  "no_snapshot out \<longleftrightarrow> (\<forall>x\<in>set out. \<not> is_snapshot (snd x))"

lemma no_snapshot_append [simp]: "no_snapshot (xs @ ys) \<longleftrightarrow> no_snapshot xs \<and> no_snapshot ys"
  by (auto simp: no_snapshot_def)

lemma no_snapshot_Nil [simp]: "no_snapshot []"
  by (simp add: no_snapshot_def)

lemma send_no_snapshot: "send fails sub mk p = (ok, q, out) \<Longrightarrow> (\<And>n. \<not> is_snapshot (mk n)) \<Longrightarrow> no_snapshot out"
  by (auto simp: send_def Let_def no_snapshot_def split: if_splits)

lemma send_when_no_snapshot:
  "send_when c fails sub mk p = (ok, q, out) \<Longrightarrow> (\<And>n. \<not> is_snapshot (mk n)) \<Longrightarrow> no_snapshot out"
  by (auto simp: send_when_def split: if_splits intro: send_no_snapshot)

lemma and_then_no_snapshot:
  "and_then r f = (ok, q, out) \<Longrightarrow> no_snapshot (snd (snd r)) \<Longrightarrow>
     (\<And>p ok q out. f p = (ok, q, out) \<Longrightarrow> no_snapshot out) \<Longrightarrow> no_snapshot out"
  by (fastforce simp: and_then_def split: prod.splits if_splits)

lemma send_eliminations_no_snapshot: "send_eliminations fails sub es p = (ok, q, out) \<Longrightarrow> no_snapshot out"
proof (induction es arbitrary: p ok q out)
  case (Cons e es)
  show ?case
  proof (cases "sl_id e \<in> set (pl_seenEliminations p)")
    case False
    let ?s = "send fails sub (\<lambda>n. PlayerEliminated n e)
      (p\<lparr>pl_seenEliminations := js_set_add (sl_id e) (pl_seenEliminations p)\<rparr>)"
    have "no_snapshot (snd (snd ?s))" by (rule send_no_snapshot [of fails sub _ _ "fst ?s" "fst (snd ?s)"]) auto
    with Cons False show ?thesis by (auto elim: and_then_no_snapshot)
  qed (use Cons in simp)
qed simp

lemma send_changes_no_snapshot: "send_changes fails snap sub p = (ok, q, out) \<Longrightarrow> no_snapshot out"
  unfolding send_changes_def
  by (elim and_then_no_snapshot; metis prod.collapse and_then_no_snapshot send_eliminations_no_snapshot
      send_when_no_snapshot is_snapshot.simps)

lemma for_subscribers_no_snapshot:
  assumes "\<And>sub p ok q out. body sub p = (ok, q, out) \<Longrightarrow> no_snapshot out"
  shows "for_subscribers body subs p = (q, out) \<Longrightarrow> no_snapshot out"
  by (induction subs arbitrary: p q out) (auto split: prod.splits dest: assms)

lemma poll_result_no_snapshot:
  assumes "poll_result fails r p = (q, out)" and "pl_lastStatus p \<noteq> None"
  shows "no_snapshot out"
proof (cases r)
  case (Inl e)
  then show ?thesis using assms
    by (auto simp: poll_result_def poll_failure_def Let_def split: prod.splits
        elim!: for_subscribers_no_snapshot [rotated] intro: send_no_snapshot)
next
  case (Inr snap)
  then show ?thesis using assms
    by (auto simp: poll_result_def poll_success_def isFirstPoll_def Let_def split: prod.splits
        elim!: for_subscribers_no_snapshot [rotated] intro: send_changes_no_snapshot)
qed

definition polled :: "nat \<Rightarrow> poll_world \<Rightarrow> bool" where
  "polled r w \<longleftrightarrow> r < length (pw_heap w) \<and> pl_lastStatus (pw_heap w ! r) \<noteq> None"

lemma waits_in_heap: "poll_inv w \<Longrightarrow> i < length (pw_waiting w) \<Longrightarrow> pw_waiting w ! i = (r, a) \<Longrightarrow> r < length (pw_heap w)"
  by (metis nth_mem poll_inv_def fst_conv)

lemma settle_snapshots:
  assumes "poll_inv w" and "i < length (pw_waiting w)" and "polled r w"
  shows "polled r (poll_settle fails now i outcome w) \<and>
    snapshots_of r (poll_settle fails now i outcome w) = snapshots_of r w"
proof -
  obtain r0 adm where x: "pw_waiting w ! i = (r0, adm)" by fastforce
  obtain res b where b: "(case adm of Inl e \<Rightarrow> (Inl e, pw_breaker w) | Inr _ \<Rightarrow> fire_exit outcome now (pw_breaker w)) = (res, b)"
    by fastforce
  obtain p out where p: "poll_result fails res (pw_heap w ! r0) = (p, out)" by fastforce
  have eq: "poll_settle fails now i outcome w = w\<lparr>pw_heap := (pw_heap w)[r0 := p],
      pw_waiting := take i (pw_waiting w) @ drop (Suc i) (pw_waiting w), pw_breaker := b,
      pw_sent := pw_sent w @ map (\<lambda>(s, ev). (r0, s, ev)) out\<rparr>"
    by (simp add: poll_settle_def x b p)
  have r0: "r0 < length (pw_heap w)" by (rule waits_in_heap [OF assms(1,2) x])
  have pol: "polled r (poll_settle fails now i outcome w)"
    using assms(3) poll_result_shape [OF p] r0 by (cases "r = r0") (auto simp: polled_def eq)
  have "filter (\<lambda>(r', s, ev). r' = r \<and> is_snapshot ev) (map (\<lambda>(s, ev). (r0, s, ev)) out) = []"
  proof (cases "r0 = r")
    case True
    with poll_result_no_snapshot [OF p] assms(3) show ?thesis
      by (auto simp: polled_def no_snapshot_def filter_empty_conv)
  qed (auto simp: filter_empty_conv)
  with pol show ?thesis by (simp add: snapshots_of_def eq)
qed

lemma poll_begin_frame: "pw_heap (poll_begin now r w) = pw_heap w" "pw_sent (poll_begin now r w) = pw_sent w"
  by (simp_all add: poll_begin_def split: prod.split)

lemma subscribe_frame:
  assumes "poll_inv w" and "polled r w"
  shows "polled r (snd (subscribeArena now a sub w)) \<and> pw_sent (snd (subscribeArena now a sub w)) = pw_sent w"
proof -
  obtain r1 w1 where w1: "find_or_create a w = (r1, w1)" by fastforce
  have pol: "polled r w1" and sent: "pw_sent w1 = pw_sent w" and "r1 < length (pw_heap w1)"
    using assms w1 by (auto simp: find_or_create_def polled_def poll_inv_def nth_append split: option.splits)
  then show ?thesis
    by (auto simp: subscribeArena_def w1 Let_def startPollLoop_def poll_begin_frame polled_def nth_list_update)
qed

lemma step_snapshots:
  "poller_step w w' \<Longrightarrow> poll_inv w \<Longrightarrow> polled r w \<Longrightarrow> polled r w' \<and> snapshots_of r w' = snapshots_of r w"
proof (induction rule: poller_step.induct)
  case (subscribe_step w sub now a)
  then show ?case using subscribe_frame [of w r now a sub] by (simp add: snapshots_of_def)
next
  case (unsubscribe_step r0 w sub)
  then show ?case
    by (auto simp: unsubscribe_def Let_def polled_def snapshots_of_def stopPollLoop_def nth_list_update)
next
  case (timer_step r0 w now)
  then show ?case
    by (auto simp: timer_fires_def poll_begin_frame polled_def snapshots_of_def nth_list_update)
next
  case (settle_step i w fails now outcome)
  then show ?case using settle_snapshots by blast
next
  case (heartbeat_step r0 w now)
  then show ?case by (auto simp: heartbeat_def polled_def snapshots_of_def filter_empty_conv)
next
  case (breaker_step w b)
  then show ?case by (simp add: polled_def snapshots_of_def)
qed

lemma steps_snapshots:
  "poller_step\<^sup>*\<^sup>* w w' \<Longrightarrow> poll_inv w \<Longrightarrow> polled r w \<Longrightarrow>
     polled r w' \<and> snapshots_of r w' = snapshots_of r w"
proof (induction rule: rtranclp_induct)
  case (step y z)
  have "poll_inv y" by (rule poller_steps_inv [OF step.hyps(1) step.prems(1)])
  with step step_snapshots show ?case by metis
qed simp

text \<open>
  A client that subscribes after an arena's first successful poll never receives a snapshot: in
  a state reached from the empty world in which a poller state has been polled, no sequence of
  steps, new subscriptions included, sends a snapshot from it.
\<close>

theorem no_snapshot_for_late_subscriber:
  assumes "poller_step\<^sup>*\<^sup>* (empty_world b) w" and "polled r w" and "poller_step\<^sup>*\<^sup>* w w'"
  shows "snapshots_of r w' = snapshots_of r w"
  using steps_snapshots [OF assms(3) poller_steps_inv [OF assms(1) empty_world_inv] assms(2)] by simp

definition toy_world3 :: poll_world where
  "toy_world3 = poll_settle (\<lambda>_ _. False) 10 0 (Resolved toy_snapshot) toy_world1"

definition toy_world4 :: poll_world where
  "toy_world4 = snd (subscribeArena 20 ''A'' ''s2'' toy_world3)"

lemma toy_world1_value: "pw_waiting toy_world1 = [(0, Inr ())]"
    "pl_subscribers (pw_heap toy_world1 ! 0) = [''s1'']" "length (pw_heap toy_world1) = 1"
    "isFirstPoll (pw_heap toy_world1 ! 0)"
  by (simp_all add: toy_world_simps isFirstPoll_def)

lemma toy_world3_value: "pl_subscribers (pw_heap toy_world3 ! 0) = [''s1'']" "length (pw_heap toy_world3) = 1"
    "polled 0 toy_world3"
proof -
  obtain b where b: "fire_exit (Resolved toy_snapshot) 10 (pw_breaker toy_world1) = (Inr toy_snapshot, b)"
    by (simp add: fire_exit_def)
  obtain p out where p: "poll_result (\<lambda>_ _. False) (Inr toy_snapshot) (pw_heap toy_world1 ! 0) = (p, out)"
    by fastforce
  have 3: "toy_world3 = toy_world1\<lparr>pw_heap := (pw_heap toy_world1)[0 := p], pw_waiting := [], pw_breaker := b,
      pw_sent := pw_sent toy_world1 @ map (\<lambda>(s, ev). (0, s, ev)) out\<rparr>"
    by (simp add: toy_world3_def poll_settle_def toy_world1_value b p)
  have "pl_lastStatus p = Some ''active''"
  proof -
    have "pl_lastStatus (fst (poll_result (\<lambda>_ _. False) (Inr toy_snapshot) (pw_heap toy_world1 ! 0))) = Some ''active''"
      by (simp add: poll_result_def poll_success_def Let_def toy_world_simps isFirstPoll_def remember_def
          toy_snapshot_def rearm_def send_def)
    then show ?thesis by (simp add: p)
  qed
  with poll_result_shape [OF p] toy_world1_value
  show "pl_subscribers (pw_heap toy_world3 ! 0) = [''s1'']" "length (pw_heap toy_world3) = 1" "polled 0 toy_world3"
    by (simp_all add: 3 polled_def)
qed

theorem no_snapshot_for_late_subscriber_witness:
  "polled 0 toy_world3 \<and> poller_step toy_world3 toy_world4 \<and> snapshots_of 0 toy_world4 = snapshots_of 0 toy_world3"
proof -
  have "poller_step (empty_world toy_breaker) toy_world1"
    unfolding toy_world1_def by (rule subscribe_step) (simp add: empty_world_def)
  moreover have "poller_step toy_world1 toy_world3"
    unfolding toy_world3_def by (rule settle_step) (simp add: toy_world1_value)
  ultimately have 3: "poller_step\<^sup>*\<^sup>* (empty_world toy_breaker) toy_world3" by auto
  have "\<forall>p\<in>set (pw_heap toy_world3). ''s2'' \<notin> set (pl_subscribers p)"
    using toy_world3_value by (simp add: all_set_conv_all_nth)
  then have 4: "poller_step toy_world3 toy_world4" unfolding toy_world4_def by (rule subscribe_step)
  then have "poller_step\<^sup>*\<^sup>* toy_world3 toy_world4" by auto
  from no_snapshot_for_late_subscriber [OF 3 toy_world3_value(3) this] 4 toy_world3_value(3)
  show ?thesis by simp
qed

section \<open>Statistics and poller together\<close>

text \<open>
  The statistics and the poller together: what the watchers of an arena see when a read of the chain
  fails.
\<close>

lemma for_subscribers_each:
  assumes "\<And>sub p ok q out. body sub p = (ok, q, out) \<Longrightarrow> same_shape p q"
  shows "for_subscribers body subs p = (q, out) \<Longrightarrow> s \<in> set subs \<Longrightarrow>
    \<exists>p1 ok q1 o1. same_shape p p1 \<and> body s p1 = (ok, q1, o1) \<and> set o1 \<subseteq> set out"
proof (induction subs arbitrary: p q out)
  case (Cons sub subs)
  obtain ok p1 o1 where 1: "body sub p = (ok, p1, o1)" by (metis prod_cases3)
  obtain q2 o2 where 2: "for_subscribers body subs p1 = (q2, o2)" by fastforce
  have out: "out = o1 @ o2" using Cons.prems(1) 1 2 by simp
  show ?case
  proof (cases "s = sub")
    case True
    with 1 out show ?thesis by (metis same_shape_refl set_append Un_upper1)
  next
    case False
    with Cons.prems(2) have "s \<in> set subs" by simp
    from Cons.IH [OF 2 this] obtain p2 ok2 q3 o3
      where "same_shape p1 p2" "body s p2 = (ok2, q3, o3)" "set o3 \<subseteq> set o2" by blast
    moreover have "same_shape p p2" using assms [OF 1] calculation(1) by (rule same_shape_trans)
    ultimately show ?thesis using out by (metis set_append le_supI2)
  qed
qed simp

lemma send_eliminations_ok: "\<exists>q out. send_eliminations never sub es p = (True, q, out)"
proof (induction es arbitrary: p)
  case (Cons e es)
  show ?case
  proof (cases "sl_id e \<in> set (pl_seenEliminations p)")
    case False
    let ?p = "p\<lparr>pl_seenEliminations := js_set_add (sl_id e) (pl_seenEliminations p),
       pl_sequence := pl_sequence p + 1\<rparr>"
    from Cons [of ?p] False show ?thesis by (auto simp: send_never and_then_True)
  qed (use Cons in simp)
qed simp

definition finished_of :: "arena_snapshot \<Rightarrow> finished_payload" where
  "finished_of snap = \<lparr>fp_arenaId = sp_arenaId snap, fp_roundNumber = sp_currentRound snap,
     fp_survivorCount = sp_survivorCount snap, fp_status = sp_status snap\<rparr>"

lemma send_changes_finished:
  assumes "is_terminal (Some (sp_status snap)) (Some (sp_survivorCount snap))"
    and "\<not> is_terminal (pl_lastStatus p) (pl_lastSurvivorCount p)"
    and "send_changes never snap sub p = (ok, q, out)"
  shows "\<exists>n. (sub, GameFinished n (finished_of snap)) \<in> set out"
proof -
  obtain q1 o1 where 1: "send_eliminations never sub (sp_recentEliminations snap) p = (True, q1, o1)"
    using send_eliminations_ok by blast
  let ?c2 = "sp_lastRoundState snap = Some ''RESOLVED'' \<and> pl_lastRoundState p \<noteq> Some ''RESOLVED''"
  let ?m2 = "\<lambda>n. RoundResolved n \<lparr>rp_arenaId = sp_arenaId snap, rp_roundNumber = sp_currentRound snap,
     rp_playerCount = sp_playerCount snap, rp_survivorCount = sp_survivorCount snap, rp_status = sp_status snap\<rparr>"
  obtain q2 o2 where 2: "send_when ?c2 never sub ?m2 q1 = (True, q2, o2)"
    using send_when_never [of ?c2 sub ?m2 q1] by blast
  have "send_changes never snap sub p = (True, q2\<lparr>pl_sequence := pl_sequence q2 + 1\<rparr>,
      (o1 @ o2) @ [(sub, GameFinished (pl_sequence q2 + 1) (finished_of snap))])"
    unfolding send_changes_def 1 and_then_True finished_of_def
    by (simp only: 2 prod.case and_then_True) (simp add: send_when_def send_never assms(1,2))
  with assms(3) show ?thesis by auto
qed

text \<open>The player count is 0 when the contract is not read, so nobody is a survivor.\<close>

definition contract_of :: "arena_row \<Rightarrow> string option" where
  "contract_of arena = am_contractAddress (or_else (an_metadata arena) no_meta)"

lemma failed_read_survivors:
  assumes "se_arena env = Inr (Some arena)" and "truthy (contract_of arena)"
    and "simulateViewCall ''get_player_count'' (se_playerCount env) = Inl e"
  shows "\<exists>stats. getArenaStats env a = Inr stats \<and> as_playerCount stats = 0 \<and> as_survivorCount stats = 0"
  using assms
  by (simp add: getArenaStats_def Let_def contract_of_def stats_playerCount_def awaited_def
      getOnChainPlayerCount_def or_catch_def)

lemma finish_sent:
  assumes "\<not> isFirstPoll p" and "\<not> is_terminal (pl_lastStatus p) (pl_lastSurvivorCount p)"
    and "is_terminal (Some (sp_status snap)) (Some (sp_survivorCount snap))"
    and "poll_success never snap p = (q, out)" and "s \<in> set (pl_subscribers p)"
  shows "\<exists>n. (s, GameFinished n (finished_of snap)) \<in> set out"
proof -
  let ?p = "p\<lparr>pl_consecutiveFailures := 0\<rparr>"
  obtain q1 where "for_subscribers (send_changes never snap) (pl_subscribers p) ?p = (q1, out)"
    using assms(1,4) by (auto simp: poll_success_def Let_def isFirstPoll_def split: prod.splits)
  then have "\<exists>p1 ok q2 o1. same_shape ?p p1 \<and> send_changes never snap s p1 = (ok, q2, o1) \<and> set o1 \<subseteq> set out"
    by (rule for_subscribers_each [OF _ _ assms(5), rotated]) (rule send_changes_shape)
  then obtain p1 ok q2 o1 where 1: "same_shape ?p p1" "send_changes never snap s p1 = (ok, q2, o1)"
      "set o1 \<subseteq> set out" by blast
  have "\<not> is_terminal (pl_lastStatus p1) (pl_lastSurvivorCount p1)"
    using 1(1) assms(2) by (simp add: same_shape_def)
  from send_changes_finished [OF assms(3) this 1(2)] 1(3) show ?thesis by blast
qed

text \<open>
  One failed read of the player count ends the game for all its watchers: the reader answers 0 and
  does not throw, so the fallback to the rows of the database is not taken, the survivors are 0, and
  the next poll sends \<open>game_finished\<close> to every subscriber of an arena that is still playing.
\<close>

theorem failed_read_announces_finish:
  assumes "se_arena env = Inr (Some arena)" and "truthy (contract_of arena)"
    and "simulateViewCall ''get_player_count'' (se_playerCount env) = Inl e"
    and "getArenaStats env a = Inr stats"
    and "\<not> isFirstPoll p" and "\<not> is_terminal (pl_lastStatus p) (pl_lastSurvivorCount p)"
    and "poll_success (\<lambda>_ _. False) (snapshot_of a arena stats) p = (q, out)" and "s \<in> set (pl_subscribers p)"
  shows "as_survivorCount stats = 0 \<and>
    (\<exists>n. (s, GameFinished n \<lparr>fp_arenaId = a, fp_roundNumber = as_currentRound stats,
       fp_survivorCount = 0, fp_status = as_status stats\<rparr>) \<in> set out)"
proof -
  have s0: "as_survivorCount stats = 0" using failed_read_survivors [OF assms(1-3), of a] assms(4) by auto
  then have "is_terminal (Some (sp_status (snapshot_of a arena stats))) (Some (sp_survivorCount (snapshot_of a arena stats)))"
    by (simp add: is_terminal_def snapshot_of_def)
  from finish_sent [OF assms(5,6) this assms(7,8)] s0 show ?thesis
    by (simp add: finished_of_def snapshot_of_def)
qed

definition toy_arena :: arena_row where
  "toy_arena = \<lparr>an_id = ''A'', an_metadata = Some (no_meta\<lparr>am_contractAddress := Some ''C''\<rparr>), an_rounds = []\<rparr>"

definition toy_stats_env :: stats_env where
  "toy_stats_env = \<lparr>se_arena = Inr (Some toy_arena), se_poolCount = Inr 9,
     se_playerCount = Inl (Error ''timeout''), se_totalYield = Inr (SimValue 0),
     se_gameState = Inr (SimValue ''InProgress''), se_now = 0\<rparr>"

theorem failed_read_announces_finish_witness:
  "\<exists>stats q out n. getArenaStats toy_stats_env ''A'' = Inr stats \<and> as_status stats = ''active'' \<and>
    poll_success (\<lambda>_ _. False) (snapshot_of ''A'' toy_arena stats) toy_poller = (q, out) \<and>
    (''s2'', GameFinished n \<lparr>fp_arenaId = ''A'', fp_roundNumber = as_currentRound stats,
       fp_survivorCount = 0, fp_status = ''active''\<rparr>) \<in> set out"
proof -
  have env: "se_arena toy_stats_env = Inr (Some toy_arena)" "truthy (contract_of toy_arena)"
    "simulateViewCall ''get_player_count'' (se_playerCount toy_stats_env) = Inl (Error ''timeout'')"
    by (simp_all add: toy_stats_env_def toy_arena_def contract_of_def or_else_def simulateViewCall_def)
  obtain stats where stats: "getArenaStats toy_stats_env ''A'' = Inr stats"
    using failed_read_survivors [OF env, of "''A''"] by blast
  have st: "as_status stats = ''active''"
    using stats env(2) by (auto simp: getArenaStats_def Let_def toy_stats_env_def stats_playerCount_def awaited_def
        contract_of_def stats_status_def getOnChainGameState_def or_catch_def simulateViewCall_def mapGameStateToStatus_def)
  obtain q out where r: "poll_success (\<lambda>_ _. False) (snapshot_of ''A'' toy_arena stats) toy_poller = (q, out)"
    by fastforce
  have "\<not> isFirstPoll toy_poller" "\<not> is_terminal (pl_lastStatus toy_poller) (pl_lastSurvivorCount toy_poller)"
    "''s2'' \<in> set (pl_subscribers toy_poller)"
    by (simp_all add: toy_poller_def isFirstPoll_def is_terminal_def)
  from failed_read_announces_finish [OF env stats this(1,2) r this(3)] stats st r show ?thesis by auto
qed

end
