(* ===== verification/Admin.thy ===== *)
theory Admin
  imports PaymentProps AuthResults
begin

text \<open>
  The administration: \<open>AdminController\<close> of backend/src/controllers/admin.controller.ts, which
  ties the confirmation tokens to the payout transactions and to the audit log
  (backend/src/db/models/auditLog.model.ts), and the \<open>log\<close> of
  backend/src/services/adminService.ts. A handler is given what \<open>requireAdmin\<close> has put on the
  request (\<open>admin_request\<close>); its result is the body of the response, or the error it throws.
\<close>

section \<open>The audit log\<close>

datatype audit_status = AuditSuccess | AuditFailed

record recon_result =
  rr_checked :: nat
  rr_confirmed :: nat
  rr_failed :: nat
  rr_dryRun :: bool

datatype audit_metadata = TargetStatus payment_status | ReconRun recon_result

record audit_doc =
  al_id :: string
  al_adminId :: string
  al_action :: string
  al_resourceType :: string
  al_resourceId :: string
  al_status :: audit_status
  al_metadata :: "audit_metadata option"
  al_errorMessage :: "string option"
  al_ipAddress :: "string option"
  al_userAgent :: "string option"
  al_createdAt :: int

record ('d, 'c, 'l) admin_state =
  ad_pay :: "'d pay_state"
  ad_tokens :: 'c
  ad_logs :: 'l

record ('d, 'c, 'l) admin_stores =
  ds_repo :: "'d tx_repo"
  ds_tokens :: "(confirmation_doc, 'c) coll"
  ds_logs :: "(audit_doc, 'l) coll"
  ds_hash :: "string \<Rightarrow> string"

text \<open>
  \<open>rq_logId\<close> and \<open>rq_failId\<close> are the ids that the database gives to the first and the second
  entry that the request tries to write.
\<close>

record admin_request =
  rq_adminId :: string
  rq_ip :: "string option"
  rq_userAgent :: "string option"
  rq_now :: int
  rq_logId :: string
  rq_failId :: string

definition audit_entry ::
    "admin_request \<Rightarrow> string \<Rightarrow> string \<Rightarrow> string \<Rightarrow> string \<Rightarrow> audit_status \<Rightarrow> audit_metadata option \<Rightarrow>
     string option \<Rightarrow> audit_doc" where
  "audit_entry rq i action resourceType resourceId st md em =
     \<lparr>al_id = i, al_adminId = rq_adminId rq, al_action = action, al_resourceType = resourceType,
      al_resourceId = resourceId, al_status = st, al_metadata = md, al_errorMessage = em,
      al_ipAddress = rq_ip rq, al_userAgent = rq_userAgent rq, al_createdAt = rq_now rq\<rparr>"

definition admin_log ::
    "('d, 'c, 'l) admin_stores \<Rightarrow> audit_doc \<Rightarrow> ('d, 'c, 'l) admin_state \<Rightarrow> (js_error + unit) \<times> ('d, 'c, 'l) admin_state" where
  "admin_log S d s = (case c_create (ds_logs S) d (ad_logs s) of (x, l) \<Rightarrow> (x, s\<lparr>ad_logs := l\<rparr>))"

definition error_text :: "js_error \<Rightarrow> string" where
  "error_text e = (if e = NotAnError then ''Unknown error'' else err_message e)"

text \<open>
  \<open>try { action; log success } catch (err) { log failed; throw err }\<close>: a success entry that
  cannot be written is a failure too, and a failed entry that cannot be written replaces the error.
\<close>

definition audited ::
    "('d, 'c, 'l) admin_stores \<Rightarrow> admin_request \<Rightarrow> string \<Rightarrow> string \<Rightarrow> string \<Rightarrow> ('a \<Rightarrow> audit_metadata option) \<Rightarrow>
     (('d, 'c, 'l) admin_state \<Rightarrow> (js_error + 'a) \<times> ('d, 'c, 'l) admin_state) \<Rightarrow>
     ('d, 'c, 'l) admin_state \<Rightarrow> (js_error + 'a) \<times> ('d, 'c, 'l) admin_state" where
  "audited S rq action resourceType resourceId md body s =
     (let failed = (\<lambda>e s. case admin_log S (audit_entry rq (rq_failId rq) action resourceType resourceId
                              AuditFailed None (Some (error_text e))) s of
                         (Inl e2, s2) \<Rightarrow> (Inl e2, s2)
                       | (Inr _, s2) \<Rightarrow> (Inl e, s2))
      in (case body s of
            (Inl e, s1) \<Rightarrow> failed e s1
          | (Inr v, s1) \<Rightarrow>
              (case admin_log S (audit_entry rq (rq_logId rq) action resourceType resourceId
                       AuditSuccess (md v) None) s1 of
                 (Inl e, s2) \<Rightarrow> failed e s2
               | (Inr _, s2) \<Rightarrow> (Inr v, s2))))"

section \<open>Schemas\<close>

definition token_field :: "jval \<Rightarrow> js_error + string" where
  "token_field body =
     (case jfield ''token'' body of
        Some (JStr t) \<Rightarrow> if t \<noteq> [] then Inr t else Inl (ZodFailure ''token'')
      | _ \<Rightarrow> Inl (ZodFailure ''token''))"

definition string_field :: "string \<Rightarrow> nat \<Rightarrow> jval \<Rightarrow> js_error + string" where
  "string_field k n body =
     (case jfield k body of
        Some (JStr t) \<Rightarrow> if 1 \<le> length t \<and> length t \<le> n then Inr t else Inl (ZodFailure k)
      | _ \<Rightarrow> Inl (ZodFailure k))"

definition RequestTokenSchema :: "jval \<Rightarrow> js_error + string \<times> string" where
  "RequestTokenSchema body =
     (case string_field ''action'' 64 body of
        Inl e \<Rightarrow> Inl e
      | Inr a \<Rightarrow> (case string_field ''resourceId'' 128 body of Inl e \<Rightarrow> Inl e | Inr r \<Rightarrow> Inr (a, r)))"

definition ForceResolveSchema :: "jval \<Rightarrow> js_error + string \<times> payment_status" where
  "ForceResolveSchema body =
     (case token_field body of
        Inl e \<Rightarrow> Inl e
      | Inr t \<Rightarrow>
          if jfield ''targetStatus'' body = Some (JStr ''confirmed'') then Inr (t, Confirmed)
          else if jfield ''targetStatus'' body = Some (JStr ''failed'') then Inr (t, Failed)
          else Inl (ZodFailure ''targetStatus''))"

definition ReconciliationSchema :: "jval \<Rightarrow> js_error + string \<times> bool" where
  "ReconciliationSchema body =
     (case token_field body of
        Inl e \<Rightarrow> Inl e
      | Inr t \<Rightarrow>
          (case jfield ''dryRun'' body of
             None \<Rightarrow> Inr (t, False)
           | Some (JBool b) \<Rightarrow> Inr (t, b)
           | Some _ \<Rightarrow> Inl (ZodFailure ''dryRun'')))"

section \<open>Handlers\<close>

definition AdminController_requestToken ::
    "('d, 'c, 'l) admin_stores \<Rightarrow> admin_request \<Rightarrow> rat option \<Rightarrow> string \<Rightarrow> string \<Rightarrow> jval \<Rightarrow>
     ('d, 'c, 'l) admin_state \<Rightarrow> (js_error + string \<times> int) \<times> ('d, 'c, 'l) admin_state" where
  "AdminController_requestToken S rq ttl docId rawToken body s =
     (case RequestTokenSchema body of
        Inl e \<Rightarrow> (Inl e, s)
      | Inr (action, resourceId) \<Rightarrow>
          (case requestToken (ds_tokens S) (ds_hash S) ttl docId rawToken (rq_now rq) (rq_adminId rq)
                  action resourceId (ad_tokens s) of
             (x, c) \<Rightarrow> (x, s\<lparr>ad_tokens := c\<rparr>)))"

text \<open>The token is consumed before the rest of a handler, \<open>body\<close>, runs.\<close>

definition with_token ::
    "('d, 'c, 'l) admin_stores \<Rightarrow> admin_request \<Rightarrow> string \<Rightarrow> string \<Rightarrow> string \<Rightarrow>
     (('d, 'c, 'l) admin_state \<Rightarrow> (js_error + 'a) \<times> ('d, 'c, 'l) admin_state) \<Rightarrow>
     ('d, 'c, 'l) admin_state \<Rightarrow> (js_error + 'a) \<times> ('d, 'c, 'l) admin_state" where
  "with_token S rq token action resourceId body s =
     (case verifyAndConsumeToken (ds_tokens S) (ds_hash S) (rq_now rq) token action resourceId
             (rq_adminId rq) (ad_tokens s) of
        (Inl e, c) \<Rightarrow> (Inl e, s\<lparr>ad_tokens := c\<rparr>)
      | (Inr _, c) \<Rightarrow> body (s\<lparr>ad_tokens := c\<rparr>))"

definition on_pay ::
    "('d pay_state \<Rightarrow> (js_error + 'a) \<times> 'd pay_state) \<Rightarrow> ('d, 'c, 'l) admin_state \<Rightarrow>
     (js_error + 'a) \<times> ('d, 'c, 'l) admin_state" where
  "on_pay f s = (case f (ad_pay s) of (x, p) \<Rightarrow> (x, s\<lparr>ad_pay := p\<rparr>))"

definition force_patch :: "payment_status \<Rightarrow> int \<Rightarrow> tx_patch" where
  "force_patch target now = empty_patch\<lparr>p_status := Some target,
     p_confirmedAt := Some (if target = Confirmed then Some now else None),
     p_errorMessage := Some (if target = Failed then Some ''Force-resolved by admin'' else None),
     p_updatedAt := Some now\<rparr>"

definition forceResolveTransaction ::
    "('d, 'c, 'l) admin_stores \<Rightarrow> admin_request \<Rightarrow> string \<Rightarrow> jval \<Rightarrow> ('d, 'c, 'l) admin_state \<Rightarrow>
     (js_error + tx_record) \<times> ('d, 'c, 'l) admin_state" where
  "forceResolveTransaction S rq i body s =
     (case ForceResolveSchema body of
        Inl e \<Rightarrow> (Inl e, s)
      | Inr (token, target) \<Rightarrow>
          with_token S rq token ''force_resolve'' i
            (audited S rq ''force_resolve'' ''transaction'' i (\<lambda>_. Some (TargetStatus target))
               (on_pay (db_update (ds_repo S) i (force_patch target (rq_now rq)) (rq_now rq)))) s)"

definition resubmit_patch :: "int \<Rightarrow> tx_patch" where
  "resubmit_patch now = empty_patch\<lparr>p_status := Some Queued, p_attempts := Some 0,
     p_errorMessage := Some None, p_updatedAt := Some now\<rparr>"

definition resubmitTransaction ::
    "('d, 'c, 'l) admin_stores \<Rightarrow> admin_request \<Rightarrow> string \<Rightarrow> jval \<Rightarrow> ('d, 'c, 'l) admin_state \<Rightarrow>
     (js_error + tx_record) \<times> ('d, 'c, 'l) admin_state" where
  "resubmitTransaction S rq i body s =
     (case token_field body of
        Inl e \<Rightarrow> (Inl e, s)
      | Inr token \<Rightarrow>
          with_token S rq token ''resubmit'' i
            (audited S rq ''resubmit'' ''transaction'' i (\<lambda>_. None)
               (on_pay (db_update (ds_repo S) i (resubmit_patch (rq_now rq)) (rq_now rq)))) s)"

definition reindexPool ::
    "('d, 'c, 'l) admin_stores \<Rightarrow> admin_request \<Rightarrow> string \<Rightarrow> jval \<Rightarrow> ('d, 'c, 'l) admin_state \<Rightarrow>
     (js_error + string) \<times> ('d, 'c, 'l) admin_state" where
  "reindexPool S rq i body s =
     (case token_field body of
        Inl e \<Rightarrow> (Inl e, s)
      | Inr token \<Rightarrow>
          with_token S rq token ''reindex_pool'' i
            (\<lambda>s. case admin_log S (audit_entry rq (rq_logId rq) ''reindex_pool'' ''pool'' i AuditSuccess None None) s of
                    (Inl e, s1) \<Rightarrow> (Inl e, s1)
                  | (Inr _, s1) \<Rightarrow> (Inr i, s1)) s)"

text \<open>The loop: \<open>k\<close> is the number of the call, which sees the environment \<open>envs k\<close>.\<close>

fun recon_loop ::
    "'d tx_repo \<Rightarrow> (nat \<Rightarrow> ('acct, 'tx, 'sc) rpc_env) \<Rightarrow> nat \<Rightarrow> tx_record list \<Rightarrow> nat \<times> nat \<Rightarrow> 'd pay_state \<Rightarrow>
     (js_error + nat \<times> nat) \<times> 'd pay_state" where
  "recon_loop R envs k [] acc s = (Inr acc, s)"
| "recon_loop R envs k (t # ts) (confirmed, failed) s =
     (case confirmSubmittedTransaction R (envs k) (tx_id t) s of
        (Inl e, s1) \<Rightarrow> (Inl e, s1)
      | (Inr u, s1) \<Rightarrow>
          recon_loop R envs (Suc k) ts
            (if tx_status u = Confirmed then (confirmed + 1, failed)
             else if tx_status u = Failed then (confirmed, failed + 1) else (confirmed, failed)) s1)"

definition reconcile ::
    "'d tx_repo \<Rightarrow> (nat \<Rightarrow> ('acct, 'tx, 'sc) rpc_env) \<Rightarrow> bool \<Rightarrow> 'd pay_state \<Rightarrow>
     (js_error + recon_result) \<times> 'd pay_state" where
  "reconcile R envs dryRun s =
     (let submitted = repo_listByStatus R [Submitted] 500 (py_db s) in
      (case (if dryRun then (Inr (0, 0), s) else recon_loop R envs 0 submitted (0, 0) s) of
         (Inl e, s1) \<Rightarrow> (Inl e, s1)
       | (Inr (confirmed, failed), s1) \<Rightarrow>
           (Inr \<lparr>rr_checked = length submitted, rr_confirmed = confirmed, rr_failed = failed, rr_dryRun = dryRun\<rparr>, s1)))"

definition runReconciliation ::
    "('d, 'c, 'l) admin_stores \<Rightarrow> admin_request \<Rightarrow> (nat \<Rightarrow> ('acct, 'tx, 'sc) rpc_env) \<Rightarrow> jval \<Rightarrow>
     ('d, 'c, 'l) admin_state \<Rightarrow> (js_error + recon_result) \<times> ('d, 'c, 'l) admin_state" where
  "runReconciliation S rq envs body s =
     (case ReconciliationSchema body of
        Inl e \<Rightarrow> (Inl e, s)
      | Inr (token, dryRun) \<Rightarrow>
          with_token S rq token ''reconciliation'' ''global''
            (audited S rq ''reconciliation'' ''global'' ''global'' (\<lambda>r. Some (ReconRun r))
               (on_pay (reconcile (ds_repo S) envs dryRun))) s)"

text \<open>The parsed query: a limit from 1 to 200 and the two filters.\<close>

definition listAuditLogs ::
    "('d, 'c, 'l) admin_stores \<Rightarrow> nat \<Rightarrow> string option \<Rightarrow> string option \<Rightarrow> ('d, 'c, 'l) admin_state \<Rightarrow>
     audit_doc list \<times> nat" where
  "listAuditLogs S lm action adminId s =
     (let P = (\<lambda>d. (case action of None \<Rightarrow> True | Some a \<Rightarrow> al_action d = a) \<and>
                   (case adminId of None \<Rightarrow> True | Some a \<Rightarrow> al_adminId d = a))
      in (take lm (sort_key (\<lambda>d. - al_createdAt d) (c_find (ds_logs S) P (ad_logs s))),
          length (c_find (ds_logs S) P (ad_logs s))))"

section \<open>One entry for each action\<close>

lemma admin_log_frame: "admin_log S d s = (x, s') \<Longrightarrow> ad_pay s' = ad_pay s \<and> ad_tokens s' = ad_tokens s"
  by (auto simp: admin_log_def split: prod.splits)

text \<open>Whether an entry for the request can be written: its id is new.\<close>

locale audit_log = collection "ds_logs S" conflict
  for S :: "('d, 'c, 'l) admin_stores" and conflict
begin

lemma admin_log_written:
  assumes "\<not> conflict d (c_all (ds_logs S) (ad_logs s))"
  shows "\<exists>s'. admin_log S d s = (Inr (), s') \<and> c_all (ds_logs S) (ad_logs s') = c_all (ds_logs S) (ad_logs s) @ [d]"
  using create_ok [OF assms] by (auto simp: admin_log_def)

lemma audited_entry:
  assumes body: "ad_logs (snd (body s)) = ad_logs s"
    and free: "\<And>i st md em. i \<in> {rq_logId rq, rq_failId rq} \<Longrightarrow>
      \<not> conflict (audit_entry rq i action ty resource st md em) (c_all (ds_logs S) (ad_logs s))"
    and run: "audited S rq action ty resource md body s = (r, s')"
  shows "r = fst (body s) \<and> ad_pay s' = ad_pay (snd (body s)) \<and>
    c_all (ds_logs S) (ad_logs s') = c_all (ds_logs S) (ad_logs s) @
      [case r of Inl e \<Rightarrow> audit_entry rq (rq_failId rq) action ty resource AuditFailed None (Some (error_text e))
               | Inr v \<Rightarrow> audit_entry rq (rq_logId rq) action ty resource AuditSuccess (md v) None]"
proof (cases "fst (body s)")
  case (Inl e)
  let ?d = "audit_entry rq (rq_failId rq) action ty resource AuditFailed None (Some (error_text e))"
  have "\<not> conflict ?d (c_all (ds_logs S) (ad_logs (snd (body s))))" using free body by simp
  then obtain s2 where s2: "admin_log S ?d (snd (body s)) = (Inr (), s2)"
      "c_all (ds_logs S) (ad_logs s2) = c_all (ds_logs S) (ad_logs (snd (body s))) @ [?d]"
    using admin_log_written by blast
  have b: "body s = (Inl e, snd (body s))" by (metis Inl prod.collapse)
  have "(r, s') = (Inl e, s2)" using run unfolding audited_def Let_def by (subst (asm) b) (simp add: s2(1))
  with s2 admin_log_frame [OF s2(1)] body Inl show ?thesis by simp
next
  case (Inr v)
  let ?d = "audit_entry rq (rq_logId rq) action ty resource AuditSuccess (md v) None"
  have "\<not> conflict ?d (c_all (ds_logs S) (ad_logs (snd (body s))))" using free body by simp
  then obtain s2 where s2: "admin_log S ?d (snd (body s)) = (Inr (), s2)"
      "c_all (ds_logs S) (ad_logs s2) = c_all (ds_logs S) (ad_logs (snd (body s))) @ [?d]"
    using admin_log_written by blast
  have b: "body s = (Inr v, snd (body s))" by (metis Inr prod.collapse)
  have "(r, s') = (Inr v, s2)" using run unfolding audited_def Let_def by (subst (asm) b) (simp add: s2(1))
  with s2 admin_log_frame [OF s2(1)] body Inr show ?thesis by simp
qed

end

lemma on_pay_frame [simp]: "ad_logs (snd (on_pay f s)) = ad_logs s" "ad_tokens (snd (on_pay f s)) = ad_tokens s"
  by (simp_all add: on_pay_def split: prod.split)

lemma on_pay_sel: "fst (on_pay f s) = fst (f (ad_pay s))" "ad_pay (snd (on_pay f s)) = snd (f (ad_pay s))"
  by (simp_all add: on_pay_def split: prod.split)

text \<open>A refused token: nothing but the error.\<close>

lemma verify_error_frame:
  "verifyAndConsumeToken CC hash now raw action resource admin c = (Inl e, c') \<Longrightarrow> c' = c"
  by (auto simp: verifyAndConsumeToken_def split: option.splits if_splits)

section \<open>Properties of the administration\<close>

text \<open>
  The results on the administration, and the stores of lists on which they are instantiated.
\<close>

definition audit_conflict :: "audit_doc \<Rightarrow> audit_doc list \<Rightarrow> bool" where
  "audit_conflict d ds \<longleftrightarrow> al_id d \<in> al_id ` set ds"

definition list_admin :: "(mem_repo, confirmation_doc list, audit_doc list) admin_stores" where
  "list_admin = \<lparr>ds_repo = mem_tx_repo, ds_tokens = list_coll confirmation_conflict,
     ds_logs = list_coll audit_conflict, ds_hash = id\<rparr>"

lemma list_admin_sel [simp]: "ds_repo list_admin = mem_tx_repo" "ds_hash list_admin = id"
  "ds_tokens list_admin = list_coll confirmation_conflict" "ds_logs list_admin = list_coll audit_conflict"
  by (simp_all add: list_admin_def)

interpretation list_audit: audit_log list_admin audit_conflict
  by (rule audit_log.intro) (simp add: list_coll.collection_axioms)


definition toy_admin_request :: admin_request where
  "toy_admin_request = \<lparr>rq_adminId = ''adm'', rq_ip = None, rq_userAgent = None, rq_now = 50,
     rq_logId = ''g1'', rq_failId = ''g2''\<rparr>"

definition toy_admin_state :: "string \<Rightarrow> payment_status \<Rightarrow> (mem_repo, confirmation_doc list, audit_doc list) admin_state" where
  "toy_admin_state action st = \<lparr>ad_pay = demo_state [sample_tx ''a'' ''k1'' 1 st],
     ad_tokens = [\<lparr>ct_id = ''c1'', ct_adminId = ''adm'', ct_tokenHash = ''tok'', ct_action = action,
       ct_resourceId = ''a'', ct_used = False, ct_expiresAt = 100\<rparr>],
     ad_logs = []\<rparr>"

definition toy_force_body :: jval where
  "toy_force_body = JObj [(''token'', JStr ''tok''), (''targetStatus'', JStr ''failed'')]"

lemma toy_verify:
  "\<exists>c. verifyAndConsumeToken (list_coll confirmation_conflict) id (rq_now toy_admin_request) ''tok'' action ''a''
     (rq_adminId toy_admin_request) (ad_tokens (toy_admin_state action st)) = (Inr (), c)"
  by (simp add: verifyAndConsumeToken_def c_findOne_def toy_admin_state_def toy_admin_request_def)


text \<open>
  The admin's resubmit does not look at the status: a payout that is confirmed on the chain is put
  back in the queue with its attempts reset and its signed envelope kept, so the workers take it up
  again, unlike any operation of the payment service.
\<close>

theorem resubmit_requeues_confirmed:
  assumes "tx_repository (ds_repo S) I ok" and "audit_log S audit_conflict"
    and "rq_logId rq \<notin> al_id ` set (c_all (ds_logs S) (ad_logs s))"
    and "I (py_db (ad_pay s))" and "ok Queued"
    and "repo_findById (ds_repo S) i (py_db (ad_pay s)) = Some t" and "tx_status t = Confirmed"
    and "token_field body = Inr token"
    and "verifyAndConsumeToken (ds_tokens S) (ds_hash S) (rq_now rq) token ''resubmit'' i (rq_adminId rq)
      (ad_tokens s) = (Inr (), c)"
  shows "\<exists>u s'. resubmitTransaction S rq i body s = (Inr u, s') \<and>
    repo_findById (ds_repo S) i (py_db (ad_pay s')) = Some u \<and>
    tx_status u = Queued \<and> tx_attempts u = 0 \<and> tx_signedXdr u = tx_signedXdr t"
proof -
  let ?p = "resubmit_patch (rq_now rq)"
  have "\<And>st. p_status ?p = Some st \<Longrightarrow> ok st" using assms(5) by (simp add: resubmit_patch_def)
  from tx_repository.update_found [OF assms(1,4,6) this] obtain u d where
    u: "repo_update (ds_repo S) i ?p (rq_now rq) (py_db (ad_pay s)) = (Inr u, d)"
      "no_times u = no_times (apply_patch ?p t)" "repo_findById (ds_repo S) i d = Some u"
    by (metis (full_types))
  let ?b = "on_pay (db_update (ds_repo S) i ?p (rq_now rq))"
  let ?s = "s\<lparr>ad_tokens := c\<rparr>"
  have b: "?b ?s = (Inr u, ?s\<lparr>ad_pay := (ad_pay s)\<lparr>py_db := d\<rparr>\<rparr>)"
    by (simp add: on_pay_def db_update_def u(1))
  let ?e = "audit_entry rq (rq_logId rq) ''resubmit'' ''transaction'' i AuditSuccess None None"
  have "\<not> audit_conflict ?e (c_all (ds_logs S) (ad_logs (snd (?b ?s))))"
    using assms(3) by (simp add: audit_conflict_def audit_entry_def)
  then obtain s2 where s2: "admin_log S ?e (snd (?b ?s)) = (Inr (), s2)"
    using audit_log.admin_log_written [OF assms(2)] by blast
  have "resubmitTransaction S rq i body s = (Inr u, s2)"
    using s2 by (simp add: resubmitTransaction_def assms(8) with_token_def assms(9) audited_def Let_def b)
  moreover have "ad_pay s2 = (ad_pay s)\<lparr>py_db := d\<rparr>" using admin_log_frame [OF s2] by (simp add: b)
  ultimately show ?thesis
    using u(3) no_times_eqD [OF u(2)] by (simp add: resubmit_patch_def empty_patch_def)
qed

theorem resubmit_requeues_confirmed_witness:
  "\<exists>u s'. resubmitTransaction list_admin toy_admin_request ''a'' (JObj [(''token'', JStr ''tok'')])
      (toy_admin_state ''resubmit'' Confirmed) = (Inr u, s') \<and> tx_status u = Queued"
proof -
  let ?s = "toy_admin_state ''resubmit'' Confirmed" and ?t = "sample_tx ''a'' ''k1'' 1 Confirmed"
  obtain c where c: "verifyAndConsumeToken (ds_tokens list_admin) (ds_hash list_admin) (rq_now toy_admin_request)
      ''tok'' ''resubmit'' ''a'' (rq_adminId toy_admin_request) (ad_tokens ?s) = (Inr (), c)"
    using toy_verify [of "''resubmit''" Confirmed] by auto
  have p: "ad_pay ?s = demo_state [?t]" "ad_logs ?s = []" by (simp_all add: toy_admin_state_def)
  have i: "mem_inv (py_db (ad_pay ?s))" unfolding p by (rule demo_inv) (simp add: sample_tx_def)
  have f: "repo_findById (ds_repo list_admin) ''a'' (py_db (ad_pay ?s)) = Some ?t" "tx_status ?t = Confirmed"
    unfolding p list_admin_sel demo_find by (simp_all add: sample_tx_def)
  have k: "token_field (JObj [(''token'', JStr ''tok'')]) = Inr ''tok''" by (simp add: token_field_def)
  from resubmit_requeues_confirmed [of list_admin mem_inv "\<lambda>_. True", OF _ list_audit.audit_log_axioms _ i TrueI f k c]
    mem.tx_repository_axioms p show ?thesis by auto
qed

end
