(* ===== verification/ContractErrors.thy ===== *)
theory ContractErrors
  imports Prelude
begin

text \<open>
  The errors of the frontend's contract calls: \<open>ContractError\<close> and \<open>parseContractError\<close> of
  frontend/src/shared-d/utils/contract-error.ts and the messages of contract-error-registry.ts. The
  field \<open>cause\<close> of an error, which nothing reads, is left out.
\<close>

section \<open>Errors\<close>

datatype contract_error_code =
    VALIDATION_FAILED | ACCOUNT_NOT_FOUND | SIMULATION_FAILED | TRANSACTION_FAILED | TRANSACTION_TIMEOUT
  | USER_REJECTED | INSUFFICIENT_FUNDS | BAD_AUTH | CONFIG_MISSING | UNKNOWN

fun DEFAULT_MESSAGES :: "contract_error_code \<Rightarrow> string" where
  "DEFAULT_MESSAGES VALIDATION_FAILED = ''Invalid input. Please check the values and try again.''"
| "DEFAULT_MESSAGES ACCOUNT_NOT_FOUND = ''Account not found on network. Please fund it first.''"
| "DEFAULT_MESSAGES SIMULATION_FAILED = ''Contract simulation failed. The transaction may not be valid.''"
| "DEFAULT_MESSAGES TRANSACTION_FAILED = ''Transaction was rejected by the network.''"
| "DEFAULT_MESSAGES TRANSACTION_TIMEOUT = ''Transaction timed out waiting for confirmation. Please try again.''"
| "DEFAULT_MESSAGES USER_REJECTED = ''Transaction was cancelled by the user.''"
| "DEFAULT_MESSAGES INSUFFICIENT_FUNDS = ''Insufficient balance to cover the transaction and fees.''"
| "DEFAULT_MESSAGES BAD_AUTH = ''Invalid or unauthorized transaction. Please check your wallet permissions.''"
| "DEFAULT_MESSAGES CONFIG_MISSING = ''Required configuration is missing. Please check your environment setup.''"
| "DEFAULT_MESSAGES UNKNOWN = ''An unknown error occurred during the transaction.''"

record contract_error =
  ce_code :: contract_error_code
  ce_message :: string
  ce_fn :: string
  ce_hash :: "string option"

definition new_ContractError :: "contract_error_code \<Rightarrow> string option \<Rightarrow> string \<Rightarrow> string option \<Rightarrow> contract_error" where
  "new_ContractError code message fn hash =
     \<lparr>ce_code = code, ce_message = (case message of None \<Rightarrow> DEFAULT_MESSAGES code | Some m \<Rightarrow> m),
      ce_fn = fn, ce_hash = hash\<rparr>"

text \<open>
  What may be thrown. A \<open>ZodErr\<close> has its message and the messages of its issues; \<open>HorizonErr\<close> is
  \<open>HorizonAccountFetchError\<close>, \<open>OtherErr\<close> any other \<open>Error\<close>. A property of a plain object is a
  string, or a value of which only \<open>String(value)\<close> matters; \<open>Other\<close> is the text of what is
  none of these (empty for \<open>null\<close> and \<open>undefined\<close>).
\<close>

datatype obj_prop = PString string | PValue string

datatype thrown =
    Contract contract_error
  | ZodErr string "string list"
  | HorizonErr nat string
  | OtherErr string
  | Text string
  | Obj "(string \<times> obj_prop) list"
  | Other string

section \<open>The registry\<close>

definition CONTRACT_PANIC_USER_MESSAGES :: "(nat \<times> string) list" where
  "CONTRACT_PANIC_USER_MESSAGES =
    [(1, ''You do not have permission to perform this action.''),
     (2, ''Cannot cancel a game that has already started.''),
     (3, ''This arena has not been initialized yet.''),
     (4, ''This action cannot be done in the current round state.''),
     (5, ''The round has not started yet.''),
     (6, ''The grace period for this round has not elapsed yet.''),
     (7, ''Your revealed choice and salt do not match your commitment.''),
     (8, ''You have not submitted a commitment for this round.''),
     (9, ''You have already revealed your choice for this round.''),
     (10, ''This arena has already been initialized.''),
     (11, ''The game is not finished yet.''),
     (12, ''You have already claimed your prize.''),
     (13, ''You have been eliminated from this arena.''),
     (14, ''There is no pending admin transfer to accept.''),
     (15, ''The vault address provided is invalid.''),
     (16, ''The contract is paused. State-changing actions are temporarily disabled.''),
     (17, ''This action cannot be performed in the current arena state.''),
     (18, ''This arena has not been initialized yet.''),
     (19, ''Not enough players to start a round. At least 2 active players are required.''),
     (20, ''You have been banned from joining arenas.''),
     (21, ''You cannot join your own arena.''),
     (22, ''This arena is full. No more players can join.''),
     (23, ''Invalid player limits configured.''),
     (24, ''A reentrant call was detected. Please wait for the current operation to finish.''),
     (25, ''You have already claimed your refund.''),
     (26, ''You can only claim a refund when the arena has been cancelled.''),
     (27, ''You are not registered as a player in this arena.''),
     (28, ''The required deadline has not passed yet. Please wait.''),
     (29, ''You have already joined this arena.''),
     (30, ''The upgrade timelock has not elapsed yet. Please wait.''),
     (31, ''No pending upgrade was found. Propose an upgrade first.''),
     (32, ''The entry fee must be greater than zero.''),
     (33, ''The commitment phase has ended. You can no longer submit choices for this round.''),
     (34, ''Invalid round duration. Please check the duration parameter.''),
     (35, ''Vault deposit failed. The token transfer has been rolled back.''),
     (100, ''Stake amount does not meet the rules for creating a pool.''),
     (101, ''This token is not supported for pool creation.'')]"

definition formatContractPanicMessage :: "nat \<Rightarrow> string option \<Rightarrow> string" where
  "formatContractPanicMessage code knownMessage =
     (case knownMessage of
        None \<Rightarrow> ''The contract could not complete this action. See contract/ERRORS.md for code definitions.''
      | Some m \<Rightarrow> m) @ '' (on-chain code '' @ dec_digits code @ '')''"

definition userMessageForContractPanicCode :: "nat \<Rightarrow> string" where
  "userMessageForContractPanicCode code =
     formatContractPanicMessage code (map_of CONTRACT_PANIC_USER_MESSAGES code)"

section \<open>Messages\<close>

fun prop_text :: "obj_prop \<Rightarrow> string" where
  "prop_text (PString s) = s"
| "prop_text (PValue s) = s"

fun extractMessage :: "thrown \<Rightarrow> string" where
  "extractMessage (Contract e) = ce_message e"
| "extractMessage (ZodErr m iss) = m"
| "extractMessage (HorizonErr st m) = m"
| "extractMessage (OtherErr m) = m"
| "extractMessage (Text s) = s"
| "extractMessage (Obj ps) = (case map_of ps ''message'' of None \<Rightarrow> ''[object Object]'' | Some p \<Rightarrow> prop_text p)"
| "extractMessage (Other s) = s"

text \<open>The part of a regular expression after its fixed start: \<open>\s*#(\d+)\)\<close> and \<open>\s*(\w+)\)\<close>.\<close>

definition is_word_char :: "char \<Rightarrow> bool" where
  "is_word_char c \<longleftrightarrow> is_digit c \<or> is_upper c \<or> is_lower c \<or> c = CHR ''_''"

definition capture :: "(char \<Rightarrow> bool) \<Rightarrow> string \<Rightarrow> string option" where
  "capture P s =
     (let w = takeWhile P s in
      if w \<noteq> [] \<and> starts_with '')'' (dropWhile P s) then Some w else None)"

definition contract_tail :: "string \<Rightarrow> string option" where
  "contract_tail s =
     (case dropWhile is_space s of [] \<Rightarrow> None
      | c # cs \<Rightarrow> if c = CHR ''#'' then capture is_digit cs else None)"

definition wasm_tail :: "string \<Rightarrow> string option" where
  "wasm_tail s = capture is_word_char (dropWhile is_space s)"

text \<open>The first match of \<open>p\<close> followed by what \<open>rx\<close> matches.\<close>

fun first_match :: "string \<Rightarrow> (string \<Rightarrow> string option) \<Rightarrow> string \<Rightarrow> string option" where
  "first_match p rx [] = None"
| "first_match p rx (c # cs) =
     (case (if starts_with p (c # cs) then rx (drop (length p) (c # cs)) else None) of
        Some w \<Rightarrow> Some w
      | None \<Rightarrow> first_match p rx cs)"

definition parseHostError :: "string \<Rightarrow> string" where
  "parseHostError raw =
     (case first_match ''Error(Contract,'' contract_tail raw of
        Some d \<Rightarrow> userMessageForContractPanicCode (dec_val d)
      | None \<Rightarrow>
          (case first_match ''Error(WasmVm,'' wasm_tail raw of
             Some w \<Rightarrow> ''WASM VM error: '' @ w
           | None \<Rightarrow>
               if str_includes ''Budget'' raw \<or> str_includes ''budget'' raw
               then ''Transaction exceeded resource budget limits''
               else if str_includes ''Storage'' raw \<or> str_includes ''storage'' raw
               then ''Contract storage access error''
               else if length raw > 200 then take 200 raw @ ''...'' else raw))"

text \<open>The property \<open>error\<close> of an object; an \<open>Error\<close> has none.\<close>

fun error_prop :: "thrown \<Rightarrow> string option" where
  "error_prop (Obj ps) = (case map_of ps ''error'' of Some (PString s) \<Rightarrow> Some s | _ \<Rightarrow> None)"
| "error_prop _ = None"

fun message_prop :: "thrown \<Rightarrow> string option" where
  "message_prop (Obj ps) = (case map_of ps ''message'' of Some (PString s) \<Rightarrow> Some s | _ \<Rightarrow> None)"
| "message_prop (Text _) = None"
| "message_prop (Other _) = None"
| "message_prop e = Some (extractMessage e)"

definition isSimulationError :: "thrown \<Rightarrow> bool" where
  "isSimulationError e \<longleftrightarrow> error_prop e \<noteq> None \<or>
     (case message_prop e of None \<Rightarrow> False
      | Some m \<Rightarrow> str_includes ''HostError'' m \<or> str_includes ''Error(Contract'' m \<or> str_includes ''Error(WasmVm'' m)"

fun is_object :: "thrown \<Rightarrow> bool" where
  "is_object (Text _) = False"
| "is_object (Other _) = False"
| "is_object _ = True"

definition extractSimulationDetail :: "thrown \<Rightarrow> string option" where
  "extractSimulationDetail e =
     (if \<not> is_object e then None
      else (case error_prop e of
              Some s \<Rightarrow> Some (parseHostError s)
            | None \<Rightarrow>
                let msg = extractMessage e in
                if str_includes ''Error(Contract'' msg \<or> str_includes ''HostError'' msg
                then Some (parseHostError msg) else None))"

fun join :: "string \<Rightarrow> string list \<Rightarrow> string" where
  "join sep [] = []"
| "join sep [s] = s"
| "join sep (s # t # ss) = s @ sep @ join sep (t # ss)"

section \<open>parseContractError\<close>

definition parse_message :: "thrown \<Rightarrow> string \<Rightarrow> string \<Rightarrow> contract_error" where
  "parse_message e msg fn =
     (if isSimulationError e \<or> str_includes ''simulation'' msg
      then (case extractSimulationDetail e of
              Some d \<Rightarrow>
                new_ContractError SIMULATION_FAILED
                  (if d \<noteq> [] then Some (''Contract simulation failed: '' @ d) else None) fn None
            | None \<Rightarrow> new_ContractError SIMULATION_FAILED None fn None)
      else if str_includes ''User rejected'' msg \<or> str_includes ''user cancel'' msg
      then new_ContractError USER_REJECTED None fn None
      else if str_includes ''op_underfunded'' msg \<or> str_includes ''insufficient'' msg
      then new_ContractError INSUFFICIENT_FUNDS None fn None
      else if str_includes ''tx_bad_auth'' msg then new_ContractError BAD_AUTH None fn None
      else if str_includes ''tx_too_late'' msg then new_ContractError TRANSACTION_TIMEOUT None fn None
      else if str_includes ''Account not found'' msg \<or> str_includes ''status 404'' msg
      then new_ContractError ACCOUNT_NOT_FOUND None fn None
      else if str_includes ''Transaction failed'' msg \<or> str_includes ''validation failed'' msg
      then new_ContractError TRANSACTION_FAILED (Some msg) fn None
      else (case e of
              ZodErr m iss \<Rightarrow>
                new_ContractError VALIDATION_FAILED (Some (''Validation failed: '' @ join ''; '' iss)) fn None
            | _ \<Rightarrow> new_ContractError UNKNOWN (if msg \<noteq> [] then Some msg else None) fn None))"

definition parseContractError :: "thrown \<Rightarrow> string \<Rightarrow> contract_error" where
  "parseContractError e fn =
     (case e of Contract c \<Rightarrow> c | _ \<Rightarrow> parse_message e (extractMessage e) fn)"

definition parseStellarError :: "thrown \<Rightarrow> string" where
  "parseStellarError e =
     (case e of Contract c \<Rightarrow> ce_message c
      | _ \<Rightarrow> ce_message (parseContractError e ''parseStellarError''))"

section \<open>Lemmas\<close>

lemma parse_Contract [simp]: "parseContractError (Contract c) fn = c"
  by (simp add: parseContractError_def)

lemma new_ContractError_sel [simp]:
  "ce_code (new_ContractError code m fn h) = code" "ce_fn (new_ContractError code m fn h) = fn"
  "ce_hash (new_ContractError code m fn h) = h"
  "ce_message (new_ContractError code (Some s) fn h) = s"
  "ce_message (new_ContractError code None fn h) = DEFAULT_MESSAGES code"
  by (simp_all add: new_ContractError_def)

text \<open>Only a thrown \<open>ContractError\<close> carries a hash or the code \<open>CONFIG_MISSING\<close>.\<close>

definition fresh_error :: "string \<Rightarrow> contract_error \<Rightarrow> bool" where
  "fresh_error fn c \<longleftrightarrow> ce_fn c = fn \<and> ce_hash c = None \<and> ce_code c \<noteq> CONFIG_MISSING"

lemma fresh_error_intros:
  "code \<noteq> CONFIG_MISSING \<Longrightarrow> fresh_error fn (new_ContractError code m fn None)"
  "fresh_error fn a \<Longrightarrow> fresh_error fn b \<Longrightarrow> fresh_error fn (if c then a else b)"
  "fresh_error fn a \<Longrightarrow> (\<And>x. fresh_error fn (f x)) \<Longrightarrow> fresh_error fn (case d of Some x \<Rightarrow> f x | None \<Rightarrow> a)"
  by (simp_all add: fresh_error_def split: option.split)

lemma parse_message_fresh: "fresh_error fn (parse_message e msg fn)"
proof -
  have last: "fresh_error fn (case e of
      ZodErr m iss \<Rightarrow> new_ContractError VALIDATION_FAILED (f iss) fn None
    | _ \<Rightarrow> new_ContractError UNKNOWN g fn None)" for f g
    by (cases e) (simp_all add: fresh_error_intros(1))
  show ?thesis
    unfolding parse_message_def
    by (intro fresh_error_intros last) (rule contract_error_code.distinct)+
qed

lemma parse_wrapped: "\<forall>c. e \<noteq> Contract c \<Longrightarrow> fresh_error fn (parseContractError e fn)"
  using parse_message_fresh [of fn e "extractMessage e"]
  by (cases e) (simp_all add: parseContractError_def)

text \<open>The digits of a number are read back whatever follows the parenthesis.\<close>

lemma capture_digits: "capture is_digit (dec_digits n @ CHR '')'' # rest) = Some (dec_digits n)"
proof -
  have "takeWhile is_digit (dec_digits n @ CHR '')'' # rest) = dec_digits n"
    and "dropWhile is_digit (dec_digits n @ CHR '')'' # rest) = CHR '')'' # rest"
    using digits_are_digits [of n]
    by (simp_all add: takeWhile_append2 dropWhile_append2 list_all_iff is_digit_def in_range_def code_of_def)
  then show ?thesis by (simp add: capture_def dec_digits_nonempty)
qed

definition host_error :: "nat \<Rightarrow> string \<Rightarrow> string" where
  "host_error n rest = ''HostError: Error(Contract, #'' @ dec_digits n @ '')'' @ rest"

lemma host_error_match: "first_match ''Error(Contract,'' contract_tail (host_error n rest) = Some (dec_digits n)"
  using capture_digits [of n rest]
  by (simp add: host_error_def contract_tail_def is_space_def in_range_def code_of_def)

lemma parseHostError_code: "parseHostError (host_error n rest) = userMessageForContractPanicCode n"
  by (simp add: parseHostError_def host_error_match dec_digits_val)

end
