(* ===== verification/ScVals.thy ===== *)
theory ScVals
  imports Rounds ContractErrors "HOL-Library.Word"
begin

unbundle bit_operations_syntax

text \<open>
  Soroban values in the frontend: the readers of frontend/src/shared-d/utils/stellar-scval-extract.ts
  and contract-state-parsers.ts, the encoders of scval-helpers.ts and the schemas of
  security-validation.ts and stellar-transaction-schemas.ts. The type \<open>xdr.ScVal\<close> and the functions
  of the SDK that build one (\<open>scval_sdk\<close>) are not part of the repository.
\<close>

section \<open>Values\<close>

text \<open>
  The arms of \<open>ScVal\<close> that the code reads or builds. The parts of an \<open>i128\<close> are a signed and an
  unsigned 64-bit integer; \<open>map()\<close> may be null.
\<close>

datatype scval =
    ScU32 "32 word"
  | ScI128 "64 word" "64 word"
  | ScBool bool
  | ScSymbol string
  | ScAddress string
  | ScBytes "8 word list"
  | ScMap "(scval \<times> scval) list option"
  | ScOther string

fun find_entry :: "string \<Rightarrow> (scval \<times> scval) list \<Rightarrow> scval option" where
  "find_entry k [] = None"
| "find_entry k ((key, v) # es) = (if key = ScSymbol k then Some v else find_entry k es)"

definition findMapValue :: "scval \<Rightarrow> string option \<Rightarrow> scval option" where
  "findMapValue v fieldName =
     (if \<not> truthy fieldName then Some v
      else (case v of ScMap (Some es) \<Rightarrow> find_entry (the fieldName) es | _ \<Rightarrow> None))"

definition extractU32FromScVal :: "scval \<Rightarrow> string option \<Rightarrow> int option" where
  "extractU32FromScVal v fieldName =
     (case findMapValue v fieldName of Some (ScU32 n) \<Rightarrow> Some (uint n) | _ \<Rightarrow> None)"

text \<open>\<open>(hi << 64n) | lo\<close>\<close>

definition extractI128FromScVal :: "scval \<Rightarrow> string option \<Rightarrow> int option" where
  "extractI128FromScVal v fieldName =
     (case findMapValue v fieldName of Some (ScI128 hi lo) \<Rightarrow> Some (push_bit 64 (sint hi) OR uint lo) | _ \<Rightarrow> None)"

definition extractBoolFromScVal :: "scval \<Rightarrow> string option \<Rightarrow> bool option" where
  "extractBoolFromScVal v fieldName =
     (case findMapValue v fieldName of Some (ScBool b) \<Rightarrow> Some b | _ \<Rightarrow> None)"

definition stroopsToDisplayAmount :: "int \<Rightarrow> rat" where
  "stroopsToDisplayAmount v = of_int v / 10000000"

record arena_state =
  ar_survivors :: int
  ar_capacity :: int
  ar_round :: int
  ar_stakes :: int
  ar_payouts :: int

record user_state =
  ur_active :: bool
  ur_won :: bool

definition get_or :: "'a \<Rightarrow> 'a option \<Rightarrow> 'a" where
  "get_or d x = (case x of None \<Rightarrow> d | Some v \<Rightarrow> v)"

definition parseArenaStateFromScVal :: "scval \<Rightarrow> arena_state" where
  "parseArenaStateFromScVal v =
     \<lparr>ar_survivors = get_or 0 (extractU32FromScVal v (Some ''survivors_count'')),
      ar_capacity = get_or 0 (extractU32FromScVal v (Some ''max_capacity'')),
      ar_round = get_or 0 (extractU32FromScVal v (Some ''round_number'')),
      ar_stakes = get_or 0 (extractI128FromScVal v (Some ''current_stake'')),
      ar_payouts = get_or 0 (extractI128FromScVal v (Some ''potential_payout''))\<rparr>"

definition parseUserStateFromScVal :: "scval \<Rightarrow> user_state" where
  "parseUserStateFromScVal v =
     \<lparr>ur_active = get_or False (extractBoolFromScVal v (Some ''is_active'')),
      ur_won = get_or False (extractBoolFromScVal v (Some ''has_won''))\<rparr>"

record display_state =
  dp_survivorsCount :: int
  dp_maxCapacity :: int
  dp_currentStake :: rat
  dp_potentialPayout :: rat
  dp_roundNumber :: int
  dp_currentStakeStroops :: int
  dp_potentialPayoutStroops :: int

definition buildArenaDisplayState :: "arena_state \<Rightarrow> display_state" where
  "buildArenaDisplayState s =
     \<lparr>dp_survivorsCount = ar_survivors s, dp_maxCapacity = ar_capacity s,
      dp_currentStake = stroopsToDisplayAmount (ar_stakes s),
      dp_potentialPayout = stroopsToDisplayAmount (ar_payouts s), dp_roundNumber = ar_round s,
      dp_currentStakeStroops = ar_stakes s, dp_potentialPayoutStroops = ar_payouts s\<rparr>"

section \<open>Schemas\<close>

text \<open>
  A schema gives the parsed value or the messages of its issues. \<open>zod_text\<close>, a parameter of the
  schemas' callers, is the message that the library makes of them.
\<close>

type_synonym 'a parsed = "string list + 'a"

definition StellarPublicKeySchema :: "string \<Rightarrow> string parsed" where
  "StellarPublicKeySchema s =
     (if public_key_regex (js_trim s) then Inr (js_trim s) else Inl [''Invalid Stellar public key''])"

text \<open>\<open>/^C\.{3}[A-Z0-9_-]+$/\<close>, an abbreviated id, is accepted too.\<close>

definition short_contract_id :: "string \<Rightarrow> bool" where
  "short_contract_id s \<longleftrightarrow> starts_with ''C...'' s \<and>
     all_chars (\<lambda>c. is_upper c \<or> is_digit c \<or> c = CHR ''_'' \<or> c = CHR ''-'') (drop 4 s)"

definition StellarContractIdSchema :: "string \<Rightarrow> string parsed" where
  "StellarContractIdSchema s =
     (if contract_id_regex (js_trim s) \<or> short_contract_id (js_trim s) then Inr (js_trim s)
      else Inl [''Invalid Soroban contract id''])"

datatype round_choice = Heads | Tails

definition RoundChoiceSchema :: "string \<Rightarrow> round_choice parsed" where
  "RoundChoiceSchema s =
     (if s = ''Heads'' then Inr Heads else if s = ''Tails'' then Inr Tails else Inl [''Invalid option''])"

definition issues :: "(bool \<times> string) list \<Rightarrow> string list" where
  "issues checks = map snd (filter (\<lambda>(ok, m). \<not> ok) checks)"

definition schema_checked :: "(bool \<times> string) list \<Rightarrow> 'a \<Rightarrow> 'a parsed" where
  "schema_checked checks v = (if issues checks = [] then Inr v else Inl (issues checks))"

definition PositiveAmountSchema :: "rat \<Rightarrow> rat parsed" where
  "PositiveAmountSchema x =
     schema_checked [(0 < x, ''Amount must be greater than zero''),
              (x \<le> 1000000000, ''Amount exceeds maximum allowed value'')] x"

definition ArenaCapacitySchema :: "rat \<Rightarrow> int parsed" where
  "ArenaCapacitySchema x =
     (if x \<noteq> of_int \<lfloor>x\<rfloor> then Inl [''Invalid input'']
      else schema_checked [(2 \<le> x, ''Arena capacity is too small''), (x \<le> 10000, ''Arena capacity is too large'')] \<lfloor>x\<rfloor>)"

definition RoundNumberSchema :: "rat \<Rightarrow> nat parsed" where
  "RoundNumberSchema x =
     (if x \<noteq> of_int \<lfloor>x\<rfloor> then Inl [''Invalid input'']
      else schema_checked [(1 \<le> x, ''Round number must be >= 1''), (x \<le> 10000, ''Round number is too large'')] (nat \<lfloor>x\<rfloor>))"

definition SignedXdrSchema :: "string \<Rightarrow> string parsed" where
  "SignedXdrSchema s =
     schema_checked [(20 \<le> length (js_trim s), ''Signed XDR is too short''),
              (length (js_trim s) \<le> 200000, ''Signed XDR is too large'')] (js_trim s)"

record create_pool_params =
  cp_stakeAmount :: rat
  cp_currency :: string
  cp_roundSpeed :: string
  cp_arenaCapacity :: rat

text \<open>An object schema collects the issues of its fields in their order.\<close>

definition issues_of :: "'a parsed \<Rightarrow> string list" where
  "issues_of p = (case p of Inl iss \<Rightarrow> iss | Inr _ \<Rightarrow> [])"

definition CreatePoolParamsSchema :: "create_pool_params \<Rightarrow> create_pool_params parsed" where
  "CreatePoolParamsSchema p =
     (let iss = issues_of (PositiveAmountSchema (cp_stakeAmount p)) @
               (if cp_currency p \<in> {''USDC'', ''XLM''} then [] else [''Invalid option'']) @
               (if cp_roundSpeed p \<in> {''30S'', ''1M'', ''5M''} then [] else [''Invalid option'']) @
               issues_of (ArenaCapacitySchema (cp_arenaCapacity p))
      in if iss = [] then Inr p else Inl iss)"

section \<open>Encoders\<close>

text \<open>
  \<open>new Address(s).toScVal()\<close>, \<open>new Contract(s).address().toScVal()\<close> and \<open>nativeToScVal\<close> with the
  types \<open>i128\<close> and \<open>u32\<close>.
\<close>

record scval_sdk =
  sv_address :: "string \<Rightarrow> thrown + scval"
  sv_contract :: "string \<Rightarrow> thrown + scval"
  sv_i128 :: "int \<Rightarrow> thrown + scval"
  sv_u32 :: "int \<Rightarrow> thrown + scval"

definition encodeAddress :: "scval_sdk \<Rightarrow> string \<Rightarrow> thrown + scval" where
  "encodeAddress S address =
     (let trimmed = js_trim address in
      (case StellarPublicKeySchema trimmed of
         Inr k \<Rightarrow> sv_address S k
       | Inl _ \<Rightarrow>
           (case StellarContractIdSchema trimmed of
              Inr c \<Rightarrow> sv_contract S c
            | Inl _ \<Rightarrow> sv_address S trimmed)))"

text \<open>A \<open>bigint\<close>, or a number, which must be an integer.\<close>

datatype js_integer = BigInt int | Number rat

definition toBigInt :: "js_integer \<Rightarrow> string \<Rightarrow> thrown + int" where
  "toBigInt v label =
     (case v of
        BigInt i \<Rightarrow> Inr i
      | Number x \<Rightarrow> if x \<noteq> of_int \<lfloor>x\<rfloor> then Inl (OtherErr (label @ '' must be a finite integer number''))
                   else Inr \<lfloor>x\<rfloor>)"

definition encodeAmount :: "scval_sdk \<Rightarrow> js_integer \<Rightarrow> thrown + scval" where
  "encodeAmount S amount = (case toBigInt amount ''amount'' of Inl e \<Rightarrow> Inl e | Inr i \<Rightarrow> sv_i128 S i)"

definition encodeRound :: "scval_sdk \<Rightarrow> js_integer \<Rightarrow> thrown + scval" where
  "encodeRound S n =
     (case n of
        BigInt i \<Rightarrow> if i < 0 \<or> i > 0xffffffff then Inl (OtherErr ''round is out of u32 range'') else sv_u32 S i
      | Number x \<Rightarrow>
          if x \<noteq> of_int \<lfloor>x\<rfloor> then Inl (OtherErr ''round must be a finite integer number'')
          else if x < 0 \<or> x > 0xffffffff then Inl (OtherErr ''round is out of u32 range'')
          else sv_u32 S \<lfloor>x\<rfloor>)"

fun choice_name :: "round_choice \<Rightarrow> string" where
  "choice_name Heads = ''Heads''"
| "choice_name Tails = ''Tails''"

definition encodeChoice :: "round_choice \<Rightarrow> scval" where
  "encodeChoice c = ScSymbol (choice_name c)"

definition encodeBytes32 :: "8 word list \<Rightarrow> thrown + scval" where
  "encodeBytes32 bytes =
     (if length bytes \<noteq> 32
      then Inl (OtherErr (''expected exactly 32 bytes, got '' @ dec_digits (length bytes)))
      else Inr (ScBytes bytes))"

section \<open>128-bit integers\<close>

text \<open>The parts of a signed 128-bit integer.\<close>

definition i128_parts :: "int \<Rightarrow> scval" where
  "i128_parts i = ScI128 (word_of_int (i div 2 ^ 64)) (word_of_int i)"

lemma push_bit_or_uint: "push_bit 64 h OR uint (l :: 64 word) = h * 2 ^ 64 + uint l"
proof -
  have "push_bit 64 h AND uint l = 0"
  proof (rule bit_eqI)
    fix n
    have "\<not> bit (uint l) n" if "64 \<le> n" using that bit_imp_le_length [of l n] by (auto simp: bit_uint_iff)
    then show "bit (push_bit 64 h AND uint l) n \<longleftrightarrow> bit (0 :: int) n"
      by (auto simp: bit_and_iff bit_push_bit_iff)
  qed
  then have "push_bit 64 h OR uint l = push_bit 64 h + uint l"
    by (simp add: disjunctive_add_eq_or)
  then show ?thesis by (simp add: push_bit_eq_mult)
qed

lemma extract_i128_value:
  "extractI128FromScVal (ScI128 hi lo) None = Some (sint hi * 2 ^ 64 + uint lo)"
  by (simp add: extractI128FromScVal_def findMapValue_def push_bit_or_uint)

lemma sint_high_part:
  assumes "- (2 ^ 127) \<le> i" and "i < 2 ^ 127"
  shows "sint (word_of_int (i div 2 ^ 64) :: 64 word) = i div 2 ^ 64"
proof -
  have "- (2 ^ 63) \<le> i div 2 ^ 64" "i div 2 ^ 64 < 2 ^ 63" using assms by simp_all
  then show ?thesis by (simp add: sint_sbintrunc' signed_take_bit_int_eq_self)
qed

lemma i128_roundtrip:
  assumes "- (2 ^ 127) \<le> i" and "i < 2 ^ 127"
  shows "extractI128FromScVal (i128_parts i) None = Some i"
proof -
  have "uint (word_of_int i :: 64 word) = i mod 2 ^ 64" by (simp add: uint_word_of_int)
  with sint_high_part [OF assms] show ?thesis
    by (simp add: i128_parts_def extract_i128_value)
qed

end
