(* ===== verification/CommitReveal.thy ===== *)
theory CommitReveal
  imports ScVals
begin

text \<open>
  The commit-reveal helpers of frontend/src/shared-d/utils/commit-reveal.ts: the commitment hash, and
  the choice and salt kept in \<open>localStorage\<close> between the two phases. SHA-256 and the random bytes are
  parameters; \<open>btoa\<close> and \<open>atob\<close> are modelled, and \<open>localStorage\<close> is a map from keys to texts, each
  the JSON value it parses to or a text that does not parse.
\<close>

section \<open>Base64\<close>

text \<open>The alphabet, and the value of one of its characters.\<close>

definition b64_char :: "nat \<Rightarrow> char" where
  "b64_char n =
     (if n < 26 then char_of (65 + n)
      else if n < 52 then char_of (71 + n)
      else if n < 62 then char_of (n - 4)
      else if n = 62 then CHR ''+'' else CHR ''/'')"

definition b64_val :: "char \<Rightarrow> nat option" where
  "b64_val c =
     (if is_upper c then Some (code_of c - 65)
      else if is_lower c then Some (code_of c - 71)
      else if is_digit c then Some (code_of c + 4)
      else if c = CHR ''+'' then Some 62 else if c = CHR ''/'' then Some 63 else None)"

fun b64_groups :: "nat list \<Rightarrow> nat list" where
  "b64_groups [] = []"
| "b64_groups [a] = [a div 4, a mod 4 * 16]"
| "b64_groups [a, b] = [a div 4, a mod 4 * 16 + b div 16, b mod 16 * 4]"
| "b64_groups (a # b # c # xs) =
     [a div 4, a mod 4 * 16 + b div 16, b mod 16 * 4 + c div 64, c mod 64] @ b64_groups xs"

fun b64_bytes :: "nat list \<Rightarrow> nat list" where
  "b64_bytes [] = []"
| "b64_bytes [w] = []"
| "b64_bytes [w, x] = [w * 4 + x div 16]"
| "b64_bytes [w, x, y] = [w * 4 + x div 16, x mod 16 * 16 + y div 4]"
| "b64_bytes (w # x # y # z # xs) =
     [w * 4 + x div 16, x mod 16 * 16 + y div 4, y mod 4 * 64 + z] @ b64_bytes xs"

definition btoa :: "string \<Rightarrow> string" where
  "btoa s =
     map b64_char (b64_groups (map code_of s)) @
     replicate ((3 - length s mod 3) mod 3) (CHR ''='')"

fun all_values :: "string \<Rightarrow> nat list option" where
  "all_values [] = Some []"
| "all_values (c # cs) =
     (case b64_val c of None \<Rightarrow> None
      | Some v \<Rightarrow> (case all_values cs of None \<Rightarrow> None | Some vs \<Rightarrow> Some (v # vs)))"

text \<open>At most two equals signs at the end of a text whose length is a multiple of four.\<close>

definition strip_padding :: "string \<Rightarrow> string" where
  "strip_padding s =
     (if length s mod 4 \<noteq> 0 then s
      else if 2 \<le> length s \<and> drop (length s - 2) s = ''=='' then take (length s - 2) s
      else if 1 \<le> length s \<and> drop (length s - 1) s = ''='' then take (length s - 1) s
      else s)"

definition is_ascii_space :: "char \<Rightarrow> bool" where
  "is_ascii_space c \<longleftrightarrow> code_of c \<in> {9, 10, 12, 13, 32}"

text \<open>\<open>None\<close> is the \<open>InvalidCharacterError\<close>.\<close>

definition atob :: "string \<Rightarrow> string option" where
  "atob s =
     (let t = strip_padding (filter (\<lambda>c. \<not> is_ascii_space c) s) in
      if length t mod 4 = 1 then None
      else map_option (\<lambda>vs. map char_of (b64_bytes vs)) (all_values t))"

lemma upt_list_all: "list_all P [0..<64] \<Longrightarrow> n < 64 \<Longrightarrow> P n" for n :: nat
  by (simp add: list_all_iff)

lemma b64_val_char: "n < 64 \<Longrightarrow> b64_val (b64_char n) = Some n"
proof -
  have c: "code_of (b64_char n) =
      (if n < 26 then 65 + n else if n < 52 then 71 + n else if n < 62 then n - 4 else if n = 62 then 43 else 47)"
    by (simp add: b64_char_def code_of_char_of) (simp add: code_of_def)
  have e: "(b64_char n = CHR ''+'') = (n = 62)" "(b64_char n = CHR ''/'') = (n = 63)" if "n < 64" for n
    using that
    by (auto simp: b64_char_def code_of_def dest!: arg_cong [where f = "of_char :: char \<Rightarrow> nat"] split: if_splits)
  assume "n < 64"
  then show ?thesis
    by (auto simp: b64_val_def is_upper_def is_lower_def is_digit_def in_range_def c e)
qed

lemma b64_char_plain: "n < 64 \<Longrightarrow> b64_char n \<noteq> CHR ''='' \<and> \<not> is_ascii_space (b64_char n)"
  using b64_val_char [of n]
  by (auto simp: b64_val_def is_ascii_space_def is_upper_def is_lower_def is_digit_def in_range_def code_of_def
      split: if_splits)

lemma all_values_chars: "\<forall>n\<in>set ns. n < 64 \<Longrightarrow> all_values (map b64_char ns) = Some ns"
  by (induction ns) (simp_all add: b64_val_char)

lemma b64_groups_bound: "\<forall>b\<in>set bs. b < 256 \<Longrightarrow> \<forall>n\<in>set (b64_groups bs). n < 64"
proof (induction bs rule: b64_groups.induct)
  case (2 a)
  then show ?case by (auto; presburger)
next
  case (3 a b)
  then show ?case by (auto; presburger)
next
  case (4 a b c xs)
  then show ?case by (auto; presburger)
qed simp

lemma split_small: "y < 16 \<Longrightarrow> (x * 16 + y) div 16 = x" "y < 16 \<Longrightarrow> (x * 16 + y) mod 16 = y"
  "y < 4 \<Longrightarrow> (x * 4 + y) div 4 = x" "y < 4 \<Longrightarrow> (x * 4 + y) mod 4 = y" for x y :: nat
  by simp_all

lemma split_byte: "b < 256 \<Longrightarrow> (x * 16 + b div 16) div 16 = x" "b < 256 \<Longrightarrow> (x * 16 + b div 16) mod 16 = b div 16"
  "b < 256 \<Longrightarrow> (x * 4 + b div 64) div 4 = x" "b < 256 \<Longrightarrow> (x * 4 + b div 64) mod 4 = b div 64" for b :: nat
  by (rule split_small; simp add: less_mult_imp_div_less)+

lemma b64_roundtrip: "\<forall>b\<in>set bs. b < 256 \<Longrightarrow> b64_bytes (b64_groups bs) = bs"
  by (induction bs rule: b64_groups.induct) (auto simp: split_byte)

lemma length_b64_groups: "length (b64_groups bs) mod 4 =
    (if length bs mod 3 = 0 then 0 else length bs mod 3 + 1)"
proof (induction bs rule: b64_groups.induct)
  case (4 a b c xs)
  have "length (b64_groups (a # b # c # xs)) mod 4 = length (b64_groups xs) mod 4"
    and "length (a # b # c # xs) mod 3 = length xs mod 3" by simp_all
  with 4 show ?case by presburger
qed simp_all

lemma padded_length:
  "(length (b64_groups bs) + (3 - length bs mod 3) mod 3) mod 4 = 0 \<and> length (b64_groups bs) mod 4 \<noteq> 1"
proof -
  have "length bs mod 3 < 3" by simp
  then consider "length bs mod 3 = 0" | "length bs mod 3 = 1" | "length bs mod 3 = 2" by linarith
  then show ?thesis
  proof cases
    case 1
    then show ?thesis using length_b64_groups [of bs] by simp
  next
    case 2
    then have "length (b64_groups bs) mod 4 = 2" using length_b64_groups [of bs] by simp
    then have "(length (b64_groups bs) + 2) mod 4 = 0" "length (b64_groups bs) mod 4 \<noteq> 1" by presburger+
    with 2 show ?thesis by simp
  next
    case 3
    then have "length (b64_groups bs) mod 4 = 3" using length_b64_groups [of bs] by simp
    then have "(length (b64_groups bs) + 1) mod 4 = 0" "length (b64_groups bs) mod 4 \<noteq> 1" by presburger+
    with 3 show ?thesis by simp
  qed
qed

lemma strip_padding_pad:
  assumes "\<forall>c\<in>set t. c \<noteq> CHR ''=''" and "k \<le> 2" and "(length t + k) mod 4 = 0"
  shows "strip_padding (t @ replicate k (CHR ''='')) = t"
proof -
  have no: "CHR ''='' \<notin> set (drop n t)" for n using assms(1) in_set_dropD [of "CHR ''=''" n t] by blast
  then have no1: "drop n t \<noteq> ''=''" and no2: "drop n t \<noteq> ''==''" for n by (metis list.set_intros(1))+
  consider "k = 0" | "k = 1" | "k = 2" using assms(2) by linarith
  then show ?thesis
  proof cases
    case 1
    with no1 no2 show ?thesis by (simp add: strip_padding_def)
  next
    case 2
    then have l: "length t mod 4 = 3" using assms(3) by presburger
    then have "2 \<le> length (t @ ''='')" by (cases t) auto
    moreover have "drop (length (t @ ''='') - 2) (t @ ''='') = drop (length t - 1) t @ ''=''"
    proof -
      have "length (t @ ''='') - 2 = length t - 1" and "length t - 1 - length t = 0" by simp_all
      then show ?thesis by (simp only: drop_append) simp
    qed
    moreover have "drop (length t - 1) t @ ''='' \<noteq> ''=='' " using no1 [of "length t - 1"] by simp
    ultimately show ?thesis using 2 assms(3) by (simp add: strip_padding_def)
  next
    case 3
    with assms(3) show ?thesis by (simp add: strip_padding_def numeral_2_eq_2)
  qed
qed

lemma atob_btoa: "atob (btoa s) = Some s"
proof -
  let ?g = "b64_groups (map code_of s)" and ?k = "(3 - length s mod 3) mod 3"
  have b: "\<forall>b\<in>set (map code_of s). b < 256" by (auto simp: code_of_def)
  then have g: "\<forall>n\<in>set ?g. n < 64" by (rule b64_groups_bound)
  have len: "(length (map b64_char ?g) + ?k) mod 4 = 0" using padded_length [of "map code_of s"] by simp
  have "?k < 3" by simp
  then have k: "?k \<le> 2" by linarith
  have "filter (\<lambda>c. \<not> is_ascii_space c) (btoa s) = btoa s"
    using g b64_char_plain
    by (auto simp: btoa_def is_ascii_space_def code_of_def intro!: filter_True)
  moreover have "strip_padding (btoa s) = map b64_char ?g"
    unfolding btoa_def by (rule strip_padding_pad [OF _ k len]) (use g b64_char_plain in auto)
  moreover have "length ?g mod 4 \<noteq> 1" using padded_length [of "map code_of s"] by simp
  ultimately show ?thesis
    using all_values_chars [OF g] b64_roundtrip [OF b]
    by (simp add: atob_def Let_def o_def code_of_def)
qed

section \<open>Commitments\<close>

type_synonym bytes = "8 word list"

fun choiceToByte :: "round_choice \<Rightarrow> 8 word" where
  "choiceToByte Heads = 0"
| "choiceToByte Tails = 1"

definition computeCommitment :: "(bytes \<Rightarrow> bytes) \<Rightarrow> round_choice \<Rightarrow> bytes \<Rightarrow> thrown + bytes" where
  "computeCommitment sha256 choice salt =
     (if length salt \<noteq> 32 then Inl (OtherErr (''salt must be exactly 32 bytes, got '' @ dec_digits (length salt)))
      else Inr (sha256 (choiceToByte choice # salt)))"

definition bytesToBase64 :: "bytes \<Rightarrow> string" where
  "bytesToBase64 bs = btoa (map (\<lambda>b. char_of (unat b)) bs)"

definition base64ToBytes :: "string \<Rightarrow> bytes option" where
  "base64ToBytes s = map_option (map (\<lambda>c. word_of_nat (code_of c))) (atob s)"

record stored_commitment =
  so_choice :: round_choice
  so_salt :: bytes

datatype stored_text = JsonText jval | BadText

type_synonym local_storage = "string \<Rightarrow> stored_text option"

definition storageKey :: "string \<Rightarrow> nat \<Rightarrow> string" where
  "storageKey arenaId n = ''inversearena:commit-reveal'' @ '':'' @ arenaId @ '':'' @ dec_digits n"

definition saveCommitment :: "string \<Rightarrow> nat \<Rightarrow> stored_commitment \<Rightarrow> local_storage \<Rightarrow> local_storage" where
  "saveCommitment arenaId n c st =
     st(storageKey arenaId n \<mapsto> JsonText (JObj [(''choice'', JStr (choice_name (so_choice c))),
                                           (''salt'', JStr (bytesToBase64 (so_salt c)))]))"

text \<open>A salt that is not a string is refused; the code writes strings only.\<close>

definition loadCommitment :: "string \<Rightarrow> nat \<Rightarrow> local_storage \<Rightarrow> stored_commitment option" where
  "loadCommitment arenaId n st =
     (case st (storageKey arenaId n) of
        None \<Rightarrow> None
      | Some BadText \<Rightarrow> None
      | Some (JsonText v) \<Rightarrow>
          (case jfield ''choice'' v of
             Some (JStr c) \<Rightarrow>
               (case RoundChoiceSchema c of
                  Inl _ \<Rightarrow> None
                | Inr choice \<Rightarrow>
                    (case jfield ''salt'' v of
                       Some (JStr s) \<Rightarrow>
                         (case base64ToBytes s of
                            None \<Rightarrow> None
                          | Some salt \<Rightarrow>
                              if length salt \<noteq> 32 then None
                              else Some \<lparr>so_choice = choice, so_salt = salt\<rparr>)
                     | _ \<Rightarrow> None))
           | _ \<Rightarrow> None))"

definition clearCommitment :: "string \<Rightarrow> nat \<Rightarrow> local_storage \<Rightarrow> local_storage" where
  "clearCommitment arenaId n st = st(storageKey arenaId n := None)"

section \<open>Round trips\<close>

lemma base64_roundtrip: "base64ToBytes (bytesToBase64 bs) = Some bs"
proof -
  have "word_of_nat (code_of (char_of (unat b))) = b" for b :: "8 word"
    proof -
    have "unat b < 2 ^ LENGTH(8)" by (rule unsigned_less)
    then show ?thesis by (simp add: code_of_char_of)
  qed
  then show ?thesis by (simp add: base64ToBytes_def bytesToBase64_def atob_btoa o_def map_idI)
qed

lemma choice_roundtrip [simp]: "RoundChoiceSchema (choice_name c) = Inr c"
  by (cases c) (simp_all add: RoundChoiceSchema_def)

lemma load_save_same:
  "length (so_salt c) = 32 \<Longrightarrow> loadCommitment a n (saveCommitment a n c st) = Some c"
  by (simp add: loadCommitment_def saveCommitment_def base64_roundtrip)

lemma colon_no_digit: "CHR '':'' \<notin> set (dec_digits n)"
  using digits_are_digits [of n] by (auto simp: list_all_iff is_digit_def in_range_def code_of_def)

lemma last_part_unique: "a @ x # s = b @ x # t \<Longrightarrow> x \<notin> set s \<Longrightarrow> x \<notin> set t \<Longrightarrow> a = b \<and> s = t"
proof (induction a arbitrary: b)
  case Nil
  then show ?case by (cases b) auto
next
  case (Cons y a)
  then show ?case by (cases b) auto
qed

lemma storageKey_inj: "storageKey a m = storageKey b n \<longleftrightarrow> a = b \<and> m = n"
proof
  assume "storageKey a m = storageKey b n"
  then have "a @ CHR '':'' # dec_digits m = b @ CHR '':'' # dec_digits n" by (simp add: storageKey_def)
  from last_part_unique [OF this colon_no_digit colon_no_digit] show "a = b \<and> m = n" by (simp add: dec_digits_inj)
qed simp

lemma load_save_other:
  "(b, k) \<noteq> (a, n) \<Longrightarrow> loadCommitment b k (saveCommitment a n c st) = loadCommitment b k st"
  by (auto simp: loadCommitment_def saveCommitment_def storageKey_inj)

lemma load_clear: "loadCommitment a n (clearCommitment a n st) = None"
  by (simp add: loadCommitment_def clearCommitment_def)

section \<open>The store as an interface\<close>

text \<open>
  What the two phases rely on: a valid value is read back, and writing under one key leaves the others
  alone. The client's lemma is that the last value written under a key is the one that is read.
\<close>

locale keyed_store =
  fixes put :: "'k \<Rightarrow> 'v \<Rightarrow> 's \<Rightarrow> 's"
    and get :: "'k \<Rightarrow> 's \<Rightarrow> 'v option"
    and remove :: "'k \<Rightarrow> 's \<Rightarrow> 's"
    and valid :: "'v \<Rightarrow> bool"
  assumes get_put: "valid v \<Longrightarrow> get k (put k v s) = Some v"
    and get_put_other: "l \<noteq> k \<Longrightarrow> get l (put k v s) = get l s"
    and get_remove: "get k (remove k s) = None"
    and get_remove_other: "l \<noteq> k \<Longrightarrow> get l (remove k s) = get l s"
begin

definition put_all :: "('k \<times> 'v) list \<Rightarrow> 's \<Rightarrow> 's" where
  "put_all ws s = fold (\<lambda>(k, v). put k v) ws s"

lemma get_put_all_other: "k \<notin> fst ` set ws \<Longrightarrow> get k (put_all ws s) = get k s"
  unfolding put_all_def
  by (induction ws arbitrary: s) (auto simp: get_put_other)

lemma last_write_wins:
  "valid v \<Longrightarrow> k \<notin> fst ` set ws \<Longrightarrow> get k (put_all ws (put k v s)) = Some v"
  by (simp add: get_put_all_other get_put)

end

definition saveCommitments :: "((string \<times> nat) \<times> stored_commitment) list \<Rightarrow> local_storage \<Rightarrow> local_storage" where
  "saveCommitments ws st = fold (\<lambda>(k, c). saveCommitment (fst k) (snd k) c) ws st"

interpretation commitments: keyed_store
    "\<lambda>k. saveCommitment (fst k) (snd k)" "\<lambda>k. loadCommitment (fst k) (snd k)" "\<lambda>k. clearCommitment (fst k) (snd k)"
    "\<lambda>c. length (so_salt c) = 32"
  rewrites "keyed_store.put_all (\<lambda>k. saveCommitment (fst k) (snd k)) = saveCommitments"
proof -
  show "keyed_store (\<lambda>k. saveCommitment (fst k) (snd k)) (\<lambda>k. loadCommitment (fst k) (snd k))
      (\<lambda>k. clearCommitment (fst k) (snd k)) (\<lambda>c. length (so_salt c) = 32)"
  proof
    show "loadCommitment (fst l) (snd l) (clearCommitment (fst k) (snd k) s) = loadCommitment (fst l) (snd l) s"
      if "l \<noteq> k" for l k :: "string \<times> nat" and s
      using that by (cases l; cases k) (auto simp: loadCommitment_def clearCommitment_def storageKey_inj)
  qed (simp_all add: load_save_same load_save_other load_clear prod_eq_iff)
  then show "keyed_store.put_all (\<lambda>k. saveCommitment (fst k) (snd k)) = saveCommitments"
    by (simp add: keyed_store.put_all_def saveCommitments_def fun_eq_iff)
qed

end
