(* ===== verification/StellarTx.thy ===== *)
theory StellarTx
  imports CommitReveal
begin

text \<open>
  The transactions of the frontend: frontend/src/shared-d/utils/stellar-transactions.ts with the
  layers it is split into (horizon-account-loader.ts, soroban-transaction-composer.ts,
  stellar-fee-estimator.ts). The SDK, the RPC server and \<open>fetch\<close> are parameters (\<open>tx_sdk\<close> and the
  arguments of the functions); the caches of contract-client-factory.ts only save constructions and
  are left out. An operation and an unsigned transaction are records of what the SDK is given.
  Amounts are exact rationals.
\<close>

section \<open>Sequencing\<close>

definition and_do :: "'e + 'a \<Rightarrow> ('a \<Rightarrow> 'e + 'b) \<Rightarrow> 'e + 'b" where
  "and_do m f = (case m of Inl e \<Rightarrow> Inl e | Inr v \<Rightarrow> f v)"

named_theorems return_iff \<open>when a computation that may throw returns\<close>

lemma and_do_return [return_iff]: "and_do m f = Inr y \<longleftrightarrow> (\<exists>x. m = Inr x \<and> f x = Inr y)"
  by (cases m) (simp_all add: and_do_def)

lemma and_do_simps [simp]: "and_do (Inl e) f = Inl e" "and_do (Inr v) f = f v"
  by (simp_all add: and_do_def)

lemma and_do_throw: "and_do m f = Inl e \<longleftrightarrow> m = Inl e \<or> (\<exists>x. m = Inr x \<and> f x = Inl e)"
  by (cases m) (simp_all add: and_do_def)

text \<open>\<open>try { ... } catch (error) { throw parseContractError(error, FN) }\<close>\<close>

definition wrapped :: "string \<Rightarrow> thrown + 'a \<Rightarrow> thrown + 'a" where
  "wrapped fn r = (case r of Inl e \<Rightarrow> Inl (Contract (parseContractError e fn)) | Inr v \<Rightarrow> Inr v)"

lemma wrapped_return [return_iff]: "wrapped fn r = Inr v \<longleftrightarrow> r = Inr v"
  by (cases r) (simp_all add: wrapped_def)

lemma wrapped_throw: "wrapped fn r = Inl e \<longleftrightarrow> (\<exists>e0. r = Inl e0 \<and> e = Contract (parseContractError e0 fn))"
  by (cases r) (auto simp: wrapped_def)

lemma wrapped_simps [simp]: "wrapped fn (Inr v) = Inr v"
  "wrapped fn (Inl (Contract c)) = Inl (Contract c)"
  by (simp_all add: wrapped_def)

section \<open>The SDK\<close>

record operation =
  op_contract :: string
  op_method :: string
  op_args :: "scval list"

record 'acct unsigned_tx =
  ut_account :: 'acct
  ut_fee :: string
  ut_networkPassphrase :: string
  ut_timeout :: int
  ut_operation :: operation

record pool_config =
  pc_stake_token :: string
  pc_yield_vault :: string
  pc_entry_fee :: int
  pc_oracle_contract :: string
  pc_min_players :: int
  pc_max_players :: int
  pc_round_duration :: int

datatype sim_response = SimulationFailed string | SimulationEmpty | SimulationResult scval

record send_response =
  sp_status :: string
  sp_hash :: string

text \<open>
  \<open>tk_contract\<close> is the constructor of \<open>Contract\<close>, which may refuse the id, \<open>tk_poolConfig\<close> is
  \<open>nativeToScVal\<close> of the pool configuration, \<open>tk_numberText\<close> is \<open>String\<close> of a number and
  \<open>tk_zodText\<close> the message that the schema library makes of the issues.
\<close>

record ('acct, 'tx, 'stx) tx_sdk =
  tk_scval :: scval_sdk
  tk_account :: "string \<Rightarrow> string \<Rightarrow> thrown + 'acct"
  tk_contract :: "string \<Rightarrow> thrown + unit"
  tk_poolConfig :: "pool_config \<Rightarrow> thrown + scval"
  tk_build :: "'acct unsigned_tx \<Rightarrow> thrown + 'tx"
  tk_prepare :: "'tx \<Rightarrow> thrown + 'tx"
  tk_simulate :: "'tx \<Rightarrow> thrown + sim_response"
  tk_fromXDR :: "string \<Rightarrow> string \<Rightarrow> thrown + 'stx"
  tk_send :: "'stx \<Rightarrow> thrown + send_response"
  tk_numberText :: "rat \<Rightarrow> string"
  tk_zodText :: "string list \<Rightarrow> string"
  tk_BASE_FEE :: string
  tk_TimeoutInfinite :: int

record frontend_config =
  fc_factory :: string
  fc_xlm :: string
  fc_usdc :: string
  fc_staking :: "string option"
  fc_rwaVault :: "string option"
  fc_oracle :: "string option"
  fc_passphrase :: string
  fc_horizonUrl :: string

definition parsed_or_throw :: "('acct, 'tx, 'stx) tx_sdk \<Rightarrow> 'a parsed \<Rightarrow> thrown + 'a" where
  "parsed_or_throw K p = (case p of Inl iss \<Rightarrow> Inl (ZodErr (tk_zodText K iss) iss) | Inr v \<Rightarrow> Inr v)"

lemma parsed_or_throw_return [return_iff]: "parsed_or_throw K p = Inr v \<longleftrightarrow> p = Inr v"
  by (cases p) (simp_all add: parsed_or_throw_def)

section \<open>Fees and timeouts\<close>

definition getJoinArenaFee :: string where "getJoinArenaFee = ''10000''"

definition getStandardTxTimeoutSeconds :: int where "getStandardTxTimeoutSeconds = 30"

definition getShortTxTimeoutSeconds :: int where "getShortTxTimeoutSeconds = 30"

definition submit_maxRetries :: nat where "submit_maxRetries = 10"

section \<open>Accounts\<close>

record http_response =
  hr_status :: nat
  hr_json :: "thrown + jval"

definition http_ok :: "http_response \<Rightarrow> bool" where
  "http_ok r \<longleftrightarrow> 200 \<le> hr_status r \<and> hr_status r \<le> 299"

definition strip_slashes :: "string \<Rightarrow> string" where
  "strip_slashes s = rev (dropWhile (\<lambda>c. c = CHR ''/'') (rev s))"

definition is_string_field :: "string \<Rightarrow> jval \<Rightarrow> bool" where
  "is_string_field k v = (case jfield k v of Some (JStr s) \<Rightarrow> True | _ \<Rightarrow> False)"

definition balance_ok :: "jval \<Rightarrow> bool" where
  "balance_ok v \<longleftrightarrow> is_string_field ''asset_type'' v \<and> is_string_field ''balance'' v \<and>
     (jfield ''asset_code'' v = None \<or> is_string_field ''asset_code'' v)"

text \<open>The parsed response, of which only the sequence number is used.\<close>

definition HorizonAccountResponseSchema :: "(rat \<Rightarrow> string) \<Rightarrow> jval \<Rightarrow> string parsed" where
  "HorizonAccountResponseSchema numberText v =
     (let balances = (case jfield ''balances'' v of None \<Rightarrow> True | Some (JArr bs) \<Rightarrow> list_all balance_ok bs | _ \<Rightarrow> False)
      in (case jfield ''sequence'' v of
            Some (JStr s) \<Rightarrow> if balances then Inr s else Inl [''Invalid input'']
          | Some (JNum x) \<Rightarrow> if balances then Inr (numberText x) else Inl [''Invalid input'']
          | _ \<Rightarrow> Inl [''Invalid input'']))"

definition loadAccountFromHorizon ::
    "('acct, 'tx, 'stx) tx_sdk \<Rightarrow> (string \<Rightarrow> thrown + http_response) \<Rightarrow> string \<Rightarrow> string \<Rightarrow> thrown + 'acct" where
  "loadAccountFromHorizon K fetch horizonBaseUrl publicKey =
     and_do (fetch (strip_slashes horizonBaseUrl @ ''/accounts/'' @ publicKey)) (\<lambda>res.
       if \<not> http_ok res
       then Inl (HorizonErr (hr_status res) (''Horizon account fetch failed: '' @ dec_digits (hr_status res)))
       else and_do (hr_json res) (\<lambda>rawData.
         and_do (parsed_or_throw K (HorizonAccountResponseSchema (tk_numberText K) rawData)) (\<lambda>sequence.
           tk_account K publicKey sequence)))"

definition getAccount ::
    "('acct, 'tx, 'stx) tx_sdk \<Rightarrow> frontend_config \<Rightarrow> (string \<Rightarrow> thrown + http_response) \<Rightarrow> string \<Rightarrow> string \<Rightarrow>
     thrown + 'acct" where
  "getAccount K cfg fetch publicKey fn =
     (case and_do (parsed_or_throw K (StellarPublicKeySchema publicKey)) (\<lambda>pk.
             loadAccountFromHorizon K fetch (fc_horizonUrl cfg) pk) of
        Inr a \<Rightarrow> Inr a
      | Inl (HorizonErr st m) \<Rightarrow> Inl (Contract (new_ContractError ACCOUNT_NOT_FOUND None fn None))
      | Inl e \<Rightarrow> Inl (Contract (parseContractError e fn)))"

section \<open>Operations\<close>

definition composeUnsignedTransaction ::
    "('acct, 'tx, 'stx) tx_sdk \<Rightarrow> frontend_config \<Rightarrow> 'acct \<Rightarrow> string \<Rightarrow> int \<Rightarrow> operation \<Rightarrow> thrown + 'tx" where
  "composeUnsignedTransaction K cfg account fee timeout operation =
     tk_build K \<lparr>ut_account = account, ut_fee = fee, ut_networkPassphrase = fc_passphrase cfg,
       ut_timeout = timeout, ut_operation = operation\<rparr>"

definition roundSpeedToSeconds :: "string \<Rightarrow> int" where
  "roundSpeedToSeconds s = (if s = ''30S'' then 30 else if s = ''1M'' then 60 else 300)"

definition to_stroops :: "rat \<Rightarrow> int" where
  "to_stroops x = \<lfloor>x * 10000000\<rfloor>"

definition buildCreatePoolCallOperation ::
    "('acct, 'tx, 'stx) tx_sdk \<Rightarrow> frontend_config \<Rightarrow> create_pool_params \<Rightarrow> string \<Rightarrow> thrown + operation" where
  "buildCreatePoolCallOperation K cfg p creatorPublicKey =
     (if \<not> truthy (fc_rwaVault cfg)
      then Inl (OtherErr ''NEXT_PUBLIC_RWA_VAULT_CONTRACT_ID is not configured'')
      else if \<not> truthy (fc_oracle cfg)
      then Inl (OtherErr ''NEXT_PUBLIC_ORACLE_CONTRACT_ID is not configured'')
      else and_do (tk_poolConfig K
             \<lparr>pc_stake_token = (if cp_currency p = ''USDC'' then fc_usdc cfg else fc_xlm cfg),
              pc_yield_vault = the (fc_rwaVault cfg), pc_entry_fee = to_stroops (cp_stakeAmount p),
              pc_oracle_contract = the (fc_oracle cfg), pc_min_players = 2,
              pc_max_players = \<lfloor>cp_arenaCapacity p\<rfloor>,
              pc_round_duration = roundSpeedToSeconds (cp_roundSpeed p)\<rparr>) (\<lambda>poolConfig.
           and_do (encodeAddress (tk_scval K) creatorPublicKey) (\<lambda>host.
             Inr \<lparr>op_contract = fc_factory cfg, op_method = ''create_pool'', op_args = [host, poolConfig]\<rparr>)))"

definition buildStakeCallOperation ::
    "('acct, 'tx, 'stx) tx_sdk \<Rightarrow> string \<Rightarrow> int \<Rightarrow> string \<Rightarrow> thrown + operation" where
  "buildStakeCallOperation K contract amountStroops staker =
     and_do (encodeAddress (tk_scval K) staker) (\<lambda>a.
       and_do (encodeAmount (tk_scval K) (BigInt amountStroops)) (\<lambda>n.
         Inr \<lparr>op_contract = contract, op_method = ''stake'', op_args = [a, n]\<rparr>))"

definition buildUnstakeCallOperation ::
    "('acct, 'tx, 'stx) tx_sdk \<Rightarrow> string \<Rightarrow> int \<Rightarrow> string \<Rightarrow> thrown + operation" where
  "buildUnstakeCallOperation K contract sharesStroops staker =
     and_do (encodeAddress (tk_scval K) staker) (\<lambda>a.
       and_do (encodeAmount (tk_scval K) (BigInt sharesStroops)) (\<lambda>n.
         Inr \<lparr>op_contract = contract, op_method = ''unstake'', op_args = [a, n]\<rparr>))"

definition buildJoinCallOperation :: "('acct, 'tx, 'stx) tx_sdk \<Rightarrow> string \<Rightarrow> string \<Rightarrow> thrown + operation" where
  "buildJoinCallOperation K pool player =
     and_do (encodeAddress (tk_scval K) player) (\<lambda>a.
       Inr \<lparr>op_contract = pool, op_method = ''join_arena'', op_args = [a]\<rparr>)"

definition buildSubmitCommitmentOperation ::
    "('acct, 'tx, 'stx) tx_sdk \<Rightarrow> string \<Rightarrow> string \<Rightarrow> bytes \<Rightarrow> thrown + operation" where
  "buildSubmitCommitmentOperation K pool player commitment =
     and_do (encodeAddress (tk_scval K) player) (\<lambda>a.
       and_do (encodeBytes32 commitment) (\<lambda>c.
         Inr \<lparr>op_contract = pool, op_method = ''submit_commitment'', op_args = [a, c]\<rparr>))"

definition buildRevealChoiceOperation ::
    "('acct, 'tx, 'stx) tx_sdk \<Rightarrow> string \<Rightarrow> string \<Rightarrow> round_choice \<Rightarrow> bytes \<Rightarrow> thrown + operation" where
  "buildRevealChoiceOperation K pool player choice salt =
     and_do (encodeAddress (tk_scval K) player) (\<lambda>a.
       and_do (encodeBytes32 salt) (\<lambda>s.
         Inr \<lparr>op_contract = pool, op_method = ''reveal_choice'', op_args = [a, encodeChoice choice, s]\<rparr>))"

definition buildClaimCallOperation :: "('acct, 'tx, 'stx) tx_sdk \<Rightarrow> string \<Rightarrow> string \<Rightarrow> thrown + operation" where
  "buildClaimCallOperation K pool winner =
     and_do (encodeAddress (tk_scval K) winner) (\<lambda>a.
       Inr \<lparr>op_contract = pool, op_method = ''claim'', op_args = [a]\<rparr>)"

definition buildGetArenaStateCallOperation :: "string \<Rightarrow> operation" where
  "buildGetArenaStateCallOperation arena =
     \<lparr>op_contract = arena, op_method = ''get_arena_state'', op_args = []\<rparr>"

definition buildGetFullStateCallOperation :: "('acct, 'tx, 'stx) tx_sdk \<Rightarrow> string \<Rightarrow> string \<Rightarrow> thrown + operation" where
  "buildGetFullStateCallOperation K arena user =
     and_do (encodeAddress (tk_scval K) user) (\<lambda>a.
       Inr \<lparr>op_contract = arena, op_method = ''get_full_state'', op_args = [a]\<rparr>)"

section \<open>Builders\<close>

definition buildCreatePoolTransaction ::
    "('acct, 'tx, 'stx) tx_sdk \<Rightarrow> frontend_config \<Rightarrow> (string \<Rightarrow> thrown + http_response) \<Rightarrow> string \<Rightarrow>
     create_pool_params \<Rightarrow> thrown + 'tx" where
  "buildCreatePoolTransaction K cfg fetch publicKey params =
     wrapped ''buildCreatePoolTransaction''
       (and_do (parsed_or_throw K (CreatePoolParamsSchema params)) (\<lambda>p.
          and_do (getAccount K cfg fetch publicKey ''buildCreatePoolTransaction'') (\<lambda>account.
            and_do (tk_contract K (fc_factory cfg)) (\<lambda>_.
              and_do (buildCreatePoolCallOperation K cfg p publicKey) (\<lambda>operation.
                composeUnsignedTransaction K cfg account (tk_BASE_FEE K) (tk_TimeoutInfinite K) operation)))))"

definition STAKING_PLACEHOLDER :: string where "STAKING_PLACEHOLDER = ''CD...''"

definition STAKING_CONTRACT_ID :: "frontend_config \<Rightarrow> string" where
  "STAKING_CONTRACT_ID cfg = (case fc_staking cfg of None \<Rightarrow> STAKING_PLACEHOLDER | Some i \<Rightarrow> i)"

definition staking_missing :: "string \<Rightarrow> thrown" where
  "staking_missing fn = Contract (new_ContractError CONFIG_MISSING
     (Some ''Staking contract not configured. Add NEXT_PUBLIC_STAKING_CONTRACT_ID to .env.local with your Soroban contract address.'')
     fn None)"

definition staking_configured :: "frontend_config \<Rightarrow> bool" where
  "staking_configured cfg \<longleftrightarrow> STAKING_CONTRACT_ID cfg \<noteq> [] \<and>
     STAKING_CONTRACT_ID cfg \<noteq> STAKING_PLACEHOLDER \<and> \<not> str_includes ''...'' (STAKING_CONTRACT_ID cfg)"

text \<open>
  \<open>return server.prepareTransaction(builtTx)\<close> is not awaited inside the \<open>try\<close>: what it rejects
  with is not caught.
\<close>

definition returned :: "('tx \<Rightarrow> thrown + 'tx) \<Rightarrow> thrown + 'tx \<Rightarrow> thrown + 'tx" where
  "returned prepare r = (case r of Inl e \<Rightarrow> Inl e | Inr tx \<Rightarrow> prepare tx)"

definition buildStakeProtocolTransaction ::
    "('acct, 'tx, 'stx) tx_sdk \<Rightarrow> frontend_config \<Rightarrow> (string \<Rightarrow> thrown + http_response) \<Rightarrow> string \<Rightarrow> rat \<Rightarrow>
     thrown + 'tx" where
  "buildStakeProtocolTransaction K cfg fetch publicKey amount =
     returned (tk_prepare K) (wrapped ''buildStakeProtocolTransaction''
       (and_do (parsed_or_throw K (StellarPublicKeySchema publicKey)) (\<lambda>pk.
          and_do (parsed_or_throw K (PositiveAmountSchema amount)) (\<lambda>validatedAmount.
            if \<not> staking_configured cfg then Inl (staking_missing ''buildStakeProtocolTransaction'')
            else and_do (getAccount K cfg fetch pk ''buildStakeProtocolTransaction'') (\<lambda>account.
              and_do (tk_contract K (STAKING_CONTRACT_ID cfg)) (\<lambda>_.
                and_do (buildStakeCallOperation K (STAKING_CONTRACT_ID cfg) (to_stroops validatedAmount) pk) (\<lambda>operation.
                  composeUnsignedTransaction K cfg account (tk_BASE_FEE K) (tk_TimeoutInfinite K) operation)))))))"

definition buildUnstakeProtocolTransaction ::
    "('acct, 'tx, 'stx) tx_sdk \<Rightarrow> frontend_config \<Rightarrow> (string \<Rightarrow> thrown + http_response) \<Rightarrow> string \<Rightarrow> rat \<Rightarrow>
     thrown + 'tx" where
  "buildUnstakeProtocolTransaction K cfg fetch publicKey shares =
     returned (tk_prepare K) (wrapped ''buildUnstakeProtocolTransaction''
       (and_do (parsed_or_throw K (StellarPublicKeySchema publicKey)) (\<lambda>pk.
          and_do (parsed_or_throw K (PositiveAmountSchema shares)) (\<lambda>validatedShares.
            if \<not> staking_configured cfg then Inl (staking_missing ''buildUnstakeProtocolTransaction'')
            else and_do (getAccount K cfg fetch pk ''buildUnstakeProtocolTransaction'') (\<lambda>account.
              and_do (tk_contract K (STAKING_CONTRACT_ID cfg)) (\<lambda>_.
                and_do (buildUnstakeCallOperation K (STAKING_CONTRACT_ID cfg) (to_stroops validatedShares) pk) (\<lambda>operation.
                  composeUnsignedTransaction K cfg account (tk_BASE_FEE K) (tk_TimeoutInfinite K) operation)))))))"

definition buildJoinArenaTransaction ::
    "('acct, 'tx, 'stx) tx_sdk \<Rightarrow> frontend_config \<Rightarrow> (string \<Rightarrow> thrown + http_response) \<Rightarrow> string \<Rightarrow> string \<Rightarrow>
     rat \<Rightarrow> thrown + 'tx" where
  "buildJoinArenaTransaction K cfg fetch publicKey poolId amount =
     wrapped ''buildJoinArenaTransaction''
       (and_do (parsed_or_throw K (StellarPublicKeySchema publicKey)) (\<lambda>pk.
          and_do (parsed_or_throw K (StellarContractIdSchema poolId)) (\<lambda>pool.
            and_do (parsed_or_throw K (PositiveAmountSchema amount)) (\<lambda>_.
              and_do (getAccount K cfg fetch pk ''buildJoinArenaTransaction'') (\<lambda>account.
                and_do (tk_contract K pool) (\<lambda>_.
                  and_do (buildJoinCallOperation K pool pk) (\<lambda>operation.
                    composeUnsignedTransaction K cfg account getJoinArenaFee getStandardTxTimeoutSeconds operation)))))))"

text \<open>\<open>salt\<close> is what \<open>generateSalt\<close> returns; the commitment is stored before the account is loaded.\<close>

definition buildSubmitCommitmentTransaction ::
    "('acct, 'tx, 'stx) tx_sdk \<Rightarrow> frontend_config \<Rightarrow> (string \<Rightarrow> thrown + http_response) \<Rightarrow> (bytes \<Rightarrow> bytes) \<Rightarrow>
     bytes \<Rightarrow> string \<Rightarrow> string \<Rightarrow> string \<Rightarrow> rat \<Rightarrow> local_storage \<Rightarrow> (thrown + 'tx) \<times> local_storage" where
  "buildSubmitCommitmentTransaction K cfg fetch sha256 salt publicKey poolId choice roundNumber st =
     (case and_do (parsed_or_throw K (StellarPublicKeySchema publicKey)) (\<lambda>pk.
             and_do (parsed_or_throw K (StellarContractIdSchema poolId)) (\<lambda>pool.
               and_do (parsed_or_throw K (RoundChoiceSchema choice)) (\<lambda>c.
                 and_do (parsed_or_throw K (RoundNumberSchema roundNumber)) (\<lambda>n.
                   and_do (computeCommitment sha256 c salt) (\<lambda>commitment.
                     Inr (pk, pool, c, n, commitment)))))) of
        Inl e \<Rightarrow> (wrapped ''buildSubmitCommitmentTransaction'' (Inl e), st)
      | Inr (pk, pool, c, n, commitment) \<Rightarrow>
          (wrapped ''buildSubmitCommitmentTransaction''
             (and_do (getAccount K cfg fetch pk ''buildSubmitCommitmentTransaction'') (\<lambda>account.
                and_do (tk_contract K pool) (\<lambda>_.
                  and_do (buildSubmitCommitmentOperation K pool pk commitment) (\<lambda>operation.
                    composeUnsignedTransaction K cfg account (tk_BASE_FEE K) getStandardTxTimeoutSeconds operation)))),
           saveCommitment pool n \<lparr>so_choice = c, so_salt = salt\<rparr> st))"

definition no_commitment :: "string \<Rightarrow> thrown" where
  "no_commitment fn = Contract (new_ContractError VALIDATION_FAILED
     (Some ''No commitment found for this round on this device - cannot reveal a choice that was never committed here.'')
     fn None)"

definition buildRevealChoiceTransaction ::
    "('acct, 'tx, 'stx) tx_sdk \<Rightarrow> frontend_config \<Rightarrow> (string \<Rightarrow> thrown + http_response) \<Rightarrow> string \<Rightarrow> string \<Rightarrow>
     rat \<Rightarrow> local_storage \<Rightarrow> thrown + 'tx" where
  "buildRevealChoiceTransaction K cfg fetch publicKey poolId roundNumber st =
     wrapped ''buildRevealChoiceTransaction''
       (and_do (parsed_or_throw K (StellarPublicKeySchema publicKey)) (\<lambda>pk.
          and_do (parsed_or_throw K (StellarContractIdSchema poolId)) (\<lambda>pool.
            and_do (parsed_or_throw K (RoundNumberSchema roundNumber)) (\<lambda>n.
              (case loadCommitment pool n st of
                 None \<Rightarrow> Inl (no_commitment ''buildRevealChoiceTransaction'')
               | Some stored \<Rightarrow>
                   and_do (getAccount K cfg fetch pk ''buildRevealChoiceTransaction'') (\<lambda>account.
                     and_do (tk_contract K pool) (\<lambda>_.
                       and_do (buildRevealChoiceOperation K pool pk (so_choice stored) (so_salt stored)) (\<lambda>operation.
                         composeUnsignedTransaction K cfg account (tk_BASE_FEE K) getStandardTxTimeoutSeconds operation))))))))"

definition clearCommitmentForRound :: "string \<Rightarrow> nat \<Rightarrow> local_storage \<Rightarrow> local_storage" where
  "clearCommitmentForRound poolId n st = clearCommitment poolId n st"

definition hasStoredCommitmentForRound :: "string \<Rightarrow> nat \<Rightarrow> local_storage \<Rightarrow> bool" where
  "hasStoredCommitmentForRound poolId n st \<longleftrightarrow> loadCommitment poolId n st \<noteq> None"

section \<open>Reading an arena\<close>

record arena_state_response =
  sr_arenaId :: string
  sr_survivorsCount :: int
  sr_maxCapacity :: int
  sr_isUserIn :: bool
  sr_hasWon :: bool
  sr_currentStake :: rat
  sr_potentialPayout :: rat
  sr_roundNumber :: int
  sr_gameState :: int
  sr_entryFee :: rat
  sr_playerCount :: int
  sr_commitDeadline :: "int option"
  sr_revealDeadline :: "int option"

definition DUMMY_ACCOUNT :: string where
  "DUMMY_ACCOUNT = ''GAAAAAAAAAAAAAAAAAAAAAAAAAAAAAAAAAAAAAAAAAAAAAAAAAAAAWHF''"

definition state_failed :: "string \<Rightarrow> thrown" where
  "state_failed m = Contract (new_ContractError SIMULATION_FAILED
     (Some (''Failed to fetch arena state: '' @ m)) ''fetchArenaState'' None)"

text \<open>The fields of a user are read when an address was given (\<open>withUser\<close>).\<close>

definition arena_response :: "string \<Rightarrow> bool \<Rightarrow> scval \<Rightarrow> arena_state_response" where
  "arena_response arena withUser v =
     (let survivors = get_or 0 (extractU32FromScVal v (Some ''survivors_count'')) in
      \<lparr>sr_arenaId = arena, sr_survivorsCount = survivors,
       sr_maxCapacity = get_or 0 (extractU32FromScVal v (Some ''max_capacity'')),
       sr_isUserIn = (withUser \<and> get_or False (extractBoolFromScVal v (Some ''is_active''))),
       sr_hasWon = (withUser \<and> get_or False (extractBoolFromScVal v (Some ''has_won''))),
       sr_currentStake = stroopsToDisplayAmount
         (if withUser then get_or 0 (extractI128FromScVal v (Some ''current_stake'')) else 0),
       sr_potentialPayout = stroopsToDisplayAmount
         (if withUser then get_or 0 (extractI128FromScVal v (Some ''potential_payout'')) else 0),
       sr_roundNumber = get_or 0 (extractU32FromScVal v (Some ''round_number'')),
       sr_gameState = 0, sr_entryFee = stroopsToDisplayAmount 0, sr_playerCount = survivors,
       sr_commitDeadline = None, sr_revealDeadline = None\<rparr>)"

definition fetchArenaState ::
    "('acct, 'tx, 'stx) tx_sdk \<Rightarrow> frontend_config \<Rightarrow> string \<Rightarrow> string option \<Rightarrow> thrown + arena_state_response" where
  "fetchArenaState K cfg arenaId userAddress =
     wrapped ''fetchArenaState''
       (and_do (parsed_or_throw K (StellarContractIdSchema arenaId)) (\<lambda>arena.
          and_do (if truthy userAddress
                  then and_do (parsed_or_throw K (StellarPublicKeySchema (the userAddress))) (\<lambda>u. Inr (Some u))
                  else Inr None) (\<lambda>user.
            and_do (tk_contract K arena) (\<lambda>_.
              and_do (tk_account K DUMMY_ACCOUNT ''0'') (\<lambda>dummy.
                and_do (case user of None \<Rightarrow> Inr (buildGetArenaStateCallOperation arena)
                                   | Some u \<Rightarrow> buildGetFullStateCallOperation K arena u) (\<lambda>operation.
                  and_do (composeUnsignedTransaction K cfg dummy (tk_BASE_FEE K) getShortTxTimeoutSeconds operation) (\<lambda>tx.
                    and_do (tk_simulate K tx) (\<lambda>sim.
                      (case sim of
                         SimulationFailed m \<Rightarrow> Inl (state_failed m)
                       | SimulationEmpty \<Rightarrow> Inl (state_failed ''Unknown error'')
                       | SimulationResult v \<Rightarrow> Inr (arena_response arena (user \<noteq> None) v))))))))))"

definition buildClaimWinningsTransaction ::
    "('acct, 'tx, 'stx) tx_sdk \<Rightarrow> frontend_config \<Rightarrow> (string \<Rightarrow> thrown + http_response) \<Rightarrow> string \<Rightarrow> string \<Rightarrow>
     thrown + 'tx" where
  "buildClaimWinningsTransaction K cfg fetch publicKey poolId =
     wrapped ''buildClaimWinningsTransaction''
       (and_do (parsed_or_throw K (StellarPublicKeySchema publicKey)) (\<lambda>pk.
          and_do (parsed_or_throw K (StellarContractIdSchema poolId)) (\<lambda>pool.
            and_do (fetchArenaState K cfg pool (Some pk)) (\<lambda>state.
              if \<not> sr_hasWon state
              then Inl (Contract (new_ContractError VALIDATION_FAILED
                     (Some ''Only the arena winner can claim winnings. This account is not the winner.'')
                     ''buildClaimWinningsTransaction'' None))
              else and_do (getAccount K cfg fetch pk ''buildClaimWinningsTransaction'') (\<lambda>account.
                and_do (tk_contract K pool) (\<lambda>_.
                  and_do (buildClaimCallOperation K pool pk) (\<lambda>operation.
                    composeUnsignedTransaction K cfg account (tk_BASE_FEE K) getShortTxTimeoutSeconds operation)))))))"

section \<open>Submission\<close>

text \<open>
  The polls that are left, the number of the next one and the answer answer; \<open>polls k\<close> is what the
  \<open>k\<close>-th \<open>getTransaction\<close> settles to. An answer is its status.
\<close>

fun submit_polls :: "(nat \<Rightarrow> thrown + string) \<Rightarrow> nat \<Rightarrow> nat \<Rightarrow> string option \<Rightarrow> string option" where
  "submit_polls polls 0 k answer = answer"
| "submit_polls polls (Suc n) k answer =
     (case polls k of
        Inl _ \<Rightarrow> submit_polls polls n (Suc k) answer
      | Inr status \<Rightarrow>
          if status \<noteq> ''NOT_FOUND'' then Some status else submit_polls polls n (Suc k) (Some status))"

definition timed_out :: "string \<Rightarrow> thrown" where
  "timed_out hash = Contract (new_ContractError TRANSACTION_TIMEOUT
     (Some (''Transaction status could not be confirmed before timing out. It may still succeed - check status manually with hash: '' @ hash))
     ''submitSignedTransaction'' (Some hash))"

definition submitSignedTransaction ::
    "('acct, 'tx, 'stx) tx_sdk \<Rightarrow> frontend_config \<Rightarrow> (nat \<Rightarrow> thrown + string) \<Rightarrow> string \<Rightarrow> thrown + string" where
  "submitSignedTransaction K cfg polls signedXdr =
     wrapped ''submitSignedTransaction''
       (and_do (parsed_or_throw K (SignedXdrSchema signedXdr)) (\<lambda>x.
          and_do (tk_fromXDR K x (fc_passphrase cfg)) (\<lambda>tx.
            and_do (tk_send K tx) (\<lambda>response.
              if sp_status response \<noteq> ''PENDING''
              then Inl (Contract (new_ContractError TRANSACTION_FAILED
                     (Some (''Transaction rejected by network: '' @ sp_status response)) ''submitSignedTransaction'' None))
              else (case submit_polls polls submit_maxRetries 0 None of
                      None \<Rightarrow> Inl (timed_out (sp_hash response))
                    | Some status \<Rightarrow>
                        if status = ''NOT_FOUND'' then Inl (timed_out (sp_hash response))
                        else if status \<noteq> ''SUCCESS''
                        then Inl (Contract (new_ContractError TRANSACTION_FAILED
                               (Some (''Transaction confirmation failed: '' @ status)) ''submitSignedTransaction''
                               (Some (sp_hash response))))
                        else Inr status)))))"

section \<open>Horizon\<close>

datatype horizon_status = HSuccess | HFailed | HNotFound

fun jtruthy :: "jval option \<Rightarrow> bool" where
  "jtruthy None = False"
| "jtruthy (Some JNull) = False"
| "jtruthy (Some (JBool b)) = b"
| "jtruthy (Some (JNum x)) = (x \<noteq> 0)"
| "jtruthy (Some (JStr s)) = (s \<noteq> [])"
| "jtruthy (Some _) = True"

definition checkTransactionOnHorizon ::
    "(string \<Rightarrow> thrown + http_response) \<Rightarrow> string \<Rightarrow> string \<Rightarrow> thrown + horizon_status" where
  "checkTransactionOnHorizon fetch horizonBaseUrl hash =
     and_do (fetch (strip_slashes horizonBaseUrl @ ''/transactions/'' @ hash)) (\<lambda>res.
       if hr_status res = 404 then Inr HNotFound
       else if \<not> http_ok res
       then Inl (Contract (new_ContractError UNKNOWN
              (Some (''Horizon transaction lookup failed: '' @ dec_digits (hr_status res)))
              ''checkTransactionOnHorizon'' (Some hash)))
       else and_do (hr_json res) (\<lambda>data.
         if data = JNull then Inl (OtherErr ''Cannot read properties of null'')
         else Inr (if jtruthy (jfield ''successful'' data) then HSuccess else HFailed)))"

text \<open>\<open>fetches k\<close> is \<open>fetch\<close> as the attempt \<open>k\<close> sees it; the result has the attempts made.\<close>

fun reconcile_attempts ::
    "(nat \<Rightarrow> string \<Rightarrow> thrown + http_response) \<Rightarrow> string \<Rightarrow> string \<Rightarrow> nat \<Rightarrow> nat \<Rightarrow> horizon_status \<times> nat" where
  "reconcile_attempts fetches url hash 0 k = (HNotFound, k)"
| "reconcile_attempts fetches url hash (Suc n) k =
     (let result = (case checkTransactionOnHorizon (fetches k) url hash of Inl _ \<Rightarrow> HNotFound | Inr r \<Rightarrow> r) in
      if result \<noteq> HNotFound then (result, Suc k) else reconcile_attempts fetches url hash n (Suc k))"

definition reconcilePendingTransaction ::
    "(nat \<Rightarrow> string \<Rightarrow> thrown + http_response) \<Rightarrow> string \<Rightarrow> string \<Rightarrow> nat \<Rightarrow> horizon_status \<times> nat" where
  "reconcilePendingTransaction fetches url hash maxAttempts = reconcile_attempts fetches url hash maxAttempts 0"

end
