(* ===== verification/StellarResults.thy ===== *)
theory StellarResults
  imports StellarTx
begin

text \<open>
  What the frontend's transactions promise: the commitment and its reveal, the errors that leave the
  builders, what a submission and a reconciliation report.
\<close>

section \<open>Errors\<close>

definition only_contract_errors :: "thrown + 'a \<Rightarrow> bool" where
  "only_contract_errors r = (case r of Inl (Contract c) \<Rightarrow> True | Inl _ \<Rightarrow> False | Inr _ \<Rightarrow> True)"

lemma only_contract_errors_wrapped [simp]: "only_contract_errors (wrapped fn r)"
  by (cases r) (simp_all add: wrapped_def only_contract_errors_def)

lemma only_contract_errors_throw: "only_contract_errors r \<longleftrightarrow> (\<forall>e. r = Inl e \<longrightarrow> (\<exists>c. e = Contract c))"
  by (auto simp: only_contract_errors_def split: sum.split thrown.split)


text \<open>
  A simulation that fails with the host error of a contract panic reaches the user as the message
  registered for that panic code, whatever the host wrote after it, and with the builder's name.
\<close>

theorem panic_code_reported:
  "parseContractError (OtherErr (host_error n rest)) fn =
     \<lparr>ce_code = SIMULATION_FAILED,
      ce_message = ''Contract simulation failed: '' @ userMessageForContractPanicCode n, ce_fn = fn, ce_hash = None\<rparr>
   \<and> parseContractError (Obj [(''error'', PString (host_error n rest))]) fn =
     \<lparr>ce_code = SIMULATION_FAILED,
      ce_message = ''Contract simulation failed: '' @ userMessageForContractPanicCode n, ce_fn = fn, ce_hash = None\<rparr>"
proof -
  have host: "str_includes ''HostError'' (host_error n rest)"
    by (simp add: host_error_def starts_with_iff)
  have msg: "userMessageForContractPanicCode n \<noteq> []"
    by (simp add: userMessageForContractPanicCode_def formatContractPanicMessage_def)
  show ?thesis
    using host msg
    by (simp add: parseContractError_def parse_message_def isSimulationError_def extractSimulationDetail_def
        parseHostError_code new_ContractError_def)
qed

section \<open>Commit and reveal\<close>

lemma encodeBytes32_return [return_iff]: "encodeBytes32 b = Inr v \<longleftrightarrow> length b = 32 \<and> v = ScBytes b"
  by (auto simp: encodeBytes32_def)

lemma computeCommitment_return [return_iff]:
  "computeCommitment sha256 c salt = Inr h \<longleftrightarrow> length salt = 32 \<and> h = sha256 (choiceToByte c # salt)"
  by (auto simp: computeCommitment_def)

definition commit_inputs :: "string \<Rightarrow> string \<Rightarrow> string \<Rightarrow> rat \<Rightarrow> bytes \<Rightarrow>
    (string \<times> string \<times> round_choice \<times> nat) option" where
  "commit_inputs publicKey poolId choice r salt =
     (case (StellarPublicKeySchema publicKey, StellarContractIdSchema poolId, RoundChoiceSchema choice, RoundNumberSchema r) of
        (Inr pk, Inr pool, Inr c, Inr n) \<Rightarrow> if length salt = 32 then Some (pk, pool, c, n) else None
      | _ \<Rightarrow> None)"

lemma commit_inputs_Some: "commit_inputs publicKey poolId choice r salt = Some (pk, pool, c, n) \<longleftrightarrow>
    StellarPublicKeySchema publicKey = Inr pk \<and> StellarContractIdSchema poolId = Inr pool \<and>
    RoundChoiceSchema choice = Inr c \<and> RoundNumberSchema r = Inr n \<and> length salt = 32"
  by (auto simp: commit_inputs_def split: sum.splits)

text \<open>The validated inputs are stored before anything else can fail.\<close>

lemma commit_stores:
  assumes "commit_inputs publicKey poolId choice r salt = Some (pk, pool, c, n)"
  shows "buildSubmitCommitmentTransaction K cfg fetch sha256 salt publicKey poolId choice r st =
    (wrapped ''buildSubmitCommitmentTransaction''
       (and_do (getAccount K cfg fetch pk ''buildSubmitCommitmentTransaction'') (\<lambda>account.
          and_do (tk_contract K pool) (\<lambda>_.
            and_do (buildSubmitCommitmentOperation K pool pk (sha256 (choiceToByte c # salt))) (\<lambda>operation.
              composeUnsignedTransaction K cfg account (tk_BASE_FEE K) getStandardTxTimeoutSeconds operation)))),
     saveCommitment pool n \<lparr>so_choice = c, so_salt = salt\<rparr> st)"
  using assms
  by (simp add: commit_inputs_Some buildSubmitCommitmentTransaction_def parsed_or_throw_def computeCommitment_def)

text \<open>A built transaction that invokes the given method of the contract with these arguments.\<close>

definition invokes :: "('acct, 'tx, 'stx) tx_sdk \<Rightarrow> frontend_config \<Rightarrow> 'tx \<Rightarrow> string \<Rightarrow> string \<Rightarrow> scval list \<Rightarrow> bool" where
  "invokes K cfg tx contract method args \<longleftrightarrow>
     (\<exists>account fee timeout a. composeUnsignedTransaction K cfg account fee timeout
        \<lparr>op_contract = contract, op_method = method, op_args = a # args\<rparr> = Inr tx)"

lemma invokesI:
  "composeUnsignedTransaction K cfg account fee timeout
     \<lparr>op_contract = contract, op_method = method, op_args = a # args\<rparr> = Inr tx \<Longrightarrow> invokes K cfg tx contract method args"
  unfolding invokes_def by blast

lemma commit_submits:
  assumes "buildSubmitCommitmentTransaction K cfg fetch sha256 salt publicKey poolId choice r st = (Inr tx, st1)"
    and "StellarContractIdSchema poolId = Inr pool" and "RoundNumberSchema r = Inr n"
  shows "\<exists>c. RoundChoiceSchema choice = Inr c \<and> length salt = 32
    \<and> invokes K cfg tx pool ''submit_commitment'' [ScBytes (sha256 (choiceToByte c # salt))]
    \<and> st1 = saveCommitment pool n \<lparr>so_choice = c, so_salt = salt\<rparr> st"
  using assms
  by (auto simp: buildSubmitCommitmentTransaction_def return_iff buildSubmitCommitmentOperation_def
      split: sum.splits intro: invokesI)

lemma reveal_of_stored:
  assumes "StellarContractIdSchema poolId = Inr pool" and "RoundNumberSchema r = Inr n"
    and "loadCommitment pool n st = Some \<lparr>so_choice = c, so_salt = salt\<rparr>"
    and "buildRevealChoiceTransaction K cfg fetch publicKey poolId r st = Inr tx"
  shows "invokes K cfg tx pool ''reveal_choice'' [ScSymbol (choice_name c), ScBytes salt]"
  using assms
  by (auto simp: buildRevealChoiceTransaction_def return_iff buildRevealChoiceOperation_def encodeChoice_def intro: invokesI)

text \<open>
  C2: After a commitment was built for an arena and a round, and whatever is committed for other arenas
  and rounds meanwhile, a reveal for that arena and round carries the very choice and salt whose hash
  the first transaction submitted, and the commitment itself shows only the hash.
\<close>

theorem reveal_matches_commitment:
  assumes "buildSubmitCommitmentTransaction K cfg fetch sha256 salt publicKey poolId choice r st = (Inr tx, st1)"
    and "StellarContractIdSchema poolId = Inr pool" and "RoundNumberSchema r = Inr n"
    and "(pool, n) \<notin> fst ` set others"
    and "buildRevealChoiceTransaction K cfg fetch2 player poolId r (saveCommitments others st1) = Inr tx2"
  shows "\<exists>c. RoundChoiceSchema choice = Inr c
    \<and> invokes K cfg tx pool ''submit_commitment'' [ScBytes (sha256 (choiceToByte c # salt))]
    \<and> invokes K cfg tx2 pool ''reveal_choice'' [ScSymbol (choice_name c), ScBytes salt]"
proof -
  obtain c where c: "RoundChoiceSchema choice = Inr c" "length salt = 32"
    and tx: "invokes K cfg tx pool ''submit_commitment'' [ScBytes (sha256 (choiceToByte c # salt))]"
    and st1: "st1 = saveCommitment pool n \<lparr>so_choice = c, so_salt = salt\<rparr> st"
    using commit_submits [OF assms(1-3)] by blast
  have "loadCommitment pool n (saveCommitments others st1) = Some \<lparr>so_choice = c, so_salt = salt\<rparr>"
    using commitments.last_write_wins [of "\<lparr>so_choice = c, so_salt = salt\<rparr>" "(pool, n)" others st] assms(4) c
    by (simp add: st1)
  from reveal_of_stored [OF assms(2,3) this assms(5)] tx c show ?thesis by blast
qed

text \<open>
  The key of the store is the arena and the round only. A second commitment for them, from any
  wallet and even when its own transaction is then never built, replaces the salt of the first: a
  reveal by the first player discloses the second choice and salt, while the hash submitted first is
  that of the first ones.
\<close>

theorem second_commit_strands_first:
  assumes "buildSubmitCommitmentTransaction K cfg fetch sha256 salt publicKey poolId choice r st = (Inr tx, st1)"
    and "commit_inputs publicKey2 poolId choice2 r salt2 = Some (pk2, pool, c2, n)"
    and "buildSubmitCommitmentTransaction K cfg fetch2 sha256 salt2 publicKey2 poolId choice2 r st1 = (res, st2)"
    and "buildRevealChoiceTransaction K cfg fetch3 publicKey poolId r st2 = Inr tx2"
  shows "\<exists>c. RoundChoiceSchema choice = Inr c
    \<and> invokes K cfg tx pool ''submit_commitment'' [ScBytes (sha256 (choiceToByte c # salt))]
    \<and> invokes K cfg tx2 pool ''reveal_choice'' [ScSymbol (choice_name c2), ScBytes salt2]"
proof -
  have ids: "StellarContractIdSchema poolId = Inr pool" "RoundNumberSchema r = Inr n" "length salt2 = 32"
    using assms(2) by (simp_all add: commit_inputs_Some)
  have "st2 = saveCommitment pool n \<lparr>so_choice = c2, so_salt = salt2\<rparr> st1"
    using commit_stores [OF assms(2), of K cfg fetch2 sha256 st1] assms(3) by simp
  then have "loadCommitment pool n st2 = Some \<lparr>so_choice = c2, so_salt = salt2\<rparr>"
    using ids(3) by (simp add: load_save_same)
  from reveal_of_stored [OF ids(1,2) this assms(4)] commit_submits [OF assms(1) ids(1,2)]
  show ?thesis by blast
qed

section \<open>Submission\<close>

lemma submit_polls_find:
  assumes "answer = None \<or> answer = Some ''NOT_FOUND''"
  shows "case List.find (\<lambda>p. \<exists>s. p = Inr s \<and> s \<noteq> ''NOT_FOUND'') (map polls [k..<k + n]) of
      Some p \<Rightarrow> submit_polls polls n k answer = Some (projr p)
    | None \<Rightarrow> submit_polls polls n k answer = None \<or> submit_polls polls n k answer = Some ''NOT_FOUND''"
  using assms
proof (induction n arbitrary: k answer)
  case (Suc n)
  have upt: "[k..<k + Suc n] = k # [Suc k..<Suc k + n]" by (simp add: upt_conv_Cons del: upt_Suc)
  show ?case
  proof (cases "polls k")
    case (Inl e)
    then show ?thesis using Suc.IH [OF Suc.prems, of "Suc k"] unfolding upt by (simp del: upt_Suc split: option.splits)
  next
    case (Inr s)
    then show ?thesis using Suc.IH [of "Some ''NOT_FOUND''" "Suc k"] unfolding upt by (auto simp del: upt_Suc split: option.splits)
  qed
qed simp

text \<open>An answer of the network that settles what became of the transaction.\<close>

definition terminal_answer :: "thrown + string \<Rightarrow> bool" where
  "terminal_answer p = (case p of Inl _ \<Rightarrow> False | Inr s \<Rightarrow> s \<noteq> ''NOT_FOUND'')"

text \<open>
  C10: Once the network has accepted a transaction, the submission reports what the first terminal
  answer among ten polls says: SUCCESS returns, any other status is TRANSACTION_FAILED. When no poll gave
  a terminal answer, because every one threw or said NOT_FOUND, the error is TRANSACTION_TIMEOUT. Both
  errors carry the hash.
\<close>

theorem submission_outcome:
  assumes "SignedXdrSchema signedXdr = Inr x" and "tk_fromXDR K x (fc_passphrase cfg) = Inr stx"
    and "tk_send K stx = Inr \<lparr>sp_status = ''PENDING'', sp_hash = hash\<rparr>"
  shows "submitSignedTransaction K cfg polls signedXdr =
    (case List.find terminal_answer (map polls [0..<10]) of
       None \<Rightarrow> Inl (timed_out hash)
     | Some p \<Rightarrow>
         if p = Inr ''SUCCESS'' then Inr ''SUCCESS''
         else Inl (Contract (new_ContractError TRANSACTION_FAILED
                (Some (''Transaction confirmation failed: '' @ projr p)) ''submitSignedTransaction'' (Some hash))))"
proof -
  have t: "terminal_answer = (\<lambda>p. \<exists>s. p = Inr s \<and> s \<noteq> ''NOT_FOUND'')"
    by (auto simp: terminal_answer_def fun_eq_iff split: sum.split)
  have polled: "case List.find terminal_answer (map polls [0..<10]) of
      Some p \<Rightarrow> submit_polls polls 10 0 None = Some (projr p)
    | None \<Rightarrow> submit_polls polls 10 0 None = None \<or> submit_polls polls 10 0 None = Some ''NOT_FOUND''"
    using submit_polls_find [OF disjI1 [OF refl], where polls = polls and k = 0 and n = 10] unfolding t by (simp only: add_0)
  have start: "submitSignedTransaction K cfg polls signedXdr =
      wrapped ''submitSignedTransaction''
        (case submit_polls polls 10 0 None of
           None \<Rightarrow> Inl (timed_out hash)
         | Some status \<Rightarrow>
             if status = ''NOT_FOUND'' then Inl (timed_out hash)
             else if status \<noteq> ''SUCCESS''
             then Inl (Contract (new_ContractError TRANSACTION_FAILED
                    (Some (''Transaction confirmation failed: '' @ status)) ''submitSignedTransaction'' (Some hash)))
             else Inr status)"
    using assms
    by (cases "submit_polls polls 10 0 None")
      (simp_all add: submitSignedTransaction_def parsed_or_throw_def submit_maxRetries_def)
  show ?thesis
  proof (cases "List.find terminal_answer (map polls [0..<10])")
    case None
    then have "submit_polls polls 10 0 None = None \<or> submit_polls polls 10 0 None = Some ''NOT_FOUND''"
      using polled by simp
    then show ?thesis using None by (auto simp: start timed_out_def)
  next
    case (Some p)
    then obtain s where p: "p = Inr s" "s \<noteq> ''NOT_FOUND''" by (auto simp: t find_Some_iff)
    then have "submit_polls polls 10 0 None = Some s"
      using polled Some by simp
    then show ?thesis using Some p by (simp add: start)
  qed
qed

text \<open>The status of one lookup, a failed one counted as unknown.\<close>

definition lookup_status :: "(string \<Rightarrow> thrown + http_response) \<Rightarrow> string \<Rightarrow> string \<Rightarrow> horizon_status" where
  "lookup_status fetch url hash =
     (case checkTransactionOnHorizon fetch url hash of Inl _ \<Rightarrow> HNotFound | Inr r \<Rightarrow> r)"

lemma reconcile_attempts_find:
  "fst (reconcile_attempts fetches url hash n k) =
     (case List.find (\<lambda>s. s \<noteq> HNotFound) (map (\<lambda>i. lookup_status (fetches i) url hash) [k..<k + n]) of
        None \<Rightarrow> HNotFound | Some s \<Rightarrow> s)
   \<and> snd (reconcile_attempts fetches url hash n k) \<le> k + n"
proof (induction n arbitrary: k)
  case (Suc n)
  have upt: "[k..<k + Suc n] = k # [Suc k..<Suc k + n]" by (simp add: upt_conv_Cons del: upt_Suc)
  show ?case using Suc.IH [of "Suc k"] unfolding upt by (auto simp: lookup_status_def Let_def simp del: upt_Suc)
qed simp

text \<open>
  C39: The reconciler of a transaction left unknown ends after at most the allowed number of attempts
  and answers the first terminal status that a lookup on Horizon gave, or NOT_FOUND when none did; a
  lookup that fails never settles the transaction.
\<close>

theorem reconciler_first_terminal:
  "fst (reconcilePendingTransaction fetches url hash maxAttempts) =
     (case List.find (\<lambda>s. s \<noteq> HNotFound) (map (\<lambda>i. lookup_status (fetches i) url hash) [0..<maxAttempts]) of
        None \<Rightarrow> HNotFound | Some s \<Rightarrow> s)
   \<and> snd (reconcilePendingTransaction fetches url hash maxAttempts) \<le> maxAttempts"
  using reconcile_attempts_find [of fetches url hash maxAttempts 0]
  by (simp add: reconcilePendingTransaction_def)

section \<open>Amounts and claims\<close>

text \<open>
  Every signed 128-bit amount that the contract returns is decoded to itself from its two 64-bit
  parts, the negative ones too, and decoding any parts is two's complement.
\<close>

theorem i128_decoding:
  "extractI128FromScVal (ScI128 hi lo) None = Some (sint hi * 2 ^ 64 + uint lo)
   \<and> (- (2 ^ 127) \<le> i \<and> i < 2 ^ 127 \<longrightarrow> extractI128FromScVal (i128_parts i) None = Some i)"
  using extract_i128_value i128_roundtrip by blast

text \<open>
  An amount that the schema accepts becomes at most ten to the sixteenth stroops and is shown again
  with an error below one stroop. An accepted amount below one stroop is sent as zero.
\<close>

theorem amount_in_stroops:
  assumes "PositiveAmountSchema x = Inr v"
  shows "0 \<le> to_stroops v \<and> to_stroops v \<le> 10 ^ 16
    \<and> stroopsToDisplayAmount (to_stroops v) \<le> x \<and> x < stroopsToDisplayAmount (to_stroops v) + 1 / 10000000
    \<and> (to_stroops v = 0 \<longleftrightarrow> x < 1 / 10000000)"
proof -
  have x: "v = x" "0 < x" "x \<le> 1000000000"
    using assms by (simp_all add: PositiveAmountSchema_def schema_checked_def issues_def split: if_splits)
  have fl: "of_int (to_stroops x) \<le> x * 10000000" "x * 10000000 < of_int (to_stroops x) + 1"
    unfolding to_stroops_def by linarith+
  have "0 \<le> to_stroops x" and "to_stroops x \<le> 10 ^ 16"
    using x by (simp_all add: to_stroops_def floor_le_iff)
  moreover have "to_stroops x = 0 \<longleftrightarrow> x * 10000000 < 1"
    using x by (simp add: to_stroops_def floor_eq_iff)
  ultimately show ?thesis
    using fl x(1) by (simp add: stroopsToDisplayAmount_def field_simps)
qed

lemma hasWon_response: "sr_hasWon (arena_response arena b v) \<longleftrightarrow> b \<and> extractBoolFromScVal v (Some ''has_won'') = Some True"
  by (simp add: arena_response_def Let_def get_or_def split: option.split)

lemma sim_return [return_iff]:
  "(case sim of SimulationFailed m \<Rightarrow> Inl (f m) | SimulationEmpty \<Rightarrow> Inl e | SimulationResult v \<Rightarrow> Inr (g v)) = Inr y
   \<longleftrightarrow> (\<exists>v. sim = SimulationResult v \<and> g v = y)"
  by (cases sim) simp_all

lemma won_state:
  assumes "StellarContractIdSchema pool = Inr pool" and "StellarPublicKeySchema u = Inr u" and "u \<noteq> []"
    and "encodeAddress (tk_scval K) u = Inr a"
    and "fetchArenaState K cfg pool (Some u) = Inr state" and "sr_hasWon state"
  shows "\<exists>dummy stx v. composeUnsignedTransaction K cfg dummy (tk_BASE_FEE K) 30
         \<lparr>op_contract = pool, op_method = ''get_full_state'', op_args = [a]\<rparr> = Inr stx
     \<and> tk_simulate K stx = Inr (SimulationResult v) \<and> extractBoolFromScVal v (Some ''has_won'') = Some True"
proof -
  obtain dummy stx v where "composeUnsignedTransaction K cfg dummy (tk_BASE_FEE K) 30
         \<lparr>op_contract = pool, op_method = ''get_full_state'', op_args = [a]\<rparr> = Inr stx"
    and "tk_simulate K stx = Inr (SimulationResult v)" and "arena_response pool True v = state"
    using assms(1-5)
    by (auto simp: fetchArenaState_def return_iff buildGetFullStateCallOperation_def getShortTxTimeoutSeconds_def)
  with assms(6) show ?thesis using hasWon_response by blast
qed

text \<open>
  A claim is built only when the simulation of the arena's state for this very key answered a map
  whose \<open>has_won\<close> is true.
\<close>

theorem claim_needs_win:
  assumes "buildClaimWinningsTransaction K cfg fetch publicKey poolId = Inr tx"
  shows "\<exists>pool a dummy stx v account.
     encodeAddress (tk_scval K) (js_trim publicKey) = Inr a
     \<and> composeUnsignedTransaction K cfg dummy (tk_BASE_FEE K) 30
         \<lparr>op_contract = pool, op_method = ''get_full_state'', op_args = [a]\<rparr> = Inr stx
     \<and> tk_simulate K stx = Inr (SimulationResult v)
     \<and> extractBoolFromScVal v (Some ''has_won'') = Some True
     \<and> composeUnsignedTransaction K cfg account (tk_BASE_FEE K) 30
         \<lparr>op_contract = pool, op_method = ''claim'', op_args = [a]\<rparr> = Inr tx"
proof -
  let ?pk = "js_trim publicKey"
  obtain pool state account a where pool: "StellarContractIdSchema poolId = Inr pool"
    and pk: "StellarPublicKeySchema publicKey = Inr ?pk"
    and state: "fetchArenaState K cfg pool (Some ?pk) = Inr state" "sr_hasWon state"
    and a: "encodeAddress (tk_scval K) ?pk = Inr a"
    and tx: "composeUnsignedTransaction K cfg account (tk_BASE_FEE K) 30
         \<lparr>op_contract = pool, op_method = ''claim'', op_args = [a]\<rparr> = Inr tx"
    using assms
    by (auto simp: buildClaimWinningsTransaction_def return_iff buildClaimCallOperation_def getShortTxTimeoutSeconds_def
        StellarPublicKeySchema_def split: if_splits)
  have pk2: "StellarPublicKeySchema ?pk = Inr ?pk" "?pk \<noteq> []"
    using pk by (auto simp: StellarPublicKeySchema_def public_key_regex_def split: if_splits)
  have pool2: "StellarContractIdSchema pool = Inr pool"
    using pool by (auto simp: StellarContractIdSchema_def split: if_splits)
  from won_state [OF pool2 pk2 a state] a tx show ?thesis by blast
qed

section \<open>Witnesses\<close>

text \<open>An SDK that builds what it is given, a wallet, an arena and a Horizon that knows the wallet.\<close>

definition demo_key :: string where "demo_key = ''G'' @ replicate 55 (CHR ''A'')"

definition demo_arena :: string where "demo_arena = ''C...A1''"

definition demo_stellar :: "bool \<Rightarrow> (string \<times> string, (string \<times> string) unsigned_tx, string) tx_sdk" where
  "demo_stellar won =
     \<lparr>tk_scval = \<lparr>sv_address = (\<lambda>s. Inr (ScAddress s)), sv_contract = (\<lambda>s. Inr (ScAddress s)),
        sv_i128 = (\<lambda>i. Inr (i128_parts i)), sv_u32 = (\<lambda>i. Inr (ScU32 (word_of_int i)))\<rparr>,
      tk_account = (\<lambda>k s. Inr (k, s)), tk_contract = (\<lambda>_. Inr ()), tk_poolConfig = (\<lambda>_. Inr (ScOther ''PoolConfig'')),
      tk_build = Inr, tk_prepare = (\<lambda>_. Inl (OtherErr ''Request failed with status code 503'')),
      tk_simulate = (\<lambda>_. Inr (SimulationResult (ScMap (Some [(ScSymbol ''has_won'', ScBool won)])))),
      tk_fromXDR = (\<lambda>x _. Inr x), tk_send = (\<lambda>_. Inr \<lparr>sp_status = ''PENDING'', sp_hash = ''h1''\<rparr>),
      tk_numberText = (\<lambda>_. ''0''), tk_zodText = concat, tk_BASE_FEE = ''100'', tk_TimeoutInfinite = 0\<rparr>"

definition demo_frontend :: frontend_config where
  "demo_frontend = \<lparr>fc_factory = ''F'', fc_xlm = ''X'', fc_usdc = ''U'', fc_staking = Some ''S'', fc_rwaVault = None,
     fc_oracle = None, fc_passphrase = ''P'', fc_horizonUrl = ''H''\<rparr>"

definition demo_horizon :: "string \<Rightarrow> thrown + http_response" where
  "demo_horizon _ = Inr \<lparr>hr_status = 200, hr_json = Inr (JObj [(''sequence'', JStr ''7'')])\<rparr>"

definition no_horizon :: "string \<Rightarrow> thrown + http_response" where
  "no_horizon _ = Inl (OtherErr ''fetch failed'')"

lemma demo_ids: "StellarPublicKeySchema demo_key = Inr demo_key" "StellarContractIdSchema demo_arena = Inr demo_arena"
  "RoundNumberSchema 3 = Inr 3" "js_trim demo_key = demo_key"
proof -
  show t: "js_trim demo_key = demo_key"
    by (rule js_trim_id) (simp_all add: demo_key_def is_space_def char_class_defs)
  show "StellarPublicKeySchema demo_key = Inr demo_key"
    by (simp add: StellarPublicKeySchema_def t) (simp add: demo_key_def public_key_regex_def char_class_defs list_all_iff)
  have "js_trim demo_arena = demo_arena"
    by (rule js_trim_id) (simp_all add: demo_arena_def is_space_def char_class_defs)
  then show "StellarContractIdSchema demo_arena = Inr demo_arena"
    by (simp add: StellarContractIdSchema_def)
      (simp add: demo_arena_def short_contract_id_def char_class_defs all_chars_def)
  show "RoundNumberSchema 3 = Inr 3" by (simp add: RoundNumberSchema_def schema_checked_def issues_def)
qed

lemma demo_account_loads: "getAccount (demo_stellar w) demo_frontend demo_horizon demo_key fn = Inr (demo_key, ''7'')"
  by (simp add: getAccount_def demo_ids parsed_or_throw_def loadAccountFromHorizon_def demo_horizon_def http_ok_def
      HorizonAccountResponseSchema_def demo_stellar_def)

lemma demo_encode: "encodeAddress (tk_scval (demo_stellar w)) demo_key = Inr (ScAddress demo_key)"
  by (simp add: encodeAddress_def demo_ids) (simp add: demo_stellar_def)

lemma demo_compose: "composeUnsignedTransaction (demo_stellar w) cfg acc fee t operation =
    Inr \<lparr>ut_account = acc, ut_fee = fee, ut_networkPassphrase = fc_passphrase cfg, ut_timeout = t, ut_operation = operation\<rparr>"
  by (simp add: composeUnsignedTransaction_def demo_stellar_def)

lemma demo_contract: "tk_contract (demo_stellar w) c = Inr ()"
  by (simp add: demo_stellar_def)

lemmas demo_facts = demo_ids demo_account_loads demo_encode demo_compose demo_contract parsed_or_throw_def

text \<open>A hash of the right length that keeps the first byte.\<close>

definition demo_hash :: "bytes \<Rightarrow> bytes" where "demo_hash bs = take 32 bs"

definition demo_commit where
  "demo_commit choice b st = buildSubmitCommitmentTransaction (demo_stellar False) demo_frontend demo_horizon demo_hash
     (replicate 32 b) demo_key demo_arena choice 3 st"

lemma demo_commit_eq:
  "demo_commit ''Heads'' b st =
    (Inr \<lparr>ut_account = (demo_key, ''7''), ut_fee = tk_BASE_FEE (demo_stellar False), ut_networkPassphrase = ''P'', ut_timeout = 30,
       ut_operation = \<lparr>op_contract = demo_arena, op_method = ''submit_commitment'',
         op_args = [ScAddress demo_key, ScBytes (0 # replicate 31 b)]\<rparr>\<rparr>,
     saveCommitment demo_arena 3 \<lparr>so_choice = Heads, so_salt = replicate 32 b\<rparr> st)"
  by (simp add: demo_commit_def buildSubmitCommitmentTransaction_def demo_facts RoundChoiceSchema_def computeCommitment_def
      buildSubmitCommitmentOperation_def demo_hash_def encodeBytes32_def getStandardTxTimeoutSeconds_def)
    (simp add: demo_frontend_def)

lemma demo_reveal:
  assumes "loadCommitment demo_arena 3 st = Some \<lparr>so_choice = c, so_salt = replicate 32 b\<rparr>"
  shows "\<exists>tx. buildRevealChoiceTransaction (demo_stellar False) demo_frontend demo_horizon demo_key demo_arena 3 st = Inr tx"
  using assms
  by (simp add: buildRevealChoiceTransaction_def demo_facts buildRevealChoiceOperation_def encodeBytes32_def)

theorem reveal_matches_commitment_witness:
  "\<exists>tx tx2 c. RoundChoiceSchema ''Heads'' = Inr c
    \<and> invokes (demo_stellar False) demo_frontend tx demo_arena ''submit_commitment'' [ScBytes (demo_hash (choiceToByte c # replicate 32 5))]
    \<and> invokes (demo_stellar False) demo_frontend tx2 demo_arena ''reveal_choice'' [ScSymbol (choice_name c), ScBytes (replicate 32 5)]"
proof -
  let ?others = "[((demo_arena, 2), \<lparr>so_choice = Tails, so_salt = replicate 32 9\<rparr>)]"
  obtain tx st1 where commit: "demo_commit ''Heads'' 5 (\<lambda>_. None) = (Inr tx, st1)"
    and st1: "st1 = saveCommitment demo_arena 3 \<lparr>so_choice = Heads, so_salt = replicate 32 5\<rparr> (\<lambda>_. None)"
    using demo_commit_eq by blast
  have "loadCommitment demo_arena 3 (saveCommitments ?others st1) = Some \<lparr>so_choice = Heads, so_salt = replicate 32 5\<rparr>"
    by (simp add: st1 saveCommitments_def load_save_other load_save_same)
  from demo_reveal [OF this] obtain tx2 where
    "buildRevealChoiceTransaction (demo_stellar False) demo_frontend demo_horizon demo_key demo_arena 3
       (saveCommitments ?others st1) = Inr tx2" ..
  from reveal_matches_commitment [OF commit [unfolded demo_commit_def] demo_ids(2,3) _ this]
  show ?thesis by auto
qed

theorem second_commit_strands_first_witness:
  "\<exists>tx tx2 c. RoundChoiceSchema ''Heads'' = Inr c
    \<and> invokes (demo_stellar False) demo_frontend tx demo_arena ''submit_commitment'' [ScBytes (demo_hash (choiceToByte c # replicate 32 5))]
    \<and> invokes (demo_stellar False) demo_frontend tx2 demo_arena ''reveal_choice'' [ScSymbol ''Tails'', ScBytes (replicate 32 6)]"
proof -
  obtain tx st1 where commit: "demo_commit ''Heads'' 5 (\<lambda>_. None) = (Inr tx, st1)" using demo_commit_eq by blast
  have inputs: "commit_inputs demo_key demo_arena ''Tails'' 3 (replicate 32 6) = Some (demo_key, demo_arena, Tails, 3)"
    by (simp add: commit_inputs_def demo_ids RoundChoiceSchema_def)
  obtain res st2 where again: "buildSubmitCommitmentTransaction (demo_stellar False) demo_frontend no_horizon demo_hash
      (replicate 32 6) demo_key demo_arena ''Tails'' 3 st1 = (res, st2)" by fastforce
  with commit_stores [OF inputs, of "demo_stellar False" demo_frontend no_horizon demo_hash st1]
  have "st2 = saveCommitment demo_arena 3 \<lparr>so_choice = Tails, so_salt = replicate 32 6\<rparr> st1" by simp
  then have "loadCommitment demo_arena 3 st2 = Some \<lparr>so_choice = Tails, so_salt = replicate 32 6\<rparr>"
    by (simp add: load_save_same)
  from demo_reveal [OF this] obtain tx2 where
    "buildRevealChoiceTransaction (demo_stellar False) demo_frontend demo_horizon demo_key demo_arena 3 st2 = Inr tx2" ..
  from second_commit_strands_first [OF commit [unfolded demo_commit_def] inputs again this]
  show ?thesis by auto
qed

theorem submission_outcome_witness:
  "submitSignedTransaction (demo_stellar False) demo_frontend (\<lambda>k. if k < 3 then Inl (OtherErr ''x'') else Inr ''NOT_FOUND'')
     (replicate 20 (CHR ''A'')) = Inl (timed_out ''h1'')"
proof -
  have "js_trim (replicate 20 (CHR ''A'')) = replicate 20 (CHR ''A'')"
    by (rule js_trim_id) (simp_all add: is_space_def char_class_defs)
  then have x: "SignedXdrSchema (replicate 20 (CHR ''A'')) = Inr (replicate 20 (CHR ''A''))"
    by (simp add: SignedXdrSchema_def schema_checked_def issues_def)
  have none: "List.find terminal_answer
      (map (\<lambda>k. if k < 3 then Inl (OtherErr ''x'') else Inr ''NOT_FOUND'') [0..<10]) = None"
    by (auto simp: find_None_iff terminal_answer_def)
  show ?thesis
    using submission_outcome [OF x, of "demo_stellar False" demo_frontend "replicate 20 (CHR ''A'')" "''h1''"
        "\<lambda>k. if k < 3 then Inl (OtherErr ''x'') else Inr ''NOT_FOUND''"]
    by (simp only: none option.case) (simp add: demo_stellar_def)
qed

theorem i128_decoding_witness: "extractI128FromScVal (i128_parts (- 5)) None = Some (- 5)"
  using i128_decoding [of 0 0 "- 5"] by simp

theorem amount_in_stroops_witness: "PositiveAmountSchema (1 / 20000000) = Inr (1 / 20000000)
    \<and> to_stroops (1 / 20000000) = 0"
proof -
  have x: "PositiveAmountSchema (1 / 20000000) = Inr (1 / 20000000)"
    by (simp add: PositiveAmountSchema_def schema_checked_def issues_def)
  show ?thesis using amount_in_stroops [OF x] x by simp
qed

lemma demo_won: "\<exists>v. fetchArenaState (demo_stellar True) demo_frontend demo_arena (Some demo_key) = Inr (arena_response demo_arena True v)
    \<and> extractBoolFromScVal v (Some ''has_won'') = Some True"
proof -
  let ?v = "ScMap (Some [(ScSymbol ''has_won'', ScBool True)])"
  have "demo_key \<noteq> []" by (simp add: demo_key_def)
  moreover have "tk_account (demo_stellar True) DUMMY_ACCOUNT ''0'' = Inr (DUMMY_ACCOUNT, ''0'')"
    and "\<And>tx. tk_simulate (demo_stellar True) tx = Inr (SimulationResult ?v)" by (simp_all add: demo_stellar_def)
  ultimately have "fetchArenaState (demo_stellar True) demo_frontend demo_arena (Some demo_key) = Inr (arena_response demo_arena True ?v)"
    by (simp add: fetchArenaState_def demo_facts buildGetFullStateCallOperation_def)
  then show ?thesis by (fastforce simp: extractBoolFromScVal_def findMapValue_def)
qed

theorem claim_needs_win_witness:
  "\<exists>tx v. buildClaimWinningsTransaction (demo_stellar True) demo_frontend demo_horizon demo_key demo_arena = Inr tx
    \<and> extractBoolFromScVal v (Some ''has_won'') = Some True"
proof -
  obtain v where "fetchArenaState (demo_stellar True) demo_frontend demo_arena (Some demo_key) = Inr (arena_response demo_arena True v)"
    and "extractBoolFromScVal v (Some ''has_won'') = Some True" using demo_won by blast
  then have "\<exists>tx. buildClaimWinningsTransaction (demo_stellar True) demo_frontend demo_horizon demo_key demo_arena = Inr tx"
    by (simp add: buildClaimWinningsTransaction_def demo_facts hasWon_response buildClaimCallOperation_def)
  then obtain tx where "buildClaimWinningsTransaction (demo_stellar True) demo_frontend demo_horizon demo_key demo_arena = Inr tx" ..
  with claim_needs_win [OF this] show ?thesis by blast
qed


end
