(* ===== verification/EventParser.thy ===== *)
theory EventParser
  imports Prelude
begin

text \<open>
  The parser of contract events in frontend/src/components/hook-d/sorobanEventParser.ts, and the events
  that the arena contract publishes (contract/arena/src/events.rs). A native value is what the SDK makes
  of an \<open>ScVal\<close>; decoding base64 XDR to it is a parameter, \<open>None\<close> when it throws.
\<close>

section \<open>Native values\<close>

datatype native =
    NUndefined
  | NNull
  | NBool bool
  | NNum rat
  | NBig int
  | NStr string
  | NArr "native list"
  | NObj "(string \<times> native) list"

datatype js_number = NaN | Num rat

fun native_truthy :: "native \<Rightarrow> bool" where
  "native_truthy NUndefined = False"
| "native_truthy NNull = False"
| "native_truthy (NBool b) = b"
| "native_truthy (NNum x) = (x \<noteq> 0)"
| "native_truthy (NBig i) = (i \<noteq> 0)"
| "native_truthy (NStr s) = (s \<noteq> [])"
| "native_truthy _ = True"

text \<open>A property read; only an object has the names that the parser asks for.\<close>

fun native_field :: "native \<Rightarrow> string \<Rightarrow> native" where
  "native_field (NObj ps) k = (case map_of ps k of None \<Rightarrow> NUndefined | Some v \<Rightarrow> v)"
| "native_field _ k = NUndefined"

text \<open>
  The environment: decoding, the milliseconds of a date text, the clock, and \<open>Number\<close> of a text, an
  array or an object.
\<close>

record parser_env =
  ev_decode :: "string \<Rightarrow> native option"
  ev_dateTime :: "string \<Rightarrow> js_number"
  ev_now :: rat
  ev_numberOf :: "native \<Rightarrow> js_number"

fun js_Number :: "parser_env \<Rightarrow> native \<Rightarrow> js_number" where
  "js_Number E NUndefined = NaN"
| "js_Number E NNull = Num 0"
| "js_Number E (NBool b) = Num (if b then 1 else 0)"
| "js_Number E (NNum x) = Num x"
| "js_Number E (NBig i) = Num (of_int i)"
| "js_Number E v = ev_numberOf E v"

section \<open>Events\<close>

record raw_event =
  re_contractId :: string
  re_topic :: "string list"
  re_value :: string
  re_ledgerCloseAt :: "string option"

datatype arena_domain_event =
    ArenaCreated string native int string js_number
  | PlayerJoined string native js_number
  | RoundStarted string js_number js_number
  | ChoiceSubmitted string native int js_number js_number
  | RoundResolved string js_number int js_number
  | WinnersDeclared string "native list" js_number

text \<open>\<open>null\<close> is \<open>Inr None\<close>; \<open>Inl ()\<close> is a decoding that throws.\<close>

type_synonym parsed_event = "unit + arena_domain_event option"

definition getTimestamp :: "parser_env \<Rightarrow> raw_event \<Rightarrow> js_number" where
  "getTimestamp E raw =
     (if truthy (re_ledgerCloseAt raw) then ev_dateTime E (the (re_ledgerCloseAt raw)) else Num (ev_now E))"

definition decodeValue :: "parser_env \<Rightarrow> string \<Rightarrow> native" where
  "decodeValue E x = (case ev_decode E x of None \<Rightarrow> NNull | Some v \<Rightarrow> v)"

definition with_value :: "parser_env \<Rightarrow> raw_event \<Rightarrow> (native \<Rightarrow> arena_domain_event) \<Rightarrow> parsed_event" where
  "with_value E raw f =
     (let value = decodeValue E (re_value raw) in if \<not> native_truthy value then Inr None else Inr (Some (f value)))"

definition with_topic :: "parser_env \<Rightarrow> raw_event \<Rightarrow> (native \<Rightarrow> parsed_event) \<Rightarrow> parsed_event" where
  "with_topic E raw f =
     (if length (re_topic raw) < 2 then Inr None
      else (case ev_decode E (re_topic raw ! 1) of None \<Rightarrow> Inl () | Some v \<Rightarrow> f v))"

definition choice_code :: "native \<Rightarrow> int" where
  "choice_code v = (if v = NStr ''Heads'' then 0 else 1)"

definition parseArenaCreatedEvent :: "parser_env \<Rightarrow> raw_event \<Rightarrow> parsed_event" where
  "parseArenaCreatedEvent E raw =
     with_value E raw (\<lambda>value. ArenaCreated (re_contractId raw) value 0 ''0'' (getTimestamp E raw))"

definition parsePlayerJoinedEvent :: "parser_env \<Rightarrow> raw_event \<Rightarrow> parsed_event" where
  "parsePlayerJoinedEvent E raw =
     with_topic E raw (\<lambda>player. with_value E raw (\<lambda>value.
       PlayerJoined (re_contractId raw) player (getTimestamp E raw)))"

definition parseRoundStartedEvent :: "parser_env \<Rightarrow> raw_event \<Rightarrow> parsed_event" where
  "parseRoundStartedEvent E raw =
     with_value E raw (\<lambda>value.
       RoundStarted (re_contractId raw) (js_Number E (native_field value ''round'')) (getTimestamp E raw))"

definition parseChoiceSubmittedEvent :: "parser_env \<Rightarrow> raw_event \<Rightarrow> parsed_event" where
  "parseChoiceSubmittedEvent E raw =
     with_value E raw (\<lambda>value.
       ChoiceSubmitted (re_contractId raw) (native_field value ''player'') (choice_code (native_field value ''choice''))
         (js_Number E (native_field value ''round'')) (getTimestamp E raw))"

definition parseRoundResolvedEvent :: "parser_env \<Rightarrow> raw_event \<Rightarrow> parsed_event" where
  "parseRoundResolvedEvent E raw =
     with_value E raw (\<lambda>value.
       RoundResolved (re_contractId raw) (js_Number E (native_field value ''round''))
         (choice_code (native_field value ''winner'')) (getTimestamp E raw))"

definition parseWinnersDeclaredEvent :: "parser_env \<Rightarrow> raw_event \<Rightarrow> parsed_event" where
  "parseWinnersDeclaredEvent E raw =
     with_value E raw (\<lambda>value.
       WinnersDeclared (re_contractId raw)
         (case native_field value ''winners'' of NArr ws \<Rightarrow> ws | _ \<Rightarrow> []) (getTimestamp E raw))"

definition parseChoiceRevealedEvent :: "parser_env \<Rightarrow> raw_event \<Rightarrow> parsed_event" where
  "parseChoiceRevealedEvent E raw =
     with_topic E raw (\<lambda>player. with_value E raw (\<lambda>value.
       ChoiceSubmitted (re_contractId raw) player (choice_code (native_field value ''choice''))
         (js_Number E (native_field value ''round'')) (getTimestamp E raw)))"

definition parsePrizeClaimedEvent :: "parser_env \<Rightarrow> raw_event \<Rightarrow> parsed_event" where
  "parsePrizeClaimedEvent E raw =
     with_topic E raw (\<lambda>winner. with_value E raw (\<lambda>value.
       WinnersDeclared (re_contractId raw) [winner] (getTimestamp E raw)))"

definition parsePlayerEliminatedEvent :: "parser_env \<Rightarrow> raw_event \<Rightarrow> parsed_event" where
  "parsePlayerEliminatedEvent E raw =
     with_topic E raw (\<lambda>player. with_value E raw (\<lambda>value.
       PlayerJoined (re_contractId raw) player (getTimestamp E raw)))"

definition parsers :: "(string \<times> (parser_env \<Rightarrow> raw_event \<Rightarrow> parsed_event)) list" where
  "parsers =
     [(''init'', parseArenaCreatedEvent), (''join'', parsePlayerJoinedEvent), (''started'', parseRoundStartedEvent),
      (''commit'', parseChoiceSubmittedEvent), (''reveal'', parseChoiceRevealedEvent),
      (''resolved'', parseRoundResolvedEvent), (''finished'', parseWinnersDeclaredEvent),
      (''claimed'', parsePrizeClaimedEvent), (''elim'', parsePlayerEliminatedEvent)]"

definition parseArenaEvent :: "parser_env \<Rightarrow> raw_event \<Rightarrow> arena_domain_event option" where
  "parseArenaEvent E raw =
     (case re_topic raw of
        [] \<Rightarrow> None
      | t # _ \<Rightarrow>
          (case ev_decode E t of
             Some (NStr eventName) \<Rightarrow>
               (case map_of parsers eventName of
                  None \<Rightarrow> None
                | Some p \<Rightarrow> (case p E raw of Inl _ \<Rightarrow> None | Inr r \<Rightarrow> r))
           | _ \<Rightarrow> None))"

section \<open>What the contract publishes\<close>

text \<open>
  The events of \<open>ArenaEvents\<close> that the parser has a case for. Topics and data are tuples, so that the
  data of more than one field is an array; \<open>Choice\<close> is an enum of units, an array with its name.
\<close>

datatype contract_event =
    EInit string
  | EJoin string nat
  | EStarted nat nat
  | ECommit string nat
  | EReveal string string nat
  | EResolved nat nat nat
  | EFinished string nat
  | EElim string nat
  | EClaimed string int int

fun event_topics :: "contract_event \<Rightarrow> native list" where
  "event_topics (EInit admin) = [NStr ''init'']"
| "event_topics (EJoin player n) = [NStr ''join'', NStr player]"
| "event_topics (EStarted r d) = [NStr ''started'']"
| "event_topics (ECommit player r) = [NStr ''commit'', NStr player]"
| "event_topics (EReveal player c r) = [NStr ''reveal'', NStr player]"
| "event_topics (EResolved r e s) = [NStr ''resolved'']"
| "event_topics (EFinished winner r) = [NStr ''finished'']"
| "event_topics (EElim player r) = [NStr ''elim'', NStr player]"
| "event_topics (EClaimed winner a y) = [NStr ''claimed'', NStr winner]"

fun event_data :: "contract_event \<Rightarrow> native" where
  "event_data (EInit admin) = NStr admin"
| "event_data (EJoin player n) = NNum (of_nat n)"
| "event_data (EStarted r d) = NArr [NNum (of_nat r), NBig (int d)]"
| "event_data (ECommit player r) = NNum (of_nat r)"
| "event_data (EReveal player c r) = NArr [NArr [NStr c], NNum (of_nat r)]"
| "event_data (EResolved r e s) = NArr [NNum (of_nat r), NNum (of_nat e), NNum (of_nat s)]"
| "event_data (EFinished winner r) = NArr [NStr winner, NNum (of_nat r)]"
| "event_data (EElim player r) = NNum (of_nat r)"
| "event_data (EClaimed winner a y) = NArr [NBig a, NBig y]"

text \<open>A raw event whose topics and data decode to those of \<open>ev\<close>.\<close>

definition carries :: "parser_env \<Rightarrow> raw_event \<Rightarrow> contract_event \<Rightarrow> bool" where
  "carries E raw ev \<longleftrightarrow>
     map (ev_decode E) (re_topic raw) = map Some (event_topics ev) \<and> ev_decode E (re_value raw) = Some (event_data ev)"

text \<open>The numbers of rounds start at one and a joining player counts himself; addresses have a text.\<close>

fun published :: "contract_event \<Rightarrow> bool" where
  "published (EInit admin) = (admin \<noteq> [])"
| "published (EJoin player n) = (0 < n)"
| "published (ECommit player r) = (0 < r)"
| "published (EElim player r) = (0 < r)"
| "published _ = True"

text \<open>What the parser makes of them.\<close>

fun reported :: "string \<Rightarrow> js_number \<Rightarrow> contract_event \<Rightarrow> arena_domain_event" where
  "reported arena t (EInit admin) = ArenaCreated arena (NStr admin) 0 ''0'' t"
| "reported arena t (EJoin player n) = PlayerJoined arena (NStr player) t"
| "reported arena t (EStarted r d) = RoundStarted arena NaN t"
| "reported arena t (ECommit player r) = ChoiceSubmitted arena NUndefined 1 NaN t"
| "reported arena t (EReveal player c r) = ChoiceSubmitted arena (NStr player) 1 NaN t"
| "reported arena t (EResolved r e s) = RoundResolved arena NaN 1 t"
| "reported arena t (EFinished winner r) = WinnersDeclared arena [] t"
| "reported arena t (EElim player r) = PlayerJoined arena (NStr player) t"
| "reported arena t (EClaimed winner a y) = WinnersDeclared arena [NStr winner] t"

lemma carries_topics:
  assumes "carries E raw ev"
  shows "re_topic raw \<noteq> []" and "ev_decode E (hd (re_topic raw)) = Some (hd (event_topics ev))"
    and "length (re_topic raw) = length (event_topics ev)"
    and "length (event_topics ev) = 2 \<Longrightarrow> ev_decode E (re_topic raw ! 1) = Some (event_topics ev ! 1)"
proof -
  have m: "map (ev_decode E) (re_topic raw) = map Some (event_topics ev)" using assms by (simp add: carries_def)
  then show l: "length (re_topic raw) = length (event_topics ev)" by (metis length_map)
  have ne: "event_topics ev \<noteq> []" by (cases ev) simp_all
  with l show n: "re_topic raw \<noteq> []" by auto
  show "ev_decode E (hd (re_topic raw)) = Some (hd (event_topics ev))" using m n ne by (metis hd_map)
  show "ev_decode E (re_topic raw ! 1) = Some (event_topics ev ! 1)" if "length (event_topics ev) = 2"
    using arg_cong [OF m, of "\<lambda>l. l ! 1"] l that by simp
qed

lemma parse_carried:
  assumes "carries E raw ev" and "published ev"
  shows "parseArenaEvent E raw = Some (reported (re_contractId raw) (getTimestamp E raw) ev)"
proof -
  note t = carries_topics [OF assms(1)]
  have v: "decodeValue E (re_value raw) = event_data ev" using assms(1) by (simp add: carries_def decodeValue_def)
  obtain x xs where raw: "re_topic raw = x # xs" using t(1) by (cases "re_topic raw") auto
  have h: "ev_decode E x = Some (hd (event_topics ev))" using t(2) raw by simp
  show ?thesis
    using assms(2) t(3,4)
    by (cases ev)
      (simp_all add: parseArenaEvent_def raw h v parsers_def with_value_def with_topic_def choice_code_def
        parseArenaCreatedEvent_def parsePlayerJoinedEvent_def parseRoundStartedEvent_def parseChoiceSubmittedEvent_def
        parseRoundResolvedEvent_def parseWinnersDeclaredEvent_def parseChoiceRevealedEvent_def
        parsePrizeClaimedEvent_def parsePlayerEliminatedEvent_def)
qed

text \<open>
  The parser misreads what the contract publishes. The data of a started, revealed, resolved or
  finished event is an array and that of a commit a number, while the parser reads named fields: every
  such round number is NaN, every choice and every winning choice is Tails, a finished game has no
  winners and a commitment no player; an elimination is reported as a player who joined.
\<close>

theorem contract_events_misread:
  assumes "carries E raw ev" and "published ev"
  shows "parseArenaEvent E raw = Some (reported (re_contractId raw) (getTimestamp E raw) ev)"
  by (rule parse_carried [OF assms])

definition demo_events :: parser_env where
  "demo_events = \<lparr>ev_decode = (\<lambda>s. if s = ''T'' then Some (NStr ''resolved'')
       else if s = ''V'' then Some (NArr [NNum 3, NNum 2, NNum 1]) else None),
     ev_dateTime = (\<lambda>_. NaN), ev_now = 9, ev_numberOf = (\<lambda>_. NaN)\<rparr>"

theorem contract_events_misread_witness:
  "parseArenaEvent demo_events \<lparr>re_contractId = ''C1'', re_topic = [''T''], re_value = ''V'', re_ledgerCloseAt = None\<rparr>
     = Some (RoundResolved ''C1'' NaN 1 (Num 9))"
proof -
  let ?raw = "\<lparr>re_contractId = ''C1'', re_topic = [''T''], re_value = ''V'', re_ledgerCloseAt = None\<rparr>"
  have "carries demo_events ?raw (EResolved 3 2 1)" by (simp add: carries_def demo_events_def)
  from contract_events_misread [OF this] show ?thesis by (simp add: getTimestamp_def demo_events_def)
qed

end
