(* ===== verification/ArenaStream.thy ===== *)
theory ArenaStream
  imports Poller
begin

text \<open>
  The client of the arena stream: the hook of frontend/src/features/arena/useArenaStream.ts for one
  arena. The state has the refs and the React state of the hook and, of the browser, the event sources
  that are open and the retry timers that have not fired. The events are those of the server's poller
  (\<open>sse_event\<close>): the route writes each under its own name, so the browser dispatches an event named
  \<open>error\<close> to \<open>onerror\<close>, and one that has no listener to nobody.
\<close>

section \<open>State\<close>

datatype stream_status = Idle | Connecting | Connected | Reconnecting

record feed_item =
  fi_id :: string
  fi_label :: string
  fi_roundNumber :: nat
  fi_createdAt :: int

record stream =
  st_status :: stream_status
  st_snapshot :: "arena_snapshot option"
  st_feed :: "feed_item list"
  st_source :: "nat option"
  st_retry :: "nat option"
  st_delay :: int
  st_shouldReconnect :: bool
  st_lastMessageAt :: int
  st_watchdog :: bool
  st_open :: "nat list"
  st_timers :: "(nat \<times> int) list"
  st_fresh :: nat

definition STALE_CONNECTION_MS :: int where "STALE_CONNECTION_MS = 60000"

text \<open>The state of the first render; \<open>st_fresh\<close> numbers sources and timers.\<close>

definition first_render :: stream where
  "first_render =
     \<lparr>st_status = Idle, st_snapshot = None, st_feed = [], st_source = None, st_retry = None, st_delay = 1000,
      st_shouldReconnect = False, st_lastMessageAt = 0, st_watchdog = False, st_open = [], st_timers = [],
      st_fresh = 0\<rparr>"

section \<open>The feed\<close>

definition formatFeedLabel :: "string \<Rightarrow> string" where
  "formatFeedLabel userId =
     (if length userId > 10 then take 5 userId @ ''...'' @ drop (length userId - 4) userId else userId)"

definition feed_of :: "snapshot_elimination \<Rightarrow> feed_item" where
  "feed_of e = \<lparr>fi_id = sl_id e, fi_label = formatFeedLabel (sl_userId e), fi_roundNumber = sl_roundNumber e,
     fi_createdAt = sl_eliminatedAt e\<rparr>"

definition appendUniqueFeedItem :: "feed_item list \<Rightarrow> feed_item \<Rightarrow> feed_item list" where
  "appendUniqueFeedItem feed item =
     (if \<exists>entry\<in>set feed. fi_id entry = fi_id item then feed else take 12 (item # feed))"

definition handleEvent :: "int \<Rightarrow> sse_event \<Rightarrow> stream \<Rightarrow> stream" where
  "handleEvent now ev s0 =
     (let s = s0\<lparr>st_lastMessageAt := now\<rparr> in
      (case ev of
         Snapshot n snap \<Rightarrow>
           s\<lparr>st_snapshot := Some snap, st_feed := map feed_of (rev (sp_recentEliminations snap))\<rparr>
       | PlayerEliminated n e \<Rightarrow>
           s\<lparr>st_feed := appendUniqueFeedItem (st_feed s) (feed_of e),
             st_snapshot := map_option
               (\<lambda>c. c\<lparr>sp_survivorCount := max 0 (sp_survivorCount c - 1)\<rparr>) (st_snapshot s)\<rparr>
       | RoundResolved n p \<Rightarrow>
           s\<lparr>st_snapshot := map_option
               (\<lambda>c. c\<lparr>sp_currentRound := rp_roundNumber p, sp_playerCount := rp_playerCount p,
                 sp_survivorCount := rp_survivorCount p, sp_status := rp_status p,
                 sp_lastRoundState := Some ''RESOLVED''\<rparr>) (st_snapshot s)\<rparr>
       | GameFinished n p \<Rightarrow>
           s\<lparr>st_snapshot := map_option (\<lambda>c. c\<lparr>sp_status := ''settled''\<rparr>) (st_snapshot s)\<rparr>
       | _ \<Rightarrow> s))"

section \<open>Connections\<close>

text \<open>A closed source dispatches nothing any more.\<close>

definition clearConnection :: "stream \<Rightarrow> stream" where
  "clearConnection s =
     (case st_source s of None \<Rightarrow> s
      | Some i \<Rightarrow> s\<lparr>st_open := filter (\<lambda>j. j \<noteq> i) (st_open s), st_source := None\<rparr>)"

definition cancel_retry :: "stream \<Rightarrow> stream" where
  "cancel_retry s =
     (case st_retry s of None \<Rightarrow> s | Some t \<Rightarrow> s\<lparr>st_timers := filter (\<lambda>(u, d). u \<noteq> t) (st_timers s)\<rparr>)"

definition scheduleReconnect :: "stream \<Rightarrow> stream" where
  "scheduleReconnect s =
     (if \<not> st_shouldReconnect s then s
      else let s1 = cancel_retry (clearConnection (s\<lparr>st_status := Reconnecting\<rparr>)) in
        s1\<lparr>st_delay := min (st_delay s1 * 2) 30000, st_timers := (st_fresh s1, st_delay s1) # st_timers s1,
           st_retry := Some (st_fresh s1), st_fresh := st_fresh s1 + 1\<rparr>)"

text \<open>\<open>ok\<close>: the constructor of \<open>EventSource\<close> does not throw.\<close>

definition connect :: "int \<Rightarrow> bool \<Rightarrow> stream \<Rightarrow> stream" where
  "connect now ok s =
     (if \<not> st_shouldReconnect s then s
      else let s1 = (clearConnection (s\<lparr>st_status := (if st_source s = None then Connecting else Reconnecting)\<rparr>))
                      \<lparr>st_lastMessageAt := now\<rparr>
           in if ok then s1\<lparr>st_source := Some (st_fresh s1), st_open := st_fresh s1 # st_open s1,
                            st_fresh := st_fresh s1 + 1\<rparr>
              else scheduleReconnect s1)"

definition on_open :: "int \<Rightarrow> stream \<Rightarrow> stream" where
  "on_open now s = s\<lparr>st_delay := 1000, st_lastMessageAt := now, st_status := Connected\<rparr>"

text \<open>What the browser does with an event of the server that a source receives.\<close>

definition receive :: "int \<Rightarrow> sse_event \<Rightarrow> stream \<Rightarrow> stream" where
  "receive now ev s =
     (case ev of
        StreamError n m \<Rightarrow> scheduleReconnect s
      | Heartbeat t \<Rightarrow> s
      | _ \<Rightarrow> handleEvent now ev s)"

text \<open>The effect, its cleanup, a retry timer and a tick of the watchdog.\<close>

definition mount :: "int \<Rightarrow> bool \<Rightarrow> stream \<Rightarrow> stream" where
  "mount now ok s = (connect now ok (s\<lparr>st_shouldReconnect := True\<rparr>))\<lparr>st_watchdog := True\<rparr>"

definition unmount :: "stream \<Rightarrow> stream" where
  "unmount s = (cancel_retry (clearConnection (s\<lparr>st_shouldReconnect := False\<rparr>)))\<lparr>st_retry := None, st_watchdog := False\<rparr>"

definition retry_fires :: "int \<Rightarrow> bool \<Rightarrow> nat \<Rightarrow> stream \<Rightarrow> stream" where
  "retry_fires now ok t s = connect now ok (s\<lparr>st_timers := filter (\<lambda>(u, d). u \<noteq> t) (st_timers s)\<rparr>)"

definition watchdog_tick :: "int \<Rightarrow> bool \<Rightarrow> stream \<Rightarrow> stream" where
  "watchdog_tick now ok s =
     (if \<not> st_shouldReconnect s then s
      else if now - st_lastMessageAt s > STALE_CONNECTION_MS then connect now ok s else s)"

inductive stream_step :: "stream \<Rightarrow> stream \<Rightarrow> bool" where
  mount_step: "\<not> st_watchdog s \<Longrightarrow> stream_step s (mount now ok s)"
| open_step: "i \<in> set (st_open s) \<Longrightarrow> stream_step s (on_open now s)"
| receive_step: "i \<in> set (st_open s) \<Longrightarrow> stream_step s (receive now ev s)"
| error_step: "i \<in> set (st_open s) \<Longrightarrow> stream_step s (scheduleReconnect s)"
| retry_step: "(t, d) \<in> set (st_timers s) \<Longrightarrow> stream_step s (retry_fires now ok t s)"
| watchdog_step: "st_watchdog s \<Longrightarrow> stream_step s (watchdog_tick now ok s)"
| unmount_step: "st_watchdog s \<Longrightarrow> stream_step s (unmount s)"

definition stream_reachable :: "stream \<Rightarrow> bool" where
  "stream_reachable s \<longleftrightarrow> stream_step\<^sup>*\<^sup>* first_render s"

section \<open>The invariant\<close>

text \<open>
  The open sources are the one of the ref, the pending timer is the one of the ref, delays are within
  their bounds, and there are no sources or timers when the hook is not mounted.
\<close>

definition stream_core :: "stream \<Rightarrow> bool" where
  "stream_core s \<longleftrightarrow>
     st_open s = (case st_source s of None \<Rightarrow> [] | Some i \<Rightarrow> [i])
     \<and> length (st_timers s) \<le> 1 \<and> fst ` set (st_timers s) \<subseteq> set_option (st_retry s)
     \<and> (\<forall>(t, d)\<in>set (st_timers s). 1000 \<le> d \<and> d \<le> 30000 \<and> t < st_fresh s)
     \<and> (\<forall>i. st_source s = Some i \<longrightarrow> i < st_fresh s)
     \<and> 1000 \<le> st_delay s \<and> st_delay s \<le> 30000
     \<and> (\<not> st_shouldReconnect s \<longrightarrow> st_source s = None \<and> st_timers s = [])"

definition stream_inv :: "stream \<Rightarrow> bool" where
  "stream_inv s \<longleftrightarrow> stream_core s \<and> st_shouldReconnect s = st_watchdog s"

lemma clearConnection_facts [simp]:
  "st_source (clearConnection s) = None" "st_shouldReconnect (clearConnection s) = st_shouldReconnect s"
  "st_delay (clearConnection s) = st_delay s" "st_timers (clearConnection s) = st_timers s"
  "st_retry (clearConnection s) = st_retry s" "st_watchdog (clearConnection s) = st_watchdog s"
  "st_fresh (clearConnection s) = st_fresh s" "st_feed (clearConnection s) = st_feed s"
  "st_snapshot (clearConnection s) = st_snapshot s" "st_lastMessageAt (clearConnection s) = st_lastMessageAt s"
  by (simp_all add: clearConnection_def split: option.split)

lemma clearConnection_open: "stream_core s \<Longrightarrow> st_open (clearConnection s) = []"
  by (auto simp: stream_core_def clearConnection_def split: option.splits)

lemma cancel_retry_facts [simp]:
  "st_source (cancel_retry s) = st_source s" "st_shouldReconnect (cancel_retry s) = st_shouldReconnect s"
  "st_delay (cancel_retry s) = st_delay s" "st_open (cancel_retry s) = st_open s"
  "st_retry (cancel_retry s) = st_retry s" "st_watchdog (cancel_retry s) = st_watchdog s"
  "st_fresh (cancel_retry s) = st_fresh s" "st_feed (cancel_retry s) = st_feed s"
  "st_snapshot (cancel_retry s) = st_snapshot s" "st_lastMessageAt (cancel_retry s) = st_lastMessageAt s"
  by (simp_all add: cancel_retry_def split: option.split)

lemma cancel_retry_timers: "fst ` set (st_timers s) \<subseteq> set_option (st_retry s) \<Longrightarrow> st_timers (cancel_retry s) = []"
  by (cases "st_retry s") (auto simp: cancel_retry_def filter_empty_conv)

text \<open>The fields that a step may leave alone do not matter.\<close>

lemma stream_core_cong:
  "st_open s = st_open s' \<Longrightarrow> st_source s = st_source s' \<Longrightarrow> st_timers s = st_timers s' \<Longrightarrow> st_retry s = st_retry s' \<Longrightarrow>
   st_delay s = st_delay s' \<Longrightarrow> st_shouldReconnect s = st_shouldReconnect s' \<Longrightarrow> st_fresh s = st_fresh s' \<Longrightarrow> stream_core s = stream_core s'"
  by (simp add: stream_core_def)

lemma core_clear: "stream_core s \<Longrightarrow> stream_core (clearConnection s)"
  using clearConnection_open by (simp add: stream_core_def)

lemma core_schedule: "stream_core s \<Longrightarrow> stream_core (scheduleReconnect s)"
proof -
  assume core: "stream_core s"
  let ?s = "clearConnection (s\<lparr>st_status := Reconnecting\<rparr>)"
  have c: "stream_core (s\<lparr>st_status := Reconnecting\<rparr>)" using core by (simp add: stream_core_def)
  then have o: "st_open ?s = []" by (rule clearConnection_open)
  have "st_timers (cancel_retry ?s) = []" using core by (intro cancel_retry_timers) (simp add: stream_core_def)
  with o core show ?thesis by (simp add: scheduleReconnect_def Let_def stream_core_def)
qed

lemma core_connect: "stream_core s \<Longrightarrow> stream_core (connect now ok s)"
proof -
  assume core: "stream_core s"
  let ?s = "clearConnection (s\<lparr>st_status := (if st_source s = None then Connecting else Reconnecting)\<rparr>)\<lparr>st_lastMessageAt := now\<rparr>"
  have "stream_core (s\<lparr>st_status := (if st_source s = None then Connecting else Reconnecting)\<rparr>)"
    using core by (simp add: stream_core_def)
  then have "st_open ?s = []" and "stream_core ?s"
    using core_clear [of "s\<lparr>st_status := (if st_source s = None then Connecting else Reconnecting)\<rparr>"]
    by (simp_all add: clearConnection_open stream_core_def)
  moreover from this have "stream_core (?s\<lparr>st_source := Some (st_fresh ?s), st_open := st_fresh ?s # st_open ?s,
      st_fresh := st_fresh ?s + 1\<rparr>)" if "st_shouldReconnect s" using that by (auto simp: stream_core_def)
  ultimately show ?thesis using core core_schedule by (simp add: connect_def Let_def)
qed

lemma should_facts [simp]:
  "st_shouldReconnect (scheduleReconnect s) = st_shouldReconnect s" "st_watchdog (scheduleReconnect s) = st_watchdog s"
  "st_shouldReconnect (connect now ok s) = st_shouldReconnect s" "st_watchdog (connect now ok s) = st_watchdog s"
  by (simp_all add: scheduleReconnect_def connect_def Let_def)

lemma handleEvent_facts [simp]:
  "st_open (handleEvent now ev s) = st_open s" "st_source (handleEvent now ev s) = st_source s"
  "st_timers (handleEvent now ev s) = st_timers s" "st_retry (handleEvent now ev s) = st_retry s"
  "st_delay (handleEvent now ev s) = st_delay s" "st_shouldReconnect (handleEvent now ev s) = st_shouldReconnect s"
  "st_watchdog (handleEvent now ev s) = st_watchdog s" "st_fresh (handleEvent now ev s) = st_fresh s" "st_lastMessageAt (handleEvent now ev s) = now"
  by (simp_all add: handleEvent_def Let_def split: sse_event.split)

lemma inv_receive: "stream_inv s \<Longrightarrow> stream_inv (receive now ev s)"
  using core_schedule [of s] stream_core_cong [of "handleEvent now ev s" s]
  by (cases ev) (simp_all add: receive_def stream_inv_def)

lemma inv_unmount: "stream_core s \<Longrightarrow> stream_inv (unmount s)"
proof -
  assume core: "stream_core s"
  let ?s = "clearConnection (s\<lparr>st_shouldReconnect := False\<rparr>)"
  have "st_open ?s = []"
    using core by (auto simp: stream_core_def clearConnection_def split: option.splits)
  moreover have "st_timers (cancel_retry ?s) = []" using core by (intro cancel_retry_timers) (simp add: stream_core_def)
  ultimately show ?thesis using core by (simp add: unmount_def stream_inv_def stream_core_def)
qed

lemma core_fire: "stream_core s \<Longrightarrow> stream_core (s\<lparr>st_timers := filter P (st_timers s)\<rparr>)"
  by (auto simp: stream_core_def intro: order_trans [OF length_filter_le])

lemma inv_step: "stream_step s s' \<Longrightarrow> stream_inv s \<Longrightarrow> stream_inv s'"
proof (induction rule: stream_step.induct)
  case (mount_step s now ok)
  then have "stream_core (s\<lparr>st_shouldReconnect := True\<rparr>)" by (simp add: stream_inv_def stream_core_def)
  from core_connect [OF this, of now ok] show ?case by (simp add: mount_def stream_inv_def stream_core_def)
next
  case (open_step i s now)
  then show ?case by (simp add: on_open_def stream_inv_def stream_core_def)
next
  case (receive_step i s now ev)
  then show ?case by (simp add: inv_receive)
next
  case (error_step i s)
  then show ?case by (simp add: stream_inv_def core_schedule)
next
  case (retry_step t d s now ok)
  then show ?case by (simp add: retry_fires_def stream_inv_def core_connect core_fire)
next
  case (watchdog_step s now ok)
  then show ?case by (simp add: watchdog_tick_def stream_inv_def core_connect)
next
  case (unmount_step s)
  then show ?case using inv_unmount stream_inv_def by blast
qed

lemma reachable_inv: "stream_reachable s \<Longrightarrow> stream_inv s"
  unfolding stream_reachable_def
proof (induction rule: rtranclp_induct)
  case base
  show ?case by (simp add: first_render_def stream_inv_def stream_core_def)
next
  case (step y z)
  then show ?case by (simp add: inv_step)
qed

end
