(* ===== verification/StreamResults.thy ===== *)
theory StreamResults
  imports ArenaStream PollerResults
begin

text \<open>
  What the stream promises a spectator: the connection of the hook, and the hook together with the
  server's poller.
\<close>

section \<open>Connections\<close>

text \<open>
  C9: However openings, events, errors, retry timers, watchdog ticks, mounts and unmounts interleave,
  the hook has at most one open event source, the one it refers to, and at most one pending retry, with
  a delay between one and thirty seconds; when it is unmounted it has neither.
\<close>

theorem one_connection:
  assumes "stream_step\<^sup>*\<^sup>* first_render s"
  shows "st_open s = (case st_source s of None \<Rightarrow> [] | Some i \<Rightarrow> [i])
    \<and> length (st_timers s) \<le> 1 \<and> (\<forall>(t, d)\<in>set (st_timers s). st_retry s = Some t \<and> 1000 \<le> d \<and> d \<le> 30000)
    \<and> (\<not> st_watchdog s \<longrightarrow> st_open s = [] \<and> st_timers s = [])"
  using reachable_inv [unfolded stream_reachable_def, OF assms]
  by (auto simp: stream_inv_def stream_core_def)

lemma connect_ok:
  assumes "stream_core s" and "st_shouldReconnect s"
  shows "st_source (connect now True s) = Some (st_fresh s) \<and> st_open (connect now True s) = [st_fresh s]
    \<and> st_timers (connect now True s) = st_timers s \<and> st_lastMessageAt (connect now True s) = now
    \<and> st_fresh (connect now True s) = st_fresh s + 1"
proof -
  have "stream_core (s\<lparr>st_status := (if st_source s = None then Connecting else Reconnecting)\<rparr>)"
    using assms(1) by (simp add: stream_core_def)
  from clearConnection_open [OF this] assms(2) show ?thesis by (simp add: connect_def Let_def)
qed

text \<open>
  The watchdog does not cancel a pending retry: the source that it opens is closed again, although
  it has been opened and works, when the timer of the retry fires.
\<close>

theorem retry_closes_watchdog_connection:
  assumes "stream_step\<^sup>*\<^sup>* first_render s" and "(t, d) \<in> set (st_timers s)"
    and "now - st_lastMessageAt s > 60000"
    and "s1 = on_open opened (watchdog_tick now True s)"
  shows "\<exists>i. st_open s1 = [i] \<and> st_status s1 = Connected \<and> (t, d) \<in> set (st_timers s1)
    \<and> i \<notin> set (st_open (retry_fires later True t s1))"
proof -
  have inv: "stream_core s" "st_shouldReconnect s"
    using reachable_inv [unfolded stream_reachable_def, OF assms(1)] assms(2)
    by (auto simp: stream_inv_def stream_core_def)
  have tick: "watchdog_tick now True s = connect now True s"
    using inv(2) assms(3) by (simp add: watchdog_tick_def STALE_CONNECTION_MS_def)
  note c = connect_ok [OF inv, of now]
  have core1: "stream_core s1"
    using core_connect [OF inv(1), of now True] by (simp add: assms(4) tick on_open_def stream_core_def)
  have "stream_core (s1\<lparr>st_timers := filter (\<lambda>(u, d). u \<noteq> t) (st_timers s1)\<rparr>)" by (rule core_fire [OF core1])
  then have "st_open (retry_fires later True t s1) = [st_fresh s1]"
    using connect_ok [of "s1\<lparr>st_timers := filter (\<lambda>(u, d). u \<noteq> t) (st_timers s1)\<rparr>" later] inv(2)
    by (simp add: retry_fires_def assms(4) tick on_open_def)
  then show ?thesis using c assms(2) by (simp add: assms(4) tick on_open_def)
qed

text \<open>
  The heartbeats of the server do not keep a connection: they come as events that the hook has no
  listener for, so whatever heartbeats arrive, a tick more than a minute after the last other event
  replaces the open source by a new one.
\<close>

theorem heartbeats_do_not_keep_connection:
  assumes "stream_step\<^sup>*\<^sup>* first_render s" and "st_source s = Some i" and "now - st_lastMessageAt s > 60000"
  shows "\<exists>j. j \<noteq> i \<and> st_open (watchdog_tick now True (fold (\<lambda>t. receive t (Heartbeat t)) beats s)) = [j]"
proof -
  have inv: "stream_core s" "st_shouldReconnect s"
    using reachable_inv [unfolded stream_reachable_def, OF assms(1)] assms(2)
    by (auto simp: stream_inv_def stream_core_def)
  have "fold (\<lambda>t. receive t (Heartbeat t)) beats s = s" by (induction beats) (simp_all add: receive_def)
  moreover have "i < st_fresh s" using inv(1) assms(2) by (simp add: stream_core_def)
  ultimately show ?thesis
    using connect_ok [OF inv, of now] assms(3) inv(2)
    by (auto simp: watchdog_tick_def STALE_CONNECTION_MS_def)
qed

section \<open>With the server\<close>

lemma for_subscribers_sent:
  assumes "\<And>sub p x. x \<in> set (snd (snd (body sub p))) \<Longrightarrow> P x"
  shows "x \<in> set (snd (for_subscribers body subs p)) \<Longrightarrow> P x"
proof (induction subs arbitrary: p)
  case (Cons sub subs)
  obtain ok p1 out where b: "body sub p = (ok, p1, out)" by (metis prod_cases3)
  obtain p2 out2 where r: "for_subscribers body subs p1 = (p2, out2)" by fastforce
  from Cons.prems have "x \<in> set out \<or> x \<in> set out2" by (simp add: b r)
  then show ?case using assms [of x sub p] Cons.IH [of p1] by (auto simp: b r)
qed simp

lemma failure_sends_errors: "x \<in> set (snd (poll_failure fails e p)) \<Longrightarrow> \<exists>n m. snd x = StreamError n m"
  unfolding poll_failure_def Let_def
  by (erule for_subscribers_sent [rotated]) (auto simp: send_def Let_def split: if_splits)

text \<open>
  One failed poll of the server disconnects its spectators: the event it sends to each is named
  error, which the browser hands to the handler of connection errors, so the hook closes its working
  source and waits for a retry.
\<close>

theorem failed_poll_disconnects:
  assumes "stream_step\<^sup>*\<^sup>* first_render s" and "st_source s = Some i"
    and "(sub, ev) \<in> set (snd (poll_failure fails e p))"
  shows "st_open (receive now ev s) = [] \<and> st_status (receive now ev s) = Reconnecting
    \<and> (\<exists>t. st_timers (receive now ev s) = [(t, st_delay s)])"
proof -
  obtain n m where ev: "ev = StreamError n m"
    using failure_sends_errors [OF assms(3)] by auto
  have inv: "stream_core s" "st_shouldReconnect s"
    using reachable_inv [unfolded stream_reachable_def, OF assms(1)] assms(2)
    by (auto simp: stream_inv_def stream_core_def)
  let ?s = "clearConnection (s\<lparr>st_status := Reconnecting\<rparr>)"
  have "st_open ?s = []" using inv(1) by (intro clearConnection_open) (simp add: stream_core_def)
  moreover have "st_timers (cancel_retry ?s) = []" using inv(1) by (intro cancel_retry_timers) (simp add: stream_core_def)
  moreover have "st_status (cancel_retry ?s) = Reconnecting"
    by (simp add: cancel_retry_def clearConnection_def split: option.split)
  ultimately show ?thesis using inv(2) by (simp add: ev receive_def scheduleReconnect_def Let_def)
qed

lemma feed_receive:
  "\<not> is_snapshot ev \<Longrightarrow> st_feed (receive now ev s) =
     (case ev of PlayerEliminated n e \<Rightarrow> appendUniqueFeedItem (st_feed s) (feed_of e) | _ \<Rightarrow> st_feed s)"
  by (cases ev) (simp_all add: receive_def handleEvent_def scheduleReconnect_def Let_def)

lemma feed_receives:
  assumes "no_snapshot out"
  shows "st_feed (fold (\<lambda>(u, ev). receive now ev) (filter (\<lambda>x. fst x = sub) out) s) =
     fold (\<lambda>e f. appendUniqueFeedItem f (feed_of e)) (eliminations_to sub out) (st_feed s)"
  using assms
proof (induction out arbitrary: s)
  case (Cons x out)
  obtain u ev where x: "x = (u, ev)" by fastforce
  have "\<not> is_snapshot ev" using Cons.prems by (simp add: no_snapshot_def x)
  then show ?case using Cons by (cases ev) (auto simp: x no_snapshot_def feed_receive)
qed simp

lemma disjoint_step: "a \<notin> A \<Longrightarrow> insert a A \<inter> F = {} \<Longrightarrow> T \<subseteq> insert a F \<Longrightarrow> A \<inter> T = {}"
  by blast

lemma fold_append_unique:
  "distinct (map sl_id es) \<Longrightarrow> sl_id ` set es \<inter> fi_id ` set f = {} \<Longrightarrow> take 12 f = take 12 (map feed_of (rev L)) \<Longrightarrow>
   take 12 (fold (\<lambda>e f. appendUniqueFeedItem f (feed_of e)) es f) = take 12 (map feed_of (rev (L @ es)))"
proof (induction es arbitrary: f L)
  case (Cons e es)
  have new: "appendUniqueFeedItem f (feed_of e) = take 12 (feed_of e # f)"
  proof -
    have "sl_id e \<notin> fi_id ` set f" using Cons.prems(2) by auto
    then have "\<not> (\<exists>entry\<in>set f. fi_id entry = sl_id e)" by (metis image_eqI)
    then show ?thesis by (simp add: appendUniqueFeedItem_def feed_of_def)
  qed
  have sub: "fi_id ` set (take 12 (feed_of e # f)) \<subseteq> insert (sl_id e) (fi_id ` set f)"
    using set_take_subset [of 12 "feed_of e # f"] by (auto simp: feed_of_def)
  have "take 12 (take 12 (feed_of e # f)) = take 12 (map feed_of (rev (L @ [e])))"
    using arg_cong [OF Cons.prems(3), of "take 11"] by (simp add: min_def)
  moreover have "sl_id ` set es \<inter> fi_id ` set (take 12 (feed_of e # f)) = {}"
    by (rule disjoint_step [OF _ _ sub]) (use Cons.prems(1,2) in simp_all)
  ultimately show ?case
    using Cons.IH [of "take 12 (feed_of e # f)" "L @ [e]"] Cons.prems(1) sub new by auto
qed simp

text \<open>
  C7: The feed of the first spectator refines the server's eliminations: when its twelve newest items
  are those of the eliminations known so far, they still are after it has received what a poll sends it,
  with the newly logged ones in the order of the log, and none twice.
\<close>

theorem feed_follows_server:
  assumes "distinct (map sl_id (sp_recentEliminations snap))" and "\<not> isFirstPoll p"
    and "pl_subscribers p = sub # subs" and "poll_success (\<lambda>_ _. False) snap p = (q, out)"
    and "pl_lastStatus p \<noteq> None"
    and "fi_id ` set (st_feed s) \<subseteq> set (pl_seenEliminations p)"
    and "take 12 (st_feed s) = take 12 (map feed_of (rev known))"
  shows "take 12 (st_feed (fold (\<lambda>(u, ev). receive now ev) (filter (\<lambda>x. fst x = sub) out) s)) =
      take 12 (map feed_of (rev (known @
        filter (\<lambda>e. sl_id e \<notin> set (pl_seenEliminations p)) (sp_recentEliminations snap))))"
proof -
  let ?new = "filter (\<lambda>e. sl_id e \<notin> set (pl_seenEliminations p)) (sp_recentEliminations snap)"
  have "poll_result (\<lambda>_ _. False) (Inr snap) p = (rearm q, out)" using assms(4) by (simp add: poll_result_def)
  from poll_result_no_snapshot [OF this assms(5)] have quiet: "no_snapshot out" .
  have "eliminations_to sub out = ?new" using first_subscriber [OF assms(1-4)] by simp
  moreover have "distinct (map sl_id ?new)" using assms(1) by (rule distinct_map_filter)
  moreover have "sl_id ` set ?new \<inter> fi_id ` set (st_feed s) = {}" using assms(6) by auto
  ultimately show ?thesis
    using fold_append_unique [of ?new "st_feed s" known] assms(7) feed_receives [OF quiet] by simp
qed

section \<open>Witnesses\<close>

text \<open>A spectator whose source is open, and one whose source has failed at 40 seconds.\<close>

definition demo_watching :: stream where
  "demo_watching = mount 0 True first_render"

definition demo_failed :: stream where
  "demo_failed = scheduleReconnect demo_watching"

lemma demo_watching_reached: "stream_step\<^sup>*\<^sup>* first_render demo_watching"
  unfolding demo_watching_def by (rule r_into_rtranclp, rule mount_step) (simp add: first_render_def)

lemma demo_watching_value: "st_source demo_watching = Some 0" "st_open demo_watching = [0]" "st_delay demo_watching = 1000"
  "st_lastMessageAt demo_watching = 0" "st_shouldReconnect demo_watching" "st_retry demo_watching = None"
  "st_timers demo_watching = []" "st_fresh demo_watching = 1" "st_feed demo_watching = []"
  by (simp_all add: demo_watching_def mount_def connect_def clearConnection_def first_render_def Let_def)

lemma demo_failed_reached: "stream_step\<^sup>*\<^sup>* first_render demo_failed"
  unfolding demo_failed_def
  by (rule rtranclp.rtrancl_into_rtrancl [OF demo_watching_reached], rule error_step [of 0])
    (simp add: demo_watching_value)

lemma demo_failed_value: "st_timers demo_failed = [(1, 1000)]" "st_lastMessageAt demo_failed = 0"
  by (simp_all add: demo_failed_def scheduleReconnect_def demo_watching_value Let_def cancel_retry_def)

theorem one_connection_witness: "st_open demo_watching = [0] \<and> length (st_timers demo_watching) \<le> 1"
  using one_connection [OF demo_watching_reached] by (simp add: demo_watching_value)

theorem retry_closes_watchdog_connection_witness:
  "\<exists>i. st_open (on_open 60600 (watchdog_tick 60500 True demo_failed)) = [i]
    \<and> i \<notin> set (st_open (retry_fires 60900 True 1 (on_open 60600 (watchdog_tick 60500 True demo_failed))))"
  using retry_closes_watchdog_connection [OF demo_failed_reached, of 1 1000 60500 _ 60600 60900]
  by (auto simp: demo_failed_value)

theorem heartbeats_do_not_keep_connection_witness:
  "\<exists>j. j \<noteq> 0 \<and> st_open (watchdog_tick 70000 True (fold (\<lambda>t. receive t (Heartbeat t)) [15000, 30000, 45000, 60000] demo_watching)) = [j]"
  by (rule heartbeats_do_not_keep_connection [OF demo_watching_reached demo_watching_value(1)])
    (simp add: demo_watching_value)

theorem failed_poll_disconnects_witness:
  "\<exists>ev. (''s1'', ev) \<in> set (snd (poll_failure (\<lambda>_ _. False) NotAnError toy_poller))
    \<and> st_open (receive 9 ev demo_watching) = []"
proof -
  have "\<exists>ev. (''s1'', ev) \<in> set (snd (poll_failure (\<lambda>_ _. False) NotAnError toy_poller))"
    by (auto simp: poll_failure_def Let_def toy_poller_def new_poller_def send_def)
  then obtain ev where "(''s1'', ev) \<in> set (snd (poll_failure (\<lambda>_ _. False) NotAnError toy_poller))" ..
  with failed_poll_disconnects [OF demo_watching_reached demo_watching_value(1) this] show ?thesis by blast
qed

theorem feed_follows_server_witness:
  "\<exists>q out. poll_success (\<lambda>_ _. False) toy_snapshot toy_poller = (q, out)
    \<and> take 12 (st_feed (fold (\<lambda>(u, ev). receive 9 ev) (filter (\<lambda>x. fst x = ''s1'') out) demo_watching)) = [feed_of toy_elimination]"
proof -
  obtain q out where r: "poll_success (\<lambda>_ _. False) toy_snapshot toy_poller = (q, out)" by fastforce
  have "take 12 (st_feed (fold (\<lambda>(u, ev). receive 9 ev) (filter (\<lambda>x. fst x = ''s1'') out) demo_watching)) =
      take 12 (map feed_of (rev ([] @ filter (\<lambda>e. sl_id e \<notin> set (pl_seenEliminations toy_poller)) (sp_recentEliminations toy_snapshot))))"
    by (rule feed_follows_server [OF _ _ _ r])
      (simp_all add: toy_snapshot_def toy_poller_def isFirstPoll_def new_poller_def demo_watching_value)
  with r show ?thesis by (simp add: toy_snapshot_def toy_poller_def new_poller_def)
qed

end
