(* ===== verification/RateLimit.thy ===== *)
theory RateLimit
  imports Amounts
begin

text \<open>
  The rate limits of backend/src/middleware/rateLimit.ts and of frontend/src/server/rate-limit/limiter.ts.
  The limiter of rate-limiter-flexible is a parameter, \<open>consume key\<close> on a state of its store; what the
  properties rely on is stated as \<open>window_limiter\<close>.
\<close>

section \<open>Configuration\<close>

record rate_limit_config =
  rl_keyPrefix :: string
  rl_points :: int
  rl_durationSeconds :: int
  rl_dualScope :: bool

text \<open>\<open>number\<close> is \<open>Number\<close> of a text, \<open>None\<close> for what is not finite.\<close>

definition readPositiveInt :: "(string \<Rightarrow> rat option) \<Rightarrow> (string \<Rightarrow> string option) \<Rightarrow> string \<Rightarrow> int \<Rightarrow> int" where
  "readPositiveInt number env name fallback =
     (if \<not> truthy (env name) then fallback
      else (case number (the (env name)) of
              None \<Rightarrow> fallback
            | Some x \<Rightarrow> if x = of_int \<lfloor>x\<rfloor> \<and> 1 \<le> x then \<lfloor>x\<rfloor> else fallback))"

definition env_or :: "(string \<Rightarrow> string option) \<Rightarrow> string \<Rightarrow> string \<Rightarrow> string" where
  "env_or env name fallback = (case env name of None \<Rightarrow> fallback | Some v \<Rightarrow> v)"

definition getNonceRateLimitConfig :: "(string \<Rightarrow> rat option) \<Rightarrow> (string \<Rightarrow> string option) \<Rightarrow> rate_limit_config" where
  "getNonceRateLimitConfig number env =
     \<lparr>rl_keyPrefix = env_or env ''RATE_LIMIT_NONCE_PREFIX'' ''rl:auth:nonce'',
      rl_points = readPositiveInt number env ''RATE_LIMIT_NONCE_POINTS'' 5,
      rl_durationSeconds = readPositiveInt number env ''RATE_LIMIT_NONCE_WINDOW_SECONDS'' 60, rl_dualScope = False\<rparr>"

definition getPoolsRateLimitConfig :: "(string \<Rightarrow> rat option) \<Rightarrow> (string \<Rightarrow> string option) \<Rightarrow> rate_limit_config" where
  "getPoolsRateLimitConfig number env =
     \<lparr>rl_keyPrefix = env_or env ''RATE_LIMIT_POOLS_PREFIX'' ''rl:pools:create'',
      rl_points = readPositiveInt number env ''RATE_LIMIT_POOLS_POINTS'' 3,
      rl_durationSeconds = readPositiveInt number env ''RATE_LIMIT_POOLS_WINDOW_SECONDS'' 60, rl_dualScope = False\<rparr>"

definition getVerifyRateLimitConfig :: "(string \<Rightarrow> rat option) \<Rightarrow> (string \<Rightarrow> string option) \<Rightarrow> rate_limit_config" where
  "getVerifyRateLimitConfig number env =
     \<lparr>rl_keyPrefix = env_or env ''RATE_LIMIT_VERIFY_PREFIX'' ''rl:auth:verify'',
      rl_points = readPositiveInt number env ''RATE_LIMIT_VERIFY_POINTS'' 10,
      rl_durationSeconds = readPositiveInt number env ''RATE_LIMIT_VERIFY_WINDOW_SECONDS'' 60, rl_dualScope = True\<rparr>"

definition getRefreshRateLimitConfig :: "(string \<Rightarrow> rat option) \<Rightarrow> (string \<Rightarrow> string option) \<Rightarrow> rate_limit_config" where
  "getRefreshRateLimitConfig number env =
     \<lparr>rl_keyPrefix = env_or env ''RATE_LIMIT_REFRESH_PREFIX'' ''rl:auth:refresh'',
      rl_points = readPositiveInt number env ''RATE_LIMIT_REFRESH_POINTS'' 20,
      rl_durationSeconds = readPositiveInt number env ''RATE_LIMIT_REFRESH_WINDOW_SECONDS'' 60, rl_dualScope = False\<rparr>"

section \<open>Keys\<close>

text \<open>A request: the header and the address of the socket, and a wallet that is a string of the body.\<close>

record rl_request =
  rq_forwardedFor :: "string option"
  rq_ip :: "string option"
  rq_walletAddress :: "string option"

definition first_forwarded :: "string \<Rightarrow> string" where
  "first_forwarded s = js_trim (hd (js_split (CHR '','') s))"

definition resolveIp :: "rl_request \<Rightarrow> string" where
  "resolveIp req =
     (case rq_forwardedFor req of
        Some f \<Rightarrow> if first_forwarded f \<noteq> [] then first_forwarded f
                  else (case rq_ip req of None \<Rightarrow> ''unknown'' | Some i \<Rightarrow> i)
      | None \<Rightarrow> (case rq_ip req of None \<Rightarrow> ''unknown'' | Some i \<Rightarrow> i))"

definition buildRateLimitKeys :: "string \<Rightarrow> string option \<Rightarrow> bool \<Rightarrow> string list" where
  "buildRateLimitKeys ip walletAddress dualScope =
     (if dualScope \<and> truthy walletAddress then [''ip:'' @ ip, ''wallet:'' @ the walletAddress]
      else if truthy walletAddress then [''ip:'' @ ip @ '':wallet:'' @ the walletAddress]
      else [''ip:'' @ ip])"

section \<open>The middleware\<close>

text \<open>A \<open>consume\<close> resolves, or rejects with or without \<open>msBeforeNext\<close>.\<close>

datatype consumed = Consumed | Rejected "rat option"

fun consumeKeys :: "(string \<Rightarrow> 's \<Rightarrow> consumed \<times> 's) \<Rightarrow> string list \<Rightarrow> 's \<Rightarrow> rat option option \<times> 's" where
  "consumeKeys consume [] s = (None, s)"
| "consumeKeys consume (k # ks) s =
     (case consume k s of
        (Consumed, s') \<Rightarrow> consumeKeys consume ks s'
      | (Rejected ms, s') \<Rightarrow> (Some ms, s'))"

datatype rl_outcome = Passed | TooMany int

definition retry_after :: "rate_limit_config \<Rightarrow> rat option \<Rightarrow> int" where
  "retry_after config ms =
     max 1 \<lceil>(case ms of None \<Rightarrow> of_int (rl_durationSeconds config * 1000) | Some m \<Rightarrow> m) / 1000\<rceil>"

definition rateLimit :: "(string \<Rightarrow> 's \<Rightarrow> consumed \<times> 's) \<Rightarrow> rate_limit_config \<Rightarrow> rl_request \<Rightarrow> 's \<Rightarrow> rl_outcome \<times> 's" where
  "rateLimit consume config req s =
     (case consumeKeys consume
             (buildRateLimitKeys (resolveIp req) (rq_walletAddress req) (rl_dualScope config)) s of
        (None, s') \<Rightarrow> (Passed, s')
      | (Some ms, s') \<Rightarrow> (TooMany (retry_after config ms), s'))"

section \<open>The frontend's limiter\<close>

text \<open>\<open>lower\<close> is \<open>toLowerCase\<close>.\<close>

definition resolveClientIp :: "string option \<Rightarrow> string option \<Rightarrow> string" where
  "resolveClientIp forwardedFor realIp =
     (if truthy forwardedFor \<and> first_forwarded (the forwardedFor) \<noteq> [] then first_forwarded (the forwardedFor)
      else if truthy realIp then js_trim (the realIp)
      else ''unknown'')"

definition consumeRateLimitByKey ::
    "(string \<Rightarrow> 's \<Rightarrow> consumed \<times> 's) \<Rightarrow> rate_limit_config \<Rightarrow> string \<Rightarrow> 's \<Rightarrow> rl_outcome \<times> 's" where
  "consumeRateLimitByKey consume config key s =
     (case consume key s of
        (Consumed, s') \<Rightarrow> (Passed, s')
      | (Rejected ms, s') \<Rightarrow> (TooMany (retry_after config ms), s'))"

definition consumeRateLimit ::
    "(string \<Rightarrow> string) \<Rightarrow> (string \<Rightarrow> 's \<Rightarrow> consumed \<times> 's) \<Rightarrow> rate_limit_config \<Rightarrow> string option \<Rightarrow> string option \<Rightarrow>
     string option \<Rightarrow> 's \<Rightarrow> rl_outcome \<times> 's" where
  "consumeRateLimit lower consume config forwardedFor realIp walletAddress s =
     (let ip = resolveClientIp forwardedFor realIp in
      consumeRateLimitByKey consume config
        (if truthy walletAddress then ''ip:'' @ ip @ '':wallet:'' @ lower (the walletAddress) else ''ip:'' @ ip) s)"

text \<open>The response of a rejection: its status and its \<open>Retry-After\<close> header.\<close>

definition buildRateLimitRejection ::
    "(string \<Rightarrow> string) \<Rightarrow> (string \<Rightarrow> 's \<Rightarrow> consumed \<times> 's) \<Rightarrow> rate_limit_config \<Rightarrow> string option \<Rightarrow> string option \<Rightarrow>
     string option \<Rightarrow> 's \<Rightarrow> (nat \<times> int) option \<times> 's" where
  "buildRateLimitRejection lower consume config forwardedFor realIp walletAddress s =
     (case consumeRateLimit lower consume config forwardedFor realIp walletAddress s of
        (Passed, s') \<Rightarrow> (None, s')
      | (TooMany n, s') \<Rightarrow> (Some (429, n), s'))"

section \<open>Requests in a window\<close>

text \<open>
  What the library documents for one window: a key has so many points; a \<open>consume\<close> of it resolves when
  there is one left and takes it, rejects when there is none, and concerns no other key.
\<close>

definition window_limiter :: "(string \<Rightarrow> 's \<Rightarrow> consumed \<times> 's) \<Rightarrow> (string \<Rightarrow> 's \<Rightarrow> nat) \<Rightarrow> nat \<Rightarrow> bool" where
  "window_limiter consume used points \<longleftrightarrow>
     0 < points \<and> (\<forall>k s. (fst (consume k s) = Consumed \<longleftrightarrow> used k s < points)
       \<and> (fst (consume k s) = Consumed \<longrightarrow> used k (snd (consume k s)) = used k s + 1)
       \<and> (fst (consume k s) \<noteq> Consumed \<longrightarrow> used k s \<le> used k (snd (consume k s)))
       \<and> (\<forall>l. l \<noteq> k \<longrightarrow> used l (snd (consume k s)) = used l s))"

fun run_requests :: "(string \<Rightarrow> 's \<Rightarrow> consumed \<times> 's) \<Rightarrow> rate_limit_config \<Rightarrow> rl_request list \<Rightarrow> 's \<Rightarrow>
    (rl_request \<times> rl_outcome) list" where
  "run_requests consume config [] s = []"
| "run_requests consume config (r # rs) s =
     (case rateLimit consume config r s of (res, s') \<Rightarrow> (r, res) # run_requests consume config rs s')"

lemma window_consume:
  assumes "window_limiter consume used points" and "consume k s = (res, s')"
  shows "res = Consumed \<longleftrightarrow> used k s < points" and "res = Consumed \<Longrightarrow> used k s' = used k s + 1"
    and "used l s \<le> used l s'" and "l \<noteq> k \<Longrightarrow> used l s' = used l s"
proof -
  have w: "fst (consume k s) = Consumed \<longleftrightarrow> used k s < points"
    "fst (consume k s) = Consumed \<Longrightarrow> used k (snd (consume k s)) = used k s + 1"
    "fst (consume k s) \<noteq> Consumed \<Longrightarrow> used k s \<le> used k (snd (consume k s))"
    "\<And>l. l \<noteq> k \<Longrightarrow> used l (snd (consume k s)) = used l s"
    using assms(1) unfolding window_limiter_def by blast+
  from w(1,2) show "res = Consumed \<longleftrightarrow> used k s < points" and "res = Consumed \<Longrightarrow> used k s' = used k s + 1"
    using assms(2) by simp_all
  show "l \<noteq> k \<Longrightarrow> used l s' = used l s" using w(4) assms(2) by simp
  show "used l s \<le> used l s'" using w assms(2) by (cases "l = k"; cases "res = Consumed") auto
qed

lemma consumeKeys_window:
  assumes "window_limiter consume used points"
  shows "consumeKeys consume ks s = (r, s') \<Longrightarrow> used l s \<le> used l s'
    \<and> (r = None \<and> l \<in> set ks \<longrightarrow> used l s < points \<and> used l s < used l s')
    \<and> (l \<notin> set ks \<longrightarrow> used l s' = used l s)"
proof (induction ks arbitrary: s)
  case (Cons k ks)
  obtain res s1 where c: "consume k s = (res, s1)" by fastforce
  note w = window_consume [OF assms c]
  show ?case
  proof (cases res)
    case Consumed
    then have ih: "used l s1 \<le> used l s' \<and> (r = None \<and> l \<in> set ks \<longrightarrow> used l s1 < points \<and> used l s1 < used l s')
        \<and> (l \<notin> set ks \<longrightarrow> used l s' = used l s1)" using Cons.IH [of s1] Cons.prems by (simp add: c)
    show ?thesis using w(3) [of l] w(4) [of l] w(1,2) Consumed ih by (cases "l = k") auto
  next
    case (Rejected ms)
    then show ?thesis using Cons.prems w(3) [of l] w(4) [of l] by (auto simp: c)
  qed
qed simp

lemma rateLimit_window:
  assumes "window_limiter consume used points" and "rateLimit consume config req s = (res, s')"
  shows "used l s \<le> used l s'"
    and "res = Passed \<Longrightarrow> l \<in> set (buildRateLimitKeys (resolveIp req) (rq_walletAddress req) (rl_dualScope config)) \<Longrightarrow>
      used l s < points \<and> used l s < used l s'"
    and "l \<notin> set (buildRateLimitKeys (resolveIp req) (rq_walletAddress req) (rl_dualScope config)) \<Longrightarrow> used l s' = used l s"
proof -
  obtain r s1 where c: "consumeKeys consume
      (buildRateLimitKeys (resolveIp req) (rq_walletAddress req) (rl_dualScope config)) s = (r, s1)" by fastforce
  have "s1 = s'" and "res = Passed \<Longrightarrow> r = None" using assms(2) by (auto simp: rateLimit_def c split: option.splits)
  with consumeKeys_window [OF assms(1) c, of l]
  show "used l s \<le> used l s'"
    and "res = Passed \<Longrightarrow> l \<in> set (buildRateLimitKeys (resolveIp req) (rq_walletAddress req) (rl_dualScope config)) \<Longrightarrow>
      used l s < points \<and> used l s < used l s'"
    and "l \<notin> set (buildRateLimitKeys (resolveIp req) (rq_walletAddress req) (rl_dualScope config)) \<Longrightarrow> used l s' = used l s"
    by auto
qed

abbreviation keys_of :: "rate_limit_config \<Rightarrow> rl_request \<Rightarrow> string list" where
  "keys_of config r \<equiv> buildRateLimitKeys (resolveIp r) (rq_walletAddress r) (rl_dualScope config)"

lemma passes_bounded:
  assumes "window_limiter consume used points" and "\<forall>r\<in>set rs. P r \<longrightarrow> k \<in> set (keys_of config r)"
  shows "length (filter (\<lambda>(r, res). P r \<and> res = Passed) (run_requests consume config rs s)) \<le> points - used k s"
  using assms(2)
proof (induction rs arbitrary: s)
  case (Cons r rs)
  obtain res s1 where c: "rateLimit consume config r s = (res, s1)" by fastforce
  note w = rateLimit_window [OF assms(1) c, of k]
  have ih: "length (filter (\<lambda>(r, res). P r \<and> res = Passed) (run_requests consume config rs s1)) \<le> points - used k s1"
    using Cons by simp
  show ?case
  proof (cases "P r \<and> res = Passed")
    case True
    with w(2) Cons.prems have "used k s < points \<and> used k s < used k s1" by auto
    moreover have "length (filter (\<lambda>(r, res). P r \<and> res = Passed) (run_requests consume config (r # rs) s)) =
        Suc (length (filter (\<lambda>(r, res). P r \<and> res = Passed) (run_requests consume config rs s1)))"
      using True by (simp add: c)
    ultimately show ?thesis using ih by linarith
  next
    case False
    then have "filter (\<lambda>(r, res). P r \<and> res = Passed) (run_requests consume config (r # rs) s) =
        filter (\<lambda>(r, res). P r \<and> res = Passed) (run_requests consume config rs s1)" by (auto simp: c)
    with ih w(1) show ?thesis by simp
  qed
qed simp

lemma consumeKeys_free:
  assumes "window_limiter consume used points"
  shows "distinct ks \<Longrightarrow> \<forall>k\<in>set ks. used k s = 0 \<Longrightarrow> fst (consumeKeys consume ks s) = None"
proof (induction ks arbitrary: s)
  case (Cons k ks)
  obtain res s1 where c: "consume k s = (res, s1)" by fastforce
  note w = window_consume [OF assms c]
  have "0 < points" using assms by (simp add: window_limiter_def)
  then have "res = Consumed" using w(1) Cons.prems(2) by simp
  moreover have "\<forall>l\<in>set ks. used l s1 = 0"
  proof
    fix l assume l: "l \<in> set ks"
    then have "l \<noteq> k" using Cons.prems(1) by auto
    from w(4) [OF this] l Cons.prems(2) show "used l s1 = 0" by simp
  qed
  ultimately show ?case using Cons by (simp add: c)
qed simp

lemma keys_distinct: "distinct (keys_of config r)"
  by (simp add: buildRateLimitKeys_def)

lemma fresh_keys_pass:
  assumes "window_limiter consume used points"
  shows "distinct (concat (map (keys_of config) rs)) \<Longrightarrow> \<forall>r\<in>set rs. \<forall>k\<in>set (keys_of config r). used k s = 0 \<Longrightarrow>
    run_requests consume config rs s = map (\<lambda>r. (r, Passed)) rs"
proof (induction rs arbitrary: s)
  case (Cons r rs)
  obtain x s1 where k: "consumeKeys consume (keys_of config r) s = (x, s1)" by fastforce
  then have "x = None" using consumeKeys_free [OF assms keys_distinct [of r config], of s] Cons.prems(2) by simp
  with k have c: "rateLimit consume config r s = (Passed, s1)" by (simp add: rateLimit_def)
  have "\<forall>q\<in>set rs. \<forall>k\<in>set (keys_of config q). used k s1 = 0"
  proof (intro ballI)
    fix q l assume q: "q \<in> set rs" "l \<in> set (keys_of config q)"
    then have "l \<notin> set (keys_of config r)" using Cons.prems(1) by auto
    with rateLimit_window(3) [OF assms c this] q Cons.prems(2) show "used l s1 = 0" by simp
  qed
  moreover have "distinct (concat (map (keys_of config) rs))" using Cons.prems(1) by simp
  ultimately show ?case using Cons.IH [of s1] c by simp
qed simp

section \<open>What the limits hold\<close>

text \<open>
  C40: With separate buckets for addresses and wallets, at most as many requests that name the same
  wallet text pass in a window as the bucket has points, from whatever addresses they come and whatever
  other requests come between them.
\<close>

theorem wallet_bucket_holds:
  assumes "window_limiter consume used points" and "rl_dualScope config" and "w \<noteq> []"
  shows "length (filter (\<lambda>(r, res). rq_walletAddress r = Some w \<and> res = Passed)
    (run_requests consume config rs s)) \<le> points"
proof -
  have "\<forall>r\<in>set rs. rq_walletAddress r = Some w \<longrightarrow> ''wallet:'' @ w \<in> set (keys_of config r)"
    using assms(2,3) by (simp add: buildRateLimitKeys_def)
  from passes_bounded [OF assms(1) this, of s] show ?thesis by (rule order_trans) simp
qed

text \<open>A request that claims the address \<open>i\<close> and puts \<open>i\<close> spaces before the wallet.\<close>

definition evading :: "string option \<Rightarrow> string \<Rightarrow> nat \<Rightarrow> rl_request" where
  "evading ip w i = \<lparr>rq_forwardedFor = Some (dec_digits i), rq_ip = ip, rq_walletAddress = Some (replicate i (CHR '' '') @ w)\<rparr>"

lemma digit_not: "is_digit c \<Longrightarrow> c \<noteq> CHR '','' \<and> c \<noteq> CHR '':'' \<and> \<not> is_space c"
  by (auto simp: is_digit_def in_range_def code_of_def is_space_def)

lemma digits_not: "c \<in> set (dec_digits n) \<Longrightarrow> is_digit c"
  using digits_are_digits [of n] by (simp add: list_all_iff)

lemma evading_ip: "resolveIp (evading ip w i) = dec_digits i"
proof -
  have "js_split (CHR '','') (dec_digits i) = [dec_digits i]"
    by (rule js_split_no_sep) (use digits_not digit_not in blast)
  moreover have "js_trim (dec_digits i) = dec_digits i"
    by (rule js_trim_id [OF dec_digits_nonempty])
      (use digits_not digit_not dec_digits_nonempty hd_in_set last_in_set in blast)+
  ultimately show ?thesis by (simp add: resolveIp_def evading_def first_forwarded_def dec_digits_nonempty)
qed

text \<open>The number of the request whose key it is.\<close>

definition request_of :: "string \<Rightarrow> nat" where
  "request_of k = (if starts_with ''ip:'' k then dec_val (takeWhile is_digit (drop 3 k))
     else length (takeWhile (\<lambda>c. c = CHR '' '') (drop 7 k)))"

lemma evading_keys:
  assumes "w \<noteq> []" and "hd w \<noteq> CHR '' ''" and "k \<in> set (keys_of config (evading ip w i))"
  shows "request_of k = i"
proof -
  have d: "dec_val (takeWhile is_digit (dec_digits i @ CHR '':'' # r)) = i" "dec_val (takeWhile is_digit (dec_digits i)) = i" for r
    using digits_not [of _ i] by (simp_all add: takeWhile_append2 takeWhile_eq_all_conv [THEN iffD2] is_digit_def
        in_range_def code_of_def dec_digits_val)
  have w: "length (takeWhile (\<lambda>c. c = CHR '' '') (replicate i (CHR '' '') @ w)) = i"
    using assms(1,2) by (induction i) (auto simp: neq_Nil_conv)
  from assms(3) show ?thesis
    unfolding evading_ip buildRateLimitKeys_def
    using assms(1) d w by (auto simp: evading_def request_of_def split: if_splits)
qed

lemma distinct_by_label:
  "distinct is \<Longrightarrow> \<forall>i\<in>set is. distinct (K i) \<and> (\<forall>k\<in>set (K i). lab k = i) \<Longrightarrow> distinct (concat (map K is))"
  by (induction "is") auto

text \<open>
  C21: The limits can be evaded. Both buckets are chosen by the client, the address by a header and the
  wallet by its text, which the limiter takes untrimmed and the schema trims: with any limiter and any
  configuration, any number of requests from one socket for one wallet pass in a single window.
\<close>

theorem limits_evaded:
  assumes "window_limiter consume used points" and "\<forall>k. used k s = 0" and "public_key_regex w"
  shows "\<exists>rs. length rs = n \<and> (\<forall>r\<in>set rs. rq_ip r = ip \<and> (\<exists>x. rq_walletAddress r = Some x \<and> js_trim x = w))
    \<and> run_requests consume config rs s = map (\<lambda>r. (r, Passed)) rs"
proof (intro exI conjI)
  let ?rs = "map (evading ip w) [0..<n]"
  obtain cs where w: "w = CHR ''G'' # cs" "list_all is_base32 cs" "length cs = 55"
    using assms(3) by (auto simp: public_key_regex_def split: list.splits)
  have ends: "\<not> is_space (hd w)" "\<not> is_space (last w)"
  proof -
    show "\<not> is_space (hd w)" using w by (simp add: is_space_def char_class_defs)
    have "last w \<in> set cs" using w by (cases cs) auto
    with w(2) show "\<not> is_space (last w)"
      by (auto simp: list_all_iff is_space_def char_class_defs dest!: bspec)
  qed
  show "length ?rs = n" by simp
  have "js_trim (replicate i (CHR '' '') @ w) = w" for i
  proof -
    have "dropWhile is_space (replicate i (CHR '' '') @ w) = dropWhile is_space w"
      by (induction i) (simp_all add: is_space_def char_class_defs)
    then have "js_trim (replicate i (CHR '' '') @ w) = js_trim w" by (simp add: js_trim_def)
    also have "\<dots> = w" by (rule js_trim_id) (use w ends in simp_all)
    finally show ?thesis .
  qed
  then show "\<forall>r\<in>set ?rs. rq_ip r = ip \<and> (\<exists>x. rq_walletAddress r = Some x \<and> js_trim x = w)"
    by (auto simp: evading_def)
  have "distinct (concat (map (\<lambda>i. keys_of config (evading ip w i)) [0..<n]))"
    by (rule distinct_by_label [where lab = request_of])
      (use keys_distinct evading_keys [of w] w in \<open>auto simp: char_class_defs\<close>)
  then have "distinct (concat (map (keys_of config) ?rs))" by (simp add: o_def)
  from fresh_keys_pass [OF assms(1) this] assms(2)
  show "run_requests consume config ?rs s = map (\<lambda>r. (r, Passed)) ?rs" by simp
qed

text \<open>A limiter of three points that counts in a map.\<close>

definition demo_limiter :: "string \<Rightarrow> (string \<Rightarrow> nat) \<Rightarrow> consumed \<times> (string \<Rightarrow> nat)" where
  "demo_limiter k s = (if s k < 3 then (Consumed, s(k := s k + 1)) else (Rejected (Some 1000), s))"

lemma demo_window: "window_limiter demo_limiter (\<lambda>k s. s k) 3"
  by (simp add: window_limiter_def demo_limiter_def)

definition demo_verify :: rate_limit_config where
  "demo_verify = \<lparr>rl_keyPrefix = ''rl:auth:verify'', rl_points = 3, rl_durationSeconds = 60, rl_dualScope = True\<rparr>"

theorem wallet_bucket_holds_witness:
  "length (filter (\<lambda>(r, res). rq_walletAddress r = Some ''W'' \<and> res = Passed)
    (run_requests demo_limiter demo_verify
       (map (\<lambda>i. \<lparr>rq_forwardedFor = None, rq_ip = Some (dec_digits i), rq_walletAddress = Some ''W''\<rparr>) [0..<9]) (\<lambda>_. 0))) \<le> 3"
  by (rule wallet_bucket_holds [OF demo_window]) (simp_all add: demo_verify_def)

theorem limits_evaded_witness:
  "\<exists>rs. length rs = 100 \<and> (\<forall>r\<in>set rs. rq_ip r = Some ''10.0.0.1'')
    \<and> run_requests demo_limiter demo_verify rs (\<lambda>_. 0) = map (\<lambda>r. (r, Passed)) rs"
proof -
  have "public_key_regex (CHR ''G'' # replicate 55 (CHR ''A''))"
    by (simp add: public_key_regex_def list_all_iff char_class_defs)
  from limits_evaded [OF demo_window _ this, of "\<lambda>_. 0" 100 "Some ''10.0.0.1''" demo_verify]
  show ?thesis by blast
qed

end
