(* ===== verification/Leaderboard.thy ===== *)
theory Leaderboard
  imports Store "HOL-Library.Product_Lexorder"
begin

text \<open>
  The statistics of players: backend/src/controllers/leaderboard.controller.ts, with the query that
  ranks the players, and backend/src/controllers/users.controller.ts, which computes the statistics of
  one player from the same tables. Of a round only the columns and the parts of its metadata that the two
  read are kept, with arrays where they expect arrays; amounts are exact.
\<close>

section \<open>The tables\<close>

record lb_round =
  lr_arenaId :: string
  lr_state :: string
  lr_choices :: "string list option"
  lr_payouts :: "(string \<times> rat) list option"

text \<open>An elimination log joined with its round: the user and the arena.\<close>

type_synonym lb_log = "string \<times> string"

record lb_tables =
  lt_rounds :: "lb_round list"
  lt_logs :: "lb_log list"
  lt_users :: "(string \<times> string) list"

definition resolvedRounds :: "lb_tables \<Rightarrow> lb_round list" where
  "resolvedRounds T = filter (\<lambda>r. lr_state r = ''RESOLVED'') (lt_rounds T)"

definition choices_of :: "lb_round \<Rightarrow> string list" where
  "choices_of r = (case lr_choices r of None \<Rightarrow> [] | Some cs \<Rightarrow> cs)"

definition payouts_of :: "lb_round \<Rightarrow> (string \<times> rat) list" where
  "payouts_of r = (case lr_payouts r of None \<Rightarrow> [] | Some ps \<Rightarrow> ps)"

section \<open>One player\<close>

definition eliminationArenas :: "lb_tables \<Rightarrow> string \<Rightarrow> string list" where
  "eliminationArenas T userId = map snd (filter (\<lambda>(u, a). u = userId) (lt_logs T))"

definition participated_arenas :: "lb_tables \<Rightarrow> string \<Rightarrow> string list" where
  "participated_arenas T userId = map lr_arenaId (filter (\<lambda>r. userId \<in> set (choices_of r)) (resolvedRounds T))"

definition countGamesPlayed :: "lb_tables \<Rightarrow> string \<Rightarrow> nat" where
  "countGamesPlayed T userId =
     card (set (eliminationArenas T userId) \<union> set (participated_arenas T userId))"

definition countGamesWon :: "lb_tables \<Rightarrow> string \<Rightarrow> nat" where
  "countGamesWon T userId =
     length (filter (\<lambda>a. a \<notin> set (eliminationArenas T userId)) (remdups (participated_arenas T userId)))"

definition sumYieldEarned :: "lb_tables \<Rightarrow> string \<Rightarrow> rat" where
  "sumYieldEarned T userId =
     fold (\<lambda>r total. case List.find (\<lambda>p. fst p = userId) (payouts_of r) of
         None \<Rightarrow> total | Some p \<Rightarrow> total + snd p) (resolvedRounds T) 0"

definition add_payout :: "string \<times> rat \<Rightarrow> (string \<times> rat) list \<Rightarrow> (string \<times> rat) list" where
  "add_payout p m = AList.update (fst p) ((case map_of m (fst p) of None \<Rightarrow> 0 | Some x \<Rightarrow> x) + snd p) m"

definition yieldByUser :: "lb_tables \<Rightarrow> (string \<times> rat) list" where
  "yieldByUser T = fold (\<lambda>r m. fold add_payout (payouts_of r) m) (resolvedRounds T) []"

definition computeRank :: "lb_tables \<Rightarrow> string \<Rightarrow> nat option" where
  "computeRank T userId =
     (let m = yieldByUser T; userYield = (case map_of m userId of None \<Rightarrow> 0 | Some x \<Rightarrow> x) in
      if userYield = 0 then None
      else Some (1 + length (filter (\<lambda>(u, total). total > userYield) m)))"

text \<open>The response of \<open>me\<close> without the identity; the yield is shown with two decimals.\<close>

record player_profile =
  pp_gamesPlayed :: nat
  pp_gamesWon :: nat
  pp_totalYieldEarned :: rat
  pp_currentRank :: "nat option"

definition aggregateStats :: "lb_tables \<Rightarrow> string \<Rightarrow> player_profile" where
  "aggregateStats T userId =
     \<lparr>pp_gamesPlayed = countGamesPlayed T userId, pp_gamesWon = countGamesWon T userId,
      pp_totalYieldEarned = sumYieldEarned T userId, pp_currentRank = computeRank T userId\<rparr>"

section \<open>The query\<close>

record player_stats =
  ps_id :: string
  ps_walletAddress :: string
  ps_totalYield :: rat
  ps_arenasWon :: int
  ps_survivalStreak :: int
  ps_rank :: nat

text \<open>\<open>round_choices\<close>: the arena, the user and the payout of every choice of a resolved round.\<close>

definition payout_to :: "string \<Rightarrow> lb_round \<Rightarrow> rat" where
  "payout_to u r = sum_list (map snd (filter (\<lambda>p. fst p = u) (payouts_of r)))"

definition round_choices :: "lb_tables \<Rightarrow> (string \<times> string \<times> rat) list" where
  "round_choices T =
     concat (map (\<lambda>r. map (\<lambda>u. (lr_arenaId r, u, payout_to u r)) (choices_of r)) (resolvedRounds T))"

definition rows_of :: "lb_tables \<Rightarrow> string \<Rightarrow> (string \<times> string \<times> rat) list" where
  "rows_of T u = filter (\<lambda>(a, v, x). v = u) (round_choices T)"

definition all_user_ids :: "lb_tables \<Rightarrow> string list" where
  "all_user_ids T = remdups (map (\<lambda>(a, u, x). u) (round_choices T) @ map fst (lt_logs T))"

definition stats_row :: "lb_tables \<Rightarrow> string \<Rightarrow> string \<Rightarrow> player_stats" where
  "stats_row T u wallet =
     \<lparr>ps_id = u, ps_walletAddress = wallet, ps_totalYield = sum_list (map (\<lambda>(a, v, x). x) (rows_of T u)),
      ps_arenasWon = max 0 (int (card (set (map fst (rows_of T u)))) - int (card (set (eliminationArenas T u)))),
      ps_survivalStreak = max 0 (int (length (rows_of T u)) - int (length (eliminationArenas T u))),
      ps_rank = 0\<rparr>"

text \<open>Rows that compare equal come in any order; here they keep that of the users.\<close>

definition ranking_rows :: "lb_tables \<Rightarrow> player_stats list" where
  "ranking_rows T =
     sort_key (\<lambda>r. (- ps_totalYield r, - ps_arenasWon r))
       (map (\<lambda>(u, w). stats_row T u w) (filter (\<lambda>(u, w). u \<in> set (all_user_ids T)) (lt_users T)))"

definition buildRankedPlayers :: "lb_tables \<Rightarrow> player_stats list" where
  "buildRankedPlayers T = map (\<lambda>(i, r). r\<lparr>ps_rank := i + 1\<rparr>) (List.enumerate 0 (ranking_rows T))"

section \<open>Pages\<close>

text \<open>
  A cursor is a text; \<open>read_cursor\<close> is the JSON value of its base64url bytes, \<open>None\<close> when it throws.
\<close>

definition decode_offset :: "(string \<Rightarrow> jval option) \<Rightarrow> string \<Rightarrow> rat" where
  "decode_offset read_cursor cursor =
     (case read_cursor cursor of
        None \<Rightarrow> 0
      | Some payload \<Rightarrow>
          (case jfield ''offset'' payload of Some (JNum x) \<Rightarrow> if x < 0 then 0 else x | _ \<Rightarrow> 0))"

text \<open>\<open>slice\<close> cuts the fraction of its bounds.\<close>

definition js_slice :: "rat \<Rightarrow> rat \<Rightarrow> 'a list \<Rightarrow> 'a list" where
  "js_slice a b xs = drop (nat \<lfloor>a\<rfloor>) (take (nat \<lfloor>b\<rfloor>) xs)"

definition getLeaderboard ::
    "(string \<Rightarrow> jval option) \<Rightarrow> (rat \<Rightarrow> string) \<Rightarrow> lb_tables \<Rightarrow> nat \<Rightarrow> string option \<Rightarrow>
     player_stats list \<times> string option" where
  "getLeaderboard read_cursor encodeCursor T limit cursor =
     (let offset = (if truthy cursor then decode_offset read_cursor (the cursor) else 0);
          players = buildRankedPlayers T;
          next = offset + of_nat limit
      in (js_slice offset next players,
          if next < of_nat (length players) then Some (encodeCursor next) else None))"

text \<open>Following the cursors, at most \<open>n\<close> pages.\<close>

fun all_pages ::
    "(string \<Rightarrow> jval option) \<Rightarrow> (rat \<Rightarrow> string) \<Rightarrow> lb_tables \<Rightarrow> nat \<Rightarrow> nat \<Rightarrow> string option \<Rightarrow> player_stats list" where
  "all_pages rd enc T limit 0 cursor = []"
| "all_pages rd enc T limit (Suc n) cursor =
     (case getLeaderboard rd enc T limit cursor of
        (page, None) \<Rightarrow> page
      | (page, Some c) \<Rightarrow> page @ all_pages rd enc T limit n (Some c))"

section \<open>Lemmas\<close>

lemma sumYield_sum: "sumYieldEarned T u =
    sum_list (map (\<lambda>r. case List.find (\<lambda>p. fst p = u) (payouts_of r) of None \<Rightarrow> 0 | Some p \<Rightarrow> snd p) (resolvedRounds T))"
proof -
  have "fold (\<lambda>r total. case List.find (\<lambda>p. fst p = u) (payouts_of r) of None \<Rightarrow> total | Some p \<Rightarrow> total + snd p) rs t =
      t + sum_list (map (\<lambda>r. case List.find (\<lambda>p. fst p = u) (payouts_of r) of None \<Rightarrow> 0 | Some p \<Rightarrow> snd p) rs)" for rs t
    by (induction rs arbitrary: t) (auto split: option.split)
  then show ?thesis by (simp add: sumYieldEarned_def)
qed

lemma rows_of_concat: "rows_of T u =
    concat (map (\<lambda>r. map (\<lambda>v. (lr_arenaId r, v, payout_to v r)) (filter (\<lambda>v. v = u) (choices_of r))) (resolvedRounds T))"
  by (simp add: rows_of_def round_choices_def filter_concat o_def filter_map)

lemma find_unique:
  fixes ps :: "(string \<times> rat) list"
  assumes "length (filter (\<lambda>p. fst p = u) ps) \<le> 1"
  shows "(case List.find (\<lambda>p. fst p = u) ps of None \<Rightarrow> 0 | Some p \<Rightarrow> snd p) = sum_list (map snd (filter (\<lambda>p. fst p = u) ps))"
  using assms
proof (induction ps)
  case (Cons p ps)
  show ?case
  proof (cases "fst p = u")
    case True
    with Cons.prems have "filter (\<lambda>p. fst p = u) ps = []" by simp
    with True show ?thesis by simp
  next
    case False
    with Cons show ?thesis by simp
  qed
qed simp

lemma arenas_of_rows: "set (map fst (rows_of T u)) = set (participated_arenas T u)"
  by (auto simp: rows_of_concat participated_arenas_def image_iff)

text \<open>
  What makes the two agree: the player is in each round's choices at most once, is paid there at most
  once and only when it chose, and was eliminated only in arenas where it chose in a resolved round.
\<close>

definition regular_player :: "lb_tables \<Rightarrow> string \<Rightarrow> bool" where
  "regular_player T u \<longleftrightarrow>
     (\<forall>r\<in>set (resolvedRounds T).
        length (filter (\<lambda>v. v = u) (choices_of r)) \<le> 1
        \<and> length (filter (\<lambda>p. fst p = u) (payouts_of r)) \<le> 1
        \<and> (u \<notin> set (choices_of r) \<longrightarrow> u \<notin> fst ` set (payouts_of r)))
     \<and> set (eliminationArenas T u) \<subseteq> set (participated_arenas T u)"

lemma yields_agree:
  assumes "regular_player T u"
  shows "ps_totalYield (stats_row T u w) = sumYieldEarned T u"
proof -
  have "sum_list (map (\<lambda>(a, v, x). x) (concat (map (\<lambda>r. map (\<lambda>v. (lr_arenaId r, v, payout_to v r))
        (filter (\<lambda>v. v = u) (choices_of r))) rs))) =
      sum_list (map (\<lambda>r. case List.find (\<lambda>p. fst p = u) (payouts_of r) of None \<Rightarrow> 0 | Some p \<Rightarrow> snd p) rs)"
    if "set rs \<subseteq> set (resolvedRounds T)" for rs
    using that
  proof (induction rs)
    case (Cons r rs)
    have reg: "length (filter (\<lambda>v. v = u) (choices_of r)) \<le> 1" "length (filter (\<lambda>p. fst p = u) (payouts_of r)) \<le> 1"
      "u \<notin> set (choices_of r) \<longrightarrow> u \<notin> fst ` set (payouts_of r)"
      using assms Cons.prems by (auto simp: regular_player_def)
    have "sum_list (map (\<lambda>v. payout_to v r) (filter (\<lambda>v. v = u) (choices_of r))) = payout_to u r"
    proof (cases "u \<in> set (choices_of r)")
      case True
      then obtain v vs where f: "filter (\<lambda>v. v = u) (choices_of r) = v # vs"
        by (cases "filter (\<lambda>v. v = u) (choices_of r)") (auto simp: filter_empty_conv)
      with reg(1) have "vs = []" by simp
      moreover have "v \<in> set (filter (\<lambda>v. v = u) (choices_of r))" by (simp only: f list.set_intros)
      then have "v = u" by simp
      ultimately show ?thesis by (simp add: f)
    next
      case False
      with reg(3) have "filter (\<lambda>p. fst p = u) (payouts_of r) = []" by (force simp: filter_empty_conv)
      moreover have "filter (\<lambda>v. v = u) (choices_of r) = []" using False by (auto simp: filter_empty_conv)
      ultimately show ?thesis by (simp add: payout_to_def)
    qed
    with find_unique [OF reg(2)] Cons show ?case by (simp add: payout_to_def o_def)
  qed simp
  then show ?thesis by (simp add: stats_row_def rows_of_concat sumYield_sum)
qed

lemma wins_agree:
  assumes "regular_player T u"
  shows "ps_arenasWon (stats_row T u w) = int (countGamesWon T u)"
proof -
  let ?P = "set (participated_arenas T u)" and ?E = "set (eliminationArenas T u)"
  have sub: "?E \<subseteq> ?P" using assms by (simp add: regular_player_def)
  have "countGamesWon T u = card (?P - ?E)"
  proof -
    have "set (filter (\<lambda>a. a \<notin> ?E) (remdups (participated_arenas T u))) = ?P - ?E" by auto
    moreover have "distinct (filter (\<lambda>a. a \<notin> ?E) (remdups (participated_arenas T u)))" by simp
    ultimately show ?thesis unfolding countGamesWon_def by (metis distinct_card)
  qed
  also have "\<dots> = card ?P - card ?E" by (rule card_Diff_subset) (use sub in auto)
  finally show ?thesis using card_mono [OF _ sub] by (simp add: stats_row_def arenas_of_rows del: set_map)
qed

lemma no_payout_sum: "u \<notin> fst ` set ps \<Longrightarrow> sum_list (map snd (filter (\<lambda>p. fst p = u) ps)) = 0"
proof -
  assume "u \<notin> fst ` set ps"
  then have "filter (\<lambda>p. fst p = u) ps = []" by (auto simp: filter_empty_conv)
  then show ?thesis by simp
qed

lemma add_payouts:
  assumes "distinct (map fst m)"
  shows "distinct (map fst (fold add_payout ps m))
    \<and> map_of (fold add_payout ps m) u =
      (if u \<in> fst ` set ps then Some ((case map_of m u of None \<Rightarrow> 0 | Some x \<Rightarrow> x) + sum_list (map snd (filter (\<lambda>p. fst p = u) ps)))
       else map_of m u)"
  using assms
proof (induction ps arbitrary: m)
  case (Cons p ps)
  have "distinct (map fst (add_payout p m))" using Cons.prems by (simp add: add_payout_def distinct_update)
  from Cons.IH [OF this] show ?case
    using no_payout_sum [of u ps] by (auto simp: add_payout_def update_conv' split: option.split)
qed simp

definition all_payouts :: "lb_tables \<Rightarrow> (string \<times> rat) list" where
  "all_payouts T = concat (map payouts_of (resolvedRounds T))"

definition total_yield :: "lb_tables \<Rightarrow> string \<Rightarrow> rat" where
  "total_yield T u = sum_list (map snd (filter (\<lambda>p. fst p = u) (all_payouts T)))"

lemma yieldByUser_fold: "yieldByUser T = fold add_payout (all_payouts T) []"
proof -
  have "fold (\<lambda>r m. fold add_payout (payouts_of r) m) rs m = fold add_payout (concat (map payouts_of rs)) m" for rs m
    by (induction rs arbitrary: m) simp_all
  then show ?thesis by (simp add: yieldByUser_def all_payouts_def)
qed

lemma yieldByUser_value: "distinct (map fst (yieldByUser T))"
  "map_of (yieldByUser T) u = (if u \<in> fst ` set (all_payouts T) then Some (total_yield T u) else None)"
  using add_payouts [of "[]" "all_payouts T" u] by (simp_all add: yieldByUser_fold total_yield_def)

lemma total_absent: "u \<notin> fst ` set (all_payouts T) \<Longrightarrow> total_yield T u = 0"
  by (simp add: total_yield_def no_payout_sum)

lemma fst_graph: "fst ` {(v, t). P v \<and> t = g v \<and> t > c} = {v. P v \<and> g v > (c :: rat)}"
  by (auto simp: image_iff)

text \<open>
  The rank in a player's profile is one more than the number of users whose payouts over all resolved
  rounds sum to strictly more than the player's, and there is none exactly when the player's sum is zero.
\<close>

theorem rank_counts_better:
  "computeRank T u =
     (if total_yield T u = 0 then None
      else Some (1 + card {v \<in> fst ` set (all_payouts T). total_yield T v > total_yield T u}))"
proof -
  let ?m = "yieldByUser T" and ?f = "filter (\<lambda>(v, total). total > total_yield T u) (yieldByUser T)"
  have y: "(case map_of ?m u of None \<Rightarrow> 0 | Some x \<Rightarrow> x) = total_yield T u"
    using total_absent [of u T] by (simp add: yieldByUser_value(2))
  have "distinct (map fst ?f)" using yieldByUser_value(1) by (rule distinct_map_filter)
  then have "length ?f = card (fst ` set ?f)" using distinct_card [of "map fst ?f"] by simp
  also have "fst ` set ?f = {v \<in> fst ` set (all_payouts T). total_yield T v > total_yield T u}"
  proof -
    have "(v, t) \<in> set ?m \<longleftrightarrow> v \<in> fst ` set (all_payouts T) \<and> t = total_yield T v" for v t
    proof -
      have "(v, t) \<in> set ?m \<longleftrightarrow> map_of ?m v = Some t" by (simp only: map_of_eq_Some_iff [OF yieldByUser_value(1)])
      then show ?thesis by (simp only: yieldByUser_value(2)) auto
    qed
    then have "set ?f = {(v, t). v \<in> fst ` set (all_payouts T) \<and> t = total_yield T v \<and> t > total_yield T u}" by auto
    then show ?thesis by (simp only: fst_graph)
  qed
  finally show ?thesis using y by (simp add: computeRank_def Let_def)
qed


lemma pages_from:
  assumes "0 < limit" and "\<And>n. rd (enc (of_nat n)) = Some (JObj [(''offset'', JNum (of_nat n))])"
    and "\<And>n. enc (of_nat n) \<noteq> []" and "o0 + n > length (buildRankedPlayers T)" and "0 < n"
    and "cursor = Some (enc (of_nat o0)) \<or> (cursor = None \<and> o0 = 0)"
  shows "all_pages rd enc T limit n cursor = drop o0 (buildRankedPlayers T)"
  using assms(4-6)
proof (induction n arbitrary: o0 cursor)
  case (Suc n)
  let ?L = "buildRankedPlayers T"
  have off: "(if truthy cursor then decode_offset rd (the cursor) else 0) = of_nat o0"
    using Suc.prems(3) assms(2,3) by (auto simp: decode_offset_def truthy_iff)
  have "of_nat o0 + of_nat limit = (of_nat (o0 + limit) :: rat)" by simp
  then have page: "getLeaderboard rd enc T limit cursor =
      (drop o0 (take (o0 + limit) ?L), if o0 + limit < length ?L then Some (enc (of_nat (o0 + limit))) else None)"
    by (simp only: getLeaderboard_def off Let_def js_slice_def floor_of_nat nat_int of_nat_less_iff)
  show ?case
  proof (cases "o0 + limit < length ?L")
    case True
    then have "all_pages rd enc T limit n (Some (enc (of_nat (o0 + limit)))) = drop (o0 + limit) ?L"
      using Suc.prems assms(1) by (intro Suc.IH) auto
    with True page show ?thesis
      by (simp only: all_pages.simps prod.case if_True option.case)
        (metis append_take_drop_id drop_take add.commute drop_drop diff_add_inverse)
  next
    case False
    with page show ?thesis by simp
  qed
qed simp

text \<open>
  Following the cursors of the leaderboard from the first page, with any page size above zero, returns
  every ranked player exactly once and in order, and ends.
\<close>

theorem leaderboard_pages_cover:
  assumes "0 < limit" and "\<And>n. rd (enc (of_nat n)) = Some (JObj [(''offset'', JNum (of_nat n))])"
    and "\<And>n. enc (of_nat n) \<noteq> []"
  shows "all_pages rd enc T limit (length (buildRankedPlayers T) + 1) None = buildRankedPlayers T"
  by (rule trans [OF pages_from [where ?o0.0 = 0]]) (simp_all add: assms)

section \<open>Witnesses\<close>

definition demo_tables :: lb_tables where
  "demo_tables = \<lparr>lt_rounds =
       [\<lparr>lr_arenaId = ''A'', lr_state = ''RESOLVED'', lr_choices = Some [''u1'', ''u2''], lr_payouts = None\<rparr>,
        \<lparr>lr_arenaId = ''B'', lr_state = ''RESOLVED'', lr_choices = Some [''u1''], lr_payouts = Some [(''u1'', 5)]\<rparr>,
        \<lparr>lr_arenaId = ''C'', lr_state = ''CLOSED'', lr_choices = Some [''u2''], lr_payouts = None\<rparr>],
     lt_logs = [(''u1'', ''A''), (''u2'', ''C'')], lt_users = [(''u1'', ''G1''), (''u2'', ''G2'')]\<rparr>"

lemma demo_tables_sel:
  "resolvedRounds demo_tables =
     [\<lparr>lr_arenaId = ''A'', lr_state = ''RESOLVED'', lr_choices = Some [''u1'', ''u2''], lr_payouts = None\<rparr>,
      \<lparr>lr_arenaId = ''B'', lr_state = ''RESOLVED'', lr_choices = Some [''u1''], lr_payouts = Some [(''u1'', 5)]\<rparr>]"
  "eliminationArenas demo_tables ''u1'' = [''A'']" "eliminationArenas demo_tables ''u2'' = [''C'']"
  by (simp_all add: demo_tables_def resolvedRounds_def eliminationArenas_def)

lemma demo_wins: "participated_arenas demo_tables ''u1'' = [''A'', ''B'']" "participated_arenas demo_tables ''u2'' = [''A'']"
  by (simp_all add: participated_arenas_def demo_tables_sel choices_of_def)


text \<open>An elimination in an arena without a resolved round costs a win on the leaderboard only.\<close>

lemma statistics_disagree:
  "pp_gamesWon (aggregateStats demo_tables ''u2'') = 1" "ps_arenasWon (stats_row demo_tables ''u2'' ''G2'') = 0"
proof -
  show "pp_gamesWon (aggregateStats demo_tables ''u2'') = 1"
    by (simp add: aggregateStats_def countGamesWon_def demo_tables_sel demo_wins)
  have "set (map fst (rows_of demo_tables ''u2'')) = {''A''}" unfolding arenas_of_rows by (simp add: demo_wins)
  then show "ps_arenasWon (stats_row demo_tables ''u2'' ''G2'') = 0"
    by (simp add: stats_row_def demo_tables_sel del: set_map)
qed

theorem leaderboard_pages_cover_witness:
  "\<exists>rd enc. all_pages rd enc demo_tables 1 (length (buildRankedPlayers demo_tables) + 1) None = buildRankedPlayers demo_tables"
proof -
  let ?enc = "\<lambda>x :: rat. CHR ''c'' # dec_digits (nat \<lfloor>x\<rfloor>)"
  let ?rd = "\<lambda>c. Some (JObj [(''offset'', JNum (of_nat (dec_val (tl c))))])"
  have "all_pages ?rd ?enc demo_tables 1 (length (buildRankedPlayers demo_tables) + 1) None = buildRankedPlayers demo_tables"
    by (rule leaderboard_pages_cover) (simp_all add: dec_digits_val)
  then show ?thesis by blast
qed

end
