(* ===== verification/ArenaRoutes.thy ===== *)
theory ArenaRoutes
  imports Leaderboard Rounds
begin

text \<open>
  The routes that list what belongs to an arena: the participants of backend/src/routes/arenas.ts and of
  backend/src/controllers/arena.controller.ts, the synchronisation of players, and the elimination
  history of backend/src/routes/pools.ts. What Prisma finds is an argument; dates are milliseconds.
\<close>

section \<open>Participants of the current round\<close>

record arena_choice =
  ac_userId :: string
  ac_choice :: string
  ac_stake :: rat

definition normalize_choice :: "jval \<Rightarrow> arena_choice option" where
  "normalize_choice choice =
     (case (jfield ''userId'' choice, jfield ''choice'' choice, jfield ''stake'' choice) of
        (Some (JStr u), Some (JStr c), Some (JNum s)) \<Rightarrow>
          if u \<noteq> [] \<and> (c = ''heads'' \<or> c = ''tails'') then Some \<lparr>ac_userId = u, ac_choice = c, ac_stake = s\<rparr> else None
      | _ \<Rightarrow> None)"

definition normalizeRoundMetadata :: "jval option \<Rightarrow> arena_choice list" where
  "normalizeRoundMetadata metadata =
     (case metadata of
        Some (JObj fs) \<Rightarrow>
          (case jfield ''playerChoices'' (JObj fs) of
             Some (JArr cs) \<Rightarrow> List.map_filter normalize_choice cs
           | _ \<Rightarrow> [])
      | _ \<Rightarrow> [])"

record latest_round =
  lt_id :: string
  lt_roundNumber :: nat
  lt_state :: string
  lt_createdAt :: int
  lt_metadata :: "jval option"
  lt_logged :: "string list"

record arena_participant =
  pt_id :: string
  pt_walletAddress :: string
  pt_choice :: string
  pt_stake :: rat
  pt_status :: string
  pt_roundNumber :: nat
  pt_joinedAt :: int

definition participant_of ::
    "string \<Rightarrow> int \<Rightarrow> latest_round option \<Rightarrow> (string \<times> string) list \<Rightarrow> nat \<times> arena_choice \<Rightarrow> arena_participant" where
  "participant_of arenaId arenaCreatedAt latest users ic =
     (case ic of (index, choice) \<Rightarrow>
       \<lparr>pt_id = (case latest of None \<Rightarrow> arenaId | Some r \<Rightarrow> lt_id r) @ '':'' @ ac_userId choice @ '':'' @ dec_digits index,
        pt_walletAddress = (case map_of users (ac_userId choice) of None \<Rightarrow> ac_userId choice | Some w \<Rightarrow> w),
        pt_choice = ac_choice choice, pt_stake = ac_stake choice,
        pt_status = (if ac_userId choice \<in> (case latest of None \<Rightarrow> {} | Some r \<Rightarrow> set (lt_logged r)) then ''ELIMINATED''
          else if (case latest of None \<Rightarrow> False | Some r \<Rightarrow> lt_state r = ''OPEN'') then ''READY'' else ''ACTIVE''),
        pt_roundNumber = (case latest of None \<Rightarrow> 0 | Some r \<Rightarrow> lt_roundNumber r),
        pt_joinedAt = (case latest of None \<Rightarrow> arenaCreatedAt | Some r \<Rightarrow> lt_createdAt r)\<rparr>)"

definition round_participants ::
    "string \<Rightarrow> int \<Rightarrow> latest_round option \<Rightarrow> (string \<times> string) list \<Rightarrow> arena_participant list" where
  "round_participants arenaId arenaCreatedAt latest users =
     map (participant_of arenaId arenaCreatedAt latest users)
       (List.enumerate 0 (normalizeRoundMetadata (case latest of None \<Rightarrow> None | Some r \<Rightarrow> lt_metadata r)))"

record 'a page =
  pg_total :: nat
  pg_nextCursor :: "nat option"
  pg_hasMore :: bool
  pg_items :: "'a list"

definition numbered_page :: "nat \<Rightarrow> nat \<Rightarrow> 'a list \<Rightarrow> 'a page" where
  "numbered_page limit cursor xs =
     \<lparr>pg_total = length xs, pg_nextCursor = (if cursor + limit < length xs then Some (cursor + limit) else None),
      pg_hasMore = (cursor + limit < length xs), pg_items = drop cursor (take (cursor + limit) xs)\<rparr>"

text \<open>\<open>Inl\<close> is the 404; an arena is its creation date and its latest round.\<close>

definition list_participants ::
    "(int \<times> latest_round option) option \<Rightarrow> (string \<times> string) list \<Rightarrow> string \<Rightarrow> nat \<Rightarrow> nat \<Rightarrow> string + arena_participant page" where
  "list_participants arena users arenaId limit cursor =
     (case arena of
        None \<Rightarrow> Inl (''Arena with ID '' @ arenaId @ '' not found'')
      | Some (createdAt, latest) \<Rightarrow>
          Inr (numbered_page limit cursor (round_participants arenaId createdAt latest users)))"

section \<open>Synchronising the players\<close>

text \<open>
  The table of users as wallet addresses; \<open>readPlayers\<close> is the reader of the chain, which is called
  with the address only. A contract address in the metadata is a string.
\<close>

definition upsert_wallet :: "string \<Rightarrow> string list \<Rightarrow> string list" where
  "upsert_wallet wallet us = (if wallet \<in> set us then us else us @ [wallet])"

definition sync_players ::
    "(string \<Rightarrow> string list) \<Rightarrow> jval option option \<Rightarrow> string \<Rightarrow> string list \<Rightarrow> (nat \<times> string + nat) \<times> string list" where
  "sync_players readPlayers arenaMetadata arenaId us =
     (case arenaMetadata of
        None \<Rightarrow> (Inl (404, ''Arena with ID '' @ arenaId @ '' not found''), us)
      | Some metadata \<Rightarrow>
          (case (case metadata of None \<Rightarrow> None | Some m \<Rightarrow> jfield ''contractAddress'' m) of
             Some (JStr a) \<Rightarrow>
               if a = [] then (Inl (400, ''Arena has no contract address''), us)
               else (Inr (length (readPlayers a)), fold upsert_wallet (readPlayers a) us)
           | _ \<Rightarrow> (Inl (400, ''Arena has no contract address''), us)))"

section \<open>Participants of the first round\<close>

record logged_round =
  rw_roundNumber :: nat
  rw_choices :: "arena_choice list"
  rw_logged :: "string list"

record user_row =
  ur_id :: string
  ur_walletAddress :: string
  ur_createdAt :: int

definition normalizeChoice :: "string \<Rightarrow> string" where
  "normalizeChoice c = (if c = ''tails'' then ''tails'' else ''heads'')"

definition participant_row :: "logged_round list \<Rightarrow> user_row list \<Rightarrow> arena_choice \<Rightarrow> arena_participant option" where
  "participant_row rounds users pc =
     (case List.find (\<lambda>u. ur_id u = ac_userId pc) users of
        None \<Rightarrow> None
      | Some user \<Rightarrow>
          Some \<lparr>pt_id = ur_id user, pt_walletAddress = ur_walletAddress user, pt_choice = normalizeChoice (ac_choice pc),
                pt_stake = ac_stake pc,
                pt_status = (if \<exists>r\<in>set rounds. ur_id user \<in> set (rw_logged r) then ''ELIMINATED'' else ''ACTIVE''),
                pt_roundNumber = rw_roundNumber (hd rounds), pt_joinedAt = ur_createdAt user\<rparr>)"

definition buildParticipantList :: "logged_round list \<Rightarrow> user_row list \<Rightarrow> arena_participant list" where
  "buildParticipantList rounds users =
     (case rounds of [] \<Rightarrow> []
      | firstRound # _ \<Rightarrow> sort_key pt_joinedAt (List.map_filter (participant_row rounds users) (rw_choices firstRound)))"

text \<open>The cursors are those of the leaderboard.\<close>

record 'a cursor_page =
  cp_total :: nat
  cp_nextCursor :: "string option"
  cp_hasMore :: bool
  cp_items :: "'a list"

definition cursor_page_of :: "(string \<Rightarrow> jval option) \<Rightarrow> (rat \<Rightarrow> string) \<Rightarrow> nat \<Rightarrow> string option \<Rightarrow> 'a list \<Rightarrow> 'a cursor_page" where
  "cursor_page_of rd enc limit cursor xs =
     (let offset = (if truthy cursor then decode_offset rd (the cursor) else 0); next = offset + of_nat limit in
      \<lparr>cp_total = length xs, cp_nextCursor = (if next < of_nat (length xs) then Some (enc next) else None),
       cp_hasMore = (next < of_nat (length xs)), cp_items = js_slice offset next xs\<rparr>)"

definition getParticipants ::
    "(string \<Rightarrow> jval option) \<Rightarrow> (rat \<Rightarrow> string) \<Rightarrow> (logged_round list \<times> user_row list) option \<Rightarrow> string \<Rightarrow> nat \<Rightarrow>
     string option \<Rightarrow> nat + arena_participant cursor_page" where
  "getParticipants rd enc arena arenaId limit cursor =
     (if arenaId = [] then Inl 400
      else (case arena of None \<Rightarrow> Inl 404
            | Some (rounds, users) \<Rightarrow> Inr (cursor_page_of rd enc limit cursor (buildParticipantList rounds users))))"

section \<open>Eliminations of a pool\<close>

record elimination_entry =
  el_id :: string
  el_userId :: string
  el_roundNumber :: nat
  el_reason :: "string option"
  el_eliminatedAt :: int

text \<open>The logs of the arena, newest first, as the database orders them.\<close>

definition newest_first :: "elimination_entry list \<Rightarrow> elimination_entry list" where
  "newest_first = sort_key (\<lambda>l. - el_eliminatedAt l)"

definition pool_eliminations ::
    "(string \<Rightarrow> jval option) \<Rightarrow> (rat \<Rightarrow> string) \<Rightarrow> elimination_entry list \<Rightarrow> nat \<Rightarrow> string option \<Rightarrow>
     elimination_entry list \<times> string option" where
  "pool_eliminations rd enc table limit cursor =
     (let offset = (if truthy cursor then decode_offset rd (the cursor) else 0);
          logs = take (limit + 1) (drop (nat \<lfloor>offset\<rfloor>) (newest_first table))
      in (take limit logs, if length logs > limit then Some (enc (offset + of_nat limit)) else None))"

definition PoolCreateSchema :: "string \<Rightarrow> rat \<Rightarrow> bool" where
  "PoolCreateSchema arenaId stakeAmount \<longleftrightarrow> length arenaId = 56 \<and> contract_id_regex arenaId \<and> 0 < stakeAmount"

section \<open>Pages that move\<close>

lemma insort_key_past: "\<forall>y\<in>set A. f y < f x \<Longrightarrow> insort_key f x (A @ B) = A @ insort_key f x B" for f :: "'a \<Rightarrow> 'b :: linorder"
  by (induction A) auto

lemma sort_key_append_less:
  "\<forall>x\<in>set xs. \<forall>y\<in>set ys. f y < f x \<Longrightarrow> sort_key f (xs @ ys) = sort_key f ys @ sort_key f xs" for f :: "'a \<Rightarrow> 'b :: linorder"
  by (induction xs) (simp_all add: insort_key_past)

lemma decode_encoded:
  assumes "rd (enc (of_nat n)) = Some (JObj [(''offset'', JNum (of_nat n))])"
  shows "decode_offset rd (enc (of_nat n)) = of_nat n"
  using assms by (simp add: decode_offset_def)

text \<open>
  The elimination history repeats itself: the cursor is an offset into the newest-first order, so
  when players are eliminated between two requests, as many entries of the first page as there are new
  eliminations come again at the start of the second page.
\<close>

theorem elimination_pages_repeat:
  assumes "rd (enc (of_nat limit)) = Some (JObj [(''offset'', JNum (of_nat limit))])" and "enc (of_nat limit) \<noteq> []"
    and "pool_eliminations rd enc table limit None = (page1, Some c)"
    and "\<forall>l\<in>set table. \<forall>l'\<in>set new. el_eliminatedAt l < el_eliminatedAt l'" and "length new \<le> limit"
  shows "take (length new) (fst (pool_eliminations rd enc (table @ new) limit (Some c))) = drop (limit - length new) page1"
proof -
  let ?L = "newest_first table"
  have p1: "page1 = take limit ?L" "c = enc (of_nat limit)"
    using assms(3) by (auto simp: pool_eliminations_def Let_def split: if_splits)
  have "newest_first (table @ new) = newest_first new @ ?L"
    unfolding newest_first_def by (rule sort_key_append_less) (use assms(4) in auto)
  moreover have "decode_offset rd c = of_nat limit" unfolding p1(2) by (rule decode_encoded) (rule assms(1))
  ultimately have "fst (pool_eliminations rd enc (table @ new) limit (Some c)) = take limit (drop limit (newest_first new @ ?L))"
    using assms(2) by (simp add: pool_eliminations_def Let_def p1(2) min_def)
  also have "drop limit (newest_first new @ ?L) = drop (limit - length new) ?L"
    using assms(5) by (simp add: newest_first_def)
  finally show ?thesis using assms(5) by (simp add: p1(1) drop_take min_def)
qed

definition demo_log :: "nat \<Rightarrow> elimination_entry" where
  "demo_log n = \<lparr>el_id = dec_digits n, el_userId = ''u'', el_roundNumber = 1, el_reason = None, el_eliminatedAt = int n\<rparr>"

theorem elimination_pages_repeat_witness:
  "\<exists>rd enc c. snd (pool_eliminations rd enc (map demo_log [0, 1, 2, 3, 4]) 2 None) = Some c
    \<and> take 1 (fst (pool_eliminations rd enc (map demo_log [0, 1, 2, 3, 4] @ [demo_log 9]) 2 (Some c))) = [demo_log 3]"
proof -
  let ?enc = "\<lambda>x :: rat. ''c''" and ?rd = "\<lambda>c. Some (JObj [(''offset'', JNum 2)])"
  have order: "newest_first (map demo_log [0, 1, 2, 3, 4]) = [demo_log 4, demo_log 3, demo_log 2, demo_log 1, demo_log 0]"
    by (simp add: newest_first_def demo_log_def)
  then have page: "pool_eliminations ?rd ?enc (map demo_log [0, 1, 2, 3, 4]) 2 None = ([demo_log 4, demo_log 3], Some ''c'')"
    by (simp add: pool_eliminations_def)
  have "take (length [demo_log 9]) (fst (pool_eliminations ?rd ?enc (map demo_log [0, 1, 2, 3, 4] @ [demo_log 9]) 2 (Some ''c'')))
      = drop (2 - length [demo_log 9]) [demo_log 4, demo_log 3]"
    by (rule elimination_pages_repeat [OF _ _ page]) (auto simp: demo_log_def)
  with page show ?thesis by (intro exI conjI) auto
qed

end
