(* ===== verification/Intervals.thy ===== *)
theory Intervals
  imports Prelude
begin

text \<open>
  What the hooks of the frontend share: a ref that holds the handle of an interval, and the intervals
  that run in the browser (frontend/src/shared-d/hooks/useArenaTimer.ts, usePolling.ts, useLiveTicker.ts).
  Handles are numbers, the next one is \<open>iv_fresh\<close>.
\<close>

record intervals =
  iv_ref :: "nat option"
  iv_live :: "nat list"
  iv_fresh :: nat

definition no_intervals :: intervals where
  "no_intervals = \<lparr>iv_ref = None, iv_live = [], iv_fresh = 0\<rparr>"

text \<open>\<open>intervalRef.current = setInterval(...)\<close>: an interval that the ref held before goes on running.\<close>

definition set_interval :: "intervals \<Rightarrow> intervals" where
  "set_interval c =
     c\<lparr>iv_ref := Some (iv_fresh c), iv_live := iv_fresh c # iv_live c, iv_fresh := iv_fresh c + 1\<rparr>"

definition clear_interval :: "intervals \<Rightarrow> intervals" where
  "clear_interval c =
     (case iv_ref c of None \<Rightarrow> c
      | Some i \<Rightarrow> c\<lparr>iv_ref := None, iv_live := filter (\<lambda>j. j \<noteq> i) (iv_live c)\<rparr>)"

text \<open>Every running interval is the one that the ref holds.\<close>

definition owned :: "intervals \<Rightarrow> bool" where
  "owned c \<longleftrightarrow> iv_live c = (case iv_ref c of None \<Rightarrow> [] | Some i \<Rightarrow> [i])"

lemma owned_none [simp]: "owned no_intervals" "iv_ref no_intervals = None" "iv_live no_intervals = []"
  by (simp_all add: owned_def no_intervals_def)

lemma clear_ref [simp]: "iv_ref (clear_interval c) = None" "iv_fresh (clear_interval c) = iv_fresh c"
  by (simp_all add: clear_interval_def split: option.split)

lemma clear_owned [simp]: "owned c \<Longrightarrow> iv_live (clear_interval c) = []" "owned c \<Longrightarrow> owned (clear_interval c)"
  by (auto simp: clear_interval_def owned_def split: option.splits)

lemma clear_none: "iv_ref c = None \<Longrightarrow> clear_interval c = c"
  by (simp add: clear_interval_def)

lemma clear_clear [simp]: "clear_interval (clear_interval c) = clear_interval c"
  by (simp add: clear_none)

lemma set_ref [simp]: "iv_ref (set_interval c) = Some (iv_fresh c)" "iv_live (set_interval c) = iv_fresh c # iv_live c"
  "iv_fresh (set_interval c) = iv_fresh c + 1"
  by (simp_all add: set_interval_def)

lemma set_owned [simp]: "iv_live c = [] \<Longrightarrow> owned (set_interval c)"
  by (simp add: owned_def)

lemma owned_live: "owned c \<Longrightarrow> iv_live c = [] \<longleftrightarrow> iv_ref c = None"
  by (simp add: owned_def split: option.split)

text \<open>
  A hook whose steps keep its intervals: the only one that runs is that of the ref, and it runs only
  while the hook is \<open>active\<close>.
\<close>

definition kept :: "bool \<Rightarrow> intervals \<Rightarrow> bool" where
  "kept a c \<longleftrightarrow> owned c \<and> (iv_ref c \<noteq> None \<longrightarrow> a)"

lemma kept_none [simp]: "kept a no_intervals"
  by (simp add: kept_def)

lemma kept_clear [simp]: "owned c \<Longrightarrow> kept a (clear_interval c)"
  by (simp add: kept_def)

lemma kept_owned: "kept a c \<Longrightarrow> owned c"
  by (simp add: kept_def)

lemma kept_inactive: "kept False c \<Longrightarrow> iv_ref c = None \<and> iv_live c = []"
  by (simp add: kept_def owned_live)

lemma kept_set [simp]: "owned c \<Longrightarrow> a \<Longrightarrow> kept a (set_interval (clear_interval c))"
  by (simp add: kept_def)

locale interval_hook =
  fixes ivs :: "'s \<Rightarrow> intervals" and active :: "'s \<Rightarrow> bool" and start :: 's and step :: "'s \<Rightarrow> 's \<Rightarrow> bool"
  assumes start_kept: "kept (active start) (ivs start)"
    and step_kept: "step s s' \<Longrightarrow> kept (active s) (ivs s) \<Longrightarrow> kept (active s') (ivs s')"
begin

lemma run_kept: "step\<^sup>*\<^sup>* start s \<Longrightarrow> kept (active s) (ivs s)"
  by (induction rule: rtranclp_induct) (auto simp: start_kept intro: step_kept)

lemma run_single: "step\<^sup>*\<^sup>* start s \<Longrightarrow> length (iv_live (ivs s)) \<le> 1 \<and> (\<not> active s \<longrightarrow> iv_live (ivs s) = [])"
  using run_kept [of s] by (auto simp: kept_def owned_def split: option.splits)

lemma run_live: "step\<^sup>*\<^sup>* start s \<Longrightarrow> i \<in> set (iv_live (ivs s)) \<Longrightarrow> active s \<and> iv_live (ivs s) = [i]"
  using run_kept [of s] by (auto simp: kept_def owned_def split: option.splits)

end

end
