(* ===== verification/ArenaTimer.thy ===== *)
theory ArenaTimer
  imports Intervals
begin

text \<open>
  The countdown of the arena: the hook of frontend/src/shared-d/hooks/useArenaTimer.ts. An event, the
  render after it and the effects of the render are one step, as React runs them before the next event;
  the callback keeps its identity between renders. Seconds of the server are whole numbers, times are
  milliseconds, and \<open>initial\<close> is \<open>initialSeconds\<close>.
\<close>

section \<open>The hook\<close>

text \<open>\<open>tm_timeUps\<close> counts the calls of \<open>onTimeUp\<close>, \<open>tm_hidden\<close> is \<open>document.hidden\<close>.\<close>

record timer =
  tm_raw :: int
  tm_running :: bool
  tm_iv :: intervals
  tm_start :: "int option"
  tm_last :: "int option"
  tm_hidden :: bool
  tm_timeUps :: nat

definition first_timer :: "int \<Rightarrow> timer" where
  "first_timer initial =
     \<lparr>tm_raw = initial, tm_running = False, tm_iv = no_intervals, tm_start = None, tm_last = None,
      tm_hidden = False, tm_timeUps = 0\<rparr>"

definition on_iv :: "(intervals \<Rightarrow> intervals) \<Rightarrow> timer \<Rightarrow> timer" where
  "on_iv f t = t\<lparr>tm_iv := f (tm_iv t)\<rparr>"

text \<open>\<open>!ref.current\<close>\<close>

definition falsy_time :: "int option \<Rightarrow> bool" where
  "falsy_time r = (case r of None \<Rightarrow> True | Some t \<Rightarrow> t = 0)"

definition updateTimer :: "int \<Rightarrow> int \<Rightarrow> timer \<Rightarrow> timer" where
  "updateTimer initial now t =
     (if falsy_time (tm_start t) \<or> falsy_time (tm_last t) then t
      else let newSeconds = max 0 (initial - (now - the (tm_start t)) div 1000) in
        t\<lparr>tm_raw := newSeconds, tm_last := Some now,
          tm_timeUps := (if newSeconds = 0 then tm_timeUps t + 1 else tm_timeUps t)\<rparr>)"

text \<open>
  The effects of a render in which \<open>isRunning\<close> or \<open>rawSeconds\<close> changed, after the cleanup of the
  last ones. The second effect stops the countdown at zero; the render after that clears once more.
\<close>

definition run_effects :: "timer \<Rightarrow> timer" where
  "run_effects t =
     (let t1 = on_iv clear_interval t;
          t2 = (if tm_running t1 \<and> tm_raw t1 > 0 then on_iv set_interval t1 else on_iv clear_interval t1)
      in if tm_raw t2 = 0 \<and> tm_running t2 then on_iv clear_interval (t2\<lparr>tm_running := False\<rparr>) else t2)"

definition commit :: "timer \<Rightarrow> timer \<Rightarrow> timer" where
  "commit old new =
     (if tm_running new = tm_running old \<and> tm_raw new = tm_raw old then new else run_effects new)"

section \<open>Its operations\<close>

definition start_refs :: "int \<Rightarrow> int \<Rightarrow> int \<Rightarrow> timer \<Rightarrow> timer" where
  "start_refs initial seconds now t =
     t\<lparr>tm_start := Some (now - (initial - seconds) * 1000), tm_last := Some now\<rparr>"

definition start_timer :: "int \<Rightarrow> int \<Rightarrow> timer \<Rightarrow> timer" where
  "start_timer initial now t =
     (if tm_running t then t
      else commit t ((start_refs initial (tm_raw t) now t)\<lparr>tm_running := True\<rparr>))"

definition pause_timer :: "timer \<Rightarrow> timer" where
  "pause_timer t =
     (if \<not> tm_running t then t else commit t (on_iv clear_interval (t\<lparr>tm_running := False\<rparr>)))"

definition resume_timer :: "int \<Rightarrow> int \<Rightarrow> timer \<Rightarrow> timer" where
  "resume_timer initial now t =
     (if tm_running t then t
      else commit t ((start_refs initial (tm_raw t) now t)\<lparr>tm_running := True\<rparr>))"

definition reset_timer :: "int \<Rightarrow> timer \<Rightarrow> timer" where
  "reset_timer initial t =
     commit t (on_iv clear_interval
       (t\<lparr>tm_running := False, tm_raw := initial, tm_start := None, tm_last := None\<rparr>))"

definition sync_timer :: "int \<Rightarrow> int \<Rightarrow> int \<Rightarrow> timer \<Rightarrow> timer" where
  "sync_timer initial serverSeconds now t =
     (if serverSeconds < 0 \<or> serverSeconds > initial then t
      else commit t
        (let t1 = t\<lparr>tm_raw := serverSeconds\<rparr>
         in if tm_running t then start_refs initial serverSeconds now t1 else t1))"

definition timer_tick :: "int \<Rightarrow> int \<Rightarrow> timer \<Rightarrow> timer" where
  "timer_tick initial now t = commit t (updateTimer initial now t)"

text \<open>The two branches of \<open>handleVisibilityChange\<close>; showing the page does not clear the ref first.\<close>

definition page_hidden :: "timer \<Rightarrow> timer" where
  "page_hidden t = on_iv clear_interval (t\<lparr>tm_hidden := True\<rparr>)"

definition page_visible :: "int \<Rightarrow> int \<Rightarrow> timer \<Rightarrow> timer" where
  "page_visible initial now t =
     (if tm_running t \<and> tm_raw t > 0
      then commit t (on_iv set_interval (updateTimer initial now (t\<lparr>tm_hidden := False\<rparr>)))
      else t\<lparr>tm_hidden := False\<rparr>)"

section \<open>What it displays\<close>

definition pad2 :: "string \<Rightarrow> string" where
  "pad2 s = replicate (2 - length s) (CHR ''0'') @ s"

definition formattedTime :: "timer \<Rightarrow> string" where
  "formattedTime t = pad2 (int_digits (tm_raw t div 60)) @ '':'' @ pad2 (int_digits (tm_raw t mod 60))"

text \<open>\<open>None\<close> is \<open>NaN\<close>: the countdown from 0 seconds has no progress.\<close>

definition timer_progress :: "int \<Rightarrow> timer \<Rightarrow> rat option" where
  "timer_progress initial t =
     (if initial = 0 then None
      else Some (max 0 (min 100 (of_int (initial - tm_raw t) / of_int initial * 100))))"

definition isTensionMode :: "timer \<Rightarrow> bool" where
  "isTensionMode t \<longleftrightarrow> tm_raw t < 30"

section \<open>Steps\<close>

datatype timer_event = Start | Pause | Resume | Reset | Sync int | Tick | Hide | Show

fun timer_handle :: "int \<Rightarrow> int \<Rightarrow> timer_event \<Rightarrow> timer \<Rightarrow> timer" where
  "timer_handle initial now Start t = start_timer initial now t"
| "timer_handle initial now Pause t = pause_timer t"
| "timer_handle initial now Resume t = resume_timer initial now t"
| "timer_handle initial now Reset t = reset_timer initial t"
| "timer_handle initial now (Sync s) t = sync_timer initial s now t"
| "timer_handle initial now Tick t = timer_tick initial now t"
| "timer_handle initial now Hide t = page_hidden t"
| "timer_handle initial now Show t = page_visible initial now t"

fun possible :: "timer_event \<Rightarrow> timer \<Rightarrow> bool" where
  "possible Tick t = (iv_live (tm_iv t) \<noteq> [])"
| "possible Hide t = (\<not> tm_hidden t)"
| "possible Show t = tm_hidden t"
| "possible _ t = True"

fun restarts :: "timer_event \<Rightarrow> bool" where
  "restarts Start = True"
| "restarts Resume = True"
| "restarts (Sync _) = True"
| "restarts _ = False"

text \<open>
  \<open>timer_step\<close>: whatever happens to the hook. \<open>visible_step\<close>: the timer is not started, resumed or
  synchronised while the page is hidden.
\<close>

inductive timer_step :: "int \<Rightarrow> timer \<Rightarrow> timer \<Rightarrow> bool" for initial :: int where
  step: "possible ev t \<Longrightarrow> timer_step initial t (timer_handle initial now ev t)"

inductive visible_step :: "int \<Rightarrow> timer \<Rightarrow> timer \<Rightarrow> bool" for initial :: int where
  visible: "possible ev t \<Longrightarrow> \<not> (tm_hidden t \<and> restarts ev) \<Longrightarrow> visible_step initial t (timer_handle initial now ev t)"

inductive_cases visible_stepE: "visible_step initial t t'"

definition timer_active :: "timer \<Rightarrow> bool" where
  "timer_active t \<longleftrightarrow> tm_running t \<and> tm_raw t > 0 \<and> \<not> tm_hidden t"

section \<open>Lemmas\<close>

lemma on_iv_sel [simp]:
  "tm_raw (on_iv f t) = tm_raw t" "tm_running (on_iv f t) = tm_running t" "tm_iv (on_iv f t) = f (tm_iv t)"
  "tm_start (on_iv f t) = tm_start t" "tm_last (on_iv f t) = tm_last t" "tm_hidden (on_iv f t) = tm_hidden t"
  "tm_timeUps (on_iv f t) = tm_timeUps t"
  by (simp_all add: on_iv_def)

lemma start_refs_sel [simp]:
  "tm_raw (start_refs initial s now t) = tm_raw t" "tm_running (start_refs initial s now t) = tm_running t"
  "tm_iv (start_refs initial s now t) = tm_iv t" "tm_hidden (start_refs initial s now t) = tm_hidden t"
  "tm_timeUps (start_refs initial s now t) = tm_timeUps t"
  "tm_start (start_refs initial s now t) = Some (now - (initial - s) * 1000)"
  "tm_last (start_refs initial s now t) = Some now"
  by (simp_all add: start_refs_def)

lemma updateTimer_sel [simp]:
  "tm_running (updateTimer initial now t) = tm_running t" "tm_iv (updateTimer initial now t) = tm_iv t"
  "tm_start (updateTimer initial now t) = tm_start t" "tm_hidden (updateTimer initial now t) = tm_hidden t"
  by (simp_all add: updateTimer_def Let_def)

lemma effects_sel [simp]:
  "tm_raw (run_effects t) = tm_raw t" "tm_start (run_effects t) = tm_start t" "tm_last (run_effects t) = tm_last t"
  "tm_hidden (run_effects t) = tm_hidden t" "tm_timeUps (run_effects t) = tm_timeUps t"
  "tm_running (run_effects t) = (tm_running t \<and> tm_raw t \<noteq> 0)"
  by (auto simp: run_effects_def Let_def)

lemma effects_iv:
  "tm_iv (run_effects t) =
     (if tm_running t \<and> tm_raw t > 0 then set_interval (clear_interval (tm_iv t)) else clear_interval (tm_iv t))"
  by (simp add: run_effects_def Let_def)

lemma commit_sel [simp]:
  "tm_raw (commit t t') = tm_raw t'" "tm_start (commit t t') = tm_start t'" "tm_last (commit t t') = tm_last t'"
  "tm_hidden (commit t t') = tm_hidden t'" "tm_timeUps (commit t t') = tm_timeUps t'"
  by (simp_all add: commit_def)

lemma effects_kept: "owned (tm_iv t) \<Longrightarrow> \<not> tm_hidden t \<Longrightarrow> kept (timer_active (run_effects t)) (tm_iv (run_effects t))"
  by (simp add: effects_iv timer_active_def)

lemma effects_kept_stopped:
  "owned (tm_iv t) \<Longrightarrow> \<not> tm_running t \<Longrightarrow> kept (timer_active (run_effects t)) (tm_iv (run_effects t))"
  by (simp add: effects_iv)

lemma commit_kept:
  assumes "owned (tm_iv t')" and "\<not> tm_hidden t' \<or> \<not> tm_running t'"
    and "tm_running t' = tm_running t \<Longrightarrow> tm_raw t' = tm_raw t \<Longrightarrow> kept (timer_active t') (tm_iv t')"
  shows "kept (timer_active (commit t t')) (tm_iv (commit t t'))"
  using assms effects_kept effects_kept_stopped by (auto simp: commit_def)

lemma commit_kept_same:
  assumes "kept (timer_active t) (tm_iv t)" and "tm_iv t' = tm_iv t" and "tm_hidden t' = tm_hidden t" and "\<not> tm_hidden t"
  shows "kept (timer_active (commit t t')) (tm_iv (commit t t'))"
  using assms kept_owned [OF assms(1)] by (intro commit_kept) (auto simp: timer_active_def)

lemma timer_kept:
  assumes "visible_step initial t t'" and "kept (timer_active t) (tm_iv t)"
  shows "kept (timer_active t') (tm_iv t')"
proof -
  note own = kept_owned [OF assms(2)]
  from assms(1) obtain now ev where t': "t' = timer_handle initial now ev t"
    and ev: "possible ev t" "\<not> (tm_hidden t \<and> restarts ev)" by (blast elim: visible_stepE)
  have ref: "iv_ref (tm_iv t) \<noteq> None \<Longrightarrow> timer_active t" using assms(2) by (simp add: kept_def)
  show ?thesis
  proof (cases ev)
    case Start
    then show ?thesis using assms(2) own ev by (auto simp: t' start_timer_def intro!: commit_kept)
  next
    case Pause
    then show ?thesis using assms(2) own by (auto simp: t' pause_timer_def intro!: commit_kept)
  next
    case Resume
    then show ?thesis using assms(2) own ev by (auto simp: t' resume_timer_def intro!: commit_kept)
  next
    case Reset
    then show ?thesis using own by (auto simp: t' reset_timer_def intro!: commit_kept)
  next
    case (Sync s)
    then show ?thesis using assms(2) ev
      by (auto simp: t' sync_timer_def Let_def intro!: commit_kept_same)
  next
    case Tick
    have act: "timer_active t" using ev(1) own ref by (simp add: Tick owned_live)
    then have "\<not> tm_hidden t" by (simp add: timer_active_def)
    then show ?thesis using assms(2) by (simp add: t' Tick timer_tick_def commit_kept_same)
  next
    case Hide
    then show ?thesis using own by (simp add: t' page_hidden_def)
  next
    case Show
    then have hidden: "tm_hidden t" and "\<not> timer_active t" using ev(1) by (simp_all add: timer_active_def)
    then have none: "iv_live (tm_iv t) = []" "iv_ref (tm_iv t) = None" using assms(2) by (simp_all add: kept_inactive)
    let ?u = "on_iv set_interval (updateTimer initial now (t\<lparr>tm_hidden := False\<rparr>))"
    have "kept (timer_active (commit t ?u)) (tm_iv (commit t ?u))" if "tm_running t" "tm_raw t > 0"
      by (rule commit_kept) (use none that in \<open>simp_all add: kept_def timer_active_def\<close>)
    then show ?thesis using none own by (simp add: t' Show page_visible_def kept_def)
  qed
qed

interpretation arena_timer: interval_hook tm_iv timer_active "first_timer initial" "visible_step initial"
  by unfold_locales (auto simp: first_timer_def intro: timer_kept)

section \<open>Properties of the countdown\<close>

text \<open>
  What the countdown promises: one interval and one call of the callback while the page is visible when
  it is controlled, the interval that leaks when it is synchronised behind a hidden page, and pauses.
\<close>

text \<open>
  C13: When the timer is started, resumed and synchronised only while its page is visible, it has at most
  one interval, which runs only while the countdown does, and a step calls the callback only when it
  takes the display from above zero to zero, which also stops the countdown.
\<close>

theorem timer_fires_at_zero:
  assumes "(visible_step initial)\<^sup>*\<^sup>* (first_timer initial) t" and "visible_step initial t t'"
  shows "length (iv_live (tm_iv t)) \<le> 1 \<and> (iv_live (tm_iv t) \<noteq> [] \<longrightarrow> tm_running t \<and> tm_raw t > 0)
    \<and> (tm_timeUps t' \<noteq> tm_timeUps t \<longrightarrow> tm_timeUps t' = tm_timeUps t + 1 \<and> tm_raw t > 0 \<and> tm_raw t' = 0
        \<and> \<not> tm_running t' \<and> iv_live (tm_iv t') = [])"
proof -
  have one: "length (iv_live (tm_iv t)) \<le> 1" and act: "iv_live (tm_iv t) \<noteq> [] \<Longrightarrow> timer_active t"
    using arena_timer.run_single [OF assms(1)] by auto
  have kept': "kept (timer_active t') (tm_iv t')"
    using arena_timer.run_kept [of initial t'] assms by (meson rtranclp.rtrancl_into_rtrancl)
  from assms(2) obtain now ev where t': "t' = timer_handle initial now ev t"
    and ev: "possible ev t" "\<not> (tm_hidden t \<and> restarts ev)" by (blast elim: visible_stepE)
  have fires: "tm_timeUps t' = tm_timeUps t + 1 \<and> tm_raw t > 0 \<and> tm_raw t' = 0 \<and> \<not> tm_running t'"
    if "tm_timeUps t' \<noteq> tm_timeUps t"
    using that ev act
    by (cases ev) (auto simp: t' start_timer_def pause_timer_def resume_timer_def reset_timer_def sync_timer_def
        timer_tick_def page_hidden_def page_visible_def updateTimer_def commit_def timer_active_def Let_def
        split: if_splits)
  moreover have "iv_live (tm_iv t') = []" if "\<not> tm_running t'"
    using kept' that by (simp add: timer_active_def kept_inactive)
  ultimately show ?thesis using one act by (auto simp: timer_active_def)
qed

definition demo_timer :: timer where
  "demo_timer = start_timer 1 5000 (first_timer 1)"

lemma demo_run: "(visible_step 1)\<^sup>*\<^sup>* (first_timer 1) demo_timer"
proof -
  have "visible_step 1 (first_timer 1) (timer_handle 1 5000 Start (first_timer 1))"
    by (rule visible_step.visible) (simp_all add: first_timer_def)
  then show ?thesis by (simp add: demo_timer_def)
qed

lemmas timer_simps = start_timer_def pause_timer_def resume_timer_def sync_timer_def timer_tick_def page_hidden_def
  page_visible_def updateTimer_def commit_def falsy_time_def Let_def

lemma demo_sel:
  "tm_running demo_timer" "tm_raw demo_timer = 1" "tm_start demo_timer = Some 5000" "tm_last demo_timer = Some 5000"
  "\<not> tm_hidden demo_timer" "tm_timeUps demo_timer = 0" "iv_live (tm_iv demo_timer) = [0]"
  "iv_ref (tm_iv demo_timer) = Some 0"
  by (simp_all add: demo_timer_def first_timer_def timer_simps effects_iv no_intervals_def clear_interval_def)

theorem timer_fires_at_zero_witness:
  "tm_timeUps (timer_tick 1 6000 demo_timer) = 1 \<and> iv_live (tm_iv (timer_tick 1 6000 demo_timer)) = []"
proof -
  have "visible_step 1 demo_timer (timer_handle 1 6000 Tick demo_timer)"
    by (rule visible_step.visible) (simp_all add: demo_sel)
  then have step: "visible_step 1 demo_timer (timer_tick 1 6000 demo_timer)" by simp
  have "tm_timeUps (timer_tick 1 6000 demo_timer) = 1" by (simp add: timer_simps demo_sel)
  with timer_fires_at_zero [OF demo_run step] show ?thesis by (simp add: demo_sel)
qed

section \<open>The leaked interval\<close>

lemma elapsed_seconds:
  "(later - (now - (initial - s) * 1000)) div 1000 = (later - now) div 1000 + (initial - s)" for s :: int
proof -
  have "later - (now - (initial - s) * 1000) = (later - now) + (initial - s) * 1000" by simp
  then show ?thesis by (simp only: div_mult_self1)
qed

lemma ticks_after_end:
  assumes "tm_start t = Some st" and "0 < st" and "\<not> falsy_time (tm_last t)" and "iv_ref (tm_iv t) = None"
    and "\<not> tm_running t" and "\<forall>u\<in>set ticks. st + initial * 1000 \<le> u" and "0 \<le> initial"
  shows "tm_timeUps (fold (timer_tick initial) ticks t) = tm_timeUps t + length ticks
    \<and> tm_iv (fold (timer_tick initial) ticks t) = tm_iv t"
  using assms(1-6)
proof (induction ticks arbitrary: t)
  case (Cons u ticks)
  let ?t = "timer_tick initial u t"
  have "(st + initial * 1000 - st) div 1000 \<le> (u - st) div 1000" using Cons.prems(6) by (intro zdiv_mono1) auto
  then have zero: "max 0 (initial - (u - st) div 1000) = 0" by simp
  have u: "0 < u" using Cons.prems(2,6) assms(7) by auto
  have "tm_start ?t = Some st" "\<not> tm_running ?t" "tm_timeUps ?t = tm_timeUps t + 1" "tm_last ?t = Some u"
    using Cons.prems zero by (simp_all add: timer_tick_def updateTimer_def commit_def falsy_time_def Let_def)
  moreover have "tm_iv ?t = tm_iv t"
    using Cons.prems(4,5) by (simp add: timer_tick_def commit_def effects_iv clear_none)
  ultimately show ?case using Cons.IH [of ?t] Cons.prems u by (simp add: falsy_time_def)
qed simp

text \<open>
  A timer that is synchronised while its page is hidden leaks an interval when the page is shown
  again: pausing it stops the other one, but the leaked one counts down all the same, and after the end of
  the time each of its ticks, every tenth of a second, calls the callback again.
\<close>

theorem leaked_interval_fires_forever:
  assumes "(visible_step initial)\<^sup>*\<^sup>* (first_timer initial) t" and "tm_running t" and "\<not> tm_hidden t"
    and "0 < s" and "s \<le> initial" and "s \<noteq> tm_raw t"
    and "initial * 1000 < now" and "now \<le> later" and "later < now + s * 1000"
    and "t' = pause_timer (page_visible initial later (sync_timer initial s now (page_hidden t)))"
    and "\<forall>u\<in>set ticks. now + s * 1000 \<le> u"
  shows "\<not> tm_running t' \<and> (\<exists>i. iv_live (tm_iv t') = [i] \<and> iv_live (tm_iv (fold (timer_tick initial) ticks t')) = [i])
    \<and> tm_timeUps (fold (timer_tick initial) ticks t') = tm_timeUps t + length ticks"
proof -
  let ?n = "iv_fresh (tm_iv t)" and ?st = "now - (initial - s) * 1000"
  have own: "owned (tm_iv t)" using arena_timer.run_kept [OF assms(1)] by (rule kept_owned)
  define t1 where "t1 = sync_timer initial s now (page_hidden t)"
  have t1: "tm_iv t1 = set_interval (clear_interval (tm_iv t))" "tm_running t1" "tm_raw t1 = s"
    "tm_start t1 = Some ?st" "tm_last t1 = Some now" "tm_timeUps t1 = tm_timeUps t"
    using assms(2-6) by (simp_all add: t1_def sync_timer_def page_hidden_def commit_def effects_iv Let_def)
  have st: "0 < ?st" using assms(4,7) by (simp add: algebra_simps)
  have "(later - now) div 1000 < s"
  proof -
    have "(later - now) div 1000 * 1000 \<le> later - now" by (simp add: minus_mod_eq_div_mult [symmetric])
    then show ?thesis using assms(9) by linarith
  qed
  then have pos: "0 < initial - (later - ?st) div 1000" unfolding elapsed_seconds by simp
  have nz: "now \<noteq> 0" using assms(4,5,7) by linarith
  define t2 where "t2 = page_visible initial later t1"
  have live2: "\<exists>m. iv_ref (tm_iv t2) = Some m \<and> m \<noteq> ?n \<and> iv_live (tm_iv t2) = [m, ?n]"
    and t2: "tm_running t2" "tm_start t2 = Some ?st" "tm_timeUps t2 = tm_timeUps t" "tm_last t2 = Some later"
    using t1 assms(4) st nz pos own
    by (auto simp: t2_def page_visible_def updateTimer_def falsy_time_def commit_def effects_iv Let_def
        clear_interval_def [of "set_interval c" for c])
  have t': "t' = pause_timer t2" using assms(10) by (simp add: t2_def t1_def)
  have iv: "tm_iv t' = clear_interval (tm_iv t2)" "\<not> tm_running t'" "tm_start t' = Some ?st"
    "tm_timeUps t' = tm_timeUps t" "tm_last t' = Some later"
    using t2 by (simp_all add: t' pause_timer_def commit_def effects_iv)
  have live: "iv_live (tm_iv t') = [?n]" using live2 by (auto simp: iv(1) clear_interval_def)
  have later: "0 < later" using assms(4,5,7,8) by linarith
  have ends: "\<forall>u\<in>set ticks. ?st + initial * 1000 \<le> u" using assms(11) by (simp add: algebra_simps)
  have "tm_timeUps (fold (timer_tick initial) ticks t') = tm_timeUps t' + length ticks
      \<and> tm_iv (fold (timer_tick initial) ticks t') = tm_iv t'"
    by (rule ticks_after_end [OF iv(3) st]) (use iv ends later assms(4,5) in \<open>simp_all add: falsy_time_def\<close>)
  then show ?thesis using iv live by simp
qed

theorem leaked_interval_fires_forever_witness:
  "tm_timeUps (fold (timer_tick 2) [9000, 9100, 9200]
     (pause_timer (page_visible 2 5600 (sync_timer 2 1 5500 (page_hidden (start_timer 2 5000 (first_timer 2))))))) = 3"
proof -
  let ?t = "start_timer 2 5000 (first_timer 2)"
  have "visible_step 2 (first_timer 2) (timer_handle 2 5000 Start (first_timer 2))"
    by (rule visible_step.visible) (simp_all add: first_timer_def)
  then have run: "(visible_step 2)\<^sup>*\<^sup>* (first_timer 2) ?t" by simp
  have "tm_running ?t" "\<not> tm_hidden ?t" "tm_raw ?t = 2" "tm_timeUps ?t = 0"
    by (simp_all add: start_timer_def first_timer_def commit_def)
  with leaked_interval_fires_forever [OF run, of 1 5500 5600 _ "[9000, 9100, 9200]"] show ?thesis by simp
qed

section \<open>Time\<close>

lemma short_cycle:
  assumes "\<not> tm_running t" and "0 < tm_raw t" and "tm_raw t \<le> initial"
    and "initial * 1000 < now" and "0 \<le> d" and "d < 1000"
    and "t' = pause_timer (timer_tick initial (now + d) (resume_timer initial now t))"
  shows "\<not> tm_running t' \<and> tm_raw t' = tm_raw t"
proof -
  let ?r = "resume_timer initial now t" and ?st = "now - (initial - tm_raw t) * 1000"
  have r: "tm_running ?r" "tm_raw ?r = tm_raw t" "tm_start ?r = Some ?st" "tm_last ?r = Some now"
    using assms(1,2) by (simp_all add: resume_timer_def commit_def)
  have "0 < ?st" using assms(2,4) by (simp add: algebra_simps)
  moreover have "now \<noteq> 0" using assms(2,3,4) by linarith
  moreover have "(now + d - ?st) div 1000 = initial - tm_raw t" using assms(5,6) unfolding elapsed_seconds by simp
  ultimately have "tm_raw (timer_tick initial (now + d) ?r) = tm_raw t"
    using r assms(2) by (simp add: timer_tick_def updateTimer_def falsy_time_def Let_def)
  then show ?thesis using r by (simp add: assms(7) pause_timer_def commit_def timer_tick_def)
qed

lemma short_cycles:
  assumes "\<not> tm_running t" and "0 < tm_raw t" and "tm_raw t \<le> initial"
    and "\<forall>(now, d)\<in>set cycles. initial * 1000 < now \<and> 0 \<le> d \<and> d < 1000"
  shows "tm_raw (fold (\<lambda>(now, d) t. pause_timer (timer_tick initial (now + d) (resume_timer initial now t))) cycles t) = tm_raw t"
  using assms
proof (induction cycles arbitrary: t)
  case (Cons c cycles)
  obtain now d where c: "c = (now, d)" by fastforce
  from short_cycle [OF Cons.prems(1-3), of now d] Cons.prems Cons.IH show ?case by (simp add: c)
qed simp

text \<open>
  The time behind a hidden page counts: when the page is shown, the countdown displays what a tick at
  that time would have displayed. Pauses do not count, and a pause also drops the second that has begun:
  resuming and pausing again within a second leaves the display as it is, however often it is done.
\<close>

theorem hidden_time_counts:
  assumes "tm_running t" and "0 < tm_raw t"
  shows "tm_raw (page_visible initial now (page_hidden t)) = tm_raw (timer_tick initial now t)
    \<and> (\<not> tm_running t2 \<and> 0 < tm_raw t2 \<and> tm_raw t2 \<le> initial
        \<and> (\<forall>(w, d)\<in>set cycles. initial * 1000 < w \<and> 0 \<le> d \<and> d < 1000) \<longrightarrow>
       tm_raw (fold (\<lambda>(w, d) u. pause_timer (timer_tick initial (w + d) (resume_timer initial w u))) cycles t2) = tm_raw t2)"
  using assms short_cycles [of t2 initial cycles]
  by (simp add: page_visible_def page_hidden_def timer_tick_def updateTimer_def on_iv_def Let_def)

theorem hidden_time_counts_witness:
  "tm_raw (page_visible 1 5500 (page_hidden demo_timer)) = 1
    \<and> tm_raw (fold (\<lambda>(w, d) u. pause_timer (timer_tick 1 (w + d) (resume_timer 1 w u)))
         [(5000, 999), (6000, 999), (7000, 999)] (pause_timer demo_timer)) = 1"
proof -
  have "\<not> tm_running (pause_timer demo_timer)" "tm_raw (pause_timer demo_timer) = 1"
    by (simp_all add: demo_sel pause_timer_def commit_def)
  then show ?thesis
    using hidden_time_counts [of demo_timer 1 5500 "pause_timer demo_timer" "[(5000, 999), (6000, 999), (7000, 999)]"]
    by (simp add: demo_sel timer_tick_def updateTimer_def falsy_time_def Let_def)
qed

lemma progress_bounds: "timer_progress initial t = Some p \<Longrightarrow> 0 \<le> p \<and> p \<le> 100"
  by (auto simp: timer_progress_def split: if_splits)

end
