(* ===== verification/Polling.thy ===== *)
theory Polling
  imports Intervals
begin

text \<open>
  The polling hook of frontend/src/shared-d/hooks/usePolling.ts.
  The events of the browser, a render and its effects are one step. The fetcher keeps its
  identity; each of its calls is known by the signal it was given, and may listen to it or not.
\<close>

section \<open>usePolling\<close>

datatype polling_status = PollIdle | PollLoading | PollSuccess | PollError

text \<open>\<open>NullSignal\<close> is the \<open>TypeError\<close> of reading \<open>signal\<close> of \<open>null\<close>.\<close>

datatype poll_error = PollFailed string | NullSignal

datatype 'a fetch_outcome = Fetched 'a | FetchThrew string | FetchThrewOther | FetchAborted

record 'a polling =
  po_data :: "'a option"
  po_error :: "poll_error option"
  po_status :: polling_status
  po_iv :: intervals
  po_controller :: "nat option"
  po_aborted :: "nat list"
  po_isFetching :: bool
  po_visible :: bool
  po_enabled :: bool
  po_inflight :: "nat list"
  po_fresh :: nat

text \<open>\<open>nonfalsy\<close>: the initial data counts as true.\<close>

definition first_polling :: "'a option \<Rightarrow> bool \<Rightarrow> bool \<Rightarrow> bool \<Rightarrow> 'a polling" where
  "first_polling initialData nonfalsy enabled visible =
     \<lparr>po_data = initialData, po_error = None,
      po_status = (if initialData \<noteq> None \<and> nonfalsy then PollSuccess else PollIdle),
      po_iv = no_intervals, po_controller = None, po_aborted = [], po_isFetching = False, po_visible = visible,
      po_enabled = enabled, po_inflight = [], po_fresh = 0\<rparr>"

text \<open>\<open>fetchData\<close> up to its \<open>await\<close>, and after it.\<close>

definition fetchData :: "'a polling \<Rightarrow> 'a polling" where
  "fetchData p =
     (if po_isFetching p then p
      else p\<lparr>po_aborted := (case po_controller p of None \<Rightarrow> po_aborted p | Some c \<Rightarrow> c # po_aborted p),
             po_controller := Some (po_fresh p), po_isFetching := True, po_status := PollLoading,
             po_inflight := po_fresh p # po_inflight p, po_fresh := po_fresh p + 1\<rparr>)"

definition poll_threw :: "poll_error \<Rightarrow> 'a polling \<Rightarrow> 'a polling" where
  "poll_threw err p =
     (if (case po_controller p of None \<Rightarrow> True | Some c \<Rightarrow> c \<notin> set (po_aborted p))
      then p\<lparr>po_error := Some err, po_status := PollError\<rparr> else p)"

definition after_fetch :: "'a fetch_outcome \<Rightarrow> 'a polling \<Rightarrow> 'a polling" where
  "after_fetch out p =
     (case out of
        Fetched v \<Rightarrow>
          (case po_controller p of
             None \<Rightarrow> poll_threw NullSignal p
           | Some c \<Rightarrow>
               if c \<notin> set (po_aborted p)
               then p\<lparr>po_data := Some v, po_error := None, po_status := PollSuccess\<rparr> else p)
      | FetchThrew m \<Rightarrow> poll_threw (PollFailed m) p
      | FetchThrewOther \<Rightarrow> poll_threw (PollFailed ''Unknown error'') p
      | FetchAborted \<Rightarrow> p)"

definition fetch_settles :: "nat \<Rightarrow> 'a fetch_outcome \<Rightarrow> 'a polling \<Rightarrow> 'a polling" where
  "fetch_settles c out p =
     (after_fetch out (p\<lparr>po_inflight := remove1 c (po_inflight p)\<rparr>))\<lparr>po_isFetching := False\<rparr>"

text \<open>The cleanup of the first effect, the first effect and the second.\<close>

definition polling_cleanup :: "'a polling \<Rightarrow> 'a polling" where
  "polling_cleanup p =
     p\<lparr>po_iv := clear_interval (po_iv p),
       po_aborted := (case po_controller p of None \<Rightarrow> po_aborted p | Some c \<Rightarrow> c # po_aborted p),
       po_controller := None\<rparr>"

definition start_polling :: "'a polling \<Rightarrow> 'a polling" where
  "start_polling p =
     (if \<not> po_enabled p then p
      else let p1 = fetchData p
           in if po_visible p then p1\<lparr>po_iv := set_interval (po_iv p1)\<rparr> else p1)"

definition watch_visibility :: "'a polling \<Rightarrow> 'a polling" where
  "watch_visibility p =
     (if \<not> po_enabled p then p
      else if po_visible p
      then (if iv_ref (po_iv p) = None then p\<lparr>po_iv := set_interval (po_iv p)\<rparr> else p)
      else p\<lparr>po_iv := clear_interval (po_iv p)\<rparr>)"

definition mount_polling :: "'a polling \<Rightarrow> 'a polling" where
  "mount_polling p = watch_visibility (start_polling p)"

text \<open>A render with another \<open>isVisible\<close> or \<open>enabled\<close>: only an enabled effect left a cleanup.\<close>

definition rerender :: "bool \<Rightarrow> bool \<Rightarrow> 'a polling \<Rightarrow> 'a polling" where
  "rerender enabled visible p =
     (if enabled = po_enabled p \<and> visible = po_visible p then p
      else let p1 = (if po_enabled p then polling_cleanup p else p)
           in mount_polling (p1\<lparr>po_enabled := enabled, po_visible := visible\<rparr>))"

inductive polling_step :: "'a polling \<Rightarrow> 'a polling \<Rightarrow> bool" where
  poll_tick: "iv_live (po_iv p) \<noteq> [] \<Longrightarrow> polling_step p (fetchData p)"
| poll_refresh: "polling_step p (fetchData p)"
| poll_settles: "c \<in> set (po_inflight p) \<Longrightarrow> polling_step p (fetch_settles c out p)"
| poll_rerender: "polling_step p (rerender enabled visible p)"

definition poll_active :: "'a polling \<Rightarrow> bool" where
  "poll_active p \<longleftrightarrow> po_enabled p \<and> po_visible p"

text \<open>A fetch is under way exactly while \<open>isFetching\<close>, and its controller is the current one or aborted.\<close>

definition fetch_inv :: "'a polling \<Rightarrow> bool" where
  "fetch_inv p \<longleftrightarrow>
     length (po_inflight p) = (if po_isFetching p then 1 else 0)
     \<and> (\<forall>c\<in>set (po_inflight p). po_controller p = None \<or> po_controller p = Some c)
     \<and> (\<forall>c. po_controller p = Some c \<longrightarrow> c \<notin> set (po_aborted p))
     \<and> (\<forall>c\<in>set (po_aborted p). c < po_fresh p) \<and> (\<forall>c. po_controller p = Some c \<longrightarrow> c < po_fresh p)"

section \<open>Lemmas\<close>

lemma fetchData_sel [simp]: "po_iv (fetchData p) = po_iv p" "po_enabled (fetchData p) = po_enabled p"
  "po_visible (fetchData p) = po_visible p" "po_isFetching (fetchData p)" "po_data (fetchData p) = po_data p"
  by (simp_all add: fetchData_def)

lemma after_fetch_sel [simp]: "po_iv (after_fetch out p) = po_iv p" "po_enabled (after_fetch out p) = po_enabled p"
  "po_visible (after_fetch out p) = po_visible p" "po_inflight (after_fetch out p) = po_inflight p"
  "po_controller (after_fetch out p) = po_controller p" "po_aborted (after_fetch out p) = po_aborted p"
  "po_fresh (after_fetch out p) = po_fresh p"
  by (simp_all add: after_fetch_def poll_threw_def split: fetch_outcome.split option.split)

lemma mount_kept:
  assumes "owned (po_iv p)" and "iv_live (po_iv p) = []"
  shows "kept (poll_active (mount_polling p)) (po_iv (mount_polling p))"
  using assms by (auto simp: mount_polling_def start_polling_def watch_visibility_def poll_active_def kept_def
      owned_live Let_def)

lemma polling_kept: "polling_step p p' \<Longrightarrow> kept (poll_active p) (po_iv p) \<Longrightarrow> kept (poll_active p') (po_iv p')"
proof (induction rule: polling_step.induct)
  case (poll_tick p)
  then show ?case by (simp add: poll_active_def)
next
  case (poll_refresh p)
  then show ?case by (simp add: poll_active_def)
next
  case (poll_settles c p out)
  then show ?case by (simp add: poll_active_def fetch_settles_def)
next
  case (poll_rerender p enabled visible)
  show ?case
  proof (cases "enabled = po_enabled p \<and> visible = po_visible p")
    case False
    note own = kept_owned [OF poll_rerender]
    let ?p = "(if po_enabled p then polling_cleanup p else p)\<lparr>po_enabled := enabled, po_visible := visible\<rparr>"
    have "owned (po_iv ?p)" using own by (simp add: polling_cleanup_def)
    moreover have "iv_live (po_iv ?p) = []"
      using own poll_rerender by (cases "po_enabled p") (simp_all add: polling_cleanup_def poll_active_def kept_inactive)
    ultimately have "kept (poll_active (mount_polling ?p)) (po_iv (mount_polling ?p))" by (rule mount_kept)
    moreover have "rerender enabled visible p = mount_polling ?p"
      using False by (simp only: rerender_def Let_def if_False)
    ultimately show ?thesis by simp
  qed (use poll_rerender in \<open>simp add: rerender_def\<close>)
qed

lemma fetch_inv_fetch: "fetch_inv p \<Longrightarrow> fetch_inv (fetchData p)"
  by (auto simp: fetch_inv_def fetchData_def less_Suc_eq split: option.splits)

lemma fetch_inv_settles: "fetch_inv p \<Longrightarrow> c \<in> set (po_inflight p) \<Longrightarrow> fetch_inv (fetch_settles c out p)"
proof -
  assume inv: "fetch_inv p" and c: "c \<in> set (po_inflight p)"
  then have "po_inflight p = [c]" by (cases "po_inflight p") (auto simp: fetch_inv_def split: if_splits)
  then show "fetch_inv (fetch_settles c out p)" using inv by (simp add: fetch_inv_def fetch_settles_def)
qed

lemma fetch_inv_iv: "fetch_inv (p\<lparr>po_iv := c\<rparr>) = fetch_inv p"
  by (simp add: fetch_inv_def)

lemma fetch_inv_mount: "fetch_inv p \<Longrightarrow> fetch_inv (mount_polling p)"
  by (simp add: mount_polling_def start_polling_def watch_visibility_def fetch_inv_iv fetch_inv_fetch Let_def)

lemma fetch_inv_cleanup: "fetch_inv p \<Longrightarrow> fetch_inv (polling_cleanup p)"
  by (auto simp: fetch_inv_def polling_cleanup_def split: option.splits)

lemma fetch_inv_options: "fetch_inv (p\<lparr>po_enabled := enabled, po_visible := visible\<rparr>) = fetch_inv p"
  by (simp add: fetch_inv_def)

lemma fetch_inv_rerender: "fetch_inv p \<Longrightarrow> fetch_inv (rerender enabled visible p)"
  by (simp add: rerender_def Let_def fetch_inv_mount fetch_inv_options fetch_inv_cleanup)

lemma fetch_inv_step: "polling_step p p' \<Longrightarrow> fetch_inv p \<Longrightarrow> fetch_inv p'"
  by (induction rule: polling_step.induct) (simp_all add: fetch_inv_fetch fetch_inv_settles fetch_inv_rerender)

definition polling_started :: "'a option \<Rightarrow> bool \<Rightarrow> bool \<Rightarrow> bool \<Rightarrow> 'a polling" where
  "polling_started initialData nonfalsy enabled visible =
     mount_polling (first_polling initialData nonfalsy enabled visible)"

interpretation polling_hook: interval_hook po_iv poll_active "polling_started d nf e v" polling_step
  by unfold_locales
    (auto simp: polling_started_def first_polling_def intro: polling_kept intro!: mount_kept)

lemma polling_fetch_inv: "polling_step\<^sup>*\<^sup>* (polling_started d nf e v) p \<Longrightarrow> fetch_inv p"
proof (induction rule: rtranclp_induct)
  case base
  have "fetch_inv (first_polling d nf e v)" by (simp add: first_polling_def fetch_inv_def)
  then show ?case by (simp add: polling_started_def fetch_inv_mount)
next
  case (step p q)
  then show ?case by (simp add: fetch_inv_step)
qed

section \<open>Properties of the polling\<close>

text \<open>
  What the polling hook promises and what becomes of a fetch when the page is hidden or shown.
\<close>

text \<open>
  However ticks, refreshes, settled fetches, changes of visibility and of the options interleave,
  the hook has at most one fetch under way and at most one interval, which runs only while polling is
  enabled and the page is visible.
\<close>

theorem one_fetch_at_a_time:
  assumes "polling_step\<^sup>*\<^sup>* (polling_started d nf e v) p"
  shows "length (po_inflight p) \<le> 1 \<and> length (iv_live (po_iv p)) \<le> 1
    \<and> (iv_live (po_iv p) \<noteq> [] \<longrightarrow> po_enabled p \<and> po_visible p)"
  using polling_fetch_inv [OF assms] polling_hook.run_single [OF assms]
  by (auto simp: fetch_inv_def poll_active_def split: if_splits)

definition demo_poll :: "nat polling" where
  "demo_poll = polling_started None False True True"

lemmas poll_eval = polling_started_def mount_polling_def start_polling_def watch_visibility_def first_polling_def fetchData_def
  rerender_def polling_cleanup_def fetch_settles_def after_fetch_def poll_threw_def Let_def

lemma demo_poll_sel: "po_inflight demo_poll = [0]" "iv_live (po_iv demo_poll) = [0]" "po_visible demo_poll" "po_enabled demo_poll"
  "po_data demo_poll = None"
  by (simp_all add: demo_poll_def poll_eval no_intervals_def)

theorem one_fetch_at_a_time_witness:
  "length (iv_live (po_iv (rerender True False demo_poll))) \<le> 1 \<and> iv_live (po_iv (rerender True False demo_poll)) = []"
proof -
  have "polling_step (polling_started None False True True) (rerender True False demo_poll)"
    unfolding demo_poll_def by (rule poll_rerender)
  then have "polling_step\<^sup>*\<^sup>* (polling_started None False True True) (rerender True False demo_poll)" by simp
  from one_fetch_at_a_time [OF this]
  have "iv_live (po_iv (rerender True False demo_poll)) \<noteq> [] \<longrightarrow> po_visible (rerender True False demo_poll)" by simp
  moreover have "\<not> po_visible (rerender True False demo_poll)" by (simp add: demo_poll_def poll_eval)
  ultimately show ?thesis by simp
qed

lemma mount_busy:
  "po_isFetching p \<Longrightarrow> po_controller (mount_polling p) = po_controller p \<and> po_data (mount_polling p) = po_data p
    \<and> po_isFetching (mount_polling p) \<and> po_inflight (mount_polling p) = po_inflight p
    \<and> po_status (mount_polling p) = po_status p \<and> po_aborted (mount_polling p) = po_aborted p"
  by (simp add: mount_polling_def start_polling_def watch_visibility_def fetchData_def Let_def)

text \<open>
  Hiding or showing the page while a fetch is under way loses its result. The effect withdraws the
  controller and does not fetch again, so when a fetcher that does not listen to its signal then returns its
  data, the hook reports the TypeError of reading the signal of null and keeps the old data; with one
  that listens, it keeps whatever status it had, and no fetch is under way.
\<close>

theorem visibility_loses_fetch:
  assumes "polling_step\<^sup>*\<^sup>* (polling_started d nf e v) p" and "c \<in> set (po_inflight p)" and "po_enabled p"
    and "q = rerender True (\<not> po_visible p) p"
  shows "po_inflight q = [c]
    \<and> po_data (fetch_settles c (Fetched x) q) = po_data p \<and> po_status (fetch_settles c (Fetched x) q) = PollError
    \<and> po_error (fetch_settles c (Fetched x) q) = Some NullSignal
    \<and> po_status (fetch_settles c FetchAborted q) = po_status p \<and> po_inflight (fetch_settles c FetchAborted q) = []"
proof -
  have inv: "fetch_inv p" by (rule polling_fetch_inv [OF assms(1)])
  have busy: "po_isFetching p" and one: "po_inflight p = [c]"
    using inv assms(2) by (cases "po_inflight p"; auto simp: fetch_inv_def split: if_splits)+
  let ?p = "(polling_cleanup p)\<lparr>po_enabled := True, po_visible := \<not> po_visible p\<rparr>"
  have q: "q = mount_polling ?p" using assms(3) by (simp add: assms(4) rerender_def Let_def)
  have "po_controller q = None \<and> po_data q = po_data p \<and> po_inflight q = [c] \<and> po_status q = po_status p"
    using mount_busy [of ?p] busy one by (simp add: q polling_cleanup_def)
  then show ?thesis by (simp add: fetch_settles_def after_fetch_def poll_threw_def)
qed

theorem visibility_loses_fetch_witness:
  "po_error (fetch_settles 0 (Fetched 7) (rerender True False demo_poll)) = Some NullSignal
    \<and> po_data (fetch_settles 0 (Fetched 7) (rerender True False demo_poll)) = None"
proof -
  have "polling_step\<^sup>*\<^sup>* (polling_started None False True True) demo_poll" by (simp add: demo_poll_def)
  from visibility_loses_fetch [OF this, of 0 "rerender True False demo_poll" 7] show ?thesis
    by (simp add: demo_poll_sel)
qed

end
