(* ===== verification/ArenaHealth.thy ===== *)
theory ArenaHealth
  imports StellarTx
begin

text \<open>
  The state of an arena as the frontend polls it: the hook of frontend/src/features/arena/useArenaState.ts
  over \<open>fetchArenaState\<close>. A poll is under way with the arena of its closure; timers carry the
  arena of theirs. The refs of the hook outlive a change of the arena.
\<close>

section \<open>The state shown\<close>

record arena_view =
  av_id :: string
  av_state :: string
  av_survivorsCount :: int
  av_maxCapacity :: int
  av_currentRound :: int
  av_isUserIn :: bool
  av_hasWon :: bool
  av_currentStake :: rat
  av_potentialPayout :: rat
  av_entryFee :: rat
  av_playerCount :: int

definition map_game_state :: "bool \<Rightarrow> int \<Rightarrow> string" where
  "map_game_state hasWon gameState =
     (if hasWon \<and> gameState = 4 then ''finished''
      else if gameState = 0 then ''open'' else if gameState = 1 then ''round_active''
      else if gameState = 2 then ''resolving'' else if gameState = 3 then ''cancelled''
      else if gameState = 4 then ''settled'' else ''open'')"

definition toArenaState :: "arena_state_response \<Rightarrow> arena_view" where
  "toArenaState data =
     \<lparr>av_id = sr_arenaId data, av_state = map_game_state (sr_hasWon data) (sr_gameState data),
      av_survivorsCount = sr_survivorsCount data, av_maxCapacity = sr_maxCapacity data,
      av_currentRound = sr_roundNumber data, av_isUserIn = sr_isUserIn data, av_hasWon = sr_hasWon data,
      av_currentStake = sr_currentStake data, av_potentialPayout = sr_potentialPayout data,
      av_entryFee = sr_entryFee data, av_playerCount = sr_playerCount data\<rparr>"

section \<open>The hook\<close>

datatype arena_health = Healthy | Degraded | Offline

record health_hook =
  hh_arena :: string
  hh_mounted :: bool
  hh_errors :: nat
  hh_timeoutId :: "nat option"
  hh_timers :: "(nat \<times> string \<times> int) list"
  hh_polls :: "(nat \<times> string) list"
  hh_state :: "arena_view option"
  hh_health :: arena_health
  hh_fresh :: nat

definition idle_hook :: health_hook where
  "idle_hook =
     \<lparr>hh_arena = [], hh_mounted = True, hh_errors = 0, hh_timeoutId = None, hh_timers = [], hh_polls = [],
      hh_state = None, hh_health = Healthy, hh_fresh = 0\<rparr>"

definition start_poll :: "string \<Rightarrow> health_hook \<Rightarrow> health_hook" where
  "start_poll a h = h\<lparr>hh_polls := (hh_fresh h, a) # hh_polls h, hh_fresh := hh_fresh h + 1\<rparr>"

definition schedule_poll :: "string \<Rightarrow> int \<Rightarrow> health_hook \<Rightarrow> health_hook" where
  "schedule_poll a d h =
     h\<lparr>hh_timeoutId := Some (hh_fresh h), hh_timers := (hh_fresh h, a, d) # hh_timers h, hh_fresh := hh_fresh h + 1\<rparr>"

definition error_backoff :: "nat \<Rightarrow> int" where
  "error_backoff errors = min (5000 * 2 ^ (errors - 1)) 60000"

text \<open>What \<open>poll\<close> does after its \<open>await\<close>; \<open>Inl\<close> is a failed fetch.\<close>

definition poll_returns :: "string \<Rightarrow> thrown + arena_state_response \<Rightarrow> health_hook \<Rightarrow> health_hook" where
  "poll_returns a r h =
     (if \<not> hh_mounted h then h
      else (case r of
        Inr data \<Rightarrow>
          let nextState = toArenaState data in
          schedule_poll a (if av_state nextState = ''finished'' then 30000 else 5000)
            (h\<lparr>hh_state := Some nextState, hh_errors := 0, hh_health := Healthy\<rparr>)
      | Inl e \<Rightarrow>
          let errors = hh_errors h + 1 in
          schedule_poll a (error_backoff errors)
            (h\<lparr>hh_errors := errors, hh_health := (if errors > 3 then Offline else Degraded)\<rparr>)))"

definition poll_settled :: "nat \<Rightarrow> string \<Rightarrow> thrown + arena_state_response \<Rightarrow> health_hook \<Rightarrow> health_hook" where
  "poll_settled i a r h = poll_returns a r (h\<lparr>hh_polls := filter (\<lambda>p. fst p \<noteq> i) (hh_polls h)\<rparr>)"

definition poll_timer :: "nat \<Rightarrow> string \<Rightarrow> health_hook \<Rightarrow> health_hook" where
  "poll_timer i a h = start_poll a (h\<lparr>hh_timers := filter (\<lambda>p. fst p \<noteq> i) (hh_timers h)\<rparr>)"

text \<open>The effect of an arena, and its cleanup, which depends on whether there was one.\<close>

definition arena_effect :: "string \<Rightarrow> health_hook \<Rightarrow> health_hook" where
  "arena_effect a h =
     (let h1 = h\<lparr>hh_arena := a, hh_mounted := True\<rparr> in
      if a = [] then h1\<lparr>hh_state := None, hh_health := Healthy\<rparr> else start_poll a h1)"

definition arena_cleanup :: "health_hook \<Rightarrow> health_hook" where
  "arena_cleanup h =
     (let h1 = h\<lparr>hh_mounted := False\<rparr> in
      if hh_arena h = [] then h1
      else (case hh_timeoutId h of None \<Rightarrow> h1
            | Some i \<Rightarrow> h1\<lparr>hh_timers := filter (\<lambda>p. fst p \<noteq> i) (hh_timers h), hh_timeoutId := None\<rparr>))"

definition change_arena :: "string \<Rightarrow> health_hook \<Rightarrow> health_hook" where
  "change_arena b h = arena_effect b (arena_cleanup h)"

text \<open>
  \<open>answer\<close> is what the chain may answer to \<open>fetchArenaState\<close>; \<open>quiet_step\<close> leaves out changes of the arena.
\<close>

inductive quiet_step :: "(string \<Rightarrow> thrown + arena_state_response \<Rightarrow> bool) \<Rightarrow> health_hook \<Rightarrow> health_hook \<Rightarrow> bool"
  for answer where
  quiet_poll: "(i, a) \<in> set (hh_polls h) \<Longrightarrow> answer a r \<Longrightarrow> quiet_step answer h (poll_settled i a r h)"
| quiet_timer: "(i, a, d) \<in> set (hh_timers h) \<Longrightarrow> quiet_step answer h (poll_timer i a h)"

inductive health_step :: "(string \<Rightarrow> thrown + arena_state_response \<Rightarrow> bool) \<Rightarrow> health_hook \<Rightarrow> health_hook \<Rightarrow> bool"
  for answer where
  health_quiet: "quiet_step answer h h' \<Longrightarrow> health_step answer h h'"
| health_change: "health_step answer h (change_arena b h)"
| health_unmount: "health_step answer h (arena_cleanup h)"

definition chains :: "health_hook \<Rightarrow> nat" where
  "chains h = length (hh_polls h) + length (hh_timers h)"

text \<open>Numbers are not used twice, and timers keep their bounds.\<close>

definition health_inv :: "health_hook \<Rightarrow> bool" where
  "health_inv h \<longleftrightarrow>
     distinct (map fst (hh_polls h)) \<and> distinct (map fst (hh_timers h))
     \<and> (\<forall>i\<in>fst ` set (hh_polls h) \<union> fst ` set (hh_timers h). i < hh_fresh h)
     \<and> (\<forall>(i, a, d)\<in>set (hh_timers h). 5000 \<le> d \<and> d \<le> 60000)"

section \<open>Lemmas\<close>

lemma filter_other_ids: "i \<notin> fst ` set xs \<Longrightarrow> filter (\<lambda>p. fst p \<noteq> i) xs = xs"
  by (rule filter_True) auto

lemma remove_id: "distinct (map fst xs) \<Longrightarrow> (i, y) \<in> set xs \<Longrightarrow> length (filter (\<lambda>p. fst p \<noteq> i) xs) + 1 = length xs"
proof (induction xs)
  case (Cons x xs)
  then show ?case by (cases "fst x = i") (auto simp: filter_other_ids image_iff)
qed simp

lemma distinct_filter_ids: "distinct (map fst xs) \<Longrightarrow> distinct (map fst (filter P xs))"
  by (induction xs) auto

lemma error_backoff_bounds: "1 \<le> n \<Longrightarrow> 5000 \<le> error_backoff n \<and> error_backoff n \<le> 60000"
  by (simp add: error_backoff_def)

lemma schedule_inv: "health_inv h \<Longrightarrow> 5000 \<le> d \<Longrightarrow> d \<le> 60000 \<Longrightarrow> health_inv (schedule_poll a d h)"
  by (auto simp: health_inv_def schedule_poll_def less_Suc_eq image_iff)

lemma start_inv: "health_inv h \<Longrightarrow> health_inv (start_poll a h)"
  by (auto simp: health_inv_def start_poll_def less_Suc_eq image_iff)

lemma inv_polls: "health_inv h \<Longrightarrow> health_inv (h\<lparr>hh_polls := filter P (hh_polls h)\<rparr>)"
  by (auto simp: health_inv_def distinct_filter_ids)

lemma inv_timers: "health_inv h \<Longrightarrow> health_inv (h\<lparr>hh_timers := filter P (hh_timers h)\<rparr>)"
  by (auto simp: health_inv_def distinct_filter_ids)

lemma health_inv_fields [simp]:
  "health_inv (h\<lparr>hh_arena := a\<rparr>) = health_inv h" "health_inv (h\<lparr>hh_mounted := m\<rparr>) = health_inv h"
  "health_inv (h\<lparr>hh_errors := n\<rparr>) = health_inv h" "health_inv (h\<lparr>hh_state := v\<rparr>) = health_inv h"
  "health_inv (h\<lparr>hh_health := x\<rparr>) = health_inv h" "health_inv (h\<lparr>hh_timeoutId := t\<rparr>) = health_inv h"
  by (simp_all add: health_inv_def)

lemma returns_inv: "health_inv h \<Longrightarrow> health_inv (poll_returns a r h)"
  using error_backoff_bounds [of "Suc (hh_errors h)"]
  by (cases r) (simp_all add: poll_returns_def Let_def schedule_inv)

lemma quiet_inv: "quiet_step answer h h' \<Longrightarrow> health_inv h \<Longrightarrow> health_inv h'"
  by (induction rule: quiet_step.induct)
    (simp_all add: poll_settled_def poll_timer_def inv_polls inv_timers returns_inv start_inv)

lemma cleanup_inv: "health_inv h \<Longrightarrow> health_inv (arena_cleanup h)"
  using inv_timers [of "h\<lparr>hh_mounted := False\<rparr>"] by (simp add: arena_cleanup_def Let_def split: option.split)

lemma effect_inv: "health_inv h \<Longrightarrow> health_inv (arena_effect a h)"
  by (simp add: arena_effect_def Let_def start_inv)

lemma health_step_inv: "health_step answer h h' \<Longrightarrow> health_inv h \<Longrightarrow> health_inv h'"
  by (induction rule: health_step.induct) (auto simp: change_arena_def quiet_inv cleanup_inv effect_inv)

lemma idle_inv: "health_inv idle_hook"
  by (simp add: health_inv_def idle_hook_def)

lemma health_run_inv: "(health_step answer)\<^sup>*\<^sup>* idle_hook h \<Longrightarrow> health_inv h"
  by (induction rule: rtranclp_induct) (auto simp: idle_inv health_step_inv)

lemma quiet_mounted: "quiet_step answer h h' \<Longrightarrow> hh_mounted h' = hh_mounted h"
  by (induction rule: quiet_step.induct)
    (auto simp: poll_settled_def poll_timer_def poll_returns_def schedule_poll_def start_poll_def Let_def split: sum.split)

lemma chains_schedule: "chains (schedule_poll a d h) = chains h + 1"
  by (simp add: chains_def schedule_poll_def)

lemma chains_returns: "hh_mounted h \<Longrightarrow> chains (poll_returns a r h) = chains h + 1"
  by (auto simp: poll_returns_def Let_def chains_schedule split: sum.split) (simp_all add: chains_def)

lemma quiet_chains: "quiet_step answer h h' \<Longrightarrow> health_inv h \<Longrightarrow> hh_mounted h \<Longrightarrow> chains h' = chains h"
proof (induction rule: quiet_step.induct)
  case (quiet_poll i a h r)
  then have "length (filter (\<lambda>p. fst p \<noteq> i) (hh_polls h)) + 1 = length (hh_polls h)"
    by (intro remove_id) (auto simp: health_inv_def)
  then show ?case using quiet_poll(4) by (simp add: poll_settled_def chains_returns) (simp add: chains_def)
next
  case (quiet_timer i a d h)
  then have "length (filter (\<lambda>p. fst p \<noteq> i) (hh_timers h)) + 1 = length (hh_timers h)"
    by (intro remove_id) (auto simp: health_inv_def)
  then show ?case by (simp add: poll_timer_def chains_def start_poll_def)
qed

lemma quiet_run:
  "(quiet_step answer)\<^sup>*\<^sup>* h h' \<Longrightarrow> health_inv h \<Longrightarrow> hh_mounted h \<Longrightarrow> health_inv h' \<and> hh_mounted h' \<and> chains h' = chains h"
  by (induction rule: rtranclp_induct) (auto simp: quiet_inv quiet_mounted quiet_chains)

end
