(* ===== verification/HealthResults.thy ===== *)
theory HealthResults
  imports ArenaHealth StellarResults
begin

text \<open>
  What the polled state of an arena shows, and what becomes of a poll when the arena changes.
\<close>

text \<open>What the chain may answer to a poll of an arena, with no address of a user.\<close>

definition chain_answer ::
    "('acct, 'tx, 'stx) tx_sdk set \<Rightarrow> frontend_config \<Rightarrow> string \<Rightarrow> thrown + arena_state_response \<Rightarrow> bool" where
  "chain_answer Ks cfg a r \<longleftrightarrow> (\<exists>K\<in>Ks. r = fetchArenaState K cfg a (Some []))"

text \<open>An answer without an address tells nothing of a user, and never another state than 0.\<close>

definition shows_open :: "arena_view \<Rightarrow> bool" where
  "shows_open v \<longleftrightarrow> av_state v = ''open'' \<and> \<not> av_isUserIn v \<and> \<not> av_hasWon v \<and> av_currentStake v = 0
     \<and> av_potentialPayout v = 0 \<and> av_entryFee v = 0"

lemma stroops_zero: "stroopsToDisplayAmount 0 = 0"
  by (simp add: stroopsToDisplayAmount_def)

lemma public_answer:
  assumes "fetchArenaState K cfg a (Some []) = Inr data"
  shows "shows_open (toArenaState data)"
proof -
  obtain arena v where "data = arena_response arena False v"
    using assms by (auto simp: fetchArenaState_def return_iff split: sim_response.splits)
  then show ?thesis
    by (simp add: shows_open_def toArenaState_def map_game_state_def arena_response_def Let_def stroops_zero)
qed

definition open_inv :: "health_hook \<Rightarrow> bool" where
  "open_inv h \<longleftrightarrow> (\<forall>v. hh_state h = Some v \<longrightarrow> shows_open v)
     \<and> (\<forall>(i, a, d)\<in>set (hh_timers h). d = 5000 \<or> (\<exists>n. d = error_backoff n))"

lemma open_returns:
  assumes "open_inv h" and "\<And>data. r = Inr data \<Longrightarrow> shows_open (toArenaState data)"
  shows "open_inv (poll_returns a r h)"
proof (cases r)
  case (Inl e)
  then show ?thesis using assms(1) by (auto simp: poll_returns_def open_inv_def schedule_poll_def Let_def)
next
  case (Inr data)
  from assms(2) [OF this] have "shows_open (toArenaState data)" .
  moreover from this have "av_state (toArenaState data) \<noteq> ''finished''" by (simp add: shows_open_def)
  ultimately show ?thesis using assms(1) Inr by (simp add: poll_returns_def open_inv_def schedule_poll_def Let_def)
qed

lemma open_step: "health_step (chain_answer Ks cfg) h h' \<Longrightarrow> open_inv h \<Longrightarrow> open_inv h'"
proof (induction rule: health_step.induct)
  case (health_quiet h h')
  from health_quiet(1) show ?case
  proof cases
    case (quiet_poll i a r)
    have "open_inv (h\<lparr>hh_polls := filter (\<lambda>p. fst p \<noteq> i) (hh_polls h)\<rparr>)"
      using health_quiet(2) by (simp add: open_inv_def)
    then show ?thesis unfolding quiet_poll poll_settled_def
      by (rule open_returns) (use quiet_poll(3) in \<open>metis chain_answer_def public_answer\<close>)
  next
    case (quiet_timer i a d)
    then show ?thesis using health_quiet(2) by (auto simp: poll_timer_def start_poll_def open_inv_def)
  qed
next
  case (health_change h b)
  then show ?case
    by (auto simp: change_arena_def arena_effect_def arena_cleanup_def start_poll_def open_inv_def Let_def split: option.splits)
next
  case (health_unmount h)
  then show ?case by (auto simp: arena_cleanup_def open_inv_def Let_def split: option.splits)
qed

text \<open>
  Whatever the chain answers to its polls, the hook shows every arena as open, with no fee, no stake
  and no winner: it asks without an address, and the state is not part of the answer. So it never
  slows down for a finished game: each timer is five seconds or a backoff.
\<close>

theorem every_arena_open:
  assumes "(health_step (chain_answer Ks cfg))\<^sup>*\<^sup>* idle_hook h"
  shows "(\<forall>v. hh_state h = Some v \<longrightarrow> av_state v = ''open'' \<and> \<not> av_isUserIn v \<and> \<not> av_hasWon v
       \<and> av_currentStake v = 0 \<and> av_potentialPayout v = 0 \<and> av_entryFee v = 0)
    \<and> (\<forall>(i, a, d)\<in>set (hh_timers h). d = 5000 \<or> (\<exists>n. d = error_backoff n))"
proof -
  from assms have "open_inv h"
    by (induction rule: rtranclp_induct) (simp add: idle_hook_def open_inv_def, rule open_step)
  then show ?thesis by (simp add: open_inv_def shows_open_def)
qed

lemma demo_public: "\<exists>v. fetchArenaState (demo_stellar True) demo_frontend demo_arena (Some []) = Inr (arena_response demo_arena False v)"
proof -
  have "tk_account (demo_stellar True) DUMMY_ACCOUNT ''0'' = Inr (DUMMY_ACCOUNT, ''0'')"
    and "\<And>tx. tk_simulate (demo_stellar True) tx = Inr (SimulationResult (ScMap (Some [(ScSymbol ''has_won'', ScBool True)])))"
    by (simp_all add: demo_stellar_def)
  then have "fetchArenaState (demo_stellar True) demo_frontend demo_arena (Some []) =
      Inr (arena_response demo_arena False (ScMap (Some [(ScSymbol ''has_won'', ScBool True)])))"
    by (simp add: fetchArenaState_def demo_facts)
  then show ?thesis by (rule exI)
qed

text \<open>A hook that watches the arena, with its first poll under way, and after its answer.\<close>

definition demo_watch :: health_hook where
  "demo_watch = change_arena demo_arena idle_hook"

lemma demo_watch_sel: "hh_polls demo_watch = [(0, demo_arena)]" "hh_mounted demo_watch" "hh_timers demo_watch = []"
  by (simp_all add: demo_watch_def change_arena_def arena_effect_def arena_cleanup_def idle_hook_def start_poll_def demo_arena_def)

lemma demo_watch_run: "(health_step answer)\<^sup>*\<^sup>* idle_hook demo_watch"
  unfolding demo_watch_def by (rule r_into_rtranclp) (rule health_change)

theorem every_arena_open_witness:
  "\<exists>v. hh_state (poll_settled 0 demo_arena (fetchArenaState (demo_stellar True) demo_frontend demo_arena (Some [])) demo_watch) = Some v
     \<and> av_state v = ''open''"
proof -
  let ?r = "fetchArenaState (demo_stellar True) demo_frontend demo_arena (Some [])"
  let ?h = "poll_settled 0 demo_arena ?r demo_watch"
  obtain v where r: "?r = Inr (arena_response demo_arena False v)" using demo_public by blast
  have "quiet_step (chain_answer {demo_stellar True} demo_frontend) demo_watch ?h"
    by (rule quiet_poll) (simp_all add: demo_watch_sel chain_answer_def)
  then have "health_step (chain_answer {demo_stellar True} demo_frontend) demo_watch ?h" by (rule health_quiet)
  from every_arena_open [OF rtranclp.rtrancl_into_rtrancl [OF demo_watch_run this]]
  have "\<forall>v. hh_state ?h = Some v \<longrightarrow> av_state v = ''open''" by simp
  moreover have "\<exists>v. hh_state ?h = Some v"
    by (simp add: r poll_settled_def poll_returns_def schedule_poll_def demo_watch_sel Let_def)
  ultimately show ?thesis by blast
qed

text \<open>
  Changing the arena does not end the polls of the old one. A poll that is under way when the arena
  changes is taken for a poll of the mounted hook when it returns: its answer is shown in place of the new
  arena's, and from then on, however the polls go on, there are two loops, while one arena keeps one.
\<close>

theorem old_arena_keeps_polling:
  assumes "(health_step answer)\<^sup>*\<^sup>* idle_hook h" and "(i, a) \<in> set (hh_polls h)" and "b \<noteq> []"
    and "h1 = poll_settled i a (Inr data) (change_arena b h)" and "(quiet_step answer)\<^sup>*\<^sup>* h1 h2"
  shows "hh_arena h1 = b \<and> hh_state h1 = Some (toArenaState data) \<and> 2 \<le> chains h2 \<and> chains h2 = chains h1"
proof -
  let ?b = "change_arena b h"
  have inv: "health_inv h" by (rule health_run_inv [OF assms(1)])
  have b: "hh_polls ?b = (hh_fresh h, b) # hh_polls h" "hh_mounted ?b" "hh_arena ?b = b"
    using assms(3) by (auto simp: change_arena_def arena_effect_def arena_cleanup_def start_poll_def Let_def split: option.split)
  have inv_b: "health_inv ?b" using inv by (simp add: change_arena_def cleanup_inv effect_inv)
  have "1 \<le> length (hh_polls h)" using assms(2) by (cases "hh_polls h") auto
  then have "2 \<le> chains ?b" by (simp add: chains_def b)
  have mem: "(i, a) \<in> set (hh_polls ?b)" using assms(2) by (simp add: b)
  have step: "quiet_step (\<lambda>_ _. True) ?b h1" unfolding assms(4) by (rule quiet_poll [OF mem]) simp
  have h1: "health_inv h1" "hh_mounted h1" "chains h1 = chains ?b"
    using quiet_inv [OF step inv_b] quiet_mounted [OF step] quiet_chains [OF step inv_b b(2)] b(2) by simp_all
  have "hh_arena h1 = b \<and> hh_state h1 = Some (toArenaState data)"
    using b by (simp add: assms(4) poll_settled_def poll_returns_def schedule_poll_def Let_def)
  then show ?thesis using quiet_run [OF assms(5) h1(1,2)] h1(3) \<open>2 \<le> chains ?b\<close> by simp
qed

theorem old_arena_keeps_polling_witness:
  "\<exists>data. hh_state (poll_settled 0 demo_arena (Inr data) (change_arena ''C...B2'' demo_watch)) = Some (toArenaState data)
     \<and> chains (poll_settled 0 demo_arena (Inr data) (change_arena ''C...B2'' demo_watch)) = 2
     \<and> fetchArenaState (demo_stellar True) demo_frontend demo_arena (Some []) = Inr data"
proof -
  obtain v where v: "fetchArenaState (demo_stellar True) demo_frontend demo_arena (Some []) = Inr (arena_response demo_arena False v)"
    using demo_public by blast
  let ?h = "poll_settled 0 demo_arena (Inr (arena_response demo_arena False v)) (change_arena ''C...B2'' demo_watch)"
  have "(0, demo_arena) \<in> set (hh_polls demo_watch)" by (simp add: demo_watch_sel)
  from old_arena_keeps_polling [OF demo_watch_run this _ refl rtranclp.rtrancl_refl,
      where b = "''C...B2''" and data = "arena_response demo_arena False v"]
  have "hh_state ?h = Some (toArenaState (arena_response demo_arena False v)) \<and> 2 \<le> chains ?h" by simp
  moreover have "chains ?h \<le> 2"
    by (simp add: chains_def poll_settled_def poll_returns_def schedule_poll_def change_arena_def arena_effect_def
        arena_cleanup_def demo_watch_def idle_hook_def start_poll_def Let_def demo_arena_def split: option.split)
  ultimately show ?thesis using v by (intro exI [of _ "arena_response demo_arena False v"]) simp
qed

text \<open>
  Watching one arena from the start, the hook has exactly one poll under way or one timer pending,
  which it can cancel: a pending timer is that of its ref, so unmounting leaves none. Timers are
  between five seconds and a minute.
\<close>

theorem one_arena_one_loop:
  assumes "(quiet_step answer)\<^sup>*\<^sup>* (change_arena a idle_hook) h" and "a \<noteq> []"
  shows "length (hh_polls h) + length (hh_timers h) = 1 \<and> hh_timers (arena_cleanup h) = []
    \<and> (\<forall>(i, b, d)\<in>set (hh_timers h). b = a \<and> 5000 \<le> d \<and> d \<le> 60000)"
proof -
  let ?h0 = "change_arena a idle_hook"
  have h0: "hh_mounted ?h0" "chains ?h0 = 1" "hh_arena ?h0 = a" "hh_polls ?h0 = [(0, a)]" "hh_timers ?h0 = []"
    using assms(2) by (simp_all add: change_arena_def arena_effect_def arena_cleanup_def idle_hook_def start_poll_def chains_def)
  have inv0: "health_inv ?h0" using idle_inv by (simp add: change_arena_def cleanup_inv effect_inv)
  from quiet_run [OF assms(1) inv0 h0(1)] h0(2) have run: "health_inv h" "chains h = 1" by simp_all
  have own: "hh_arena h = a \<and> (\<forall>(i, b)\<in>set (hh_polls h). b = a)
      \<and> (\<forall>(i, b, d)\<in>set (hh_timers h). b = a \<and> hh_timeoutId h = Some i)"
    using assms(1)
  proof (induction rule: rtranclp_induct)
    case base
    show ?case by (simp add: h0)
  next
    case (step h h')
    have one: "chains h = 1" using quiet_run [OF step(1) inv0 h0(1)] h0(2) by simp
    from step(2) show ?case
    proof cases
      case (quiet_poll i b r)
      then have "hh_timers h = []" using one by (cases "hh_polls h") (auto simp: chains_def)
      then show ?thesis using step(3) quiet_poll
        by (auto simp: poll_settled_def poll_returns_def schedule_poll_def Let_def split: sum.splits)
    next
      case (quiet_timer i b d)
      then have "hh_timers h = [(i, b, d)]" using one by (cases "hh_timers h") (auto simp: chains_def)
      then show ?thesis using step(3) quiet_timer by (simp add: poll_timer_def start_poll_def)
    qed
  qed
  have "hh_timers (arena_cleanup h) = []"
  proof (cases "hh_timers h")
    case Nil
    then show ?thesis by (simp add: arena_cleanup_def Let_def split: option.split)
  next
    case (Cons t ts)
    then have "ts = []" using run(2) by (simp add: chains_def)
    with Cons own assms(2) show ?thesis by (cases t) (auto simp: arena_cleanup_def Let_def)
  qed
  then show ?thesis using run own by (auto simp: chains_def health_inv_def)
qed

theorem one_arena_one_loop_witness:
  "length (hh_timers (poll_settled 0 demo_arena (Inl (OtherErr ''fetch failed'')) demo_watch)) = 1
    \<and> hh_timers (arena_cleanup (poll_settled 0 demo_arena (Inl (OtherErr ''fetch failed'')) demo_watch)) = []"
proof -
  let ?h = "poll_settled 0 demo_arena (Inl (OtherErr ''fetch failed'')) demo_watch"
  have "quiet_step (\<lambda>_ _. True) demo_watch ?h" by (rule quiet_poll) (simp_all add: demo_watch_sel)
  then have "(quiet_step (\<lambda>_ _. True))\<^sup>*\<^sup>* (change_arena demo_arena idle_hook) ?h"
    unfolding demo_watch_def [symmetric] by blast
  from one_arena_one_loop [OF this]
  have "length (hh_polls ?h) + length (hh_timers ?h) = 1 \<and> hh_timers (arena_cleanup ?h) = []"
    by (simp add: demo_arena_def)
  moreover have "hh_polls ?h = []"
    by (simp add: poll_settled_def poll_returns_def schedule_poll_def demo_watch_sel Let_def)
  ultimately show ?thesis by simp
qed

end
