(* ===== verification/Forms.thy ===== *)
theory Forms
  imports StellarTx
begin

text \<open>
  The form that creates a pool: frontend/src/shared-d/utils/form-validation.ts, stellar-fees.ts and
  pool-schema.ts, and the state of frontend/src/components/modals/PoolCreationModal.tsx. Numbers are exact;
  \<open>toFixed\<close> is that of numbers below 1e21.
\<close>

section \<open>Numbers\<close>

text \<open>\<open>Infinite True\<close> is minus infinity.\<close>

datatype js_num = NaN | Num rat | Infinite bool

text \<open>The longest prefix that is a decimal literal, after white space: sign, digits, fraction, exponent.\<close>

definition exponent_of :: "string \<Rightarrow> int" where
  "exponent_of s =
     (case s of
        c # r \<Rightarrow>
          if c = CHR ''e'' \<or> c = CHR ''E''
          then (let neg = starts_with ''-'' r;
                    ds = takeWhile is_digit (if neg \<or> starts_with ''+'' r then tl r else r)
                in if neg then - int (dec_val ds) else int (dec_val ds))
          else 0
      | [] \<Rightarrow> 0)"

definition scale10 :: "int \<Rightarrow> rat \<Rightarrow> rat" where
  "scale10 e x = (if e \<ge> 0 then x * 10 ^ nat e else x / 10 ^ nat (- e))"

definition parse_unsigned :: "string \<Rightarrow> js_num" where
  "parse_unsigned s =
     (if starts_with ''Infinity'' s then Infinite False
      else let ds = takeWhile is_digit s; r = dropWhile is_digit s;
               fs = (if starts_with ''.'' r then takeWhile is_digit (tl r) else []);
               r2 = (if starts_with ''.'' r then dropWhile is_digit (tl r) else r)
           in if ds = [] \<and> fs = [] then NaN
              else Num (scale10 (exponent_of r2) (of_nat (dec_val (ds @ fs)) / 10 ^ length fs)))"

definition js_negate :: "js_num \<Rightarrow> js_num" where
  "js_negate n = (case n of NaN \<Rightarrow> NaN | Num x \<Rightarrow> Num (- x) | Infinite b \<Rightarrow> Infinite (\<not> b))"

definition parseFloat :: "string \<Rightarrow> js_num" where
  "parseFloat s =
     (let t = dropWhile is_space s in
      if starts_with ''-'' t then js_negate (parse_unsigned (tl t))
      else parse_unsigned (if starts_with ''+'' t then tl t else t))"

fun num_less :: "js_num \<Rightarrow> js_num \<Rightarrow> bool" where
  "num_less (Num x) (Num y) = (x < y)"
| "num_less (Num x) (Infinite neg) = (\<not> neg)"
| "num_less (Infinite neg) (Num y) = neg"
| "num_less (Infinite n1) (Infinite n2) = (n1 \<and> \<not> n2)"
| "num_less _ _ = False"

text \<open>\<open>x.toFixed(d)\<close>: the nearest number with that many decimals, the larger of two.\<close>

definition fixed_digits :: "nat \<Rightarrow> nat \<Rightarrow> string" where
  "fixed_digits d n =
     (let s = dec_digits n; t = replicate (d + 1 - length s) (CHR ''0'') @ s in
      if d = 0 then t else take (length t - d) t @ ''.'' @ drop (length t - d) t)"

definition toFixed :: "nat \<Rightarrow> rat \<Rightarrow> string" where
  "toFixed d x =
     (if x < 0 then ''-'' @ fixed_digits d (nat \<lfloor>- x * 10 ^ d + 1 / 2\<rfloor>)
      else fixed_digits d (nat \<lfloor>x * 10 ^ d + 1 / 2\<rfloor>))"

section \<open>form-validation.ts\<close>

datatype pool_currency = Usdc | Xlm

fun currency_name :: "pool_currency \<Rightarrow> string" where
  "currency_name Usdc = ''USDC''"
| "currency_name Xlm = ''XLM''"

definition getDecimalPrecision :: "pool_currency \<Rightarrow> nat" where
  "getDecimalPrecision c = (if c = Usdc then 2 else 7)"

definition isValidDecimalPrecision :: "string \<Rightarrow> pool_currency \<Rightarrow> bool" where
  "isValidDecimalPrecision v c =
     (let parts = js_split (CHR ''.'') v in
      if length parts = 1 then True
      else if length parts = 2 then length (parts ! 1) \<le> getDecimalPrecision c else False)"

definition sanitizeNumericInput :: "string \<Rightarrow> string" where
  "sanitizeNumericInput input =
     (let s1 = filter (\<lambda>c. is_digit c \<or> c = CHR ''.'' \<or> c = CHR ''-'') input;
          s2 = filter (\<lambda>c. c \<noteq> CHR ''-'') s1;
          parts = js_split (CHR ''.'') s2
      in if length parts > 2 then hd parts @ ''.'' @ concat (tl parts) else s2)"

definition formatCurrencyInput :: "string \<Rightarrow> pool_currency \<Rightarrow> string" where
  "formatCurrencyInput v c =
     (if v = [] then []
      else let sanitized = sanitizeNumericInput v; parts = js_split (CHR ''.'') sanitized in
        if length parts = 2 then parts ! 0 @ ''.'' @ take (getDecimalPrecision c) (parts ! 1) else sanitized)"

text \<open>\<open>None\<close> is a valid amount; \<open>numText\<close> is how numbers appear in a template.\<close>

definition ends_with_dot :: "string \<Rightarrow> bool" where
  "ends_with_dot s \<longleftrightarrow> s \<noteq> [] \<and> last s = CHR ''.''"

definition stake_problem :: "(rat \<Rightarrow> string) \<Rightarrow> string \<Rightarrow> pool_currency \<Rightarrow> rat \<Rightarrow> rat \<Rightarrow> string option" where
  "stake_problem numText amount currency minStake maxStake =
     (let numericValue = parseFloat amount; precision = getDecimalPrecision currency in
      if amount = [] \<or> js_trim amount = [] then Some ''Stake amount is required''
      else if amount = ''.'' \<or> (ends_with_dot amount \<and> js_split (CHR ''.'') amount ! 1 = [])
      then Some ''Please enter a valid amount''
      else if numericValue = NaN then Some ''Please enter a valid number''
      else if num_less numericValue (Num 0) then Some ''Stake amount cannot be negative''
      else if numericValue = Num 0 then Some ''Stake amount must be greater than zero''
      else if num_less numericValue (Num minStake)
      then Some (''Minimum stake is '' @ numText minStake @ '' '' @ currency_name currency)
      else if num_less (Num maxStake) numericValue
      then Some (''Insufficient balance. Maximum: '' @ toFixed precision maxStake @ '' '' @ currency_name currency)
      else if \<not> isValidDecimalPrecision amount currency
      then Some (currency_name currency @ '' allows up to '' @ dec_digits precision @ '' decimal place'' @
             (if precision > 1 then ''s'' else []))
      else None)"

definition capacity_problem :: "(rat \<Rightarrow> string) \<Rightarrow> rat \<Rightarrow> rat \<Rightarrow> rat \<Rightarrow> string option" where
  "capacity_problem numText capacity lo hi =
     (if capacity < lo then Some (''Minimum capacity is '' @ numText lo)
      else if capacity > hi then Some (''Maximum capacity is '' @ numText hi) else None)"

section \<open>stellar-fees.ts\<close>

definition stroopsToXLM :: "rat \<Rightarrow> rat" where
  "stroopsToXLM stroops = stroops / 10000000"

definition estimateCreatePoolFee :: rat where
  "estimateCreatePoolFee = stroopsToXLM 10000"

definition formatFeeDisplay :: "rat \<Rightarrow> string" where
  "formatFeeDisplay fee = toFixed 7 fee @ '' XLM''"

definition calculateTotalCost :: "rat \<Rightarrow> pool_currency \<Rightarrow> rat \<Rightarrow> rat" where
  "calculateTotalCost stake c fee = (if c = Xlm then stake + fee else stake)"

definition formatTotalCostDisplay :: "rat \<Rightarrow> pool_currency \<Rightarrow> rat \<Rightarrow> string" where
  "formatTotalCostDisplay stake c fee =
     (if c = Xlm then toFixed 7 (calculateTotalCost stake c fee) @ '' XLM (includes '' @ formatFeeDisplay fee @ '' fee)''
      else toFixed 2 stake @ '' USDC + '' @ formatFeeDisplay fee @ '' fee'')"

section \<open>PoolCreationModal.tsx\<close>

definition MIN_CAPACITY :: int where "MIN_CAPACITY = 10"
definition MAX_CAPACITY :: int where "MAX_CAPACITY = 1000"
definition MIN_STAKE :: rat where "MIN_STAKE = 10"

record pool_form =
  pf_stakeInput :: string
  pf_currency :: pool_currency
  pf_roundSpeed :: string
  pf_capacity :: int

definition first_form :: pool_form where
  "first_form = \<lparr>pf_stakeInput = ''100'', pf_currency = Usdc, pf_roundSpeed = ''1M'', pf_capacity = 50\<rparr>"

definition handleStakeAmountChange :: "string \<Rightarrow> pool_form \<Rightarrow> pool_form" where
  "handleStakeAmountChange v f =
     f\<lparr>pf_stakeInput := formatCurrencyInput (sanitizeNumericInput v) (pf_currency f)\<rparr>"

definition handleCurrencyChange :: "pool_currency \<Rightarrow> pool_form \<Rightarrow> pool_form" where
  "handleCurrencyChange c f =
     (let f1 = f\<lparr>pf_currency := c\<rparr> in
      if pf_stakeInput f \<noteq> [] then f1\<lparr>pf_stakeInput := formatCurrencyInput (pf_stakeInput f) c\<rparr> else f1)"

definition handleDecreaseCapacity :: "pool_form \<Rightarrow> pool_form" where
  "handleDecreaseCapacity f = f\<lparr>pf_capacity := max MIN_CAPACITY (pf_capacity f - 10)\<rparr>"

definition handleIncreaseCapacity :: "pool_form \<Rightarrow> pool_form" where
  "handleIncreaseCapacity f = f\<lparr>pf_capacity := min MAX_CAPACITY (pf_capacity f + 10)\<rparr>"

text \<open>The reset of a closed form keeps the currency.\<close>

definition reset_form :: "pool_form \<Rightarrow> pool_form" where
  "reset_form f = f\<lparr>pf_stakeInput := ''100'', pf_roundSpeed := ''1M'', pf_capacity := 50\<rparr>"

definition stakeAmount :: "pool_form \<Rightarrow> rat" where
  "stakeAmount f = (case parseFloat (pf_stakeInput f) of Num x \<Rightarrow> x | _ \<Rightarrow> 0)"

definition poolSchema_stake :: "string \<Rightarrow> bool" where
  "poolSchema_stake v \<longleftrightarrow> num_less (Num 0) (parseFloat v)"

definition poolSchema_capacity :: "int \<Rightarrow> bool" where
  "poolSchema_capacity n \<longleftrightarrow> MIN_CAPACITY \<le> n \<and> n \<le> MAX_CAPACITY"

text \<open>
  \<open>validateForm\<close>: whether the form is valid and the message on the stake. \<open>balance\<close> is \<open>None\<close> without a
  wallet; the currency and the speed are always options of the schema.
\<close>

definition stake_message :: "rat option \<Rightarrow> pool_form \<Rightarrow> string" where
  "stake_message balance f =
     (let n = parseFloat (pf_stakeInput f);
          maxStake = (case balance of None \<Rightarrow> Infinite False | Some b \<Rightarrow> Num b) in
      if \<not> poolSchema_stake (pf_stakeInput f) then ''Stake amount must be a positive number''
      else if num_less n (Num MIN_STAKE) then ''Minimum stake is 10 '' @ currency_name (pf_currency f)
      else if num_less maxStake n
      then ''Insufficient balance. Maximum: '' @
             (case balance of None \<Rightarrow> ''Infinity'' | Some b \<Rightarrow> toFixed (getDecimalPrecision (pf_currency f)) b) @ '' '' @
             currency_name (pf_currency f)
      else [])"

definition validateForm :: "rat option \<Rightarrow> pool_form \<Rightarrow> bool" where
  "validateForm balance f \<longleftrightarrow>
     poolSchema_stake (pf_stakeInput f) \<and> poolSchema_capacity (pf_capacity f) \<and> stake_message balance f = []
     \<and> num_less (Num 0) (parseFloat (pf_stakeInput f))"

text \<open>What the form hands to \<open>buildCreatePoolTransaction\<close>.\<close>

definition form_params :: "pool_form \<Rightarrow> create_pool_params" where
  "form_params f = \<lparr>cp_stakeAmount = stakeAmount f, cp_currency = currency_name (pf_currency f),
     cp_roundSpeed = pf_roundSpeed f, cp_arenaCapacity = of_int (pf_capacity f)\<rparr>"

inductive form_step :: "pool_form \<Rightarrow> pool_form \<Rightarrow> bool" where
  form_stake: "form_step f (handleStakeAmountChange v f)"
| form_currency: "form_step f (handleCurrencyChange c f)"
| form_speed: "speed \<in> {''30S'', ''1M'', ''5M''} \<Longrightarrow> form_step f (f\<lparr>pf_roundSpeed := speed\<rparr>)"
| form_less: "pf_capacity f > MIN_CAPACITY \<Longrightarrow> form_step f (handleDecreaseCapacity f)"
| form_more: "pf_capacity f < MAX_CAPACITY \<Longrightarrow> form_step f (handleIncreaseCapacity f)"
| form_close: "form_step f (reset_form f)"

end
