(* ===== verification/FormResults.thy ===== *)
theory FormResults
  imports Forms
begin

text \<open>
  What the form of a pool guarantees: the shape of the amount that is typed, that a valid form is what the
  builder of the transaction takes, and that the amount in stroops is the one displayed.
\<close>

section \<open>Decimal texts\<close>

definition decimal_text :: "nat \<Rightarrow> string \<Rightarrow> string \<Rightarrow> string \<Rightarrow> bool" where
  "decimal_text n s ds fs \<longleftrightarrow> list_all is_digit ds \<and> list_all is_digit fs \<and> length fs \<le> n
     \<and> (s = ds \<and> fs = [] \<or> s = ds @ ''.'' @ fs)"

lemma digit_chars: "is_digit c \<Longrightarrow> c \<noteq> CHR ''.''" "is_digit c \<Longrightarrow> c \<noteq> CHR ''-''" "is_digit c \<Longrightarrow> \<not> is_space c"
  "is_digit c \<Longrightarrow> c \<noteq> CHR ''I''" "is_digit c \<Longrightarrow> c \<noteq> CHR ''+''"
  by (auto simp: is_digit_def in_range_def code_of_def is_space_def)

lemma dot_facts [simp]: "\<not> is_digit (CHR ''.'')" "\<not> is_space (CHR ''.'')" "\<not> is_digit (CHR ''-'')"
  by (simp_all add: is_digit_def in_range_def code_of_def is_space_def)

lemma split_join: "js_split d s = p # ps \<Longrightarrow> s = p @ concat (map (\<lambda>q. d # q) ps)"
proof (induction s arbitrary: p ps)
  case (Cons c s)
  obtain q qs where q: "js_split d s = q # qs" using js_split_nonempty by (metis list.exhaust)
  have s: "s = q @ concat (map ((#) d) qs)" using Cons.IH [OF q] by simp
  show ?case
  proof (cases "c = d")
    case True
    then have "p = []" "ps = q # qs" using Cons.prems q by simp_all
    then show ?thesis using True s by simp
  next
    case False
    then have "p = c # q" "ps = qs" using Cons.prems q by simp_all
    then show ?thesis using s by simp
  qed
qed simp

lemma split_part_chars: "p \<in> set (js_split d s) \<Longrightarrow> c \<in> set p \<Longrightarrow> c \<in> set s \<and> c \<noteq> d"
proof (induction s arbitrary: p)
  case (Cons x s)
  obtain q qs where q: "js_split d s = q # qs" using js_split_nonempty by (metis list.exhaust)
  with Cons show ?case by (fastforce split: if_splits)
qed simp

lemma form_digits_no_dot: "list_all is_digit s \<Longrightarrow> CHR ''.'' \<notin> set s"
  by (auto simp: list_all_iff)

lemma split_digits: "list_all is_digit s \<Longrightarrow> js_split (CHR ''.'') s = [s]"
  by (simp add: js_split_no_sep form_digits_no_dot)

lemma split_decimal: "list_all is_digit ds \<Longrightarrow> list_all is_digit fs \<Longrightarrow> js_split (CHR ''.'') (ds @ CHR ''.'' # fs) = [ds, fs]"
  by (simp add: js_split_append_sep split_digits form_digits_no_dot)

lemma filter_digits: "list_all is_digit s \<Longrightarrow> filter (\<lambda>c. is_digit c \<or> c = CHR ''.'' \<or> c = CHR ''-'') s = s"
  "list_all is_digit s \<Longrightarrow> filter (\<lambda>c. c \<noteq> CHR ''-'') s = s"
  by (auto simp: list_all_iff intro!: filter_True)

lemma sanitize_shape: "\<exists>ds fs. decimal_text (length fs) (sanitizeNumericInput v) ds fs"
proof -
  let ?s = "filter (\<lambda>c. c \<noteq> CHR ''-'') (filter (\<lambda>c. is_digit c \<or> c = CHR ''.'' \<or> c = CHR ''-'') v)"
  obtain p ps where split: "js_split (CHR ''.'') ?s = p # ps" using js_split_nonempty by (metis list.exhaust)
  have "list_all is_digit q" if "q \<in> set (p # ps)" for q
  proof -
    have "c \<in> set ?s \<and> c \<noteq> CHR ''.''" if "c \<in> set q" for c
      by (rule split_part_chars [OF _ that]) (use \<open>q \<in> set (p # ps)\<close> in \<open>simp only: split\<close>)
    then have "is_digit c" if "c \<in> set q" for c using that by fastforce
    then show ?thesis by (simp add: list_all_iff)
  qed
  then have p: "list_all is_digit p" and ps: "list_all is_digit (concat ps)" by (auto simp: list_all_iff)
  show ?thesis
  proof (cases "length ps > 1")
    case True
    then have "sanitizeNumericInput v = p @ ''.'' @ concat ps"
      unfolding sanitizeNumericInput_def Let_def split by simp
    with p ps show ?thesis by (auto simp: decimal_text_def)
  next
    case False
    then have "sanitizeNumericInput v = ?s" unfolding sanitizeNumericInput_def Let_def split by simp
    moreover have "ps = [] \<or> (\<exists>q. ps = [q])" using False by (cases ps; cases "tl ps") auto
    ultimately show ?thesis using split_join [OF split] p ps by (fastforce simp: decimal_text_def)
  qed
qed

lemma sanitize_fixed:
  assumes "decimal_text n s ds fs"
  shows "sanitizeNumericInput s = s"
proof -
  have d: "list_all is_digit ds" "list_all is_digit fs" using assms by (simp_all add: decimal_text_def)
  consider "s = ds" | "s = ds @ CHR ''.'' # fs" using assms by (auto simp: decimal_text_def)
  then show ?thesis
    by cases (simp_all add: sanitizeNumericInput_def Let_def filter_digits d split_digits split_decimal)
qed

lemma format_shape: "\<exists>ds fs. decimal_text (getDecimalPrecision c) (formatCurrencyInput v c) ds fs"
proof (cases "v = []")
  case True
  have "decimal_text (getDecimalPrecision c) (formatCurrencyInput v c) [] []"
    by (simp add: True formatCurrencyInput_def decimal_text_def)
  then show ?thesis by blast
next
  case False
  obtain ds fs where s: "decimal_text (length fs) (sanitizeNumericInput v) ds fs" using sanitize_shape by blast
  then have d: "list_all is_digit ds" "list_all is_digit fs" by (simp_all add: decimal_text_def)
  have t: "list_all is_digit (take n fs)" for n using d(2) by (auto simp: list_all_iff dest: in_set_takeD)
  consider "sanitizeNumericInput v = ds" | "sanitizeNumericInput v = ds @ CHR ''.'' # fs"
    using s by (auto simp: decimal_text_def)
  then show ?thesis
  proof cases
    case 1
    then have "decimal_text (getDecimalPrecision c) (formatCurrencyInput v c) ds []"
      using False d by (simp add: formatCurrencyInput_def split_digits decimal_text_def)
    then show ?thesis by blast
  next
    case 2
    then have "decimal_text (getDecimalPrecision c) (formatCurrencyInput v c) ds (take (getDecimalPrecision c) fs)"
      using False d t by (simp add: formatCurrencyInput_def split_decimal decimal_text_def)
    then show ?thesis by blast
  qed
qed

lemma format_fixed:
  assumes "decimal_text (getDecimalPrecision c) s ds fs"
  shows "formatCurrencyInput s c = s"
proof -
  have d: "list_all is_digit ds" "list_all is_digit fs" "length fs \<le> getDecimalPrecision c"
    using assms by (simp_all add: decimal_text_def)
  consider "s = ds" | "s = ds @ CHR ''.'' # fs" using assms by (auto simp: decimal_text_def)
  then show ?thesis
  proof cases
    case 1
    then show ?thesis using sanitize_fixed [OF assms] d by (simp add: formatCurrencyInput_def split_digits)
  next
    case 2
    then show ?thesis using sanitize_fixed [OF assms] d by (simp add: formatCurrencyInput_def split_decimal)
  qed
qed

lemma minus_dropped: "sanitizeNumericInput (a @ ''-'' @ b) = sanitizeNumericInput (a @ b)"
  by (simp add: sanitizeNumericInput_def)

text \<open>
  What is typed into the form is made an amount: cleaning and formatting give digits with at most one
  point and the decimals of the currency, and change nothing of what has this form already. A
  minus is dropped and not rejected, wherever it is typed.
\<close>

theorem typed_amount_shape:
  "(\<exists>ds fs. list_all is_digit ds \<and> list_all is_digit fs \<and> length fs \<le> getDecimalPrecision c
      \<and> (formatCurrencyInput v c = ds \<or> formatCurrencyInput v c = ds @ ''.'' @ fs))
    \<and> formatCurrencyInput (formatCurrencyInput v c) c = formatCurrencyInput v c
    \<and> sanitizeNumericInput (sanitizeNumericInput v) = sanitizeNumericInput v
    \<and> sanitizeNumericInput (a @ ''-'' @ b) = sanitizeNumericInput (a @ b)"
proof -
  obtain ds fs where f: "decimal_text (getDecimalPrecision c) (formatCurrencyInput v c) ds fs" using format_shape by blast
  obtain ds2 fs2 where s: "decimal_text (length fs2) (sanitizeNumericInput v) ds2 fs2" using sanitize_shape by blast
  have "\<exists>ds fs. list_all is_digit ds \<and> list_all is_digit fs \<and> length fs \<le> getDecimalPrecision c
      \<and> (formatCurrencyInput v c = ds \<or> formatCurrencyInput v c = ds @ ''.'' @ fs)"
    using f unfolding decimal_text_def by blast
  then show ?thesis using format_fixed [OF f] sanitize_fixed [OF s] minus_dropped by blast
qed

section \<open>Amounts\<close>

lemma take_digits: "list_all is_digit ds \<Longrightarrow> takeWhile is_digit (ds @ CHR ''.'' # r) = ds"
  "list_all is_digit ds \<Longrightarrow> dropWhile is_digit (ds @ CHR ''.'' # r) = CHR ''.'' # r"
  "list_all is_digit ds \<Longrightarrow> takeWhile is_digit ds = ds" "list_all is_digit ds \<Longrightarrow> dropWhile is_digit ds = []"
  by (induction ds) auto

lemma parse_unsigned_decimal:
  assumes "decimal_text n s ds fs" and "\<not> starts_with ''Infinity'' s"
  shows "parse_unsigned s = (if ds = [] \<and> fs = [] then NaN else Num (of_nat (dec_val (ds @ fs)) / 10 ^ length fs))"
proof -
  have d: "list_all is_digit ds" "list_all is_digit fs" using assms by (simp_all add: decimal_text_def)
  consider "s = ds" "fs = []" | "s = ds @ CHR ''.'' # fs" using assms by (auto simp: decimal_text_def)
  then show ?thesis
    using assms(2) by cases (simp_all add: parse_unsigned_def Let_def take_digits d exponent_of_def scale10_def)
qed

lemma parse_decimal:
  assumes "decimal_text n s ds fs"
  shows "parseFloat s = (if ds = [] \<and> fs = [] then NaN else Num (of_nat (dec_val (ds @ fs)) / 10 ^ length fs))"
proof -
  have d: "list_all is_digit ds" "list_all is_digit fs" using assms by (simp_all add: decimal_text_def)
  have hd: "s = [] \<or> (\<exists>c r. s = c # r \<and> (is_digit c \<or> c = CHR ''.''))"
    using assms d by (cases ds) (auto simp: decimal_text_def)
  then have "dropWhile is_space s = s" "\<not> starts_with ''-'' s" "\<not> starts_with ''+'' s" "\<not> starts_with ''Infinity'' s"
    by (auto dest: digit_chars)
  then show ?thesis using parse_unsigned_decimal [OF assms] by (simp add: parseFloat_def)
qed

definition form_inv :: "pool_form \<Rightarrow> bool" where
  "form_inv f \<longleftrightarrow> (\<exists>ds fs. decimal_text (getDecimalPrecision (pf_currency f)) (pf_stakeInput f) ds fs)
     \<and> MIN_CAPACITY \<le> pf_capacity f \<and> pf_capacity f \<le> MAX_CAPACITY \<and> pf_capacity f mod 10 = 0
     \<and> pf_roundSpeed f \<in> {''30S'', ''1M'', ''5M''}"

lemma hundred: "decimal_text n ''100'' ''100'' []"
  by (simp add: decimal_text_def is_digit_def in_range_def code_of_def)

lemma form_first: "form_inv first_form"
  using hundred by (auto simp: form_inv_def first_form_def MIN_CAPACITY_def MAX_CAPACITY_def)

lemma form_inv_step: "form_step f f' \<Longrightarrow> form_inv f \<Longrightarrow> form_inv f'"
proof (induction rule: form_step.induct)
  case (form_stake f v)
  then show ?case using format_shape by (simp add: form_inv_def handleStakeAmountChange_def)
next
  case (form_currency f c)
  have "\<exists>ds fs. decimal_text n [] ds fs" for n by (simp add: decimal_text_def exI [of _ "[]"])
  then show ?case using form_currency format_shape by (auto simp: form_inv_def handleCurrencyChange_def Let_def)
next
  case (form_speed speed f)
  then show ?case by (simp add: form_inv_def)
next
  case (form_less f)
  then have "max MIN_CAPACITY (pf_capacity f - 10) mod 10 = 0"
    by (auto simp: form_inv_def MIN_CAPACITY_def max_def mod_diff_right_eq)
  then show ?case using form_less by (auto simp: form_inv_def handleDecreaseCapacity_def MIN_CAPACITY_def MAX_CAPACITY_def)
next
  case (form_more f)
  then have "min MAX_CAPACITY (pf_capacity f + 10) mod 10 = 0"
    by (auto simp: form_inv_def MAX_CAPACITY_def min_def)
  then show ?case using form_more by (auto simp: form_inv_def handleIncreaseCapacity_def MIN_CAPACITY_def MAX_CAPACITY_def)
next
  case (form_close f)
  then show ?case using hundred by (auto simp: form_inv_def reset_form_def MIN_CAPACITY_def MAX_CAPACITY_def)
qed

lemma form_run: "form_step\<^sup>*\<^sup>* first_form f \<Longrightarrow> form_inv f"
  by (induction rule: rtranclp_induct) (simp_all add: form_first form_inv_step)

lemma stake_exact:
  assumes "form_inv f"
  shows "of_int (to_stroops (stakeAmount f)) = stakeAmount f * 10000000"
proof -
  obtain ds fs where t: "decimal_text (getDecimalPrecision (pf_currency f)) (pf_stakeInput f) ds fs"
    using assms by (auto simp: form_inv_def)
  have len: "length fs \<le> 7" using t by (simp add: decimal_text_def getDecimalPrecision_def split: if_splits)
  have amount: "\<exists>n. stakeAmount f = of_nat n / 10 ^ length fs"
    using parse_decimal [OF t] by (auto simp: stakeAmount_def intro: exI [of _ 0])
  then obtain n where "stakeAmount f = of_nat n / 10 ^ length fs" ..
  moreover have "(10000000 :: rat) = 10 ^ length fs * 10 ^ (7 - length fs)"
    using len by (simp flip: power_add)
  ultimately have "stakeAmount f * 10000000 = of_nat n / 10 ^ length fs * (10 ^ length fs * 10 ^ (7 - length fs))"
    by (simp only:)
  then have "stakeAmount f * 10000000 = of_nat n * 10 ^ (7 - length fs)" by simp
  then have x: "stakeAmount f * 10000000 = of_int (int n * 10 ^ (7 - length fs))" by simp
  show ?thesis unfolding to_stroops_def x by simp
qed


lemma demo_hundred: "parseFloat ''100'' = Num 100"
  using parse_decimal [OF hundred] by (simp add: dec_val_def digit_val_def code_of_def)


end
