(* ===== verification/ArenaPage.thy ===== *)
theory ArenaPage
  imports StellarResults ArenaStats
begin

text \<open>
  The page of an arena, frontend/src/app/arena/page.tsx: the snapshots of the stream, the phases of a round,
  and the transactions that a player confirms in the dialog of
  frontend/src/components/modals/TransactionModal.tsx, over the builders of StellarTx and the commitments of
  CommitReveal. An event with the render and the effects after it is one step. Confirming a transaction is two:
  building it, and what follows when the wallet and the network have answered; snapshots may come in between.
\<close>

section \<open>State\<close>

datatype round_phase = CommitPhase | RevealPhase

datatype tx_type = JoinTx | CommitTx | RevealTx | ClaimTx

record 'tx pending_tx =
  pd_type :: tx_type
  pd_round :: nat
  pd_built :: "thrown + 'tx"

record 'tx arena_page =
  pg_address :: "string option"
  pg_selected :: "round_choice option"
  pg_joined :: bool
  pg_hasWon :: bool
  pg_summary :: bool
  pg_survivors :: "int \<times> int"
  pg_userStatus :: string
  pg_currentStake :: rat
  pg_potentialPayout :: rat
  pg_entryFee :: "rat option"
  pg_playerCount :: "int option"
  pg_resolved :: bool
  pg_currentRound :: nat
  pg_phase :: round_phase
  pg_committed :: bool
  pg_expired :: bool
  pg_modal :: bool
  pg_txType :: "tx_type option"
  pg_storage :: local_storage
  pg_pending :: "'tx pending_tx list"

section \<open>Effects\<close>

text \<open>A new round opens in the commit phase; a commitment may be stored for it already.\<close>

definition round_effect :: "string \<Rightarrow> 'tx arena_page \<Rightarrow> 'tx arena_page" where
  "round_effect arena p =
     (if arena = [] then p
      else p\<lparr>pg_phase := CommitPhase, pg_selected := None, pg_expired := False,
             pg_committed := hasStoredCommitmentForRound arena (pg_currentRound p) (pg_storage p)\<rparr>)"

definition rendered :: "string \<Rightarrow> 'tx arena_page \<Rightarrow> 'tx arena_page \<Rightarrow> 'tx arena_page" where
  "rendered arena old new = (if pg_currentRound new = pg_currentRound old then new else round_effect arena new)"

text \<open>The first render with its effects; 128 of 1024 survivors and the stakes are placeholders.\<close>

definition first_page :: "string \<Rightarrow> local_storage \<Rightarrow> 'tx arena_page" where
  "first_page arena st =
     round_effect arena
       \<lparr>pg_address = None, pg_selected = None, pg_joined = False, pg_hasWon = False, pg_summary = False,
        pg_survivors = (128, 1024), pg_userStatus = ''STILL IN'', pg_currentStake = 1200, pg_potentialPayout = 24420,
        pg_entryFee = None, pg_playerCount = None, pg_resolved = False, pg_currentRound = 1, pg_phase = CommitPhase,
        pg_committed = False, pg_expired = False, pg_modal = False, pg_txType = None, pg_storage = st, pg_pending = []\<rparr>"

text \<open>The effects of a snapshot; \<open>live\<close>: the status of the stream.\<close>

definition on_snapshot :: "string \<Rightarrow> bool \<Rightarrow> arena_snapshot \<Rightarrow> 'tx arena_page \<Rightarrow> 'tx arena_page" where
  "on_snapshot arena live snap p =
     (let p1 = p\<lparr>pg_survivors := (sp_survivorCount snap,
                   if sp_playerCount snap \<noteq> 0 then sp_playerCount snap else snd (pg_survivors p)),
                 pg_currentRound := sp_currentRound snap\<rparr>;
          p2 = (if sp_status snap = ''settled'' \<or> sp_survivorCount snap \<le> 1
                then p1\<lparr>pg_hasWon := True, pg_userStatus := ''WINNER!'', pg_resolved := False, pg_summary := True\<rparr>
                else p1);
          p3 = (if arena \<noteq> [] \<and> live \<and> sp_lastRoundState snap = Some ''RESOLVED''
                then p2\<lparr>pg_resolved := True\<rparr> else p2)
      in rendered arena p p3)"

definition updateArenaState :: "thrown + arena_state_response \<Rightarrow> 'tx arena_page \<Rightarrow> 'tx arena_page" where
  "updateArenaState r p =
     (case r of
        Inl e \<Rightarrow> p
      | Inr s \<Rightarrow>
          p\<lparr>pg_survivors := (sr_survivorsCount s, sr_maxCapacity s), pg_joined := sr_isUserIn s,
            pg_hasWon := sr_hasWon s, pg_userStatus := (if sr_hasWon s then ''WINNER!'' else ''STILL IN''),
            pg_currentStake := sr_currentStake s, pg_potentialPayout := sr_potentialPayout s,
            pg_entryFee := Some (sr_entryFee s), pg_playerCount := Some (sr_playerCount s),
            pg_currentRound := nat (sr_roundNumber s)\<rparr>)"

section \<open>Handlers\<close>

definition time_up :: "'tx arena_page \<Rightarrow> 'tx arena_page" where
  "time_up p =
     (if pg_phase p = CommitPhase
      then p\<lparr>pg_expired := (if pg_committed p then pg_expired p else True), pg_phase := RevealPhase\<rparr> else p)"

definition select_choice :: "round_choice \<Rightarrow> 'tx arena_page \<Rightarrow> 'tx arena_page" where
  "select_choice c p = (if pg_phase p = CommitPhase then p\<lparr>pg_selected := Some c\<rparr> else p)"

text \<open>Which buttons are shown; each opens the dialog with its transaction.\<close>

fun offered :: "tx_type \<Rightarrow> 'tx arena_page \<Rightarrow> bool" where
  "offered JoinTx p = (pg_address p \<noteq> None \<and> \<not> pg_joined p)"
| "offered CommitTx p = (pg_selected p \<noteq> None \<and> pg_joined p \<and> pg_phase p = CommitPhase)"
| "offered RevealTx p = (pg_joined p \<and> pg_phase p = RevealPhase \<and> pg_committed p)"
| "offered ClaimTx p = pg_hasWon p"

definition open_dialog :: "string \<Rightarrow> tx_type \<Rightarrow> 'tx arena_page \<Rightarrow> 'tx arena_page" where
  "open_dialog arena t p = (if arena = [] then p else p\<lparr>pg_txType := Some t, pg_modal := True\<rparr>)"

definition proceed :: "string \<Rightarrow> 'tx arena_page \<Rightarrow> 'tx arena_page" where
  "proceed arena p =
     rendered arena p (p\<lparr>pg_resolved := False, pg_currentRound := pg_currentRound p + 1, pg_selected := None\<rparr>)"

text \<open>What the builders use: \<open>ev_fetch\<close> is Horizon and \<open>ev_salt\<close> the random salt at the time.\<close>

record ('acct, 'tx, 'stx) page_env =
  ev_sdk :: "('acct, 'tx, 'stx) tx_sdk"
  ev_cfg :: frontend_config
  ev_sha256 :: "bytes \<Rightarrow> bytes"

text \<open>\<open>onConfirm\<close> up to the built transaction; \<open>None\<close> is its early return.\<close>

definition build_transaction ::
    "('acct, 'tx, 'stx) page_env \<Rightarrow> string \<Rightarrow> (string \<Rightarrow> thrown + http_response) \<Rightarrow> bytes \<Rightarrow> string \<Rightarrow> tx_type \<Rightarrow>
     'tx arena_page \<Rightarrow> (thrown + 'tx) option \<times> local_storage" where
  "build_transaction E arena fetch salt address t p =
     (let K = ev_sdk E; cfg = ev_cfg E; st = pg_storage p; n = of_nat (pg_currentRound p) in
      (case t of
         JoinTx \<Rightarrow> (Some (buildJoinArenaTransaction K cfg fetch address arena 100), st)
       | CommitTx \<Rightarrow>
           (case pg_selected p of
              None \<Rightarrow> (None, st)
            | Some c \<Rightarrow>
                (case buildSubmitCommitmentTransaction K cfg fetch (ev_sha256 E) salt address arena (choice_name c) n st of
                   (r, st') \<Rightarrow> (Some r, st')))
       | RevealTx \<Rightarrow> (Some (buildRevealChoiceTransaction K cfg fetch address arena n st), st)
       | ClaimTx \<Rightarrow> (Some (buildClaimWinningsTransaction K cfg fetch address arena), st)))"

definition confirm ::
    "('acct, 'tx, 'stx) page_env \<Rightarrow> string \<Rightarrow> (string \<Rightarrow> thrown + http_response) \<Rightarrow> bytes \<Rightarrow> 'tx arena_page \<Rightarrow> 'tx arena_page" where
  "confirm E arena fetch salt p =
     (case (pg_address p, pg_txType p) of
        (Some address, Some t) \<Rightarrow>
          (case build_transaction E arena fetch salt address t p of
             (None, st) \<Rightarrow> p\<lparr>pg_storage := st\<rparr>
           | (Some built, st) \<Rightarrow>
               p\<lparr>pg_storage := st,
                 pg_pending := \<lparr>pd_type = t, pd_round = pg_currentRound p, pd_built = built\<rparr> # pg_pending p\<rparr>)
      | _ \<Rightarrow> p)"

text \<open>\<open>sign\<close> is the answer of the wallet, \<open>polls\<close> those of the network and \<open>ans\<close> that of \<open>fetchArenaState\<close>.\<close>

definition submitted_ok ::
    "('acct, 'tx, 'stx) page_env \<Rightarrow> 'tx pending_tx \<Rightarrow> thrown + string \<Rightarrow> (nat \<Rightarrow> thrown + string) \<Rightarrow> bool" where
  "submitted_ok E pd sign polls \<longleftrightarrow>
     (case (pd_built pd, sign) of
        (Inr tx, Inr xdr) \<Rightarrow> (case submitSignedTransaction (ev_sdk E) (ev_cfg E) polls xdr of Inr _ \<Rightarrow> True | Inl _ \<Rightarrow> False)
      | _ \<Rightarrow> False)"

definition finish ::
    "('acct, 'tx, 'stx) page_env \<Rightarrow> string \<Rightarrow> 'tx pending_tx \<Rightarrow> thrown + string \<Rightarrow> (nat \<Rightarrow> thrown + string) \<Rightarrow>
     thrown + arena_state_response \<Rightarrow> 'tx arena_page \<Rightarrow> 'tx arena_page" where
  "finish E arena pd sign polls ans p0 =
     (let p = p0\<lparr>pg_pending := remove1 pd (pg_pending p0)\<rparr> in
      if \<not> submitted_ok E pd sign polls then p
      else let p1 = (case pd_type pd of
                  CommitTx \<Rightarrow> p\<lparr>pg_committed := True\<rparr>
                | RevealTx \<Rightarrow> p\<lparr>pg_storage := clearCommitmentForRound arena (pd_round pd) (pg_storage p), pg_committed := False\<rparr>
                | _ \<Rightarrow> p)
           in rendered arena p1 ((updateArenaState ans p1)\<lparr>pg_modal := False\<rparr>))"

section \<open>Steps\<close>

inductive page_step ::
    "('acct, 'tx, 'stx) page_env \<Rightarrow> string \<Rightarrow> 'tx arena_page \<Rightarrow> 'tx arena_page \<Rightarrow> bool" for E arena where
  page_snapshot: "page_step E arena p (on_snapshot arena live snap p)"
| page_connect: "page_step E arena p (p\<lparr>pg_address := a\<rparr>)"
| page_state: "page_step E arena p (rendered arena p (updateArenaState ans p))"
| page_time_up: "page_step E arena p (time_up p)"
| page_select: "page_step E arena p (select_choice c p)"
| page_open: "offered t p \<Longrightarrow> page_step E arena p (open_dialog arena t p)"
| page_close: "page_step E arena p (p\<lparr>pg_modal := False\<rparr>)"
| page_proceed: "pg_resolved p \<Longrightarrow> page_step E arena p (proceed arena p)"
| page_confirm: "pg_modal p \<Longrightarrow> page_step E arena p (confirm E arena fetch salt p)"
| page_finish: "pd \<in> set (pg_pending p) \<Longrightarrow> page_step E arena p (finish E arena pd sign polls ans p)"

section \<open>Lemmas\<close>

lemma effect_storage [simp]: "pg_storage (round_effect arena p) = pg_storage p"
  by (simp add: round_effect_def)

lemma rendered_storage [simp]: "pg_storage (rendered arena old new) = pg_storage new"
  by (simp add: rendered_def)

lemma update_storage [simp]: "pg_storage (updateArenaState ans p) = pg_storage p"
  by (simp add: updateArenaState_def split: sum.split)

lemma page_storage [simp]:
  "pg_storage (on_snapshot arena live snap p) = pg_storage p" "pg_storage (time_up p) = pg_storage p"
  "pg_storage (select_choice c p) = pg_storage p" "pg_storage (open_dialog arena t p) = pg_storage p"
  "pg_storage (proceed arena p) = pg_storage p"
  by (simp_all add: on_snapshot_def time_up_def select_choice_def open_dialog_def proceed_def Let_def)

lemma finish_storage:
  "pg_storage (finish E arena pd sign polls ans p) =
     (if submitted_ok E pd sign polls \<and> pd_type pd = RevealTx
      then clearCommitmentForRound arena (pd_round pd) (pg_storage p) else pg_storage p)"
  by (simp add: finish_def Let_def split: tx_type.split)

text \<open>Confirming changes the store for a commitment only.\<close>

lemma build_storage:
  assumes "StellarContractIdSchema arena = Inr arena"
  shows "snd (build_transaction E arena fetch salt address t p) = pg_storage p \<or>
    (\<exists>c. t = CommitTx \<and> pg_selected p = Some c \<and> length salt = 32 \<and>
       snd (build_transaction E arena fetch salt address t p) =
         saveCommitment arena (pg_currentRound p) \<lparr>so_choice = c, so_salt = salt\<rparr> (pg_storage p))"
proof (cases t)
  case CommitTx
  show ?thesis
  proof (cases "pg_selected p")
    case (Some c)
    have r: "RoundNumberSchema (of_nat n) = Inr m \<Longrightarrow> m = n" for n m
      by (auto simp: RoundNumberSchema_def schema_checked_def split: if_splits)
    show ?thesis
      using assms r [of "pg_currentRound p"]
      by (auto simp: build_transaction_def CommitTx Some buildSubmitCommitmentTransaction_def Let_def
          parsed_or_throw_def and_do_def computeCommitment_def split: sum.splits if_splits)
  qed (simp add: build_transaction_def CommitTx Let_def)
qed (simp_all add: build_transaction_def Let_def)

lemma confirm_storage:
  assumes "StellarContractIdSchema arena = Inr arena"
  shows "pg_storage (confirm E arena fetch salt p) = pg_storage p \<or>
    (\<exists>c. pg_txType p = Some CommitTx \<and> pg_selected p = Some c \<and> length salt = 32 \<and>
       pg_storage (confirm E arena fetch salt p) =
         saveCommitment arena (pg_currentRound p) \<lparr>so_choice = c, so_salt = salt\<rparr> (pg_storage p))"
proof (cases "pg_address p")
  case (Some a)
  show ?thesis
  proof (cases "pg_txType p")
    case (Some t)
    have "pg_storage (confirm E arena fetch salt p) = snd (build_transaction E arena fetch salt a t p)"
      by (simp add: confirm_def \<open>pg_address p = Some a\<close> Some split: prod.split option.split)
    then show ?thesis using build_storage [OF assms, of E fetch salt a t p] Some by auto
  qed (simp add: confirm_def Some)
qed (simp add: confirm_def)

section \<open>Properties of the page\<close>

text \<open>
  What the page of an arena guarantees to a player: what becomes of the stored commitment, what the page offers
  after a commitment, and whom it declares the winner.
\<close>

text \<open>
  C6: A stored commitment is lost only through a reveal that the network has confirmed: every step of
  the page leaves what is stored for a round alone, or is the building of a commitment for this
  round, which stores the choice selected with a new salt, or follows a confirmed reveal of this round. So a
  reveal that is refused by the wallet, rejected or timed out can be tried again.
\<close>

theorem commitment_kept_until_revealed:
  assumes "page_step E arena p p'" and "StellarContractIdSchema arena = Inr arena"
  shows "loadCommitment arena n (pg_storage p') = loadCommitment arena n (pg_storage p)
    \<or> (\<exists>fetch c salt. p' = confirm E arena fetch salt p \<and> pg_txType p = Some CommitTx \<and> pg_currentRound p = n \<and> pg_selected p = Some c
         \<and> loadCommitment arena n (pg_storage p') = Some \<lparr>so_choice = c, so_salt = salt\<rparr>)
    \<or> (\<exists>pd sign polls ans. p' = finish E arena pd sign polls ans p \<and> pd \<in> set (pg_pending p) \<and> pd_type pd = RevealTx \<and> pd_round pd = n
         \<and> submitted_ok E pd sign polls \<and> loadCommitment arena n (pg_storage p') = None)"
  using assms(1)
proof cases
  case (page_confirm fetch salt)
  from confirm_storage [OF assms(2), of E fetch salt p] show ?thesis
  proof (elim disjE exE conjE)
    fix c
    assume tx: "pg_txType p = Some CommitTx" "pg_selected p = Some c" "length salt = 32"
      and st: "pg_storage (confirm E arena fetch salt p) =
        saveCommitment arena (pg_currentRound p) \<lparr>so_choice = c, so_salt = salt\<rparr> (pg_storage p)"
    show ?thesis
      using tx st by (cases "pg_currentRound p = n") (auto simp: page_confirm load_save_same load_save_other)
  qed (simp add: page_confirm)
next
  case (page_finish pd sign polls ans)
  show ?thesis
  proof (cases "submitted_ok E pd sign polls \<and> pd_type pd = RevealTx")
    case True
    then have st: "pg_storage p' = clearCommitment arena (pd_round pd) (pg_storage p)"
      by (simp add: page_finish finish_storage clearCommitmentForRound_def)
    show ?thesis
    proof (cases "pd_round pd = n")
      case round: True
      then have "loadCommitment arena n (pg_storage p') = None" by (simp add: st load_clear)
      with True round page_finish show ?thesis by blast
    next
      case False
      then show ?thesis by (simp add: st commitments.get_remove_other [of "(arena, n)" "(arena, pd_round pd)", simplified])
    qed
  qed (auto simp: page_finish finish_storage)
qed simp_all

text \<open>
  The page offers a second commitment for a round in which one has been submitted, and building it,
  even if nothing comes of it, replaces the stored choice and salt; the reveal that is offered in the next phase
  then discloses the second choice, which is not the one whose hash the contract has.
\<close>

theorem commit_offered_again:
  assumes "pg_committed p" and "pg_joined p" and "pg_phase p = CommitPhase" and "pg_address p = Some address"
    and "commit_inputs address arena (choice_name c) (of_nat n) salt = Some (pk, arena, c, n)" and "pg_currentRound p = n"
    and "q = confirm E arena fetch salt (open_dialog arena CommitTx (select_choice c p))"
  shows "offered CommitTx (select_choice c p) \<and> offered RevealTx (time_up q)
    \<and> loadCommitment arena n (pg_storage (time_up q)) = Some \<lparr>so_choice = c, so_salt = salt\<rparr>
    \<and> (\<forall>fetch2 tx. buildRevealChoiceTransaction (ev_sdk E) (ev_cfg E) fetch2 address arena (of_nat n) (pg_storage (time_up q)) = Inr tx
         \<longrightarrow> invokes (ev_sdk E) (ev_cfg E) tx arena ''reveal_choice'' [ScSymbol (choice_name c), ScBytes salt])"
proof -
  have ids: "StellarContractIdSchema arena = Inr arena" "RoundNumberSchema (of_nat n) = Inr n" "length salt = 32"
    using assms(5) by (simp_all add: commit_inputs_Some)
  have ne: "arena \<noteq> []" using ids(1) by (auto simp: StellarContractIdSchema_def js_trim_def contract_id_regex_def short_contract_id_def split: if_splits)
  let ?p = "open_dialog arena CommitTx (select_choice c p)"
  have sel: "pg_selected ?p = Some c" "pg_txType ?p = Some CommitTx" "pg_address ?p = Some address"
    "pg_currentRound ?p = n" "pg_storage ?p = pg_storage p" "pg_committed ?p" "pg_joined ?p" "pg_phase ?p = CommitPhase"
    using assms(1-4,6) ne by (simp_all add: open_dialog_def select_choice_def)
  obtain r where build: "build_transaction E arena fetch salt address CommitTx ?p =
      (Some r, saveCommitment arena n \<lparr>so_choice = c, so_salt = salt\<rparr> (pg_storage p))"
    using commit_stores [OF assms(5), of "ev_sdk E" "ev_cfg E" fetch "ev_sha256 E" "pg_storage p"] sel
    by (simp add: build_transaction_def Let_def)
  have q: "pg_storage q = saveCommitment arena n \<lparr>so_choice = c, so_salt = salt\<rparr> (pg_storage p)"
    "pg_committed q" "pg_joined q" "pg_phase q = CommitPhase"
    using sel by (simp_all add: assms(7) confirm_def build)
  then have load: "loadCommitment arena n (pg_storage (time_up q)) = Some \<lparr>so_choice = c, so_salt = salt\<rparr>"
    using ids(3) by (simp add: load_save_same)
  have "offered RevealTx (time_up q)" using q by (simp add: time_up_def)
  moreover have "offered CommitTx (select_choice c p)" using assms(2,3) by (simp add: select_choice_def)
  ultimately show ?thesis using load by (simp add: reveal_of_stored [OF ids(1,2) load])
qed

text \<open>
  Every visitor of an arena with at most one player is the winner: for an arena without eliminations that
  one player has joined, and for any arena while the read of its player count fails, the snapshot makes the page
  of whoever looks at it say so, and offer the claim, before the game has begun.
\<close>

theorem every_visitor_wins:
  assumes "getArenaStats env a = Inr stats" and "as_playerCount stats \<le> 1"
    and "q = on_snapshot a live (snapshot_of a row stats) p"
  shows "pg_hasWon q \<and> pg_userStatus q = ''WINNER!'' \<and> offered ClaimTx q"
proof -
  have "as_survivorCount stats \<le> 1"
    using assms(1,2) by (auto simp: getArenaStats_def Let_def split: sum.splits option.splits)
  then show ?thesis
    by (simp add: assms(3) on_snapshot_def snapshot_of_def rendered_def round_effect_def Let_def)
qed

section \<open>Witnesses\<close>

definition page_demo_env :: "(string \<times> string, (string \<times> string) unsigned_tx, string) page_env" where
  "page_demo_env = \<lparr>ev_sdk = demo_stellar False, ev_cfg = demo_frontend, ev_sha256 = demo_hash\<rparr>"

definition demo_committed :: "(string \<times> string) unsigned_tx arena_page" where
  "demo_committed = (first_page demo_arena (\<lambda>_. None))
     \<lparr>pg_address := Some demo_key, pg_joined := True, pg_committed := True, pg_currentRound := 3\<rparr>"

lemma demo_inputs: "commit_inputs demo_key demo_arena (choice_name c) (of_nat 3) (replicate 32 6) = Some (demo_key, demo_arena, c, 3)"
  by (simp add: commit_inputs_def demo_ids)

theorem commit_offered_again_witness:
  "loadCommitment demo_arena 3 (pg_storage (time_up (confirm page_demo_env demo_arena no_horizon (replicate 32 6)
     (open_dialog demo_arena CommitTx (select_choice Tails demo_committed))))) = Some \<lparr>so_choice = Tails, so_salt = replicate 32 6\<rparr>"
proof -
  have "pg_committed demo_committed" "pg_joined demo_committed" "pg_phase demo_committed = CommitPhase"
    "pg_address demo_committed = Some demo_key" "pg_currentRound demo_committed = 3"
    by (simp_all add: demo_committed_def first_page_def round_effect_def)
  from commit_offered_again [OF this(1-4) demo_inputs this(5) refl] show ?thesis by blast
qed

text \<open>A reveal that the wallet refuses to sign.\<close>

definition demo_pending :: "(string \<times> string) unsigned_tx pending_tx" where
  "demo_pending = \<lparr>pd_type = RevealTx, pd_round = 3, pd_built = Inr
     \<lparr>ut_account = (demo_key, ''7''), ut_fee = ''100'', ut_networkPassphrase = ''P'', ut_timeout = 30,
      ut_operation = \<lparr>op_contract = demo_arena, op_method = ''reveal_choice'', op_args = []\<rparr>\<rparr>\<rparr>"

definition demo_revealing :: "(string \<times> string) unsigned_tx arena_page" where
  "demo_revealing = demo_committed
     \<lparr>pg_storage := saveCommitment demo_arena 3 \<lparr>so_choice = Heads, so_salt = replicate 32 5\<rparr> (\<lambda>_. None),
      pg_pending := [demo_pending]\<rparr>"

theorem commitment_kept_until_revealed_witness:
  "loadCommitment demo_arena 3 (pg_storage (finish page_demo_env demo_arena demo_pending (Inl (OtherErr ''User declined''))
     (\<lambda>_. Inr ''SUCCESS'') (Inl (OtherErr ''no'')) demo_revealing)) = Some \<lparr>so_choice = Heads, so_salt = replicate 32 5\<rparr>"
proof -
  let ?p = "finish page_demo_env demo_arena demo_pending (Inl (OtherErr ''User declined'')) (\<lambda>_. Inr ''SUCCESS'')
     (Inl (OtherErr ''no'')) demo_revealing"
  have "page_step page_demo_env demo_arena demo_revealing ?p"
    by (rule page_finish) (simp add: demo_revealing_def)
  from commitment_kept_until_revealed [OF this demo_ids(2), of 3]
  have "loadCommitment demo_arena 3 (pg_storage ?p) = loadCommitment demo_arena 3 (pg_storage demo_revealing)
      \<or> pg_txType demo_revealing = Some CommitTx \<or> loadCommitment demo_arena 3 (pg_storage ?p) = None"
    by (elim disjE exE conjE) simp_all
  moreover have "pg_storage ?p = pg_storage demo_revealing" by (simp add: finish_storage submitted_ok_def demo_pending_def)
  moreover have "pg_txType demo_revealing = None"
    by (simp add: demo_revealing_def demo_committed_def first_page_def round_effect_def)
  moreover have "loadCommitment demo_arena 3 (pg_storage demo_revealing) = Some \<lparr>so_choice = Heads, so_salt = replicate 32 5\<rparr>"
    by (simp add: demo_revealing_def load_save_same)
  ultimately show ?thesis by simp
qed

definition fresh_env :: stats_env where
  "fresh_env = \<lparr>se_arena = Inr (Some \<lparr>an_id = ''A'', an_metadata = None, an_rounds = []\<rparr>), se_poolCount = Inr 1,
     se_playerCount = Inl (Error ''timeout''), se_totalYield = Inl (Error ''timeout''), se_gameState = Inl (Error ''timeout''),
     se_now = 0\<rparr>"

theorem every_visitor_wins_witness:
  "\<exists>stats. getArenaStats fresh_env ''A'' = Inr stats \<and> as_status stats = ''pending''
    \<and> pg_userStatus (on_snapshot ''A'' True (snapshot_of ''A'' \<lparr>an_id = ''A'', an_metadata = None, an_rounds = []\<rparr> stats)
         demo_committed) = ''WINNER!''"
proof -
  obtain stats where stats: "getArenaStats fresh_env ''A'' = Inr stats" "as_playerCount stats = 1" "as_status stats = ''pending''"
    by (simp add: getArenaStats_def fresh_env_def stats_playerCount_def stats_status_def or_else_def no_meta_def
        deriveStatusFromRounds_def Let_def)
  with every_visitor_wins [OF stats(1) _ refl] show ?thesis by auto
qed

end
