(* ===== verification/Wallets.thy ===== *)
theory Wallets
  imports Forms
begin

text \<open>
  The wallets of the frontend: the hook of Freighter, frontend/src/shared-d/hooks/useWallet.ts, that of the wallet
  kit, features/wallet/useStellarWallet.ts, and the addresses of passkeys, features/wallet/usePasskeyWallet.ts.
  The extensions and Horizon are parameters. What awaits them is pending, and anything may happen before
  it returns.
\<close>

section \<open>Balances\<close>

definition text_field :: "string \<Rightarrow> jval \<Rightarrow> string option" where
  "text_field k v = (case jfield k v of Some (JStr s) \<Rightarrow> Some s | _ \<Rightarrow> None)"

definition balance_lines :: "jval \<Rightarrow> jval list" where
  "balance_lines v = (case jfield ''balances'' v of Some (JArr bs) \<Rightarrow> bs | _ \<Rightarrow> [])"

definition is_native :: "jval \<Rightarrow> bool" where
  "is_native b \<longleftrightarrow> text_field ''asset_type'' b = Some ''native''"

definition balance_of :: "jval option \<Rightarrow> js_num" where
  "balance_of b =
     (case b of None \<Rightarrow> Num 0
      | Some l \<Rightarrow> (case text_field ''balance'' l of None \<Rightarrow> NaN | Some s \<Rightarrow> parseFloat s))"

text \<open>The asset code is one of the two that the hook asks for; every failure is a balance of zero.\<close>

definition fetchAssetBalance ::
    "(rat \<Rightarrow> string) \<Rightarrow> (string \<Rightarrow> thrown + http_response) \<Rightarrow> string \<Rightarrow> string \<Rightarrow> pool_currency \<Rightarrow> js_num" where
  "fetchAssetBalance numberText fetch horizonUrl publicKey assetCode =
     (case fetch (horizonUrl @ ''/accounts/'' @ publicKey) of
        Inl e \<Rightarrow> Num 0
      | Inr res \<Rightarrow>
          if \<not> http_ok res then Num 0
          else (case hr_json res of
                  Inl e \<Rightarrow> Num 0
                | Inr v \<Rightarrow>
                    (case HorizonAccountResponseSchema numberText v of
                       Inl iss \<Rightarrow> Num 0
                     | Inr seq \<Rightarrow>
                         if assetCode = Xlm then balance_of (List.find is_native (balance_lines v))
                         else balance_of (List.find (\<lambda>b. text_field ''asset_code'' b = Some (currency_name assetCode)
                                \<and> \<not> is_native b) (balance_lines v)))))"

section \<open>useWallet\<close>

datatype wallet_status = Disconnected | ConnectingWallet | ConnectedWallet | WalletError

datatype wallet_call = CheckConnection | ConnectCall | RefreshBalance string

record wallet =
  wl_status :: wallet_status
  wl_address :: "string option"
  wl_error :: "string option"
  wl_xlm :: js_num
  wl_usdc :: js_num
  wl_loading :: bool
  wl_pending :: "wallet_call list"

text \<open>What Freighter answers to \<open>connect\<close>: an exception, the extension missing, an error, no address, or one.\<close>

datatype access_answer = AccessThrew string | AccessThrewOther | NotInstalled | AccessError string | NoAddress | Access string

definition first_wallet :: wallet where
  "first_wallet = \<lparr>wl_status = Disconnected, wl_address = None, wl_error = None, wl_xlm = Num 0, wl_usdc = Num 0,
     wl_loading = False, wl_pending = [CheckConnection]\<rparr>"

definition refreshBalance :: "wallet \<Rightarrow> wallet" where
  "refreshBalance w =
     (case wl_address w of None \<Rightarrow> w
      | Some a \<Rightarrow> if a = [] then w else w\<lparr>wl_loading := True, wl_pending := RefreshBalance a # wl_pending w\<rparr>)"

text \<open>The effect that refreshes the balance of a newly connected address.\<close>

definition wallet_effect :: "wallet \<Rightarrow> wallet \<Rightarrow> wallet" where
  "wallet_effect old new =
     (if (wl_status new \<noteq> wl_status old \<or> wl_address new \<noteq> wl_address old) \<and> wl_address new \<noteq> None
         \<and> wl_status new = ConnectedWallet
      then refreshBalance new else new)"

definition drop_call :: "wallet_call \<Rightarrow> wallet \<Rightarrow> wallet" where
  "drop_call c w = w\<lparr>wl_pending := remove1 c (wl_pending w)\<rparr>"

text \<open>The check at the start returns an address or nothing; an address that is not a key is ignored.\<close>

definition check_returns :: "string option \<Rightarrow> wallet \<Rightarrow> wallet" where
  "check_returns answer w0 =
     (let w = drop_call CheckConnection w0 in
      (case answer of
         None \<Rightarrow> w
       | Some a \<Rightarrow>
           if a = [] then w
           else (case StellarPublicKeySchema a of
                   Inl iss \<Rightarrow> w
                 | Inr pk \<Rightarrow> wallet_effect w (w\<lparr>wl_address := Some pk, wl_status := ConnectedWallet\<rparr>))))"

definition connect_wallet :: "wallet \<Rightarrow> wallet" where
  "connect_wallet w =
     w\<lparr>wl_status := ConnectingWallet, wl_error := None, wl_pending := ConnectCall # wl_pending w\<rparr>"

definition connect_failed :: "string \<Rightarrow> wallet \<Rightarrow> wallet" where
  "connect_failed m w = w\<lparr>wl_error := Some m, wl_status := WalletError, wl_address := None\<rparr>"

text \<open>\<open>zodText\<close> is the message of a schema error.\<close>

definition connect_returns :: "(string list \<Rightarrow> string) \<Rightarrow> access_answer \<Rightarrow> wallet \<Rightarrow> wallet" where
  "connect_returns zodText answer w0 =
     (let w = drop_call ConnectCall w0 in
      (case answer of
         AccessThrew m \<Rightarrow> connect_failed m w
       | AccessThrewOther \<Rightarrow> connect_failed ''Failed to connect wallet'' w
       | NotInstalled \<Rightarrow> connect_failed ''Freighter wallet is not installed'' w
       | AccessError m \<Rightarrow> connect_failed m w
       | NoAddress \<Rightarrow> connect_failed ''User rejected the connection'' w
       | Access a \<Rightarrow>
           (case StellarPublicKeySchema a of
              Inl iss \<Rightarrow> connect_failed (zodText iss) w
            | Inr pk \<Rightarrow> wallet_effect w (w\<lparr>wl_address := Some pk, wl_status := ConnectedWallet\<rparr>))))"

definition disconnect_wallet :: "wallet \<Rightarrow> wallet" where
  "disconnect_wallet w =
     w\<lparr>wl_status := Disconnected, wl_address := None, wl_error := None, wl_xlm := Num 0, wl_usdc := Num 0\<rparr>"

definition refresh_returns :: "string \<Rightarrow> js_num \<Rightarrow> js_num \<Rightarrow> wallet \<Rightarrow> wallet" where
  "refresh_returns a xlm usdc w =
     (drop_call (RefreshBalance a) w)\<lparr>wl_xlm := xlm, wl_usdc := usdc, wl_loading := False\<rparr>"

inductive wallet_step :: "(string list \<Rightarrow> string) \<Rightarrow> wallet \<Rightarrow> wallet \<Rightarrow> bool" for zodText where
  wallet_check: "CheckConnection \<in> set (wl_pending w) \<Longrightarrow> wallet_step zodText w (check_returns answer w)"
| wallet_connect: "wallet_step zodText w (connect_wallet w)"
| wallet_access: "ConnectCall \<in> set (wl_pending w) \<Longrightarrow> wallet_step zodText w (connect_returns zodText answer w)"
| wallet_disconnect: "wallet_step zodText w (disconnect_wallet w)"
| wallet_refresh: "wallet_step zodText w (refreshBalance w)"
| wallet_balance: "RefreshBalance a \<in> set (wl_pending w) \<Longrightarrow> wallet_step zodText w (refresh_returns a xlm usdc w)"

text \<open>\<open>signTransaction\<close>: the answer of the extension to a checked transaction is checked as well.\<close>

definition sign_with_wallet ::
    "(string list \<Rightarrow> string) \<Rightarrow> (string \<Rightarrow> thrown + (string option \<times> string)) \<Rightarrow> string \<Rightarrow> thrown + string" where
  "sign_with_wallet zodText extension xdr =
     (case SignedXdrSchema xdr of
        Inl iss \<Rightarrow> Inl (OtherErr (zodText iss))
      | Inr x \<Rightarrow>
          (case extension x of
             Inl e \<Rightarrow> Inl e
           | Inr (Some err, _) \<Rightarrow> Inl (OtherErr err)
           | Inr (None, result) \<Rightarrow>
               (case SignedXdrSchema result of Inl iss \<Rightarrow> Inl (OtherErr (zodText iss)) | Inr y \<Rightarrow> Inr y)))"

section \<open>useStellarWallet\<close>

definition isValidStellarPublicKey :: "string \<Rightarrow> bool" where
  "isValidStellarPublicKey a \<longleftrightarrow> public_key_regex a"

text \<open>\<open>kw_flag\<close> is the flag in local storage that says that the user disconnected.\<close>

record kit_wallet =
  kw_publicKey :: "string option"
  kw_isConnected :: bool
  kw_status :: wallet_status
  kw_error :: "string option"
  kw_flag :: bool
  kw_pending :: nat

definition first_kit :: "bool \<Rightarrow> kit_wallet" where
  "first_kit flag = \<lparr>kw_publicKey = None, kw_isConnected = False, kw_status = Disconnected, kw_error = None,
     kw_flag = flag, kw_pending = 0\<rparr>"

definition connectWallet :: "kit_wallet \<Rightarrow> kit_wallet" where
  "connectWallet w = w\<lparr>kw_status := ConnectingWallet, kw_error := None, kw_flag := False, kw_pending := kw_pending w + 1\<rparr>"

text \<open>\<open>Inl\<close> is an exception of the dialog, with its message or none.\<close>

definition authModal_returns :: "string option + string \<Rightarrow> kit_wallet \<Rightarrow> kit_wallet" where
  "authModal_returns answer w0 =
     (let w = w0\<lparr>kw_pending := kw_pending w0 - 1\<rparr> in
      (case answer of
         Inr address \<Rightarrow>
           if \<not> isValidStellarPublicKey address
           then w\<lparr>kw_isConnected := False, kw_publicKey := None, kw_status := WalletError,
                  kw_error := Some ''Wallet returned an invalid public key. Please try reconnecting.''\<rparr>
           else w\<lparr>kw_publicKey := Some address, kw_isConnected := True, kw_status := ConnectedWallet\<rparr>
       | Inl m \<Rightarrow>
           w\<lparr>kw_isConnected := False, kw_publicKey := None, kw_status := WalletError,
             kw_error := Some (case m of Some t \<Rightarrow> t | None \<Rightarrow> ''Failed to connect wallet'')\<rparr>))"

definition disconnectWallet :: "kit_wallet \<Rightarrow> kit_wallet" where
  "disconnectWallet w =
     w\<lparr>kw_publicKey := None, kw_isConnected := False, kw_status := Disconnected, kw_error := None, kw_flag := True\<rparr>"

inductive kit_step :: "kit_wallet \<Rightarrow> kit_wallet \<Rightarrow> bool" where
  kit_connect: "kit_step w (connectWallet w)"
| kit_answer: "0 < kw_pending w \<Longrightarrow> kit_step w (authModal_returns answer w)"
| kit_disconnect: "kit_step w (disconnectWallet w)"

section \<open>Passkey addresses\<close>

text \<open>Numbers above 2^53 are rounded to 53 bits, ties to even; \<open>to_int32\<close> is \<open>x | 0\<close>.\<close>

fun bits_of :: "nat \<Rightarrow> nat" where
  "bits_of n = (if n = 0 then 0 else Suc (bits_of (n div 2)))"

declare bits_of.simps [simp del]

definition to_double :: "nat \<Rightarrow> nat" where
  "to_double n =
     (let e = bits_of n - 53; u = 2 ^ e; q = n div u; r = n mod u
      in if 2 * r < u then q * u else if 2 * r > u then (q + 1) * u else (q + q mod 2) * u)"

definition to_int32 :: "nat \<Rightarrow> int" where
  "to_int32 n = sint (word_of_nat n :: 32 word)"

definition base32Chars :: string where
  "base32Chars = ''ABCDEFGHIJKLMNOPQRSTUVWXYZ234567''"

text \<open>\<open>hash = ((hash << 5) - hash + c) | 0\<close>\<close>

definition hash_char :: "char \<Rightarrow> 32 word \<Rightarrow> 32 word" where
  "hash_char c h = push_bit 5 h - h + word_of_nat (code_of c)"

definition credential_hash :: "string \<Rightarrow> 32 word" where
  "credential_hash s = fold hash_char s 0"

definition next_seed :: "nat \<Rightarrow> nat" where
  "next_seed seed = nat \<bar>to_int32 (to_double (to_double (seed * 1103515245) + 12345))\<bar>"

fun address_chars :: "nat \<Rightarrow> nat \<Rightarrow> string" where
  "address_chars 0 seed = []"
| "address_chars (Suc n) seed = base32Chars ! (seed mod 32) # address_chars n (next_seed seed)"

definition deriveAddress :: "string \<Rightarrow> string" where
  "deriveAddress credentialId = ''G'' @ address_chars 55 (nat \<bar>sint (credential_hash credentialId)\<bar>)"

end
