(* ===== verification/WalletResults.thy ===== *)
theory WalletResults
  imports Wallets StellarResults
begin

text \<open>
  What the hooks of the wallets guarantee, what a disconnection does not undo, and the addresses of passkeys.
\<close>

section \<open>Connections\<close>

definition valid_key :: "string \<Rightarrow> bool" where
  "valid_key a \<longleftrightarrow> public_key_regex a"

definition wallet_inv :: "wallet \<Rightarrow> bool" where
  "wallet_inv w \<longleftrightarrow> (wl_status w = ConnectedWallet \<longrightarrow> wl_address w \<noteq> None)
     \<and> (\<forall>a. wl_address w = Some a \<longrightarrow> valid_key a) \<and> (\<forall>a. RefreshBalance a \<in> set (wl_pending w) \<longrightarrow> valid_key a)
     \<and> (wl_status w = WalletError \<longrightarrow> wl_error w \<noteq> None \<and> wl_address w = None)"

lemma schema_key: "StellarPublicKeySchema a = Inr k \<Longrightarrow> valid_key k"
  by (auto simp: StellarPublicKeySchema_def valid_key_def split: if_splits)

lemma inv_drop: "wallet_inv w \<Longrightarrow> wallet_inv (drop_call c w)"
  by (auto simp: wallet_inv_def drop_call_def dest: notin_set_remove1)

lemma inv_refresh: "wallet_inv w \<Longrightarrow> wallet_inv (refreshBalance w)"
  by (auto simp: wallet_inv_def refreshBalance_def split: option.split)

lemma inv_effect: "wallet_inv new \<Longrightarrow> wallet_inv (wallet_effect old new)"
  by (simp add: wallet_effect_def inv_refresh)

lemma inv_connected: "wallet_inv w \<Longrightarrow> valid_key k \<Longrightarrow> wallet_inv (w\<lparr>wl_address := Some k, wl_status := ConnectedWallet\<rparr>)"
  by (simp add: wallet_inv_def)

lemma inv_failed: "wallet_inv w \<Longrightarrow> wallet_inv (connect_failed m w)"
  by (simp add: wallet_inv_def connect_failed_def)

lemma wallet_inv_step: "wallet_step zodText w w' \<Longrightarrow> wallet_inv w \<Longrightarrow> wallet_inv w'"
proof (induction rule: wallet_step.induct)
  case (wallet_check w answer)
  then show ?case
    by (auto simp: check_returns_def Let_def inv_drop intro!: inv_effect inv_connected dest: schema_key split: option.split sum.split)
next
  case (wallet_access w answer)
  then show ?case
    by (auto simp: connect_returns_def Let_def inv_drop inv_failed intro!: inv_effect inv_connected dest: schema_key
        split: access_answer.split sum.split)
next
  case (wallet_connect w)
  then show ?case by (auto simp: wallet_inv_def connect_wallet_def)
next
  case (wallet_disconnect w)
  then show ?case by (auto simp: wallet_inv_def disconnect_wallet_def)
next
  case (wallet_refresh w)
  then show ?case by (rule inv_refresh)
next
  case (wallet_balance a w xlm usdc)
  then show ?case using inv_drop [of w "RefreshBalance a"] by (simp add: wallet_inv_def refresh_returns_def)
qed

lemma wallet_run: "(wallet_step zodText)\<^sup>*\<^sup>* first_wallet w \<Longrightarrow> wallet_inv w"
  by (induction rule: rtranclp_induct) (simp add: first_wallet_def wallet_inv_def, rule wallet_inv_step)

text \<open>
  However connections, disconnections, answers of the extension and of Horizon interleave, a
  connected wallet has an address, every address is a Stellar key, balances are asked for keys only, and a
  wallet in error has a message and no address.
\<close>

theorem connected_wallet_has_key:
  assumes "(wallet_step zodText)\<^sup>*\<^sup>* first_wallet w"
  shows "(wl_status w = ConnectedWallet \<longrightarrow> wl_address w \<noteq> None)
    \<and> (\<forall>a. wl_address w = Some a \<or> RefreshBalance a \<in> set (wl_pending w) \<longrightarrow> public_key_regex a)
    \<and> (wl_status w = WalletError \<longrightarrow> wl_error w \<noteq> None \<and> wl_address w = None)"
  using wallet_run [OF assms] by (auto simp: wallet_inv_def valid_key_def)

text \<open>
  Disconnecting does not undo what is pending. A connection or the check of the start that returns
  an address afterwards connects the wallet again, and a balance that returns afterwards is shown for a wallet
  that is not connected; with the wallet kit the flag of the disconnection then stays set.
\<close>

theorem disconnect_undone:
  assumes "StellarPublicKeySchema a = Inr pk"
  shows "wl_status (connect_returns zodText (Access a) (disconnect_wallet w)) = ConnectedWallet
    \<and> wl_status (check_returns (Some a) (disconnect_wallet w)) = ConnectedWallet
    \<and> wl_address (refresh_returns pk xlm usdc (disconnect_wallet w)) = None
    \<and> wl_xlm (refresh_returns pk xlm usdc (disconnect_wallet w)) = xlm
    \<and> kw_isConnected (authModal_returns (Inr pk) (disconnectWallet k)) \<and> kw_flag (authModal_returns (Inr pk) (disconnectWallet k))"
proof -
  have "a \<noteq> []" using assms by (auto simp: StellarPublicKeySchema_def js_trim_def public_key_regex_def split: if_splits)
  moreover have "isValidStellarPublicKey pk" using schema_key [OF assms] by (simp add: valid_key_def isValidStellarPublicKey_def)
  moreover have "wl_status (refreshBalance v) = wl_status v" for v
    by (simp add: refreshBalance_def split: option.split)
  then have "wl_status (wallet_effect u v) = wl_status v" for u v by (simp add: wallet_effect_def)
  ultimately show ?thesis
    by (simp add: connect_returns_def check_returns_def assms refresh_returns_def drop_call_def disconnect_wallet_def
        authModal_returns_def disconnectWallet_def Let_def)
qed

text \<open>The kit: connected is having a key, which is a Stellar key.\<close>

lemma kit_inv: "kit_step\<^sup>*\<^sup>* (first_kit flag) w \<Longrightarrow>
    kw_isConnected w = (kw_publicKey w \<noteq> None) \<and> (\<forall>a. kw_publicKey w = Some a \<longrightarrow> public_key_regex a)"
proof (induction rule: rtranclp_induct)
  case (step y z)
  from step(2,3) show ?case
    by (cases rule: kit_step.cases)
      (auto simp: connectWallet_def authModal_returns_def disconnectWallet_def isValidStellarPublicKey_def Let_def split: sum.splits)
qed (simp add: first_kit_def)

section \<open>Balances\<close>

lemma find_append_hit: "P x \<Longrightarrow> List.find P (filter (\<lambda>y. \<not> P y) xs @ x # ys) = Some x"
  by (induction xs) auto

text \<open>
  The balance in USDC is that of the first line with this code, from whatever issuer: a line of
  anybody's token named USDC in front of the real one is the balance the forms check stakes against.
\<close>

theorem any_usdc_counts:
  assumes "fetch (url @ ''/accounts/'' @ pk) = Inr res" and "http_ok res" and "hr_json res = Inr v"
    and "HorizonAccountResponseSchema numberText v = Inr seq"
    and "jfield ''balances'' v = Some (JArr (pre @ l # post))"
    and "list_all (\<lambda>b. text_field ''asset_code'' b \<noteq> Some ''USDC'') pre"
    and "text_field ''asset_code'' l = Some ''USDC''" and "text_field ''asset_type'' l = Some ''credit_alphanum4''"
    and "text_field ''balance'' l = Some amount"
  shows "fetchAssetBalance numberText fetch url pk Usdc = parseFloat amount"
proof -
  let ?P = "\<lambda>b. text_field ''asset_code'' b = Some (currency_name Usdc) \<and> \<not> is_native b"
  have "List.find ?P (pre @ l # post) = Some l"
    using assms(6-8) by (induction pre) (auto simp: is_native_def)
  then show ?thesis using assms(1-5,9) by (simp add: fetchAssetBalance_def balance_lines_def balance_of_def)
qed

section \<open>Passkeys\<close>

lemma hash_collision: "hash_char (CHR ''a'') (hash_char (CHR ''A'') h) = hash_char (CHR ''B'') (hash_char (CHR ''B'') h)"
  by (simp add: hash_char_def code_of_def push_bit_eq_mult algebra_simps)

lemma address_shape: "length (address_chars n seed) = n \<and> list_all is_base32 (address_chars n seed)"
proof (induction n arbitrary: seed)
  case (Suc n)
  have "list_all is_base32 base32Chars" by (simp add: base32Chars_def is_base32_def char_class_defs)
  moreover have "seed mod 32 < length base32Chars" by (simp add: base32Chars_def)
  ultimately have "is_base32 (base32Chars ! (seed mod 32))" by (simp add: list_all_length)
  with Suc show ?case by simp
qed simp

text \<open>
  The address derived from a passkey has the form of a Stellar key, but it is that of a 32-bit hash:
  credentials that differ only in Aa for BB, anywhere in them, have the same address.
\<close>

theorem passkeys_share_address:
  "public_key_regex (deriveAddress credential)
    \<and> deriveAddress (a @ ''Aa'' @ b) = deriveAddress (a @ ''BB'' @ b) \<and> a @ ''Aa'' @ b \<noteq> a @ ''BB'' @ b"
  by (simp add: deriveAddress_def credential_hash_def hash_collision public_key_regex_def address_shape)

section \<open>Witnesses\<close>

theorem connected_wallet_has_key_witness:
  "wl_status (connect_returns concat (Access demo_key) (connect_wallet first_wallet)) = ConnectedWallet
    \<and> wl_address (connect_returns concat (Access demo_key) (connect_wallet first_wallet)) \<noteq> None"
proof -
  let ?w = "connect_returns concat (Access demo_key) (connect_wallet first_wallet)"
  have "wallet_step concat first_wallet (connect_wallet first_wallet)" by (rule wallet_connect)
  moreover have "wallet_step concat (connect_wallet first_wallet) ?w"
    by (rule wallet_access) (simp add: connect_wallet_def)
  ultimately have "(wallet_step concat)\<^sup>*\<^sup>* first_wallet ?w" by simp
  moreover have "wl_status ?w = ConnectedWallet"
    by (simp add: connect_returns_def demo_ids wallet_effect_def refreshBalance_def drop_call_def connect_wallet_def
        first_wallet_def Let_def)
  ultimately show ?thesis using connected_wallet_has_key by blast
qed

theorem disconnect_undone_witness:
  "wl_status (connect_returns concat (Access demo_key) (disconnect_wallet (connect_wallet first_wallet))) = ConnectedWallet"
  using disconnect_undone [OF demo_ids(1), of concat "connect_wallet first_wallet"] by blast

definition demo_lines :: jval where
  "demo_lines = JObj [(''sequence'', JStr ''7''), (''balances'', JArr
     [JObj [(''asset_type'', JStr ''credit_alphanum4''), (''asset_code'', JStr ''USDC''), (''balance'', JStr ''1000000'')],
      JObj [(''asset_type'', JStr ''credit_alphanum4''), (''asset_code'', JStr ''USDC''), (''balance'', JStr ''5'')]])]"

theorem any_usdc_counts_witness:
  "fetchAssetBalance (\<lambda>_. []) (\<lambda>_. Inr \<lparr>hr_status = 200, hr_json = Inr demo_lines\<rparr>) ''H'' ''G'' Usdc = parseFloat ''1000000''"
proof -
  let ?l = "JObj [(''asset_type'', JStr ''credit_alphanum4''), (''asset_code'', JStr ''USDC''), (''balance'', JStr ''1000000'')]"
  let ?m = "JObj [(''asset_type'', JStr ''credit_alphanum4''), (''asset_code'', JStr ''USDC''), (''balance'', JStr ''5'')]"
  have "HorizonAccountResponseSchema (\<lambda>_. []) demo_lines = Inr ''7''"
    by (simp add: demo_lines_def HorizonAccountResponseSchema_def balance_ok_def is_string_field_def)
  moreover have "jfield ''balances'' demo_lines = Some (JArr ([] @ ?l # [?m]))" by (simp add: demo_lines_def)
  moreover have "text_field ''asset_code'' ?l = Some ''USDC''" "text_field ''asset_type'' ?l = Some ''credit_alphanum4''"
    "text_field ''balance'' ?l = Some ''1000000''" by (simp_all add: text_field_def)
  ultimately show ?thesis
    using any_usdc_counts [where fetch = "\<lambda>_. Inr \<lparr>hr_status = 200, hr_json = Inr demo_lines\<rparr>" and url = "''H''" and pk = "''G''"
        and res = "\<lparr>hr_status = 200, hr_json = Inr demo_lines\<rparr>" and v = demo_lines and numberText = "\<lambda>_. []"
        and seq = "''7''" and pre = "[]" and l = ?l and post = "[?m]" and amount = "''1000000''"]
    by (simp add: http_ok_def)
qed

end
