(* ===== verification/HttpCache.thy ===== *)
theory HttpCache
  imports Sessions
begin

text \<open>
  What surrounds the handlers of the backend: middleware/errorHandler.ts with utils/apiError.ts, the cache of
  responses in cache/cacheService.ts and middleware/cache.ts, the keys of the cached routes, the
  invalidations of controllers/payouts.controller.ts and services/roundService.ts, and the yield of
  routes/oracle.ts with middleware/verifyWebhook.ts.
\<close>

section \<open>Errors\<close>

definition defaultErrorCode :: "nat \<Rightarrow> string" where
  "defaultErrorCode status =
     (if status = 400 then ''BAD_REQUEST'' else if status = 401 then ''UNAUTHORIZED''
      else if status = 403 then ''FORBIDDEN'' else if status = 404 then ''NOT_FOUND''
      else if status = 409 then ''CONFLICT'' else if status = 410 then ''GONE''
      else if status = 429 then ''RATE_LIMITED'' else if status = 503 then ''SERVICE_UNAVAILABLE''
      else if status \<ge> 500 then ''INTERNAL_SERVER_ERROR'' else ''REQUEST_FAILED'')"

text \<open>A response; \<open>hp_cache\<close> is the header X-Cache.\<close>

record http_reply =
  hp_status :: nat
  hp_body :: jval
  hp_cache :: "string option"

definition api_error_body :: "string \<Rightarrow> string \<Rightarrow> jval list option \<Rightarrow> jval" where
  "api_error_body code message issues =
     JObj [(''error'', JObj ([(''code'', JStr code), (''message'', JStr message)] @
       (case issues of None \<Rightarrow> [] | Some xs \<Rightarrow> [(''issues'', JArr xs)])))]"

fun error_status :: "js_error \<Rightarrow> nat" where
  "error_status (StatusError status _) = status"
| "error_status (HttpErr status _ _) = status"
| "error_status (CircuitOpenError _) = 503"
| "error_status (ZodFailure _) = 400"
| "error_status _ = 500"

fun error_code :: "js_error \<Rightarrow> string" where
  "error_code (HttpErr _ code _) = code"
| "error_code e = defaultErrorCode (error_status e)"

text \<open>\<open>issuesOf\<close> are the issues of a schema that failed.\<close>

definition errorHandler :: "(string \<Rightarrow> jval list) \<Rightarrow> js_error \<Rightarrow> http_reply" where
  "errorHandler issuesOf e =
     \<lparr>hp_status = error_status e,
      hp_body = (case e of
         ZodFailure m \<Rightarrow> api_error_body ''VALIDATION_ERROR'' ''Validation error'' (Some (issuesOf m))
       | NotAnError \<Rightarrow> api_error_body (error_code e) ''Internal server error'' None
       | _ \<Rightarrow> api_error_body (error_code e) (err_message e) None),
      hp_cache = None\<rparr>"

text \<open>\<open>asyncHandler\<close>: what a handler throws goes to the error handler.\<close>

definition asyncHandler :: "(string \<Rightarrow> jval list) \<Rightarrow> js_error + nat \<times> jval \<Rightarrow> http_reply" where
  "asyncHandler issuesOf out =
     (case out of
        Inl e \<Rightarrow> errorHandler issuesOf e
      | Inr (status, body) \<Rightarrow> \<lparr>hp_status = status, hp_body = body, hp_cache = None\<rparr>)"

section \<open>The cache\<close>

text \<open>
  Beyond the commands of \<open>redis\<close>: \<open>KEYS pattern\<close>, \<open>SET\<close> without an expiry, and the
  serialisation of JSON.
\<close>

record 's cache_env =
  ce_redis :: "'s redis"
  ce_keys :: "int \<Rightarrow> string \<Rightarrow> 's \<Rightarrow> string list"
  ce_put :: "string \<Rightarrow> string \<Rightarrow> 's \<Rightarrow> 's"
  ce_stringify :: "jval \<Rightarrow> string"
  ce_parse :: "string \<Rightarrow> js_error + jval"

text \<open>A character that means itself in a pattern.\<close>

definition glob_plain :: "char \<Rightarrow> bool" where
  "glob_plain c \<longleftrightarrow> c \<noteq> CHR ''*'' \<and> c \<noteq> CHR ''?'' \<and> c \<noteq> CHR ''['' \<and> c \<noteq> CHR '']'' \<and> code_of c \<noteq> 92"

locale http_cache = redis_store "ce_redis C" for C :: "'s cache_env" +
  assumes keys: "list_all glob_plain p \<Longrightarrow>
      set (ce_keys C n (p @ ''*'') s) = {k. starts_with p k \<and> rd_get (ce_redis C) n k s \<noteq> None}"
    and get_put: "rd_get (ce_redis C) n k' (ce_put C k v s) = (if k' = k then Some v else rd_get (ce_redis C) n k' s)"
    and parse: "ce_parse C (ce_stringify C x) = Inr x"
    and stringify: "ce_stringify C x \<noteq> []"

definition cache_get :: "'s cache_env \<Rightarrow> int \<Rightarrow> string \<Rightarrow> 's \<Rightarrow> js_error + jval" where
  "cache_get C now key s =
     (case rd_get (ce_redis C) now key s of
        None \<Rightarrow> Inr JNull
      | Some data \<Rightarrow> if data = [] then Inr JNull else ce_parse C data)"

definition cache_set :: "'s cache_env \<Rightarrow> int \<Rightarrow> string \<Rightarrow> jval \<Rightarrow> int \<Rightarrow> 's \<Rightarrow> 's" where
  "cache_set C now key value ttlSeconds s = rd_set (ce_redis C) now key (ce_stringify C value) ttlSeconds s"

definition cache_del :: "'s cache_env \<Rightarrow> string \<Rightarrow> 's \<Rightarrow> 's" where
  "cache_del C key s = rd_del (ce_redis C) key s"

definition delByPattern :: "'s cache_env \<Rightarrow> int \<Rightarrow> string \<Rightarrow> 's \<Rightarrow> 's" where
  "delByPattern C now pattern s = fold (rd_del (ce_redis C)) (ce_keys C now pattern s) s"

definition oracleYield_key :: string where
  "oracleYield_key = ''oracle:yield''"

definition arenaStats_key :: "string \<Rightarrow> string" where
  "arenaStats_key arenaId = ''arena:stats:'' @ arenaId"

definition leaderboard_key :: string where
  "leaderboard_key = ''leaderboard''"

definition cacheTTL_ORACLE_YIELD :: int where "cacheTTL_ORACLE_YIELD = 60"
definition cacheTTL_ARENA_STATS :: int where "cacheTTL_ARENA_STATS = 15"
definition cacheTTL_ARENA_ROUNDS :: int where "cacheTTL_ARENA_ROUNDS = 10"
definition cacheTTL_LEADERBOARD :: int where "cacheTTL_LEADERBOARD = 30"

definition query_text :: "string option \<Rightarrow> string \<Rightarrow> string" where
  "query_text v d = (case v of None \<Rightarrow> d | Some t \<Rightarrow> t)"

definition leaderboard_page_key :: "string option \<Rightarrow> string option \<Rightarrow> string" where
  "leaderboard_page_key lmt cursor = leaderboard_key @ '':'' @ query_text lmt ''20'' @ '':'' @ query_text cursor ''0''"

definition arena_rounds_key :: "string \<Rightarrow> string option \<Rightarrow> string option \<Rightarrow> string" where
  "arena_rounds_key i lmt cursor =
     ''arena:rounds:'' @ i @ '':'' @ query_text lmt ''25'' @ '':'' @ query_text cursor ''0''"

definition pool_eliminations_key :: "string \<Rightarrow> string option \<Rightarrow> string option \<Rightarrow> string" where
  "pool_eliminations_key i lmt cursor =
     ''pool:eliminations:'' @ i @ '':'' @ query_text lmt ''25'' @ '':'' @ query_text cursor ''0''"

definition invalidateArenaStats :: "'s cache_env \<Rightarrow> string \<Rightarrow> 's \<Rightarrow> 's" where
  "invalidateArenaStats C arenaId s = cache_del C (arenaStats_key arenaId) s"

text \<open>What the creation of a payout does to the cache.\<close>

definition payout_invalidation :: "'s cache_env \<Rightarrow> int \<Rightarrow> 's \<Rightarrow> 's" where
  "payout_invalidation C now s = cache_del C leaderboard_key (delByPattern C now ''arena:stats:*'' s)"

section \<open>The middleware\<close>

text \<open>
  \<open>cache_lookup\<close> is the cached body; a cached null counts as nothing, and what the lookup throws too.
  A hit is sent with the status of a fresh response. A response of the handler, or of the error
  handler after it, is stored whatever its status.
\<close>

definition cache_lookup :: "'s cache_env \<Rightarrow> int \<Rightarrow> string \<Rightarrow> 's \<Rightarrow> jval option" where
  "cache_lookup C now key s =
     (case cache_get C now key s of
        Inl e \<Rightarrow> None
      | Inr v \<Rightarrow> if v = JNull then None else Some v)"

definition hit_reply :: "jval \<Rightarrow> http_reply" where
  "hit_reply v = \<lparr>hp_status = 200, hp_body = v, hp_cache = Some ''HIT''\<rparr>"

definition miss_reply :: "http_reply \<Rightarrow> http_reply" where
  "miss_reply r = r\<lparr>hp_cache := Some ''MISS''\<rparr>"

section \<open>Requests\<close>

text \<open>
  An open request missed the cache and waits for its handler. \<open>wb_answers\<close> records what the handlers
  have answered: the key, the time of arrival, the time of the answer with its ttl, and the body.
\<close>

record open_request =
  or_id :: nat
  or_key :: string
  or_ttl :: int
  or_arrived :: int

record handler_answer =
  ha_key :: string
  ha_arrived :: int
  ha_at :: int
  ha_ttl :: int
  ha_reply :: http_reply

record 's web =
  wb_store :: 's
  wb_now :: int
  wb_open :: "open_request list"
  wb_fresh :: nat
  wb_answers :: "handler_answer list"

datatype web_event =
    Arrive string int
  | Answered open_request http_reply bool
  | Wait nat
  | Invalidate string
  | PayoutCreated
  | YieldPosted jval

definition cache_arrive :: "'s cache_env \<Rightarrow> string \<Rightarrow> int \<Rightarrow> 's web \<Rightarrow> http_reply option \<times> 's web" where
  "cache_arrive C key ttl w =
     (case cache_lookup C (wb_now w) key (wb_store w) of
        Some v \<Rightarrow> (Some (hit_reply v), w)
      | None \<Rightarrow>
          (None, w\<lparr>wb_open := \<lparr>or_id = wb_fresh w, or_key = key, or_ttl = ttl, or_arrived = wb_now w\<rparr> # wb_open w,
             wb_fresh := wb_fresh w + 1\<rparr>))"

text \<open>\<open>stored\<close>: whether Redis could be reached; a failure to store is ignored.\<close>

definition cache_answered :: "'s cache_env \<Rightarrow> open_request \<Rightarrow> http_reply \<Rightarrow> bool \<Rightarrow> 's web \<Rightarrow> http_reply \<times> 's web" where
  "cache_answered C q r stored w =
     (miss_reply r,
      w\<lparr>wb_open := remove1 q (wb_open w),
        wb_answers := \<lparr>ha_key = or_key q, ha_arrived = or_arrived q, ha_at = wb_now w, ha_ttl = or_ttl q, ha_reply = r\<rparr>
          # wb_answers w,
        wb_store := (if stored then cache_set C (wb_now w) (or_key q) (hp_body r) (or_ttl q) (wb_store w) else wb_store w)\<rparr>)"

fun web_handle :: "'s cache_env \<Rightarrow> web_event \<Rightarrow> 's web \<Rightarrow> 's web" where
  "web_handle C (Arrive key ttl) w = snd (cache_arrive C key ttl w)"
| "web_handle C (Answered q r stored) w = snd (cache_answered C q r stored w)"
| "web_handle C (Wait ms) w = w\<lparr>wb_now := wb_now w + int ms\<rparr>"
| "web_handle C (Invalidate arenaId) w = w\<lparr>wb_store := invalidateArenaStats C arenaId (wb_store w)\<rparr>"
| "web_handle C PayoutCreated w = w\<lparr>wb_store := payout_invalidation C (wb_now w) (wb_store w)\<rparr>"
| "web_handle C (YieldPosted y) w = w\<lparr>wb_store := ce_put C oracleYield_key (ce_stringify C y) (wb_store w)\<rparr>"

fun web_possible :: "web_event \<Rightarrow> 's web \<Rightarrow> bool" where
  "web_possible (Answered q r stored) w = (q \<in> set (wb_open w))"
| "web_possible _ w = True"

text \<open>The events that write or delete a key.\<close>

fun touches :: "string \<Rightarrow> web_event \<Rightarrow> bool" where
  "touches k (Arrive _ _) = False"
| "touches k (Answered q r stored) = (or_key q = k)"
| "touches k (Wait _) = False"
| "touches k (Invalidate arenaId) = (k = arenaStats_key arenaId)"
| "touches k PayoutCreated = (k = leaderboard_key \<or> starts_with ''arena:stats:'' k)"
| "touches k (YieldPosted _) = (k = oracleYield_key)"

inductive web_step :: "'s cache_env \<Rightarrow> 's web \<Rightarrow> 's web \<Rightarrow> bool" for C where
  web: "web_possible ev w \<Longrightarrow> web_step C w (web_handle C ev w)"

inductive away_step :: "'s cache_env \<Rightarrow> string \<Rightarrow> 's web \<Rightarrow> 's web \<Rightarrow> bool" for C k where
  away: "web_possible ev w \<Longrightarrow> \<not> touches k ev \<Longrightarrow> away_step C k w (web_handle C ev w)"

inductive_cases web_stepE: "web_step C w w'"
inductive_cases away_stepE: "away_step C k w w'"

section \<open>The yield of the oracle\<close>

text \<open>\<open>started\<close> is the time at which the server started.\<close>

definition DEFAULT_YIELD :: "string \<Rightarrow> (string \<times> jval) list" where
  "DEFAULT_YIELD started =
     [(''protocol'', JStr ''Ondo USDY''), (''currentAPY'', JNum (21 / 4)), (''baseRate'', JNum (24 / 5)),
      (''surgeMultiplier'', JNum 1), (''lastUpdated'', JStr started), (''asset'', JStr ''USDY''),
      (''network'', JStr ''stellar'')]"

definition get_yield :: "'s cache_env \<Rightarrow> string \<Rightarrow> int \<Rightarrow> 's \<Rightarrow> js_error + nat \<times> jval" where
  "get_yield C started now s =
     (case cache_get C now oracleYield_key s of
        Inl e \<Rightarrow> Inl e
      | Inr v \<Rightarrow> Inr (200, if v = JNull then JObj (DEFAULT_YIELD started) else v))"

text \<open>\<open>body.field ?? DEFAULT_YIELD.field\<close>\<close>

definition body_or_default :: "string \<Rightarrow> jval \<Rightarrow> string \<Rightarrow> string \<times> jval" where
  "body_or_default started body k =
     (k, case jfield k body of
           Some v \<Rightarrow> if v = JNull then the (map_of (DEFAULT_YIELD started) k) else v
         | None \<Rightarrow> the (map_of (DEFAULT_YIELD started) k))"

definition updated_yield :: "string \<Rightarrow> string \<Rightarrow> jval \<Rightarrow> jval" where
  "updated_yield started nowText body =
     JObj [body_or_default started body ''protocol'', body_or_default started body ''currentAPY'',
       body_or_default started body ''baseRate'', body_or_default started body ''surgeMultiplier'',
       (''lastUpdated'', JStr nowText), body_or_default started body ''asset'',
       (''network'', JStr ''stellar'')]"

text \<open>\<open>hmac secret text\<close> is the digest in hexadecimal; \<open>None\<close> of the result lets the request through.\<close>

definition verifyWebhookSignature :: "(string \<Rightarrow> string \<Rightarrow> string) \<Rightarrow> (jval \<Rightarrow> string) \<Rightarrow> string \<Rightarrow> string option \<Rightarrow> jval \<Rightarrow> js_error option" where
  "verifyWebhookSignature hmac stringify secret header body =
     (if \<not> truthy header then Some (HttpErr 401 ''WEBHOOK_SIGNATURE_MISSING'' ''Missing webhook signature'')
      else if the header \<noteq> ''sha256='' @ hmac secret (stringify body)
      then Some (HttpErr 401 ''WEBHOOK_SIGNATURE_INVALID'' ''Invalid webhook signature'')
      else None)"

text \<open>The webhook: its response and the event it makes.\<close>

definition post_yield ::
    "(string \<Rightarrow> string \<Rightarrow> string) \<Rightarrow> 's cache_env \<Rightarrow> (string \<Rightarrow> jval list) \<Rightarrow> string option \<Rightarrow> string \<Rightarrow> string \<Rightarrow> string option \<Rightarrow>
     jval \<Rightarrow> http_reply \<times> web_event option" where
  "post_yield hmac C issuesOf secret started nowText header body =
     (if \<not> truthy secret
      then (\<lparr>hp_status = 503, hp_body = JObj [(''error'', JStr ''ORACLE_WEBHOOK_SECRET not configured'')], hp_cache = None\<rparr>, None)
      else (case verifyWebhookSignature hmac (ce_stringify C) (the secret) header body of
              Some e \<Rightarrow> (errorHandler issuesOf e, None)
            | None \<Rightarrow>
                (let y = updated_yield started nowText body
                 in (\<lparr>hp_status = 200, hp_body = y, hp_cache = None\<rparr>, Some (YieldPosted y)))))"

section \<open>Lemmas\<close>

lemma error_reply_body: "hp_body (errorHandler issuesOf e) \<noteq> JNull"
  by (cases e) (simp_all add: errorHandler_def api_error_body_def)

lemma key_facts [simp]: "arenaStats_key a \<noteq> oracleYield_key" "oracleYield_key \<noteq> arenaStats_key a"
  "leaderboard_key \<noteq> oracleYield_key" "leaderboard_page_key l c \<noteq> leaderboard_key"
  "\<not> starts_with ''arena:stats:'' (leaderboard_page_key l c)" "starts_with ''arena:stats:'' (arenaStats_key a)"
  "arenaStats_key a \<noteq> leaderboard_key" "arenaStats_key a = arenaStats_key b \<longleftrightarrow> a = b"
  by (simp_all add: arenaStats_key_def oracleYield_key_def leaderboard_key_def leaderboard_page_key_def starts_with_iff)

lemma arrive_store: "wb_store (snd (cache_arrive C k ttl w)) = wb_store w" "wb_now (snd (cache_arrive C k ttl w)) = wb_now w"
  "wb_answers (snd (cache_arrive C k ttl w)) = wb_answers w"
  by (simp_all add: cache_arrive_def split: option.split)

lemma stats_pattern: "list_all glob_plain ''arena:stats:''"
  by (simp add: glob_plain_def code_of_def)

context http_cache
begin

abbreviation (input) get where "get \<equiv> rd_get (ce_redis C)"

lemma get_fold_del: "get n k (fold (rd_del (ce_redis C)) ks s) = (if k \<in> set ks then None else get n k s)"
  by (induction ks arbitrary: s) (auto simp: get_del)

lemma get_invalidated: "get n k (payout_invalidation C now s) =
    (if k = leaderboard_key \<or> starts_with ''arena:stats:'' k \<and> get now k s \<noteq> None then None else get n k s)"
proof -
  have "set (ce_keys C now ''arena:stats:*'' s) = {k. starts_with ''arena:stats:'' k \<and> get now k s \<noteq> None}"
    using keys [OF stats_pattern, of now s] by simp
  then show ?thesis by (auto simp: payout_invalidation_def cache_del_def delByPattern_def get_del get_fold_del)
qed

lemma untouched: "\<not> touches k ev \<Longrightarrow> get n k (wb_store (web_handle C ev w)) = get n k (wb_store w)"
  by (cases ev)
    (auto simp: arrive_store cache_answered_def cache_set_def get_set invalidateArenaStats_def cache_del_def get_del
      get_invalidated get_put)

lemma away_get: "(away_step C k)\<^sup>*\<^sup>* w w' \<Longrightarrow> get n k (wb_store w') = get n k (wb_store w)"
proof (induction rule: rtranclp_induct)
  case (step w1 w2)
  from step(2) obtain ev where "w2 = web_handle C ev w1" "\<not> touches k ev" by (blast elim: away_stepE)
  with step(3) show ?case by (simp add: untouched)
qed simp

lemma lookup_get: "get n k s = Some (ce_stringify C v) \<Longrightarrow> v \<noteq> JNull \<Longrightarrow> cache_lookup C n k s = Some v"
  by (simp add: cache_lookup_def cache_get_def stringify parse)

lemma lookup_some: "cache_lookup C n k s = Some v \<Longrightarrow> \<exists>t. get n k s = Some t \<and> ce_parse C t = Inr v"
  by (auto simp: cache_lookup_def cache_get_def split: option.splits sum.splits if_splits)

text \<open>An answer is repeated, as a success, until its ttl is over.\<close>

lemma answer_repeated:
  assumes "hp_body r \<noteq> JNull" and "(away_step C (or_key q))\<^sup>*\<^sup>* (web_handle C (Answered q r True) w) w'"
    and "wb_now w' < wb_now w + or_ttl q * 1000"
  shows "cache_arrive C (or_key q) ttl w' = (Some (hit_reply (hp_body r)), w')"
proof -
  have "get (wb_now w') (or_key q) (wb_store w') = Some (ce_stringify C (hp_body r))"
    using away_get [OF assms(2)] assms(3) by (simp add: cache_answered_def cache_set_def get_set)
  then show ?thesis using assms(1) by (simp add: cache_arrive_def lookup_get)
qed

end

section \<open>A store of lists\<close>

text \<open>A text for every value and its reader, with fuel for the depth and the length of the value.\<close>

fun nat_text :: "nat \<Rightarrow> string" where
  "nat_text 0 = ''0''"
| "nat_text (Suc n) = CHR ''1'' # nat_text n"

fun read_nat :: "string \<Rightarrow> (nat \<times> string) option" where
  "read_nat [] = None"
| "read_nat (c # cs) =
     (if c = CHR ''1'' then map_option (map_prod Suc id) (read_nat cs) else Some (0, cs))"

lemma read_nat_text [simp]: "read_nat (nat_text n @ r) = Some (n, r)"
  by (induction n) simp_all

definition chars_text :: "string \<Rightarrow> string" where
  "chars_text s = nat_text (length s) @ s"

definition read_chars :: "string \<Rightarrow> (string \<times> string) option" where
  "read_chars t = map_option (\<lambda>(n, r). (take n r, drop n r)) (read_nat t)"

lemma read_chars_text [simp]: "read_chars (chars_text s @ r) = Some (s, r)"
  by (simp add: read_chars_def chars_text_def)

definition rat_text :: "rat \<Rightarrow> string" where
  "rat_text q = (if q < 0 then ''-'' else ''+'') @ nat_text (nat \<bar>fst (quotient_of q)\<bar>) @ nat_text (nat (snd (quotient_of q)))"

fun read_rat :: "string \<Rightarrow> (rat \<times> string) option" where
  "read_rat [] = None"
| "read_rat (c # cs) =
     (case read_nat cs of
        None \<Rightarrow> None
      | Some (n, r) \<Rightarrow>
          map_option (map_prod (\<lambda>d. of_int (if c = CHR ''-'' then - int n else int n) / of_int (int d)) id) (read_nat r))"

lemma read_rat_text [simp]: "read_rat (rat_text q @ r) = Some (q, r)"
proof -
  obtain a b where ab: "quotient_of q = (a, b)" by fastforce
  then have q: "q = of_int a / of_int b" and b: "b > 0" by (auto simp: quotient_of_div quotient_of_denom_pos)
  then have "q < 0 \<longleftrightarrow> a < 0" by (simp add: divide_less_0_iff)
  then show ?thesis using b by (simp add: rat_text_def ab) (simp add: q)
qed

fun toy_stringify :: "jval \<Rightarrow> string" where
  "toy_stringify JNull = ''z''"
| "toy_stringify (JBool b) = (if b then ''t'' else ''f'')"
| "toy_stringify (JNum q) = ''n'' @ rat_text q"
| "toy_stringify (JStr s) = ''s'' @ chars_text s"
| "toy_stringify (JArr xs) = ''a'' @ concat (map (\<lambda>x. '','' @ toy_stringify x) xs) @ '';''"
| "toy_stringify (JObj fs) = ''o'' @ concat (map (\<lambda>(k, x). '','' @ chars_text k @ toy_stringify x) fs) @ '';''"

fun read_value :: "nat \<Rightarrow> string \<Rightarrow> (jval \<times> string) option"
  and read_values :: "nat \<Rightarrow> string \<Rightarrow> (jval list \<times> string) option"
  and read_fields :: "nat \<Rightarrow> string \<Rightarrow> ((string \<times> jval) list \<times> string) option" where
  "read_value (Suc n) (c # cs) =
     (if c = CHR ''z'' then Some (JNull, cs) else if c = CHR ''t'' then Some (JBool True, cs)
      else if c = CHR ''f'' then Some (JBool False, cs)
      else if c = CHR ''n'' then map_option (map_prod JNum id) (read_rat cs)
      else if c = CHR ''s'' then map_option (map_prod JStr id) (read_chars cs)
      else if c = CHR ''a'' then map_option (map_prod JArr id) (read_values n cs)
      else if c = CHR ''o'' then map_option (map_prod JObj id) (read_fields n cs) else None)"
| "read_values (Suc n) (c # cs) =
     (if c = CHR '';'' then Some ([], cs)
      else (case read_value n cs of
              None \<Rightarrow> None
            | Some (x, r) \<Rightarrow> map_option (map_prod ((#) x) id) (read_values n r)))"
| "read_fields (Suc n) (c # cs) =
     (if c = CHR '';'' then Some ([], cs)
      else (case read_chars cs of
              None \<Rightarrow> None
            | Some (k, t) \<Rightarrow>
                (case read_value n t of
                   None \<Rightarrow> None
                 | Some (x, r) \<Rightarrow> map_option (map_prod ((#) (k, x)) id) (read_fields n r))))"
| "read_value _ _ = None"
| "read_values _ _ = None"
| "read_fields _ _ = None"

lemma read_values_text:
  assumes "\<And>x m r. x \<in> set xs \<Longrightarrow> length (toy_stringify x) < m \<Longrightarrow> read_value m (toy_stringify x @ r) = Some (x, r)"
  shows "length (concat (map (\<lambda>x. '','' @ toy_stringify x) xs)) < n \<Longrightarrow>
    read_values n (concat (map (\<lambda>x. '','' @ toy_stringify x) xs) @ '';'' @ r) = Some (xs, r)"
  using assms
proof (induction xs arbitrary: n)
  case Nil
  then show ?case by (cases n) auto
next
  case (Cons y ys)
  then obtain m where "n = Suc m" by (cases n) auto
  then show ?case using Cons by simp
qed

lemma read_fields_text:
  assumes "\<And>x m r. x \<in> snd ` set fs \<Longrightarrow> length (toy_stringify x) < m \<Longrightarrow> read_value m (toy_stringify x @ r) = Some (x, r)"
  shows "length (concat (map (\<lambda>(k, x). '','' @ chars_text k @ toy_stringify x) fs)) < n \<Longrightarrow>
    read_fields n (concat (map (\<lambda>(k, x). '','' @ chars_text k @ toy_stringify x) fs) @ '';'' @ r) = Some (fs, r)"
  using assms
proof (induction fs arbitrary: n)
  case Nil
  then show ?case by (cases n) auto
next
  case (Cons f fs)
  obtain k x where f: "f = (k, x)" by fastforce
  from Cons.prems(1) obtain m where m: "n = Suc m" by (cases n) (auto split: prod.splits)
  have "read_fields m (concat (map (\<lambda>(k, x). '','' @ chars_text k @ toy_stringify x) fs) @ '';'' @ r) = Some (fs, r)"
    using Cons.prems(1) by (intro Cons.IH Cons.prems(2)) (simp_all add: f m)
  then show ?case using Cons.prems(1) Cons.prems(2) [of x m] by (simp add: f m)
qed

lemma read_stringify: "length (toy_stringify v) < n \<Longrightarrow> read_value n (toy_stringify v @ r) = Some (v, r)"
proof (induction v arbitrary: n r)
  case (JArr xs)
  then obtain m where n: "n = Suc m" by (cases n) auto
  have "read_values m (concat (map (\<lambda>x. '','' @ toy_stringify x) xs) @ '';'' @ r) = Some (xs, r)"
    using JArr by (intro read_values_text) (auto simp: n)
  then show ?case by (simp add: n)
next
  case (JObj fs)
  then obtain m where n: "n = Suc m" by (cases n) auto
  have "read_fields m (concat (map (\<lambda>(k, x). '','' @ chars_text k @ toy_stringify x) fs) @ '';'' @ r) = Some (fs, r)"
    using JObj by (intro read_fields_text) (force simp: n)+
  then show ?case by (simp add: n)
next
  case JNull
  then show ?case by (cases n) auto
next
  case (JBool b)
  then show ?case by (cases n) auto
next
  case (JNum q)
  then show ?case by (cases n) auto
next
  case (JStr s)
  then show ?case by (cases n) auto
qed

lemma toy_stringify_ne [simp]: "toy_stringify v \<noteq> []"
  by (cases v) auto

definition toy_parse :: "string \<Rightarrow> js_error + jval" where
  "toy_parse t = (case read_value (Suc (length t)) t of Some (v, _) \<Rightarrow> Inr v | None \<Rightarrow> Inl NotAnError)"

lemma toy_parse_stringify: "toy_parse (toy_stringify v) = Inr v"
  using read_stringify [of v "Suc (length (toy_stringify v))" "[]"] by (simp add: toy_parse_def)

text \<open>The strings with an expiry and those without one.\<close>

definition kept_get :: "int \<Rightarrow> string \<Rightarrow> list_store \<times> (string \<times> string) list \<Rightarrow> string option" where
  "kept_get n k s = (case map_of (snd s) k of Some v \<Rightarrow> Some v | None \<Rightarrow> rd_get list_redis n k (fst s))"

definition kept_redis :: "(list_store \<times> (string \<times> string) list) redis" where
  "kept_redis =
     \<lparr>rd_get = kept_get,
      rd_set = (\<lambda>n k v ttl s. (rd_set list_redis n k v ttl (fst s), AList.delete k (snd s))),
      rd_del = (\<lambda>k s. (rd_del list_redis k (fst s), AList.delete k (snd s))),
      rd_sadd = (\<lambda>k x s. (rd_sadd list_redis k x (fst s), snd s)),
      rd_srem = (\<lambda>k x s. (rd_srem list_redis k x (fst s), snd s)),
      rd_smembers = (\<lambda>k s. rd_smembers list_redis k (fst s))\<rparr>"

text \<open>\<open>KEYS\<close> of a pattern that ends with its only star.\<close>

definition kept_keys :: "int \<Rightarrow> string \<Rightarrow> list_store \<times> (string \<times> string) list \<Rightarrow> string list" where
  "kept_keys n p s =
     filter (\<lambda>k. starts_with (butlast p) k \<and> kept_get n k s \<noteq> None) (map fst (ls_strings (fst s)) @ map fst (snd s))"

definition kept_env :: "(list_store \<times> (string \<times> string) list) cache_env" where
  "kept_env =
     \<lparr>ce_redis = kept_redis, ce_keys = kept_keys, ce_put = (\<lambda>k v s. (fst s, AList.update k v (snd s))),
      ce_stringify = toy_stringify, ce_parse = toy_parse\<rparr>"

lemma kept_known: "kept_get n k s \<noteq> None \<Longrightarrow> k \<in> fst ` set (ls_strings (fst s)) \<union> fst ` set (snd s)"
  by (force simp: kept_get_def list_redis_def dest: map_of_SomeD split: option.splits)

interpretation kept: http_cache kept_env
proof (unfold_locales, goal_cases)
  case (9 p n s)
  then show ?case using kept_known [of n _ s] by (auto simp: kept_env_def kept_redis_def kept_keys_def)
qed (auto simp: kept_env_def kept_redis_def kept_get_def list_redis_def set_of_def toy_parse_stringify
      split: option.split)

end
