(* ===== verification/CacheResults.thy ===== *)
theory CacheResults
  imports HttpCache
begin

text \<open>
  The properties of the cached routes, the invalidations and the webhook of the oracle. Every hypothesis
  \<open>http_cache C\<close> is what Redis and JSON promise; the witnesses take \<open>kept_env\<close>.
\<close>

section \<open>Where a hit comes from\<close>

text \<open>
  From the time \<open>t\<close> on, what is stored under \<open>k\<close> is the answer to a request that arrived since \<open>t\<close>,
  for at most its ttl.
\<close>

definition cached_since :: "'s cache_env \<Rightarrow> int \<Rightarrow> string \<Rightarrow> 's web \<Rightarrow> bool" where
  "cached_since C t k w \<longleftrightarrow>
     t \<le> wb_now w \<and> (\<forall>q \<in> set (wb_open w). or_key q = k \<longrightarrow> t \<le> or_arrived q) \<and>
     (\<forall>n u. wb_now w \<le> n \<longrightarrow> rd_get (ce_redis C) n k (wb_store w) = Some u \<longrightarrow>
        (\<exists>a \<in> set (wb_answers w). ha_key a = k \<and> t \<le> ha_arrived a \<and> ha_at a \<le> wb_now w \<and>
           n < ha_at a + ha_ttl a * 1000 \<and> u = ce_stringify C (hp_body (ha_reply a))))"

context http_cache
begin

lemma cached_since_mono:
  assumes w: "cached_since C t k w" and "wb_now w \<le> wb_now w'" and "set (wb_answers w) \<subseteq> set (wb_answers w')"
    and "\<And>q. q \<in> set (wb_open w') \<Longrightarrow> or_key q = k \<Longrightarrow> q \<in> set (wb_open w) \<or> t \<le> or_arrived q"
    and s: "\<And>n. get n k (wb_store w') = None \<or> get n k (wb_store w') = get n k (wb_store w)"
  shows "cached_since C t k w'"
  unfolding cached_since_def
proof (intro conjI ballI allI impI)
  fix n u assume n: "wb_now w' \<le> n" "get n k (wb_store w') = Some u"
  then have "get n k (wb_store w) = Some u" using s [of n] by simp
  then obtain a where "a \<in> set (wb_answers w)" "ha_key a = k" "t \<le> ha_arrived a" "ha_at a \<le> wb_now w"
      "n < ha_at a + ha_ttl a * 1000" "u = ce_stringify C (hp_body (ha_reply a))"
    using w n(1) assms(2) unfolding cached_since_def by (meson order_trans)
  then show "\<exists>a \<in> set (wb_answers w'). ha_key a = k \<and> t \<le> ha_arrived a \<and> ha_at a \<le> wb_now w' \<and>
      n < ha_at a + ha_ttl a * 1000 \<and> u = ce_stringify C (hp_body (ha_reply a))"
    using assms(2,3) by (intro bexI [of _ a]) auto
qed (use assms in \<open>auto simp: cached_since_def\<close>)

lemma cached_since_arrive: "cached_since C t k w \<Longrightarrow> cached_since C t k (web_handle C (Arrive key ttl) w)"
  by (rule cached_since_mono) (auto simp: cached_since_def cache_arrive_def split: option.splits)

lemma cached_since_answered:
  assumes w: "cached_since C t k w" and q: "q \<in> set (wb_open w)"
  shows "cached_since C t k (web_handle C (Answered q r stored) w)"
proof (cases "or_key q = k")
  case True
  let ?w = "web_handle C (Answered q r stored) w"
  have "\<exists>a \<in> set (wb_answers ?w). ha_key a = k \<and> t \<le> ha_arrived a \<and> ha_at a \<le> wb_now w \<and>
      n < ha_at a + ha_ttl a * 1000 \<and> u = ce_stringify C (hp_body (ha_reply a))"
    if "wb_now w \<le> n" "get n k (wb_store ?w) = Some u" for n u
  proof (cases stored)
    case True
    then show ?thesis using \<open>or_key q = k\<close> that q w
      by (auto simp: cached_since_def cache_answered_def cache_set_def get_set split: if_splits)
  next
    case False
    then show ?thesis using that w by (auto simp: cached_since_def cache_answered_def)
  qed
  then show ?thesis using w by (auto simp: cached_since_def cache_answered_def dest: set_mp [OF set_remove1_subset])
next
  case False
  then have "\<not> touches k (Answered q r stored)" by simp
  from untouched [OF this] show ?thesis
    by (intro cached_since_mono [OF w]) (auto simp: cache_answered_def dest: set_mp [OF set_remove1_subset])
qed

lemma cached_since_step:
  assumes "web_step C w w'" and w: "cached_since C t k w" and k: "k \<noteq> oracleYield_key"
  shows "cached_since C t k w'"
proof -
  from assms(1) obtain ev where ev: "web_possible ev w" "w' = web_handle C ev w" by (blast elim: web_stepE)
  show ?thesis
  proof (cases ev)
    case (Answered q r stored)
    then show ?thesis using ev w cached_since_answered by simp
  next
    case (Invalidate a)
    then show ?thesis using ev w
      by (auto simp: invalidateArenaStats_def cache_del_def get_del intro!: cached_since_mono [OF w])
  next
    case PayoutCreated
    then show ?thesis using ev w by (auto simp: get_invalidated intro!: cached_since_mono [OF w])
  next
    case (YieldPosted y)
    then show ?thesis using ev w k by (auto simp: get_put intro!: cached_since_mono [OF w])
  next
    case (Wait ms)
    then show ?thesis using ev by (auto intro!: cached_since_mono [OF w])
  next
    case (Arrive key ttl)
    then show ?thesis using ev w cached_since_arrive by simp
  qed
qed

lemma cached_since_steps:
  assumes "(web_step C)\<^sup>*\<^sup>* w w'" and "cached_since C t k w" and "k \<noteq> oracleYield_key"
  shows "cached_since C t k w'"
  using assms by (induction rule: rtranclp_induct) (blast intro: cached_since_step)+

lemma hit_since:
  assumes "cached_since C t k w" and "cache_arrive C k ttl w = (Some r, w')"
  shows "\<exists>a \<in> set (wb_answers w). ha_key a = k \<and> t \<le> ha_arrived a \<and> ha_at a \<le> wb_now w \<and>
    wb_now w < ha_at a + ha_ttl a * 1000 \<and> r = hit_reply (hp_body (ha_reply a))"
proof -
  from assms(2) obtain v where v: "cache_lookup C (wb_now w) k (wb_store w) = Some v" "r = hit_reply v"
    by (auto simp: cache_arrive_def split: option.splits)
  from lookup_some [OF v(1)] obtain u where u: "get (wb_now w) k (wb_store w) = Some u" "ce_parse C u = Inr v"
    by blast
  with assms(1) show ?thesis unfolding cached_since_def by (metis order_refl parse sum.inject(2) v(2))
qed

lemma nothing_cached:
  assumes "\<And>n. get n k (wb_store w) = None" and "\<forall>q \<in> set (wb_open w). or_key q \<noteq> k"
  shows "cached_since C (wb_now w) k w"
  using assms by (simp add: cached_since_def)

end

section \<open>The runs of the witnesses\<close>

definition toy_web :: "(list_store \<times> (string \<times> string) list) web" where
  "toy_web = \<lparr>wb_store = (empty_store, []), wb_now = 0, wb_open = [], wb_fresh = 0, wb_answers = []\<rparr>"

definition toy_request :: open_request where
  "toy_request = \<lparr>or_id = 0, or_key = arenaStats_key ''7'', or_ttl = cacheTTL_ARENA_STATS, or_arrived = 0\<rparr>"

definition toy_waiting :: "(list_store \<times> (string \<times> string) list) web" where
  "toy_waiting = web_handle kept_env (Arrive (arenaStats_key ''7'') cacheTTL_ARENA_STATS) toy_web"

definition toy_reply :: http_reply where
  "toy_reply = \<lparr>hp_status = 200, hp_body = JBool True, hp_cache = None\<rparr>"

definition toy_answered :: "(list_store \<times> (string \<times> string) list) web" where
  "toy_answered = web_handle kept_env (Answered toy_request toy_reply True) toy_waiting"

lemma toy_web_get: "rd_get (ce_redis kept_env) n k (wb_store toy_web) = None"
  by (simp add: toy_web_def kept_env_def kept_redis_def kept_get_def list_redis_def empty_store_def)

lemma toy_web_lookup: "cache_lookup kept_env n k (wb_store toy_web) = None"
  using toy_web_get by (simp add: cache_lookup_def cache_get_def)

lemma toy_waiting_eq: "toy_waiting = toy_web\<lparr>wb_open := [toy_request], wb_fresh := 1\<rparr>"
  by (simp add: toy_waiting_def cache_arrive_def toy_web_lookup) (simp add: toy_web_def toy_request_def)

lemma toy_run: "(web_step kept_env)\<^sup>*\<^sup>* toy_web toy_answered"
proof -
  have "web_step kept_env toy_web toy_waiting" unfolding toy_waiting_def by (rule web) simp
  moreover have "web_step kept_env toy_waiting toy_answered"
    unfolding toy_answered_def by (rule web) (simp add: toy_waiting_eq)
  ultimately show ?thesis by simp
qed

lemma toy_answered_facts: "wb_now toy_answered = 0" "wb_open toy_answered = []"
  by (simp_all add: toy_answered_def toy_waiting_eq toy_web_def cache_answered_def)

lemma toy_hit: "cache_arrive kept_env (arenaStats_key ''7'') 15 toy_answered = (Some (hit_reply (JBool True)), toy_answered)"
proof -
  have "(away_step kept_env (or_key toy_request))\<^sup>*\<^sup>*
      (web_handle kept_env (Answered toy_request toy_reply True) toy_waiting) toy_answered"
    unfolding toy_answered_def by (rule rtranclp.rtrancl_refl)
  then have "cache_arrive kept_env (or_key toy_request) 15 toy_answered = (Some (hit_reply (hp_body toy_reply)), toy_answered)"
    by (rule kept.answer_repeated [rotated])
      (simp_all add: toy_reply_def toy_answered_facts toy_waiting_eq toy_web_def toy_request_def cacheTTL_ARENA_STATS_def)
  then show ?thesis by (simp add: toy_request_def toy_reply_def)
qed

text \<open>The statistics are invalidated and asked for again.\<close>

definition toy_request2 :: open_request where
  "toy_request2 = toy_request\<lparr>or_id := 1\<rparr>"

definition toy_waiting2 :: "(list_store \<times> (string \<times> string) list) web" where
  "toy_waiting2 = web_handle kept_env (Arrive (arenaStats_key ''7'') cacheTTL_ARENA_STATS)
     (web_handle kept_env (Invalidate ''7'') toy_answered)"

definition toy_again :: "(list_store \<times> (string \<times> string) list) web" where
  "toy_again = web_handle kept_env (Answered toy_request2 toy_reply True) toy_waiting2"

lemma toy_waiting2_facts: "wb_now toy_waiting2 = 0" "wb_open toy_waiting2 = [toy_request2]"
proof -
  have "cache_lookup kept_env n (arenaStats_key a) (invalidateArenaStats kept_env a s) = None" for n a s
    by (simp add: cache_lookup_def cache_get_def invalidateArenaStats_def cache_del_def kept.get_del)
  then show "wb_now toy_waiting2 = 0" "wb_open toy_waiting2 = [toy_request2]"
    by (simp_all add: toy_waiting2_def cache_arrive_def toy_answered_facts)
      (simp add: toy_request2_def toy_request_def toy_answered_def toy_waiting_eq cache_answered_def)
qed

lemma toy_again_facts: "wb_now toy_again = 0"
  by (simp add: toy_again_def cache_answered_def toy_waiting2_facts)

lemma toy_again_run: "(web_step kept_env)\<^sup>*\<^sup>* (web_handle kept_env (Invalidate ''7'') toy_answered) toy_again"
proof -
  have "web_step kept_env (web_handle kept_env (Invalidate ''7'') toy_answered) toy_waiting2"
    unfolding toy_waiting2_def by (rule web) simp
  moreover have "web_step kept_env toy_waiting2 toy_again"
    unfolding toy_again_def by (rule web) (simp add: toy_waiting2_facts)
  ultimately show ?thesis by simp
qed

lemma toy_again_hit: "cache_arrive kept_env (arenaStats_key ''7'') 15 toy_again = (Some (hit_reply (JBool True)), toy_again)"
proof -
  have "(away_step kept_env (or_key toy_request2))\<^sup>*\<^sup>*
      (web_handle kept_env (Answered toy_request2 toy_reply True) toy_waiting2) toy_again"
    unfolding toy_again_def by (rule rtranclp.rtrancl_refl)
  then have "cache_arrive kept_env (or_key toy_request2) 15 toy_again = (Some (hit_reply (hp_body toy_reply)), toy_again)"
    by (rule kept.answer_repeated [rotated])
      (simp_all add: toy_reply_def toy_again_facts toy_waiting2_facts toy_request_def toy_request2_def cacheTTL_ARENA_STATS_def)
  then show ?thesis by (simp add: toy_request2_def toy_request_def toy_reply_def)
qed

section \<open>Properties\<close>

text \<open>
  C19: A response marked as a hit of the cache (other than the yield) is always the body that a handler
  answered for that very key at most its ttl ago: from an empty store, whatever requests, answers, failing
  writes, invalidations and waits came before, in any order.
\<close>

theorem hit_is_recent_answer:
  assumes "http_cache C" and "\<And>n k. rd_get (ce_redis C) n k (wb_store w0) = None" and "wb_open w0 = []"
    and "(web_step C)\<^sup>*\<^sup>* w0 w" and "key \<noteq> oracleYield_key" and "cache_arrive C key ttl w = (Some r, w')"
  shows "\<exists>a \<in> set (wb_answers w). ha_key a = key \<and> wb_now w0 \<le> ha_arrived a \<and> ha_at a \<le> wb_now w \<and>
    wb_now w < ha_at a + ha_ttl a * 1000 \<and> r = hit_reply (hp_body (ha_reply a))"
  by (rule http_cache.hit_since [OF assms(1) http_cache.cached_since_steps [OF assms(1,4) _ assms(5)] assms(6)])
    (rule http_cache.nothing_cached [OF assms(1)], simp_all add: assms(2,3))

theorem hit_is_recent_answer_witness:
  "\<exists>a \<in> set (wb_answers toy_answered). ha_key a = arenaStats_key ''7'' \<and> wb_now toy_web \<le> ha_arrived a \<and>
     ha_at a \<le> wb_now toy_answered \<and> wb_now toy_answered < ha_at a + ha_ttl a * 1000 \<and>
     hit_reply (JBool True) = hit_reply (hp_body (ha_reply a))"
  by (rule hit_is_recent_answer [OF kept.http_cache_axioms toy_web_get _ toy_run _ toy_hit])
    (simp_all add: toy_web_def)

text \<open>
  C20: An invalidation of the statistics of an arena takes effect when no request for them is being answered
  at that moment: every later hit carries the answer to a request that arrived after the invalidation,
  whatever else happens meanwhile.
\<close>

theorem invalidation_takes_effect:
  assumes "http_cache C" and "\<forall>q \<in> set (wb_open w). or_key q \<noteq> arenaStats_key arenaId"
    and "(web_step C)\<^sup>*\<^sup>* (web_handle C (Invalidate arenaId) w) w1"
    and "cache_arrive C (arenaStats_key arenaId) ttl w1 = (Some r, w2)"
  shows "\<exists>a \<in> set (wb_answers w1). ha_key a = arenaStats_key arenaId \<and> wb_now w \<le> ha_arrived a \<and>
    r = hit_reply (hp_body (ha_reply a))"
proof -
  let ?w = "web_handle C (Invalidate arenaId) w"
  have "cached_since C (wb_now ?w) (arenaStats_key arenaId) ?w"
    using assms(2) by (intro http_cache.nothing_cached [OF assms(1)])
      (simp_all add: invalidateArenaStats_def cache_del_def redis_store.get_del [OF http_cache.axioms(1) [OF assms(1)]])
  from http_cache.hit_since [OF assms(1) http_cache.cached_since_steps [OF assms(1,3) this] assms(4)] show ?thesis
    by auto
qed

theorem invalidation_takes_effect_witness:
  "\<exists>a \<in> set (wb_answers toy_again). ha_key a = arenaStats_key ''7'' \<and> wb_now toy_answered \<le> ha_arrived a \<and>
     hit_reply (JBool True) = hit_reply (hp_body (ha_reply a))"
  by (rule invalidation_takes_effect [OF kept.http_cache_axioms _ toy_again_run toy_again_hit])
    (simp add: toy_answered_facts)

text \<open>
  An invalidation does not take effect when a request for the statistics is being answered: what its
  handler computed before the invalidation is stored after it and is sent to everybody for the whole ttl.
\<close>

theorem read_survives_invalidation:
  assumes "http_cache C" and "q \<in> set (wb_open w)" and "or_key q = arenaStats_key arenaId" and "hp_body r \<noteq> JNull"
    and "(away_step C (arenaStats_key arenaId))\<^sup>*\<^sup>*
      (web_handle C (Answered q r True) (web_handle C (Invalidate arenaId) w)) w1"
    and "wb_now w1 < wb_now w + or_ttl q * 1000"
  shows "cache_arrive C (arenaStats_key arenaId) ttl w1 = (Some (hit_reply (hp_body r)), w1)"
  using http_cache.answer_repeated [OF assms(1,4), of q "web_handle C (Invalidate arenaId) w" w1 ttl] assms by simp

theorem read_survives_invalidation_witness:
  "let w1 = web_handle kept_env (Answered toy_request toy_reply True) (web_handle kept_env (Invalidate ''7'') toy_waiting)
   in cache_arrive kept_env (arenaStats_key ''7'') 15 w1 = (Some (hit_reply (hp_body toy_reply)), w1)"
  unfolding Let_def
  by (rule read_survives_invalidation [of _ toy_request toy_waiting, OF _ _ _ _ rtranclp.rtrancl_refl])
    (simp_all add: kept.http_cache_axioms toy_waiting_eq toy_request_def toy_reply_def toy_web_def cache_answered_def
      cacheTTL_ARENA_STATS_def)

text \<open>
  The error of a handler is cached like an answer: for the ttl of the route every request for that key
  receives the body of the error with the status 200 of a success.
\<close>

theorem errors_served_as_success:
  assumes "http_cache C" and "r = asyncHandler issuesOf (Inl e)"
    and "(away_step C (or_key q))\<^sup>*\<^sup>* (web_handle C (Answered q r True) w) w1"
    and "wb_now w1 < wb_now w + or_ttl q * 1000"
  shows "cache_arrive C (or_key q) ttl w1 =
    (Some \<lparr>hp_status = 200, hp_body = hp_body (errorHandler issuesOf e), hp_cache = Some ''HIT''\<rparr>, w1)"
proof -
  have "hp_body r \<noteq> JNull" using assms(2) by (simp add: asyncHandler_def error_reply_body)
  from http_cache.answer_repeated [OF assms(1) this assms(3,4)] show ?thesis
    by (simp add: assms(2) asyncHandler_def hit_reply_def)
qed

theorem errors_served_as_success_witness:
  "let r = asyncHandler (\<lambda>_. []) (Inl (HttpErr 404 ''ARENA_NOT_FOUND'' ''Arena not found''));
     w1 = web_handle kept_env (Answered toy_request r True) toy_waiting
   in hp_status r = 404 \<and>
      cache_arrive kept_env (or_key toy_request) 15 w1 =
        (Some \<lparr>hp_status = 200,
           hp_body = hp_body (errorHandler (\<lambda>_. []) (HttpErr 404 ''ARENA_NOT_FOUND'' ''Arena not found'')),
           hp_cache = Some ''HIT''\<rparr>, w1)"
  unfolding Let_def
  by (intro conjI errors_served_as_success [OF kept.http_cache_axioms refl rtranclp.rtrancl_refl])
    (simp_all add: asyncHandler_def errorHandler_def toy_waiting_eq toy_request_def toy_web_def cache_answered_def
      cacheTTL_ARENA_STATS_def)

text \<open>
  The creation of a payout drops every cached statistic of an arena and no page of the leaderboard: the
  pages are stored under keys that begin with the key that is deleted, and that key itself is never used.
\<close>

theorem payout_leaves_leaderboard_cached:
  assumes "http_cache C"
  shows "cache_lookup C n (leaderboard_page_key lmt cursor) (payout_invalidation C now s) =
      cache_lookup C n (leaderboard_page_key lmt cursor) s \<and>
    cache_lookup C now (arenaStats_key arenaId) (payout_invalidation C now s) = None"
  by (simp add: cache_lookup_def cache_get_def http_cache.get_invalidated [OF assms])

theorem payout_leaves_leaderboard_cached_witness:
  "cache_lookup kept_env 0 (leaderboard_page_key None None) (payout_invalidation kept_env 0 (wb_store toy_answered)) =
     cache_lookup kept_env 0 (leaderboard_page_key None None) (wb_store toy_answered) \<and>
   cache_lookup kept_env 0 (arenaStats_key ''7'') (payout_invalidation kept_env 0 (wb_store toy_answered)) = None"
  by (rule payout_leaves_leaderboard_cached [OF kept.http_cache_axioms])

text \<open>
  The webhook changes the yield exactly when a secret is configured and the header carries the digest of the
  body under it; it then replaces the whole yield, taking the defaults for what the body lacks. Neither a time nor a
  nonce is part of what is signed, so an accepted request is accepted whenever it is sent again.
\<close>

theorem webhook_changes_yield:
  "snd (post_yield hmac C issuesOf secret started nowText header body) =
     (if \<exists>x. secret = Some x \<and> x \<noteq> [] \<and> header = Some (''sha256='' @ hmac x (ce_stringify C body))
      then Some (YieldPosted (updated_yield started nowText body)) else None) \<and>
   (hp_status (fst (post_yield hmac C issuesOf secret started nowText header body)) = 200 \<longleftrightarrow>
     snd (post_yield hmac C issuesOf secret started nowText header body) \<noteq> None)"
  by (cases secret; cases header) (auto simp: post_yield_def verifyWebhookSignature_def errorHandler_def Let_def split: option.splits)

lemma default_yield_lookup:
  assumes "http_cache C" and "\<And>n. rd_get (ce_redis C) n oracleYield_key s =
      (if n < e then Some (ce_stringify C (JObj (DEFAULT_YIELD started))) else None)"
  shows "get_yield C started n s = Inr (200, JObj (DEFAULT_YIELD started))"
    and "cache_lookup C n oracleYield_key s = (if n < e then Some (JObj (DEFAULT_YIELD started)) else None)"
  using http_cache.stringify [OF assms(1)] http_cache.parse [OF assms(1)]
  by (simp_all add: get_yield_def cache_get_def cache_lookup_def assms(2))

text \<open>
  A yield that is posted while a request for the yield is being answered is lost: the handler has read that
  there is none, and its answer, the default, is stored over the posted one with an expiry of a minute. From then on,
  before and after the expiry, the default is served, until the oracle posts again.
\<close>

theorem posted_yield_lost:
  assumes "http_cache C" and "\<And>n. rd_get (ce_redis C) n oracleYield_key (wb_store w) = None"
    and "or_key q = oracleYield_key" and "get_yield C started (wb_now w) (wb_store w) = Inr out"
    and "(away_step C oracleYield_key)\<^sup>*\<^sup>*
      (web_handle C (Answered q (asyncHandler issuesOf (Inr out)) True) (web_handle C (YieldPosted y) w)) w1"
  shows "get_yield C started (wb_now w1) (wb_store w1) = Inr (200, JObj (DEFAULT_YIELD started)) \<and>
    fst (cache_arrive C oracleYield_key ttl w1) \<in> {None, Some (hit_reply (JObj (DEFAULT_YIELD started)))}"
proof -
  from assms(2,4) have out: "out = (200, JObj (DEFAULT_YIELD started))"
    by (simp add: get_yield_def cache_get_def)
  have g: "rd_get (ce_redis C) n oracleYield_key (wb_store w1) =
      (if n < wb_now w + or_ttl q * 1000 then Some (ce_stringify C (JObj (DEFAULT_YIELD started))) else None)" for n
    using http_cache.away_get [OF assms(1,5)] redis_store.get_set [OF http_cache.axioms(1) [OF assms(1)]]
    by (simp add: cache_answered_def cache_set_def assms(3) out asyncHandler_def)
  show ?thesis using default_yield_lookup [OF assms(1) g] by (simp add: cache_arrive_def)
qed

definition toy_yield_request :: open_request where
  "toy_yield_request = \<lparr>or_id = 0, or_key = oracleYield_key, or_ttl = cacheTTL_ORACLE_YIELD, or_arrived = 0\<rparr>"

theorem posted_yield_lost_witness:
  "let w = web_handle kept_env (Arrive oracleYield_key cacheTTL_ORACLE_YIELD) toy_web;
     r = asyncHandler (\<lambda>_. []) (Inr (200, JObj (DEFAULT_YIELD ''2026'')));
     w1 = web_handle kept_env (Answered toy_yield_request r True)
       (web_handle kept_env (YieldPosted (updated_yield ''2026'' ''2027'' (JObj [(''currentAPY'', JNum 7)]))) w)
   in get_yield kept_env ''2026'' (wb_now w1) (wb_store w1) = Inr (200, JObj (DEFAULT_YIELD ''2026'')) \<and>
      fst (cache_arrive kept_env oracleYield_key 60 w1) \<in> {None, Some (hit_reply (JObj (DEFAULT_YIELD ''2026'')))}"
  unfolding Let_def
  by (rule posted_yield_lost [OF kept.http_cache_axioms _ _ _ rtranclp.rtrancl_refl])
    (simp_all add: toy_yield_request_def arrive_store toy_web_get get_yield_def cache_get_def)

text \<open>
  A yield posted while no request for it is being answered is served for ever: every request before the next
  post is a hit with the posted body, however much time passes and whatever else the cache goes through.
\<close>

theorem posted_yield_kept:
  assumes "http_cache C" and "y = updated_yield started nowText body"
    and "\<forall>q \<in> set (wb_open w). or_key q \<noteq> oracleYield_key"
    and "(\<lambda>u v. \<exists>ev. web_possible ev u \<and> (\<forall>z. ev \<noteq> YieldPosted z) \<and> v = web_handle C ev u)\<^sup>*\<^sup>*
      (web_handle C (YieldPosted y) w) w1"
  shows "cache_arrive C oracleYield_key ttl w1 = (Some (hit_reply y), w1)"
proof -
  have y: "y \<noteq> JNull" by (simp add: assms(2) updated_yield_def)
  from assms(4) have "(\<forall>q \<in> set (wb_open w1). or_key q \<noteq> oracleYield_key) \<and>
      (\<forall>n. rd_get (ce_redis C) n oracleYield_key (wb_store w1) = Some (ce_stringify C y))"
  proof (induction rule: rtranclp_induct)
    case base
    then show ?case using assms(3) by (simp add: http_cache.get_put [OF assms(1)])
  next
    case (step u v)
    then obtain ev where ev: "web_possible ev u" "\<forall>z. ev \<noteq> YieldPosted z" "v = web_handle C ev u" by blast
    have "\<not> touches oracleYield_key ev"
      using ev(1,2) step.IH by (cases ev) (auto simp: starts_with_iff oracleYield_key_def leaderboard_key_def arenaStats_key_def)
    from http_cache.untouched [OF assms(1) this] have "\<forall>n. rd_get (ce_redis C) n oracleYield_key (wb_store v) = Some (ce_stringify C y)"
      using step.IH ev(3) by simp
    moreover have "\<forall>q \<in> set (wb_open v). or_key q \<noteq> oracleYield_key"
      using step.IH ev(3) http_cache.lookup_get [OF assms(1) _ y]
      by (cases ev) (auto simp: cache_arrive_def cache_answered_def dest: set_mp [OF set_remove1_subset] split: option.split)
    ultimately show ?case by blast
  qed
  then show ?thesis using http_cache.lookup_get [OF assms(1) _ y] by (simp add: cache_arrive_def)
qed

theorem posted_yield_kept_witness:
  "let w1 = web_handle kept_env (YieldPosted (updated_yield ''2026'' ''2027'' JNull)) toy_web
   in cache_arrive kept_env oracleYield_key 60 w1 = (Some (hit_reply (updated_yield ''2026'' ''2027'' JNull)), w1)"
  unfolding Let_def
  by (rule posted_yield_kept [OF kept.http_cache_axioms refl _ rtranclp.rtrancl_refl]) (simp add: toy_web_def)

end
