(* ===== verification/AuditTrail.thy ===== *)
theory AuditTrail
  imports Admin
begin

text \<open>
  The audit log that backend/src/middleware/auditLog.ts writes for the routes of
  backend/src/routes/admin.ts, beside the entries of \<open>AdminController\<close> (theory \<open>Admin\<close>).
\<close>

section \<open>The routes\<close>

datatype admin_route =
    TokenRequest | ForceResolve string | Resubmit string | Reindex string | RunReconciliation
  | CloseRound string | ResolveRound | ListAuditLogs

text \<open>The path within the router, which is mounted at \<open>/api/admin\<close>, and the pattern of the route.\<close>

fun route_path :: "admin_route \<Rightarrow> string" where
  "route_path TokenRequest = ''/tokens/request''"
| "route_path (ForceResolve i) = ''/transactions/'' @ i @ ''/force-resolve''"
| "route_path (Resubmit i) = ''/transactions/'' @ i @ ''/resubmit''"
| "route_path (Reindex i) = ''/pools/'' @ i @ ''/reindex''"
| "route_path RunReconciliation = ''/reconciliation/run''"
| "route_path (CloseRound i) = ''/rounds/'' @ i @ ''/close''"
| "route_path ResolveRound = ''/rounds/resolve''"
| "route_path ListAuditLogs = ''/audit-logs''"

fun route_pattern :: "admin_route \<Rightarrow> string" where
  "route_pattern (ForceResolve i) = ''/transactions/:id/force-resolve''"
| "route_pattern (Resubmit i) = ''/transactions/:id/resubmit''"
| "route_pattern (Reindex i) = ''/pools/:id/reindex''"
| "route_pattern (CloseRound i) = ''/rounds/:id/close''"
| "route_pattern r = route_path r"

fun route_id :: "admin_route \<Rightarrow> string option" where
  "route_id (ForceResolve i) = Some i"
| "route_id (Resubmit i) = Some i"
| "route_id (Reindex i) = Some i"
| "route_id (CloseRound i) = Some i"
| "route_id _ = None"

text \<open>
  A response that is about to be sent. \<open>ar_thrown\<close>: the error handler of the application sends it, where
  the path is that of the whole request. No handler sets what \<open>res.locals\<close> could add.
\<close>

record admin_response =
  ar_adminId :: "string option"
  ar_method :: string
  ar_route :: admin_route
  ar_thrown :: bool
  ar_status :: nat
  ar_ip :: "string option"
  ar_userAgent :: "string option"
  ar_now :: int
  ar_logId :: string

definition response_path :: "admin_response \<Rightarrow> string" where
  "response_path q = (if ar_thrown q then ''/api/admin'' else []) @ route_path (ar_route q)"

section \<open>The middleware\<close>

definition deriveResourceType :: "string \<Rightarrow> string" where
  "deriveResourceType path =
     (let segments = js_split (CHR ''/'') (if starts_with ''/admin/'' path then drop (length ''/admin/'') path else path)
      in case segments of [] \<Rightarrow> ''unknown'' | s # _ \<Rightarrow> s)"

text \<open>The schema of the collection: \<open>required\<close> refuses an empty string.\<close>

definition audit_create :: "(audit_doc, 'l) coll \<Rightarrow> audit_doc \<Rightarrow> 'l \<Rightarrow> (js_error + unit) \<times> 'l" where
  "audit_create L d l =
     (if al_adminId d = [] \<or> al_action d = [] \<or> al_resourceType d = [] \<or> al_resourceId d = []
      then (Inl (Error ''AuditLog validation failed''), l) else c_create L d l)"

definition response_entry :: "admin_response \<Rightarrow> string \<Rightarrow> audit_doc" where
  "response_entry q adminId =
     \<lparr>al_id = ar_logId q, al_adminId = adminId, al_action = ar_method q @ '' '' @ route_pattern (ar_route q),
      al_resourceType = deriveResourceType (response_path q),
      al_resourceId = (case route_id (ar_route q) of Some i \<Rightarrow> i | None \<Rightarrow> ''unknown''),
      al_status = (if ar_status q < 400 then AuditSuccess else AuditFailed), al_metadata = None,
      al_errorMessage = None, al_ipAddress = ar_ip q, al_userAgent = ar_userAgent q, al_createdAt = ar_now q\<rparr>"

definition writeAuditLog :: "(audit_doc, 'l) coll \<Rightarrow> admin_response \<Rightarrow> 'l \<Rightarrow> (js_error + unit) \<times> 'l" where
  "writeAuditLog L q l =
     (case ar_adminId q of
        None \<Rightarrow> (Inr (), l)
      | Some a \<Rightarrow> if a = [] then (Inr (), l) else audit_create L (response_entry q a) l)"

text \<open>What fails is only written to the log of the server.\<close>

definition auditLogMiddleware :: "(audit_doc, 'l) coll \<Rightarrow> admin_response \<Rightarrow> 'l \<Rightarrow> 'l" where
  "auditLogMiddleware L q l = snd (writeAuditLog L q l)"

section \<open>Properties\<close>

lemma resource_type_empty: "\<not> starts_with ''/admin/'' (CHR ''/'' # p) \<Longrightarrow> deriveResourceType (CHR ''/'' # p) = []"
  by (simp add: deriveResourceType_def)

lemma response_path_slash: "\<exists>p. response_path q = CHR ''/'' # p \<and> \<not> starts_with ''/admin/'' (CHR ''/'' # p)"
  by (cases "ar_route q") (simp_all add: response_path_def)


text \<open>
  The middleware would write an entry for a path below \<open>/admin/\<close>, as its comment has it.
\<close>

lemma audited_below_admin: "deriveResourceType ''/admin/rounds/resolve'' = ''rounds''"
  by (simp add: deriveResourceType_def)

definition toy_response :: admin_response where
  "toy_response = \<lparr>ar_adminId = Some ''admin'', ar_method = ''POST'', ar_route = ResolveRound, ar_thrown = False,
     ar_status = 200, ar_ip = None, ar_userAgent = None, ar_now = 0, ar_logId = ''1''\<rparr>"


end
