(* ===== verification/Simulation.thy ===== *)
theory Simulation
  imports Prelude
begin

text \<open>
  The simulated game of backend/scripts/simulate-game.ts: its players, its rounds and its result. The public
  keys and \<open>Math.random\<close> are parameters.
\<close>

section \<open>Players and rounds\<close>

datatype sim_choice = SimHeads | SimTails

record sim_player =
  sp_index :: nat
  sp_key :: string
  sp_active :: bool

record sim_round =
  sr_round :: nat
  sr_choices :: "string \<rightharpoonup> sim_choice"
  sr_winningChoice :: "sim_choice option"
  sr_eliminated :: nat
  sr_survivors :: nat

record sim_result =
  sm_totalRounds :: nat
  sm_rounds :: "sim_round list"
  sm_winner :: "sim_player option"
  sm_prizeAmount :: rat

definition randomChoice :: "rat \<Rightarrow> sim_choice" where
  "randomChoice r = (if r > 1 / 2 then SimHeads else SimTails)"

definition active_players :: "sim_player list \<Rightarrow> sim_player list" where
  "active_players ps = filter sp_active ps"

definition sim_resolveRound ::
    "sim_player list \<Rightarrow> (string \<rightharpoonup> sim_choice) \<Rightarrow> sim_choice option \<times> sim_player list" where
  "sim_resolveRound players choices =
     (let activePlayers = active_players players;
          headCount = length (filter (\<lambda>p. choices (sp_key p) = Some SimHeads) activePlayers);
          tailCount = length activePlayers - headCount
      in if headCount = tailCount then (None, [])
         else (let winningChoice = (if headCount > tailCount then SimTails else SimHeads)
               in (Some winningChoice, filter (\<lambda>p. choices (sp_key p) = Some winningChoice) activePlayers)))"

text \<open>\<open>coin i\<close> is what \<open>Math.random\<close> returns for the player with the index \<open>i\<close>.\<close>

definition buildChoices :: "(nat \<Rightarrow> rat) \<Rightarrow> sim_player list \<Rightarrow> string \<rightharpoonup> sim_choice" where
  "buildChoices coin players =
     fold (\<lambda>p m. if sp_active p then m(sp_key p \<mapsto> randomChoice (coin (sp_index p))) else m) players Map.empty"

definition mark_inactive :: "sim_player list \<Rightarrow> sim_player list \<Rightarrow> sim_player list" where
  "mark_inactive eliminated players =
     map (\<lambda>p. if sp_index p \<in> set (map sp_index eliminated) then p\<lparr>sp_active := False\<rparr> else p) players"

section \<open>The game\<close>

definition simulated_players :: "(nat \<Rightarrow> string) \<Rightarrow> nat \<Rightarrow> sim_player list" where
  "simulated_players keyOf n = map (\<lambda>i. \<lparr>sp_index = i + 1, sp_key = keyOf i, sp_active = True\<rparr>) [0..<n]"

definition play_round ::
    "(nat \<Rightarrow> rat) \<Rightarrow> nat \<Rightarrow> sim_player list \<Rightarrow> sim_round \<times> sim_player list" where
  "play_round coin roundNumber players =
     (let choices = buildChoices coin players;
          (winningChoice, eliminated) = sim_resolveRound players choices;
          players' = mark_inactive eliminated players
      in (\<lparr>sr_round = roundNumber, sr_choices = choices, sr_winningChoice = winningChoice,
           sr_eliminated = length eliminated, sr_survivors = length (active_players players')\<rparr>, players'))"

text \<open>The loop; \<open>left\<close> is how many of the rounds are left.\<close>

fun play_rounds ::
    "(nat \<Rightarrow> nat \<Rightarrow> rat) \<Rightarrow> nat \<Rightarrow> nat \<Rightarrow> sim_player list \<Rightarrow> sim_round list \<times> sim_player list" where
  "play_rounds coin roundNumber 0 players = ([], players)"
| "play_rounds coin roundNumber (Suc left) players =
     (if length (active_players players) \<le> 1 then ([], players)
      else (let (result, players') = play_round (coin roundNumber) roundNumber players
            in if sr_survivors result \<le> 1 then ([result], players')
               else (let (results, players'') = play_rounds coin (roundNumber + 1) left players'
                     in (result # results, players''))))"

definition runSimulation ::
    "(nat \<Rightarrow> string) \<Rightarrow> (nat \<Rightarrow> nat \<Rightarrow> rat) \<Rightarrow> nat \<Rightarrow> nat \<Rightarrow> rat \<Rightarrow> sim_result" where
  "runSimulation keyOf coin numPlayers maxRounds entryFee =
     (let (roundResults, players) = play_rounds coin 1 maxRounds (simulated_players keyOf numPlayers);
          remaining = active_players players
      in \<lparr>sm_totalRounds = length roundResults, sm_rounds = roundResults,
          sm_winner = (case remaining of [p] \<Rightarrow> Some p | _ \<Rightarrow> None),
          sm_prizeAmount = of_nat numPlayers * entryFee\<rparr>)"

section \<open>Lemmas\<close>

lemma filter_le: "(\<And>x. P x \<Longrightarrow> Q x) \<Longrightarrow> length (filter P xs) \<le> length (filter Q xs)"
  by (induction xs) auto

lemma eliminated_minority:
  assumes "sim_resolveRound ps m = (w, es)" and "active_players ps \<noteq> []"
  shows "2 * length es < length (active_players ps)"
proof -
  let ?a = "active_players ps" let ?h = "length (filter (\<lambda>p. m (sp_key p) = Some SimHeads) ?a)"
  have "?h + length (filter (\<lambda>p. \<not> m (sp_key p) = Some SimHeads) ?a) = length ?a"
    by (rule sum_length_filter_compl)
  moreover have "length (filter (\<lambda>p. m (sp_key p) = Some SimTails) ?a) \<le> length (filter (\<lambda>p. \<not> m (sp_key p) = Some SimHeads) ?a)"
    by (rule filter_le) simp
  ultimately show ?thesis using assms by (auto simp: sim_resolveRound_def Let_def split: if_splits)
qed

lemma eliminated_subset: "sim_resolveRound ps m = (w, es) \<Longrightarrow> \<exists>P. es = filter P (active_players ps)"
  by (auto simp: sim_resolveRound_def Let_def split: if_splits intro: exI [of _ "\<lambda>_. False"])

lemma survivors_count:
  assumes "distinct (map sp_index ps)" and "es = filter P (active_players ps)"
  shows "length (active_players (mark_inactive es ps)) + length es = length (active_players ps)"
proof -
  have "sp_index p \<in> sp_index ` set es \<longleftrightarrow> sp_active p \<and> P p" if "p \<in> set ps" for p
    using that assms by (auto simp: active_players_def distinct_map dest: inj_onD)
  then have "map (\<lambda>p. if sp_index p \<in> set (map sp_index es) then p\<lparr>sp_active := False\<rparr> else p) ps =
      map (\<lambda>p. if sp_active p \<and> P p then p\<lparr>sp_active := False\<rparr> else p) ps"
    by (intro map_cong refl) simp
  then have "active_players (mark_inactive es ps) = filter (\<lambda>p. \<not> P p) (active_players ps)"
    unfolding mark_inactive_def active_players_def by (simp only:) (induction ps, auto)
  then show ?thesis using assms(2) sum_length_filter_compl [of P "active_players ps"] by simp
qed

lemma mark_inactive_indices [simp]: "map sp_index (mark_inactive es ps) = map sp_index ps"
  by (auto simp: mark_inactive_def)

lemma play_round_survivors:
  assumes "distinct (map sp_index ps)" and "2 \<le> length (active_players ps)" and "play_round coin k ps = (r, ps')"
  shows "2 \<le> sr_survivors r" "sr_survivors r = length (active_players ps')" "distinct (map sp_index ps')"
    "2 * sr_eliminated r < length (active_players ps)"
proof -
  obtain w es where we: "sim_resolveRound ps (buildChoices coin ps) = (w, es)" by fastforce
  have m: "2 * length es < length (active_players ps)"
    by (rule eliminated_minority [OF we]) (use assms(2) in auto)
  obtain P where "es = filter P (active_players ps)" using eliminated_subset [OF we] by blast
  note c = survivors_count [OF assms(1) this]
  show "2 \<le> sr_survivors r" "sr_survivors r = length (active_players ps')" "distinct (map sp_index ps')"
    "2 * sr_eliminated r < length (active_players ps)"
    using assms m c by (auto simp: play_round_def we Let_def)
qed

lemma play_rounds_survivors:
  assumes "distinct (map sp_index ps)" and "2 \<le> length (active_players ps)" and "play_rounds coin k left ps = (rs, ps')"
  shows "length rs = left \<and> (\<forall>r \<in> set rs. 2 \<le> sr_survivors r) \<and> 2 \<le> length (active_players ps')"
  using assms
proof (induction coin k left ps arbitrary: rs ps' rule: play_rounds.induct)
  case (2 coin k left ps)
  obtain r ps1 where r: "play_round (coin k) k ps = (r, ps1)" by fastforce
  obtain rs2 ps2 where rs: "play_rounds coin (k + 1) left ps1 = (rs2, ps2)" by fastforce
  note s = play_round_survivors [OF 2(2,3) r]
  have "length rs2 = left \<and> (\<forall>r \<in> set rs2. 2 \<le> sr_survivors r) \<and> 2 \<le> length (active_players ps2)"
    by (rule 2(1)) (use 2 r rs s in auto)
  then show ?case using 2(3,4) r rs s by (auto simp: Let_def)
qed auto

section \<open>Properties\<close>

text \<open>
  The simulated game with two players or more never has a winner: the choice that it calls the winning one is
  that of the smaller group, and the players of that group are eliminated, so that more than half survive each
  round; all the rounds are played and at least two players are left, whatever is chosen.
\<close>

theorem simulation_has_no_winner:
  assumes "2 \<le> numPlayers" and "r = runSimulation keyOf coin numPlayers maxRounds entryFee"
  shows "sm_winner r = None \<and> sm_totalRounds r = maxRounds \<and> (\<forall>x \<in> set (sm_rounds r). 2 \<le> sr_survivors x)"
proof -
  let ?ps = "simulated_players keyOf numPlayers"
  obtain rs ps where g: "play_rounds coin 1 maxRounds ?ps = (rs, ps)" by fastforce
  have "distinct (map sp_index ?ps)" by (simp add: simulated_players_def distinct_map inj_on_def)
  moreover have "2 \<le> length (active_players ?ps)"
    using assms(1) by (simp add: simulated_players_def active_players_def filter_map o_def)
  ultimately have "length rs = maxRounds \<and> (\<forall>r \<in> set rs. 2 \<le> sr_survivors r) \<and> 2 \<le> length (active_players ps)"
    by (rule play_rounds_survivors) (rule g)
  then show ?thesis using assms(2) g by (auto simp: runSimulation_def split: list.split)
qed

text \<open>Three players of which one chooses tails, for two rounds.\<close>

theorem simulation_has_no_winner_witness:
  "let r = runSimulation (\<lambda>i. [char_of (65 + i)]) (\<lambda>_ i. if i = 1 then 0 else 1) 3 2 10
   in map sr_eliminated (sm_rounds r) = [1, 0] \<and> sm_winner r = None \<and> sm_totalRounds r = 2"
proof -
  have "map sr_eliminated (sm_rounds (runSimulation (\<lambda>i. [char_of (65 + i)]) (\<lambda>_ i. if i = 1 then 0 else 1) 3 2 10)) = [1, 0]"
    by code_simp
  then show ?thesis
    using simulation_has_no_winner [OF _ refl, of 3 "\<lambda>i. [char_of (65 + i)]" "\<lambda>_ i. if i = 1 then 0 else 1" 2 10]
    by simp
qed

end
