(* ===== verification/LeaderboardPage.thy ===== *)
theory LeaderboardPage
  imports Leaderboard
begin

text \<open>
  The page of the leaderboard over the pages of theory \<open>Leaderboard\<close>: the hook
  frontend/src/features/leaderboard/hooks/useLeaderboard.ts, the page
  frontend/src/app/dashboard/leaderboard/page.tsx and the numbers of
  frontend/src/features/leaderboard/components/Pagination.tsx.
\<close>

section \<open>The hook\<close>

record survivor =
  sv_id :: string
  sv_agentId :: string
  sv_rank :: nat
  sv_survivalStreak :: int
  sv_totalYield :: rat
  sv_arenasWon :: int

definition toSurvivor :: "player_stats \<Rightarrow> survivor" where
  "toSurvivor p = \<lparr>sv_id = ps_id p, sv_agentId = ps_walletAddress p, sv_rank = ps_rank p,
     sv_survivalStreak = ps_survivalStreak p, sv_totalYield = ps_totalYield p, sv_arenasWon = ps_arenasWon p\<rparr>"

text \<open>\<open>lh_calls\<close>: the cursors of the requests that are under way.\<close>

record lb_hook =
  lh_survivors :: "survivor list"
  lh_loading :: bool
  lh_error :: "string option"
  lh_nextCursor :: "string option"
  lh_hasMore :: bool
  lh_calls :: "string option list"

definition first_lb_hook :: lb_hook where
  "first_lb_hook = \<lparr>lh_survivors = [], lh_loading = True, lh_error = None, lh_nextCursor = None, lh_hasMore = False, lh_calls = []\<rparr>"

definition fetchLeaderboard :: "string option \<Rightarrow> lb_hook \<Rightarrow> lb_hook" where
  "fetchLeaderboard cursor h =
     h\<lparr>lh_loading := (\<not> truthy cursor \<and> lh_loading h), lh_error := None, lh_calls := cursor # lh_calls h\<rparr>"

definition leaderboard_returns ::
    "string option \<Rightarrow> js_error + player_stats list \<times> string option \<Rightarrow> lb_hook \<Rightarrow> lb_hook" where
  "leaderboard_returns cursor out h =
     (case out of
        Inr (players, nc) \<Rightarrow>
          h\<lparr>lh_survivors := (if truthy cursor then lh_survivors h @ map toSurvivor players else map toSurvivor players),
            lh_nextCursor := nc, lh_hasMore := truthy nc, lh_loading := False, lh_calls := remove1 cursor (lh_calls h)\<rparr>
      | Inl e \<Rightarrow>
          h\<lparr>lh_error := Some (if e = NotAnError then ''Failed to load leaderboard'' else err_message e),
            lh_survivors := (if truthy cursor then lh_survivors h else []), lh_hasMore := False, lh_nextCursor := None,
            lh_loading := False, lh_calls := remove1 cursor (lh_calls h)\<rparr>)"

definition fetchMore :: "lb_hook \<Rightarrow> lb_hook" where
  "fetchMore h = (if truthy (lh_nextCursor h) \<and> \<not> lh_loading h then fetchLeaderboard (lh_nextCursor h) h else h)"

section \<open>The page\<close>

definition INITIAL_PAGE_SIZE :: nat where "INITIAL_PAGE_SIZE = 20"
definition TABLE_ITEMS_PER_PAGE :: nat where "TABLE_ITEMS_PER_PAGE = 7"

record lb_page =
  lp_hook :: lb_hook
  lp_currentPage :: nat
  lp_displayedCount :: nat

definition mount_lb_page :: lb_page where
  "mount_lb_page = \<lparr>lp_hook = fetchLeaderboard None first_lb_hook, lp_currentPage = 1, lp_displayedCount = INITIAL_PAGE_SIZE\<rparr>"

definition podiumSurvivors :: "lb_page \<Rightarrow> survivor list" where
  "podiumSurvivors p = take 3 (lh_survivors (lp_hook p))"

definition displayedTableSurvivors :: "lb_page \<Rightarrow> survivor list" where
  "displayedTableSurvivors p = take (lp_displayedCount p) (drop 3 (lh_survivors (lp_hook p)))"

definition lb_totalPages :: "lb_page \<Rightarrow> nat" where
  "lb_totalPages p = nat \<lceil>rat_of_nat (length (displayedTableSurvivors p)) / rat_of_nat TABLE_ITEMS_PER_PAGE\<rceil>"

definition paginatedSurvivors :: "lb_page \<Rightarrow> survivor list" where
  "paginatedSurvivors p =
     (let start = (lp_currentPage p - 1) * TABLE_ITEMS_PER_PAGE
      in drop start (take (start + TABLE_ITEMS_PER_PAGE) (displayedTableSurvivors p)))"

definition podiumOrdered :: "lb_page \<Rightarrow> survivor list" where
  "podiumOrdered p =
     concat (map (\<lambda>r. case List.find (\<lambda>s. sv_rank s = r) (podiumSurvivors p) of None \<Rightarrow> [] | Some s \<Rightarrow> [s]) [2, 1, 3])"

definition handleLoadMore :: "lb_page \<Rightarrow> lb_page" where
  "handleLoadMore p =
     (if lh_hasMore (lp_hook p) \<and> \<not> lh_loading (lp_hook p) then p\<lparr>lp_hook := fetchMore (lp_hook p)\<rparr> else p)"

text \<open>What follows the await of \<open>handleLoadMore\<close> happens after the returns of its requests only.\<close>

definition page_returns ::
    "string option \<Rightarrow> js_error + player_stats list \<times> string option \<Rightarrow> lb_page \<Rightarrow> lb_page" where
  "page_returns cursor out p =
     (let q = p\<lparr>lp_hook := leaderboard_returns cursor out (lp_hook p)\<rparr>
      in if cursor = None then q
         else q\<lparr>lp_displayedCount := lp_displayedCount q + INITIAL_PAGE_SIZE, lp_currentPage := 1\<rparr>)"

text \<open>
  The visits of a page whose reader waits for an answer before pressing \<open>Load More\<close> again. Requests
  may fail.
\<close>

inductive patient_step :: "(string option \<Rightarrow> player_stats list \<times> string option) \<Rightarrow> lb_page \<Rightarrow> lb_page \<Rightarrow> bool" for srv where
  press: "lh_calls (lp_hook p) = [] \<Longrightarrow> patient_step srv p (handleLoadMore p)"
| answered: "c \<in> set (lh_calls (lp_hook p)) \<Longrightarrow> patient_step srv p (page_returns c (Inr (srv c)) p)"
| failed: "c \<in> set (lh_calls (lp_hook p)) \<Longrightarrow> patient_step srv p (page_returns c (Inl e) p)"
| turned: "patient_step srv p (p\<lparr>lp_currentPage := n\<rparr>)"

inductive_cases patient_stepE: "patient_step srv p q"

section \<open>The numbers of the pages\<close>

datatype page_button = PageButton nat | Ellipsis

definition getVisiblePages :: "nat \<Rightarrow> nat \<Rightarrow> nat \<Rightarrow> page_button list" where
  "getVisiblePages maxVisiblePages currentPage totalPages =
     (if totalPages \<le> maxVisiblePages + 2 then map PageButton [1..<totalPages + 1]
      else (let startPage = max 2 (currentPage - 1); endPage = min (totalPages - 1) (currentPage + 1)
            in [PageButton 1] @ (if startPage > 2 then [Ellipsis] else []) @ map PageButton [startPage..<endPage + 1] @
               (if endPage < totalPages - 1 then [Ellipsis] else []) @ (if totalPages > 1 then [PageButton totalPages] else [])))"

definition handlePrevious :: "nat \<Rightarrow> nat" where
  "handlePrevious currentPage = (if currentPage > 1 then currentPage - 1 else currentPage)"

definition handleNext :: "nat \<Rightarrow> nat \<Rightarrow> nat" where
  "handleNext totalPages currentPage = (if currentPage < totalPages then currentPage + 1 else currentPage)"

section \<open>Lemmas\<close>

text \<open>The cursor of an offset, as \<open>encodeCursor\<close> and \<open>decodeCursor\<close> have it.\<close>

definition cursor_codec :: "(string \<Rightarrow> jval option) \<Rightarrow> (rat \<Rightarrow> string) \<Rightarrow> bool" where
  "cursor_codec rd enc \<longleftrightarrow>
     (\<forall>n. rd (enc (of_nat n)) = Some (JObj [(''offset'', JNum (of_nat n))]) \<and> enc (of_nat n) \<noteq> [])"

lemma page_at:
  assumes "cursor_codec rd enc"
  shows "getLeaderboard rd enc T m (Some (enc (of_nat k))) =
      (drop k (take (k + m) (buildRankedPlayers T)),
       if k + m < length (buildRankedPlayers T) then Some (enc (of_nat (k + m))) else None)"
proof -
  have "(if truthy (Some (enc (of_nat k))) then decode_offset rd (the (Some (enc (of_nat k)))) else 0) = of_nat k"
    using assms by (simp add: cursor_codec_def decode_offset_def)
  moreover have "of_nat k + of_nat m = (of_nat (k + m) :: rat)" by simp
  ultimately show ?thesis by (simp only: getLeaderboard_def Let_def js_slice_def floor_of_nat nat_int of_nat_less_iff)
qed

lemma page_first: "getLeaderboard rd enc T m None =
    (take m (buildRankedPlayers T), if m < length (buildRankedPlayers T) then Some (enc (of_nat m)) else None)"
  by (simp add: getLeaderboard_def js_slice_def)

lemma take_slice: "take k xs @ drop k (take (k + m) xs) = take (k + m) xs"
  by (metis append_take_drop_id min.absorb1 le_add1 take_take)

definition loaded :: "(rat \<Rightarrow> string) \<Rightarrow> player_stats list \<Rightarrow> nat \<Rightarrow> lb_hook \<Rightarrow> bool" where
  "loaded enc L k h \<longleftrightarrow>
     lh_survivors h = map toSurvivor (take k L) \<and> lh_hasMore h = truthy (lh_nextCursor h) \<and>
     (lh_nextCursor h = None \<or> lh_nextCursor h = Some (enc (of_nat k))) \<and>
     (lh_calls h = [] \<or> lh_calls h = [None] \<and> k = 0 \<and> lh_nextCursor h = None \<or> lh_calls h = [Some (enc (of_nat k))]) \<and>
     (lh_calls h = [] \<and> lh_error h = None \<and> lh_nextCursor h = None \<longrightarrow> length L \<le> k)"

lemma loaded_step:
  assumes codec: "cursor_codec rd enc" and L: "L = buildRankedPlayers T"
    and "patient_step (getLeaderboard rd enc T INITIAL_PAGE_SIZE) p q" and "loaded enc L k (lp_hook p)"
  shows "\<exists>k'. loaded enc L k' (lp_hook q)"
  using assms(3)
proof (cases rule: patient_step.cases)
  case press
  then have "loaded enc L k (lp_hook q)"
    using assms(4) by (auto simp: loaded_def handleLoadMore_def fetchMore_def fetchLeaderboard_def truthy_iff)
  then show ?thesis by blast
next
  case (answered c)
  then consider "c = None" "k = 0" "lh_calls (lp_hook p) = [None]"
    | "c = Some (enc (of_nat k))" "lh_calls (lp_hook p) = [Some (enc (of_nat k))]"
    using assms(4) by (auto simp: loaded_def)
  then show ?thesis
  proof cases
    case 1
    have "loaded enc L INITIAL_PAGE_SIZE (lp_hook q)"
      using assms(4) 1 answered
      by (simp add: loaded_def page_returns_def leaderboard_returns_def page_first L)
    then show ?thesis by blast
  next
    case 2
    have "truthy (Some (enc (of_nat k)))" using codec by (simp add: cursor_codec_def)
    then have "loaded enc L (k + INITIAL_PAGE_SIZE) (lp_hook q)"
      using assms(4) 2 answered take_slice [of k L INITIAL_PAGE_SIZE]
      by (simp add: loaded_def page_returns_def leaderboard_returns_def page_at [OF codec] L
          map_append [symmetric] del: map_append)
    then show ?thesis by blast
  qed
next
  case (failed c e)
  then consider "c = None" "k = 0" "lh_calls (lp_hook p) = [None]"
    | "c = Some (enc (of_nat k))" "lh_calls (lp_hook p) = [Some (enc (of_nat k))]"
    using assms(4) by (auto simp: loaded_def)
  then have "loaded enc L k (lp_hook q)"
  proof cases
    case 1
    then show ?thesis using assms(4) failed by (simp add: loaded_def page_returns_def leaderboard_returns_def)
  next
    case 2
    have "truthy (Some (enc (of_nat k)))" using codec by (simp add: cursor_codec_def)
    then show ?thesis using assms(4) 2 failed by (simp add: loaded_def page_returns_def leaderboard_returns_def)
  qed
  then show ?thesis by blast
next
  case (turned n)
  then show ?thesis using assms(4) by auto
qed

lemma loaded_steps:
  assumes "cursor_codec rd enc" and "(patient_step (getLeaderboard rd enc T INITIAL_PAGE_SIZE))\<^sup>*\<^sup>* mount_lb_page p"
  shows "\<exists>k. loaded enc (buildRankedPlayers T) k (lp_hook p)"
  using assms(2)
proof (induction rule: rtranclp_induct)
  case base
  have "loaded enc (buildRankedPlayers T) 0 (lp_hook mount_lb_page)"
    by (simp add: loaded_def mount_lb_page_def fetchLeaderboard_def first_lb_hook_def)
  then show ?case by blast
next
  case (step p q)
  then show ?case using loaded_step [OF assms(1) refl] by blast
qed

lemma ranked_ranks: "map ps_rank (buildRankedPlayers T) = [1..<length (buildRankedPlayers T) + 1]"
proof -
  have "map ps_rank (map (\<lambda>(i, r). r\<lparr>ps_rank := i + 1\<rparr>) (List.enumerate n xs)) = [n + 1..<n + length xs + 1]" for n xs
    by (induction xs arbitrary: n) (simp_all add: upt_rec)
  from this [of 0 "ranking_rows T"] show ?thesis by (simp add: buildRankedPlayers_def)
qed

lemma toSurvivor_ranks: "map sv_rank (map toSurvivor xs) = map ps_rank xs"
  by (simp add: toSurvivor_def)

lemma press_fields:
  assumes "lh_hasMore (lp_hook p)" "\<not> lh_loading (lp_hook p)" "lh_nextCursor (lp_hook p) = Some c" "c \<noteq> []"
  shows "lh_calls (lp_hook (handleLoadMore p)) = Some c # lh_calls (lp_hook p)"
    "lh_survivors (lp_hook (handleLoadMore p)) = lh_survivors (lp_hook p)" "lh_hasMore (lp_hook (handleLoadMore p))"
    "\<not> lh_loading (lp_hook (handleLoadMore p))" "lh_nextCursor (lp_hook (handleLoadMore p)) = Some c"
  using assms by (simp_all add: handleLoadMore_def fetchMore_def fetchLeaderboard_def)

lemma return_fields:
  assumes "c \<noteq> []"
  shows "lh_survivors (lp_hook (page_returns (Some c) (Inr (players, nc)) p)) = lh_survivors (lp_hook p) @ map toSurvivor players"
    "lh_nextCursor (lp_hook (page_returns (Some c) (Inr (players, nc)) p)) = nc"
  using assms by (simp_all add: page_returns_def leaderboard_returns_def)

section \<open>Properties\<close>


text \<open>A codec of cursors.\<close>

definition toy_enc :: "rat \<Rightarrow> string" where
  "toy_enc x = CHR ''c'' # dec_digits (nat \<lfloor>x\<rfloor>)"

definition toy_rd :: "string \<Rightarrow> jval option" where
  "toy_rd c = Some (JObj [(''offset'', JNum (of_nat (dec_val (tl c))))])"

lemma toy_codec: "cursor_codec toy_rd toy_enc"
  by (simp add: cursor_codec_def toy_rd_def toy_enc_def dec_digits_val)


text \<open>
  Pressing \<open>Load More\<close> twice before the first answer appends the same page twice: \<open>loading\<close>, which is to
  prevent it, is set for the first load only. The players of that page are shown twice from then on.
\<close>

theorem second_press_repeats_page:
  assumes "lh_calls (lp_hook p) = []" and "lh_hasMore (lp_hook p)" and "\<not> lh_loading (lp_hook p)"
    and "lh_nextCursor (lp_hook p) = Some c" and "c \<noteq> []"
    and "q = page_returns (Some c) (Inr (players, nc)) (page_returns (Some c) (Inr (players, nc)) (handleLoadMore (handleLoadMore p)))"
  shows "lh_calls (lp_hook (handleLoadMore (handleLoadMore p))) = [Some c, Some c] \<and>
    lh_survivors (lp_hook q) = lh_survivors (lp_hook p) @ map toSurvivor players @ map toSurvivor players \<and>
    lh_nextCursor (lp_hook q) = nc"
  using assms(1,5) press_fields [OF assms(2-5)] press_fields(1,2) [OF press_fields(3-5) [OF assms(2-5)] assms(5)]
  by (simp add: assms(6) return_fields)

definition toy_page :: lb_page where
  "toy_page = \<lparr>lp_hook = \<lparr>lh_survivors = [], lh_loading = False, lh_error = None, lh_nextCursor = Some ''c20'',
       lh_hasMore = True, lh_calls = []\<rparr>, lp_currentPage = 1, lp_displayedCount = 20\<rparr>"

definition toy_stats :: player_stats where
  "toy_stats = \<lparr>ps_id = ''u'', ps_walletAddress = ''G'', ps_totalYield = 1, ps_arenasWon = 1, ps_survivalStreak = 1, ps_rank = 21\<rparr>"

theorem second_press_repeats_page_witness:
  "map sv_rank (lh_survivors (lp_hook (page_returns (Some ''c20'') (Inr ([toy_stats], None))
     (page_returns (Some ''c20'') (Inr ([toy_stats], None)) (handleLoadMore (handleLoadMore toy_page)))))) = [21, 21]"
  using second_press_repeats_page [OF _ _ _ _ _ refl, of toy_page "''c20''" "[toy_stats]" None]
  by (simp add: toy_page_def toSurvivor_def toy_stats_def)

definition button_numbers :: "page_button list \<Rightarrow> nat list" where
  "button_numbers bs = concat (map (\<lambda>b. case b of PageButton n \<Rightarrow> [n] | Ellipsis \<Rightarrow> []) bs)"

lemma button_numbers_simps [simp]: "button_numbers [] = []" "button_numbers (PageButton n # bs) = n # button_numbers bs"
  "button_numbers (Ellipsis # bs) = button_numbers bs" "button_numbers (bs @ cs) = button_numbers bs @ button_numbers cs"
  "button_numbers (map PageButton ns) = ns"
  by (simp_all add: button_numbers_def o_def)

text \<open>
  The numbered buttons of the pagination are in increasing order, within the pages there are, and contain the
  first page, the last one, the current one and its neighbours, so that every page can be reached.
\<close>

theorem visible_pages_reach_all:
  assumes "1 \<le> currentPage" and "currentPage \<le> totalPages"
    and "ns = button_numbers (getVisiblePages maxVisiblePages currentPage totalPages)"
  shows "sorted_wrt (<) ns \<and> set ns \<subseteq> {1..totalPages} \<and>
    {1, totalPages, handlePrevious currentPage, currentPage, handleNext totalPages currentPage} \<subseteq> set ns"
proof (cases "totalPages \<le> maxVisiblePages + 2")
  case True
  then have "ns = [1..<totalPages + 1]" by (simp only: assms(3) getVisiblePages_def if_True button_numbers_simps)
  then show ?thesis using assms(1,2) by (auto simp: handlePrevious_def handleNext_def simp del: upt_Suc)
next
  case False
  let ?a = "max 2 (currentPage - 1)" and ?b = "min (totalPages - 1) (currentPage + 1)"
  have "ns = 1 # [?a..<?b + 1] @ [totalPages]"
    using False by (simp add: assms(3) getVisiblePages_def Let_def del: upt_Suc)
  then show ?thesis using assms(1,2) False
    by (auto simp: handlePrevious_def handleNext_def sorted_wrt_append simp del: upt_Suc)
qed

theorem visible_pages_reach_all_witness:
  "getVisiblePages 3 5 9 = [PageButton 1, Ellipsis, PageButton 4, PageButton 5, PageButton 6, Ellipsis, PageButton 9] \<and>
   {1, 9, handlePrevious 5, 5, handleNext 9 5} \<subseteq> set (button_numbers (getVisiblePages 3 5 9))"
proof
  show "getVisiblePages 3 5 9 = [PageButton 1, Ellipsis, PageButton 4, PageButton 5, PageButton 6, Ellipsis, PageButton 9]"
    by code_simp
  show "{1, 9, handlePrevious 5, 5, handleNext 9 5} \<subseteq> set (button_numbers (getVisiblePages 3 5 9))"
    using visible_pages_reach_all [OF _ _ refl, of 5 9 3] by simp
qed

end
