(* ===== verification/Lobby.thy ===== *)
theory Lobby
  imports ArenaRoutes HttpCache
begin

text \<open>
  The lobby of an arena: frontend/src/app/arena/[id]/page.tsx, which loads it on the server,
  frontend/src/features/arena-lobby/ArenaLobbyClient.tsx, which polls the statistics and the participants of
  theory \<open>ArenaRoutes\<close>, and frontend/src/components/arena/ChoiceSubmission.tsx, in which the player
  commits a choice.
\<close>

section \<open>Loading\<close>

text \<open>
  The statistics are whatever JSON the server sent with a status of success; \<open>None\<close> for the
  participants is a request that failed.
\<close>

datatype lobby_load =
    LobbyNotFound
  | LobbyFailed string
  | LobbyLoaded jval "arena_participant list" "nat option"

definition response_ok :: "http_reply \<Rightarrow> bool" where
  "response_ok r \<longleftrightarrow> 200 \<le> hp_status r \<and> hp_status r < 300"

definition loadArenaLobbyData :: "http_reply \<Rightarrow> arena_participant page option \<Rightarrow> lobby_load" where
  "loadArenaLobbyData statsResponse participants =
     (if hp_status statsResponse = 404 then LobbyNotFound
      else if \<not> response_ok statsResponse
      then LobbyFailed (''Failed to load arena stats ('' @ dec_digits (hp_status statsResponse) @ '')'')
      else (case participants of
              None \<Rightarrow> LobbyLoaded (hp_body statsResponse) [] None
            | Some pg \<Rightarrow> LobbyLoaded (hp_body statsResponse) (pg_items pg) (pg_nextCursor pg)))"

section \<open>The lobby\<close>

text \<open>\<open>lo_calls\<close>: the requests for participants under way, each with its cursor and \<open>replace\<close>.\<close>

record lobby =
  lo_stats :: "jval option"
  lo_participants :: "arena_participant list"
  lo_nextCursor :: "nat option"
  lo_hasMore :: bool
  lo_loadingStats :: bool
  lo_loadingParticipants :: bool
  lo_error :: "string option"
  lo_calls :: "(nat \<times> bool) list"

definition first_lobby :: "jval option \<Rightarrow> arena_participant list \<Rightarrow> nat option \<Rightarrow> lobby" where
  "first_lobby stats participants nextCursor =
     \<lparr>lo_stats = stats, lo_participants = participants, lo_nextCursor = nextCursor, lo_hasMore = (nextCursor \<noteq> None),
      lo_loadingStats = False, lo_loadingParticipants = False, lo_error = None, lo_calls = []\<rparr>"

definition lobby_isOpen :: "lobby \<Rightarrow> bool" where
  "lobby_isOpen l \<longleftrightarrow> (case lo_stats l of None \<Rightarrow> False | Some s \<Rightarrow> jfield ''status'' s = Some (JStr ''open''))"

text \<open>\<open>Map.set\<close> keeps the place of a key that is there.\<close>

definition participant_map :: "arena_participant list \<Rightarrow> (string \<times> arena_participant) list" where
  "participant_map ps = fold (\<lambda>p. AList.update (pt_id p) p) ps []"

definition mergedParticipants :: "lobby \<Rightarrow> arena_participant list" where
  "mergedParticipants l = map snd (participant_map (lo_participants l))"

definition mergeParticipants :: "arena_participant list \<Rightarrow> arena_participant list \<Rightarrow> arena_participant list" where
  "mergeParticipants incoming current =
     map snd (fold (\<lambda>p m. if pt_id p \<in> fst ` set m then m else AList.update (pt_id p) p m) current (participant_map incoming))"

definition fetchParticipants :: "nat \<Rightarrow> bool \<Rightarrow> lobby \<Rightarrow> lobby" where
  "fetchParticipants cursor rep l = l\<lparr>lo_loadingParticipants := True, lo_calls := (cursor, rep) # lo_calls l\<rparr>"

definition participants_return :: "nat \<times> bool \<Rightarrow> js_error + arena_participant page \<Rightarrow> lobby \<Rightarrow> lobby" where
  "participants_return call out l =
     (let l = l\<lparr>lo_loadingParticipants := False, lo_calls := remove1 call (lo_calls l)\<rparr>
      in case out of
           Inl e \<Rightarrow> l\<lparr>lo_error := Some (if e = NotAnError then ''Failed to refresh participants'' else err_message e)\<rparr>
         | Inr pg \<Rightarrow>
             l\<lparr>lo_participants := (if snd call \<or> fst call = 0 then mergeParticipants (pg_items pg) (lo_participants l)
                  else lo_participants l @ pg_items pg),
               lo_nextCursor := pg_nextCursor pg, lo_hasMore := pg_hasMore pg, lo_error := None\<rparr>)"

definition stats_start :: "lobby \<Rightarrow> lobby" where
  "stats_start l = l\<lparr>lo_loadingStats := True\<rparr>"

definition stats_return :: "js_error + jval \<Rightarrow> lobby \<Rightarrow> lobby" where
  "stats_return out l =
     (case out of
        Inl e \<Rightarrow> l\<lparr>lo_error := Some (if e = NotAnError then ''Failed to refresh arena stats'' else err_message e), lo_loadingStats := False\<rparr>
      | Inr data \<Rightarrow> l\<lparr>lo_stats := (if data = JNull then None else Some data), lo_error := None, lo_loadingStats := False\<rparr>)"

definition participants_tick :: "lobby \<Rightarrow> lobby" where
  "participants_tick l = (if lobby_isOpen l then fetchParticipants 0 True l else l)"

definition load_more_participants :: "lobby \<Rightarrow> lobby" where
  "load_more_participants l =
     (if lo_hasMore l then fetchParticipants (case lo_nextCursor l of None \<Rightarrow> 0 | Some c \<Rightarrow> c) False l else l)"

text \<open>
  What the page needs of the statistics to be shown at all; \<open>stats.status.toUpperCase()\<close> throws when
  there is no such text.
\<close>

definition lobby_heading :: "lobby \<Rightarrow> js_error + string option" where
  "lobby_heading l =
     (case lo_stats l of
        None \<Rightarrow> Inr None
      | Some s \<Rightarrow>
          (case jfield ''status'' s of
             Some (JStr t) \<Rightarrow> Inr (Some t)
           | _ \<Rightarrow> Inl (Error ''Cannot read properties of undefined'')))"

inductive lobby_step :: "lobby \<Rightarrow> lobby \<Rightarrow> bool" where
  tick: "lobby_step l (participants_tick l)"
| opened: "lobby_step l (fetchParticipants 0 True (stats_start l))"
| stats_tick: "lobby_step l (stats_start l)"
| stats_back: "lobby_step l (stats_return out l)"
| more: "lobby_step l (load_more_participants l)"
| returned: "call \<in> set (lo_calls l) \<Longrightarrow> lobby_step l (participants_return call out l)"

inductive_cases lobby_stepE: "lobby_step l l'"

section \<open>Choices\<close>

datatype lobby_choice = Heads | Tails

datatype submission_phase = SubmitIdle | Signing | Submitting | Submitted | SubmitError

text \<open>
  The properties are those of the last render; \<open>cs_deadline\<close> is \<open>Date.parse\<close> of the deadline, \<open>None\<close> for
  NaN.
\<close>

record choice_form =
  cs_round :: nat
  cs_deadline :: "int option"
  cs_arenaStatus :: string
  cs_selected :: "lobby_choice option"
  cs_phase :: submission_phase
  cs_error :: "string option"
  cs_seconds :: int

definition mount_choice :: "nat \<Rightarrow> int option \<Rightarrow> string \<Rightarrow> choice_form" where
  "mount_choice rnd deadline status =
     \<lparr>cs_round = rnd, cs_deadline = deadline, cs_arenaStatus = status, cs_selected = None, cs_phase = SubmitIdle,
      cs_error = None, cs_seconds = 0\<rparr>"

definition isDeadlineReached :: "choice_form \<Rightarrow> bool" where
  "isDeadlineReached f \<longleftrightarrow> cs_seconds f \<le> 0"

definition to_upper :: "string \<Rightarrow> string" where
  "to_upper s = map (\<lambda>c. if 97 \<le> code_of c \<and> code_of c \<le> 122 then char_of (code_of c - 32) else c) s"

definition isArenaOpen :: "choice_form \<Rightarrow> bool" where
  "isArenaOpen f \<longleftrightarrow> to_upper (cs_arenaStatus f) = ''OPEN''"

definition isLocked :: "choice_form \<Rightarrow> bool" where
  "isLocked f \<longleftrightarrow> cs_phase f = Signing \<or> cs_phase f = Submitting \<or> cs_phase f = Submitted"

definition canInteract :: "choice_form \<Rightarrow> bool" where
  "canInteract f \<longleftrightarrow> isArenaOpen f \<and> \<not> isDeadlineReached f \<and> \<not> isLocked f"

definition deadline_tick :: "int \<Rightarrow> choice_form \<Rightarrow> choice_form" where
  "deadline_tick now f =
     f\<lparr>cs_seconds := (case cs_deadline f of None \<Rightarrow> 0 | Some d \<Rightarrow> max 0 ((d - now) div 1000))\<rparr>"

text \<open>Its parent renders it again: for a new round the component keeps its state.\<close>

definition choice_props :: "nat \<Rightarrow> int option \<Rightarrow> string \<Rightarrow> choice_form \<Rightarrow> choice_form" where
  "choice_props rnd deadline status f = f\<lparr>cs_round := rnd, cs_deadline := deadline, cs_arenaStatus := status\<rparr>"

text \<open>
  \<open>handleSubmit\<close> up to its first await, what follows the building of the transaction, and its end.
\<close>

definition submit_start :: "lobby_choice \<Rightarrow> choice_form \<Rightarrow> choice_form" where
  "submit_start c f =
     (if \<not> isArenaOpen f \<or> isDeadlineReached f \<or> isLocked f then f
      else f\<lparr>cs_selected := Some c, cs_phase := Signing, cs_error := None\<rparr>)"

definition submit_built :: "choice_form \<Rightarrow> choice_form" where
  "submit_built f = f\<lparr>cs_phase := Submitting\<rparr>"

definition submit_failed :: "js_error \<Rightarrow> choice_form \<Rightarrow> choice_form" where
  "submit_failed e f =
     f\<lparr>cs_phase := SubmitError, cs_error := Some (if e = NotAnError then ''Failed to submit choice'' else err_message e)\<rparr>"

definition submit_finished :: "choice_form \<Rightarrow> choice_form" where
  "submit_finished f = f\<lparr>cs_phase := Submitted\<rparr>"

inductive choice_step :: "choice_form \<Rightarrow> choice_form \<Rightarrow> bool" where
  ticks: "choice_step f (deadline_tick now f)"
| renders: "choice_step f (choice_props rnd deadline status f)"
| pressed: "choice_step f (submit_start c f)"
| builds: "cs_phase f = Signing \<Longrightarrow> choice_step f (submit_built f)"
| fails: "cs_phase f = Signing \<or> cs_phase f = Submitting \<Longrightarrow> choice_step f (submit_failed e f)"
| finishes: "cs_phase f = Submitting \<Longrightarrow> choice_step f (submit_finished f)"

section \<open>Lemmas\<close>

lemma update_keys: "fst ` set (AList.update k v m) = insert k (fst ` set m)"
  by (metis dom_map_of_conv_image_fst dom_fun_upd option.distinct(1) update_conv')

lemma fold_update_keys: "fst ` set (fold (\<lambda>p. AList.update (pt_id p) p) ps m) = fst ` set m \<union> pt_id ` set ps"
  by (induction ps arbitrary: m) (simp_all add: update_keys)

lemma fold_add_keys:
  "fst ` set (fold (\<lambda>p m. if pt_id p \<in> fst ` set m then m else AList.update (pt_id p) p m) ps m) = fst ` set m \<union> pt_id ` set ps"
  by (induction ps arbitrary: m) (auto simp: update_keys)

text \<open>An entry of the map is a participant under its own id.\<close>

definition id_map :: "(string \<times> arena_participant) list \<Rightarrow> bool" where
  "id_map m \<longleftrightarrow> distinct (map fst m) \<and> (\<forall>(k, p) \<in> set m. pt_id p = k)"

lemma id_map_update: "id_map m \<Longrightarrow> id_map (AList.update (pt_id p) p m)"
  unfolding id_map_def
proof (intro conjI ballI)
  fix x assume m: "distinct (map fst m) \<and> (\<forall>(k, p) \<in> set m. pt_id p = k)" "x \<in> set (AList.update (pt_id p) p m)"
  then have "distinct (map fst (AList.update (pt_id p) p m))" by (simp add: distinct_update)
  then have "map_of (AList.update (pt_id p) p m) (fst x) = Some (snd x)"
    by (rule map_of_is_SomeI) (use m(2) in simp)
  then have "((map_of m)(pt_id p \<mapsto> p)) (fst x) = Some (snd x)" by (simp only: update_conv')
  then show "case x of (k, p) \<Rightarrow> pt_id p = k"
    using m(1) by (cases x) (auto split: if_splits dest: map_of_SomeD)
qed (simp add: distinct_update)

lemma id_map_nil [simp]: "id_map []"
  by (simp add: id_map_def)

lemma id_map_fold: "id_map m \<Longrightarrow> id_map (fold (\<lambda>p. AList.update (pt_id p) p) ps m)"
  by (induction ps arbitrary: m) (simp_all add: id_map_update)

lemma id_map_add:
  "id_map m \<Longrightarrow> id_map (fold (\<lambda>p m. if pt_id p \<in> fst ` set m then m else AList.update (pt_id p) p m) ps m)"
  by (induction ps arbitrary: m) (simp_all add: id_map_update)

lemma id_map_ids: "id_map m \<Longrightarrow> map pt_id (map snd m) = map fst m"
  by (auto simp: id_map_def)

lemma merge_ids: "pt_id ` set (mergeParticipants incoming current) = pt_id ` set incoming \<union> pt_id ` set current"
proof -
  let ?m = "fold (\<lambda>p m. if pt_id p \<in> fst ` set m then m else AList.update (pt_id p) p m) current (participant_map incoming)"
  have "id_map ?m" by (intro id_map_add) (simp add: participant_map_def id_map_fold)
  from id_map_ids [OF this] have "pt_id ` set (map snd ?m) = fst ` set ?m"
    by (metis image_set)
  then show ?thesis by (simp only: mergeParticipants_def fold_add_keys participant_map_def fold_update_keys) simp
qed

lemma merged_ids: "distinct (map pt_id (mergedParticipants l))"
  "set (map pt_id (mergedParticipants l)) = pt_id ` set (lo_participants l)"
proof -
  have i: "id_map (participant_map (lo_participants l))" by (simp add: participant_map_def id_map_fold)
  show "distinct (map pt_id (mergedParticipants l))"
    using i by (simp only: mergedParticipants_def id_map_ids) (simp add: id_map_def)
  show "set (map pt_id (mergedParticipants l)) = pt_id ` set (lo_participants l)"
    using i by (simp only: mergedParticipants_def id_map_ids set_map) (simp add: participant_map_def fold_update_keys)
qed

end
