(* ===== verification/LobbyResults.thy ===== *)
theory LobbyResults
  imports Lobby CacheResults
begin

text \<open>The properties of the lobby and of the choices made in it.\<close>

section \<open>Participants\<close>

lemma step_ids: "lobby_step l l' \<Longrightarrow> pt_id ` set (lo_participants l) \<subseteq> pt_id ` set (lo_participants l')"
  by (erule lobby_stepE)
    (auto simp: participants_tick_def fetchParticipants_def stats_start_def stats_return_def load_more_participants_def
      participants_return_def Let_def merge_ids split: sum.splits)

text \<open>
  A participant that the lobby has shown is shown until the page is left, each id once: what the polls bring is
  only added. The ids carry the round, so the entries of earlier rounds stay beside those of the current one, with the
  status and the choice they had, and are counted with them.
\<close>

theorem participants_never_leave:
  assumes "lobby_step\<^sup>*\<^sup>* l l'"
  shows "distinct (map pt_id (mergedParticipants l')) \<and>
    set (map pt_id (mergedParticipants l)) \<subseteq> set (map pt_id (mergedParticipants l'))"
proof -
  from assms have "pt_id ` set (lo_participants l) \<subseteq> pt_id ` set (lo_participants l')"
    by (induction rule: rtranclp_induct) (use step_ids in blast)+
  then show ?thesis by (simp only: merged_ids simp_thms)
qed

definition toy_participant :: "string \<Rightarrow> arena_participant" where
  "toy_participant i = \<lparr>pt_id = i, pt_walletAddress = i, pt_choice = ''heads'', pt_stake = 1, pt_status = ''READY'',
     pt_roundNumber = 1, pt_joinedAt = 0\<rparr>"

lemma toy_participant_id: "pt_id (toy_participant i) = i"
  by (simp add: toy_participant_def)

text \<open>The lobby showed a participant of round 1; the poll brings the same player in round 2.\<close>

definition toy_lobby :: lobby where
  "toy_lobby = (first_lobby None [toy_participant ''r1:u:0''] None)\<lparr>lo_calls := [(0, True)]\<rparr>"

theorem participants_never_leave_witness:
  "set (map pt_id (mergedParticipants toy_lobby)) \<subseteq>
     set (map pt_id (mergedParticipants (participants_return (0, True) (Inr (numbered_page 12 0 [toy_participant ''r2:u:0''])) toy_lobby)))"
proof -
  have "lobby_step toy_lobby (participants_return (0, True) (Inr (numbered_page 12 0 [toy_participant ''r2:u:0''])) toy_lobby)"
    by (rule returned) (simp add: toy_lobby_def)
  then show ?thesis using participants_never_leave [OF r_into_rtranclp] by blast
qed

lemma fold_update_new:
  "distinct (map pt_id ps) \<Longrightarrow> pt_id ` set ps \<inter> fst ` set m = {} \<Longrightarrow>
   fold (\<lambda>p. AList.update (pt_id p) p) ps m = m @ map (\<lambda>p. (pt_id p, p)) ps"
proof (induction ps arbitrary: m)
  case (Cons p ps)
  have "AList.update (pt_id p) p m = m @ [(pt_id p, p)]"
    using Cons.prems(2) by (induction m) auto
  then show ?case using Cons by auto
qed simp

lemma participant_map_distinct: "distinct (map pt_id ps) \<Longrightarrow> participant_map ps = map (\<lambda>p. (pt_id p, p)) ps"
  by (simp add: participant_map_def fold_update_new)

lemma fold_add_extends:
  "\<exists>r. fold (\<lambda>p m. if pt_id p \<in> fst ` set m then m else AList.update (pt_id p) p m) ps m = m @ r"
proof (induction ps arbitrary: m)
  case (Cons p ps)
  have "\<exists>r. (if pt_id p \<in> fst ` set m then m else AList.update (pt_id p) p m) = m @ r"
  proof (cases "pt_id p \<in> fst ` set m")
    case False
    then have "AList.update (pt_id p) p m = m @ [(pt_id p, p)]" by (induction m) auto
    with False show ?thesis by simp
  qed simp
  then obtain r where r: "(if pt_id p \<in> fst ` set m then m else AList.update (pt_id p) p m) = m @ r" by blast
  from Cons.IH [of "m @ r"] show ?case by (simp only: fold.simps o_apply r) (metis append.assoc)
qed simp

lemma merge_first:
  assumes "distinct (map pt_id incoming)"
  shows "\<exists>r. mergeParticipants incoming current = incoming @ r"
proof -
  obtain r where "fold (\<lambda>p m. if pt_id p \<in> fst ` set m then m else AList.update (pt_id p) p m) current (participant_map incoming) =
      participant_map incoming @ r"
    using fold_add_extends by blast
  then show ?thesis using assms by (simp add: mergeParticipants_def participant_map_distinct o_def)
qed

lemma merge_distinct: "distinct (map pt_id (mergeParticipants incoming current))"
proof -
  let ?m = "fold (\<lambda>p m. if pt_id p \<in> fst ` set m then m else AList.update (pt_id p) p m) current (participant_map incoming)"
  have m: "id_map ?m" by (intro id_map_add) (simp add: participant_map_def id_map_fold)
  then show ?thesis by (simp only: mergeParticipants_def id_map_ids) (simp add: id_map_def)
qed

text \<open>
  After a poll of the participants the list begins with the first page of the server, as the server has it and
  in its order; the others that were shown follow.
\<close>

theorem poll_shows_first_page:
  assumes "distinct (map pt_id xs)"
  shows "\<exists>rest. mergedParticipants (participants_return (0, rep) (Inr (numbered_page n 0 xs)) l) = take n xs @ rest"
proof -
  have "distinct (map pt_id (take n xs))" using assms by (simp add: take_map [symmetric])
  then obtain r where r: "mergeParticipants (take n xs) (lo_participants l) = take n xs @ r" using merge_first by blast
  have "mergedParticipants (participants_return (0, rep) (Inr (numbered_page n 0 xs)) l) =
      mergeParticipants (take n xs) (lo_participants l)"
    using merge_distinct [of "take n xs" "lo_participants l"]
    by (simp add: participants_return_def Let_def mergedParticipants_def numbered_page_def participant_map_distinct o_def)
  with r show ?thesis by simp
qed

theorem poll_shows_first_page_witness:
  "\<exists>rest. mergedParticipants (participants_return (0, True) (Inr (numbered_page 12 0 [toy_participant ''r2:u:0''])) toy_lobby) =
     [toy_participant ''r2:u:0''] @ rest"
  using poll_shows_first_page [of "[toy_participant ''r2:u:0'']" True 12 toy_lobby] by (simp add: toy_participant_def)

section \<open>Loading more\<close>

text \<open>
  A poll of an arena whose participants are \<open>xs\<close>, after which the reader may press \<open>Load more\<close> once before
  the next poll.
\<close>

definition poll_then :: "arena_participant list \<Rightarrow> bool \<Rightarrow> lobby \<Rightarrow> lobby" where
  "poll_then xs press l =
     (let l1 = participants_return (0, True) (Inr (numbered_page 12 0 xs)) (fetchParticipants 0 True l);
          l2 = load_more_participants l1
      in if press \<and> lo_calls l2 \<noteq> []
         then participants_return (hd (lo_calls l2)) (Inr (numbered_page 12 (fst (hd (lo_calls l2))) xs)) l2 else l1)"

lemma poll_then_ids:
  assumes "lo_calls l = []"
  shows "lo_calls (poll_then xs press l) = []"
    "pt_id ` set (lo_participants (poll_then xs press l)) \<subseteq> pt_id ` set (take 24 xs) \<union> pt_id ` set (lo_participants l)"
proof -
  let ?l1 = "participants_return (0, True) (Inr (numbered_page 12 0 xs)) (fetchParticipants 0 True l)"
  have l1: "lo_calls ?l1 = []" "lo_hasMore ?l1 \<longleftrightarrow> 12 < length xs" "lo_nextCursor ?l1 = (if 12 < length xs then Some 12 else None)"
    "lo_participants ?l1 = mergeParticipants (take 12 xs) (lo_participants l)"
    using assms by (simp_all add: participants_return_def fetchParticipants_def numbered_page_def Let_def)
  have sub: "set (take 12 xs) \<subseteq> set (take 24 xs)" "set (drop 12 (take 24 xs)) \<subseteq> set (take 24 xs)"
    by (rule set_take_subset_set_take, simp) (rule set_drop_subset)
  show "lo_calls (poll_then xs press l) = []"
    using l1 by (simp add: poll_then_def Let_def load_more_participants_def fetchParticipants_def [of _ False] participants_return_def [of "(12, False)"])
  have first: "pt_id ` set (lo_participants ?l1) \<subseteq> pt_id ` set (take 24 xs) \<union> pt_id ` set (lo_participants l)"
    unfolding l1(4) merge_ids using sub(1) by blast
  have "lo_participants (poll_then xs press l) \<in> {lo_participants ?l1, lo_participants ?l1 @ drop 12 (take 24 xs)}"
    using l1(1-3) by (simp add: poll_then_def Let_def load_more_participants_def fetchParticipants_def [of _ False]
        participants_return_def [of "(12, False)"] numbered_page_def [of _ 12])
  then have "set (lo_participants (poll_then xs press l)) \<subseteq> set (lo_participants ?l1) \<union> set (take 24 xs)"
    using sub(2) by auto
  then show "pt_id ` set (lo_participants (poll_then xs press l)) \<subseteq> pt_id ` set (take 24 xs) \<union> pt_id ` set (lo_participants l)"
    using first by blast
qed

text \<open>
  While the lobby is open only the first two pages of the participants can be loaded: every poll sets the
  cursor back to the second page, so that a reader who presses \<open>Load more\<close> at most once between two polls never
  sees a participant after the twenty-fourth.
\<close>

theorem later_pages_unreachable:
  assumes "x \<in> set (drop 24 xs)" and "distinct (map pt_id xs)"
  shows "pt_id x \<notin> set (map pt_id (mergedParticipants
    (fold (poll_then xs) presses (first_lobby st (take 12 xs) (if 12 < length xs then Some 12 else None)))))"
proof -
  have "lo_calls (fold (poll_then xs) ps l) = [] \<and>
      pt_id ` set (lo_participants (fold (poll_then xs) ps l)) \<subseteq> pt_id ` set (take 24 xs)"
    if "lo_calls l = []" "pt_id ` set (lo_participants l) \<subseteq> pt_id ` set (take 24 xs)" for ps l
    using that
  proof (induction ps arbitrary: l)
    case (Cons p ps)
    note poll = poll_then_ids [OF Cons.prems(1), of xs p]
    have "pt_id ` set (lo_participants (poll_then xs p l)) \<subseteq> pt_id ` set (take 24 xs)"
      using Cons.prems(2) by (intro order_trans [OF poll(2)] Un_least) simp_all
    from Cons.IH [OF poll(1) this] show ?case by simp
  qed simp
  then have "pt_id ` set (lo_participants (fold (poll_then xs) presses (first_lobby st (take 12 xs)
      (if 12 < length xs then Some 12 else None)))) \<subseteq> pt_id ` set (take 24 xs)"
    using set_take_subset_set_take [of 12 24 xs] by (simp add: first_lobby_def image_mono)
  moreover have "pt_id x \<notin> pt_id ` set (take 24 xs)"
  proof -
    have "distinct (map pt_id (take 24 xs) @ map pt_id (drop 24 xs))"
      using assms(2) by (simp only: map_append [symmetric] append_take_drop_id)
    then show ?thesis using assms(1) by auto
  qed
  ultimately show ?thesis by (simp only: merged_ids) blast
qed

theorem later_pages_unreachable_witness:
  "let xs = map (\<lambda>i. toy_participant (dec_digits i)) [0..<25]
   in pt_id (toy_participant (dec_digits 24)) \<notin>
     set (map pt_id (mergedParticipants (fold (poll_then xs) [True, True]
       (first_lobby None (take 12 xs) (if 12 < length xs then Some 12 else None)))))"
  unfolding Let_def
proof (rule later_pages_unreachable)
  have "inj dec_digits" by (metis dec_digits_val injI)
  then show "distinct (map pt_id (map (\<lambda>i. toy_participant (dec_digits i)) [0..<25]))"
    unfolding map_map o_def toy_participant_id distinct_map by (simp only: distinct_upt simp_thms) (rule inj_on_subset, auto)
  show "toy_participant (dec_digits 24) \<in> set (drop 24 (map (\<lambda>i. toy_participant (dec_digits i)) [0..<25]))"
    unfolding drop_map drop_upt set_map by (rule image_eqI [of _ _ 24]) simp_all
qed

section \<open>Choices\<close>

text \<open>
  C23: The lobby takes one choice per visit: after a submission nothing but leaving the page lets the player choose
  again, also when the lobby has moved to the next round with its own deadline, which expects another commitment.
\<close>

theorem one_choice_per_visit:
  assumes "cs_phase f = Submitted" and "choice_step\<^sup>*\<^sup>* f g"
  shows "cs_phase g = Submitted \<and> cs_selected g = cs_selected f \<and> \<not> canInteract g \<and> submit_start c g = g"
proof -
  from assms(2) have "cs_phase g = Submitted \<and> cs_selected g = cs_selected f"
    using assms(1)
    by (induction rule: rtranclp_induct)
      (auto elim!: choice_step.cases simp: deadline_tick_def choice_props_def submit_start_def isLocked_def)
  then show ?thesis by (simp add: canInteract_def isLocked_def submit_start_def)
qed

definition toy_submitted :: choice_form where
  "toy_submitted = submit_finished (submit_built (submit_start Heads (deadline_tick 0 (mount_choice 1 (Some 60000) ''open''))))"

lemma toy_submitted_facts: "cs_phase toy_submitted = Submitted" "cs_selected toy_submitted = Some Heads"
  by code_simp+

theorem one_choice_per_visit_witness:
  "let g = deadline_tick 60000 (choice_props 2 (Some 120000) ''open'' toy_submitted)
   in cs_round g = 2 \<and> cs_seconds g = 60 \<and> \<not> canInteract g \<and> submit_start Tails g = g"
proof -
  have "choice_step\<^sup>*\<^sup>* toy_submitted (deadline_tick 60000 (choice_props 2 (Some 120000) ''open'' toy_submitted))"
    by (rule rtranclp.rtrancl_into_rtrancl [OF r_into_rtranclp]) (rule renders, rule ticks)
  from one_choice_per_visit [OF toy_submitted_facts(1) this] show ?thesis
    by (simp add: deadline_tick_def choice_props_def)
qed

section \<open>A missing arena\<close>

text \<open>
  The first visitor of an arena that does not exist is told so; whoever comes in the following fifteen seconds
  gets a page that fails: the cached error arrives as a success, is taken for the statistics, and reading its status
  throws.
\<close>

theorem second_visitor_of_missing_arena:
  assumes "http_cache C" and "or_key q = arenaStats_key arenaId" and "or_ttl q = cacheTTL_ARENA_STATS"
    and "r = asyncHandler issuesOf (Inl (HttpErr 404 ''ARENA_NOT_FOUND'' m))"
    and "(away_step C (arenaStats_key arenaId))\<^sup>*\<^sup>* (web_handle C (Answered q r True) w) w1"
    and "wb_now w1 < wb_now w + 15000"
  shows "loadArenaLobbyData (miss_reply r) parts0 = LobbyNotFound \<and>
    (\<exists>hit st ps nc. fst (cache_arrive C (arenaStats_key arenaId) cacheTTL_ARENA_STATS w1) = Some hit \<and>
       loadArenaLobbyData hit parts = LobbyLoaded st ps nc \<and>
       lobby_heading (first_lobby (Some st) ps nc) = Inl (Error ''Cannot read properties of undefined''))"
proof -
  have body: "hp_body r = api_error_body ''ARENA_NOT_FOUND'' m None" "hp_status r = 404"
    using assms(4) by (simp_all add: asyncHandler_def errorHandler_def)
  then have hit: "cache_arrive C (arenaStats_key arenaId) cacheTTL_ARENA_STATS w1 = (Some (hit_reply (hp_body r)), w1)"
    using http_cache.answer_repeated [OF assms(1), of r q w w1] assms(2,3,5,6)
    by (simp add: api_error_body_def cacheTTL_ARENA_STATS_def)
  obtain ps nc where "loadArenaLobbyData (hit_reply (hp_body r)) parts = LobbyLoaded (hp_body r) ps nc"
    by (cases parts) (simp_all add: loadArenaLobbyData_def hit_reply_def response_ok_def)
  then show ?thesis
    using hit body by (simp add: loadArenaLobbyData_def miss_reply_def lobby_heading_def first_lobby_def api_error_body_def)
qed

theorem second_visitor_of_missing_arena_witness:
  "\<exists>hit st ps nc. fst (cache_arrive kept_env (arenaStats_key ''7'') cacheTTL_ARENA_STATS
        (web_handle kept_env (Answered toy_request (asyncHandler (\<lambda>_. []) (Inl (HttpErr 404 ''ARENA_NOT_FOUND'' ''x''))) True) toy_waiting)) = Some hit \<and>
     loadArenaLobbyData hit None = LobbyLoaded st ps nc \<and>
     lobby_heading (first_lobby (Some st) ps nc) = Inl (Error ''Cannot read properties of undefined'')"
  using second_visitor_of_missing_arena [OF kept.http_cache_axioms _ _ refl rtranclp.rtrancl_refl,
      of toy_request "''7''" "\<lambda>_. []" "''x''" toy_waiting None None]
  by (simp add: toy_request_def toy_waiting_eq toy_web_def cache_answered_def)

end
