(* ===== verification/MockFactory.thy ===== *)
theory MockFactory
  imports Wallets
begin

text \<open>
  The mock data of frontend/src/components/hook-d/mockFactory.ts with its pseudo-random generator on 32-bit
  words, over the types of arenaTypes.ts. \<open>Math.random\<close> and the time are arguments; the overrides of the
  caller are a function on the defaults.
\<close>

section \<open>Types\<close>

datatype arena_v2_status = ArPending | ArJoining | ArActive | ArResolving | ArEnded | ArCancelled
datatype mock_phase = PhWaiting | PhChoosing | PhResolving | PhResolved
datatype coin_side = HEADS | TAILS
datatype player_state = PlJoining | PlReady | PlAlive | PlEliminated
datatype elimination_cause = Minority | Timeout | Forfeit

record mock_round =
  mr_round :: nat
  mr_choice :: "coin_side option"
  mr_outcome :: coin_side
  mr_majorityChoice :: coin_side
  mr_eliminatedCount :: int

record player_entry =
  pe_wallet :: string
  pe_status :: player_state
  pe_joinedAt :: int
  pe_currentRound :: nat

record elimination_event =
  ee_arenaId :: string
  ee_round :: nat
  ee_walletAddress :: string
  ee_reason :: elimination_cause
  ee_timestamp :: int

record yield_snapshot =
  ys_principal :: rat
  ys_accruedYield :: rat
  ys_apy :: rat
  ys_lastUpdatedAt :: int
  ys_surgeMultiplier :: rat

record mock_arena =
  ma_arenaId :: string
  ma_status :: arena_v2_status
  ma_maxPlayers :: int
  ma_currentPlayers :: nat
  ma_entryFee :: string
  ma_currentRound :: nat
  ma_roundPhase :: mock_phase
  ma_createdAt :: int
  ma_participants :: "player_entry list"
  ma_rounds :: "mock_round list"
  ma_yieldData :: yield_snapshot

section \<open>The generator\<close>

text \<open>
  The state is a number that grows without wrapping; the operators on bits take it modulo \<open>2 ^ 32\<close>. A call
  returns the number and the next state.
\<close>

definition mulberry_mix :: "32 word \<Rightarrow> 32 word" where
  "mulberry_mix s =
     (let t = xor s (drop_bit 15 s) * or s 1;
          t2 = xor t (t + xor t (drop_bit 7 t) * or t 61)
      in xor t2 (drop_bit 14 t2))"

definition mulberry32 :: "int \<Rightarrow> rat \<times> int" where
  "mulberry32 state =
     (let s = state + 0x6D2B79F5 in (rat_of_int (uint (mulberry_mix (word_of_int s))) / 4294967296, s))"

definition createRNG :: "int option \<Rightarrow> rat \<Rightarrow> int" where
  "createRNG seed u = (case seed of Some s \<Rightarrow> s | None \<Rightarrow> \<lfloor>u * 2147483647\<rfloor>)"

definition randomInt :: "int \<Rightarrow> int \<Rightarrow> int \<Rightarrow> int \<times> int" where
  "randomInt lo hi rng = (case mulberry32 rng of (x, r) \<Rightarrow> (\<lfloor>x * of_int (hi - lo + 1)\<rfloor> + lo, r))"

definition mock_choice :: "'a list \<Rightarrow> int \<Rightarrow> 'a \<times> int" where
  "mock_choice xs rng = (case mulberry32 rng of (x, r) \<Rightarrow> (xs ! nat \<lfloor>x * of_nat (length xs)\<rfloor>, r))"

definition randomTimestamp :: "int \<Rightarrow> int \<Rightarrow> int \<times> int" where
  "randomTimestamp base rng =
     (case mulberry32 rng of (x, r) \<Rightarrow> (\<lfloor>of_int base + (x - 1 / 2) * 2 * 2592000000\<rfloor>, r))"

fun random_chars :: "nat \<Rightarrow> int \<Rightarrow> string \<times> int" where
  "random_chars 0 rng = ([], rng)"
| "random_chars (Suc n) rng =
     (let (c, r) = mock_choice base32Chars rng; (cs, r2) = random_chars n r in (c # cs, r2))"

definition randomStellarAddress :: "int \<Rightarrow> string \<times> int" where
  "randomStellarAddress rng = (let (cs, r) = random_chars 55 rng in (CHR ''G'' # cs, r))"

section \<open>The factories\<close>

definition createMockParticipant :: "(player_entry \<Rightarrow> player_entry) \<Rightarrow> int \<Rightarrow> int option \<Rightarrow> rat \<Rightarrow> player_entry" where
  "createMockParticipant overrides now seed u =
     (let (w, r) = randomStellarAddress (createRNG seed u);
          (st, _) = mock_choice [PlJoining, PlReady, PlAlive, PlEliminated] r
      in overrides \<lparr>pe_wallet = w, pe_status = st, pe_joinedAt = now, pe_currentRound = 1\<rparr>)"

definition createMockRoundResult :: "(mock_round \<Rightarrow> mock_round) \<Rightarrow> int option \<Rightarrow> rat \<Rightarrow> mock_round" where
  "createMockRoundResult overrides seed u =
     (let (c, r1) = mock_choice [Some HEADS, Some TAILS, None] (createRNG seed u);
          (oc, r2) = mock_choice [HEADS, TAILS] r1;
          (mj, r3) = mock_choice [HEADS, TAILS] r2;
          (n, _) = randomInt 0 50 r3
      in overrides \<lparr>mr_round = 1, mr_choice = c, mr_outcome = oc, mr_majorityChoice = mj, mr_eliminatedCount = n\<rparr>)"

definition createMockYieldSnapshot :: "(yield_snapshot \<Rightarrow> yield_snapshot) \<Rightarrow> int \<Rightarrow> int option \<Rightarrow> rat \<Rightarrow> yield_snapshot" where
  "createMockYieldSnapshot overrides now seed u =
     (let (p, r1) = randomInt 100 10000 (createRNG seed u);
          (y, r2) = mulberry32 r1; (a, r3) = mulberry32 r2; (m, _) = mulberry32 r3
      in overrides \<lparr>ys_principal = of_int p, ys_accruedYield = y * 500, ys_apy = a * 20, ys_lastUpdatedAt = now,
           ys_surgeMultiplier = 1 + m * 2\<rparr>)"

fun elimination_events :: "int \<Rightarrow> nat \<Rightarrow> nat \<Rightarrow> int \<Rightarrow> elimination_event list" where
  "elimination_events now i 0 rng = []"
| "elimination_events now i (Suc n) rng =
     (let (a, r1) = randomInt 1000 9999 rng; (w, r2) = randomStellarAddress r1;
          (c, r3) = mock_choice [Minority, Timeout, Forfeit] r2; (t, r4) = randomTimestamp now r3
      in \<lparr>ee_arenaId = ''arena-'' @ dec_digits (nat a), ee_round = i + 1, ee_walletAddress = w, ee_reason = c,
          ee_timestamp = t\<rparr> # elimination_events now (i + 1) n r4)"

definition createMockEliminationLog :: "rat \<Rightarrow> int \<Rightarrow> int option \<Rightarrow> rat \<Rightarrow> js_error + elimination_event list" where
  "createMockEliminationLog count now seed u =
     (if of_int \<lfloor>count\<rfloor> \<noteq> count \<or> count < 0 then Inl (Error ''Count must be a non-negative integer'')
      else Inr (elimination_events now 0 (nat \<lfloor>count\<rfloor>) (createRNG seed u)))"

text \<open>
  \<open>us\<close> are the values of \<open>Math.random\<close>: that of the arena, then those of its participants, rounds and
  yield, when there is no seed.
\<close>

definition createMockArena :: "(mock_arena \<Rightarrow> mock_arena) \<Rightarrow> int \<Rightarrow> int option \<Rightarrow> (nat \<Rightarrow> rat) \<Rightarrow> mock_arena" where
  "createMockArena overrides now seed us =
     (let (i, r1) = randomInt 100000 999999 (createRNG seed (us 0));
          (pc, r2) = randomInt 3 5 r1;
          participants = map (\<lambda>k. createMockParticipant id now (map_option (\<lambda>s. s + int k) seed) (us (1 + k))) [0..<nat pc];
          (rc, r3) = randomInt 1 3 r2;
          rounds = map (\<lambda>k. createMockRoundResult (mr_round_update (\<lambda>_. k + 1)) (map_option (\<lambda>s. s + int k + 100) seed)
            (us (1 + nat pc + k))) [0..<nat rc];
          (st, r4) = mock_choice [ArPending, ArJoining, ArActive, ArResolving, ArEnded, ArCancelled] r3;
          (mx, r5) = randomInt 10 100 r4;
          (fee, r6) = randomInt 10 1000 r5;
          (ph, _) = mock_choice [PhWaiting, PhChoosing, PhResolving, PhResolved] r6
      in overrides \<lparr>ma_arenaId = ''arena-'' @ dec_digits (nat i), ma_status = st, ma_maxPlayers = mx,
           ma_currentPlayers = nat pc, ma_entryFee = dec_digits (nat fee), ma_currentRound = nat rc, ma_roundPhase = ph,
           ma_createdAt = now, ma_participants = participants, ma_rounds = rounds,
           ma_yieldData = createMockYieldSnapshot id now (map_option (\<lambda>s. s + 1000) seed) (us (1 + nat pc + nat rc))\<rparr>)"

section \<open>Lemmas\<close>

lemma fraction_range: "0 \<le> i \<Longrightarrow> i < 4294967296 \<Longrightarrow> 0 \<le> rat_of_int i / 4294967296 \<and> rat_of_int i / 4294967296 < 1"
  by simp

lemma mulberry_range: "0 \<le> fst (mulberry32 s)" "fst (mulberry32 s) < 1"
proof -
  have "uint (w :: 32 word) < 4294967296" for w using uint_lt2p [of w] by simp
  from fraction_range [OF uint_ge_0 this] show "0 \<le> fst (mulberry32 s)" "fst (mulberry32 s) < 1"
    unfolding mulberry32_def Let_def fst_conv by blast+
qed

lemma scaled_range:
  assumes "0 < n"
  shows "0 \<le> \<lfloor>fst (mulberry32 s) * of_int n\<rfloor>" "\<lfloor>fst (mulberry32 s) * of_int n\<rfloor> < n"
proof -
  have "fst (mulberry32 s) * rat_of_int n < 1 * rat_of_int n"
    using mulberry_range [of s] assms by (intro mult_strict_right_mono) simp_all
  then show "\<lfloor>fst (mulberry32 s) * of_int n\<rfloor> < n" by (simp add: floor_less_iff)
  show "0 \<le> \<lfloor>fst (mulberry32 s) * of_int n\<rfloor>" using mulberry_range(1) [of s] assms by simp
qed

lemma randomInt_range: "lo \<le> hi \<Longrightarrow> lo \<le> fst (randomInt lo hi s) \<and> fst (randomInt lo hi s) \<le> hi"
  using scaled_range [of "hi - lo + 1" s] by (cases "mulberry32 s") (simp add: randomInt_def)

lemma mock_choice_in: "xs \<noteq> [] \<Longrightarrow> fst (mock_choice xs s) \<in> set xs"
proof -
  assume "xs \<noteq> []"
  then have "\<lfloor>fst (mulberry32 s) * of_int (int (length xs))\<rfloor> < int (length xs)" by (intro scaled_range) simp
  then have "nat \<lfloor>fst (mulberry32 s) * of_nat (length xs)\<rfloor> < length xs"
    using scaled_range(1) [of "int (length xs)" s] \<open>xs \<noteq> []\<close> by (subst nat_less_iff) simp_all
  then show ?thesis by (cases "mulberry32 s") (simp add: mock_choice_def)
qed

lemma base32Chars_valid: "list_all is_base32 base32Chars"
  by code_simp

lemma random_chars_valid: "length (fst (random_chars n s)) = n \<and> list_all is_base32 (fst (random_chars n s))"
proof (induction n arbitrary: s)
  case (Suc n)
  have "fst (mock_choice base32Chars s) \<in> set base32Chars" by (rule mock_choice_in) (simp add: base32Chars_def)
  then have "is_base32 (fst (mock_choice base32Chars s))" using base32Chars_valid by (simp add: list_all_iff)
  with Suc show ?case by (simp add: split_beta Let_def)
qed simp

lemma address_valid: "public_key_regex (fst (randomStellarAddress s))"
  using random_chars_valid [of 55 s] by (simp add: randomStellarAddress_def public_key_regex_def split_beta)

lemma participant_wallet: "public_key_regex (pe_wallet (createMockParticipant id now seed u))"
  using address_valid by (simp add: createMockParticipant_def split_beta Let_def)

section \<open>Properties\<close>

text \<open>
  Every mock arena without overrides, whatever the seed, is consistent: three to five participants with valid
  addresses, as many as it says and no more than its capacity, which is at most a hundred; its one to three rounds are
  numbered from one up to the current one; the principal is between 100 and 10000 and the multiplier between one and
  three.
\<close>

theorem mock_arena_consistent:
  "let a = createMockArena id now seed us in
     3 \<le> ma_currentPlayers a \<and> ma_currentPlayers a \<le> 5 \<and> length (ma_participants a) = ma_currentPlayers a \<and>
     int (ma_currentPlayers a) \<le> ma_maxPlayers a \<and> ma_maxPlayers a \<le> 100 \<and>
     list_all (\<lambda>p. public_key_regex (pe_wallet p)) (ma_participants a) \<and>
     1 \<le> ma_currentRound a \<and> ma_currentRound a \<le> 3 \<and> map mr_round (ma_rounds a) = [1..<ma_currentRound a + 1] \<and>
     100 \<le> ys_principal (ma_yieldData a) \<and> ys_principal (ma_yieldData a) \<le> 10000 \<and>
     1 \<le> ys_surgeMultiplier (ma_yieldData a) \<and> ys_surgeMultiplier (ma_yieldData a) < 3"
proof -
  obtain i r1 where 1: "randomInt 100000 999999 (createRNG seed (us 0)) = (i, r1)" by fastforce
  obtain pc r2 where 2: "randomInt 3 5 r1 = (pc, r2)" by fastforce
  obtain rc r3 where 3: "randomInt 1 3 r2 = (rc, r3)" by fastforce
  obtain st r4 where 4: "mock_choice [ArPending, ArJoining, ArActive, ArResolving, ArEnded, ArCancelled] r3 = (st, r4)" by fastforce
  obtain mx r5 where 5: "randomInt 10 100 r4 = (mx, r5)" by fastforce
  have ranges: "3 \<le> pc" "pc \<le> 5" "1 \<le> rc" "rc \<le> 3" "10 \<le> mx" "mx \<le> 100"
    using randomInt_range [of 3 5 r1] randomInt_range [of 1 3 r2] randomInt_range [of 10 100 r4] 2 3 5 by simp_all
  have y: "100 \<le> ys_principal (createMockYieldSnapshot id now sd u)" "ys_principal (createMockYieldSnapshot id now sd u) \<le> 10000"
    "1 \<le> ys_surgeMultiplier (createMockYieldSnapshot id now sd u)" "ys_surgeMultiplier (createMockYieldSnapshot id now sd u) < 3" for sd u
    using randomInt_range [of 100 10000 "createRNG sd u"] mulberry_range
    by (simp_all add: createMockYieldSnapshot_def Let_def split_beta)
  have rounds: "map mr_round (map (\<lambda>k. createMockRoundResult (mr_round_update (\<lambda>_. Suc k)) (f k) (g k)) [0..<n]) = [Suc 0..<Suc n]" for f g and n :: nat
    by (induction n) (simp_all add: createMockRoundResult_def Let_def split_beta)
  have "list_all (\<lambda>p. public_key_regex (pe_wallet p)) (map (\<lambda>k. createMockParticipant id now (f k) (g k)) ks)" for f g and ks :: "nat list"
    by (induction ks) (simp_all add: participant_wallet [unfolded id_def])
  note parts = this
  have "3 \<le> nat pc" "nat pc \<le> 5" "1 \<le> nat rc" "nat rc \<le> 3" "int (nat pc) \<le> mx" using ranges by linarith+
  then show ?thesis using ranges(6)
    by (simp add: createMockArena_def 1 2 3 4 5 split_beta Let_def y rounds parts del: map_map upt_Suc)
qed

lemma state_after: "((snd \<circ> mulberry32) ^^ n) s = s + int n * 0x6D2B79F5"
  by (induction n) (simp_all add: mulberry32_def Let_def algebra_simps)

lemma same_word: "(word_of_int (s + int i * 0x6D2B79F5) :: 32 word) = word_of_int (s + int j * 0x6D2B79F5) \<longleftrightarrow>
    int i mod 2 ^ 32 = int j mod 2 ^ 32"
proof -
  have c: "coprime (0x6D2B79F5 :: int) (2 ^ 32)" by (subst coprime_power_right_iff) simp
  have "(word_of_int (s + int i * 0x6D2B79F5) :: 32 word) = word_of_int (s + int j * 0x6D2B79F5) \<longleftrightarrow>
      2 ^ 32 dvd (int i - int j) * 0x6D2B79F5"
  proof -
    have "s + int i * 0x6D2B79F5 - (s + int j * 0x6D2B79F5) = (int i - int j) * 0x6D2B79F5" by (simp add: algebra_simps)
    then show ?thesis by (simp only: word_of_int_eq_iff take_bit_eq_mod mod_eq_dvd_iff len_num1 len_bit0 len_num0) simp
  qed
  also have "\<dots> \<longleftrightarrow> (2 ^ 32 :: int) dvd int i - int j"
    using c by (subst coprime_dvd_mult_left_iff) (simp_all add: coprime_commute)
  finally show ?thesis by (simp add: mod_eq_dvd_iff)
qed

text \<open>
  The generator passes through all 32-bit states before it repeats: the first \<open>2 ^ 32\<close> calls see different
  states, after which the numbers come again in the same order, although the state itself, a number, only grows.
\<close>

theorem generator_full_period:
  "inj_on (\<lambda>n. word_of_int (((snd \<circ> mulberry32) ^^ n) seed) :: 32 word) {..<2 ^ 32} \<and>
   fst (mulberry32 (((snd \<circ> mulberry32) ^^ (n + 2 ^ 32)) seed)) = fst (mulberry32 (((snd \<circ> mulberry32) ^^ n) seed))"
proof
  show "inj_on (\<lambda>n. word_of_int (((snd \<circ> mulberry32) ^^ n) seed) :: 32 word) {..<2 ^ 32}"
    unfolding state_after inj_on_def same_word by auto
  have "(word_of_int (seed + int (n + 2 ^ 32 + 1) * 0x6D2B79F5) :: 32 word) = word_of_int (seed + int (n + 1) * 0x6D2B79F5)"
  proof -
    have "int (n + 2 ^ 32 + 1) = int (n + 1) + 2 ^ 32" by simp
    then show ?thesis unfolding same_word by (simp only: mod_add_self2)
  qed
  moreover have "seed + int m * 0x6D2B79F5 + 0x6D2B79F5 = seed + int (m + 1) * 0x6D2B79F5" for m
    by (simp add: algebra_simps)
  ultimately show "fst (mulberry32 (((snd \<circ> mulberry32) ^^ (n + 2 ^ 32)) seed)) = fst (mulberry32 (((snd \<circ> mulberry32) ^^ n) seed))"
    unfolding state_after mulberry32_def Let_def fst_conv by (simp only:)
qed

end
