(* ===== verification/YieldMath.thy ===== *)
theory YieldMath
  imports MockFactory
begin

text \<open>
  The yield of frontend/src/components/hook-d/yieldEngine.ts and the checks of arenaValidation.ts. Numbers
  are exact.
\<close>

section \<open>Yield\<close>

definition SECONDS_IN_YEAR :: rat where "SECONDS_IN_YEAR = 31536000"
definition SECONDS_IN_DAY :: int where "SECONDS_IN_DAY = 86400"

definition calculateAccruedYield :: "rat \<Rightarrow> rat \<Rightarrow> rat \<Rightarrow> rat" where
  "calculateAccruedYield stake apy elapsedSeconds =
     (if stake \<le> 0 \<or> apy \<le> 0 \<or> elapsedSeconds \<le> 0 then 0
      else stake * apy * (elapsedSeconds / SECONDS_IN_YEAR))"

definition applySurgeMultiplier :: "rat \<Rightarrow> rat \<Rightarrow> rat" where
  "applySurgeMultiplier baseYield multiplier =
     (if baseYield \<le> 0 \<or> multiplier \<le> 0 then max 0 baseYield else baseYield * multiplier)"

definition projectYieldAt :: "rat \<Rightarrow> rat \<Rightarrow> rat \<Rightarrow> rat" where
  "projectYieldAt stake apy targetSeconds = calculateAccruedYield stake apy targetSeconds"

definition estimatePrizePoolYield :: "rat \<Rightarrow> rat \<Rightarrow> rat \<Rightarrow> rat" where
  "estimatePrizePoolYield totalStake apy roundDurationSeconds = calculateAccruedYield totalStake apy roundDurationSeconds"

text \<open>The loop from the last but one snapshot downwards.\<close>

definition past_snapshot :: "yield_snapshot list \<Rightarrow> int \<Rightarrow> yield_snapshot" where
  "past_snapshot history targetTime =
     (case List.find (\<lambda>s. ys_lastUpdatedAt s \<le> targetTime) (rev (butlast history)) of
        Some s \<Rightarrow> s
      | None \<Rightarrow> hd history)"

text \<open>\<open>Number(x.toFixed(4))\<close>\<close>

definition four_decimals :: "rat \<Rightarrow> js_num" where
  "four_decimals x = parseFloat (toFixed 4 x)"

definition trend_between :: "yield_snapshot \<Rightarrow> yield_snapshot \<Rightarrow> js_num" where
  "trend_between pastSnapshot latest =
     (if ys_apy pastSnapshot \<le> 0 then Num (if ys_apy latest > 0 then 100 else 0)
      else four_decimals ((ys_apy latest - ys_apy pastSnapshot) / ys_apy pastSnapshot * 100))"

definition calculateTrend :: "yield_snapshot list \<Rightarrow> js_num" where
  "calculateTrend history =
     (if length history < 2 then Num 0
      else let latest = last history
           in trend_between (past_snapshot history (ys_lastUpdatedAt latest - SECONDS_IN_DAY)) latest)"

section \<open>Checks\<close>

datatype 'a validation = Valid 'a | Invalid string

text \<open>The checks of a schema of numbers, each with its message; the first that fails is reported.\<close>

definition number_checks :: "(js_num \<Rightarrow> bool \<times> string) list \<Rightarrow> js_num \<Rightarrow> js_num validation" where
  "number_checks checks n =
     (if n = NaN then Invalid ''Expected number, received nan''
      else (case List.find (\<lambda>c. \<not> fst (c n)) checks of None \<Rightarrow> Valid n | Some c \<Rightarrow> Invalid (snd (c n))))"

definition num_int :: "js_num \<Rightarrow> bool" where
  "num_int n = (case n of Num x \<Rightarrow> of_int \<lfloor>x\<rfloor> = x | _ \<Rightarrow> False)"

definition num_min :: "rat \<Rightarrow> js_num \<Rightarrow> bool" where
  "num_min m n = (\<not> num_less n (Num m))"

definition num_max :: "rat \<Rightarrow> js_num \<Rightarrow> bool" where
  "num_max m n = (\<not> num_less (Num m) n)"

definition validateStakeAmount :: "js_num \<Rightarrow> js_num validation" where
  "validateStakeAmount = number_checks
     [\<lambda>n. ((case n of Num x \<Rightarrow> True | _ \<Rightarrow> False), ''Number must be finite''),
      \<lambda>n. (num_less (Num 0) n, ''Stake amount must be greater than zero''),
      \<lambda>n. (num_max 1000000000 n, ''Stake amount exceeds maximum allowed value'')]"

definition validateRoundDuration :: "js_num \<Rightarrow> js_num validation" where
  "validateRoundDuration = number_checks
     [\<lambda>n. (num_int n, ''Round duration must be an integer''), \<lambda>n. (num_less (Num 0) n, ''Round duration must be positive''),
      \<lambda>n. (num_min 10 n, ''Round duration is too short (min 10s)''),
      \<lambda>n. (num_max 3600 n, ''Round duration is too long (max 1h)'')]"

definition validateMaxPlayers :: "js_num \<Rightarrow> js_num validation" where
  "validateMaxPlayers = number_checks
     [\<lambda>n. (num_int n, ''Player count must be an integer''), \<lambda>n. (num_min 2 n, ''Minimum quorum is 2 players''),
      \<lambda>n. (num_max 10000 n, ''Maximum player limit exceeded'')]"

definition validateVolume :: "js_num \<Rightarrow> js_num validation" where
  "validateVolume = number_checks
     [\<lambda>n. (num_min 0 n, ''Volume cannot be negative''), \<lambda>n. (num_max 100 n, ''Volume cannot exceed 100'')]"

definition validateStellarAddress :: "string \<Rightarrow> string validation" where
  "validateStellarAddress address =
     (if address = [] then Invalid ''Stellar address is required''
      else if public_key_regex address then Valid address else Invalid ''Invalid Stellar public key format'')"

definition validateArenaId :: "string \<Rightarrow> string validation" where
  "validateArenaId i =
     (if length (js_trim i) < 3 then Invalid ''Arena ID must be at least 3 characters'' else Valid (js_trim i))"

definition validateChoice :: "string \<Rightarrow> string validation" where
  "validateChoice choice =
     (if choice = ''HEADS'' \<or> choice = ''TAILS'' then Valid choice else Invalid (''Choice must be strictly '' @ [CHR 0x27] @ ''HEADS'' @ [CHR 0x27] @ '' or '' @ [CHR 0x27] @ ''TAILS'' @ [CHR 0x27]))"

definition validateColorMode :: "string \<Rightarrow> string validation" where
  "validateColorMode mode =
     (if mode = ''dark'' \<or> mode = ''high-contrast'' then Valid mode else Invalid ''Invalid color mode'')"

section \<open>Properties\<close>

text \<open>
  The yield of consecutive periods adds up to the yield of the whole, a surge multiplies the yield of each part
  alike, and no yield is negative: however a game is cut into rounds, the prize pool is the same.
\<close>

theorem yield_additive:
  assumes "0 \<le> s" and "0 \<le> t"
  shows "applySurgeMultiplier (calculateAccruedYield p a (s + t)) m =
      applySurgeMultiplier (calculateAccruedYield p a s) m + applySurgeMultiplier (calculateAccruedYield p a t) m \<and>
    estimatePrizePoolYield p a (s + t) = estimatePrizePoolYield p a s + projectYieldAt p a t \<and>
    0 \<le> applySurgeMultiplier (calculateAccruedYield p a s) m"
proof -
  have y: "calculateAccruedYield p a x = (if p \<le> 0 \<or> a \<le> 0 then 0 else p * a * x / SECONDS_IN_YEAR)" if "0 \<le> x" for x
    using that by (auto simp: calculateAccruedYield_def)
  have nn: "0 \<le> calculateAccruedYield p a x" for x
    by (simp add: calculateAccruedYield_def SECONDS_IN_YEAR_def)
  have surge: "applySurgeMultiplier b m = (if m \<le> 0 then b else b * m)" if "0 \<le> b" for b
    using that by (auto simp: applySurgeMultiplier_def)
  have "calculateAccruedYield p a (s + t) = calculateAccruedYield p a s + calculateAccruedYield p a t"
    using assms by (simp add: y add_divide_distrib distrib_left)
  then show ?thesis
    using nn by (simp add: surge estimatePrizePoolYield_def projectYieldAt_def distrib_right)
qed

theorem yield_additive_witness:
  "applySurgeMultiplier (calculateAccruedYield 1000 (1 / 20) (60 + 30)) 2 =
     applySurgeMultiplier (calculateAccruedYield 1000 (1 / 20) 60) 2 + applySurgeMultiplier (calculateAccruedYield 1000 (1 / 20) 30) 2"
  using yield_additive [of 60 30 1000 "1 / 20" 2] by simp

text \<open>
  Over snapshots with the times that the factory gives them, in milliseconds, the trend of a day compares the last
  snapshot with the newest one that is 86.4 seconds older: with snapshots that far apart it is the change between the
  last two, whatever happened in the day before.
\<close>

theorem trend_of_a_minute:
  assumes "past = createMockYieldSnapshot f t1 seed1 u1" and "latest = createMockYieldSnapshot g t2 seed2 u2"
    and "\<And>y. ys_lastUpdatedAt (f y) = ys_lastUpdatedAt y" and "\<And>y. ys_lastUpdatedAt (g y) = ys_lastUpdatedAt y"
    and "t2 - t1 \<ge> 86400"
  shows "calculateTrend (older @ [past, latest]) = trend_between past latest"
proof -
  have "ys_lastUpdatedAt past = t1" "ys_lastUpdatedAt latest = t2"
    using assms(1-4) by (simp_all add: createMockYieldSnapshot_def Let_def split_beta)
  then show ?thesis
    using assms(5) by (simp add: calculateTrend_def past_snapshot_def SECONDS_IN_DAY_def butlast_append Let_def)
qed

theorem trend_of_a_minute_witness:
  "calculateTrend ([createMockYieldSnapshot id 0 (Some 1) 0] @
     [createMockYieldSnapshot id 86300000 (Some 2) 0, createMockYieldSnapshot id 86400000 (Some 3) 0]) =
   trend_between (createMockYieldSnapshot id 86300000 (Some 2) 0) (createMockYieldSnapshot id 86400000 (Some 3) 0)"
  by (rule trend_of_a_minute [OF refl refl]) simp_all

text \<open>
  The checks of numbers accept exactly their ranges: stakes above zero up to a thousand million, durations of ten
  seconds to an hour and two to ten thousand players, both whole, and volumes of zero to a hundred; what is accepted is
  returned unchanged.
\<close>

theorem checks_accept_ranges:
  "(validateStakeAmount n = Valid m \<longleftrightarrow> m = n \<and> (\<exists>x. n = Num x \<and> 0 < x \<and> x \<le> 1000000000)) \<and>
   (validateRoundDuration n = Valid m \<longleftrightarrow> m = n \<and> (\<exists>i. n = Num (of_int i) \<and> 10 \<le> i \<and> i \<le> 3600)) \<and>
   (validateMaxPlayers n = Valid m \<longleftrightarrow> m = n \<and> (\<exists>i. n = Num (of_int i) \<and> 2 \<le> i \<and> i \<le> 10000)) \<and>
   (validateVolume n = Valid m \<longleftrightarrow> m = n \<and> (\<exists>x. n = Num x \<and> 0 \<le> x \<and> x \<le> 100))"
proof (cases n)
  case (Num x)
  have int: "of_int \<lfloor>x\<rfloor> = x \<and> P x \<longleftrightarrow> (\<exists>i. x = of_int i \<and> P (of_int i))" for P
    by (metis floor_of_int)
  show ?thesis
    unfolding Num validateStakeAmount_def validateRoundDuration_def validateMaxPlayers_def validateVolume_def
    using int [of "\<lambda>x. 10 \<le> x \<and> x \<le> 3600"] int [of "\<lambda>x. 2 \<le> x \<and> x \<le> 10000"]
    by (auto simp: number_checks_def num_int_def num_min_def num_max_def not_less split: if_splits)
qed (auto simp: validateStakeAmount_def validateRoundDuration_def validateMaxPlayers_def validateVolume_def number_checks_def
    num_int_def num_min_def num_max_def split: if_splits)

end
