(* ===== verification/Notifications.thy ===== *)
theory Notifications
  imports Prelude
begin

text \<open>
  The notifications of frontend/src/components/ui/NotificationProvider.tsx, the functions of
  frontend/src/shared-d/hooks/useNotification.ts that make them, and the progress of NotificationCard.tsx. Ids
  are fresh; a timer runs when it is due.
\<close>

section \<open>The provider\<close>

datatype notification_type = NoteSuccess | NoteError | NoteInfo | NoteWarning

record notification_config =
  nc_message :: string
  nc_type :: "notification_type option"
  nc_duration :: "nat option"
  nc_persistent :: bool

record notification =
  nt_id :: nat
  nt_message :: string
  nt_type :: notification_type
  nt_duration :: "nat option"
  nt_persistent :: bool
  nt_createdAt :: nat

text \<open>\<open>nv_timers\<close>: the ids of \<open>timeoutRefs\<close> with the time at which the timer is due.\<close>

record notifier =
  nv_notes :: "notification list"
  nv_timers :: "(nat \<times> nat) list"
  nv_fresh :: nat
  nv_now :: nat

definition first_notifier :: notifier where
  "first_notifier = \<lparr>nv_notes = [], nv_timers = [], nv_fresh = 0, nv_now = 0\<rparr>"

definition removeNotification :: "nat \<Rightarrow> notifier \<Rightarrow> notifier" where
  "removeNotification i v =
     v\<lparr>nv_notes := filter (\<lambda>n. nt_id n \<noteq> i) (nv_notes v), nv_timers := filter (\<lambda>(j, d). j \<noteq> i) (nv_timers v)\<rparr>"

definition note_duration :: "notification_config \<Rightarrow> nat option" where
  "note_duration c =
     (if nc_persistent c then None else Some (case nc_duration c of None \<Rightarrow> 5000 | Some d \<Rightarrow> d))"

definition addNotification :: "nat \<Rightarrow> notification_config \<Rightarrow> notifier \<Rightarrow> nat \<times> notifier" where
  "addNotification maxNotifications c v =
     (let i = nv_fresh v;
          n = \<lparr>nt_id = i, nt_message = nc_message c, nt_type = (case nc_type c of None \<Rightarrow> NoteInfo | Some t \<Rightarrow> t),
               nt_duration = nc_duration c, nt_persistent = nc_persistent c, nt_createdAt = nv_now v\<rparr>
      in (i, v\<lparr>nv_notes := take maxNotifications (n # nv_notes v), nv_fresh := i + 1,
               nv_timers := (case note_duration c of
                  None \<Rightarrow> nv_timers v
                | Some d \<Rightarrow> if d = 0 then nv_timers v else (i, nv_now v + d) # nv_timers v)\<rparr>))"

definition clearAllNotifications :: "notifier \<Rightarrow> notifier" where
  "clearAllNotifications v = v\<lparr>nv_timers := [], nv_notes := []\<rparr>"

text \<open>Time passes up to the first timer that is due.\<close>

inductive note_step :: "nat \<Rightarrow> notifier \<Rightarrow> notifier \<Rightarrow> bool" for mx where
  added: "note_step mx v (snd (addNotification mx c v))"
| removed: "note_step mx v (removeNotification i v)"
| cleared: "note_step mx v (clearAllNotifications v)"
| expired: "(i, d) \<in> set (nv_timers v) \<Longrightarrow> d \<le> nv_now v \<Longrightarrow> note_step mx v (removeNotification i v)"
| waited: "\<forall>(i, d) \<in> set (nv_timers v). nv_now v + ms \<le> d \<Longrightarrow> note_step mx v (v\<lparr>nv_now := nv_now v + ms\<rparr>)"

inductive_cases note_stepE: "note_step mx v v'"

section \<open>The hook\<close>

text \<open>Nothing is shown for an empty message; the methods of a type let the options replace nothing of it.\<close>

definition notify_config :: "nat \<Rightarrow> notification_config \<Rightarrow> notifier \<Rightarrow> nat option \<times> notifier" where
  "notify_config mx c v =
     (if js_trim (nc_message c) = [] then (None, v)
      else (let (i, v') = addNotification mx (c\<lparr>nc_message := js_trim (nc_message c),
              nc_type := Some (case nc_type c of None \<Rightarrow> NoteInfo | Some t \<Rightarrow> t)\<rparr>) v in (Some i, v')))"

definition notify_text :: "nat \<Rightarrow> notification_type \<Rightarrow> string \<Rightarrow> nat option \<Rightarrow> bool \<Rightarrow> notifier \<Rightarrow> nat option \<times> notifier" where
  "notify_text mx t message duration persistent v =
     (if js_trim message = [] then (None, v)
      else (let (i, v') = addNotification mx
              \<lparr>nc_message = js_trim message, nc_type = Some t, nc_duration = duration, nc_persistent = persistent\<rparr> v
            in (Some i, v')))"

text \<open>The card's bar in percent; without a duration in the notification there is none.\<close>

definition updateProgress :: "nat \<Rightarrow> notification \<Rightarrow> nat \<Rightarrow> rat" where
  "updateProgress startTime n now =
     (case nt_duration n of
        None \<Rightarrow> 100
      | Some d \<Rightarrow> if nt_persistent n \<or> d = 0 then 100 else of_nat (d - (now - startTime)) / of_nat d * 100)"

section \<open>Properties\<close>

text \<open>What a notification that is shown satisfies: its timer runs until it has been shown for its duration.\<close>

definition shown_for :: "notification \<Rightarrow> nat option" where
  "shown_for n =
     (if nt_persistent n \<or> nt_duration n = Some 0 then None
      else Some (case nt_duration n of None \<Rightarrow> 5000 | Some d \<Rightarrow> d))"

definition notes_ok :: "nat \<Rightarrow> notifier \<Rightarrow> bool" where
  "notes_ok mx v \<longleftrightarrow>
     length (nv_notes v) \<le> mx \<and> distinct (map nt_id (nv_notes v)) \<and> (\<forall>n \<in> set (nv_notes v). nt_id n < nv_fresh v) \<and>
     (\<forall>(i, d) \<in> set (nv_timers v). nv_now v \<le> d) \<and>
     (\<forall>n \<in> set (nv_notes v). \<forall>d. shown_for n = Some d \<longrightarrow> (nt_id n, nt_createdAt n + d) \<in> set (nv_timers v))"

lemma notes_ok_removed: "notes_ok mx v \<Longrightarrow> notes_ok mx (removeNotification i v)"
  by (auto simp: notes_ok_def removeNotification_def intro: le_trans [OF length_filter_le] distinct_map_filter)

definition new_note :: "notification_config \<Rightarrow> notifier \<Rightarrow> notification" where
  "new_note c v = \<lparr>nt_id = nv_fresh v, nt_message = nc_message c, nt_type = (case nc_type c of None \<Rightarrow> NoteInfo | Some t \<Rightarrow> t),
     nt_duration = nc_duration c, nt_persistent = nc_persistent c, nt_createdAt = nv_now v\<rparr>"

lemma added_fields:
  "nv_notes (snd (addNotification mx c v)) = take mx (new_note c v # nv_notes v)"
  "nv_fresh (snd (addNotification mx c v)) = nv_fresh v + 1" "nv_now (snd (addNotification mx c v)) = nv_now v"
  "nv_timers (snd (addNotification mx c v)) =
     (case shown_for (new_note c v) of None \<Rightarrow> nv_timers v | Some d \<Rightarrow> (nv_fresh v, nv_now v + d) # nv_timers v)"
  by (simp_all add: addNotification_def new_note_def Let_def note_duration_def shown_for_def split: option.splits)

lemma notes_ok_added:
  assumes "notes_ok mx v"
  shows "notes_ok mx (snd (addNotification mx c v))"
proof -
  let ?ns = "take mx (new_note c v # nv_notes v)"
  have sub: "n = new_note c v \<or> n \<in> set (nv_notes v)" if "n \<in> set ?ns" for n
    using in_set_takeD [OF that] by simp
  have new: "nt_id (new_note c v) = nv_fresh v" "nt_createdAt (new_note c v) = nv_now v"
    by (simp_all add: new_note_def)
  have "distinct (map nt_id (new_note c v # nv_notes v))" using assms by (auto simp: notes_ok_def new)
  then have "distinct (map nt_id ?ns)" by (metis distinct_take take_map)
  moreover have "nt_id n < nv_fresh v + 1" if "n \<in> set ?ns" for n
    using sub [OF that] assms by (auto simp: notes_ok_def new)
  moreover have "(nt_id n, nt_createdAt n + d) \<in> set (nv_timers (snd (addNotification mx c v)))"
    if "n \<in> set ?ns" "shown_for n = Some d" for n d
  proof (cases "n = new_note c v")
    case True
    then show ?thesis using that(2) by (simp add: added_fields new)
  next
    case False
    then have "(nt_id n, nt_createdAt n + d) \<in> set (nv_timers v)" using sub [OF that(1)] that(2) assms by (simp add: notes_ok_def)
    then show ?thesis by (simp add: added_fields split: option.split)
  qed
  moreover have "\<forall>(i, d) \<in> set (nv_timers (snd (addNotification mx c v))). nv_now v \<le> d"
    using assms by (auto simp: added_fields notes_ok_def split: option.splits)
  ultimately show ?thesis unfolding notes_ok_def added_fields(1-3) by (intro conjI ballI allI impI) auto
qed

lemma notes_ok_step: "note_step mx v v' \<Longrightarrow> notes_ok mx v \<Longrightarrow> notes_ok mx v'"
proof (erule note_stepE)
  fix c assume "v' = snd (addNotification mx c v)" "notes_ok mx v"
  then show "notes_ok mx v'" using notes_ok_added by simp
next
  assume "v' = clearAllNotifications v" "notes_ok mx v"
  then show "notes_ok mx v'" by (simp add: notes_ok_def clearAllNotifications_def)
next
  fix ms assume "notes_ok mx v" "v' = v\<lparr>nv_now := nv_now v + ms\<rparr>" "\<forall>(i, d) \<in> set (nv_timers v). nv_now v + ms \<le> d"
  then show "notes_ok mx v'" by (simp add: notes_ok_def)
qed (simp_all add: notes_ok_removed)

text \<open>
  At every moment at most the given number of notifications is shown, no two with the same id, and one that is
  neither persistent nor has the duration zero is shown no longer than its duration, or five seconds when it has none.
\<close>

theorem notifications_expire:
  assumes "(note_step mx)\<^sup>*\<^sup>* first_notifier v"
  shows "length (nv_notes v) \<le> mx \<and> distinct (map nt_id (nv_notes v)) \<and>
    (\<forall>n \<in> set (nv_notes v). \<forall>d. shown_for n = Some d \<longrightarrow> nv_now v \<le> nt_createdAt n + d)"
proof -
  from assms have "notes_ok mx v"
    by (induction rule: rtranclp_induct) (use notes_ok_step in \<open>auto simp: notes_ok_def first_notifier_def\<close>)
  then show ?thesis by (auto simp: notes_ok_def)
qed

definition toy_note :: notification_config where
  "toy_note = \<lparr>nc_message = ''saved'', nc_type = None, nc_duration = None, nc_persistent = False\<rparr>"

theorem notifications_expire_witness:
  "let v = snd (addNotification 5 toy_note first_notifier)
   in length (nv_notes v) = 1 \<and> (\<forall>n \<in> set (nv_notes v). \<forall>d. shown_for n = Some d \<longrightarrow> nv_now v \<le> nt_createdAt n + d)"
  using notifications_expire [OF r_into_rtranclp [where r = "note_step 5", OF added [of 5 first_notifier toy_note]]]
  by (simp add: addNotification_def first_notifier_def toy_note_def Let_def)

end
