(* ===== verification/Dialogs.thy ===== *)
theory Dialogs
  imports Forms
begin

text \<open>
  The dialogs of the frontend: the focus trap of components/ui/Modal.tsx, and the states of
  components/modals/StakeModal.tsx, TransactionModal.tsx and JoinArenaModal.tsx. What a wallet and the chain
  answer are the events of the step relations.
\<close>

section \<open>The focus trap\<close>

text \<open>
  The elements of the container that the selector finds, in order, with whether each can have the focus (a
  disabled button is found too). Where the browser moves the focus by itself is the parameter \<open>nav\<close>; the
  locale states the order of navigation, in which the container, with its index of -1, has no place.
\<close>

datatype focus = OnContainer | OnElement nat | OutsideModal

type_synonym navigation = "bool \<Rightarrow> bool list \<Rightarrow> focus \<Rightarrow> focus"

definition enabled_at :: "bool list \<Rightarrow> nat \<Rightarrow> bool" where
  "enabled_at es i \<longleftrightarrow> i < length es \<and> es ! i"

locale tab_order =
  fixes nav :: navigation
  assumes forward: "enabled_at es k \<Longrightarrow> i < k \<Longrightarrow> \<exists>j. nav False es (OnElement i) = OnElement j \<and> enabled_at es j"
    and backward: "enabled_at es k \<Longrightarrow> k < i \<Longrightarrow> \<exists>j. nav True es (OnElement i) = OnElement j \<and> enabled_at es j"
    and enters: "enabled_at es k \<Longrightarrow> \<exists>j. nav False es OnContainer = OnElement j \<and> enabled_at es j"
    and leaves: "nav True es OnContainer = OutsideModal"
    and past_end: "\<forall>k. i < k \<longrightarrow> \<not> enabled_at es k \<Longrightarrow> nav False es (OnElement i) = OutsideModal"

text \<open>\<open>e.focus()\<close> has no effect on a disabled element.\<close>

definition focus_on :: "bool list \<Rightarrow> nat \<Rightarrow> focus \<Rightarrow> focus" where
  "focus_on es i f = (if enabled_at es i then OnElement i else f)"

definition open_focus :: focus where
  "open_focus = OnContainer"

definition press_tab :: "navigation \<Rightarrow> bool \<Rightarrow> bool list \<Rightarrow> focus \<Rightarrow> focus" where
  "press_tab nav shift es f =
     (if f = OutsideModal then nav shift es f
      else if shift \<and> es \<noteq> [] \<and> f = OnElement 0 then focus_on es (length es - 1) f
      else if \<not> shift \<and> es \<noteq> [] \<and> f = OnElement (length es - 1) then focus_on es 0 f
      else nav shift es f)"

context tab_order
begin

lemma press_inside:
  assumes "enabled_at es 0" and "enabled_at es (length es - 1)" and "enabled_at es i"
  shows "\<exists>j. press_tab nav s es (OnElement i) = OnElement j \<and> enabled_at es j"
proof (cases s)
  case True
  then show ?thesis
    using assms backward [of es 0 i] by (cases "i = 0") (auto simp: press_tab_def focus_on_def enabled_at_def)
next
  case False
  have "i \<noteq> length es - 1 \<Longrightarrow> i < length es - 1" using assms(3) by (auto simp: enabled_at_def)
  with False show ?thesis
    using assms forward [of es "length es - 1" i] by (cases "i = length es - 1") (auto simp: press_tab_def focus_on_def enabled_at_def)
qed

lemma presses_inside:
  assumes "enabled_at es 0" and "enabled_at es (length es - 1)"
  shows "enabled_at es i \<Longrightarrow> \<exists>j. fold (\<lambda>s. press_tab nav s es) ks (OnElement i) = OnElement j \<and> enabled_at es j"
proof (induction ks arbitrary: i)
  case (Cons s ks)
  then obtain j where "press_tab nav s es (OnElement i) = OnElement j" "enabled_at es j"
    using press_inside [OF assms] by blast
  then show ?case using Cons.IH by simp
qed simp

lemma escapes_at_once: "press_tab nav True es open_focus = OutsideModal"
  by (simp add: press_tab_def open_focus_def leaves)

lemma escapes_past_disabled:
  assumes "enabled_at es i" and "\<forall>k. i < k \<longrightarrow> \<not> enabled_at es k" and "i < length es - 1"
  shows "press_tab nav False es (OnElement i) = OutsideModal"
  using assms past_end [OF assms(2)] by (auto simp: press_tab_def)

end

text \<open>The order of a document of which the modal's elements are the part that matters.\<close>

fun document_nav :: navigation where
  "document_nav False es (OnElement i) =
     (case List.find (\<lambda>j. i < j \<and> es ! j) [0..<length es] of Some j \<Rightarrow> OnElement j | None \<Rightarrow> OutsideModal)"
| "document_nav False es OnContainer =
     (case List.find (\<lambda>j. es ! j) [0..<length es] of Some j \<Rightarrow> OnElement j | None \<Rightarrow> OutsideModal)"
| "document_nav True es (OnElement i) =
     (case List.find (\<lambda>j. j < i \<and> es ! j) (rev [0..<length es]) of Some j \<Rightarrow> OnElement j | None \<Rightarrow> OutsideModal)"
| "document_nav _ es _ = OutsideModal"

lemma find_enabled:
  assumes "k \<in> set xs" "P k"
  shows "\<exists>j. List.find P xs = Some j \<and> j \<in> set xs \<and> P j"
  using assms by (induction xs) auto

interpretation document: tab_order document_nav
proof (unfold_locales, goal_cases)
  case (1 es k i)
  then show ?case using find_enabled [of k "[0..<length es]" "\<lambda>j. i < j \<and> es ! j"] by (auto simp: enabled_at_def)
next
  case (2 es k i)
  then show ?case using find_enabled [of k "rev [0..<length es]" "\<lambda>j. j < i \<and> es ! j"] by (auto simp: enabled_at_def)
next
  case (3 es k)
  then show ?case using find_enabled [of k "[0..<length es]" "\<lambda>j. es ! j"] by (auto simp: enabled_at_def)
next
  case (5 i es)
  then have "List.find (\<lambda>j. i < j \<and> es ! j) [0..<length es] = None" by (auto simp: find_None_iff enabled_at_def)
  then show ?case by simp
qed simp

section \<open>Staking\<close>

datatype stake_state = StakeIdle | StakeSigning | StakeSubmitting | StakeSuccess | StakeFailed

text \<open>
  \<open>sk_timers\<close>: the timers of earlier successes that will call \<open>onSuccess\<close> and \<open>onClose\<close>. \<open>sk_signing\<close> and
  \<open>sk_submitting\<close> are the calls that wait for a signature and for the network; \<open>sk_sent\<close> records the amounts for
  which a transaction was built.
\<close>

record stake_modal =
  sk_open :: bool
  sk_amount :: string
  sk_state :: stake_state
  sk_error :: string
  sk_timers :: nat
  sk_signing :: nat
  sk_submitting :: nat
  sk_successes :: nat
  sk_sent :: "js_num list"

text \<open>\<open>useWallet\<close> and the configured contract.\<close>

record stake_env =
  se_connected :: bool
  se_address :: "string option"
  se_balance :: rat
  se_contract :: string
  se_placeholder :: string

definition stake_processing :: "stake_modal \<Rightarrow> bool" where
  "stake_processing m \<longleftrightarrow> sk_state m = StakeSigning \<or> sk_state m = StakeSubmitting"

definition numAmount :: "stake_modal \<Rightarrow> js_num" where
  "numAmount m = (case parseFloat (sk_amount m) of NaN \<Rightarrow> Num 0 | n \<Rightarrow> n)"

definition isValidAmount :: "stake_env \<Rightarrow> stake_modal \<Rightarrow> bool" where
  "isValidAmount E m \<longleftrightarrow> num_less (Num 0) (numAmount m) \<and> \<not> num_less (Num (se_balance E)) (numAmount m)"

definition isStakingContractConfigured :: "stake_env \<Rightarrow> bool" where
  "isStakingContractConfigured E \<longleftrightarrow>
     se_contract E \<noteq> [] \<and> se_contract E \<noteq> se_placeholder E \<and> \<not> str_includes ''...'' (se_contract E)"

definition stake_disabled :: "stake_env \<Rightarrow> stake_modal \<Rightarrow> bool" where
  "stake_disabled E m \<longleftrightarrow>
     stake_processing m \<or> sk_state m = StakeSuccess \<or> (se_connected E \<and> \<not> isValidAmount E m) \<or>
     \<not> isStakingContractConfigured E"

definition stake_error :: "string \<Rightarrow> stake_modal \<Rightarrow> stake_modal" where
  "stake_error e m = m\<lparr>sk_error := e, sk_state := StakeFailed\<rparr>"

text \<open>\<open>handleInitiateStake\<close> up to its first await.\<close>

definition initiate_stake :: "stake_env \<Rightarrow> stake_modal \<Rightarrow> stake_modal" where
  "initiate_stake E m =
     (if \<not> se_connected E then m
      else if \<not> truthy (se_address E) then stake_error ''Wallet address not available'' m
      else if \<not> num_less (Num 0) (numAmount m) then stake_error ''Please enter a valid amount'' m
      else if num_less (Num (se_balance E)) (numAmount m) then stake_error ''Insufficient balance'' m
      else m\<lparr>sk_state := StakeSigning, sk_signing := sk_signing m + 1, sk_sent := numAmount m # sk_sent m\<rparr>)"

definition press_stake :: "stake_env \<Rightarrow> stake_modal \<Rightarrow> stake_modal" where
  "press_stake E m = (if sk_open m \<and> \<not> stake_disabled E m then initiate_stake E m else m)"

definition stake_signed :: "stake_modal \<Rightarrow> stake_modal" where
  "stake_signed m = m\<lparr>sk_state := StakeSubmitting, sk_signing := sk_signing m - 1, sk_submitting := sk_submitting m + 1\<rparr>"

definition stake_submitted :: "stake_modal \<Rightarrow> stake_modal" where
  "stake_submitted m =
     m\<lparr>sk_state := StakeSuccess, sk_submitting := sk_submitting m - 1, sk_timers := sk_timers m + 1,
       sk_successes := sk_successes m + 1\<rparr>"

definition sign_failed :: "string \<Rightarrow> stake_modal \<Rightarrow> stake_modal" where
  "sign_failed e m = (stake_error e m)\<lparr>sk_signing := sk_signing m - 1\<rparr>"

definition submit_rejected :: "string \<Rightarrow> stake_modal \<Rightarrow> stake_modal" where
  "submit_rejected e m = (stake_error e m)\<lparr>sk_submitting := sk_submitting m - 1\<rparr>"

text \<open>\<open>handleAmountChange\<close>: what is not a digit or a point is dropped.\<close>

definition stake_amount_change :: "string \<Rightarrow> stake_modal \<Rightarrow> stake_modal" where
  "stake_amount_change v m =
     (let m' = m\<lparr>sk_amount := filter (\<lambda>c. is_digit c \<or> c = CHR ''.'') v\<rparr>
      in if sk_state m = StakeFailed then m'\<lparr>sk_state := StakeIdle, sk_error := []\<rparr> else m')"

text \<open>The parent opens and closes the modal; closing resets the state.\<close>

definition stake_opened :: "stake_modal \<Rightarrow> stake_modal" where
  "stake_opened m = m\<lparr>sk_open := True\<rparr>"

definition stake_closed :: "stake_modal \<Rightarrow> stake_modal" where
  "stake_closed m = m\<lparr>sk_open := False, sk_state := StakeIdle, sk_error := []\<rparr>"

definition stake_timer :: "stake_modal \<Rightarrow> stake_modal" where
  "stake_timer m = (stake_closed m)\<lparr>sk_timers := sk_timers m - 1\<rparr>"

definition first_stake :: stake_modal where
  "first_stake = \<lparr>sk_open = False, sk_amount = ''5000.00'', sk_state = StakeIdle, sk_error = [], sk_timers = 0,
     sk_signing = 0, sk_submitting = 0, sk_successes = 0, sk_sent = []\<rparr>"

inductive stake_step :: "stake_env \<Rightarrow> stake_modal \<Rightarrow> stake_modal \<Rightarrow> bool" for E where
  open_stake: "stake_step E m (stake_opened m)"
| type_stake: "sk_open m \<Longrightarrow> \<not> stake_processing m \<Longrightarrow> se_connected E \<Longrightarrow> stake_step E m (stake_amount_change v m)"
| start_stake: "stake_step E m (press_stake E m)"
| sign_stake: "0 < sk_signing m \<Longrightarrow> stake_step E m (stake_signed m)"
| refuse_stake: "0 < sk_signing m \<Longrightarrow> stake_step E m (sign_failed e m)"
| send_stake: "0 < sk_submitting m \<Longrightarrow> stake_step E m (stake_submitted m)"
| reject_stake: "0 < sk_submitting m \<Longrightarrow> stake_step E m (submit_rejected e m)"
| close_stake: "sk_open m \<Longrightarrow> \<not> stake_processing m \<Longrightarrow> stake_step E m (stake_closed m)"
| timeout_stake: "0 < sk_timers m \<Longrightarrow> stake_step E m (stake_timer m)"

inductive_cases stake_stepE: "stake_step E m m'"

section \<open>The confirmation of a transaction\<close>

datatype tx_modal_state = TxReview | TxSigning | TxSubmitting | TxSuccess | TxError

record tx_modal =
  tm_state :: tx_modal_state
  tm_error :: "string option"

definition tx_modal_opened :: "tx_modal \<Rightarrow> tx_modal" where
  "tx_modal_opened m = m\<lparr>tm_state := TxReview, tm_error := None\<rparr>"

definition tx_confirm :: "tx_modal \<Rightarrow> tx_modal" where
  "tx_confirm m = m\<lparr>tm_state := TxSigning\<rparr>"

text \<open>\<open>parseError\<close> is \<open>parseStellarError\<close>.\<close>

definition tx_confirmed :: "(js_error \<Rightarrow> string) \<Rightarrow> js_error + unit \<Rightarrow> tx_modal \<Rightarrow> tx_modal" where
  "tx_confirmed parseError out m =
     (case out of
        Inr _ \<Rightarrow> m\<lparr>tm_state := TxSuccess\<rparr>
      | Inl e \<Rightarrow> m\<lparr>tm_state := TxError, tm_error := Some (parseError e)\<rparr>)"

definition tx_processing :: "tx_modal \<Rightarrow> bool" where
  "tx_processing m \<longleftrightarrow> tm_state m = TxSigning \<or> tm_state m = TxSubmitting"

text \<open>Whether a press outside, or of Escape, reaches the parent's \<open>onClose\<close>.\<close>

definition tx_closes :: "tx_modal \<Rightarrow> bool" where
  "tx_closes m \<longleftrightarrow> \<not> tx_processing m"

section \<open>Joining\<close>

record join_modal =
  jm_checked :: bool
  jm_loading :: bool
  jm_calls :: nat

definition join_opened :: "bool \<Rightarrow> join_modal \<Rightarrow> join_modal" where
  "join_opened isOpen m = (if isOpen then m\<lparr>jm_checked := False\<rparr> else m)"

definition join_check :: "bool \<Rightarrow> join_modal \<Rightarrow> join_modal" where
  "join_check b m = m\<lparr>jm_checked := b\<rparr>"

text \<open>The button is disabled when the box is not checked or a call is under way.\<close>

definition join_confirm :: "join_modal \<Rightarrow> join_modal" where
  "join_confirm m =
     (if \<not> jm_checked m \<or> jm_loading m then m else m\<lparr>jm_loading := True, jm_calls := jm_calls m + 1\<rparr>)"

definition join_returns :: "join_modal \<Rightarrow> join_modal" where
  "join_returns m = m\<lparr>jm_loading := False, jm_calls := jm_calls m - 1\<rparr>"

datatype join_event = JoinOpen bool | JoinCheck bool | JoinConfirm | JoinReturn

fun join_handle :: "join_event \<Rightarrow> join_modal \<Rightarrow> join_modal" where
  "join_handle (JoinOpen b) m = join_opened b m"
| "join_handle (JoinCheck b) m = join_check b m"
| "join_handle JoinConfirm m = join_confirm m"
| "join_handle JoinReturn m = (if 0 < jm_calls m then join_returns m else m)"

section \<open>Properties\<close>

text \<open>
  Once an element of a modal has the focus, no sequence of Tab and Shift+Tab takes it out, provided the first and
  the last element can have the focus. Right after opening, when the container itself has it, Shift+Tab does leave
  the modal, and so does Tab from the last element that is enabled when a disabled one follows.
\<close>

theorem focus_trap:
  assumes "tab_order nav"
  shows "(enabled_at es 0 \<and> enabled_at es (length es - 1) \<and> enabled_at es i \<longrightarrow>
      (\<exists>j. fold (\<lambda>s. press_tab nav s es) ks (OnElement i) = OnElement j \<and> enabled_at es j)) \<and>
    press_tab nav True es open_focus = OutsideModal \<and>
    (enabled_at es i \<and> (\<forall>k. i < k \<longrightarrow> \<not> enabled_at es k) \<and> i < length es - 1 \<longrightarrow>
      press_tab nav False es (OnElement i) = OutsideModal)"
  using tab_order.presses_inside [OF assms] tab_order.escapes_at_once [OF assms]
    tab_order.escapes_past_disabled [OF assms] by blast

theorem focus_trap_witness:
  "(\<exists>j. fold (\<lambda>s. press_tab document_nav s [True, False, True]) [False, False, True] (OnElement 0) = OnElement j) \<and>
   press_tab document_nav True [True, False, True] open_focus = OutsideModal \<and>
   press_tab document_nav False [True, False] (OnElement 0) = OutsideModal"
proof -
  have "enabled_at [True, False, True] 0 \<and> enabled_at [True, False, True] (length [True, False, True] - 1) \<and> enabled_at [True, False, True] 0"
    by (simp add: enabled_at_def)
  moreover have "enabled_at [True, False] 0 \<and> (\<forall>k. 0 < k \<longrightarrow> \<not> enabled_at [True, False] k) \<and> 0 < length [True, False] - 1"
    by (auto simp: enabled_at_def less_Suc_eq)
  ultimately show ?thesis
    using focus_trap [OF document.tab_order_axioms, of "[True, False, True]" 0 "[False, False, True]"]
      focus_trap [OF document.tab_order_axioms, of "[True, False]" 0 "[]"] by blast
qed

definition stake_ok :: "stake_env \<Rightarrow> stake_modal \<Rightarrow> bool" where
  "stake_ok E m \<longleftrightarrow>
     list_all (\<lambda>a. num_less (Num 0) a \<and> \<not> num_less (Num (se_balance E)) a) (sk_sent m) \<and>
     (sk_sent m = [] \<or> isStakingContractConfigured E \<and> se_connected E) \<and>
     sk_successes m + sk_signing m + sk_submitting m \<le> length (sk_sent m)"

lemma stake_ok_step: "stake_step E m m' \<Longrightarrow> stake_ok E m \<Longrightarrow> stake_ok E m'"
  by (erule stake_stepE)
    (auto simp: stake_ok_def stake_opened_def stake_amount_change_def press_stake_def initiate_stake_def stake_error_def
      sign_failed_def submit_rejected_def stake_signed_def stake_submitted_def stake_closed_def stake_timer_def
      stake_disabled_def Let_def)

text \<open>
  C27: Every amount for which the dialog builds a staking transaction is above zero and within the balance, a transaction
  is built only with a connected wallet and a configured contract, and every success comes from a transaction of its
  own, whatever is closed, opened and typed meanwhile.
\<close>

theorem stakes_within_balance:
  assumes "(stake_step E)\<^sup>*\<^sup>* first_stake m"
  shows "list_all (\<lambda>a. num_less (Num 0) a \<and> \<not> num_less (Num (se_balance E)) a) (sk_sent m) \<and>
    (sk_sent m = [] \<or> isStakingContractConfigured E \<and> se_connected E) \<and>
    sk_successes m + sk_signing m + sk_submitting m \<le> length (sk_sent m)"
proof -
  from assms have "stake_ok E m"
    by (induction rule: rtranclp_induct) (use stake_ok_step in \<open>auto simp: stake_ok_def first_stake_def\<close>)
  then show ?thesis by (simp only: stake_ok_def)
qed

definition toy_stake_env :: stake_env where
  "toy_stake_env = \<lparr>se_connected = True, se_address = Some ''G'', se_balance = 6000, se_contract = ''CABC'', se_placeholder = ''C...''\<rparr>"

definition toy_staking :: stake_modal where
  "toy_staking = stake_submitted (stake_signed (press_stake toy_stake_env (stake_opened first_stake)))"

lemma press_valid:
  assumes "sk_open m" and "\<not> stake_processing m" and "sk_state m \<noteq> StakeSuccess" and "isValidAmount E m"
    and "isStakingContractConfigured E" and "se_connected E" and "truthy (se_address E)"
  shows "press_stake E m = m\<lparr>sk_state := StakeSigning, sk_signing := sk_signing m + 1, sk_sent := numAmount m # sk_sent m\<rparr>"
  using assms by (simp add: press_stake_def stake_disabled_def initiate_stake_def isValidAmount_def)

lemma numAmount_same: "sk_amount x = sk_amount y \<Longrightarrow> numAmount x = numAmount y"
  "sk_amount x = sk_amount y \<Longrightarrow> isValidAmount E x = isValidAmount E y"
  by (simp_all add: numAmount_def isValidAmount_def)

lemma toy_stake_env_ok: "isStakingContractConfigured toy_stake_env" "se_connected toy_stake_env" "truthy (se_address toy_stake_env)"
  by (simp_all add: isStakingContractConfigured_def toy_stake_env_def)

lemma toy_amount: "numAmount (stake_opened first_stake) = Num 5000"
proof -
  have "parseFloat ''5000.00'' = Num 5000"
    by (simp add: parseFloat_def parse_unsigned_def exponent_of_def scale10_def dec_val_def digit_val_def char_class_defs is_space_def Let_def)
  then show ?thesis by (simp add: numAmount_def stake_opened_def first_stake_def)
qed

lemma toy_stake_press: "press_stake toy_stake_env (stake_opened first_stake) =
    (stake_opened first_stake)\<lparr>sk_state := StakeSigning, sk_signing := 1, sk_sent := [Num 5000]\<rparr>"
  by (subst press_valid)
    (simp_all add: toy_stake_env_ok isValidAmount_def toy_amount, simp_all add: stake_opened_def first_stake_def stake_processing_def
      toy_stake_env_def)

lemma toy_stake_facts: "sk_signing (press_stake toy_stake_env (stake_opened first_stake)) = 1"
  "sk_submitting (stake_signed (press_stake toy_stake_env (stake_opened first_stake))) = 1"
  "sk_open toy_staking" "\<not> stake_processing toy_staking" "sk_timers toy_staking = 1" "sk_sent toy_staking = [Num 5000]"
  "sk_signing toy_staking = 0" "sk_amount toy_staking = ''5000.00''"
  unfolding toy_staking_def toy_stake_press
  by (simp_all add: stake_signed_def stake_submitted_def stake_processing_def stake_opened_def first_stake_def)

lemma toy_stake_run: "(stake_step toy_stake_env)\<^sup>*\<^sup>* first_stake toy_staking"
proof -
  have "stake_step toy_stake_env first_stake (stake_opened first_stake)" by (rule open_stake)
  moreover have "stake_step toy_stake_env (stake_opened first_stake) (press_stake toy_stake_env (stake_opened first_stake))"
    by (rule start_stake)
  moreover have "stake_step toy_stake_env (press_stake toy_stake_env (stake_opened first_stake))
      (stake_signed (press_stake toy_stake_env (stake_opened first_stake)))"
    by (rule sign_stake) (simp add: toy_stake_facts)
  moreover have "stake_step toy_stake_env (stake_signed (press_stake toy_stake_env (stake_opened first_stake))) toy_staking"
    unfolding toy_staking_def by (rule send_stake) (simp add: toy_stake_facts)
  ultimately show ?thesis by (meson converse_rtranclp_into_rtranclp rtranclp.rtrancl_refl)
qed

theorem stakes_within_balance_witness:
  "sk_sent toy_staking = [Num 5000] \<and> sk_successes toy_staking \<le> length (sk_sent toy_staking) \<and>
   list_all (\<lambda>a. num_less (Num 0) a \<and> \<not> num_less (Num (se_balance toy_stake_env)) a) (sk_sent toy_staking)"
  using stakes_within_balance [OF toy_stake_run] toy_stake_facts(6) by simp

text \<open>
  The timer of a success closes and resets whatever the dialog shows when it runs: with the dialog closed, opened
  again and used within a second and a half, the next transaction waits for its signature while the button is enabled
  again, so that two are under way for one balance.
\<close>

theorem stale_timer_allows_second_stake:
  assumes "sk_timers m = 1" and "sk_open m" and "\<not> stake_processing m" and "isValidAmount E m"
    and "isStakingContractConfigured E" and "se_connected E" and "truthy (se_address E)" and "sk_signing m = 0"
  shows "\<exists>m'. (stake_step E)\<^sup>*\<^sup>* m m' \<and> sk_signing m' = 2 \<and> sk_sent m' = numAmount m # numAmount m # sk_sent m"
proof -
  define m1 where "m1 = stake_opened (stake_closed m)"
  have f1: "sk_open m1" "sk_state m1 = StakeIdle" "sk_amount m1 = sk_amount m" "sk_timers m1 = 1" "sk_signing m1 = 0" "sk_sent m1 = sk_sent m"
    by (simp_all add: m1_def stake_opened_def stake_closed_def assms(1,8))
  define m2 where "m2 = press_stake E m1"
  have m2: "m2 = m1\<lparr>sk_state := StakeSigning, sk_signing := 1, sk_sent := numAmount m # sk_sent m\<rparr>"
    unfolding m2_def using f1 numAmount_same [OF f1(3)] assms(4-7) by (subst press_valid) (simp_all add: stake_processing_def)
  define m3 where "m3 = stake_opened (stake_timer m2)"
  have f3: "sk_open m3" "sk_state m3 = StakeIdle" "sk_amount m3 = sk_amount m" "sk_signing m3 = 1" "sk_sent m3 = numAmount m # sk_sent m"
    by (simp_all add: m3_def stake_opened_def stake_closed_def stake_timer_def m2 f1)
  define m4 where "m4 = press_stake E m3"
  have m4: "m4 = m3\<lparr>sk_state := StakeSigning, sk_signing := 2, sk_sent := numAmount m # numAmount m # sk_sent m\<rparr>"
    unfolding m4_def using f3 numAmount_same [OF f3(3)] assms(4-7) by (subst press_valid) (simp_all add: stake_processing_def)
  have "stake_step E m (stake_closed m)" using assms(2,3) by (rule close_stake)
  moreover have "stake_step E (stake_closed m) m1" unfolding m1_def by (rule open_stake)
  moreover have "stake_step E m1 m2" unfolding m2_def by (rule start_stake)
  moreover have "stake_step E m2 (stake_timer m2)" by (rule timeout_stake) (simp add: m2 f1)
  moreover have "stake_step E (stake_timer m2) m3" unfolding m3_def by (rule open_stake)
  moreover have "stake_step E m3 m4" unfolding m4_def by (rule start_stake)
  ultimately have "(stake_step E)\<^sup>*\<^sup>* m m4" by (meson converse_rtranclp_into_rtranclp rtranclp.rtrancl_refl)
  moreover have "sk_signing m4 = 2" "sk_sent m4 = numAmount m # numAmount m # sk_sent m" by (simp_all add: m4)
  ultimately show ?thesis by blast
qed

theorem stale_timer_allows_second_stake_witness:
  "\<exists>m'. (stake_step toy_stake_env)\<^sup>*\<^sup>* toy_staking m' \<and> sk_signing m' = 2 \<and>
     sk_sent m' = numAmount toy_staking # numAmount toy_staking # sk_sent toy_staking"
proof (rule stale_timer_allows_second_stake [OF toy_stake_facts(5,3,4) _ toy_stake_env_ok toy_stake_facts(7)])
  have "numAmount toy_staking = numAmount (stake_opened first_stake)"
    by (rule numAmount_same) (simp add: toy_stake_facts(8) stake_opened_def first_stake_def)
  then show "isValidAmount toy_stake_env toy_staking" by (simp add: isValidAmount_def toy_amount toy_stake_env_def)
qed

end
