(* ===== verification/ArenaList.thy ===== *)
theory ArenaList
  imports Forms ArenaStats "HOL-Library.Multiset"
begin

text \<open>
  The list of arenas of frontend/src/shared-d/features/games: the data of data/mockArenas.ts with its filters,
  the repository of data/arenasRepository.ts and the hooks of hooks/useArenas.ts. Dates are milliseconds; a
  text has the characters of ISO 8859-1.
\<close>

section \<open>Arenas\<close>

datatype arena_status = GaActive | GaStarting | GaCompleted | GaCancelled
datatype arena_category = CatAll | CatHighStakes | CatFastRounds

record game_arena =
  ga_id :: string
  ga_displayId :: int
  ga_name :: string
  ga_description :: string
  ga_status :: arena_status
  ga_category :: arena_category
  ga_entryFee :: rat
  ga_currentPot :: rat
  ga_maxPlayers :: nat
  ga_currentPlayers :: nat
  ga_roundDuration :: nat
  ga_currentRound :: nat
  ga_maxRounds :: "nat option"
  ga_createdAt :: int
  ga_startsAt :: "int option"
  ga_endsAt :: "int option"
  ga_lastActivity :: int
  ga_createdBy :: string
  ga_featured :: bool
  ga_tags :: "string list"
  ga_yieldRate :: "rat option"
  ga_rwaProtocol :: "string option"

definition mockArenas :: "game_arena list" where
  "mockArenas =
     [
      \<lparr>ga_id = ''arena-842'', ga_displayId = 842, ga_name = ''Elite Survival Championship'',
        ga_description = ''High-stakes elimination game for experienced players only.'',
        ga_status = GaActive, ga_category = CatHighStakes, ga_entryFee = 100, ga_currentPot = 2400, ga_maxPlayers = 25,
        ga_currentPlayers = 24, ga_roundDuration = 120, ga_currentRound = 3, ga_maxRounds = Some 8, ga_createdAt = 1768905000000,
        ga_startsAt = Some 1768906800000, ga_endsAt = Some 1769094000000, ga_lastActivity = 1769093100000, ga_createdBy = ''INV-AGENT-7291'',
        ga_featured = True, ga_tags = [''elimination'', ''high-stakes'', ''premium''], ga_yieldRate = Some (26 / 5), ga_rwaProtocol = Some ''Ondo USDY''\<rparr>,
      \<lparr>ga_id = ''arena-103'', ga_displayId = 103, ga_name = ''Lightning Round Arena'',
        ga_description = ''Fast-paced 30-second rounds for quick decision makers.'',
        ga_status = GaActive, ga_category = CatFastRounds, ga_entryFee = 25, ga_currentPot = 375, ga_maxPlayers = 15,
        ga_currentPlayers = 12, ga_roundDuration = 30, ga_currentRound = 7, ga_maxRounds = None, ga_createdAt = 1769087700000,
        ga_startsAt = Some 1769088600000, ga_endsAt = None, ga_lastActivity = 1769093700000, ga_createdBy = ''INV-AGENT-4829'',
        ga_featured = False, ga_tags = [''fast'', ''quick-rounds'', ''intense''], ga_yieldRate = Some (24 / 5), ga_rwaProtocol = Some ''Stellar USDC''\<rparr>,
      \<lparr>ga_id = ''arena-501'', ga_displayId = 501, ga_name = ''Midnight Mayhem'',
        ga_description = ''Late-night arena for global players across time zones.'',
        ga_status = GaStarting, ga_category = CatAll, ga_entryFee = 50, ga_currentPot = 450, ga_maxPlayers = 20,
        ga_currentPlayers = 9, ga_roundDuration = 90, ga_currentRound = 0, ga_maxRounds = None, ga_createdAt = 1769092200000,
        ga_startsAt = Some 1769097600000, ga_endsAt = None, ga_lastActivity = 1769094000000, ga_createdBy = ''INV-AGENT-9184'',
        ga_featured = False, ga_tags = [''global'', ''midnight'', ''timezone-friendly''], ga_yieldRate = Some (9 / 2), ga_rwaProtocol = None\<rparr>,
      \<lparr>ga_id = ''arena-299'', ga_displayId = 299, ga_name = ''Whale Wars'',
        ga_description = ''Ultra high-stakes arena for serious players with deep pockets.'',
        ga_status = GaActive, ga_category = CatHighStakes, ga_entryFee = 500, ga_currentPot = 3500, ga_maxPlayers = 10,
        ga_currentPlayers = 7, ga_roundDuration = 180, ga_currentRound = 2, ga_maxRounds = Some 6, ga_createdAt = 1769011200000,
        ga_startsAt = Some 1769014800000, ga_endsAt = Some 1769198400000, ga_lastActivity = 1769092200000, ga_createdBy = ''INV-AGENT-1001'',
        ga_featured = True, ga_tags = [''whale'', ''ultra-high-stakes'', ''exclusive''], ga_yieldRate = Some (61 / 10), ga_rwaProtocol = Some ''Treasury Bills''\<rparr>,
      \<lparr>ga_id = ''arena-777'', ga_displayId = 777, ga_name = ''Lucky Sevens Speed Run'',
        ga_description = (''Super fast elimination rounds - blink and you'' @ [CHR 0x27] @ ''re out!''),
        ga_status = GaActive, ga_category = CatFastRounds, ga_entryFee = 15, ga_currentPot = 210, ga_maxPlayers = 14,
        ga_currentPlayers = 11, ga_roundDuration = 20, ga_currentRound = 5, ga_maxRounds = None, ga_createdAt = 1769090400000,
        ga_startsAt = Some 1769091300000, ga_endsAt = None, ga_lastActivity = 1769093880000, ga_createdBy = ''INV-AGENT-3377'',
        ga_featured = False, ga_tags = [''speed'', ''lucky'', ''adrenaline''], ga_yieldRate = Some (39 / 10), ga_rwaProtocol = None\<rparr>,
      \<lparr>ga_id = ''arena-156'', ga_displayId = 156, ga_name = (''Beginner'' @ [CHR 0x27] @ ''s Paradise''),
        ga_description = ''Perfect arena for new players to learn the ropes.'',
        ga_status = GaStarting, ga_category = CatAll, ga_entryFee = 10, ga_currentPot = 80, ga_maxPlayers = 12,
        ga_currentPlayers = 8, ga_roundDuration = 60, ga_currentRound = 0, ga_maxRounds = None, ga_createdAt = 1769094000000,
        ga_startsAt = Some 1769099400000, ga_endsAt = None, ga_lastActivity = 1769094000000, ga_createdBy = ''INV-AGENT-5555'',
        ga_featured = False, ga_tags = [''beginner'', ''learning'', ''friendly''], ga_yieldRate = Some 4, ga_rwaProtocol = None\<rparr>,
      \<lparr>ga_id = ''arena-999'', ga_displayId = 999, ga_name = ''The Gauntlet'',
        ga_description = ''Extended survival challenge with maximum rounds.'',
        ga_status = GaActive, ga_category = CatHighStakes, ga_entryFee = 200, ga_currentPot = 1800, ga_maxPlayers = 12,
        ga_currentPlayers = 9, ga_roundDuration = 150, ga_currentRound = 1, ga_maxRounds = Some 12, ga_createdAt = 1768986000000,
        ga_startsAt = Some 1768989600000, ga_endsAt = Some 1769205600000, ga_lastActivity = 1769091600000, ga_createdBy = ''INV-AGENT-8888'',
        ga_featured = False, ga_tags = [''endurance'', ''marathon'', ''ultimate''], ga_yieldRate = Some (29 / 5), ga_rwaProtocol = Some ''Ondo USDY''\<rparr>,
      \<lparr>ga_id = ''arena-444'', ga_displayId = 444, ga_name = ''Flash Decision Arena'',
        ga_description = ''Lightning-fast rounds test your instincts.'',
        ga_status = GaCompleted, ga_category = CatFastRounds, ga_entryFee = 30, ga_currentPot = 270, ga_maxPlayers = 9,
        ga_currentPlayers = 9, ga_roundDuration = 25, ga_currentRound = 6, ga_maxRounds = None, ga_createdAt = 1769083200000,
        ga_startsAt = Some 1769084100000, ga_endsAt = Some 1769089500000, ga_lastActivity = 1769089500000, ga_createdBy = ''INV-AGENT-2244'',
        ga_featured = False, ga_tags = [''flash'', ''instinct'', ''completed''], ga_yieldRate = Some (21 / 5), ga_rwaProtocol = None\<rparr>]"

definition featuredArena :: "game_arena option" where
  "featuredArena = List.find (\<lambda>a. ga_displayId a = 842) mockArenas"

section \<open>Filters\<close>

text \<open>
  \<open>parseInt(s)\<close> without a radix: white space, a sign, hexadecimal digits after \<open>0x\<close>, or decimal ones;
  \<open>None\<close> is NaN.
\<close>

definition hex_digit :: "char \<Rightarrow> nat option" where
  "hex_digit c =
     (if is_digit c then Some (code_of c - 48)
      else if 97 \<le> code_of c \<and> code_of c \<le> 102 then Some (code_of c - 87)
      else if 65 \<le> code_of c \<and> code_of c \<le> 70 then Some (code_of c - 55) else None)"

definition hex_number :: "string \<Rightarrow> nat" where
  "hex_number ds = fold (\<lambda>c n. n * 16 + the (hex_digit c)) ds 0"

definition parse_unsigned_int :: "string \<Rightarrow> int option" where
  "parse_unsigned_int s =
     (if starts_with ''0x'' s \<or> starts_with ''0X'' s
      then (let ds = takeWhile (\<lambda>c. hex_digit c \<noteq> None) (drop 2 s) in if ds = [] then None else Some (int (hex_number ds)))
      else (let ds = takeWhile is_digit s in if ds = [] then None else Some (int (dec_val ds))))"

definition parseInt :: "string \<Rightarrow> int option" where
  "parseInt s =
     (let t = dropWhile is_space s
      in if starts_with ''-'' t then map_option uminus (parse_unsigned_int (tl t))
         else parse_unsigned_int (if starts_with ''+'' t then tl t else t))"

text \<open>\<open>s.replace('#', '')\<close>: the first one.\<close>

definition drop_hash :: "string \<Rightarrow> string" where
  "drop_hash s = takeWhile (\<lambda>c. c \<noteq> CHR ''#'') s @ drop 1 (dropWhile (\<lambda>c. c \<noteq> CHR ''#'') s)"

definition getArenasByCategory :: "game_arena list \<Rightarrow> arena_category \<Rightarrow> game_arena list" where
  "getArenasByCategory arenas category =
     (if category = CatAll then filter (\<lambda>a. ga_status a \<noteq> GaCompleted) arenas
      else filter (\<lambda>a. ga_category a = category \<and> ga_status a \<noteq> GaCompleted) arenas)"

definition text_match :: "string \<Rightarrow> game_arena \<Rightarrow> bool" where
  "text_match searchTerm a \<longleftrightarrow>
     str_includes searchTerm (to_lower (ga_name a)) \<or> str_includes searchTerm (to_lower (ga_description a)) \<or>
     list_ex (\<lambda>t. str_includes searchTerm (to_lower t)) (ga_tags a)"

definition searchArenasByIdOrName :: "game_arena list \<Rightarrow> string \<Rightarrow> game_arena list" where
  "searchArenasByIdOrName arenas search =
     (if js_trim search = [] then arenas
      else let searchTerm = js_trim (to_lower search)
           in case parseInt (drop_hash searchTerm) of
                Some n \<Rightarrow> filter (\<lambda>a. ga_displayId a = n) arenas
              | None \<Rightarrow> filter (text_match searchTerm) arenas)"

definition getActiveArenas :: "game_arena list \<Rightarrow> game_arena list" where
  "getActiveArenas = filter (\<lambda>a. ga_status a = GaActive \<or> ga_status a = GaStarting)"

definition sortArenasByActivity :: "game_arena list \<Rightarrow> game_arena list" where
  "sortArenasByActivity = sort_key (\<lambda>a. - ga_lastActivity a)"

section \<open>The repository\<close>

text \<open>The answer of each operation comes after a delay, in milliseconds.\<close>

definition getArenas :: "game_arena list \<Rightarrow> arena_category option \<Rightarrow> string option \<Rightarrow> game_arena list" where
  "getArenas arenas flt search =
     (let byCategory = (case flt of
            None \<Rightarrow> getActiveArenas arenas
          | Some c \<Rightarrow> if c = CatAll then getActiveArenas arenas else getArenasByCategory arenas c);
          found = (if truthy search then searchArenasByIdOrName byCategory (the search) else byCategory)
      in sortArenasByActivity found)"

definition getArenas_delay :: nat where "getArenas_delay = 500"
definition getArena_delay :: nat where "getArena_delay = 200"

definition getArenaById :: "game_arena list \<Rightarrow> string \<Rightarrow> game_arena option" where
  "getArenaById arenas i = List.find (\<lambda>a. ga_id a = i) arenas"

definition getArenaByDisplayId :: "game_arena list \<Rightarrow> int \<Rightarrow> game_arena option" where
  "getArenaByDisplayId arenas d = List.find (\<lambda>a. ga_displayId a = d) arenas"

definition formatPotValue :: "rat \<Rightarrow> string" where
  "formatPotValue amount =
     (if amount \<ge> 1000000 then ''$'' @ toFixed 1 (amount / 1000000) @ ''M''
      else if amount \<ge> 1000 then ''$'' @ toFixed 1 (amount / 1000) @ ''K''
      else ''$'' @ toFixed 0 amount)"

definition formatTimeRemaining :: "int \<Rightarrow> int \<Rightarrow> string" where
  "formatTimeRemaining now endsAt =
     (let diff = endsAt - now
      in if diff \<le> 0 then ''Ended''
         else (let hours = diff div 3600000; minutes = (diff mod 3600000) div 60000
               in if hours > 24 then dec_digits (nat (hours div 24)) @ ''d '' @ dec_digits (nat (hours mod 24)) @ ''h''
                  else if hours > 0 then dec_digits (nat hours) @ ''h '' @ dec_digits (nat minutes) @ ''m''
                  else dec_digits (nat minutes) @ ''m''))"

datatype player_count_status = Full | Filling | Low

definition getPlayerCountStatus :: "nat \<Rightarrow> nat \<Rightarrow> player_count_status" where
  "getPlayerCountStatus current mx =
     (if 10 * current \<ge> 9 * mx \<and> (0 < mx \<or> 0 < current) then Full
      else if 2 * current \<ge> mx \<and> (0 < mx \<or> 0 < current) then Filling else Low)"

definition repository_error :: "js_error \<Rightarrow> string" where
  "repository_error e = (if e = NotAnError then ''Unknown error occurred'' else ''Failed to fetch arenas data'')"

definition validateSearchQuery :: "string \<Rightarrow> bool" where
  "validateSearchQuery search \<longleftrightarrow>
     list_all (\<lambda>c. is_upper c \<or> is_upper (char_of (code_of c - 32)) \<and> code_of c \<ge> 97 \<or> is_digit c \<or> is_space c \<or> c = CHR ''#'') search \<and>
     length search \<le> 50"

definition normalizeSearchQuery :: "string \<Rightarrow> string" where
  "normalizeSearchQuery search = to_lower (js_trim search)"

section \<open>useArenas\<close>

datatype fetch_status = FetchIdle | FetchLoading | FetchSuccess | FetchError

text \<open>\<open>uh_calls\<close>: the fetches under way, oldest first, each with what it will return.\<close>

record arenas_hook =
  uh_filter :: arena_category
  uh_search :: string
  uh_status :: fetch_status
  uh_error :: "string option"
  uh_arenas :: "game_arena list"
  uh_featured :: "game_arena option"
  uh_totalCount :: nat
  uh_calls :: "game_arena list list"

definition fetchArenas :: "game_arena list \<Rightarrow> arenas_hook \<Rightarrow> arenas_hook" where
  "fetchArenas arenas h =
     (if uh_search h \<noteq> [] \<and> \<not> validateSearchQuery (uh_search h)
      then h\<lparr>uh_status := FetchError, uh_error := Some (repository_error (Error ''Invalid search query''))\<rparr>
      else h\<lparr>uh_status := FetchLoading, uh_error := None,
             uh_calls := uh_calls h @ [getArenas arenas (Some (uh_filter h)) (Some (normalizeSearchQuery (uh_search h)))]\<rparr>)"

definition arenas_return :: "nat option \<Rightarrow> arenas_hook \<Rightarrow> arenas_hook" where
  "arenas_return lmt h =
     (case uh_calls h of
        [] \<Rightarrow> h
      | r # rs \<Rightarrow>
          h\<lparr>uh_arenas := (case lmt of None \<Rightarrow> r | Some n \<Rightarrow> if 0 < n then take n r else r), uh_totalCount := length r,
            uh_featured := featuredArena, uh_status := FetchSuccess, uh_calls := rs\<rparr>)"

definition set_arenas_filter :: "game_arena list \<Rightarrow> arena_category \<Rightarrow> arenas_hook \<Rightarrow> arenas_hook" where
  "set_arenas_filter arenas c h = (if c = uh_filter h then h else fetchArenas arenas (h\<lparr>uh_filter := c\<rparr>))"

definition set_arenas_search :: "game_arena list \<Rightarrow> string \<Rightarrow> arenas_hook \<Rightarrow> arenas_hook" where
  "set_arenas_search arenas s h = (if s = uh_search h then h else fetchArenas arenas (h\<lparr>uh_search := s\<rparr>))"

section \<open>useArenaSearch\<close>

text \<open>\<open>ah_calls\<close>: when each answer arrives, and the arena in it.\<close>

record search_hook =
  ah_term :: string
  ah_arena :: "game_arena option"
  ah_status :: fetch_status
  ah_now :: nat
  ah_calls :: "(nat \<times> game_arena option) list"

definition searchArena :: "game_arena list \<Rightarrow> string \<Rightarrow> search_hook \<Rightarrow> search_hook" where
  "searchArena arenas searchTerm h =
     (if js_trim searchTerm = [] then h\<lparr>ah_term := searchTerm, ah_arena := None, ah_status := FetchIdle\<rparr>
      else (let answer = (case parseInt (drop_hash searchTerm) of
                   Some n \<Rightarrow> (ah_now h + getArena_delay, getArenaByDisplayId arenas n)
                 | None \<Rightarrow> (ah_now h + getArenas_delay,
                     case getArenas arenas (Some CatAll) (Some searchTerm) of [] \<Rightarrow> None | a # _ \<Rightarrow> Some a))
            in h\<lparr>ah_term := searchTerm, ah_status := FetchLoading, ah_calls := ah_calls h @ [answer]\<rparr>))"

definition search_wait :: "nat \<Rightarrow> search_hook \<Rightarrow> search_hook" where
  "search_wait ms h =
     (let due = sort_key fst (filter (\<lambda>(t, r). t \<le> ah_now h + ms) (ah_calls h));
          h' = h\<lparr>ah_now := ah_now h + ms, ah_calls := filter (\<lambda>(t, r). \<not> t \<le> ah_now h + ms) (ah_calls h)\<rparr>
      in fold (\<lambda>(t, r) h. h\<lparr>ah_arena := r, ah_status := FetchSuccess\<rparr>) due h')"

section \<open>Properties\<close>

text \<open>What the list shows of an arena: the category lets it through and the search finds it.\<close>

definition shown_in :: "arena_category option \<Rightarrow> game_arena \<Rightarrow> bool" where
  "shown_in flt a \<longleftrightarrow>
     (if flt = Some CatHighStakes \<or> flt = Some CatFastRounds
      then Some (ga_category a) = flt \<and> ga_status a \<noteq> GaCompleted
      else ga_status a = GaActive \<or> ga_status a = GaStarting)"

definition found_by :: "string \<Rightarrow> game_arena \<Rightarrow> bool" where
  "found_by search a \<longleftrightarrow>
     js_trim search = [] \<or>
     (case parseInt (drop_hash (js_trim (to_lower search))) of
        Some n \<Rightarrow> ga_displayId a = n
      | None \<Rightarrow> text_match (js_trim (to_lower search)) a)"

lemma search_is_found_by: "searchArenasByIdOrName arenas search = filter (found_by search) arenas"
proof (cases "js_trim search = []")
  case True
  then show ?thesis by (simp add: searchArenasByIdOrName_def found_by_def)
next
  case False
  then show ?thesis by (auto simp: searchArenasByIdOrName_def found_by_def Let_def intro!: filter_cong split: option.splits)
qed

lemma getArenas_filters:
  "getArenas arenas flt search =
     sortArenasByActivity (filter (\<lambda>a. shown_in flt a \<and> (truthy search \<longrightarrow> found_by (the search) a)) arenas)"
proof -
  have cat: "(case flt of None \<Rightarrow> getActiveArenas arenas
     | Some c \<Rightarrow> if c = CatAll then getActiveArenas arenas else getArenasByCategory arenas c) = filter (shown_in flt) arenas"
  proof (cases flt)
    case None
    then show ?thesis by (auto simp: getActiveArenas_def shown_in_def intro!: filter_cong)
  next
    case (Some c)
    then show ?thesis by (cases c) (auto simp: getActiveArenas_def getArenasByCategory_def shown_in_def intro!: filter_cong)
  qed
  show ?thesis unfolding getArenas_def Let_def cat by (simp add: search_is_found_by)
qed

text \<open>
  The arenas of the repository come with the most recent activity first, and they are exactly those that the
  category lets through and that the search finds, each as often as the data has it.
\<close>

theorem listed_arenas:
  "sorted_wrt (\<lambda>a b. ga_lastActivity a \<ge> ga_lastActivity b) (getArenas arenas flt search) \<and>
   mset (getArenas arenas flt search) =
     filter_mset (\<lambda>a. shown_in flt a \<and> found_by (if truthy search then the search else []) a) (mset arenas)"
proof -
  have "sorted (map (\<lambda>a. - ga_lastActivity a) (sortArenasByActivity xs))" for xs
    by (simp add: sortArenasByActivity_def)
  then have "sorted_wrt (\<lambda>a b. ga_lastActivity a \<ge> ga_lastActivity b) (sortArenasByActivity xs)" for xs
    by (simp add: sorted_wrt_map)
  moreover have "found_by [] = (\<lambda>a. True)" by (rule ext) (simp add: found_by_def js_trim_def)
  ultimately show ?thesis by (simp add: getArenas_filters sortArenasByActivity_def)
qed

text \<open>
  An identifier typed after a name, before the answer for the name has come, ends with the arena of the
  name: its search takes 500 ms and that of an identifier 200 ms, and the older answer is the last to be stored.
\<close>

theorem older_search_wins:
  fixes arenas :: "game_arena list"
  assumes "ah_calls h = []" and "js_trim name \<noteq> []" and "parseInt (drop_hash name) = None"
    and "js_trim ident \<noteq> []" and "parseInt (drop_hash ident) = Some n" and "d < 300" and "500 \<le> d + w"
  defines "h' \<equiv> search_wait w (searchArena arenas ident (search_wait d (searchArena arenas name h)))"
  shows "ah_term h' = ident \<and> ah_status h' = FetchSuccess \<and> ah_calls h' = [] \<and>
         ah_arena h' = (case getArenas arenas (Some CatAll) (Some name) of [] \<Rightarrow> None | a # _ \<Rightarrow> Some a)"
proof -
  let ?first = "case getArenas arenas (Some CatAll) (Some name) of [] \<Rightarrow> None | a # _ \<Rightarrow> Some a"
  have typed: "searchArena arenas name h = h\<lparr>ah_term := name, ah_status := FetchLoading, ah_calls := [(ah_now h + 500, ?first)]\<rparr>"
    using assms by (simp add: searchArena_def getArenas_delay_def)
  have waited: "search_wait d (searchArena arenas name h) =
      h\<lparr>ah_term := name, ah_status := FetchLoading, ah_now := ah_now h + d, ah_calls := [(ah_now h + 500, ?first)]\<rparr>"
    using \<open>d < 300\<close> by (simp add: typed search_wait_def)
  have "searchArena arenas ident (search_wait d (searchArena arenas name h)) =
      h\<lparr>ah_term := ident, ah_status := FetchLoading, ah_now := ah_now h + d,
        ah_calls := [(ah_now h + 500, ?first), (ah_now h + d + 200, getArenaByDisplayId arenas n)]\<rparr>"
    unfolding waited using assms by (simp add: searchArena_def getArena_delay_def)
  moreover have "ah_now h + d + 200 \<le> ah_now h + 500" "\<not> ah_now h + 500 \<le> ah_now h + d + 200" using \<open>d < 300\<close> by simp_all
  ultimately show ?thesis unfolding h'_def using \<open>500 \<le> d + w\<close> by (simp add: search_wait_def)
qed

theorem older_search_wins_witness:
  "let h = \<lparr>ah_term = [], ah_arena = None, ah_status = FetchIdle, ah_now = 0, ah_calls = []\<rparr>;
       h' = search_wait 500 (searchArena mockArenas ''103'' (search_wait 100 (searchArena mockArenas ''elite'' h)))
   in ah_term h' = ''103'' \<and>
      ah_arena h' = (case getArenas mockArenas (Some CatAll) (Some ''elite'') of [] \<Rightarrow> None | a # _ \<Rightarrow> Some a)"
  unfolding Let_def
  using older_search_wins
    [where name = "''elite''" and ident = "''103''" and n = 103 and d = 100 and w = 500 and arenas = mockArenas
       and h = "\<lparr>ah_term = [], ah_arena = None, ah_status = FetchIdle, ah_now = 0, ah_calls = []\<rparr>"]
  by (simp add: parseInt_def parse_unsigned_int_def drop_hash_def js_trim_def is_space_def is_digit_def dec_val_def
        digit_val_def char_class_defs Let_def)

end
