(* ===== verification/Tickers.thy ===== *)
theory Tickers
  imports Intervals
begin

text \<open>
  The hooks of frontend/src/shared-d/hooks/useLiveTicker.ts: a number that grows and a list that is shown
  item by item, both only while the page is visible. An event, the render after it and its effects are one
  step; the options of the number keep their values between renders, the items of the list may change.
\<close>

section \<open>Numbers\<close>

record ticker_options =
  lo_start :: rat
  lo_step :: rat
  lo_max :: "rat option"

record ticker =
  lt_value :: rat
  lt_iv :: intervals
  lt_visible :: bool
  lt_mounted :: bool

definition ticked :: "ticker_options \<Rightarrow> rat \<Rightarrow> rat" where
  "ticked p x =
     (let nextValue = x + lo_step p
      in case lo_max p of None \<Rightarrow> nextValue | Some m \<Rightarrow> if nextValue \<ge> m then m else nextValue)"

text \<open>The first effect, after its cleanup, and the second, which runs when the value changed.\<close>

definition visibility_effect :: "ticker \<Rightarrow> ticker" where
  "visibility_effect t =
     (let c = clear_interval (lt_iv t) in t\<lparr>lt_iv := (if lt_visible t then set_interval c else clear_interval c)\<rparr>)"

definition at_max :: "ticker_options \<Rightarrow> rat \<Rightarrow> bool" where
  "at_max p x \<longleftrightarrow> (case lo_max p of None \<Rightarrow> False | Some m \<Rightarrow> x \<ge> m)"

definition max_effect :: "ticker_options \<Rightarrow> ticker \<Rightarrow> ticker" where
  "max_effect p t = (if at_max p (lt_value t) then t\<lparr>lt_iv := clear_interval (lt_iv t)\<rparr> else t)"

definition mount_ticker :: "ticker_options \<Rightarrow> bool \<Rightarrow> ticker" where
  "mount_ticker p visible =
     max_effect p (visibility_effect \<lparr>lt_value = lo_start p, lt_iv = no_intervals, lt_visible = visible, lt_mounted = True\<rparr>)"

definition tick :: "ticker_options \<Rightarrow> ticker \<Rightarrow> ticker" where
  "tick p t =
     (let x = ticked p (lt_value t) in if x = lt_value t then t else max_effect p (t\<lparr>lt_value := x\<rparr>))"

definition visibilitychange :: "bool \<Rightarrow> ticker \<Rightarrow> ticker" where
  "visibilitychange v t = (if v = lt_visible t then t else visibility_effect (t\<lparr>lt_visible := v\<rparr>))"

definition unmount_ticker :: "ticker \<Rightarrow> ticker" where
  "unmount_ticker t = t\<lparr>lt_iv := clear_interval (lt_iv t), lt_mounted := False\<rparr>"

inductive ticker_step :: "ticker_options \<Rightarrow> ticker \<Rightarrow> ticker \<Rightarrow> bool" for p where
  ticks: "iv_live (lt_iv t) \<noteq> [] \<Longrightarrow> ticker_step p t (tick p t)"
| changes: "lt_mounted t \<Longrightarrow> ticker_step p t (visibilitychange v t)"
| unmounts: "lt_mounted t \<Longrightarrow> ticker_step p t (unmount_ticker t)"

inductive_cases ticker_stepE: "ticker_step p t t'"

definition ticker_active :: "ticker \<Rightarrow> bool" where
  "ticker_active t \<longleftrightarrow> lt_mounted t \<and> lt_visible t"

lemmas ticker_defs = tick_def visibilitychange_def unmount_ticker_def visibility_effect_def max_effect_def mount_ticker_def
  ticker_active_def Let_def

lemma kept_clear' [simp]: "kept a c \<Longrightarrow> kept b (clear_interval c)"
  by (simp add: kept_owned)

lemma ticker_kept:
  "ticker_step p t t' \<Longrightarrow> kept (ticker_active t) (lt_iv t) \<Longrightarrow> kept (ticker_active t') (lt_iv t')"
  by (erule ticker_stepE) (auto simp: ticker_defs kept_owned)

interpretation number_ticker: interval_hook lt_iv ticker_active "mount_ticker p v" "ticker_step p"
proof
  show "kept (ticker_active (mount_ticker p v)) (lt_iv (mount_ticker p v))"
    by (auto simp: ticker_defs kept_set [of no_intervals, simplified] clear_none kept_def owned_def)
qed (rule ticker_kept)

section \<open>Lists\<close>

text \<open>\<open>li_items\<close> are the items of the last render.\<close>

record 'a list_ticker =
  li_items :: "'a list"
  li_index :: nat
  li_iv :: intervals
  li_visible :: bool
  li_mounted :: bool

definition list_effect :: "'a list_ticker \<Rightarrow> 'a list_ticker" where
  "list_effect t =
     (let c = clear_interval (li_iv t)
      in t\<lparr>li_iv := (if li_visible t \<and> length (li_items t) > 1 then set_interval c else clear_interval c)\<rparr>)"

definition index_effect :: "'a list_ticker \<Rightarrow> 'a list_ticker" where
  "index_effect t = (if li_index t \<ge> length (li_items t) then t\<lparr>li_index := 0\<rparr> else t)"

definition mount_list :: "'a list \<Rightarrow> bool \<Rightarrow> 'a list_ticker" where
  "mount_list items visible =
     index_effect (list_effect \<lparr>li_items = items, li_index = 0, li_iv = no_intervals, li_visible = visible, li_mounted = True\<rparr>)"

definition list_tick :: "'a list_ticker \<Rightarrow> 'a list_ticker" where
  "list_tick t = index_effect (t\<lparr>li_index := (li_index t + 1) mod length (li_items t)\<rparr>)"

definition list_visibilitychange :: "bool \<Rightarrow> 'a list_ticker \<Rightarrow> 'a list_ticker" where
  "list_visibilitychange v t = (if v = li_visible t then t else list_effect (t\<lparr>li_visible := v\<rparr>))"

definition list_rerender :: "'a list \<Rightarrow> 'a list_ticker \<Rightarrow> 'a list_ticker" where
  "list_rerender items t =
     (if length items = length (li_items t) then t\<lparr>li_items := items\<rparr>
      else index_effect (list_effect (t\<lparr>li_items := items\<rparr>)))"

definition list_unmount :: "'a list_ticker \<Rightarrow> 'a list_ticker" where
  "list_unmount t = t\<lparr>li_iv := clear_interval (li_iv t), li_mounted := False\<rparr>"

text \<open>\<open>items[index] ?? items[0]\<close>, for items that are neither null nor undefined.\<close>

definition currentItem :: "'a list_ticker \<Rightarrow> 'a option" where
  "currentItem t =
     (if li_index t < length (li_items t) then Some (li_items t ! li_index t)
      else case li_items t of [] \<Rightarrow> None | x # _ \<Rightarrow> Some x)"

inductive list_step :: "'a list_ticker \<Rightarrow> 'a list_ticker \<Rightarrow> bool" where
  list_ticks: "iv_live (li_iv t) \<noteq> [] \<Longrightarrow> list_step t (list_tick t)"
| list_changes: "li_mounted t \<Longrightarrow> list_step t (list_visibilitychange v t)"
| list_renders: "li_mounted t \<Longrightarrow> list_step t (list_rerender items t)"
| list_unmounts: "li_mounted t \<Longrightarrow> list_step t (list_unmount t)"

inductive_cases list_stepE: "list_step t t'"

definition list_active :: "'a list_ticker \<Rightarrow> bool" where
  "list_active t \<longleftrightarrow> li_mounted t \<and> li_visible t \<and> length (li_items t) > 1"

lemmas list_defs = list_effect_def index_effect_def mount_list_def list_tick_def list_visibilitychange_def list_rerender_def
  list_unmount_def list_active_def Let_def

lemma list_kept: "list_step t t' \<Longrightarrow> kept (list_active t) (li_iv t) \<Longrightarrow> kept (list_active t') (li_iv t')"
  by (erule list_stepE) (auto simp: list_defs kept_owned)

interpretation list_ticker: interval_hook li_iv list_active "mount_list items v" list_step
proof
  show "kept (list_active (mount_list items v)) (li_iv (mount_list items v))"
    by (auto simp: list_defs clear_none kept_def owned_def)
qed (rule list_kept)

section \<open>Properties\<close>

text \<open>
  A ticker that starts below its maximum and counts up never passes it, and while it is mounted there is at most one
  interval, none when the page is hidden and none after it was unmounted.
\<close>

theorem ticker_within_max:
  assumes "(ticker_step p)\<^sup>*\<^sup>* (mount_ticker p v) t" and "lo_max p = Some m" and "lo_start p \<le> m" and "0 \<le> lo_step p"
  shows "lo_start p \<le> lt_value t \<and> lt_value t \<le> m \<and> length (iv_live (lt_iv t)) \<le> 1 \<and>
    (\<not> (lt_mounted t \<and> lt_visible t) \<longrightarrow> iv_live (lt_iv t) = [])"
proof -
  have "lo_start p \<le> lt_value t \<and> lt_value t \<le> m"
    using assms(1)
  proof (induction rule: rtranclp_induct)
    case base
    show ?case using assms(3) by (simp add: ticker_defs)
  next
    case (step t t')
    from step.hyps(2) show ?case
    proof (cases rule: ticker_step.cases)
      case ticks
      then show ?thesis using step.IH assms(2-4) by (auto simp: ticker_defs ticked_def)
    qed (use step.IH in \<open>auto simp: ticker_defs\<close>)
  qed
  with number_ticker.run_single [OF assms(1)] show ?thesis by (simp add: ticker_active_def)
qed

text \<open>
  A ticker that has reached its maximum and stopped starts its interval again when the page is hidden and shown, and
  from then on it runs until the next such change, without any effect on the number.
\<close>

theorem stopped_ticker_restarts:
  assumes "lo_max p = Some (lt_value t)" and "0 \<le> lo_step p" and "lt_mounted t" and "lt_visible t" and "iv_live (lt_iv t) = []"
    and "iv_ref (lt_iv t) = None"
  defines "u \<equiv> visibilitychange True (visibilitychange False t)"
  shows "(ticker_step p)\<^sup>*\<^sup>* t u \<and> iv_live (lt_iv u) \<noteq> [] \<and> (tick p ^^ n) u = u"
proof -
  have f: "lt_value u = lt_value t" "iv_live (lt_iv u) \<noteq> []"
    using assms(4,6) by (simp_all add: u_def ticker_defs clear_none)
  have "tick p u = u" using assms(1,2) by (simp add: f(1) ticker_defs ticked_def)
  then have "(tick p ^^ n) u = u" by (induction n) simp_all
  moreover have "lt_mounted (visibilitychange False t)" using assms(3) by (simp add: ticker_defs)
  then have "(ticker_step p)\<^sup>*\<^sup>* t u" unfolding u_def using assms(3)
    by (meson changes converse_rtranclp_into_rtranclp rtranclp.rtrancl_refl)
  ultimately show ?thesis using f(2) by blast
qed

text \<open>
  Whatever the items are replaced with, the index is one of theirs after every step, so that an item is always shown
  as long as there is one, and the list advances only while it is visible and has more than one item.
\<close>

theorem list_index_valid:
  assumes "list_step\<^sup>*\<^sup>* (mount_list items v) t" and "li_items t \<noteq> []"
  shows "li_index t < length (li_items t) \<and> currentItem t = Some (li_items t ! li_index t) \<and>
    (iv_live (li_iv t) \<noteq> [] \<longrightarrow> li_visible t \<and> length (li_items t) > 1)"
proof -
  have "li_index t < length (li_items t) \<or> li_items t = [] \<and> li_index t = 0"
    using assms(1)
  proof (induction rule: rtranclp_induct)
    case base
    show ?case by (auto simp: list_defs)
  next
    case (step t t')
    then show ?case by (elim list_stepE) (auto simp: list_defs)
  qed
  with assms(2) have "li_index t < length (li_items t)" by auto
  with list_ticker.run_single [OF assms(1)] show ?thesis by (auto simp: currentItem_def list_active_def)
qed

section \<open>Witnesses\<close>

definition toy_ticker :: ticker_options where
  "toy_ticker = \<lparr>lo_start = 0, lo_step = 3, lo_max = Some 5\<rparr>"

lemma toy_ticks: "(ticker_step toy_ticker)\<^sup>*\<^sup>* (mount_ticker toy_ticker True) (tick toy_ticker (mount_ticker toy_ticker True))"
  by (intro r_into_rtranclp ticks) (simp add: ticker_defs toy_ticker_def at_max_def no_intervals_def clear_interval_def set_interval_def)

theorem ticker_within_max_witness:
  "lt_value (tick toy_ticker (mount_ticker toy_ticker True)) = 3 \<and> lt_value (tick toy_ticker (mount_ticker toy_ticker True)) \<le> 5"
  using ticker_within_max [OF toy_ticks, of 5]
  by (simp add: toy_ticker_def ticker_defs ticked_def at_max_def)

definition toy_stopped :: ticker where
  "toy_stopped = (tick toy_ticker ^^ 2) (mount_ticker toy_ticker True)"

lemma toy_stopped_sel: "lt_value toy_stopped = 5" "lt_mounted toy_stopped" "lt_visible toy_stopped" "lt_iv toy_stopped = no_intervals\<lparr>iv_fresh := 1\<rparr>"
  by (simp_all add: toy_stopped_def numeral_2_eq_2 toy_ticker_def ticker_defs ticked_def at_max_def no_intervals_def
      clear_interval_def set_interval_def)

theorem stopped_ticker_restarts_witness:
  "iv_live (lt_iv toy_stopped) = [] \<and> iv_live (lt_iv (visibilitychange True (visibilitychange False toy_stopped))) \<noteq> []"
  using stopped_ticker_restarts [of toy_ticker toy_stopped 0]
  by (simp add: toy_stopped_sel no_intervals_def toy_ticker_def)

lemma toy_list: "list_step\<^sup>*\<^sup>* (mount_list [1, 2, 3 :: nat] True) (list_rerender [7] (mount_list [1, 2, 3] True))"
  by (intro r_into_rtranclp list_renders) (simp add: list_defs)

theorem list_index_valid_witness: "currentItem (list_rerender [7] (mount_list [1, 2, 3 :: nat] True)) = Some 7"
  using list_index_valid [OF toy_list] by (simp add: list_defs)

end
