(* ===== verification/Config.thy ===== *)
theory Config
  imports Payment Auth ArenaList
begin

text \<open>
  The configuration that both programs read from their environment: backend/src/config (paymentConfig.ts,
  stellarConfig.ts, validate.ts) and frontend/src/lib/stellarConfig.ts. What \<open>z.string().url()\<close> accepts is the
  parameter \<open>is_url\<close>. Numbers are exact.
\<close>

type_synonym environment = "string \<Rightarrow> string option"

section \<open>Numbers in texts\<close>

text \<open>\<open>Number(s)\<close>: the whole trimmed text is a literal; the empty one is 0.\<close>

definition whole_exponent :: "string \<Rightarrow> bool" where
  "whole_exponent s =
     (case s of
        [] \<Rightarrow> True
      | c # r \<Rightarrow> (c = CHR ''e'' \<or> c = CHR ''E'') \<and>
          (let ds = (if starts_with ''-'' r \<or> starts_with ''+'' r then tl r else r) in ds \<noteq> [] \<and> list_all is_digit ds))"

definition whole_decimal :: "string \<Rightarrow> js_num" where
  "whole_decimal s =
     (if s = ''Infinity'' then Infinite False
      else let ds = takeWhile is_digit s; r = dropWhile is_digit s;
               fs = (if starts_with ''.'' r then takeWhile is_digit (tl r) else []);
               r2 = (if starts_with ''.'' r then dropWhile is_digit (tl r) else r)
           in if (ds = [] \<and> fs = []) \<or> \<not> whole_exponent r2 then NaN
              else Num (scale10 (exponent_of r2) (of_nat (dec_val (ds @ fs)) / 10 ^ length fs)))"

definition radix_literal :: "nat \<Rightarrow> string \<Rightarrow> js_num" where
  "radix_literal b ds =
     (if ds \<noteq> [] \<and> list_all (\<lambda>c. case hex_digit c of None \<Rightarrow> False | Some d \<Rightarrow> d < b) ds
      then Num (of_nat (fold (\<lambda>c n. n * b + the (hex_digit c)) ds 0)) else NaN)"

definition js_number_of :: "string \<Rightarrow> js_num" where
  "js_number_of s =
     (let t = js_trim s
      in if t = [] then Num 0
         else if starts_with ''0x'' t \<or> starts_with ''0X'' t then radix_literal 16 (drop 2 t)
         else if starts_with ''0o'' t \<or> starts_with ''0O'' t then radix_literal 8 (drop 2 t)
         else if starts_with ''0b'' t \<or> starts_with ''0B'' t then radix_literal 2 (drop 2 t)
         else if starts_with ''-'' t then js_negate (whole_decimal (tl t))
         else whole_decimal (if starts_with ''+'' t then tl t else t))"

text \<open>\<open>parseInt(s, 10)\<close>\<close>

definition parse_digits :: "string \<Rightarrow> int option" where
  "parse_digits s = (let ds = takeWhile is_digit s in if ds = [] then None else Some (int (dec_val ds)))"

definition parseInt10 :: "string \<Rightarrow> int option" where
  "parseInt10 s =
     (let t = dropWhile is_space s
      in if starts_with ''-'' t then map_option uminus (parse_digits (tl t))
         else parse_digits (if starts_with ''+'' t then tl t else t))"

text \<open>\<open>z.number().int()\<close> with \<open>positive()\<close> or \<open>nonnegative()\<close>, after the default and \<open>Number\<close>.\<close>

definition int_above :: "rat \<Rightarrow> js_num \<Rightarrow> int option" where
  "int_above lo n = (case n of Num x \<Rightarrow> if x = of_int \<lfloor>x\<rfloor> \<and> lo < x then Some \<lfloor>x\<rfloor> else None | _ \<Rightarrow> None)"

definition env_number :: "environment \<Rightarrow> string \<Rightarrow> string \<Rightarrow> js_num" where
  "env_number env k dflt = js_number_of (case env k of None \<Rightarrow> dflt | Some s \<Rightarrow> s)"

section \<open>The backend\<close>

record backend_stellar =
  bs_sorobanRpcUrl :: string
  bs_networkPassphrase :: string
  bs_roundConfirmPollMs :: int
  bs_roundConfirmMaxPolls :: int

definition or_test_default :: "environment \<Rightarrow> string \<Rightarrow> string \<Rightarrow> string option" where
  "or_test_default env k dflt =
     (case env k of Some s \<Rightarrow> Some s | None \<Rightarrow> if env ''NODE_ENV'' = Some ''test'' then Some dflt else None)"

definition getStellarConfig :: "(string \<Rightarrow> bool) \<Rightarrow> environment \<Rightarrow> js_error + backend_stellar" where
  "getStellarConfig is_url env =
     (case (or_test_default env ''SOROBAN_RPC_URL'' ''https://soroban-testnet.stellar.org'',
            or_test_default env ''STELLAR_NETWORK_PASSPHRASE'' ''Test SDF Network ; September 2015'',
            int_above 0 (env_number env ''ROUND_CONFIRM_POLL_MS'' ''2500''),
            int_above 0 (env_number env ''ROUND_CONFIRM_MAX_POLLS'' ''20'')) of
        (Some url, Some passphrase, Some ms, Some polls) \<Rightarrow>
          if is_url url \<and> 3 \<le> length passphrase
          then Inr \<lparr>bs_sorobanRpcUrl = url, bs_networkPassphrase = passphrase, bs_roundConfirmPollMs = ms,
                    bs_roundConfirmMaxPolls = polls\<rparr>
          else Inl (ZodFailure ''stellar'')
      | _ \<Rightarrow> Inl (ZodFailure ''stellar''))"

definition parseBooleanFlag :: "string option \<Rightarrow> bool" where
  "parseBooleanFlag v \<longleftrightarrow> v = Some ''true'' \<or> v = Some ''1''"

definition checked_id :: "(string \<Rightarrow> bool) \<Rightarrow> string option \<Rightarrow> string option" where
  "checked_id ok v = (case v of Some s \<Rightarrow> if ok s then Some s else None | None \<Rightarrow> None)"

definition getPaymentConfig :: "(string \<Rightarrow> bool) \<Rightarrow> environment \<Rightarrow> js_error + payment_config" where
  "getPaymentConfig is_url env =
     (case getStellarConfig is_url env of
        Inl e \<Rightarrow> Inl e
      | Inr stellar \<Rightarrow>
          (case (int_above 0 (env_number env ''PAYOUTS_MAX_GAS_STROOPS'' ''2000000''),
                 int_above 0 (env_number env ''PAYOUTS_MAX_ATTEMPTS'' ''5''),
                 int_above 0 (env_number env ''PAYOUTS_CONFIRM_POLL_MS'' ''2500''),
                 int_above 0 (env_number env ''PAYOUTS_CONFIRM_MAX_POLLS'' ''20''),
                 int_above (-1) (env_number env ''PAYOUTS_FAILED_RETRY_MAX'' ''3''),
                 int_above 0 (env_number env ''PAYOUTS_FAILED_RETRY_BASE_MS'' ''5000''),
                 checked_id contract_id_regex (env ''PAYOUT_CONTRACT_ID''),
                 checked_id public_key_regex (env ''PAYOUT_SOURCE_ACCOUNT'')) of
             (Some gas, Some attempts, Some ms, Some polls, Some retries, Some base, Some contract, Some source) \<Rightarrow>
               Inr \<lparr>pc_liveExecution = parseBooleanFlag (env ''PAYOUTS_LIVE_EXECUTION''),
                    pc_signWithHotKey = parseBooleanFlag (env ''PAYOUTS_SIGN_WITH_HOT_KEY''),
                    pc_maxGasStroops = gas, pc_maxAttempts = nat attempts, pc_confirmPollMs = ms,
                    pc_confirmMaxPolls = nat polls, pc_failedRetryMax = nat retries, pc_failedRetryBaseMs = base,
                    pc_payoutMethodName =
                      (case env ''PAYOUT_METHOD_NAME'' of None \<Rightarrow> ''distribute_winnings'' | Some m \<Rightarrow> m),
                    pc_payoutContractId = contract, pc_sourceAccount = source,
                    pc_hotSignerSecret = env ''PAYOUT_HOT_SIGNER_SECRET'',
                    pc_networkPassphrase = bs_networkPassphrase stellar, pc_sorobanRpcUrl = bs_sorobanRpcUrl stellar\<rparr>
           | _ \<Rightarrow> Inl (ZodFailure ''payment'')))"

definition validateConfig :: "environment \<Rightarrow> js_error + unit" where
  "validateConfig env =
     (let apiKey = (case env ''ADMIN_API_KEY'' of None \<Rightarrow> [] | Some k \<Rightarrow> k);
          ttl = parseInt10 (case env ''ADMIN_TOKEN_TTL_SECONDS'' of None \<Rightarrow> [] | Some s \<Rightarrow> s)
      in if apiKey = ''change-me-in-production'' then Inl (Error ''ADMIN_API_KEY must be changed from the default value'')
         else if length apiKey < 32
         then Inl (Error ''ADMIN_API_KEY must be at least 32 characters to resist brute-force and timing attacks'')
         else if (case ttl of None \<Rightarrow> False | Some t \<Rightarrow> 0 < t \<and> t < 300)
         then Inl (Error ''ADMIN_TOKEN_TTL_SECONDS must be at least 300 seconds (5 minutes) or 0 for API key auth (no expiring tokens)'')
         else Inr ())"

text \<open>What \<open>ttlSeconds\<close> of services/adminService.ts makes of the same variable.\<close>

definition token_lifetime :: "environment \<Rightarrow> rat" where
  "token_lifetime env =
     ttlSeconds (case env ''ADMIN_TOKEN_TTL_SECONDS'' of
        None \<Rightarrow> None
      | Some s \<Rightarrow> (case js_number_of s of Num x \<Rightarrow> Some x | _ \<Rightarrow> None))"

section \<open>The frontend\<close>

record app_stellar =
  sc_networkName :: string
  sc_passphrase :: string
  sc_sorobanRpcUrl :: string
  sc_horizonUrl :: string
  sc_factory :: string
  sc_usdc :: string
  sc_xlm :: string
  sc_staking :: "string option"
  sc_rwaVault :: "string option"
  sc_oracle :: "string option"

definition TESTNET_PASSPHRASE :: string where
  "TESTNET_PASSPHRASE = ''Test SDF Network ; September 2015''"

definition MAINNET_PASSPHRASE :: string where
  "MAINNET_PASSPHRASE = ''Public Global Stellar Network ; September 2015''"

definition DEFAULT_XLM_CONTRACT_ID :: string where
  "DEFAULT_XLM_CONTRACT_ID = ''CAS3J7GYLGXMF6TDJBXBGMELNUPVCGXIZ68TZE6GTVASJ63Y32KXVY77''"

definition network_name :: "environment \<Rightarrow> string" where
  "network_name env = (case env ''NEXT_PUBLIC_STELLAR_NETWORK'' of None \<Rightarrow> ''testnet'' | Some s \<Rightarrow> to_lower s)"

definition required_ok :: "(string \<Rightarrow> bool) \<Rightarrow> environment \<Rightarrow> string \<Rightarrow> bool" where
  "required_ok ok env k = (case env k of None \<Rightarrow> False | Some s \<Rightarrow> ok (js_trim s))"

definition optional_ok :: "environment \<Rightarrow> string \<Rightarrow> bool" where
  "optional_ok env k = (case env k of None \<Rightarrow> True | Some s \<Rightarrow> 3 \<le> length (js_trim s))"

definition required_urls :: "string list" where
  "required_urls = [''NEXT_PUBLIC_SOROBAN_RPC_URL'', ''NEXT_PUBLIC_HORIZON_URL'']"

definition required_ids :: "string list" where
  "required_ids = [''NEXT_PUBLIC_FACTORY_CONTRACT_ID'', ''NEXT_PUBLIC_USDC_CONTRACT_ID'']"

text \<open>The fields of the schema in its order, with what each demands.\<close>

definition schema_checks :: "(string \<Rightarrow> bool) \<Rightarrow> environment \<Rightarrow> (string \<times> bool) list" where
  "schema_checks is_url env =
     [(''NEXT_PUBLIC_STELLAR_NETWORK'', network_name env = ''testnet'' \<or> network_name env = ''mainnet'')] @
     map (\<lambda>k. (k, required_ok is_url env k)) required_urls @
     map (\<lambda>k. (k, required_ok (\<lambda>s. 3 \<le> length s) env k)) required_ids @
     map (\<lambda>k. (k, optional_ok env k))
       [''NEXT_PUBLIC_XLM_CONTRACT_ID'', ''NEXT_PUBLIC_STAKING_CONTRACT_ID'', ''NEXT_PUBLIC_STELLAR_NETWORK_PASSPHRASE'',
        ''NEXT_PUBLIC_RWA_VAULT_CONTRACT_ID'', ''NEXT_PUBLIC_ORACLE_CONTRACT_ID'']"

fun js_join :: "string \<Rightarrow> string list \<Rightarrow> string" where
  "js_join sep [] = []"
| "js_join sep [s] = s"
| "js_join sep (s # t # ts) = s @ sep @ js_join sep (t # ts)"

definition env_trimmed :: "environment \<Rightarrow> string \<Rightarrow> string option" where
  "env_trimmed env k = map_option js_trim (env k)"

definition buildStellarConfig :: "(string \<Rightarrow> bool) \<Rightarrow> environment \<Rightarrow> string + app_stellar" where
  "buildStellarConfig is_url env =
     (let missing = map fst (filter (\<lambda>(k, ok). \<not> ok) (schema_checks is_url env));
          value = (\<lambda>k. the (env_trimmed env k))
      in if missing \<noteq> []
         then Inl (''Missing or invalid Stellar environment variable(s): '' @ js_join '', '' missing)
         else Inr
           \<lparr>sc_networkName = network_name env,
            sc_passphrase = (case env_trimmed env ''NEXT_PUBLIC_STELLAR_NETWORK_PASSPHRASE'' of
               Some p \<Rightarrow> p
             | None \<Rightarrow> if network_name env = ''mainnet'' then MAINNET_PASSPHRASE else TESTNET_PASSPHRASE),
            sc_sorobanRpcUrl = strip_slashes (value ''NEXT_PUBLIC_SOROBAN_RPC_URL''),
            sc_horizonUrl = strip_slashes (value ''NEXT_PUBLIC_HORIZON_URL''),
            sc_factory = value ''NEXT_PUBLIC_FACTORY_CONTRACT_ID'', sc_usdc = value ''NEXT_PUBLIC_USDC_CONTRACT_ID'',
            sc_xlm = (case env_trimmed env ''NEXT_PUBLIC_XLM_CONTRACT_ID'' of
               Some x \<Rightarrow> x | None \<Rightarrow> DEFAULT_XLM_CONTRACT_ID),
            sc_staking = env_trimmed env ''NEXT_PUBLIC_STAKING_CONTRACT_ID'',
            sc_rwaVault = env_trimmed env ''NEXT_PUBLIC_RWA_VAULT_CONTRACT_ID'',
            sc_oracle = env_trimmed env ''NEXT_PUBLIC_ORACLE_CONTRACT_ID''\<rparr>)"

definition isStellarConfigured :: "(string \<Rightarrow> bool) \<Rightarrow> environment \<Rightarrow> bool" where
  "isStellarConfigured is_url env \<longleftrightarrow> (case buildStellarConfig is_url env of Inr c \<Rightarrow> True | Inl e \<Rightarrow> False)"

text \<open>Reading a property: the proxy that stands for a missing configuration throws.\<close>

definition read_config :: "(string \<Rightarrow> bool) \<Rightarrow> environment \<Rightarrow> string \<Rightarrow> (app_stellar \<Rightarrow> 'a) \<Rightarrow> js_error + 'a" where
  "read_config is_url env name sel =
     (case buildStellarConfig is_url env of
        Inr c \<Rightarrow> Inr (sel c)
      | Inl e \<Rightarrow> Inl (Error (''Stellar is not configured: cannot read '' @ [CHR 0x22] @ name @ [CHR 0x22] @
                 '' from stellarConfig. '' @ e)))"

text \<open>The constants of shared-d/utils/stellar-transactions.ts, read when the module is loaded.\<close>

definition loaded_constants :: "(string \<Rightarrow> bool) \<Rightarrow> environment \<Rightarrow> js_error + frontend_config" where
  "loaded_constants is_url env =
     read_config is_url env ''factoryContractId''
       (\<lambda>c. \<lparr>fc_factory = sc_factory c, fc_xlm = sc_xlm c, fc_usdc = sc_usdc c, fc_staking = sc_staking c,
             fc_rwaVault = sc_rwaVault c, fc_oracle = sc_oracle c, fc_passphrase = sc_passphrase c,
             fc_horizonUrl = sc_horizonUrl c\<rparr>)"

section \<open>Properties\<close>

lemma int_above_Some: "int_above lo n = Some i \<longleftrightarrow> n = Num (of_int i) \<and> lo < of_int i"
  by (auto simp: int_above_def split: js_num.splits if_splits)

lemma setting_checked_Some: "checked_id ok v = Some s \<longleftrightarrow> v = Some s \<and> ok s"
  by (auto simp: checked_id_def split: option.splits)

lemma number_texts: "js_number_of ''5'' = Num 5" "js_number_of ''20'' = Num 20" "js_number_of ''2000000'' = Num 2000000"
  "js_number_of ''2500'' = Num 2500" "js_number_of ''3'' = Num 3" "js_number_of ''5000'' = Num 5000"
  by (simp_all add: js_number_of_def js_trim_def is_space_def char_class_defs whole_decimal_def whole_exponent_def exponent_of_def
      scale10_def dec_val_def digit_val_def)

lemma includes_join: "k \<in> set xs \<Longrightarrow> str_includes k (js_join sep xs)"
proof (induction sep xs rule: js_join.induct)
  case (3 sep s t ts)
  then show ?case unfolding str_includes_iff by simp (metis append.assoc append_Nil)
next
  case (2 sep s)
  then show ?case unfolding str_includes_iff by simp (metis append_Nil append_Nil2)
qed simp

text \<open>
  A backend that starts has sensible payments: every limit and interval is a positive whole number, retries are not
  negative, contract and account have the shape of their kind, and each of them is what the environment says or, where
  it says nothing, its default.
\<close>

theorem payment_config_valid:
  assumes "getPaymentConfig is_url env = Inr c"
  shows "0 < pc_maxGasStroops c \<and> 0 < pc_maxAttempts c \<and> 0 < pc_confirmPollMs c \<and> 0 < pc_confirmMaxPolls c \<and>
    0 < pc_failedRetryBaseMs c \<and> env ''PAYOUT_CONTRACT_ID'' = Some (pc_payoutContractId c) \<and>
    contract_id_regex (pc_payoutContractId c) \<and> env ''PAYOUT_SOURCE_ACCOUNT'' = Some (pc_sourceAccount c) \<and>
    public_key_regex (pc_sourceAccount c) \<and> is_url (pc_sorobanRpcUrl c) \<and> 3 \<le> length (pc_networkPassphrase c) \<and>
    (env ''PAYOUTS_MAX_ATTEMPTS'' = None \<longrightarrow> pc_maxAttempts c = 5) \<and>
    (env ''PAYOUTS_CONFIRM_MAX_POLLS'' = None \<longrightarrow> pc_confirmMaxPolls c = 20)"
proof -
  obtain stellar gas attempts ms polls retries base contract source where
    st: "getStellarConfig is_url env = Inr stellar" and
    n: "int_above 0 (env_number env ''PAYOUTS_MAX_GAS_STROOPS'' ''2000000'') = Some gas"
      "int_above 0 (env_number env ''PAYOUTS_MAX_ATTEMPTS'' ''5'') = Some attempts"
      "int_above 0 (env_number env ''PAYOUTS_CONFIRM_POLL_MS'' ''2500'') = Some ms"
      "int_above 0 (env_number env ''PAYOUTS_CONFIRM_MAX_POLLS'' ''20'') = Some polls"
      "int_above 0 (env_number env ''PAYOUTS_FAILED_RETRY_BASE_MS'' ''5000'') = Some base" and
    ids: "checked_id contract_id_regex (env ''PAYOUT_CONTRACT_ID'') = Some contract"
      "checked_id public_key_regex (env ''PAYOUT_SOURCE_ACCOUNT'') = Some source" and
    c: "pc_maxGasStroops c = gas" "pc_maxAttempts c = nat attempts" "pc_confirmPollMs c = ms" "pc_confirmMaxPolls c = nat polls"
      "pc_failedRetryBaseMs c = base" "pc_payoutContractId c = contract" "pc_sourceAccount c = source"
      "pc_networkPassphrase c = bs_networkPassphrase stellar" "pc_sorobanRpcUrl c = bs_sorobanRpcUrl stellar"
    using assms by (auto simp: getPaymentConfig_def split: sum.splits option.splits)
  have url: "is_url (bs_sorobanRpcUrl stellar) \<and> 3 \<le> length (bs_networkPassphrase stellar)"
    using st by (auto simp: getStellarConfig_def split: option.splits if_splits)
  have "env ''PAYOUTS_MAX_ATTEMPTS'' = None \<Longrightarrow> attempts = 5" "env ''PAYOUTS_CONFIRM_MAX_POLLS'' = None \<Longrightarrow> polls = 20"
    using n(2,4) by (simp_all add: env_number_def number_texts int_above_Some)
  with url n ids show ?thesis by (simp add: c int_above_Some setting_checked_Some)
qed

lemma digits_not_space: "is_digit c \<Longrightarrow> \<not> is_space c"
  by (auto simp: char_class_defs is_space_def)

lemma trim_digits: "list_all is_digit s \<Longrightarrow> js_trim s = s"
  using js_trim_id [of s] digits_not_space by (cases "s = []") (auto simp: js_trim_def list_all_iff)

text \<open>
  A lifetime of the confirmation tokens that is written with digits only is at least five minutes if the server
  starts.
\<close>

theorem ttl_of_digits_checked:
  assumes "validateConfig env = Inr ()" and "env ''ADMIN_TOKEN_TTL_SECONDS'' = Some s" and "list_all is_digit s"
  shows "300 \<le> token_lifetime env"
proof -
  have trim: "js_trim s = s" by (rule trim_digits [OF assms(3)])
  have d: "takeWhile is_digit s = s" "dropWhile is_digit s = []" "dropWhile is_space s = s"
    using assms(3) digits_not_space by (induction s) auto
  have plain: "\<not> starts_with (c # p) s" if "c = CHR ''-'' \<or> c = CHR ''+''" for c p
    using assms(3) that by (cases s) (auto simp: char_class_defs)
  have hex: "\<not> starts_with (CHR ''0'' # c # p) s" if "\<not> is_digit c" for c p
    using assms(3) that by (cases s; cases "tl s") auto
  have letters: "\<not> is_digit (CHR ''x'')" "\<not> is_digit (CHR ''X'')" "\<not> is_digit (CHR ''o'')" "\<not> is_digit (CHR ''O'')"
    "\<not> is_digit (CHR ''b'')" "\<not> is_digit (CHR ''B'')" "\<not> is_digit (CHR ''I'')"
    by (simp_all add: char_class_defs)
  have "s \<noteq> ''Infinity''" using assms(3) letters by auto
  then have whole: "s \<noteq> [] \<Longrightarrow> whole_decimal s = Num (of_nat (dec_val s))"
    by (simp add: whole_decimal_def d whole_exponent_def exponent_of_def scale10_def Let_def)
  have num: "s \<noteq> [] \<Longrightarrow> js_number_of s = Num (of_nat (dec_val s))"
    by (simp add: js_number_of_def trim whole plain hex letters Let_def)
  show ?thesis
  proof (cases "s = []")
    case True
    then show ?thesis
      by (simp add: token_lifetime_def assms(2) js_number_of_def js_trim_def ttlSeconds_def positive_or_def)
  next
    case False
    have "parseInt10 s = Some (int (dec_val s))"
      by (simp add: parseInt10_def d plain parse_digits_def False Let_def)
    with assms(1) have "dec_val s = 0 \<or> 300 \<le> dec_val s"
      by (auto simp: validateConfig_def assms(2) Let_def split: if_splits)
    then have "dec_val s = 0 \<or> 300 \<le> rat_of_nat (dec_val s)" by (metis of_nat_le_iff of_nat_numeral)
    then show ?thesis by (auto simp: token_lifetime_def assms(2) num False ttlSeconds_def positive_or_def)
  qed
qed

text \<open>
  The check reads the number with another function than the service: of a hexadecimal one it sees the zero before the
  x, so that the server starts with any lifetime, shorter than five minutes too.
\<close>

theorem hexadecimal_ttl_unchecked:
  assumes "env ''ADMIN_API_KEY'' = Some k" and "32 \<le> length k"
    and "env ''ADMIN_TOKEN_TTL_SECONDS'' = Some (''0x'' @ ds)" and "ds \<noteq> []" and "list_all is_digit ds"
    and "0 < fold (\<lambda>c n. n * 16 + the (hex_digit c)) ds 0"
  shows "validateConfig env = Inr () \<and> token_lifetime env = of_nat (fold (\<lambda>c n. n * 16 + the (hex_digit c)) ds 0)"
proof -
  let ?s = "''0x'' @ ds"
  let ?v = "fold (\<lambda>c n. n * 16 + the (hex_digit c)) ds 0"
  have "last ds \<in> set ds" using assms(4) by simp
  then have "is_digit (last ds)" using assms(5) by (simp add: list_all_iff)
  then have "\<not> is_space (last ?s)" using digits_not_space assms(4) by simp
  moreover have "\<not> is_space (hd ?s)" by (simp add: is_space_def char_class_defs)
  ultimately have trim: "js_trim ?s = ?s" by (intro js_trim_id) simp_all
  have "list_all (\<lambda>c. case hex_digit c of None \<Rightarrow> False | Some d \<Rightarrow> d < 16) ds"
    using assms(5) by (auto simp: list_all_iff hex_digit_def char_class_defs)
  then have "radix_literal 16 ds = Num (of_nat ?v)" using assms(4) by (simp add: radix_literal_def)
  then have num: "js_number_of ?s = Num (of_nat ?v)" unfolding js_number_of_def trim by simp
  have "parseInt10 ?s = Some 0"
    by (simp add: parseInt10_def parse_digits_def is_space_def char_class_defs dec_val_def digit_val_def)
  then have "validateConfig env = Inr ()"
    using assms(1,2,3) by (auto simp: validateConfig_def Let_def)
  moreover have "0 < rat_of_nat ?v" using assms(6) by simp
  ultimately show ?thesis using num by (simp add: token_lifetime_def assms(3) ttlSeconds_def positive_or_def)
qed

text \<open>
  Without an identifier for the token of XLM in the environment, on either network, the frontend builds pools in XLM
  with one that its own schema of contract identifiers refuses, because it has a character outside their alphabet.
\<close>

theorem default_xlm_refused:
  assumes "loaded_constants is_url env = Inr cfg" and "env ''NEXT_PUBLIC_XLM_CONTRACT_ID'' = None"
  shows "StellarContractIdSchema (fc_xlm cfg) = Inl [''Invalid Soroban contract id'']"
proof -
  obtain c where c: "buildStellarConfig is_url env = Inr c" "fc_xlm cfg = sc_xlm c"
    using assms(1) by (auto simp: loaded_constants_def read_config_def split: sum.splits)
  then have "sc_xlm c = DEFAULT_XLM_CONTRACT_ID"
    unfolding buildStellarConfig_def Let_def by (auto simp: env_trimmed_def assms(2) split: if_splits)
  with c have "fc_xlm cfg = DEFAULT_XLM_CONTRACT_ID" by simp
  moreover have "StellarContractIdSchema DEFAULT_XLM_CONTRACT_ID = Inl [''Invalid Soroban contract id'']" by code_simp
  ultimately show ?thesis by simp
qed

text \<open>
  With any required variable missing the module of the transactions cannot be loaded: its constants read the
  configuration at once, and the proxy that should throw only when a component needs it throws then.
\<close>

theorem missing_variable_breaks_module:
  assumes "env k = None" and "k \<in> set required_urls \<or> k \<in> set required_ids"
  shows "\<exists>m. loaded_constants is_url env = Inl (Error m) \<and> str_includes k m"
proof -
  let ?missing = "map fst (filter (\<lambda>(k, ok). \<not> ok) (schema_checks is_url env))"
  have none: "required_ok f env k = False" for f by (simp add: required_ok_def assms(1))
  from assms(2) have "(k, False) \<in> set (schema_checks is_url env)"
  proof
    assume "k \<in> set required_urls"
    then have "(k, required_ok is_url env k) \<in> set (map (\<lambda>k. (k, required_ok is_url env k)) required_urls)" by simp
    then show ?thesis unfolding schema_checks_def set_append none by (intro UnI2 UnI1)
  next
    assume "k \<in> set required_ids"
    then have "(k, required_ok (\<lambda>s. 3 \<le> length s) env k) \<in>
        set (map (\<lambda>k. (k, required_ok (\<lambda>s. 3 \<le> length s) env k)) required_ids)" by simp
    then show ?thesis unfolding schema_checks_def set_append none by (intro UnI2 UnI1)
  qed
  then have k: "k \<in> set ?missing" by force
  then have "str_includes k (js_join '', '' ?missing)" by (rule includes_join)
  then have e: "str_includes k (''Missing or invalid Stellar environment variable(s): '' @ js_join '', '' ?missing)" (is "str_includes k ?e")
    by (rule str_includes_append)
  have "?missing \<noteq> []" using k by (cases ?missing) auto
  then have "buildStellarConfig is_url env = Inl ?e" unfolding buildStellarConfig_def Let_def by (rule if_P)
  then show ?thesis unfolding loaded_constants_def read_config_def
    by (simp only: sum.case) (intro exI conjI, rule refl, intro str_includes_append e)
qed

section \<open>Witnesses\<close>

definition toy_contract :: string where "toy_contract = CHR ''C'' # replicate 55 (CHR ''A'')"
definition toy_account :: string where "toy_account = CHR ''G'' # replicate 55 (CHR ''A'')"

lemma toy_ids: "contract_id_regex toy_contract" "public_key_regex toy_account"
  by (simp_all add: toy_contract_def toy_account_def contract_id_regex_def public_key_regex_def list_all_iff char_class_defs)

text \<open>Only what has no default is set.\<close>

definition toy_backend :: environment where
  "toy_backend = map_of
     [(''SOROBAN_RPC_URL'', ''https://rpc''), (''STELLAR_NETWORK_PASSPHRASE'', ''Test''),
      (''PAYOUT_CONTRACT_ID'', toy_contract), (''PAYOUT_SOURCE_ACCOUNT'', toy_account),
      (''ADMIN_API_KEY'', replicate 32 (CHR ''k'')), (''ADMIN_TOKEN_TTL_SECONDS'', ''600'')]"

lemma int_above_whole: "lo < rat_of_int i \<Longrightarrow> int_above lo (Num (of_int i)) = Some i"
  by (simp add: int_above_Some)

lemma toy_numbers: "int_above 0 (Num 2000000) = Some 2000000" "int_above 0 (Num 5) = Some 5" "int_above 0 (Num 2500) = Some 2500"
  "int_above 0 (Num 20) = Some 20" "int_above (-1) (Num 3) = Some 3" "int_above 0 (Num 5000) = Some 5000"
  using int_above_whole [of 0 2000000] int_above_whole [of 0 5] int_above_whole [of 0 2500] int_above_whole [of 0 20]
    int_above_whole [of "-1" 3] int_above_whole [of 0 5000] by simp_all

lemma toy_backend_config: "\<exists>c. getPaymentConfig (\<lambda>_. True) toy_backend = Inr c"
proof -
  have "\<exists>b. getStellarConfig (\<lambda>_. True) toy_backend = Inr b"
    by (simp add: getStellarConfig_def or_test_default_def env_number_def toy_backend_def number_texts toy_numbers)
  then obtain b where "getStellarConfig (\<lambda>_. True) toy_backend = Inr b" by blast
  then show ?thesis
    by (simp add: getPaymentConfig_def env_number_def number_texts toy_numbers checked_id_def toy_backend_def toy_ids)
qed

theorem payment_config_valid_witness:
  "\<exists>c. getPaymentConfig (\<lambda>_. True) toy_backend = Inr c \<and> 0 < pc_maxGasStroops c \<and> pc_maxAttempts c = 5 \<and>
     public_key_regex (pc_sourceAccount c)"
proof -
  obtain c where c: "getPaymentConfig (\<lambda>_. True) toy_backend = Inr c" using toy_backend_config by blast
  have "toy_backend ''PAYOUTS_MAX_ATTEMPTS'' = None" by (simp add: toy_backend_def)
  with c payment_config_valid [OF c] show ?thesis by blast
qed

theorem ttl_of_digits_checked_witness: "300 \<le> token_lifetime toy_backend"
proof -
  have "replicate 32 (CHR ''k'') \<noteq> ''change-me-in-production''" by (auto dest: arg_cong [where f = length])
  then have "validateConfig toy_backend = Inr ()"
    by (simp add: validateConfig_def toy_backend_def parseInt10_def parse_digits_def is_space_def char_class_defs dec_val_def
        digit_val_def Let_def)
  moreover have "toy_backend ''ADMIN_TOKEN_TTL_SECONDS'' = Some ''600''" by (simp add: toy_backend_def)
  moreover have "list_all is_digit ''600''" by (simp add: char_class_defs)
  ultimately show ?thesis by (rule ttl_of_digits_checked)
qed

theorem hexadecimal_ttl_unchecked_witness:
  "let env = toy_backend(''ADMIN_TOKEN_TTL_SECONDS'' \<mapsto> ''0x10'') in validateConfig env = Inr () \<and> token_lifetime env = 16"
  using hexadecimal_ttl_unchecked
    [where env = "toy_backend(''ADMIN_TOKEN_TTL_SECONDS'' \<mapsto> ''0x10'')" and k = "replicate 32 (CHR ''k'')" and ds = "''10''"]
  by (simp add: toy_backend_def char_class_defs hex_digit_def)

definition toy_frontend :: environment where
  "toy_frontend = map_of
     [(''NEXT_PUBLIC_SOROBAN_RPC_URL'', ''https://rpc/''), (''NEXT_PUBLIC_HORIZON_URL'', ''https://horizon''),
      (''NEXT_PUBLIC_FACTORY_CONTRACT_ID'', ''CABC''), (''NEXT_PUBLIC_USDC_CONTRACT_ID'', ''CDEF'')]"

lemma toy_frontend_loads: "\<exists>cfg. loaded_constants (\<lambda>_. True) toy_frontend = Inr cfg"
proof -
  have "list_all snd (schema_checks (\<lambda>_. True) toy_frontend)" by code_simp
  then have "filter (\<lambda>(k, ok). \<not> ok) (schema_checks (\<lambda>_. True) toy_frontend) = []"
    by (auto simp: filter_empty_conv list_all_iff)
  then have "\<exists>c. buildStellarConfig (\<lambda>_. True) toy_frontend = Inr c" by (simp add: buildStellarConfig_def)
  then show ?thesis by (auto simp: loaded_constants_def read_config_def)
qed

theorem default_xlm_refused_witness:
  "\<exists>cfg. loaded_constants (\<lambda>_. True) toy_frontend = Inr cfg \<and>
     StellarContractIdSchema (fc_xlm cfg) = Inl [''Invalid Soroban contract id'']"
proof -
  obtain cfg where "loaded_constants (\<lambda>_. True) toy_frontend = Inr cfg" using toy_frontend_loads by blast
  moreover have "toy_frontend ''NEXT_PUBLIC_XLM_CONTRACT_ID'' = None" by (simp add: toy_frontend_def)
  ultimately show ?thesis using default_xlm_refused by blast
qed

theorem missing_variable_breaks_module_witness:
  "\<exists>m. loaded_constants (\<lambda>_. True) (toy_frontend(''NEXT_PUBLIC_HORIZON_URL'' := None)) = Inl (Error m) \<and>
     str_includes ''NEXT_PUBLIC_HORIZON_URL'' m"
  by (rule missing_variable_breaks_module) (simp_all add: required_urls_def)

end
