(* ===== verification/Proxy.thy ===== *)
theory Proxy
  imports Config
begin

text \<open>
  The proxy in front of the frontend: frontend/src/proxy.ts with \<open>parseAllowedOrigins\<close> of
  shared-d/utils/security-validation.ts. \<open>is_url\<close> is what \<open>z.string().url()\<close> accepts and
  \<open>origin_of\<close> the origin of \<open>new URL(s)\<close>, \<open>None\<close> where that throws.
\<close>

section \<open>Origins\<close>

definition parseAllowedOrigins :: "(string \<Rightarrow> bool) \<Rightarrow> string option \<Rightarrow> js_error + string list" where
  "parseAllowedOrigins is_url raw =
     (if \<not> truthy raw then Inr []
      else let parsed = filter (\<lambda>s. s \<noteq> []) (map js_trim (js_split (CHR '','') (the raw)))
           in if list_all (\<lambda>s. is_url s \<and> length s \<le> 2048) parsed then Inr parsed
              else Inl (ZodFailure ''ALLOWED_ORIGINS''))"

text \<open>\<open>Array.from(new Set(xs))\<close>\<close>

definition js_unique :: "'a list \<Rightarrow> 'a list" where
  "js_unique xs = fold js_set_add xs []"

lemma set_js_unique [simp]: "set (js_unique xs) = set xs"
proof -
  have "set (fold js_set_add xs ys) = set ys \<union> set xs" for ys :: "'a list" by (induction xs arbitrary: ys) auto
  then show ?thesis by (simp add: js_unique_def)
qed

definition getAllowedOrigins :: "(string \<Rightarrow> bool) \<Rightarrow> environment \<Rightarrow> js_error + string list" where
  "getAllowedOrigins is_url env =
     (case parseAllowedOrigins is_url (env ''ALLOWED_ORIGINS'') of
        Inl e \<Rightarrow> Inl (Error (''Invalid ALLOWED_ORIGINS configuration: '' @ err_message e))
      | Inr configuredOrigins \<Rightarrow>
          Inr (js_unique
            (configuredOrigins @
             (if truthy (env ''NEXT_PUBLIC_APP_ORIGIN'') then [the (env ''NEXT_PUBLIC_APP_ORIGIN'')] else []) @
             (if env ''NODE_ENV'' = Some ''development'' then [''http://localhost:3000'', ''http://127.0.0.1:3000''] else []))))"

definition toOrigin :: "(string \<Rightarrow> string option) \<Rightarrow> string \<Rightarrow> string" where
  "toOrigin origin_of url = (case origin_of (js_trim url) of Some o' \<Rightarrow> o' | None \<Rightarrow> js_trim url)"

definition getNetworkConnectSources :: "(string \<Rightarrow> string option) \<Rightarrow> environment \<Rightarrow> string list" where
  "getNetworkConnectSources origin_of env =
     (let isMainnet = (map_option to_lower (env ''NEXT_PUBLIC_STELLAR_NETWORK'') = Some ''mainnet'');
          horizonUrl = (case env ''NEXT_PUBLIC_HORIZON_URL'' of
             Some u \<Rightarrow> u
           | None \<Rightarrow> if isMainnet then ''https://horizon.stellar.org'' else ''https://horizon-testnet.stellar.org'');
          sorobanRpcUrl = (case env ''NEXT_PUBLIC_SOROBAN_RPC_URL'' of
             Some u \<Rightarrow> u
           | None \<Rightarrow> if isMainnet then ''https://mainnet.sorobanrpc.com'' else ''https://soroban-testnet.stellar.org'')
      in [toOrigin origin_of horizonUrl, toOrigin origin_of sorobanRpcUrl])"

section \<open>Headers\<close>

definition quoted :: "string \<Rightarrow> string" where
  "quoted s = [CHR 0x27] @ s @ [CHR 0x27]"

definition connectSrc :: "(string \<Rightarrow> string option) \<Rightarrow> environment \<Rightarrow> string list \<Rightarrow> string list" where
  "connectSrc origin_of env allowedOrigins =
     js_unique ([quoted ''self''] @ allowedOrigins @ getNetworkConnectSources origin_of env @ [''https://api.coingecko.com'']) @
     (if env ''NODE_ENV'' \<noteq> Some ''production'' then [''ws:'', ''wss:''] else [])"

definition buildCsp :: "(string \<Rightarrow> string option) \<Rightarrow> environment \<Rightarrow> string list \<Rightarrow> string" where
  "buildCsp origin_of env allowedOrigins =
     (let isDev = (env ''NODE_ENV'' \<noteq> Some ''production'');
          scriptSrc = [quoted ''self'', quoted ''unsafe-inline''] @ (if isDev then [quoted ''unsafe-eval''] else [])
      in js_join ''; ''
        ([''default-src '' @ quoted ''self'', ''script-src '' @ js_join '' '' scriptSrc,
          ''style-src '' @ quoted ''self'' @ '' '' @ quoted ''unsafe-inline'' @ '' https://fonts.googleapis.com'',
          ''font-src '' @ quoted ''self'' @ '' https://fonts.gstatic.com data:'',
          ''img-src '' @ quoted ''self'' @ '' data: blob: https:'',
          ''connect-src '' @ js_join '' '' (connectSrc origin_of env allowedOrigins),
          ''object-src '' @ quoted ''none'', ''frame-ancestors '' @ quoted ''none'', ''base-uri '' @ quoted ''self'',
          ''form-action '' @ quoted ''self''] @
         (if isDev then [] else [''upgrade-insecure-requests''])))"

text \<open>The three answers: a refusal with status 403, an empty one with 204, and the page or route itself.\<close>

datatype proxy_outcome = Forbidden | NoContent | NextHandler

record proxy_request =
  pq_origin :: "string option"
  pq_pathname :: string
  pq_method :: string

record proxy_response =
  ps_outcome :: proxy_outcome
  ps_headers :: "(string \<times> string) list"

definition set_header :: "string \<Rightarrow> string \<Rightarrow> proxy_response \<Rightarrow> proxy_response" where
  "set_header k v r = r\<lparr>ps_headers := AList.update k v (ps_headers r)\<rparr>"

definition delete_header :: "string \<Rightarrow> proxy_response \<Rightarrow> proxy_response" where
  "delete_header k r = r\<lparr>ps_headers := AList.delete k (ps_headers r)\<rparr>"

definition applySecurityHeaders ::
    "(string \<Rightarrow> string option) \<Rightarrow> environment \<Rightarrow> string list \<Rightarrow> proxy_response \<Rightarrow> proxy_response" where
  "applySecurityHeaders origin_of env allowedOrigins =
     set_header ''Content-Security-Policy'' (buildCsp origin_of env allowedOrigins) \<circ>
     set_header ''Cross-Origin-Resource-Policy'' ''same-origin'' \<circ>
     set_header ''Cross-Origin-Opener-Policy'' ''same-origin'' \<circ>
     set_header ''Permissions-Policy'' ''camera=(), geolocation=(), microphone=(), interest-cohort=()'' \<circ>
     set_header ''Referrer-Policy'' ''strict-origin-when-cross-origin'' \<circ>
     set_header ''X-Frame-Options'' ''DENY'' \<circ> set_header ''X-Content-Type-Options'' ''nosniff''"

definition applyCorsHeaders :: "string option \<Rightarrow> string list \<Rightarrow> proxy_response \<Rightarrow> proxy_response" where
  "applyCorsHeaders requestOrigin allowedOrigins r =
     (if \<not> truthy requestOrigin then r
      else let r' = set_header ''Access-Control-Allow-Headers'' ''Content-Type, Authorization, X-Requested-With''
             (set_header ''Access-Control-Allow-Methods'' ''GET,POST,PUT,PATCH,DELETE,OPTIONS''
             (set_header ''Access-Control-Allow-Credentials'' ''true''
             (set_header ''Access-Control-Allow-Origin'' (the requestOrigin) (set_header ''Vary'' ''Origin'' r))))
           in if the requestOrigin \<in> set allowedOrigins then r' else delete_header ''Access-Control-Allow-Origin'' r')"

definition proxy ::
    "(string \<Rightarrow> bool) \<Rightarrow> (string \<Rightarrow> string option) \<Rightarrow> environment \<Rightarrow> proxy_request \<Rightarrow> js_error + proxy_response" where
  "proxy is_url origin_of env request =
     (case getAllowedOrigins is_url env of
        Inl e \<Rightarrow> Inl e
      | Inr allowedOrigins \<Rightarrow>
          (let isApiRoute = starts_with ''/api/'' (pq_pathname request); secured = applySecurityHeaders origin_of env allowedOrigins
           in if isApiRoute \<and> truthy (pq_origin request) \<and> the (pq_origin request) \<notin> set allowedOrigins
              then Inr (secured \<lparr>ps_outcome = Forbidden, ps_headers = []\<rparr>)
              else let response = secured
                     \<lparr>ps_outcome = (if isApiRoute \<and> pq_method request = ''OPTIONS'' then NoContent else NextHandler),
                      ps_headers = []\<rparr>
                   in Inr (if isApiRoute then applyCorsHeaders (pq_origin request) allowedOrigins response else response)))"

definition response_header :: "string \<Rightarrow> proxy_response \<Rightarrow> string option" where
  "response_header k r = map_of (ps_headers r) k"

section \<open>Properties\<close>

lemma outcome_set [simp]: "ps_outcome (set_header k v r) = ps_outcome r" "ps_outcome (delete_header k r) = ps_outcome r"
  by (simp_all add: set_header_def delete_header_def)

lemma header_set [simp]: "response_header k' (set_header k v r) = (if k' = k then Some v else response_header k' r)"
  by (simp add: response_header_def set_header_def update_conv)

lemma header_delete [simp]: "response_header k' (delete_header k r) = (if k' = k then None else response_header k' r)"
  by (simp add: response_header_def delete_header_def delete_conv)

lemma header_none [simp]: "response_header k \<lparr>ps_outcome = x, ps_headers = []\<rparr> = None"
  by (simp add: response_header_def)

lemma secured_outcome [simp]: "ps_outcome (applySecurityHeaders f env A r) = ps_outcome r"
  by (simp add: applySecurityHeaders_def)

lemma secured_other [simp]:
  "k \<in> {''Access-Control-Allow-Origin'', ''Access-Control-Allow-Credentials'', ''Vary''} \<Longrightarrow>
     response_header k (applySecurityHeaders f env A r) = response_header k r"
  by (auto simp: applySecurityHeaders_def)

lemma secured_policy: "response_header ''Content-Security-Policy'' (applySecurityHeaders f env A r) = Some (buildCsp f env A)"
  "response_header ''X-Frame-Options'' (applySecurityHeaders f env A r) = Some ''DENY''"
  by (simp_all add: applySecurityHeaders_def)

lemma cors_outcome [simp]: "ps_outcome (applyCorsHeaders o' A r) = ps_outcome r"
  by (simp add: applyCorsHeaders_def Let_def)

lemma cors_other [simp]:
  "k \<in> {''Content-Security-Policy'', ''X-Frame-Options''} \<Longrightarrow> response_header k (applyCorsHeaders o' A r) = response_header k r"
  by (auto simp: applyCorsHeaders_def Let_def)


text \<open>
  In production without configured origins nothing is allowed, not even the program's own pages: every request to
  the API for which the browser states an origin, as it does for each that changes something, is refused.
\<close>

theorem own_origin_refused:
  assumes "env ''ALLOWED_ORIGINS'' = None" and "env ''NEXT_PUBLIC_APP_ORIGIN'' = None" and "env ''NODE_ENV'' = Some ''production''"
    and "truthy (pq_origin request)" and "starts_with ''/api/'' (pq_pathname request)"
  shows "\<exists>r. proxy is_url origin_of env request = Inr r \<and> ps_outcome r = Forbidden"
proof -
  have "getAllowedOrigins is_url env = Inr []"
    by (simp add: getAllowedOrigins_def parseAllowedOrigins_def assms(1-3) js_unique_def)
  then show ?thesis using assms(4,5) by (simp add: proxy_def Let_def)
qed

text \<open>
  An origin that is configured with a slash at its end is accepted and never matches: browsers send none.
\<close>

theorem slash_origin_never_matches:
  assumes "getAllowedOrigins is_url env = Inr allowed" and "env ''ALLOWED_ORIGINS'' = Some (site @ ''/'')"
    and "env ''NEXT_PUBLIC_APP_ORIGIN'' = None" and "env ''NODE_ENV'' = Some ''production''"
    and "pq_origin request = Some site" and "site \<noteq> []" and "\<not> is_space (hd site)" and "CHR '','' \<notin> set site" and "starts_with ''/api/'' (pq_pathname request)"
  shows "\<exists>r. proxy is_url origin_of env request = Inr r \<and> ps_outcome r = Forbidden"
proof -
  have "\<not> is_space (CHR ''/'')" by (simp add: is_space_def char_class_defs)
  then have trim: "js_trim (site @ ''/'') = site @ ''/''" using assms(6,7) by (intro js_trim_id) simp_all
  have "CHR '','' \<notin> set (site @ ''/'')" using assms(8) by simp
  then have "js_split (CHR '','') (site @ ''/'') = [site @ ''/'']" by (rule js_split_no_sep)
  with assms(1) have "set allowed = {site @ ''/''}"
    by (auto simp: getAllowedOrigins_def parseAllowedOrigins_def assms(2-4) trim split: if_splits)
  then have "site \<notin> set allowed" by simp
  then show ?thesis using assms(1,5,6,9) by (simp add: proxy_def Let_def)
qed

section \<open>Witnesses\<close>

definition toy_site :: environment where
  "toy_site = map_of [(''NODE_ENV'', ''production''), (''ALLOWED_ORIGINS'', ''https://game, https://shop'')]"

definition toy_asking :: "string \<Rightarrow> proxy_request" where
  "toy_asking o' = \<lparr>pq_origin = Some o', pq_pathname = ''/api/arenas'', pq_method = ''POST''\<rparr>"

lemma toy_site_allowed: "getAllowedOrigins (\<lambda>_. True) toy_site = Inr [''https://game'', ''https://shop'']"
  by code_simp


theorem own_origin_refused_witness:
  "\<exists>r. proxy (\<lambda>_. True) (\<lambda>_. None) (toy_site(''ALLOWED_ORIGINS'' := None)) (toy_asking ''https://game'') = Inr r \<and>
     ps_outcome r = Forbidden"
  by (rule own_origin_refused) (simp_all add: toy_site_def toy_asking_def)

theorem slash_origin_never_matches_witness:
  "\<exists>r. proxy (\<lambda>_. True) (\<lambda>_. None) (toy_site(''ALLOWED_ORIGINS'' \<mapsto> ''https://game/'')) (toy_asking ''https://game'') = Inr r \<and>
     ps_outcome r = Forbidden"
proof -
  let ?env = "toy_site(''ALLOWED_ORIGINS'' \<mapsto> ''https://game/'')"
  have "\<exists>A. getAllowedOrigins (\<lambda>_. True) ?env = Inr A"
    by (simp add: getAllowedOrigins_def parseAllowedOrigins_def js_trim_def is_space_def char_class_defs toy_site_def)
  then obtain A where "getAllowedOrigins (\<lambda>_. True) ?env = Inr A" by blast
  then show ?thesis
    by (rule slash_origin_never_matches [where site = "''https://game''"])
      (simp_all add: toy_site_def toy_asking_def is_space_def char_class_defs)
qed

end
