(* ===== verification/Profile.thy ===== *)
theory Profile
  imports Leaderboard Lobby ArenaList FormResults
begin

text \<open>
  The profile of a player in the frontend: the repositories of
  frontend/src/shared-d/features/profile/data/profileRepository.ts with the data of mockProfile.ts, the hook of
  hooks/useProfile.ts and what app/dashboard/profile/page.tsx derives from it. The answer to a request is an
  argument: \<open>Inl\<close> is a request that failed, a status other than success or a body that is not JSON. Numbers
  are exact.
\<close>

section \<open>Data\<close>

record agent_identity =
  ai_id :: string
  ai_rank :: rat
  ai_level :: int
  ai_survivalTime :: nat

record profile_stats =
  st_totalStake :: rat
  st_yieldEarned :: js_num
  st_arenasCreated :: int
  st_gamesPlayed :: "rat option"
  st_gamesWon :: "rat option"
  st_totalYieldEarned :: "string option"

datatype my_status = MyLive | MyCompleted | MyCancelled

record my_arena =
  my_id :: string
  my_name :: string
  my_status :: my_status
  my_entryFee :: rat
  my_totalPot :: rat
  my_playersCount :: nat
  my_maxPlayers :: nat
  my_createdAt :: int
  my_endsAt :: "int option"
  my_myPosition :: "nat option"

datatype history_action = ArenaCreated | ArenaJoined | ArenaWon | ArenaEliminated | YieldEarned

record history_entry =
  hi_id :: string
  hi_action :: history_action
  hi_description :: string
  hi_amount :: "rat option"
  hi_timestamp :: int
  hi_arenaId :: "string option"

datatype my_filter = AllArenas | LiveArenas

definition mockAgentIdentity :: agent_identity where
  "mockAgentIdentity = \<lparr>ai_id = ''INV-AGENT-8742'', ai_rank = 47, ai_level = 12, ai_survivalTime = 38420\<rparr>"

definition mockProfileStats :: profile_stats where
  "mockProfileStats =
     \<lparr>st_totalStake = 5695 / 2, st_yieldEarned = Num (124783 / 100), st_arenasCreated = 8, st_gamesPlayed = None,
      st_gamesWon = None, st_totalYieldEarned = None\<rparr>"

definition mockMyArenas :: "my_arena list" where
  "mockMyArenas =
     [\<lparr>my_id = ''arena-001'', my_name = ''High Stakes Survival'', my_status = MyLive, my_entryFee = 50, my_totalPot = 1250,
        my_playersCount = 18, my_maxPlayers = 25, my_createdAt = 1768919400000, my_endsAt = Some 1769104800000, my_myPosition = Some 3\<rparr>,
      \<lparr>my_id = ''arena-002'', my_name = ''Quick Round Arena'', my_status = MyLive, my_entryFee = 25, my_totalPot = 375,
        my_playersCount = 12, my_maxPlayers = 15, my_createdAt = 1768986900000, my_endsAt = Some 1769083200000, my_myPosition = Some 7\<rparr>,
      \<lparr>my_id = ''arena-003'', my_name = ''Elite Champions'', my_status = MyCompleted, my_entryFee = 100, my_totalPot = 2000,
        my_playersCount = 20, my_maxPlayers = 20, my_createdAt = 1768752000000, my_endsAt = Some 1768854600000, my_myPosition = Some 1\<rparr>,
      \<lparr>my_id = ''arena-004'', my_name = ''Beginner Friendly'', my_status = MyCompleted, my_entryFee = 10, my_totalPot = 150,
        my_playersCount = 15, my_maxPlayers = 15, my_createdAt = 1768647600000, my_endsAt = Some 1768664700000, my_myPosition = Some 8\<rparr>,
      \<lparr>my_id = ''arena-005'', my_name = ''Weekend Warrior'', my_status = MyCancelled, my_entryFee = 30, my_totalPot = 90,
        my_playersCount = 3, my_maxPlayers = 10, my_createdAt = 1768503600000, my_endsAt = None, my_myPosition = None\<rparr>]"

definition mockHistory :: "history_entry list" where
  "mockHistory =
     [\<lparr>hi_id = ''hist-001'', hi_action = ArenaWon, hi_description = ''Won Elite Champions arena'',
        hi_amount = Some (2000), hi_timestamp = 1768854600000, hi_arenaId = Some ''arena-003''\<rparr>,
      \<lparr>hi_id = ''hist-002'', hi_action = YieldEarned, hi_description = ''Yield generated from arena stake'',
        hi_amount = Some (63 / 4), hi_timestamp = 1768996800000, hi_arenaId = None\<rparr>,
      \<lparr>hi_id = ''hist-003'', hi_action = ArenaCreated, hi_description = ''Created Quick Round Arena'',
        hi_amount = None, hi_timestamp = 1768986900000, hi_arenaId = Some ''arena-002''\<rparr>,
      \<lparr>hi_id = ''hist-004'', hi_action = ArenaJoined, hi_description = ''Joined High Stakes Survival'',
        hi_amount = Some (-50), hi_timestamp = 1768919700000, hi_arenaId = Some ''arena-001''\<rparr>,
      \<lparr>hi_id = ''hist-005'', hi_action = YieldEarned, hi_description = ''Daily yield from RWA protocol'',
        hi_amount = Some (421 / 50), hi_timestamp = 1768896000000, hi_arenaId = None\<rparr>,
      \<lparr>hi_id = ''hist-006'', hi_action = ArenaEliminated, hi_description = ''Eliminated from Beginner Friendly (Round 3)'',
        hi_amount = None, hi_timestamp = 1768659600000, hi_arenaId = Some ''arena-004''\<rparr>,
      \<lparr>hi_id = ''hist-007'', hi_action = ArenaCreated, hi_description = ''Created Elite Champions arena'',
        hi_amount = None, hi_timestamp = 1768752000000, hi_arenaId = Some ''arena-003''\<rparr>,
      \<lparr>hi_id = ''hist-008'', hi_action = YieldEarned, hi_description = ''Weekly yield accumulation'',
        hi_amount = Some (1159 / 50), hi_timestamp = 1768694400000, hi_arenaId = None\<rparr>]"

definition getLiveArenas :: "my_arena list \<Rightarrow> my_arena list" where
  "getLiveArenas = filter (\<lambda>a. my_status a = MyLive)"

definition getRecentHistory :: "history_entry list \<Rightarrow> history_entry list" where
  "getRecentHistory history = take 10 (sort_key (\<lambda>e. - hi_timestamp e) history)"

section \<open>The repositories\<close>

text \<open>\<open>s.slice(-6)\<close>\<close>

definition last_six :: "string \<Rightarrow> string" where
  "last_six s = drop (length s - 6) s"

definition agent_name :: "string \<Rightarrow> string" where
  "agent_name address = ''INV-'' @ to_upper (last_six address)"

definition mock_getAgentIdentity :: "string option \<Rightarrow> agent_identity" where
  "mock_getAgentIdentity address =
     (if truthy address then mockAgentIdentity\<lparr>ai_id := agent_name (the address)\<rparr> else mockAgentIdentity)"

definition mock_getProfileStats :: "string option \<Rightarrow> profile_stats" where
  "mock_getProfileStats address =
     (if truthy address
      then (let variation = length (the address) mod 100
            in \<lparr>st_totalStake = st_totalStake mockProfileStats + of_nat variation,
                st_yieldEarned = Num (124783 / 100 + of_nat variation / 2),
                st_arenasCreated = st_arenasCreated mockProfileStats + int (variation div 10), st_gamesPlayed = None,
                st_gamesWon = None, st_totalYieldEarned = None\<rparr>)
      else mockProfileStats)"

definition getMyArenas :: "my_filter \<Rightarrow> my_arena list" where
  "getMyArenas flt = (if flt = LiveArenas then getLiveArenas mockMyArenas else mockMyArenas)"

definition profile_history :: "history_entry list" where
  "profile_history = getRecentHistory mockHistory"

text \<open>The fields of the response that are read; a missing one and \<open>null\<close> are \<open>None\<close>.\<close>

record user_data =
  ud_id :: "string option"
  ud_currentRank :: "rat option"
  ud_gamesPlayed :: "rat option"
  ud_gamesWon :: "rat option"
  ud_totalYieldEarned :: "string option"

type_synonym me_answer = "js_error + user_data"

definition or_zero :: "rat option \<Rightarrow> rat" where
  "or_zero v = (case v of None \<Rightarrow> 0 | Some x \<Rightarrow> x)"

definition api_getAgentIdentity :: "me_answer \<Rightarrow> string option \<Rightarrow> agent_identity" where
  "api_getAgentIdentity me address =
     (case me of
        Inr u \<Rightarrow>
          \<lparr>ai_id = (if truthy (ud_id u) then the (ud_id u) else if truthy address then agent_name (the address) else ''UNKNOWN''),
           ai_rank = or_zero (ud_currentRank u), ai_level = \<lfloor>or_zero (ud_gamesPlayed u) / 10\<rfloor> + 1, ai_survivalTime = 0\<rparr>
      | Inl e \<Rightarrow> mock_getAgentIdentity address)"

definition api_getProfileStats :: "me_answer \<Rightarrow> string option \<Rightarrow> profile_stats" where
  "api_getProfileStats me address =
     (case me of
        Inr u \<Rightarrow>
          (let total = (if truthy (ud_totalYieldEarned u) then the (ud_totalYieldEarned u) else [])
           in \<lparr>st_totalStake = 0,
               st_yieldEarned = parseFloat (let t = filter (\<lambda>c. c \<noteq> CHR '','') total in if t = [] then ''0'' else t),
               st_arenasCreated = 0, st_gamesPlayed = Some (or_zero (ud_gamesPlayed u)),
               st_gamesWon = Some (or_zero (ud_gamesWon u)),
               st_totalYieldEarned = Some (if total = [] then ''0.00'' else total)\<rparr>)
      | Inl e \<Rightarrow> mock_getProfileStats address)"

definition getAgentIdentity :: "bool \<Rightarrow> me_answer \<Rightarrow> string option \<Rightarrow> agent_identity" where
  "getAgentIdentity useMock me address =
     (if useMock then mock_getAgentIdentity address else api_getAgentIdentity me address)"

definition getProfileStats :: "bool \<Rightarrow> me_answer \<Rightarrow> string option \<Rightarrow> profile_stats" where
  "getProfileStats useMock me address =
     (if useMock then mock_getProfileStats address else api_getProfileStats me address)"

definition transformArenaStatus :: "string \<Rightarrow> my_status" where
  "transformArenaStatus status =
     (if to_lower status = ''live'' then MyLive else if to_lower status = ''cancelled'' then MyCancelled else MyCompleted)"

definition formatSurvivalTime :: "nat \<Rightarrow> string" where
  "formatSurvivalTime seconds =
     (let hours = seconds div 3600; minutes = (seconds mod 3600) div 60
      in if hours > 0 then dec_digits hours @ ''h '' @ dec_digits minutes @ ''m'' else dec_digits minutes @ ''m'')"

definition profile_error :: "js_error \<Rightarrow> string" where
  "profile_error e = (if e = NotAnError then ''Unknown error occurred'' else ''Failed to fetch profile data'')"

text \<open>The response of \<open>me\<close> in backend/src/controllers/users.controller.ts for a user that is found.\<close>

definition me_body :: "lb_tables \<Rightarrow> string \<Rightarrow> user_data" where
  "me_body T userId =
     (let p = aggregateStats T userId
      in \<lparr>ud_id = Some userId, ud_currentRank = map_option of_nat (pp_currentRank p),
          ud_gamesPlayed = Some (of_nat (pp_gamesPlayed p)), ud_gamesWon = Some (of_nat (pp_gamesWon p)),
          ud_totalYieldEarned = Some (toFixed 2 (pp_totalYieldEarned p))\<rparr>)"

section \<open>useProfile\<close>

text \<open>
  \<open>ph_fetches\<close>: the runs of \<open>fetchProfileData\<close> that wait, with the address and the filter of their closure;
  \<open>ph_lists\<close>: the reads of \<open>setMyArenasFilter\<close> that wait.
\<close>

record profile_hook =
  ph_address :: "string option"
  ph_filter :: my_filter
  ph_status :: fetch_status
  ph_error :: "string option"
  ph_identity :: "agent_identity option"
  ph_stats :: "profile_stats option"
  ph_arenas :: "my_arena list"
  ph_history :: "history_entry list"
  ph_fetches :: "(string option \<times> my_filter) list"
  ph_lists :: "my_filter list"

definition fetchProfileData :: "profile_hook \<Rightarrow> profile_hook" where
  "fetchProfileData h =
     h\<lparr>ph_status := FetchLoading, ph_error := None, ph_fetches := ph_fetches h @ [(ph_address h, ph_filter h)]\<rparr>"

definition mount_profile :: "string option \<Rightarrow> my_filter \<Rightarrow> profile_hook" where
  "mount_profile address flt =
     fetchProfileData
       \<lparr>ph_address = address, ph_filter = flt, ph_status = FetchIdle, ph_error = None, ph_identity = None, ph_stats = None,
        ph_arenas = [], ph_history = [], ph_fetches = [], ph_lists = []\<rparr>"

definition without :: "nat \<Rightarrow> 'a list \<Rightarrow> 'a list" where
  "without i xs = take i xs @ drop (i + 1) xs"

text \<open>The \<open>i\<close>th of the runs that wait ends with the two answers that it got.\<close>

definition profile_returns :: "bool \<Rightarrow> nat \<Rightarrow> me_answer \<Rightarrow> me_answer \<Rightarrow> profile_hook \<Rightarrow> profile_hook" where
  "profile_returns useMock i me1 me2 h =
     (if i < length (ph_fetches h)
      then (case ph_fetches h ! i of (address, flt) \<Rightarrow>
        h\<lparr>ph_identity := Some (getAgentIdentity useMock me1 address), ph_stats := Some (getProfileStats useMock me2 address),
          ph_arenas := getMyArenas flt, ph_history := profile_history, ph_status := FetchSuccess,
          ph_fetches := without i (ph_fetches h)\<rparr>)
      else h)"

text \<open>A new filter makes a new \<open>fetchProfileData\<close>, which the effect runs.\<close>

definition setMyArenasFilter :: "my_filter \<Rightarrow> profile_hook \<Rightarrow> profile_hook" where
  "setMyArenasFilter flt h =
     (let h' = h\<lparr>ph_filter := flt, ph_lists := ph_lists h @ [flt]\<rparr>
      in if flt = ph_filter h then h' else fetchProfileData h')"

definition list_returns :: "nat \<Rightarrow> profile_hook \<Rightarrow> profile_hook" where
  "list_returns i h =
     (if i < length (ph_lists h)
      then h\<lparr>ph_arenas := getMyArenas (ph_lists h ! i), ph_lists := without i (ph_lists h)\<rparr> else h)"

definition profile_address :: "string option \<Rightarrow> profile_hook \<Rightarrow> profile_hook" where
  "profile_address address h =
     (if address = ph_address h then h else fetchProfileData (h\<lparr>ph_address := address\<rparr>))"

inductive profile_step :: "bool \<Rightarrow> profile_hook \<Rightarrow> profile_hook \<Rightarrow> bool" for useMock where
  answered_profile: "profile_step useMock h (profile_returns useMock i me1 me2 h)"
| answered_list: "profile_step useMock h (list_returns i h)"
| filtered_profile: "profile_step useMock h (setMyArenasFilter flt h)"
| addressed_profile: "profile_step useMock h (profile_address address h)"
| refetched_profile: "profile_step useMock h (fetchProfileData h)"

inductive_cases profile_stepE: "profile_step useMock h h'"

section \<open>The page\<close>

definition profile_identity :: "profile_hook \<Rightarrow> agent_identity" where
  "profile_identity h =
     (case ph_identity h of Some i \<Rightarrow> i | None \<Rightarrow> \<lparr>ai_id = ''...'', ai_rank = 0, ai_level = 0, ai_survivalTime = 0\<rparr>)"

definition profile_shown_stats :: "profile_hook \<Rightarrow> profile_stats" where
  "profile_shown_stats h =
     (case ph_stats h of
        Some s \<Rightarrow> s
      | None \<Rightarrow> \<lparr>st_totalStake = 0, st_yieldEarned = Num 0, st_arenasCreated = 0, st_gamesPlayed = Some 0,
                 st_gamesWon = Some 0, st_totalYieldEarned = Some ''0.00''\<rparr>)"

definition truncate_address :: "string \<Rightarrow> string" where
  "truncate_address address =
     (if address = [] then [] else take 6 address @ ''...'' @ drop (length address - 4) address)"

definition agentId :: "string option \<Rightarrow> profile_hook \<Rightarrow> string" where
  "agentId address h =
     (if ai_id (profile_identity h) \<noteq> ''...'' then ai_id (profile_identity h)
      else if truthy address then truncate_address (the address) else ''---'')"

definition displayRank :: "(rat \<Rightarrow> string) \<Rightarrow> profile_hook \<Rightarrow> string" where
  "displayRank numText h =
     (if ai_rank (profile_identity h) \<noteq> 0 then ''RANK: #'' @ numText (ai_rank (profile_identity h)) else ''RANK: UNRANKED'')"

definition filteredArenas :: "my_filter \<Rightarrow> profile_hook \<Rightarrow> my_arena list" where
  "filteredArenas arenaFilter h = (if arenaFilter = AllArenas then ph_arenas h else getLiveArenas (ph_arenas h))"

definition profile_isLoading :: "profile_hook \<Rightarrow> bool" where
  "profile_isLoading h \<longleftrightarrow> ph_status h = FetchLoading \<or> ph_status h = FetchIdle"

section \<open>Properties\<close>

lemma fixed_two:
  "\<exists>ds fs. fixed_digits 2 n = ds @ CHR ''.'' # fs \<and> list_all is_digit ds \<and> list_all is_digit fs \<and> length fs = 2 \<and>
     ds \<noteq> [] \<and> dec_val (ds @ fs) = n"
proof -
  define t where "t = replicate (3 - length (dec_digits n)) (CHR ''0'') @ dec_digits n"
  have zero_digit: "is_digit (CHR ''0'')" by (simp add: char_class_defs)
  have all: "list_all is_digit t" using digits_are_digits zero_digit by (auto simp: t_def list_all_iff)
  have long: "3 \<le> length t" by (simp add: t_def)
  have "dec_val t = n" by (simp add: t_def dec_val_append dec_digits_val)
  moreover have "list_all is_digit (take (length t - 2) t)" "list_all is_digit (drop (length t - 2) t)"
    using all by (auto simp: list_all_iff dest: in_set_takeD in_set_dropD)
  moreover have "fixed_digits 2 n = take (length t - 2) t @ CHR ''.'' # drop (length t - 2) t"
    by (simp add: fixed_digits_def Let_def t_def)
  ultimately show ?thesis using long by (intro exI [of _ "take (length t - 2) t"] exI [of _ "drop (length t - 2) t"]) auto
qed

lemma parse_fixed:
  assumes "0 \<le> x"
  shows "parseFloat (filter (\<lambda>c. c \<noteq> CHR '','') (toFixed 2 x)) = Num (of_int \<lfloor>x * 100 + 1 / 2\<rfloor> / 100) \<and> toFixed 2 x \<noteq> [] \<and>
    filter (\<lambda>c. c \<noteq> CHR '','') (toFixed 2 x) \<noteq> []"
proof -
  define n where "n = nat \<lfloor>x * 100 + 1 / 2\<rfloor>"
  obtain ds fs where f: "fixed_digits 2 n = ds @ CHR ''.'' # fs" "list_all is_digit ds" "list_all is_digit fs" "length fs = 2"
      "ds \<noteq> []" "dec_val (ds @ fs) = n" using fixed_two by blast
  have shown: "toFixed 2 x = ds @ CHR ''.'' # fs" using assms f(1) by (simp add: toFixed_def n_def)
  have "\<not> is_digit (CHR '','')" by (simp add: char_class_defs)
  then have "filter (\<lambda>c. c \<noteq> CHR '','') (toFixed 2 x) = toFixed 2 x"
    using f(2,3) unfolding shown by (intro filter_True) (auto simp: list_all_iff)
  moreover have "decimal_text 2 (toFixed 2 x) ds fs" using f shown by (simp add: decimal_text_def)
  then have "parseFloat (toFixed 2 x) = Num (of_nat n / 100)" using parse_decimal f by simp
  moreover have "0 \<le> \<lfloor>x * 100 + 1 / 2\<rfloor>" using assms by simp
  then have "rat_of_nat n = of_int \<lfloor>x * 100 + 1 / 2\<rfloor>" unfolding n_def by (metis of_int_of_nat_eq int_nat_eq)
  ultimately show ?thesis using shown by simp
qed


text \<open>
  The profile never reports an error: whatever the requests answer, every run that ends shows success. When they
  fail, it shows the invented player of rank 47 and level 12 under the address of the visitor, with invented
  statistics.
\<close>

theorem failures_show_invented_player:
  fixes ea eb :: js_error
  assumes "(profile_step useMock)\<^sup>*\<^sup>* (mount_profile (Some address) flt) h" and "i < length (ph_fetches h)"
    and "fst (ph_fetches h ! i) = Some address" and "address \<noteq> []"
  defines "h' \<equiv> profile_returns useMock i (Inl ea) (Inl eb) h"
  shows "ph_status h' = FetchSuccess \<and> ph_error h' = None \<and> ai_id (profile_identity h') = agent_name address \<and>
    ai_rank (profile_identity h') = 47 \<and> ai_level (profile_identity h') = 12 \<and>
    st_arenasCreated (profile_shown_stats h') \<ge> 8"
proof -
  have "ph_error h = None"
    using assms(1)
    by (induction rule: rtranclp_induct)
      (auto simp: mount_profile_def fetchProfileData_def profile_returns_def list_returns_def setMyArenasFilter_def
        profile_address_def Let_def split: prod.splits elim!: profile_stepE)
  moreover obtain g where "ph_fetches h ! i = (Some address, g)" using assms(3) by (cases "ph_fetches h ! i") auto
  ultimately show ?thesis
    using assms(2,4)
    by (simp add: h'_def profile_returns_def getAgentIdentity_def getProfileStats_def api_getAgentIdentity_def
        api_getProfileStats_def mock_getAgentIdentity_def mock_getProfileStats_def mockAgentIdentity_def
        mockProfileStats_def profile_identity_def profile_shown_stats_def Let_def)
qed

text \<open>
  Two changes of the filter leave two runs waiting; when the older ends last, as its requests may, the list is that
  of the first filter while the second is chosen.
\<close>

theorem older_profile_run_wins:
  fixes a b c d :: me_answer and useMock :: bool
  assumes "ph_fetches h = []" and "ph_lists h = []" and "ph_filter h = AllArenas"
  defines "h' \<equiv> profile_returns useMock 0 a b (profile_returns useMock 1 c d
    (list_returns 0 (list_returns 0 (setMyArenasFilter AllArenas (setMyArenasFilter LiveArenas h)))))"
  shows "ph_filter h' = AllArenas \<and> ph_arenas h' = getLiveArenas mockMyArenas \<and> ph_arenas h' \<noteq> getMyArenas AllArenas \<and>
    ph_fetches h' = [] \<and> ph_lists h' = []"
proof -
  have "getLiveArenas mockMyArenas \<noteq> mockMyArenas" by (simp add: getLiveArenas_def mockMyArenas_def)
  then show ?thesis
    by (simp add: h'_def setMyArenasFilter_def fetchProfileData_def list_returns_def profile_returns_def assms(1-3)
        without_def getMyArenas_def Let_def)
qed

section \<open>Witnesses\<close>

definition toy_profile :: profile_hook where
  "toy_profile = mount_profile (Some ''GABCDEFGH'') AllArenas"

lemma toy_profile_fetches: "ph_fetches toy_profile = [(Some ''GABCDEFGH'', AllArenas)]"
  by (simp add: toy_profile_def mount_profile_def fetchProfileData_def)


theorem failures_show_invented_player_witness:
  "ai_id (profile_identity (profile_returns False 0 (Inl NotAnError) (Inl NotAnError) toy_profile)) = agent_name ''GABCDEFGH''"
  using failures_show_invented_player
    [where useMock = False and address = "''GABCDEFGH''" and flt = AllArenas and h = toy_profile and i = 0
       and ea = NotAnError and eb = NotAnError]
  by (simp add: toy_profile_fetches) (simp add: toy_profile_def)

definition toy_idle_profile :: profile_hook where
  "toy_idle_profile = profile_returns True 0 (Inl NotAnError) (Inl NotAnError) toy_profile"

theorem older_profile_run_wins_witness:
  "ph_arenas (profile_returns True 0 (Inl NotAnError) (Inl NotAnError) (profile_returns True 1 (Inl NotAnError) (Inl NotAnError)
     (list_returns 0 (list_returns 0 (setMyArenasFilter AllArenas (setMyArenasFilter LiveArenas toy_idle_profile)))))) =
   getLiveArenas mockMyArenas"
proof -
  have "ph_fetches toy_idle_profile = []" "ph_lists toy_idle_profile = []" "ph_filter toy_idle_profile = AllArenas"
    by (simp_all add: toy_idle_profile_def profile_returns_def toy_profile_def mount_profile_def fetchProfileData_def without_def)
  then show ?thesis using older_profile_run_wins by blast
qed

end
