(* ===== verification/Browser.thy ===== *)
theory Browser
  imports WalletResults ArenaStats
begin

text \<open>
  What the frontend keeps in the browser: the manager of frontend/src/shared-d/utils/localStorage.ts with the
  settings of shared-d/hooks/useArenaSettings.ts, the passkey of features/wallet/usePasskeyWallet.ts, and the
  parameters of the address of a page (shared-d/hooks/useQueryState.ts) with the filters of
  features/games/components/GamesFilters.tsx and app/dashboard/games/page.tsx. The local storage is that of theory
  CommitReveal.
\<close>

section \<open>The manager\<close>

text \<open>An item that is empty is \<open>BadText\<close> too, since both give the fallback.\<close>

definition ls_getItem :: "string \<Rightarrow> jval \<Rightarrow> local_storage \<Rightarrow> jval" where
  "ls_getItem k fallback st = (case st k of Some (JsonText v) \<Rightarrow> v | _ \<Rightarrow> fallback)"

text \<open>A write to a storage that is full throws and is only logged.\<close>

definition ls_setItem :: "bool \<Rightarrow> string \<Rightarrow> jval \<Rightarrow> local_storage \<Rightarrow> local_storage" where
  "ls_setItem full k v st = (if full then st else st(k \<mapsto> JsonText v))"

definition ls_removeItem :: "string \<Rightarrow> local_storage \<Rightarrow> local_storage" where
  "ls_removeItem k st = st(k := None)"

definition clearArenaStorage :: "local_storage \<Rightarrow> local_storage" where
  "clearArenaStorage st = (\<lambda>k. if starts_with ''arena_'' k then None else st k)"

definition ARENA_SETTINGS :: string where "ARENA_SETTINGS = ''arena_settings''"
definition ONBOARDING_COMPLETED :: string where "ONBOARDING_COMPLETED = ''onboarding_completed''"
definition HAS_STAKED :: string where "HAS_STAKED = ''has_staked''"

interpretation browser: keyed_store "ls_setItem False" "\<lambda>k st. case st k of Some (JsonText v) \<Rightarrow> Some v | _ \<Rightarrow> None"
    ls_removeItem "\<lambda>v. True"
  by unfold_locales (simp_all add: ls_setItem_def ls_removeItem_def)

section \<open>Settings\<close>

definition DEFAULT_SETTINGS :: jval where
  "DEFAULT_SETTINGS =
     JObj [(''masterVolume'', JNum 85), (''effectsVolume'', JNum 70), (''musicStream'', JBool True), (''voiceComm'', JBool False),
       (''energyPulse'', JBool True), (''colorMode'', JStr ''dark''), (''hudOpacity'', JNum 45), (''notificationsEnabled'', JBool True)]"

text \<open>\<open>{ ...prev, [key]: value }\<close> for an object; of another value than an array or a text no field is copied.\<close>

definition with_field :: "string \<Rightarrow> jval \<Rightarrow> jval \<Rightarrow> jval" where
  "with_field k v prev = JObj (AList.update k v (case prev of JObj fs \<Rightarrow> fs | _ \<Rightarrow> []))"

record settings_page =
  sp_settings :: jval
  sp_loaded :: bool
  sp_storage :: local_storage

text \<open>The first render, then the effect on mount.\<close>

definition mount_settings :: "local_storage \<Rightarrow> settings_page" where
  "mount_settings st = \<lparr>sp_settings = ls_getItem ARENA_SETTINGS DEFAULT_SETTINGS st, sp_loaded = True, sp_storage = st\<rparr>"

definition updateSetting :: "bool \<Rightarrow> string \<Rightarrow> jval \<Rightarrow> settings_page \<Rightarrow> settings_page" where
  "updateSetting full k v p =
     (let nxt = with_field k v (sp_settings p)
      in p\<lparr>sp_settings := nxt, sp_storage := ls_setItem full ARENA_SETTINGS nxt (sp_storage p)\<rparr>)"

definition resetDefaults :: "bool \<Rightarrow> settings_page \<Rightarrow> settings_page" where
  "resetDefaults full p =
     p\<lparr>sp_settings := DEFAULT_SETTINGS, sp_storage := ls_setItem full ARENA_SETTINGS DEFAULT_SETTINGS (sp_storage p)\<rparr>"

datatype setting_event = UpdateSetting string jval | ResetDefaults | ReloadPage

fun settings_handle :: "setting_event \<Rightarrow> settings_page \<Rightarrow> settings_page" where
  "settings_handle (UpdateSetting k v) p = updateSetting False k v p"
| "settings_handle ResetDefaults p = resetDefaults False p"
| "settings_handle ReloadPage p = mount_settings (sp_storage p)"

section \<open>The passkey\<close>

definition PASSKEY :: string where "PASSKEY = ''inversearena_passkey''"

record passkey_wallet =
  pk_address :: "string option"
  pk_keyId :: "string option"
  pk_isRegistered :: bool
  pk_error :: "string option"
  pk_storage :: local_storage

definition text_of :: "string \<Rightarrow> jval \<Rightarrow> string option" where
  "text_of k v = (case jfield k v of Some (JStr s) \<Rightarrow> Some s | _ \<Rightarrow> None)"

text \<open>What is stored is not checked; fields that are not texts are taken as missing here.\<close>

definition loadStored :: "local_storage \<Rightarrow> jval option" where
  "loadStored st = (case st PASSKEY of Some (JsonText JNull) \<Rightarrow> None | Some (JsonText v) \<Rightarrow> Some v | _ \<Rightarrow> None)"

definition mount_passkey :: "local_storage \<Rightarrow> passkey_wallet" where
  "mount_passkey st =
     (case loadStored st of
        None \<Rightarrow> \<lparr>pk_address = None, pk_keyId = None, pk_isRegistered = False, pk_error = None, pk_storage = st\<rparr>
      | Some v \<Rightarrow> \<lparr>pk_address = text_of ''address'' v, pk_keyId = text_of ''keyId'' v, pk_isRegistered = True, pk_error = None,
                   pk_storage = st\<rparr>)"

text \<open>\<open>create\<close> is what the browser makes of the request for a credential: its identifier, or nothing.\<close>

definition register_passkey :: "bool \<Rightarrow> bool \<Rightarrow> bytes option \<Rightarrow> passkey_wallet \<Rightarrow> js_error + passkey_wallet" where
  "register_passkey available full create w =
     (if \<not> available then Inl (Error ''WebAuthn / Passkeys are not supported in this browser.'')
      else (case create of
        None \<Rightarrow> Inl (Error ''Passkey registration was cancelled.'')
      | Some rawId \<Rightarrow>
          if full then Inl (Error ''QuotaExceededError'')
          else (let keyId = bytesToBase64 rawId; address = deriveAddress keyId
           in Inr \<lparr>pk_address = Some address, pk_keyId = Some keyId, pk_isRegistered = True, pk_error = None,
                pk_storage = (pk_storage w)(PASSKEY \<mapsto> JsonText (JObj [(''address'', JStr address), (''keyId'', JStr keyId)]))\<rparr>)))"

text \<open>\<open>assertion\<close>: the signature that the browser returns for the challenge, of whichever credential the user picks.\<close>

definition sign_passkey :: "bool \<Rightarrow> (string \<Rightarrow> bytes option) \<Rightarrow> string \<Rightarrow> passkey_wallet \<Rightarrow> js_error + string" where
  "sign_passkey available assertion txXdr w =
     (if \<not> truthy (pk_keyId w) then Inl (Error ''No passkey registered. Call register() first.'')
      else if \<not> available then Inl (Error ''WebAuthn is not available.'')
      else (case assertion txXdr of
        None \<Rightarrow> Inl (Error ''Passkey signing was cancelled.'')
      | Some signature \<Rightarrow> Inr (bytesToBase64 signature)))"

definition disconnect_passkey :: "passkey_wallet \<Rightarrow> passkey_wallet" where
  "disconnect_passkey w =
     \<lparr>pk_address = None, pk_keyId = None, pk_isRegistered = False, pk_error = None, pk_storage = (pk_storage w)(PASSKEY := None)\<rparr>"

inductive passkey_step :: "passkey_wallet \<Rightarrow> passkey_wallet \<Rightarrow> bool" where
  passkey_registers: "register_passkey available full create w = Inr w' \<Longrightarrow> passkey_step w w'"
| passkey_disconnects: "passkey_step w (disconnect_passkey w)"
| passkey_reloads: "passkey_step w (mount_passkey (pk_storage w))"
| passkey_cleared: "passkey_step w (w\<lparr>pk_storage := clearArenaStorage (pk_storage w)\<rparr>)"

inductive_cases passkey_stepE: "passkey_step w w'"

section \<open>The address of a page\<close>

type_synonym query = "(string \<times> string) list"

definition query_value :: "string \<Rightarrow> string \<Rightarrow> query \<Rightarrow> string" where
  "query_value k dflt ps = (case map_of ps k of None \<Rightarrow> dflt | Some v \<Rightarrow> v)"

text \<open>The parameters of \<open>setValue\<close>, from those of the render it was made in.\<close>

definition query_set :: "string \<Rightarrow> string \<Rightarrow> string option \<Rightarrow> query \<Rightarrow> query" where
  "query_set k dflt new ps =
     (case new of
        None \<Rightarrow> AList.delete k ps
      | Some v \<Rightarrow> if v = dflt then AList.delete k ps else AList.update k v ps)"

text \<open>
  \<open>gf_params\<close> are the parameters of the last render, \<open>gf_nav\<close> those that \<open>router.replace\<close> was called with
  and that the next render has, \<open>gf_timer\<close> the value that the debounce waits to pass on, and when.
\<close>

record games_filters =
  gf_input :: string
  gf_debounced :: string
  gf_timer :: "(nat \<times> string) option"
  gf_params :: query
  gf_nav :: "query option"
  gf_now :: nat

definition gf_search :: "games_filters \<Rightarrow> string" where
  "gf_search f = query_value ''q'' [] (gf_params f)"

definition gf_filter :: "games_filters \<Rightarrow> string" where
  "gf_filter f = query_value ''filter'' ''all'' (gf_params f)"

definition set_search :: "string option \<Rightarrow> games_filters \<Rightarrow> games_filters" where
  "set_search v f = f\<lparr>gf_nav := Some (query_set ''q'' [] v (gf_params f))\<rparr>"

text \<open>The effect that updates the address, run when one of its dependencies changed.\<close>

definition search_effect :: "games_filters \<Rightarrow> games_filters" where
  "search_effect f =
     (if gf_debounced f \<noteq> gf_search f then set_search (if gf_debounced f = [] then None else Some (gf_debounced f)) f else f)"

definition type_search :: "string \<Rightarrow> games_filters \<Rightarrow> games_filters" where
  "type_search s f =
     (if s = gf_input f then f else f\<lparr>gf_input := s, gf_timer := Some (gf_now f + 500, s)\<rparr>)"

text \<open>The debounce of the first render is replaced when the effect on mount sets the input.\<close>

definition mount_filters :: "query \<Rightarrow> games_filters" where
  "mount_filters ps =
     (let f = \<lparr>gf_input = [], gf_debounced = [], gf_timer = Some (500, []), gf_params = ps, gf_nav = None, gf_now = 0\<rparr>
      in type_search (gf_search f) (search_effect f))"

definition press_filter :: "string \<Rightarrow> games_filters \<Rightarrow> games_filters" where
  "press_filter v f =
     f\<lparr>gf_nav := Some (query_set ''filter'' ''all'' (if v = ''all'' then None else Some v) (gf_params f))\<rparr>"

definition navigated :: "games_filters \<Rightarrow> games_filters" where
  "navigated f = (case gf_nav f of
        None \<Rightarrow> f
      | Some ps \<Rightarrow>
          (let f' = f\<lparr>gf_params := ps, gf_nav := None\<rparr> in if ps = gf_params f then f' else search_effect f'))"

definition debounce_fires :: "games_filters \<Rightarrow> games_filters" where
  "debounce_fires f =
     (case gf_timer f of
        None \<Rightarrow> f
      | Some (t, s) \<Rightarrow>
          (let f' = f\<lparr>gf_timer := None, gf_debounced := s, gf_now := max t (gf_now f)\<rparr>
           in if s = gf_debounced f then f' else search_effect f'))"

section \<open>The list of the page\<close>

record listed_game =
  lg_id :: string
  lg_number :: string
  lg_badge :: "string option"
  lg_roundSpeed :: string
  lg_stake :: string

definition games_filtered :: "listed_game list \<Rightarrow> string \<Rightarrow> string \<Rightarrow> listed_game list" where
  "games_filtered arenas flt search =
     (let byFilter =
            (if flt = ''high-stakes''
             then filter (\<lambda>a. lg_badge a = Some ''WHALE'' \<or> num_less (Num 100) (parseFloat (lg_stake a))) arenas
             else if flt = ''fast-rounds''
             then filter (\<lambda>a. lg_badge a = Some ''BLITZ'' \<or> str_includes ''30s'' (lg_roundSpeed a)) arenas
             else arenas)
      in if search = [] then byFilter
         else filter (\<lambda>a. str_includes (to_lower search) (to_lower (lg_id a)) \<or>
                str_includes (to_lower search) (to_lower (lg_number a))) byFilter)"

section \<open>Properties\<close>

lemma settings_stored: "sp_settings p = ls_getItem ARENA_SETTINGS DEFAULT_SETTINGS (sp_storage p) \<Longrightarrow>
    sp_settings (settings_handle e p) = ls_getItem ARENA_SETTINGS DEFAULT_SETTINGS (sp_storage (settings_handle e p))"
  by (cases e) (simp_all add: updateSetting_def resetDefaults_def mount_settings_def ls_setItem_def ls_getItem_def Let_def)

lemma settings_stored_fold: "sp_settings p = ls_getItem ARENA_SETTINGS DEFAULT_SETTINGS (sp_storage p) \<Longrightarrow>
    sp_settings (fold settings_handle es p) = ls_getItem ARENA_SETTINGS DEFAULT_SETTINGS (sp_storage (fold settings_handle es p))"
  by (induction es arbitrary: p) (simp_all add: settings_stored)

lemma passkey_kept: "clearArenaStorage st PASSKEY = st PASSKEY"
  by (simp add: clearArenaStorage_def PASSKEY_def)

lemma address_of_key: "public_key_regex (deriveAddress k)"
  by (simp add: deriveAddress_def public_key_regex_def address_shape)

definition passkey_ok :: "passkey_wallet \<Rightarrow> bool" where
  "passkey_ok w \<longleftrightarrow> mount_passkey (pk_storage w) = w \<and>
     (if pk_isRegistered w then (\<exists>k. pk_keyId w = Some k \<and> pk_address w = Some (deriveAddress k))
      else pk_keyId w = None \<and> pk_address w = None)"

lemma mounted_storage [simp]: "pk_storage (mount_passkey st) = st"
  by (simp add: mount_passkey_def split: option.split)

lemma passkey_ok_step: "passkey_step w w' \<Longrightarrow> passkey_ok w \<Longrightarrow> passkey_ok w'"
proof (erule passkey_stepE)
  fix available full create
  assume "register_passkey available full create w = Inr w'"
  then show "passkey_ok w'"
    by (auto simp: register_passkey_def passkey_ok_def mount_passkey_def loadStored_def text_of_def Let_def
        split: if_splits option.splits)
next
  assume "w' = disconnect_passkey w"
  then show "passkey_ok w'" by (simp add: disconnect_passkey_def passkey_ok_def mount_passkey_def loadStored_def)
next
  assume "passkey_ok w" "w' = mount_passkey (pk_storage w)"
  then show "passkey_ok w'" by (simp add: passkey_ok_def)
next
  assume ok: "passkey_ok w" and w': "w' = w\<lparr>pk_storage := clearArenaStorage (pk_storage w)\<rparr>"
  then have "mount_passkey (clearArenaStorage (pk_storage w)) = (mount_passkey (pk_storage w))\<lparr>pk_storage := clearArenaStorage (pk_storage w)\<rparr>"
    by (simp add: mount_passkey_def loadStored_def passkey_kept split: option.split)
  with ok w' show "passkey_ok w'" by (simp add: passkey_ok_def)
qed

lemma query_set_same: "query_value k d (query_set k d v ps) = (case v of None \<Rightarrow> d | Some x \<Rightarrow> x)"
  by (simp add: query_value_def query_set_def delete_conv update_conv split: option.split)

lemma query_set_other: "j \<noteq> k \<Longrightarrow> query_value j e (query_set k d v ps) = query_value j e ps"
  by (simp add: query_value_def query_set_def delete_conv update_conv split: option.split)

text \<open>
  The settings survive a reload: after any changes, resets and reloads the page that is loaded again has the
  settings that were shown.
\<close>

theorem settings_survive_reload:
  "sp_settings (mount_settings (sp_storage (fold settings_handle es (mount_settings st)))) =
   sp_settings (fold settings_handle es (mount_settings st))"
proof -
  have "sp_settings (mount_settings st) = ls_getItem ARENA_SETTINGS DEFAULT_SETTINGS (sp_storage (mount_settings st))"
    by (simp add: mount_settings_def)
  from settings_stored_fold [OF this, of es] show ?thesis by (simp add: mount_settings_def)
qed

text \<open>
  Settings that an older version stored are taken as they are: a field that they lack stays without a value, although
  it has a default.
\<close>

theorem old_settings_lack_defaults:
  assumes "st ARENA_SETTINGS = Some (JsonText v)" and "jfield k v = None"
  shows "jfield k (sp_settings (mount_settings st)) = None"
  using assms by (simp add: mount_settings_def ls_getItem_def)

text \<open>
  Clearing the storage of the arenas removes the settings, whose key has the same prefix, and none of the
  commitments or the passkey.
\<close>

theorem clearing_spares_commitments:
  "sp_settings (mount_settings (clearArenaStorage st)) = DEFAULT_SETTINGS \<and>
   loadCommitment a n (clearArenaStorage st) = loadCommitment a n st \<and>
   loadStored (clearArenaStorage st) = loadStored st"
proof -
  have "clearArenaStorage st ARENA_SETTINGS = None" by (simp add: clearArenaStorage_def ARENA_SETTINGS_def)
  moreover have "clearArenaStorage st (storageKey a n) = st (storageKey a n)"
    by (simp add: clearArenaStorage_def storageKey_def)
  ultimately show ?thesis
    by (simp add: mount_settings_def ls_getItem_def loadCommitment_def loadStored_def passkey_kept)
qed

text \<open>
  A wallet that is registered by this code always has an identifier and the address that belongs to it, of the shape
  of a public key, through registrations, disconnections, reloads and clearing; and a reload changes nothing.
\<close>

theorem passkey_address_of_key:
  assumes "passkey_step\<^sup>*\<^sup>* (mount_passkey (\<lambda>_. None)) w"
  shows "mount_passkey (pk_storage w) = w \<and>
    (if pk_isRegistered w
     then (\<exists>k. pk_keyId w = Some k \<and> pk_address w = Some (deriveAddress k) \<and> public_key_regex (deriveAddress k))
     else pk_keyId w = None \<and> pk_address w = None)"
proof -
  have "passkey_ok w"
    using assms
  proof (induction rule: rtranclp_induct)
    case base
    show ?case by (simp add: passkey_ok_def) (simp add: mount_passkey_def loadStored_def)
  qed (rule passkey_ok_step)
  then show ?thesis by (auto simp: passkey_ok_def address_of_key)
qed

text \<open>
  A link with a search opens the list without it: the first effect compares the search of the address with a debounced
  value that is still empty and removes it, and only half a second later the same search is put back.
\<close>

theorem shared_search_opens_unfiltered:
  assumes "map_of ps ''q'' = Some s" and "s \<noteq> []"
  shows "gf_search (navigated (mount_filters ps)) = [] \<and>
    gf_search (navigated (debounce_fires (navigated (mount_filters ps)))) = s"
proof -
  let ?f = "mount_filters ps"
  have q: "query_value ''q'' [] ps = s" using assms(1) by (simp add: query_value_def)
  have f: "gf_nav ?f = Some (query_set ''q'' [] None ps)" "gf_params ?f = ps" "gf_debounced ?f = []"
    "gf_timer ?f = Some (500, s)"
    using assms(2) by (simp_all add: mount_filters_def search_effect_def set_search_def gf_search_def type_search_def q Let_def)
  have "query_value ''q'' [] (query_set ''q'' [] None ps) = []" by (simp add: query_set_same)
  with q assms(2) have changed: "query_set ''q'' [] None ps \<noteq> ps" by auto
  have opened: "navigated ?f = ?f\<lparr>gf_params := query_set ''q'' [] None ps, gf_nav := None\<rparr>"
    using changed by (simp add: navigated_def f search_effect_def gf_search_def query_set_same Let_def)
  let ?g = "navigated ?f"
  have g: "gf_search ?g = []" "gf_debounced ?g = []" "gf_timer ?g = Some (500, s)" "gf_params ?g = query_set ''q'' [] None ps"
    by (simp_all add: opened gf_search_def query_set_same f)
  define h where "h = debounce_fires ?g"
  have h: "gf_nav h = Some (query_set ''q'' [] (Some s) (gf_params ?g))" "gf_params h = gf_params ?g" "gf_debounced h = s"
    using assms(2) g(1) by (simp_all add: h_def debounce_fires_def g search_effect_def set_search_def gf_search_def Let_def)
  have "query_value ''q'' [] (query_set ''q'' [] (Some s) (gf_params ?g)) = s" by (simp add: query_set_same)
  with g(1) assms(2) have "query_set ''q'' [] (Some s) (gf_params ?g) \<noteq> gf_params ?g" by (auto simp: gf_search_def)
  then have "gf_search (navigated h) = s"
    by (simp add: navigated_def h search_effect_def gf_search_def query_set_same Let_def)
  then show ?thesis using g(1) by (simp add: h_def)
qed

text \<open>
  The address takes both a filter and a search in one order only: of a search that is passed on just before a filter
  is pressed the effect makes a second navigation, but a filter that is pressed just before the search is passed on is
  lost, because both start from the parameters of the same render.
\<close>

theorem filter_lost_to_search:
  assumes "gf_timer f = Some (t, s)" and "s \<noteq> gf_debounced f" and "s \<noteq> gf_search f" and "v \<noteq> gf_filter f"
  shows "gf_filter (navigated (debounce_fires (press_filter v f))) = gf_filter f \<and>
    gf_search (navigated (debounce_fires (press_filter v f))) = s \<and>
    gf_filter (navigated (navigated (press_filter v (debounce_fires f)))) = v \<and>
    gf_search (navigated (navigated (press_filter v (debounce_fires f)))) = s"
proof -
  let ?q = "if s = [] then None else Some s"
  let ?v = "if v = ''all'' then None else Some v"
  have val: "(case ?q of None \<Rightarrow> [] | Some x \<Rightarrow> x) = s" "(case ?v of None \<Rightarrow> ''all'' | Some x \<Rightarrow> x) = v" by simp_all
  have fired: "gf_debounced (debounce_fires g) = s" "gf_params (debounce_fires g) = gf_params g"
    "gf_nav (debounce_fires g) = Some (query_set ''q'' [] ?q (gf_params g))"
    if "gf_timer g = Some (t, s)" "gf_debounced g = gf_debounced f" "gf_params g = gf_params f" for g
    using that assms(2,3) by (simp_all add: debounce_fires_def search_effect_def set_search_def gf_search_def Let_def)
  have other: "''filter'' \<noteq> ''q''" "''q'' \<noteq> ''filter''" by simp_all
  have "query_set ''q'' [] ?q (gf_params f) \<noteq> gf_params f"
    using query_set_same [of "''q''" "[]" ?q "gf_params f"] assms(3) val(1) by (auto simp: gf_search_def)
  moreover have p: "gf_timer (press_filter v f) = Some (t, s)" "gf_debounced (press_filter v f) = gf_debounced f"
    "gf_params (press_filter v f) = gf_params f" using assms(1) by (simp_all add: press_filter_def)
  ultimately have lost: "navigated (debounce_fires (press_filter v f)) =
      (debounce_fires (press_filter v f))\<lparr>gf_params := query_set ''q'' [] ?q (gf_params f), gf_nav := None\<rparr>"
    by (simp add: navigated_def fired [OF p] p(3) search_effect_def gf_search_def query_set_same val Let_def)
  define ps where "ps = query_set ''filter'' ''all'' ?v (gf_params f)"
  have "gf_filter f \<noteq> query_value ''filter'' ''all'' ps" using assms(4) by (simp add: ps_def query_set_same val)
  then have ps: "ps \<noteq> gf_params f" by (auto simp: gf_filter_def)
  have keep: "query_value ''q'' [] ps = gf_search f" by (simp add: ps_def query_set_other gf_search_def)
  define g where "g = press_filter v (debounce_fires f)"
  have g: "gf_nav g = Some ps" "gf_params g = gf_params f" "gf_debounced g = s"
    using fired [OF assms(1) refl refl] by (simp_all add: g_def press_filter_def ps_def)
  have n: "navigated g = g\<lparr>gf_params := ps, gf_nav := Some (query_set ''q'' [] ?q ps)\<rparr>"
    using ps assms(3) by (simp add: navigated_def g search_effect_def set_search_def gf_search_def keep [unfolded gf_search_def] Let_def)
  have "query_set ''q'' [] ?q ps \<noteq> ps"
    using query_set_same [of "''q''" "[]" ?q ps] assms(3) val(1) keep by auto
  then have "navigated (navigated g) = g\<lparr>gf_params := query_set ''q'' [] ?q ps, gf_nav := None\<rparr>"
    by (simp add: n) (simp add: navigated_def search_effect_def gf_search_def query_set_same val g Let_def)
  then show ?thesis
    unfolding g_def [symmetric] lost
    by (simp add: gf_filter_def gf_search_def query_set_same query_set_other val ps_def)
qed

section \<open>Witnesses\<close>

theorem old_settings_lack_defaults_witness:
  "jfield ''hudOpacity'' (sp_settings (mount_settings ((\<lambda>_. None)(ARENA_SETTINGS \<mapsto> JsonText (JObj [(''masterVolume'', JNum 10)]))))) = None \<and>
   jfield ''hudOpacity'' DEFAULT_SETTINGS = Some (JNum 45)"
  using old_settings_lack_defaults
    [where st = "(\<lambda>_. None)(ARENA_SETTINGS \<mapsto> JsonText (JObj [(''masterVolume'', JNum 10)]))" and k = "''hudOpacity''"]
  by (simp add: DEFAULT_SETTINGS_def)

definition toy_passkey :: passkey_wallet where
  "toy_passkey =
     (case register_passkey True False (Some [1, 2, 3]) (mount_passkey (\<lambda>_. None)) of Inr w \<Rightarrow> w | Inl e \<Rightarrow> mount_passkey (\<lambda>_. None))"

lemma toy_passkey_registered: "register_passkey True False (Some [1, 2, 3]) (mount_passkey (\<lambda>_. None)) = Inr toy_passkey"
  "pk_isRegistered toy_passkey"
  by (simp_all add: toy_passkey_def register_passkey_def Let_def)

theorem passkey_address_of_key_witness: "\<exists>k. pk_keyId toy_passkey = Some k \<and> pk_address toy_passkey = Some (deriveAddress k)"
proof -
  have "passkey_step\<^sup>*\<^sup>* (mount_passkey (\<lambda>_. None)) toy_passkey"
    using passkey_registers [OF toy_passkey_registered(1)] by (rule r_into_rtranclp)
  from passkey_address_of_key [OF this] toy_passkey_registered(2) show ?thesis by auto
qed

theorem shared_search_opens_unfiltered_witness:
  "gf_search (navigated (mount_filters [(''q'', ''842'')])) = []"
  using shared_search_opens_unfiltered [of "[(''q'', ''842'')]" "''842''"] by simp

definition toy_filters :: games_filters where
  "toy_filters = \<lparr>gf_input = ''842'', gf_debounced = [], gf_timer = Some (500, ''842''), gf_params = [], gf_nav = None, gf_now = 0\<rparr>"

theorem filter_lost_to_search_witness:
  "gf_filter (navigated (debounce_fires (press_filter ''high-stakes'' toy_filters))) = ''all''"
  using filter_lost_to_search [of toy_filters 500 "''842''" "''high-stakes''"]
  by (simp add: toy_filters_def gf_search_def gf_filter_def query_value_def)

end
