(* ===== verification/Screens.thy ===== *)
theory Screens
  imports Prelude
begin

text \<open>
  Two screens of the frontend with state of their own: the button of
  frontend/src/components/arena/core/RoundResolvedOverlay.tsx that has to be held for a second, and the dashboard of the
  administrator, app/dashboard/admin/page.tsx, whose operations stand in for the routes of the backend.
\<close>

section \<open>The button that is held\<close>

text \<open>
  \<open>hb_pending\<close>: the timers that run, with the time at which their press began; \<open>hb_ref\<close> is \<open>holdTimer.current\<close>.
  Handles are positive numbers.
\<close>

record hold_button =
  hb_holding :: bool
  hb_ref :: "nat option"
  hb_pending :: "(nat \<times> nat) list"
  hb_fresh :: nat
  hb_now :: nat
  hb_proceeds :: nat

definition first_hold :: hold_button where
  "first_hold = \<lparr>hb_holding = False, hb_ref = None, hb_pending = [], hb_fresh = 1, hb_now = 0, hb_proceeds = 0\<rparr>"

definition hold_timer :: "nat \<Rightarrow> hold_button \<Rightarrow> hold_button" where
  "hold_timer start h =
     h\<lparr>hb_ref := Some (hb_fresh h), hb_pending := (hb_fresh h, start) # hb_pending h, hb_fresh := hb_fresh h + 1\<rparr>"

definition startHold :: "hold_button \<Rightarrow> hold_button" where
  "startHold h = hold_timer (hb_now h) (h\<lparr>hb_holding := True\<rparr>)"

definition clear_hold :: "hold_button \<Rightarrow> hold_button" where
  "clear_hold h =
     (case hb_ref h of None \<Rightarrow> h | Some i \<Rightarrow> h\<lparr>hb_pending := filter (\<lambda>(j, s). j \<noteq> i) (hb_pending h), hb_ref := None\<rparr>)"

definition cancelHold :: "hold_button \<Rightarrow> hold_button" where
  "cancelHold h = clear_hold (h\<lparr>hb_holding := False\<rparr>)"

text \<open>The timer \<open>i\<close> of a press that began at \<open>start\<close> runs.\<close>

definition hold_fires :: "nat \<Rightarrow> nat \<Rightarrow> hold_button \<Rightarrow> hold_button" where
  "hold_fires i start h =
     (let h' = h\<lparr>hb_pending := filter (\<lambda>(j, s). j \<noteq> i) (hb_pending h)\<rparr>
      in if hb_now h - start \<ge> 1000 then h'\<lparr>hb_holding := False, hb_proceeds := hb_proceeds h + 1\<rparr>
         else hold_timer start h')"

definition hold_passes :: "nat \<Rightarrow> hold_button \<Rightarrow> hold_button" where
  "hold_passes ms h = h\<lparr>hb_now := hb_now h + ms\<rparr>"

text \<open>
  A pointer presses and releases in turn; a finger makes the browser report the touch as well, so that each handler runs
  twice.
\<close>

inductive mouse_step :: "hold_button \<Rightarrow> hold_button \<Rightarrow> bool" where
  mouse_down: "\<not> hb_holding h \<Longrightarrow> mouse_step h (startHold h)"
| mouse_up: "mouse_step h (cancelHold h)"
| mouse_fires: "(i, s) \<in> set (hb_pending h) \<Longrightarrow> mouse_step h (hold_fires i s h)"
| mouse_waits: "mouse_step h (hold_passes ms h)"

inductive_cases mouse_stepE: "mouse_step h h'"

inductive hold_step :: "hold_button \<Rightarrow> hold_button \<Rightarrow> bool" where
  hold_ticks: "(i, s) \<in> set (hb_pending h) \<Longrightarrow> hold_step h (hold_fires i s h)"
| hold_waits: "hold_step h (hold_passes ms h)"

inductive_cases hold_stepE: "hold_step h h'"

definition finger_down :: "hold_button \<Rightarrow> hold_button" where "finger_down h = startHold (startHold h)"
definition finger_up :: "hold_button \<Rightarrow> hold_button" where "finger_up h = cancelHold (cancelHold h)"

section \<open>The dashboard\<close>

datatype admin_arena_state = AdOpen | AdActive | AdFinished | AdCancelled

record arena_entry =
  ae_id :: string
  ae_state :: admin_arena_state

datatype admin_action = ActResolve | ActClose | ActCancel

text \<open>\<open>fetchAdminArenas\<close> for any address.\<close>

definition fetchAdminArenas :: "arena_entry list" where
  "fetchAdminArenas =
     [\<lparr>ae_id = ''ARENA-001'', ae_state = AdActive\<rparr>, \<lparr>ae_id = ''ARENA-002'', ae_state = AdOpen\<rparr>,
      \<lparr>ae_id = ''ARENA-003'', ae_state = AdFinished\<rparr>]"

text \<open>
  \<open>dp_running\<close>: the confirmed actions that wait for their own call (\<open>False\<close>) or for the reload after it
  (\<open>True\<close>); \<open>dp_loads\<close> counts the other reloads.
\<close>

record admin_page =
  dp_arenas :: "arena_entry list"
  dp_loading :: bool
  dp_busy :: "string \<Rightarrow> bool"
  dp_confirm :: "(string \<times> admin_action) option"
  dp_error :: "(string \<times> admin_action) option"
  dp_running :: "((string \<times> admin_action) \<times> bool) list"
  dp_loads :: nat
  dp_publicKey :: "string option"

definition loadArenas_start :: "admin_page \<Rightarrow> admin_page" where
  "loadArenas_start p = (if truthy (dp_publicKey p) then p\<lparr>dp_loading := True\<rparr> else p)"

definition arenas_loaded :: "admin_page \<Rightarrow> admin_page" where
  "arenas_loaded p = (if truthy (dp_publicKey p) then p\<lparr>dp_arenas := fetchAdminArenas, dp_loading := False\<rparr> else p)"

definition mount_admin :: "string option \<Rightarrow> admin_page" where
  "mount_admin key =
     (let p = \<lparr>dp_arenas = [], dp_loading = True, dp_busy = (\<lambda>_. False), dp_confirm = None, dp_error = None, dp_running = [],
               dp_loads = 1, dp_publicKey = key\<rparr> in loadArenas_start p)"

text \<open>Which buttons an arena has.\<close>

definition action_offered :: "admin_arena_state \<Rightarrow> admin_action \<Rightarrow> bool" where
  "action_offered st a \<longleftrightarrow> (st = AdActive \<and> (a = ActClose \<or> a = ActResolve)) \<or> (st = AdOpen \<and> a = ActCancel)"

definition press_action :: "arena_entry \<Rightarrow> admin_action \<Rightarrow> admin_page \<Rightarrow> admin_page" where
  "press_action e a p =
     (if \<not> dp_loading p \<and> e \<in> set (dp_arenas p) \<and> action_offered (ae_state e) a \<and> \<not> dp_busy p (ae_id e) \<and> dp_confirm p = None
      then p\<lparr>dp_confirm := Some (ae_id e, a)\<rparr> else p)"

definition dismiss_action :: "admin_page \<Rightarrow> admin_page" where
  "dismiss_action p = p\<lparr>dp_confirm := None\<rparr>"

definition handleConfirmedAction :: "admin_page \<Rightarrow> admin_page" where
  "handleConfirmedAction p =
     (case dp_confirm p of
        None \<Rightarrow> p
      | Some (i, a) \<Rightarrow>
          p\<lparr>dp_confirm := None, dp_error := None, dp_busy := (dp_busy p)(i := True), dp_running := dp_running p @ [((i, a), False)]\<rparr>)"

definition drop_nth :: "nat \<Rightarrow> 'a list \<Rightarrow> 'a list" where
  "drop_nth n xs = take n xs @ drop (n + 1) xs"

text \<open>The \<open>n\<close>th of the running actions goes on: its call ends, well or not, or the reload after it does.\<close>

definition action_returns :: "nat \<Rightarrow> bool \<Rightarrow> admin_page \<Rightarrow> admin_page" where
  "action_returns n ok p =
     (if n < length (dp_running p)
      then (case dp_running p ! n of
              ((i, a), False) \<Rightarrow>
                if ok then loadArenas_start (p\<lparr>dp_running := (dp_running p)[n := ((i, a), True)]\<rparr>)
                else p\<lparr>dp_error := Some (i, a), dp_busy := (dp_busy p)(i := False), dp_running := drop_nth n (dp_running p)\<rparr>
            | ((i, a), True) \<Rightarrow>
                (arenas_loaded p)\<lparr>dp_busy := (dp_busy p)(i := False), dp_running := drop_nth n (dp_running p)\<rparr>)
      else p)"

definition reload_returns :: "admin_page \<Rightarrow> admin_page" where
  "reload_returns p = (if 0 < dp_loads p then (arenas_loaded p)\<lparr>dp_loads := dp_loads p - 1\<rparr> else p)"

definition pool_initialized :: "admin_page \<Rightarrow> admin_page" where
  "pool_initialized p = (loadArenas_start p)\<lparr>dp_loads := dp_loads p + 1\<rparr>"

definition dismiss_error :: "admin_page \<Rightarrow> admin_page" where
  "dismiss_error p = p\<lparr>dp_error := None\<rparr>"

inductive admin_step :: "admin_page \<Rightarrow> admin_page \<Rightarrow> bool" where
  admin_presses: "admin_step p (press_action e a p)"
| admin_dismisses: "admin_step p (dismiss_action p)"
| admin_confirms: "admin_step p (handleConfirmedAction p)"
| admin_returns: "admin_step p (action_returns n ok p)"
| admin_reloads: "admin_step p (reload_returns p)"
| admin_creates: "admin_step p (pool_initialized p)"
| admin_reads: "admin_step p (dismiss_error p)"

inductive_cases admin_stepE: "admin_step p p'"

section \<open>Properties\<close>

definition mouse_ok :: "hold_button \<Rightarrow> bool" where
  "mouse_ok h \<longleftrightarrow> hb_pending h = [] \<or> (hb_holding h \<and> (\<exists>i s. hb_pending h = [(i, s)] \<and> hb_ref h = Some i))"

lemmas hold_defs = startHold_def hold_timer_def clear_hold_def cancelHold_def hold_fires_def hold_passes_def finger_down_def
  finger_up_def

lemma mouse_ok_step: "mouse_step h h' \<Longrightarrow> mouse_ok h \<Longrightarrow> mouse_ok h'"
  by (erule mouse_stepE) (auto simp: mouse_ok_def hold_defs Let_def split: option.splits)

text \<open>While a finger holds: two timers, one of which the ref holds.\<close>

definition finger_ok :: "nat \<Rightarrow> nat \<Rightarrow> hold_button \<Rightarrow> bool" where
  "finger_ok s n h \<longleftrightarrow>
     s \<le> hb_now h \<and> hb_proceeds h = n \<and>
     (\<exists>i j. hb_pending h = [(i, s), (j, s)] \<and> i \<noteq> j \<and> i < hb_fresh h \<and> j < hb_fresh h \<and> hb_ref h \<in> {Some i, Some j})"

lemma finger_ok_step: "hold_step h h' \<Longrightarrow> hb_now h' < s + 1000 \<Longrightarrow> finger_ok s n h \<Longrightarrow> finger_ok s n h'"
  by (erule hold_stepE) (auto simp: finger_ok_def hold_defs Let_def)

lemma hold_time: "hold_step h h' \<Longrightarrow> hb_now h \<le> hb_now h'"
  by (erule hold_stepE) (auto simp: hold_defs Let_def)

lemma map_drop_nth: "map f (drop_nth n xs) = drop_nth n (map f xs)"
  by (simp add: drop_nth_def take_map drop_map)

lemma drop_nth_distinct:
  assumes "distinct ys" and "n < length ys"
  shows "distinct (drop_nth n ys) \<and> set (drop_nth n ys) = set ys - {ys ! n}"
proof -
  have "ys = take n ys @ ys ! n # drop (Suc n) ys" by (rule id_take_nth_drop [OF assms(2)])
  then have "distinct (take n ys @ ys ! n # drop (Suc n) ys)" "set ys = set (take n ys @ ys ! n # drop (Suc n) ys)"
    using assms(1) by simp_all
  then show ?thesis by (auto simp: drop_nth_def)
qed

definition running_ids :: "admin_page \<Rightarrow> string list" where
  "running_ids p = map (fst \<circ> fst) (dp_running p)"

definition admin_ok :: "admin_page \<Rightarrow> bool" where
  "admin_ok p \<longleftrightarrow>
     distinct (running_ids p) \<and> (\<forall>i. dp_busy p i \<longleftrightarrow> i \<in> set (running_ids p)) \<and>
     (\<forall>i a. dp_confirm p = Some (i, a) \<longrightarrow> \<not> dp_busy p i)"

lemma loads_frame [simp]: "running_ids (loadArenas_start p) = running_ids p" "dp_busy (loadArenas_start p) = dp_busy p"
  "dp_confirm (loadArenas_start p) = dp_confirm p" "running_ids (arenas_loaded p) = running_ids p"
  "dp_busy (arenas_loaded p) = dp_busy p" "dp_confirm (arenas_loaded p) = dp_confirm p" "dp_running (arenas_loaded p) = dp_running p"
  by (simp_all add: loadArenas_start_def arenas_loaded_def running_ids_def)

lemma returns_ok:
  assumes "admin_ok p"
  shows "admin_ok (action_returns n ok p)"
proof (cases "n < length (dp_running p)")
  case True
  obtain i a b where r: "dp_running p ! n = ((i, a), b)" by (metis surj_pair)
  have id: "running_ids p ! n = i" using True r by (simp add: running_ids_def)
  have rest: "distinct (drop_nth n (running_ids p))" "set (drop_nth n (running_ids p)) = set (running_ids p) - {i}"
    using drop_nth_distinct [of "running_ids p" n] assms True id by (simp_all add: admin_ok_def running_ids_def)
  have ended: "admin_ok q" if "running_ids q = drop_nth n (running_ids p)" "dp_busy q = (dp_busy p)(i := False)"
      "dp_confirm q = dp_confirm p" for q
    using that assms rest by (auto simp: admin_ok_def)
  show ?thesis
  proof (cases "b \<or> \<not> ok")
    case ends: True
    then show ?thesis
      by (intro ended) (auto simp: action_returns_def True r running_ids_def map_drop_nth arenas_loaded_def split: bool.splits)
  next
    case False
    have "map (fst \<circ> fst) ((dp_running p)[n := ((i, a), True)]) = running_ids p"
      using True id by (simp add: map_update running_ids_def list_update_same_conv)
    with False show ?thesis using assms
      by (auto simp: action_returns_def True r admin_ok_def running_ids_def [of "p\<lparr>dp_running := _\<rparr>"])
  qed
next
  case False
  then show ?thesis using assms by (simp add: action_returns_def)
qed

lemma admin_ok_step: "admin_step p p' \<Longrightarrow> admin_ok p \<Longrightarrow> admin_ok p'"
proof (erule admin_stepE)
  assume "admin_ok p" "p' = handleConfirmedAction p"
  then show "admin_ok p'"
    by (auto simp: handleConfirmedAction_def admin_ok_def running_ids_def split: option.splits)
next
  fix n ok
  assume "admin_ok p" "p' = action_returns n ok p"
  then show "admin_ok p'" by (simp add: returns_ok)
qed (auto simp: press_action_def dismiss_action_def reload_returns_def pool_initialized_def dismiss_error_def admin_ok_def
    running_ids_def arenas_loaded_def loadArenas_start_def)

text \<open>
  With a mouse the button does what it should: while it is released no timer runs, so that releasing it within a second
  of the press never proceeds, and there is never more than one timer.
\<close>

theorem early_release_stays:
  assumes "mouse_step\<^sup>*\<^sup>* first_hold h"
  shows "length (hb_pending h) \<le> 1 \<and> (\<not> hb_holding h \<longrightarrow> hb_pending h = []) \<and> hb_pending (cancelHold h) = []"
proof -
  have "mouse_ok h"
    using assms
  proof (induction rule: rtranclp_induct)
    case base
    show ?case by (simp add: mouse_ok_def first_hold_def)
  qed (rule mouse_ok_step)
  then show ?thesis by (auto simp: mouse_ok_def hold_defs split: option.split)
qed

text \<open>
  With a finger it does not: of the two timers that a touch starts and keeps alive releasing it clears one, and the
  other goes on, so that a tap of any length proceeds when a second has passed.
\<close>

theorem tap_proceeds:
  assumes "hb_pending h = []" and "hold_step\<^sup>*\<^sup>* (finger_down h) g" and "hb_now g < hb_now h + 1000"
  shows "hb_holding (finger_up g) = False \<and>
    (\<exists>i. hb_pending (finger_up g) = [(i, hb_now h)] \<and>
       hb_proceeds (hold_fires i (hb_now h) (hold_passes 1000 (finger_up g))) = hb_proceeds h + 1)"
proof -
  have "hb_now g < hb_now h + 1000 \<longrightarrow> finger_ok (hb_now h) (hb_proceeds h) g"
    using assms(2)
  proof (induction rule: rtranclp_induct)
    case base
    show ?case using assms(1) by (simp add: finger_ok_def hold_defs)
  next
    case (step x y)
    then show ?case using hold_time [OF step.hyps(2)] finger_ok_step [OF step.hyps(2)] by auto
  qed
  with assms(3) have "finger_ok (hb_now h) (hb_proceeds h) g" by simp
  then show ?thesis by (auto simp: finger_ok_def hold_defs Let_def)
qed

text \<open>
  On the dashboard two actions on one arena never run at the same time, an arena is busy exactly while one does, and the
  dialog never asks about an arena that is busy.
\<close>

theorem one_action_per_arena:
  assumes "admin_step\<^sup>*\<^sup>* (mount_admin key) p"
  shows "distinct (map (fst \<circ> fst) (dp_running p)) \<and> (\<forall>i. dp_busy p i \<longleftrightarrow> i \<in> set (map (fst \<circ> fst) (dp_running p))) \<and>
    (\<forall>i a. dp_confirm p = Some (i, a) \<longrightarrow> \<not> dp_busy p i)"
proof -
  have "admin_ok p"
    using assms
  proof (induction rule: rtranclp_induct)
    case base
    show ?case by (simp add: mount_admin_def admin_ok_def running_ids_def Let_def) (simp add: loadArenas_start_def)
  qed (rule admin_ok_step)
  then show ?thesis unfolding admin_ok_def running_ids_def by blast
qed

text \<open>
  No action changes anything: whatever is confirmed and however it ends, the dashboard shows the same three arenas in
  the same states, or none yet.
\<close>

theorem actions_change_nothing:
  assumes "admin_step\<^sup>*\<^sup>* (mount_admin key) p"
  shows "dp_arenas p = [] \<or> dp_arenas p = fetchAdminArenas"
  using assms
proof (induction rule: rtranclp_induct)
  case base
  show ?case by (simp add: mount_admin_def loadArenas_start_def Let_def)
next
  case (step p p')
  from step.hyps(2) show ?case
    by (rule admin_stepE)
      (use step.IH in \<open>auto simp: press_action_def dismiss_action_def handleConfirmedAction_def action_returns_def reload_returns_def
        pool_initialized_def dismiss_error_def arenas_loaded_def loadArenas_start_def split: option.splits prod.splits bool.splits\<close>)
qed

section \<open>Witnesses\<close>

theorem early_release_stays_witness: "hb_pending (cancelHold (startHold first_hold)) = []"
proof -
  have "\<not> hb_holding first_hold" by (simp add: first_hold_def)
  then have "mouse_step first_hold (startHold first_hold)" by (rule mouse_down)
  then have "mouse_step\<^sup>*\<^sup>* first_hold (startHold first_hold)" by (rule r_into_rtranclp)
  from early_release_stays [OF this] show ?thesis by blast
qed

theorem tap_proceeds_witness:
  "\<exists>i. hb_proceeds (hold_fires i 0 (hold_passes 1000 (finger_up (hold_passes 80 (finger_down first_hold))))) = 1"
proof -
  have "hold_step\<^sup>*\<^sup>* (finger_down first_hold) (hold_passes 80 (finger_down first_hold))"
    using hold_waits by (rule r_into_rtranclp)
  from tap_proceeds [OF _ this] show ?thesis by (auto simp: first_hold_def hold_defs)
qed

definition toy_dashboard :: admin_page where
  "toy_dashboard =
     handleConfirmedAction (press_action \<lparr>ae_id = ''ARENA-002'', ae_state = AdOpen\<rparr> ActCancel (reload_returns (mount_admin (Some ''G''))))"

lemma toy_dashboard_run: "admin_step\<^sup>*\<^sup>* (mount_admin (Some ''G'')) toy_dashboard"
  unfolding toy_dashboard_def
  by (rule rtranclp.rtrancl_into_rtrancl [OF rtranclp.rtrancl_into_rtrancl [OF r_into_rtranclp [where r = admin_step, OF admin_reloads]
        admin_presses] admin_confirms])

lemma toy_dashboard_value: "dp_running toy_dashboard = [((''ARENA-002'', ActCancel), False)]" "dp_arenas toy_dashboard = fetchAdminArenas"
  by (simp_all add: toy_dashboard_def mount_admin_def loadArenas_start_def reload_returns_def arenas_loaded_def press_action_def
      fetchAdminArenas_def action_offered_def handleConfirmedAction_def Let_def)

theorem one_action_per_arena_witness: "dp_busy toy_dashboard ''ARENA-002'' \<and> \<not> dp_busy toy_dashboard ''ARENA-001''"
  using one_action_per_arena [OF toy_dashboard_run] by (simp add: toy_dashboard_value)

theorem actions_change_nothing_witness: "dp_arenas toy_dashboard = fetchAdminArenas \<and> dp_arenas toy_dashboard \<noteq> []"
  using actions_change_nothing [OF toy_dashboard_run] by (simp add: toy_dashboard_value fetchAdminArenas_def)

end
