(* ===== verification/Routing.thy ===== *)
theory Routing
  imports Auth RateLimit HttpCache
begin

text \<open>
  The application that backend/src/app.ts builds with backend/src/routes: the layers of the routers, the
  guards before every handler, the parameters that validation/requestValidation.ts accepts, and the
  labels under which middleware/metrics.ts counts a request. The handlers themselves are modelled in
  their own theories; here they are the names of \<open>endpoint\<close>.

  What is taken from Express, as it documents it: layers are tried in their order; a path is compared
  without regard to case and with an optional slash at its end; a parameter is one segment of the path;
  a GET route also answers HEAD; an error skips to the error handler; what no layer answers is a 404.
  Paths with an empty segment inside and the answers of Express to OPTIONS are left out.
\<close>

section \<open>Parameters and bodies\<close>

definition lower_ascii :: "char \<Rightarrow> char" where
  "lower_ascii c = (if is_upper c then char_of (code_of c + 32) else c)"

definition lower_text :: "string \<Rightarrow> string" where
  "lower_text = map lower_ascii"

definition MONGO_OBJECT_ID_REGEX :: "string \<Rightarrow> bool" where
  "MONGO_OBJECT_ID_REGEX s \<longleftrightarrow> length s = 24 \<and> list_all is_hex s"

definition LEGACY_TRANSACTION_ID_REGEX :: "string \<Rightarrow> bool" where
  "LEGACY_TRANSACTION_ID_REGEX s \<longleftrightarrow>
     lower_text (take 3 s) = ''tx_'' \<and>
     10 \<le> length (takeWhile is_digit (drop 3 s)) \<and>
     (case dropWhile is_digit (drop 3 s) of
        [] \<Rightarrow> False
      | c # h \<Rightarrow> c = CHR ''_'' \<and> length h = 8 \<and> list_all is_hex h)"

text \<open>\<open>uuid\<close> is the check of zod.\<close>

definition TransactionIdSchema :: "(string \<Rightarrow> bool) \<Rightarrow> string \<Rightarrow> js_error + string" where
  "TransactionIdSchema uuid s =
     (let v = js_trim s in
      if v = [] then Inl (ZodFailure ''id is required'')
      else if 128 < length v then Inl (ZodFailure ''id is too long'')
      else if uuid v \<or> MONGO_OBJECT_ID_REGEX v \<or> LEGACY_TRANSACTION_ID_REGEX v then Inr v
      else Inl (ZodFailure ''id must be a UUID, Mongo ObjectId, or legacy tx id''))"

definition SignPayoutBodySchema :: "jval \<Rightarrow> js_error + jval" where
  "SignPayoutBodySchema body =
     (case jfield ''signedXdr'' body of
        Some (JStr t) \<Rightarrow>
          if length (js_trim t) < 20 then Inl (ZodFailure ''signedXdr is too short'')
          else if 200000 < length (js_trim t) then Inl (ZodFailure ''signedXdr is too large'')
          else Inr (JObj [(''signedXdr'', JStr (js_trim t))])
      | _ \<Rightarrow> Inl (ZodFailure ''signedXdr''))"

text \<open>
  \<open>generateRecordId\<close> of services/paymentService.ts: \<open>randomId\<close> is what \<open>crypto.randomUUID\<close>
  returns where it exists, and \<open>fraction\<close> the hexadecimal digits of \<open>Math.random()\<close> after
  \<open>0.\<close>, at least one.
\<close>

definition generateRecordId :: "string option \<Rightarrow> nat \<Rightarrow> string \<Rightarrow> string" where
  "generateRecordId randomId now fraction =
     (case randomId of
        Some u \<Rightarrow> u
      | None \<Rightarrow> ''tx_'' @ dec_digits now @ ''_'' @ take 8 fraction)"

section \<open>Layers\<close>

datatype http_method = M_GET | M_HEAD | M_POST | M_DELETE | M_OPTIONS | M_OTHER string

datatype path_part = Lit string | IdParam

datatype limited = NonceLimit | VerifyLimit | RefreshLimit | PoolsLimit

datatype cached = LeaderboardPages | StatsOfArena | RoundsOfArena | EliminationsOfPool | OracleYield

datatype guard = UserAuth | AdminAuth | Limited limited | CachedAs cached | ValidId | ValidSignBody
  | WebhookSignature | Audited

datatype endpoint =
    E_Health | E_Ready | E_Metrics | E_DocsJson | E_Docs
  | E_RequestNonce | E_Verify | E_Refresh | E_Me | E_Logout | E_RevokeAllSessions
  | E_UserMe | E_CreatePayout | E_GetPayout | E_SignPayout | E_SubmitPayout | E_RunBatch | E_GetTransaction
  | E_GetYield | E_PostYield
  | E_CreateArena | E_ArenaStats | E_ArenaRounds | E_Participants | E_Stream | E_SyncPlayers
  | E_CreatePool | E_Eliminations | E_Leaderboard
  | E_AdminToken | E_ForceResolve | E_Resubmit | E_Reindex | E_Reconcile | E_CloseRound | E_ResolveRound | E_AuditLogs

text \<open>
  \<open>Route\<close> is \<open>router.get\<close>, \<open>post\<close> or \<open>delete\<close> with the guards before the
  handler; \<open>Serve\<close> is \<open>router.use\<close> of a path and a handler; \<open>Mount\<close> is
  \<open>use\<close> of a path with a router, after the guards given with it or used first inside it.
\<close>

datatype layer =
    Route http_method "path_part list" "guard list" endpoint
  | Serve "string list" endpoint
  | Mount "string list" "guard list" "layer list"

definition docs_router :: "layer list" where
  "docs_router = [Route M_GET [Lit ''docs.json''] [] E_DocsJson, Serve [''docs''] E_Docs]"

definition auth_router :: "layer list" where
  "auth_router =
     [Route M_POST [Lit ''nonce''] [Limited NonceLimit] E_RequestNonce,
      Route M_POST [Lit ''verify''] [Limited VerifyLimit] E_Verify,
      Route M_POST [Lit ''refresh''] [Limited RefreshLimit] E_Refresh,
      Route M_GET [Lit ''me''] [UserAuth] E_Me,
      Route M_POST [Lit ''logout''] [UserAuth] E_Logout,
      Route M_DELETE [Lit ''sessions''] [UserAuth] E_RevokeAllSessions]"

definition users_router :: "layer list" where
  "users_router = [Route M_GET [Lit ''me''] [UserAuth] E_UserMe]"

definition payouts_router :: "layer list" where
  "payouts_router =
     [Route M_POST [] [UserAuth] E_CreatePayout,
      Route M_GET [IdParam] [UserAuth, ValidId] E_GetPayout,
      Route M_POST [IdParam, Lit ''sign''] [UserAuth, ValidId, ValidSignBody] E_SignPayout,
      Route M_POST [IdParam, Lit ''submit''] [UserAuth, ValidId] E_SubmitPayout]"

definition worker_router :: "layer list" where
  "worker_router = [Route M_POST [Lit ''run''] [AdminAuth] E_RunBatch]"

definition transactions_router :: "layer list" where
  "transactions_router = [Route M_GET [IdParam] [ValidId] E_GetTransaction]"

definition oracle_router :: "layer list" where
  "oracle_router =
     [Route M_GET [Lit ''yield''] [CachedAs OracleYield] E_GetYield,
      Route M_POST [Lit ''yield''] [WebhookSignature] E_PostYield]"

definition arenas_router :: "layer list" where
  "arenas_router =
     [Route M_POST [] [UserAuth] E_CreateArena,
      Route M_GET [IdParam, Lit ''stats''] [CachedAs StatsOfArena] E_ArenaStats,
      Route M_GET [IdParam, Lit ''rounds''] [UserAuth, CachedAs RoundsOfArena] E_ArenaRounds,
      Route M_GET [IdParam, Lit ''participants''] [] E_Participants,
      Route M_GET [IdParam, Lit ''stream''] [] E_Stream,
      Route M_POST [IdParam, Lit ''sync-players''] [UserAuth] E_SyncPlayers]"

definition pools_router :: "layer list" where
  "pools_router =
     [Route M_POST [] [UserAuth, Limited PoolsLimit] E_CreatePool,
      Route M_GET [IdParam, Lit ''eliminations''] [UserAuth, CachedAs EliminationsOfPool] E_Eliminations]"

definition leaderboard_router :: "layer list" where
  "leaderboard_router = [Route M_GET [] [UserAuth, CachedAs LeaderboardPages] E_Leaderboard]"

definition admin_router :: "layer list" where
  "admin_router =
     [Route M_POST [Lit ''tokens'', Lit ''request''] [AdminAuth] E_AdminToken,
      Route M_POST [Lit ''transactions'', IdParam, Lit ''force-resolve''] [AdminAuth] E_ForceResolve,
      Route M_POST [Lit ''transactions'', IdParam, Lit ''resubmit''] [AdminAuth] E_Resubmit,
      Route M_POST [Lit ''pools'', IdParam, Lit ''reindex''] [AdminAuth] E_Reindex,
      Route M_POST [Lit ''reconciliation'', Lit ''run''] [AdminAuth] E_Reconcile,
      Route M_POST [Lit ''rounds'', IdParam, Lit ''close''] [AdminAuth] E_CloseRound,
      Route M_POST [Lit ''rounds'', Lit ''resolve''] [AdminAuth] E_ResolveRound,
      Route M_GET [Lit ''audit-logs''] [AdminAuth] E_AuditLogs]"

definition api_router :: "layer list" where
  "api_router =
     [Mount [] [] docs_router,
      Mount [''auth''] [] auth_router,
      Mount [''users''] [] users_router,
      Mount [''payouts''] [] payouts_router,
      Mount [''worker''] [] worker_router,
      Mount [''transactions''] [UserAuth] transactions_router,
      Mount [''oracle''] [] oracle_router,
      Mount [''arenas''] [] arenas_router,
      Mount [''pools''] [] pools_router,
      Mount [''leaderboard''] [] leaderboard_router]"

definition app_layers :: "layer list" where
  "app_layers =
     [Route M_GET [Lit ''health''] [] E_Health,
      Route M_GET [Lit ''ready''] [] E_Ready,
      Route M_GET [Lit ''metrics''] [] E_Metrics,
      Mount [''api''] [] api_router,
      Mount [''api'', ''admin''] [Audited] admin_router]"

lemmas router_defs = docs_router_def auth_router_def users_router_def payouts_router_def worker_router_def
  transactions_router_def oracle_router_def arenas_router_def pools_router_def leaderboard_router_def
  admin_router_def api_router_def app_layers_def

section \<open>Matching\<close>

text \<open>A segment of a path against a name in a pattern: those of the program are in lower case.\<close>

definition same_part :: "string \<Rightarrow> string \<Rightarrow> bool" where
  "same_part a x \<longleftrightarrow> lower_text x = a"

fun matches :: "path_part list \<Rightarrow> string list \<Rightarrow> bool" where
  "matches [] [] = True"
| "matches (Lit a # p) (x # xs) = (same_part a x \<and> matches p xs)"
| "matches (IdParam # p) (x # xs) = (x \<noteq> [] \<and> matches p xs)"
| "matches _ _ = False"

fun id_of :: "path_part list \<Rightarrow> string list \<Rightarrow> string" where
  "id_of (Lit a # p) (x # xs) = id_of p xs"
| "id_of (IdParam # p) (x # xs) = x"
| "id_of _ _ = []"

text \<open>What is left of a path below the path of a mount.\<close>

fun below :: "string list \<Rightarrow> string list \<Rightarrow> string list option" where
  "below [] xs = Some xs"
| "below (a # p) (x # xs) = (if same_part a x then below p xs else None)"
| "below (a # p) [] = None"

definition method_matches :: "http_method \<Rightarrow> http_method \<Rightarrow> bool" where
  "method_matches m q \<longleftrightarrow> q = m \<or> (m = M_GET \<and> q = M_HEAD)"

fun part_text :: "path_part \<Rightarrow> string" where
  "part_text (Lit a) = ''/'' @ a"
| "part_text IdParam = ''/:id''"

text \<open>\<open>req.route.path\<close>, and the path that a request has below a mount.\<close>

definition pattern_text :: "path_part list \<Rightarrow> string" where
  "pattern_text p = (if p = [] then ''/'' else concat (map part_text p))"

definition parts_path :: "string list \<Rightarrow> string" where
  "parts_path xs = (if xs = [] then ''/'' else concat (map (\<lambda>x. ''/'' @ x) xs))"

text \<open>The segments of a path that starts with a slash; a slash at its end is dropped.\<close>

definition path_parts :: "string \<Rightarrow> string list" where
  "path_parts path =
     (let xs = drop 1 (js_split (CHR ''/'') path) in if xs \<noteq> [] \<and> List.last xs = [] then butlast xs else xs)"

section \<open>Guards\<close>

record http_request =
  hq_method :: http_method
  hq_path :: string
  hq_authorization :: "string option"
  hq_signature :: "string option"
  hq_requestId :: "string option"
  hq_forwardedFor :: "string option"
  hq_ip :: "string option"
  hq_limit :: "string option"
  hq_cursor :: "string option"
  hq_bodySize :: nat
  hq_parsed :: "js_error + jval"

text \<open>What the guards add to the request.\<close>

record req_context =
  cx_id :: string
  cx_body :: jval
  cx_user :: "auth_user option"
  cx_adminId :: "string option"
  cx_audited :: bool

text \<open>
  What the application was created with. \<open>sv_consume\<close> is the limiter of a configuration,
  \<open>sv_handler\<close> the handler of an endpoint, \<open>sv_newId\<close> a fresh UUID.
\<close>

record ('n, 'u, 't, 'r, 'l, 's) server =
  sv_stores :: "('n, 'u, 't, 'r) auth_stores"
  sv_lib :: auth_lib
  sv_config :: auth_config
  sv_env :: auth_env
  sv_auth :: "('n, 'u, 't, 'r) auth_state"
  sv_apiKey :: string
  sv_allowedOrigins :: "string option"
  sv_webhookSecret :: "string option"
  sv_number :: "string \<Rightarrow> rat option"
  sv_vars :: "string \<Rightarrow> string option"
  sv_consume :: "rate_limit_config \<Rightarrow> string \<Rightarrow> 'l \<Rightarrow> consumed \<times> 'l"
  sv_cache :: "'s cache_env"
  sv_cached :: 's
  sv_hmac :: "string \<Rightarrow> string \<Rightarrow> string"
  sv_uuid :: "string \<Rightarrow> bool"
  sv_newId :: string
  sv_issues :: "string \<Rightarrow> jval list"
  sv_handler :: "endpoint \<Rightarrow> req_context \<Rightarrow> js_error + nat \<times> jval"

datatype guard_result = Go req_context | Answer http_reply | Raise js_error

fun limit_config :: "('n, 'u, 't, 'r, 'l, 's) server \<Rightarrow> limited \<Rightarrow> rate_limit_config" where
  "limit_config V NonceLimit = getNonceRateLimitConfig (sv_number V) (sv_vars V)"
| "limit_config V VerifyLimit = getVerifyRateLimitConfig (sv_number V) (sv_vars V)"
| "limit_config V RefreshLimit = getRefreshRateLimitConfig (sv_number V) (sv_vars V)"
| "limit_config V PoolsLimit = getPoolsRateLimitConfig (sv_number V) (sv_vars V)"

definition body_wallet :: "jval \<Rightarrow> string option" where
  "body_wallet body = (case jfield ''walletAddress'' body of Some (JStr w) \<Rightarrow> Some w | _ \<Rightarrow> None)"

fun cached_key :: "http_request \<Rightarrow> string \<Rightarrow> cached \<Rightarrow> string" where
  "cached_key q i LeaderboardPages = leaderboard_page_key (hq_limit q) (hq_cursor q)"
| "cached_key q i StatsOfArena = arenaStats_key i"
| "cached_key q i RoundsOfArena = arena_rounds_key i (hq_limit q) (hq_cursor q)"
| "cached_key q i EliminationsOfPool = pool_eliminations_key i (hq_limit q) (hq_cursor q)"
| "cached_key q i OracleYield = oracleYield_key"

fun run_guard ::
    "('n, 'u, 't, 'r, 'l, 's) server \<Rightarrow> http_request \<Rightarrow> guard \<Rightarrow> req_context \<Rightarrow> 'l \<Rightarrow> guard_result \<times> 'l" where
  "run_guard V q UserAuth c l =
     (case requireAuth (sv_stores V) (sv_lib V) (sv_config V) (sv_env V) (hq_authorization q) (sv_auth V) of
        Inl e \<Rightarrow> (Raise e, l)
      | Inr u \<Rightarrow> (Go (c\<lparr>cx_user := Some u\<rparr>), l))"
| "run_guard V q AdminAuth c l =
     (case requireAdmin (sv_apiKey V) (hq_authorization q) of
        Inl e \<Rightarrow> (Raise e, l)
      | Inr i \<Rightarrow> (Go (c\<lparr>cx_adminId := Some i\<rparr>), l))"
| "run_guard V q (Limited k) c l =
     (case rateLimit (sv_consume V (limit_config V k)) (limit_config V k)
             \<lparr>rq_forwardedFor = hq_forwardedFor q, rq_ip = hq_ip q, rq_walletAddress = body_wallet (cx_body c)\<rparr> l of
        (Passed, l') \<Rightarrow> (Go c, l')
      | (TooMany n, l') \<Rightarrow>
          (Raise (HttpErr 429 ''RATE_LIMITED'' ''Too many requests. Please retry later.''), l'))"
| "run_guard V q (CachedAs k) c l =
     (case cache_lookup (sv_cache V) (ae_now (sv_env V)) (cached_key q (cx_id c) k) (sv_cached V) of
        Some v \<Rightarrow> (Answer (hit_reply v), l)
      | None \<Rightarrow> (Go c, l))"
| "run_guard V q ValidId c l =
     (case TransactionIdSchema (sv_uuid V) (cx_id c) of
        Inl e \<Rightarrow> (Raise e, l)
      | Inr i \<Rightarrow> (Go (c\<lparr>cx_id := i\<rparr>), l))"
| "run_guard V q ValidSignBody c l =
     (case SignPayoutBodySchema (cx_body c) of
        Inl e \<Rightarrow> (Raise e, l)
      | Inr b \<Rightarrow> (Go (c\<lparr>cx_body := b\<rparr>), l))"
| "run_guard V q WebhookSignature c l =
     (if \<not> truthy (sv_webhookSecret V)
      then (Answer \<lparr>hp_status = 503, hp_body = JObj [(''error'', JStr ''ORACLE_WEBHOOK_SECRET not configured'')],
              hp_cache = None\<rparr>, l)
      else (case verifyWebhookSignature (sv_hmac V) (ce_stringify (sv_cache V)) (the (sv_webhookSecret V))
                   (hq_signature q) (cx_body c) of
              Some e \<Rightarrow> (Raise e, l)
            | None \<Rightarrow> (Go c, l)))"
| "run_guard V q Audited c l = (Go (c\<lparr>cx_audited := True\<rparr>), l)"

fun run_guards ::
    "('n, 'u, 't, 'r, 'l, 's) server \<Rightarrow> http_request \<Rightarrow> guard list \<Rightarrow> req_context \<Rightarrow> 'l \<Rightarrow> guard_result \<times> 'l" where
  "run_guards V q [] c l = (Go c, l)"
| "run_guards V q (g # gs) c l =
     (case run_guard V q g c l of
        (Go c', l') \<Rightarrow> run_guards V q gs c' l'
      | (Answer r, l') \<Rightarrow> (Answer r, l')
      | (Raise e, l') \<Rightarrow> (Raise e, l'))"

section \<open>Dispatch\<close>

datatype outcome = Reached endpoint req_context | Replied http_reply | Failed js_error

text \<open>
  A layer lets the request pass or finishes it, with the path of \<open>req.route\<close> or, for a handler
  without a route, the path below its mount.
\<close>

datatype dispatched = Pass req_context | Finished outcome "string option"

fun finish_route :: "endpoint \<Rightarrow> string option \<Rightarrow> guard_result \<times> 'l \<Rightarrow> dispatched \<times> 'l" where
  "finish_route e lab (Go c, l) = (Finished (Reached e c) lab, l)"
| "finish_route e lab (Answer r, l) = (Finished (Replied r) lab, l)"
| "finish_route e lab (Raise x, l) = (Finished (Failed x) lab, l)"

fun dispatch ::
    "('n, 'u, 't, 'r, 'l, 's) server \<Rightarrow> http_request \<Rightarrow> layer \<Rightarrow> string list \<Rightarrow> req_context \<Rightarrow> 'l \<Rightarrow> dispatched \<times> 'l"
and dispatch_list ::
    "('n, 'u, 't, 'r, 'l, 's) server \<Rightarrow> http_request \<Rightarrow> layer list \<Rightarrow> string list \<Rightarrow> req_context \<Rightarrow> 'l \<Rightarrow> dispatched \<times> 'l"
where
  "dispatch V q (Route m p gs e) xs c l =
     (if method_matches m (hq_method q) \<and> matches p xs
      then finish_route e (Some (pattern_text p)) (run_guards V q gs (c\<lparr>cx_id := id_of p xs\<rparr>) l)
      else (Pass c, l))"
| "dispatch V q (Serve p e) xs c l =
     (case below p xs of
        None \<Rightarrow> (Pass c, l)
      | Some rest \<Rightarrow> (Finished (Reached e c) (Some (parts_path rest)), l))"
| "dispatch V q (Mount p gs ls) xs c l =
     (case below p xs of
        None \<Rightarrow> (Pass c, l)
      | Some rest \<Rightarrow>
          (case run_guards V q gs c l of
             (Go c', l') \<Rightarrow> dispatch_list V q ls rest c' l'
           | (Answer r, l') \<Rightarrow> (Finished (Replied r) (Some (parts_path rest)), l')
           | (Raise e, l') \<Rightarrow> (Finished (Failed e) None, l')))"
| "dispatch_list V q [] xs c l = (Pass c, l)"
| "dispatch_list V q (x # rest) xs c l =
     (case dispatch V q x xs c l of
        (Pass c', l') \<Rightarrow> dispatch_list V q rest xs c' l'
      | (Finished out lab, l') \<Rightarrow> (Finished out lab, l'))"

end
