(* ===== verification/Serving.thy ===== *)
theory Serving
  imports Routing AuthResults
begin

text \<open>
  A request through the whole application of backend/src/app.ts: CORS, the parser of the body with its
  limits, the id of the request, the routers of theory \<open>Routing\<close>, the error handler and the
  labels of middleware/metrics.ts; then the properties of the wiring. \<open>flat\<close> is the table of
  routes that the nested routers amount to.
\<close>

section \<open>The pipeline\<close>

definition allowedOrigins :: "string option \<Rightarrow> string list" where
  "allowedOrigins v = filter (\<lambda>s. s \<noteq> []) (js_split (CHR '','') (case v of None \<Rightarrow> [] | Some s \<Rightarrow> s))"

text \<open>
  \<open>express.json\<close>: the limit for the oracle and the default one, in bytes; what is too large or does not
  parse is an error, and what the first parser has read the second leaves alone.
\<close>

definition body_limit :: "string list \<Rightarrow> nat" where
  "body_limit xs = (if below [''api'', ''oracle''] xs = None then 100 * 1024 else 4 * 1024)"

definition read_body :: "http_request \<Rightarrow> js_error + jval" where
  "read_body q =
     (if body_limit (path_parts (hq_path q)) < hq_bodySize q
      then Inl (StatusError 413 ''request entity too large'') else hq_parsed q)"

text \<open>\<open>genReqId\<close>: the header of the client, or a new id.\<close>

definition request_id :: "string \<Rightarrow> string option \<Rightarrow> string" where
  "request_id fresh header = (if truthy header then the header else fresh)"

definition start_context :: "jval \<Rightarrow> req_context" where
  "start_context body = \<lparr>cx_id = [], cx_body = body, cx_user = None, cx_adminId = None, cx_audited = False\<rparr>"

fun outcome_reply :: "('n, 'u, 't, 'r, 'l, 's) server \<Rightarrow> outcome \<Rightarrow> http_reply" where
  "outcome_reply V (Reached e c) = asyncHandler (sv_issues V) (sv_handler V e c)"
| "outcome_reply V (Replied r) = r"
| "outcome_reply V (Failed e) = errorHandler (sv_issues V) e"

text \<open>
  \<open>sd_reply\<close> is \<open>None\<close> for the answers of the libraries, to a preflight and to an unknown path.
  \<open>sd_counted\<close> are the labels method, route and status of the two metrics; \<open>sd_requestId\<close> the id
  of the request, also the header X-Request-Id of the response.
\<close>

record 'l served =
  sd_outcome :: "outcome option"
  sd_reply :: "http_reply option"
  sd_status :: nat
  sd_counted :: "(http_method \<times> string \<times> nat) option"
  sd_requestId :: "string option"
  sd_limits :: 'l

definition routed ::
    "('n, 'u, 't, 'r, 'l, 's) server \<Rightarrow> http_request \<Rightarrow> dispatched \<times> 'l \<Rightarrow> 'l served" where
  "routed V q d =
     (case d of
        (Pass c, l) \<Rightarrow>
          \<lparr>sd_outcome = None, sd_reply = None, sd_status = 404, sd_counted = Some (hq_method q, hq_path q, 404),
           sd_requestId = Some (request_id (sv_newId V) (hq_requestId q)), sd_limits = l\<rparr>
      | (Finished out lab, l) \<Rightarrow>
          (let r = outcome_reply V out in
           \<lparr>sd_outcome = Some out, sd_reply = Some r, sd_status = hp_status r,
            sd_counted = Some (hq_method q, (case lab of None \<Rightarrow> hq_path q | Some t \<Rightarrow> t), hp_status r),
            sd_requestId = Some (request_id (sv_newId V) (hq_requestId q)), sd_limits = l\<rparr>))"

definition serve :: "('n, 'u, 't, 'r, 'l, 's) server \<Rightarrow> http_request \<Rightarrow> 'l \<Rightarrow> 'l served" where
  "serve V q l =
     (if hq_method q = M_OPTIONS \<and> allowedOrigins (sv_allowedOrigins V) \<noteq> []
      then \<lparr>sd_outcome = None, sd_reply = None, sd_status = 204, sd_counted = None, sd_requestId = None, sd_limits = l\<rparr>
      else (case read_body q of
              Inl e \<Rightarrow>
                (let r = errorHandler (sv_issues V) e in
                 \<lparr>sd_outcome = Some (Failed e), sd_reply = Some r, sd_status = hp_status r, sd_counted = None,
                  sd_requestId = None, sd_limits = l\<rparr>)
            | Inr body \<Rightarrow> routed V q (dispatch_list V q app_layers (path_parts (hq_path q)) (start_context body) l)))"

text \<open>The handlers of app.ts itself: \<open>db\<close> and \<open>redis\<close> are what the two checks return or throw.\<close>

definition health_handler :: "js_error + nat \<times> jval" where
  "health_handler = Inr (200, JObj [(''status'', JStr ''ok'')])"

definition ready_handler :: "js_error + jval \<Rightarrow> js_error + jval \<Rightarrow> js_error + jval \<Rightarrow> nat \<times> jval" where
  "ready_handler db redis breaker =
     (let failed = (\<lambda>e. (503, JObj [(''status'', JStr ''not_ready''),
          (''error'', JStr (if e = NotAnError then ''Readiness check failed'' else err_message e))])) in
      case (db, redis, breaker) of
        (Inl e, _, _) \<Rightarrow> failed e
      | (Inr _, Inl e, _) \<Rightarrow> failed e
      | (Inr _, Inr _, Inl e) \<Rightarrow> failed e
      | (Inr d, Inr r, Inr b) \<Rightarrow>
          (200, JObj [(''status'', JStr ''ready''), (''database'', d), (''redis'', r), (''sorobanCircuitBreaker'', b)]))"

text \<open>\<open>refreshArenaMetrics\<close>: the rounds as their arena and their state; a database that fails leaves the gauge.\<close>

definition refreshArenaMetrics :: "(string \<times> string) list option \<Rightarrow> nat \<Rightarrow> nat" where
  "refreshArenaMetrics rounds gauge =
     (case rounds of
        None \<Rightarrow> gauge
      | Some rs \<Rightarrow> length (remdups (map fst (filter (\<lambda>r. snd r = ''OPEN'' \<or> snd r = ''CLOSED'') rs))))"

section \<open>The table of the routes\<close>

record route_row =
  rr_method :: http_method
  rr_path :: "path_part list"
  rr_mount :: "guard list"
  rr_guards :: "guard list"
  rr_endpoint :: endpoint
  rr_label :: string

fun flat :: "path_part list \<Rightarrow> guard list \<Rightarrow> layer \<Rightarrow> route_row list"
and flat_list :: "path_part list \<Rightarrow> guard list \<Rightarrow> layer list \<Rightarrow> route_row list" where
  "flat pre ms (Route m p gs e) =
     [\<lparr>rr_method = m, rr_path = pre @ p, rr_mount = ms, rr_guards = gs, rr_endpoint = e, rr_label = pattern_text p\<rparr>]"
| "flat pre ms (Serve p e) = []"
| "flat pre ms (Mount p gs ls) = flat_list (pre @ map Lit p) (ms @ gs) ls"
| "flat_list pre ms [] = []"
| "flat_list pre ms (x # xs) = flat pre ms x @ flat_list pre ms xs"

definition route_table :: "route_row list" where
  "route_table = flat_list [] [] app_layers"

definition row_matches :: "http_request \<Rightarrow> route_row \<Rightarrow> bool" where
  "row_matches q r \<longleftrightarrow> method_matches (rr_method r) (hq_method q) \<and> matches (rr_path r) (path_parts (hq_path q))"

text \<open>The guards of a route, those of its mounts before the parameter is known.\<close>

definition run_row ::
    "('n, 'u, 't, 'r, 'l, 's) server \<Rightarrow> http_request \<Rightarrow> route_row \<Rightarrow> req_context \<Rightarrow> 'l \<Rightarrow> dispatched \<times> 'l" where
  "run_row V q r c l =
     (case run_guards V q (rr_mount r) c l of
        (Go c', l') \<Rightarrow> finish_route (rr_endpoint r) (Some (rr_label r))
            (run_guards V q (rr_guards r) (c'\<lparr>cx_id := id_of (rr_path r) (path_parts (hq_path q))\<rparr>) l')
      | (Answer x, l') \<Rightarrow> (Finished (Replied x) (Some []), l')
      | (Raise e, l') \<Rightarrow> (Finished (Failed e) None, l'))"

text \<open>Two patterns that one path can match, and two methods that one request can have.\<close>

fun overlap :: "path_part list \<Rightarrow> path_part list \<Rightarrow> bool" where
  "overlap [] [] = True"
| "overlap (Lit a # p) (Lit b # r) = (a = b \<and> overlap p r)"
| "overlap (x # p) (y # r) = overlap p r"
| "overlap _ _ = False"

definition rows_apart :: "route_row \<Rightarrow> route_row \<Rightarrow> bool" where
  "rows_apart r s \<longleftrightarrow> rr_method r \<noteq> rr_method s \<or> \<not> overlap (rr_path r) (rr_path s)"

definition public_endpoints :: "endpoint list" where
  "public_endpoints = [E_Health, E_Ready, E_Metrics, E_DocsJson, E_Docs, E_RequestNonce, E_Verify, E_Refresh,
     E_GetYield, E_PostYield, E_ArenaStats, E_Participants, E_Stream]"

definition admin_endpoints :: "endpoint list" where
  "admin_endpoints = [E_RunBatch, E_AdminToken, E_ForceResolve, E_Resubmit, E_Reindex, E_Reconcile, E_CloseRound,
     E_ResolveRound, E_AuditLogs]"

section \<open>Lemmas\<close>

fun guarded :: "guard list \<Rightarrow> layer \<Rightarrow> (endpoint \<times> guard list) list"
and guarded_list :: "guard list \<Rightarrow> layer list \<Rightarrow> (endpoint \<times> guard list) list" where
  "guarded ms (Route m p gs e) = [(e, ms @ gs)]"
| "guarded ms (Serve p e) = [(e, ms)]"
| "guarded ms (Mount p gs ls) = guarded_list (ms @ gs) ls"
| "guarded_list ms [] = []"
| "guarded_list ms (x # xs) = guarded ms x @ guarded_list ms xs"

text \<open>What a guard that let the request pass has established.\<close>

fun guard_holds :: "('n, 'u, 't, 'r, 'l, 's) server \<Rightarrow> http_request \<Rightarrow> req_context \<Rightarrow> guard \<Rightarrow> bool" where
  "guard_holds V q c UserAuth \<longleftrightarrow>
     (\<exists>u. requireAuth (sv_stores V) (sv_lib V) (sv_config V) (sv_env V) (hq_authorization q) (sv_auth V) = Inr u \<and>
          cx_user c = Some u)"
| "guard_holds V q c AdminAuth \<longleftrightarrow>
     (\<exists>i. requireAdmin (sv_apiKey V) (hq_authorization q) = Inr i \<and> cx_adminId c = Some i)"
| "guard_holds V q c _ = True"

lemmas guard_splits = sum.splits option.splits prod.splits rl_outcome.splits if_splits

lemma guard_established:
  "run_guard V q g c l = (Go c', l') \<Longrightarrow> guard_holds V q c' g"
  by (cases g) (auto split: guard_splits)

lemma guard_kept: "run_guard V q g c l = (Go c', l') \<Longrightarrow> guard_holds V q c h \<Longrightarrow> guard_holds V q c' h"
  by (cases g; cases h) (auto split: guard_splits)

lemma guards_kept: "run_guards V q gs c l = (Go c', l') \<Longrightarrow> guard_holds V q c h \<Longrightarrow> guard_holds V q c' h"
  by (induction gs arbitrary: c l) (auto split: prod.splits guard_result.splits dest: guard_kept)

lemma guards_established:
  "run_guards V q gs c l = (Go c', l') \<Longrightarrow> g \<in> set gs \<Longrightarrow> guard_holds V q c' g"
  by (induction gs arbitrary: c l)
    (auto split: prod.splits guard_result.splits dest: guard_established guards_kept)

lemma guard_holds_id [simp]: "guard_holds V q (c\<lparr>cx_id := i\<rparr>) g = guard_holds V q c g"
  by (cases g) simp_all

text \<open>A request that reaches a handler has passed the guards on its way.\<close>

lemma dispatch_passes:
  "fst (dispatch V q x xs c l) = d \<Longrightarrow> \<forall>g\<in>set ms. guard_holds V q c g \<Longrightarrow>
     (case d of
        Pass c' \<Rightarrow> \<forall>g\<in>set ms. guard_holds V q c' g
      | Finished (Reached e c') lab \<Rightarrow> \<exists>gs. (e, gs) \<in> set (guarded ms x) \<and> (\<forall>g\<in>set gs. guard_holds V q c' g)
      | _ \<Rightarrow> True)"
  and dispatch_list_passes:
  "fst (dispatch_list V q ls xs c l) = d \<Longrightarrow> \<forall>g\<in>set ms. guard_holds V q c g \<Longrightarrow>
     (case d of
        Pass c' \<Rightarrow> \<forall>g\<in>set ms. guard_holds V q c' g
      | Finished (Reached e c') lab \<Rightarrow>
          \<exists>gs. (e, gs) \<in> set (guarded_list ms ls) \<and> (\<forall>g\<in>set gs. guard_holds V q c' g)
      | _ \<Rightarrow> True)"
proof (induction V q x xs c l and V q ls xs c l arbitrary: ms d and ms d rule: dispatch_dispatch_list.induct)
  case (1 V q m p gs e xs c l)
  show ?case
  proof (cases "method_matches m (hq_method q) \<and> matches p xs")
    case True
    obtain r l' where r: "run_guards V q gs (c\<lparr>cx_id := id_of p xs\<rparr>) l = (r, l')" by fastforce
    have "\<forall>g\<in>set (ms @ gs). guard_holds V q c' g" if "r = Go c'" for c'
      using guards_established [of V q gs _ l c' l'] guards_kept [of V q gs _ l c' l'] r that 1(2) by auto
    then show ?thesis using 1(1) True r by (cases r) auto
  qed (use 1 in auto)
next
  case (2 V q p e xs c l)
  then show ?case by (auto split: option.splits)
next
  case (3 V q p gs ls xs c l)
  show ?case
  proof (cases "below p xs")
    case (Some rest)
    obtain r l' where r: "run_guards V q gs c l = (r, l')" by fastforce
    show ?thesis
    proof (cases r)
      case (Go c')
      have "\<forall>g\<in>set (ms @ gs). guard_holds V q c' g"
        using guards_established [of V q gs c l c' l'] guards_kept [of V q gs c l c' l'] r Go 3(3) by auto
      from 3(1) [OF Some r [symmetric] Go refl this] r Go Some 3(2)
      show ?thesis by (auto split: dispatched.splits outcome.splits)
    qed (use 3(2) r Some in auto)
  qed (use 3 in auto)
next
  case (4 V q xs c l)
  then show ?case by auto
next
  case (5 V q x rest xs c l)
  obtain d' l' where d: "dispatch V q x xs c l = (d', l')" by fastforce
  show ?case
  proof (cases d')
    case (Pass c')
    then have "\<forall>g\<in>set ms. guard_holds V q c' g" using 5(1) [of d' ms] 5(4) d by simp
    from 5(2) [OF d [symmetric] Pass refl this] d Pass 5(3)
    show ?thesis by (auto split: dispatched.splits outcome.splits)
  next
    case (Finished out lab)
    then show ?thesis using 5(1) [of d' ms] 5(3,4) d by (auto split: outcome.splits)
  qed
qed

lemma overlap_sound: "matches p xs \<Longrightarrow> matches r xs \<Longrightarrow> overlap p r"
proof (induction p xs arbitrary: r rule: matches.induct)
  case (2 a p x xs)
  then show ?case by (cases "(r, x # xs)" rule: matches.cases) (auto simp: same_part_def)
next
  case (3 p x xs)
  then show ?case by (cases "(r, x # xs)" rule: matches.cases) auto
qed (auto elim: matches.elims)

lemma table_apart: "sorted_wrt rows_apart route_table"
  by code_simp

lemma table_methods: "list_all (\<lambda>r. rr_method r \<in> {M_GET, M_POST, M_DELETE}) route_table"
  by code_simp

lemma guarded_app:
  "list_all (\<lambda>(e, gs). (e \<in> set admin_endpoints \<longrightarrow> AdminAuth \<in> set gs) \<and>
     (e \<notin> set admin_endpoints \<union> set public_endpoints \<longrightarrow> UserAuth \<in> set gs)) (guarded_list [] app_layers)"
  by code_simp

text \<open>
  The routers followed with a pattern instead of a path: what is left of a pattern below a mount, the
  layers that no request of the pattern enters, and the route that it leads to.
\<close>

fun enter :: "string list \<Rightarrow> path_part list \<Rightarrow> path_part list option" where
  "enter [] p = Some p"
| "enter (a # as) (Lit b # p) = (if a = b then enter as p else None)"
| "enter (a # as) (IdParam # p) = enter as p"
| "enter (a # as) [] = None"

definition methods_apart :: "http_method \<Rightarrow> http_method \<Rightarrow> bool" where
  "methods_apart m n \<longleftrightarrow> m \<noteq> n \<and> m \<noteq> M_HEAD \<and> n \<noteq> M_HEAD"

fun avoids :: "http_method \<Rightarrow> path_part list \<Rightarrow> layer \<Rightarrow> bool"
and avoids_list :: "http_method \<Rightarrow> path_part list \<Rightarrow> layer list \<Rightarrow> bool" where
  "avoids m p (Route n r gs e) = (methods_apart m n \<or> \<not> overlap p r)"
| "avoids m p (Serve r e) = (enter r p = None)"
| "avoids m p (Mount r gs ls) = (case enter r p of None \<Rightarrow> True | Some rest \<Rightarrow> gs = [] \<and> avoids_list m rest ls)"
| "avoids_list m p [] = True"
| "avoids_list m p (x # xs) = (avoids m p x \<and> avoids_list m p xs)"

definition quiet_guards :: "guard list \<Rightarrow> bool" where
  "quiet_guards gs \<longleftrightarrow> list_all (\<lambda>g. g = UserAuth \<or> g = AdminAuth \<or> g = Audited) gs"

fun leads :: "http_method \<Rightarrow> path_part list \<Rightarrow> layer \<Rightarrow> (guard list \<times> guard list \<times> endpoint \<times> string) option"
and leads_list :: "http_method \<Rightarrow> path_part list \<Rightarrow> layer list \<Rightarrow> (guard list \<times> guard list \<times> endpoint \<times> string) option" where
  "leads m p (Route n r gs e) = (if m = n \<and> p = r then Some ([], gs, e, pattern_text r) else None)"
| "leads m p (Serve r e) = None"
| "leads m p (Mount r gs ls) =
     (if take (length r) p = map Lit r \<and> quiet_guards gs
      then map_option (\<lambda>(ms, rest). (gs @ ms, rest)) (leads_list m (drop (length r) p) ls) else None)"
| "leads_list m p [] = None"
| "leads_list m p (x # xs) = (if avoids m p x then leads_list m p xs else leads m p x)"

lemma enter_None: "matches p xs \<Longrightarrow> enter r p = None \<Longrightarrow> below r xs = None"
  by (induction r p arbitrary: xs rule: enter.induct; case_tac xs) (auto simp: same_part_def split: if_splits)

lemma enter_Some: "matches p xs \<Longrightarrow> enter r p = Some rest \<Longrightarrow> below r xs = Some ys \<Longrightarrow> matches rest ys"
  by (induction r p arbitrary: xs rule: enter.induct; case_tac xs) (auto simp: same_part_def split: if_splits)

lemma methods_apart: "methods_apart m n \<Longrightarrow> method_matches m q \<Longrightarrow> \<not> method_matches n q"
  by (auto simp: methods_apart_def method_matches_def)

lemma avoids_pass:
  "matches p xs \<Longrightarrow> method_matches m (hq_method q) \<Longrightarrow> avoids m p x \<Longrightarrow> dispatch V q x xs c l = (Pass c, l)"
  and avoids_list_pass:
  "matches p xs \<Longrightarrow> method_matches m (hq_method q) \<Longrightarrow> avoids_list m p ls \<Longrightarrow> dispatch_list V q ls xs c l = (Pass c, l)"
proof (induction m p x and m p ls arbitrary: xs and xs rule: avoids_avoids_list.induct)
  case (1 m p n r gs e)
  then show ?case using overlap_sound [of p xs r] methods_apart [of m n "hq_method q"] by auto
next
  case (2 m p r e)
  then show ?case using enter_None [of p xs r] by simp
next
  case (3 m p r gs ls)
  then show ?case
    using enter_None [of p xs r] enter_Some [of p xs r] by (auto split: option.splits)
qed auto

lemma quiet_guards_go: "quiet_guards gs \<Longrightarrow> run_guards V q gs c l \<noteq> (Answer r, l')"
  by (induction gs arbitrary: c l) (auto simp: quiet_guards_def split: prod.splits guard_result.splits guard_splits)

lemma run_guards_append:
  "run_guards V q (gs @ hs) c l =
     (case run_guards V q gs c l of
        (Go c', l') \<Rightarrow> run_guards V q hs c' l'
      | (Answer r, l') \<Rightarrow> (Answer r, l')
      | (Raise e, l') \<Rightarrow> (Raise e, l'))"
  by (induction gs arbitrary: c l) (auto split: prod.splits guard_result.splits)

lemma below_matches:
  "take (length r) p = map Lit r \<Longrightarrow> matches p xs \<Longrightarrow>
     \<exists>ys. below r xs = Some ys \<and> matches (drop (length r) p) ys \<and> id_of p xs = id_of (drop (length r) p) ys"
proof (induction r arbitrary: p xs)
  case (Cons a r)
  then obtain p' where p: "p = Lit a # p'" "take (length r) p' = map Lit r" by (cases p) auto
  then obtain x ys where "xs = x # ys" "same_part a x" "matches p' ys" using Cons.prems by (cases xs) auto
  then show ?case using Cons.IH [OF p(2)] p by auto
qed simp

definition run_route ::
    "('n, 'u, 't, 'r, 'l, 's) server \<Rightarrow> http_request \<Rightarrow> guard list \<times> guard list \<times> endpoint \<times> string \<Rightarrow> string \<Rightarrow>
     req_context \<Rightarrow> 'l \<Rightarrow> dispatched \<times> 'l" where
  "run_route V q t i c l =
     (case t of (ms, gs, e, lab) \<Rightarrow>
        (case run_guards V q ms c l of
           (Go c', l') \<Rightarrow> finish_route e (Some lab) (run_guards V q gs (c'\<lparr>cx_id := i\<rparr>) l')
         | (Answer x, l') \<Rightarrow> (Finished (Replied x) (Some []), l')
         | (Raise x, l') \<Rightarrow> (Finished (Failed x) None, l')))"

lemma finish_finished: "\<exists>out l'. finish_route e lab g = (Finished out lab, l')"
  by (cases "(e, lab, g)" rule: finish_route.cases) simp_all

lemma run_route_finished: "\<exists>out lab l'. run_route V q t i c l = (Finished out lab, l')"
proof -
  obtain ms gs e lab where t: "t = (ms, gs, e, lab)" by (cases t) auto
  obtain g l' where g: "run_guards V q ms c l = (g, l')" by fastforce
  show ?thesis
  proof (cases g)
    case (Go c')
    then show ?thesis
      using finish_finished [of e "Some lab" "run_guards V q gs (c'\<lparr>cx_id := i\<rparr>) l'"]
      by (auto simp: run_route_def t g)
  qed (simp_all add: run_route_def t g)
qed

lemma leads_dispatch:
  "matches p xs \<Longrightarrow> method_matches m (hq_method q) \<Longrightarrow> leads m p x = Some t \<Longrightarrow>
     dispatch V q x xs c l = run_route V q t (id_of p xs) c l"
  and leads_list_dispatch:
  "matches p xs \<Longrightarrow> method_matches m (hq_method q) \<Longrightarrow> leads_list m p ls = Some t \<Longrightarrow>
     dispatch_list V q ls xs c l = run_route V q t (id_of p xs) c l"
proof (induction m p x and m p ls arbitrary: xs t c l and xs t c l rule: leads_leads_list.induct)
  case (1 m p n r gs e)
  then show ?case by (auto simp: run_route_def split: if_splits)
next
  case (3 m p r gs ls)
  then obtain ms rest where pre: "take (length r) p = map Lit r" "quiet_guards gs" and t: "t = (gs @ ms, rest)"
    and ls: "leads_list m (drop (length r) p) ls = Some (ms, rest)"
    by (auto split: if_splits)
  obtain ys where ys: "below r xs = Some ys" "matches (drop (length r) p) ys" "id_of p xs = id_of (drop (length r) p) ys"
    using below_matches [OF pre(1) 3(2)] by blast
  note ih = 3(1) [OF _ ys(2) 3(3) ls]
  obtain g l' where g: "run_guards V q gs c l = (g, l')" by fastforce
  show ?case
    using quiet_guards_go [OF pre(2), of V q c l] ih pre ys g
    by (cases g) (auto simp: t run_route_def run_guards_append split: prod.splits)
next
  case (5 m p x xs)
  show ?case
  proof (cases "avoids m p x")
    case True
    then show ?thesis using 5 avoids_pass [OF 5(3,4) True, where V = V and c = c and l = l] by simp
  next
    case False
    then show ?thesis using 5(2) [OF False 5(3,4)] 5(5) run_route_finished [of V q t "id_of p xs" c l] by auto
  qed
qed (auto)

lemma table_leads:
  "list_all (\<lambda>r. leads_list (rr_method r) (rr_path r) app_layers =
     Some (rr_mount r, rr_guards r, rr_endpoint r, rr_label r)) route_table"
  by code_simp

lemma routers_as_table:
  assumes "r \<in> set route_table" and "row_matches q r"
  shows "dispatch_list V q app_layers (path_parts (hq_path q)) c l = run_row V q r c l"
  using leads_list_dispatch [of "rr_path r" "path_parts (hq_path q)" "rr_method r" q app_layers
      "(rr_mount r, rr_guards r, rr_endpoint r, rr_label r)" V c l] table_leads assms
  by (simp add: list_all_iff row_matches_def run_row_def run_route_def)

section \<open>A server for the witnesses\<close>

definition toy_verify_lib :: auth_lib where
  "toy_verify_lib = toy_lib\<lparr>al_jwtVerify :=
     (\<lambda>t _ _. Some \<lparr>jp_sub = ''1'', jp_wallet = ''W'', jp_type = AccessToken, jp_jti = t\<rparr>)\<rparr>"

definition toy_server ::
    "(nonce_doc list, user_doc list, refresh_doc list, list_store, string \<Rightarrow> nat, list_store \<times> (string \<times> string) list) server" where
  "toy_server =
     \<lparr>sv_stores = list_stores, sv_lib = toy_verify_lib, sv_config = toy_cfg, sv_env = toy_env, sv_auth = toy_state,
      sv_apiKey = replicate 32 (CHR ''k''), sv_allowedOrigins = None, sv_webhookSecret = None,
      sv_number = (\<lambda>_. None), sv_vars = (\<lambda>_. None), sv_consume = (\<lambda>_. demo_limiter), sv_cache = kept_env,
      sv_cached = (empty_store, []), sv_hmac = (\<lambda>_ t. t), sv_uuid = (\<lambda>s. length s = 36), sv_newId = ''n1'',
      sv_issues = (\<lambda>_. []), sv_handler = (\<lambda>_ _. Inr (200, JNull))\<rparr>"

definition toy_get :: "string \<Rightarrow> string option \<Rightarrow> http_request" where
  "toy_get path authorization =
     \<lparr>hq_method = M_GET, hq_path = path, hq_authorization = authorization, hq_signature = None, hq_requestId = None,
      hq_forwardedFor = None, hq_ip = None, hq_limit = None, hq_cursor = None, hq_bodySize = 0,
      hq_parsed = Inr (JObj [])\<rparr>"

definition toy_id :: string where
  "toy_id = replicate 24 (CHR ''a'')"

lemma toy_auth:
  "requireAuth (sv_stores toy_server) (sv_lib toy_server) (sv_config toy_server) (sv_env toy_server)
     (Some ''Bearer t0'') (sv_auth toy_server) = Inr \<lparr>ru_id = ''1'', ru_walletAddress = ''W'', ru_jti = ''t0''\<rparr>"
  by (simp add: toy_server_def toy_verify_lib_def toy_lib_def requireAuth_def bearer_token_def verifyAccessToken_def
      decode_token_def getJwtSecret_def toy_cfg_def isActive_def list_redis_def toy_state_def toy_env_def Let_def)

lemma toy_id_ok: "TransactionIdSchema (sv_uuid toy_server) toy_id = Inr toy_id"
proof -
  have trim: "js_trim toy_id = toy_id"
    by (rule js_trim_id) (simp_all add: toy_id_def is_space_def char_class_defs)
  have "MONGO_OBJECT_ID_REGEX toy_id"
    by (simp add: MONGO_OBJECT_ID_REGEX_def toy_id_def is_hex_def char_class_defs list_all_iff)
  then show ?thesis using trim by (simp add: TransactionIdSchema_def Let_def toy_id_def)
qed

text \<open>The routes that read one payout and one transaction, and requests for them with a token.\<close>

definition payout_row :: route_row where
  "payout_row = \<lparr>rr_method = M_GET, rr_path = [Lit ''api'', Lit ''payouts'', IdParam], rr_mount = [],
     rr_guards = [UserAuth, ValidId], rr_endpoint = E_GetPayout, rr_label = ''/:id''\<rparr>"

definition transaction_row :: route_row where
  "transaction_row = \<lparr>rr_method = M_GET, rr_path = [Lit ''api'', Lit ''transactions'', IdParam], rr_mount = [UserAuth],
     rr_guards = [ValidId], rr_endpoint = E_GetTransaction, rr_label = ''/:id''\<rparr>"

lemma toy_rows: "list_ex (\<lambda>r. r = payout_row) route_table" "list_ex (\<lambda>r. r = transaction_row) route_table"
  by code_simp+

lemma toy_rows_in: "payout_row \<in> set route_table" "transaction_row \<in> set route_table"
  using toy_rows by (simp_all add: list_ex_iff)

definition toy_payout_get :: http_request where
  "toy_payout_get = toy_get (''/api/payouts/'' @ toy_id) (Some ''Bearer t0'')"

definition toy_transaction_get :: http_request where
  "toy_transaction_get = toy_get (''/api/transactions/'' @ toy_id) (Some ''Bearer t0'')"

lemma toy_parts:
  "path_parts (hq_path toy_payout_get) = [''api'', ''payouts'', toy_id]"
  "path_parts (hq_path toy_transaction_get) = [''api'', ''transactions'', toy_id]"
  by (simp_all add: toy_payout_get_def toy_transaction_get_def toy_get_def toy_id_def path_parts_def js_split_no_sep Let_def)

lemma toy_lower: "lower_text ''api'' = ''api''" "lower_text ''payouts'' = ''payouts''" "lower_text ''transactions'' = ''transactions''"
  by (simp_all add: lower_text_def lower_ascii_def char_class_defs)

lemma toy_request_sel:
  "hq_method toy_payout_get = M_GET" "hq_method toy_transaction_get = M_GET"
  "hq_authorization toy_payout_get = Some ''Bearer t0''" "hq_authorization toy_transaction_get = Some ''Bearer t0''"
  "read_body toy_payout_get = Inr (JObj [])" "read_body toy_transaction_get = Inr (JObj [])"
  by (simp_all add: toy_payout_get_def toy_transaction_get_def toy_get_def read_body_def)

lemma toy_rows_match: "row_matches toy_payout_get payout_row" "row_matches toy_transaction_get transaction_row"
  by (simp_all add: row_matches_def payout_row_def transaction_row_def toy_parts toy_request_sel toy_lower
      method_matches_def same_part_def) (simp_all add: toy_id_def)

lemma toy_run_rows:
  "\<exists>c. run_row toy_server toy_payout_get payout_row (start_context (JObj [])) l =
     (Finished (Reached E_GetPayout c) (Some ''/:id''), l)"
  "\<exists>c. run_row toy_server toy_transaction_get transaction_row (start_context (JObj [])) l =
     (Finished (Reached E_GetTransaction c) (Some ''/:id''), l)"
  by (simp_all add: run_row_def payout_row_def transaction_row_def toy_parts toy_request_sel toy_auth toy_id_ok)

end
