(* ===== verification/ApiDocs.thy ===== *)
theory ApiDocs
  imports Serving
begin

text \<open>
  The document that backend/src/openapi/registerPaths.ts generates, as the list of its operations, and
  a client that follows it: it sends credentials only where and in the header that the document names.
  The properties compare the document and the handlers with the routes of theory \<open>Serving\<close>.
\<close>

section \<open>The document\<close>

datatype security_scheme = BearerAuth | AdminApiKey

text \<open>Where a scheme puts the credential: bearerAuth in Authorization, the other in a header of its own.\<close>

record scheme_description =
  sc_type :: string
  sc_header :: string
  sc_description :: string

fun security_schemes :: "security_scheme \<Rightarrow> scheme_description" where
  "security_schemes BearerAuth =
     \<lparr>sc_type = ''http'', sc_header = ''Authorization'',
      sc_description = ''Wallet JWT access token from POST /api/auth/verify''\<rparr>"
| "security_schemes AdminApiKey =
     \<lparr>sc_type = ''apiKey'', sc_header = ''X-Admin-Api-Key'', sc_description = ''Admin API key for privileged routes''\<rparr>"

text \<open>A response: its status, its description and the name of the schema of its body.\<close>

record documented =
  do_method :: http_method
  do_path :: "path_part list"
  do_summary :: string
  do_security :: "security_scheme list"
  do_params :: "string option"
  do_query :: "string option"
  do_body :: "string option"
  do_responses :: "(nat \<times> string \<times> string) list"

definition api_path :: "path_part list \<Rightarrow> path_part list" where
  "api_path p = Lit ''api'' # p"

definition registerAuthPaths :: "documented list" where
  "registerAuthPaths =
     [\<lparr>do_method = M_POST, do_path = api_path [Lit ''auth'', Lit ''nonce''], do_summary = ''Request a sign-in nonce'',
       do_security = [], do_params = None, do_query = None, do_body = Some ''NonceRequestSchema'',
       do_responses = [(201, ''Nonce issued'', ''NonceResponseSchema''), (429, ''Rate limited'', ''ApiErrorSchema'')]\<rparr>,
      \<lparr>do_method = M_POST, do_path = api_path [Lit ''auth'', Lit ''verify''],
       do_summary = ''Verify wallet signature and issue tokens'',
       do_security = [], do_params = None, do_query = None, do_body = Some ''VerifySchema'',
       do_responses = [(200, ''Authenticated'', ''TokenPairSchema''),
         (401, ''Invalid signature or expired nonce'', ''ApiErrorSchema''), (429, ''Rate limited'', ''ApiErrorSchema'')]\<rparr>,
      \<lparr>do_method = M_POST, do_path = api_path [Lit ''auth'', Lit ''refresh''], do_summary = ''Refresh access token'',
       do_security = [], do_params = None, do_query = None, do_body = Some ''RefreshSchema'',
       do_responses = [(200, ''New token pair'', ''TokenPairSchema''),
         (401, ''Invalid or revoked refresh token'', ''ApiErrorSchema''), (429, ''Rate limited'', ''ApiErrorSchema'')]\<rparr>,
      \<lparr>do_method = M_GET, do_path = api_path [Lit ''auth'', Lit ''me''], do_summary = ''Current authenticated user'',
       do_security = [BearerAuth], do_params = None, do_query = None, do_body = None,
       do_responses = [(200, ''User profile'', ''AuthUserResponseSchema''), (401, ''Unauthorized'', ''ApiErrorSchema'')]\<rparr>]"

definition registerArenaPaths :: "documented list" where
  "registerArenaPaths =
     [\<lparr>do_method = M_GET, do_path = api_path [Lit ''arenas'', IdParam, Lit ''stats''], do_summary = ''Arena aggregate stats'',
       do_security = [BearerAuth], do_params = Some ''ArenaIdParamSchema'', do_query = None, do_body = None,
       do_responses = [(200, ''Arena stats'', ''ArenaStatsSchema'')]\<rparr>,
      \<lparr>do_method = M_GET, do_path = api_path [Lit ''arenas'', IdParam, Lit ''participants''],
       do_summary = ''Paginated arena participants'',
       do_security = [BearerAuth], do_params = Some ''ArenaIdParamSchema'', do_query = Some ''limit, cursor'', do_body = None,
       do_responses = [(200, ''Participant page'', ''ArenaParticipantsResponseSchema'')]\<rparr>]"

definition registerPublicApiPaths :: "documented list" where
  "registerPublicApiPaths =
     [\<lparr>do_method = M_GET, do_path = api_path [Lit ''leaderboard''], do_summary = ''Global leaderboard'',
       do_security = [BearerAuth], do_params = None, do_query = Some ''LeaderboardQuerySchema'', do_body = None,
       do_responses = [(200, ''Leaderboard page'', ''LeaderboardResponseSchema'')]\<rparr>,
      \<lparr>do_method = M_POST, do_path = api_path [Lit ''payouts''], do_summary = ''Create a payout transaction'',
       do_security = [], do_params = None, do_query = None, do_body = Some ''CreatePayoutBodySchema'',
       do_responses = [(201, ''Payout created or queued'', ''TransactionRecordSchema'')]\<rparr>,
      \<lparr>do_method = M_GET, do_path = api_path [Lit ''payouts'', IdParam], do_summary = ''Get payout transaction by id'',
       do_security = [], do_params = Some ''TransactionIdParamSchema'', do_query = None, do_body = None,
       do_responses = [(200, ''Transaction record'', ''TransactionRecordSchema''), (404, ''Not found'', ''ApiErrorSchema'')]\<rparr>,
      \<lparr>do_method = M_GET, do_path = api_path [Lit ''transactions'', IdParam], do_summary = ''Get transaction by id'',
       do_security = [BearerAuth], do_params = Some ''TransactionIdParamSchema'', do_query = None, do_body = None,
       do_responses = [(200, ''Transaction record'', ''TransactionRecordSchema''), (404, ''Not found'', ''ApiErrorSchema'')]\<rparr>]"

definition registerAdminPaths :: "documented list" where
  "registerAdminPaths =
     [\<lparr>do_method = M_POST, do_path = api_path [Lit ''admin'', Lit ''rounds'', Lit ''resolve''],
       do_summary = ''Resolve a round (admin)'',
       do_security = [AdminApiKey], do_params = None, do_query = None, do_body = Some ''RoundInputSchema'',
       do_responses = [(200, ''Round resolved'', ''RoundResolutionSchema''), (400, ''Validation error'', ''ApiErrorSchema''),
         (401, ''Unauthorized'', ''ApiErrorSchema'')]\<rparr>,
      \<lparr>do_method = M_POST, do_path = api_path [Lit ''payouts'', IdParam, Lit ''sign''], do_summary = ''Queue a signed payout XDR'',
       do_security = [], do_params = Some ''TransactionIdParamSchema'', do_query = None, do_body = Some ''SignPayoutBodySchema'',
       do_responses = [(200, ''Signed transaction queued'', ''TransactionRecordSchema'')]\<rparr>]"

definition generateOpenApiDocument :: "documented list" where
  "generateOpenApiDocument = registerAuthPaths @ registerArenaPaths @ registerPublicApiPaths @ registerAdminPaths"

lemmas document_defs = registerAuthPaths_def registerArenaPaths_def registerPublicApiPaths_def registerAdminPaths_def
  generateOpenApiDocument_def api_path_def

text \<open>The credentials that a client sends by the document, as far as the server reads them.\<close>

definition follows :: "http_request \<Rightarrow> documented \<Rightarrow> bool" where
  "follows q d \<longleftrightarrow> hq_method q = do_method d \<and> matches (do_path d) (path_parts (hq_path q)) \<and>
     (''Authorization'' \<notin> set (map (sc_header \<circ> security_schemes) (do_security d)) \<longrightarrow> hq_authorization q = None)"

section \<open>Routes\<close>

lemma no_credentials: "requireAuth S L cfg env None s = Inl (HttpErr 401 ''UNAUTHORIZED'' ''Unauthorized'')"
  "requireAdmin key None = Inl (HttpErr 401 ''UNAUTHORIZED'' ''Unauthorized'')"
  by (simp_all add: requireAuth_def requireAdmin_def isAdmin_def bearer_token_def)

lemma serve_row:
  assumes "r \<in> set route_table" and "row_matches q r" and "read_body q = Inr body"
    and "hq_method q \<noteq> M_OPTIONS"
  shows "serve V q l = routed V q (run_row V q r (start_context body) l)"
  using assms by (simp add: serve_def routers_as_table)

lemma sorted_wrt_either:
  "sorted_wrt P xs \<Longrightarrow> x \<in> set xs \<Longrightarrow> y \<in> set xs \<Longrightarrow> x \<noteq> y \<Longrightarrow> P x y \<or> P y x"
  by (induction xs) auto

lemma rows_apart_matches:
  assumes "rows_apart r s" and "r \<in> set route_table" and "s \<in> set route_table" and "row_matches q r"
  shows "\<not> row_matches q s"
proof -
  have m: "rr_method r \<noteq> M_HEAD" "rr_method s \<noteq> M_HEAD"
    using table_methods assms(2,3) by (auto simp: list_all_iff)
  show ?thesis
  proof
    assume s: "row_matches q s"
    have "overlap (rr_path r) (rr_path s)"
      by (rule overlap_sound [where xs = "path_parts (hq_path q)"]) (use s assms(4) in \<open>simp_all add: row_matches_def\<close>)
    moreover have "rr_method r = rr_method s"
      using s assms(4) m unfolding row_matches_def method_matches_def by metis
    ultimately show False using assms(1) by (simp add: rows_apart_def)
  qed
qed

lemma row_unique:
  assumes "r \<in> set route_table" and "s \<in> set route_table" and "row_matches q r" and "row_matches q s"
  shows "r = s"
proof (rule ccontr)
  assume "r \<noteq> s"
  then have "rows_apart r s \<or> rows_apart s r"
    using sorted_wrt_either [OF table_apart] assms(1,2) by blast
  then show False using rows_apart_matches assms by blast
qed

text \<open>
  C30: Every request to the interface matches at most one route, whatever its method, path and letter case,
  and the nested routers then do exactly what the route's own line says: the guards of its mount and of the
  route, in their order, and then its handler. The order in which the routers are mounted does not matter.
\<close>

theorem request_meets_its_route:
  assumes "r \<in> set route_table" and "row_matches q r" and "read_body q = Inr body" and "hq_method q \<noteq> M_OPTIONS"
  shows "serve V q l = routed V q (run_row V q r (start_context body) l) \<and>
    (\<forall>s\<in>set route_table. row_matches q s \<longrightarrow> s = r)"
proof (intro conjI ballI impI)
  show "serve V q l = routed V q (run_row V q r (start_context body) l)" by (rule serve_row [OF assms])
next
  fix s
  assume "s \<in> set route_table" and "row_matches q s"
  then show "s = r" using assms(1,2) by (intro row_unique)
qed

lemma requireAuth_session:
  "requireAuth S L cfg env h s = Inr u \<Longrightarrow>
     \<exists>p. decode_token L cfg env (bearer_token h) = Some p \<and> jp_type p = AccessToken \<and>
       isActive (st_redis S) (ae_now env) (jp_jti p) (au_redis s) \<and>
       u = \<lparr>ru_id = jp_sub p, ru_walletAddress = jp_wallet p, ru_jti = jp_jti p\<rparr>"
  by (auto simp: requireAuth_def verifyAccessToken_def Let_def split: if_splits option.splits sum.splits)

lemma requireAdmin_key: "requireAdmin key h = Inr i \<Longrightarrow> bearer_token h = key"
  by (auto simp: requireAdmin_def isAdmin_def Let_def split: if_splits sum.splits)

text \<open>
  C31: A handler that is not one of the thirteen public ones runs only for a request whose bearer token is an
  access token of an active session, and the handler sees the user of that token; the handlers of the
  administrator and of the worker run only for a request that carries the key of the administrator.
\<close>

theorem protected_endpoints:
  assumes "sd_outcome (serve V q l) = Some (Reached e c)" and "e \<notin> set public_endpoints"
  shows "if e \<in> set admin_endpoints then bearer_token (hq_authorization q) = sv_apiKey V
    else \<exists>p. decode_token (sv_lib V) (sv_config V) (sv_env V) (bearer_token (hq_authorization q)) = Some p \<and>
           jp_type p = AccessToken \<and>
           isActive (st_redis (sv_stores V)) (ae_now (sv_env V)) (jp_jti p) (au_redis (sv_auth V)) \<and>
           cx_user c = Some \<lparr>ru_id = jp_sub p, ru_walletAddress = jp_wallet p, ru_jti = jp_jti p\<rparr>"
proof -
  obtain body lab l' where d:
    "dispatch_list V q app_layers (path_parts (hq_path q)) (start_context body) l = (Finished (Reached e c) lab, l')"
    using assms(1) by (auto simp: serve_def routed_def Let_def split: if_splits sum.splits prod.splits dispatched.splits)
  have "\<exists>gs. (e, gs) \<in> set (guarded_list [] app_layers) \<and> (\<forall>g\<in>set gs. guard_holds V q c g)"
    using dispatch_list_passes [of V q app_layers "path_parts (hq_path q)" "start_context body" l
        "Finished (Reached e c) lab" "[]"] d by simp
  then obtain gs where "(e, gs) \<in> set (guarded_list [] app_layers)" and gs: "\<forall>g\<in>set gs. guard_holds V q c g"
    by blast
  then have "if e \<in> set admin_endpoints then AdminAuth \<in> set gs else UserAuth \<in> set gs"
    using guarded_app assms(2) by (auto simp: list_all_iff)
  then show ?thesis
    using gs requireAdmin_key requireAuth_session by (cases "e \<in> set admin_endpoints") fastforce+
qed

section \<open>The document against the routes\<close>

definition row_of :: "documented \<Rightarrow> route_row \<Rightarrow> bool" where
  "row_of d r \<longleftrightarrow> rr_method r = do_method d \<and> rr_path r = do_path d"

lemma documented_rows: "list_all (\<lambda>d. list_ex (row_of d) route_table) generateOpenApiDocument"
  by code_simp

text \<open>The first guard of every route that the document describes, against the header of its scheme.\<close>

fun needs_credentials :: "guard list \<Rightarrow> bool" where
  "needs_credentials (g # gs) = (g = UserAuth \<or> g = AdminAuth \<or> (g = Audited \<and> needs_credentials gs))"
| "needs_credentials [] = False"

definition sends_authorization :: "documented \<Rightarrow> bool" where
  "sends_authorization d = (''Authorization'' \<in> set (map (sc_header \<circ> security_schemes) (do_security d)))"

definition misdescribed :: "documented \<Rightarrow> bool" where
  "misdescribed d =
     (\<not> sends_authorization d \<and>
      list_ex (\<lambda>r. row_of d r \<and> needs_credentials (rr_mount r @ rr_guards r)) route_table)"

lemma misdescribed_operations:
  "map do_summary (filter misdescribed generateOpenApiDocument) =
     [''Create a payout transaction'', ''Get payout transaction by id'', ''Resolve a round (admin)'',
      ''Queue a signed payout XDR'']"
  by code_simp

text \<open>The operations that ask for a token of which the route takes no notice.\<close>

lemma overprotected_operations:
  "map do_summary (filter (\<lambda>d. sends_authorization d \<and>
       \<not> list_ex (\<lambda>r. row_of d r \<and> needs_credentials (rr_mount r @ rr_guards r)) route_table) generateOpenApiDocument) =
     [''Arena aggregate stats'', ''Paginated arena participants'']"
  by code_simp

lemma documented_count: "length generateOpenApiDocument = 12" "length route_table = 36"
  by code_simp+

lemma no_credentials_guards:
  "needs_credentials gs \<Longrightarrow> hq_authorization q = None \<Longrightarrow>
     run_guards V q gs c l = (Raise (HttpErr 401 ''UNAUTHORIZED'' ''Unauthorized''), l)"
  by (induction gs arbitrary: c) (auto simp: no_credentials)

lemma needs_credentials_later:
  "needs_credentials (gs @ hs) \<Longrightarrow> \<not> needs_credentials gs \<Longrightarrow>
     needs_credentials hs \<and> (\<exists>c'. run_guards V q gs c l = (Go c', l))"
  by (induction gs arbitrary: c) auto

text \<open>
  C32: A client that follows the document, and so sends no Authorization header where the document names no
  scheme in that header, is refused with 401 by every operation whose route has a guard for credentials: the
  creation, the reading and the signing of payouts, described as open, and the resolution of rounds, for
  which the document names a header that the server never reads.
\<close>

theorem document_followed_refused:
  assumes "d \<in> set generateOpenApiDocument" and "misdescribed d" and "follows q d" and "read_body q = Inr body"
  shows "sd_status (serve V q l) = 401 \<and>
    sd_outcome (serve V q l) = Some (Failed (HttpErr 401 ''UNAUTHORIZED'' ''Unauthorized''))"
proof -
  from assms(2) obtain r where r: "r \<in> set route_table" "row_of d r" "needs_credentials (rr_mount r @ rr_guards r)"
    by (auto simp: misdescribed_def list_ex_iff)
  have q: "hq_authorization q = None" "row_matches q r" "hq_method q \<noteq> M_OPTIONS"
    using assms(2,3) r(1,2) table_methods
    by (auto simp: follows_def misdescribed_def sends_authorization_def row_of_def row_matches_def method_matches_def
        list_all_iff)
  let ?e = "HttpErr 401 ''UNAUTHORIZED'' ''Unauthorized''"
  have "run_row V q r (start_context body) l = (Finished (Failed ?e) (Some (rr_label r)), l) \<or>
      run_row V q r (start_context body) l = (Finished (Failed ?e) None, l)"
  proof (cases "needs_credentials (rr_mount r)")
    case True
    then show ?thesis using no_credentials_guards [OF True q(1), where V = V and c = "start_context body" and l = l]
      by (simp add: run_row_def)
  next
    case False
    then obtain c' where "run_guards V q (rr_mount r) (start_context body) l = (Go c', l)"
      and "needs_credentials (rr_guards r)"
      using needs_credentials_later [OF r(3) False, where V = V and q = q and c = "start_context body" and l = l]
      by blast
    then show ?thesis
      using no_credentials_guards [OF _ q(1), where V = V and l = l] by (simp add: run_row_def)
  qed
  then show ?thesis
    using serve_row [OF r(1) q(2) assms(4) q(3), of V l] by (auto simp: routed_def errorHandler_def Let_def)
qed

section \<open>Witnesses\<close>

theorem request_meets_its_route_witness:
  "serve toy_server toy_payout_get (\<lambda>_. 0) =
     routed toy_server toy_payout_get (run_row toy_server toy_payout_get payout_row (start_context (JObj [])) (\<lambda>_. 0)) \<and>
   row_matches toy_payout_get payout_row \<and> \<not> row_matches toy_payout_get transaction_row"
proof -
  have get: "hq_method toy_payout_get \<noteq> M_OPTIONS" by (simp add: toy_request_sel)
  note met = request_meets_its_route [OF toy_rows_in(1) toy_rows_match(1) toy_request_sel(5) get, of toy_server "\<lambda>_. 0"]
  have "transaction_row \<noteq> payout_row" by (simp add: transaction_row_def payout_row_def)
  then have "\<not> row_matches toy_payout_get transaction_row" using met toy_rows_in(2) by blast
  then show ?thesis using met toy_rows_match(1) by blast
qed

lemma toy_served:
  "\<exists>c. sd_outcome (serve toy_server toy_payout_get l) = Some (Reached E_GetPayout c)"
  "\<exists>c. sd_outcome (serve toy_server toy_transaction_get l) = Some (Reached E_GetTransaction c)"
  using serve_row [OF toy_rows_in(1) toy_rows_match(1) toy_request_sel(5), of toy_server l]
    serve_row [OF toy_rows_in(2) toy_rows_match(2) toy_request_sel(6), of toy_server l] toy_run_rows [of l]
  by (auto simp: toy_request_sel routed_def Let_def)

theorem protected_endpoints_witness:
  "\<exists>c p. sd_outcome (serve toy_server toy_payout_get (\<lambda>_. 0)) = Some (Reached E_GetPayout c) \<and>
     decode_token (sv_lib toy_server) (sv_config toy_server) (sv_env toy_server) ''t0'' = Some p \<and>
     jp_type p = AccessToken \<and> isActive list_redis 1000 (jp_jti p) (au_redis toy_state)"
proof -
  obtain c where c: "sd_outcome (serve toy_server toy_payout_get (\<lambda>_. 0)) = Some (Reached E_GetPayout c)"
    using toy_served(1) by blast
  have "E_GetPayout \<notin> set public_endpoints" "E_GetPayout \<notin> set admin_endpoints"
    by (simp_all add: public_endpoints_def admin_endpoints_def)
  moreover have "bearer_token (Some ''Bearer t0'') = ''t0''" by (simp add: bearer_token_def)
  ultimately show ?thesis
    using protected_endpoints [OF c] c by (auto simp: toy_request_sel toy_server_def toy_env_def)
qed

theorem document_followed_refused_witness:
  "sd_status (serve toy_server (toy_get (''/api/payouts/'' @ toy_id) None) (\<lambda>_. 0)) = 401 \<and>
   sd_outcome (serve toy_server (toy_get (''/api/payouts/'' @ toy_id) None) (\<lambda>_. 0)) =
     Some (Failed (HttpErr 401 ''UNAUTHORIZED'' ''Unauthorized''))"
proof -
  define d where "d = registerPublicApiPaths ! 2"
  have d: "d \<in> set generateOpenApiDocument" "do_method d = M_GET" "do_path d = [Lit ''api'', Lit ''payouts'', IdParam]"
    "do_security d = []"
    by (simp_all add: d_def document_defs numeral_2_eq_2)
  have "row_of d payout_row" "needs_credentials (rr_mount payout_row @ rr_guards payout_row)"
    by (simp_all add: row_of_def d payout_row_def)
  then have "misdescribed d"
    using toy_rows_in(1) by (auto simp: misdescribed_def sends_authorization_def d list_ex_iff)
  moreover have "path_parts (''/api/payouts/'' @ toy_id) = [''api'', ''payouts'', toy_id]"
    using toy_parts(1) by (simp add: toy_payout_get_def toy_get_def)
  then have "follows (toy_get (''/api/payouts/'' @ toy_id) None) d"
    by (simp add: follows_def d toy_get_def same_part_def toy_lower) (simp add: toy_id_def)
  moreover have "read_body (toy_get (''/api/payouts/'' @ toy_id) None) = Inr (JObj [])"
    by (simp add: toy_get_def read_body_def)
  ultimately show ?thesis by (intro document_followed_refused [OF d(1)])
qed

section \<open>Single requests\<close>

text \<open>
  What the wiring of the backend does to single requests: the labels under which the metrics count them, the
  limit of the body against the schema of the signed transaction, and the ids that the routes accept; then
  the witnesses of this theory, on \<open>toy_server\<close>.
\<close>

section \<open>Labels of the metrics\<close>

lemma quiet_mounts: "list_all (\<lambda>r. quiet_guards (rr_mount r)) route_table"
  by code_simp

lemma finish_reached: "finish_route e lab g = (Finished (Reached f c) lab', l') \<Longrightarrow> f = e \<and> lab' = lab"
  by (cases "(e, lab, g)" rule: finish_route.cases) auto

lemma run_row_reached: "run_row V q r c l = (Finished (Reached e c') lab, l') \<Longrightarrow> e = rr_endpoint r \<and> lab = Some (rr_label r)"
  by (auto simp: run_row_def split: prod.splits guard_result.splits dest: finish_reached)

lemma reached_counted:
  assumes "r \<in> set route_table" and "row_matches q r" and "hq_method q \<noteq> M_OPTIONS"
    and "sd_outcome (serve V q l) = Some (Reached e c)"
  shows "e = rr_endpoint r \<and> sd_counted (serve V q l) = Some (hq_method q, rr_label r, sd_status (serve V q l))"
proof -
  obtain body where body: "read_body q = Inr body"
    using assms(3,4) by (auto simp: serve_def Let_def split: sum.splits)
  obtain d l' where d: "run_row V q r (start_context body) l = (d, l')" by fastforce
  show ?thesis
    using assms(4) serve_row [OF assms(1,2) body assms(3), of V l] d run_row_reached [of V q r "start_context body" l]
    by (cases d) (auto simp: routed_def Let_def)
qed

text \<open>
  The metrics of requests do not tell routes of different routers apart: the label is the path of the route
  within its router, so a request for a payout and one for a transaction with the same status, or the
  profiles of the two routers that have a route named me, are counted as the same route.
\<close>

theorem metrics_merge_routes:
  assumes "r \<in> set route_table" and "s \<in> set route_table" and "rr_label r = rr_label s"
    and "row_matches q r" and "row_matches p s" and "hq_method q = hq_method p" and "hq_method q \<noteq> M_OPTIONS"
    and "sd_outcome (serve V q l) = Some (Reached e c)" and "sd_outcome (serve V p k) = Some (Reached f d)"
    and "sd_status (serve V q l) = sd_status (serve V p k)"
  shows "sd_counted (serve V q l) = sd_counted (serve V p k)"
  using reached_counted [OF assms(1,4,7,8)] reached_counted [OF assms(2,5) _ assms(9)] assms(3,6,7,10) by simp

section \<open>Bodies\<close>

text \<open>
  The schema of a signed transaction allows 200,000 characters, but one of more than 102,400 bytes never
  reaches it: the parser of the body refuses it with 413, before the request gets an id and before the metrics
  see it.
\<close>

theorem long_xdr_never_signed:
  assumes "SignPayoutBodySchema (JObj [(''signedXdr'', JStr t)]) = Inr b" and "100 * 1024 < length t"
    and "length t \<le> hq_bodySize q" and "hq_method q = M_POST"
  shows "sd_status (serve V q l) = 413 \<and> sd_counted (serve V q l) = None \<and> sd_requestId (serve V q l) = None \<and>
    (\<forall>c. sd_outcome (serve V q l) \<noteq> Some (Reached E_SignPayout c))"
proof -
  have "read_body q = Inl (StatusError 413 ''request entity too large'')"
    using assms(2,3) by (auto simp: read_body_def body_limit_def)
  then show ?thesis using assms(4) by (simp add: serve_def errorHandler_def Let_def)
qed

section \<open>Ids\<close>

lemma legacy_id_shape:
  assumes "\<forall>x\<in>set h. is_hex x"
  shows "LEGACY_TRANSACTION_ID_REGEX (''tx_'' @ dec_digits now @ CHR ''_'' # h) \<longleftrightarrow> 10 \<le> length (dec_digits now) \<and> length h = 8"
proof -
  have d: "\<forall>x\<in>set (dec_digits now). is_digit x" using digits_are_digits by (simp add: list_all_iff)
  have u: "\<not> is_digit (CHR ''_'')" by (simp add: char_class_defs)
  have "takeWhile is_digit (dec_digits now @ CHR ''_'' # h) = dec_digits now"
    "dropWhile is_digit (dec_digits now @ CHR ''_'' # h) = CHR ''_'' # h"
    using d u by (simp_all add: takeWhile_append2 dropWhile_append2)
  moreover have "lower_text ''tx_'' = ''tx_''" by (simp add: lower_text_def lower_ascii_def char_class_defs)
  ultimately show ?thesis using assms by (simp add: LEGACY_TRANSACTION_ID_REGEX_def list_all_iff)
qed

text \<open>
  Where the platform has no random UUIDs, a payout gets an id of its own form, and the routes that read,
  sign and submit it accept that id exactly when the random number had eight hexadecimal digits: a payout
  whose number had fewer can never be signed.
\<close>

theorem short_fallback_ids_refused:
  assumes "\<forall>x\<in>set f. is_hex x" and "f \<noteq> []" and "10 \<le> length (dec_digits now)" and "length (dec_digits now) \<le> 20"
    and "\<not> uuid (generateRecordId None now f)"
  shows "TransactionIdSchema uuid (generateRecordId None now f) =
    (if 8 \<le> length f then Inr (generateRecordId None now f)
     else Inl (ZodFailure ''id must be a UUID, Mongo ObjectId, or legacy tx id''))"
proof -
  define h where "h = take 8 f"
  let ?i = "''tx_'' @ dec_digits now @ CHR ''_'' # h"
  have i: "generateRecordId None now f = ?i" by (simp add: generateRecordId_def h_def)
  have hx: "\<forall>x\<in>set h. is_hex x" using assms(1) by (auto simp: h_def dest: in_set_takeD)
  have h: "h \<noteq> []" "length h \<le> 8" "length h = 8 \<longleftrightarrow> 8 \<le> length f" using assms(2) by (auto simp: h_def)
  have "is_hex (last h)" using h(1) hx by simp
  then have "\<not> is_space (last ?i)" using h(1) by (auto simp: is_space_def is_hex_def char_class_defs)
  then have trim: "js_trim ?i = ?i" by (intro js_trim_id) (simp_all add: is_space_def char_class_defs)
  have "\<not> is_hex (CHR ''t'')" by (simp add: is_hex_def char_class_defs)
  then have "\<not> MONGO_OBJECT_ID_REGEX ?i" by (simp add: MONGO_OBJECT_ID_REGEX_def)
  then show ?thesis
    using legacy_id_shape [OF hx, of now] assms(3-5) h trim unfolding i by (simp add: TransactionIdSchema_def Let_def)
qed

section \<open>Witnesses\<close>

lemma toy_ok: "sd_status (serve toy_server toy_payout_get l) = 200" "sd_status (serve toy_server toy_transaction_get l) = 200"
  using serve_row [OF toy_rows_in(1) toy_rows_match(1) toy_request_sel(5), of toy_server l]
    serve_row [OF toy_rows_in(2) toy_rows_match(2) toy_request_sel(6), of toy_server l] toy_run_rows [of l]
  by (auto simp: toy_request_sel routed_def Let_def asyncHandler_def) (simp_all add: toy_server_def)

theorem metrics_merge_routes_witness:
  "rr_endpoint payout_row \<noteq> rr_endpoint transaction_row \<and>
   sd_counted (serve toy_server toy_payout_get (\<lambda>_. 0)) = sd_counted (serve toy_server toy_transaction_get (\<lambda>_. 0))"
proof -
  obtain c d where "sd_outcome (serve toy_server toy_payout_get (\<lambda>_. 0)) = Some (Reached E_GetPayout c)"
    "sd_outcome (serve toy_server toy_transaction_get (\<lambda>_. 0)) = Some (Reached E_GetTransaction d)"
    using toy_served by blast
  from metrics_merge_routes [OF toy_rows_in _ toy_rows_match _ _ this]
  show ?thesis by (simp add: payout_row_def transaction_row_def toy_request_sel toy_ok)
qed

definition toy_long_xdr :: string where
  "toy_long_xdr = replicate 102401 (CHR ''A'')"

theorem long_xdr_never_signed_witness:
  "\<exists>b. SignPayoutBodySchema (JObj [(''signedXdr'', JStr toy_long_xdr)]) = Inr b \<and>
     sd_status (serve toy_server ((toy_get ''/api/payouts/1/sign'' None)\<lparr>hq_method := M_POST, hq_bodySize := 102420\<rparr>) (\<lambda>_. 0)) = 413"
proof -
  have n: "length toy_long_xdr = 102401" "toy_long_xdr \<noteq> []" "hd toy_long_xdr = CHR ''A''" "last toy_long_xdr = CHR ''A''"
    by (simp_all add: toy_long_xdr_def last_replicate hd_replicate)
  have trim: "js_trim toy_long_xdr = toy_long_xdr"
    by (rule js_trim_id) (simp_all add: n is_space_def char_class_defs)
  have s: "SignPayoutBodySchema (JObj [(''signedXdr'', JStr toy_long_xdr)]) = Inr (JObj [(''signedXdr'', JStr toy_long_xdr)])"
    by (simp add: SignPayoutBodySchema_def trim n)
  from long_xdr_never_signed [OF s, where V = toy_server and l = "\<lambda>_. 0"
      and q = "(toy_get ''/api/payouts/1/sign'' None)\<lparr>hq_method := M_POST, hq_bodySize := 102420\<rparr>"] n s
  show ?thesis by (simp add: toy_get_def)
qed

theorem short_fallback_ids_refused_witness:
  "TransactionIdSchema (\<lambda>_. False) (generateRecordId None 1000000000 ''8'') =
     Inl (ZodFailure ''id must be a UUID, Mongo ObjectId, or legacy tx id'')"
proof -
  have "length (dec_digits 1000000000) = 10" by (simp add: dec_digits.simps)
  then show ?thesis
    using short_fallback_ids_refused [of "''8''" 1000000000 "\<lambda>_. False"] by (simp add: is_hex_def char_class_defs)
qed

end
