(* ===== verification/ArenaCreation.thy ===== *)
theory ArenaCreation
  imports ArenaStats ArenaRoutes ApiDocs
begin

text \<open>
  The creation of an arena: the schema and the handler of POST /api/arenas in backend/src/routes/arenas.ts
  and \<open>confirmArenaDeployment\<close> of backend/src/services/arenaService.ts, and the creation of a pool in
  backend/src/routes/pools.ts.

  arenaService.ts uses the names \<open>rpc\<close>, \<open>Server\<close>, \<open>Address\<close> and
  \<open>scValToNative\<close> of the SDK without importing them. What these names are bound to is an argument:
  \<open>None\<close> as the file stands, \<open>Some\<close> were they imported.
\<close>

section \<open>Bodies\<close>

record create_input =
  ci_entryFee :: rat
  ci_maxPlayers :: int
  ci_joinDeadline :: string
  ci_stakeToken :: string
  ci_name :: string

definition TX_HASH_REGEX :: "string \<Rightarrow> bool" where
  "TX_HASH_REGEX s \<longleftrightarrow> length s = 64 \<and> list_all is_hex s"

definition CONTRACT_ID_REGEX :: "string \<Rightarrow> bool" where
  "CONTRACT_ID_REGEX s = contract_id_regex s"

text \<open>A required string, trimmed, with its least and greatest length.\<close>

definition bounded_text :: "string \<Rightarrow> nat \<Rightarrow> nat \<Rightarrow> jval \<Rightarrow> js_error + string" where
  "bounded_text k lo hi body =
     (case jfield k body of
        Some (JStr t) \<Rightarrow>
          if lo \<le> length (js_trim t) \<and> length (js_trim t) \<le> hi then Inr (js_trim t) else Inl (ZodFailure k)
      | _ \<Rightarrow> Inl (ZodFailure k))"

definition CreateArenaSchema :: "(string \<Rightarrow> bool) \<Rightarrow> jval \<Rightarrow> js_error + create_input \<times> string" where
  "CreateArenaSchema datetime body =
     (case (jfield ''entryFee'' body, jfield ''maxPlayers'' body, jfield ''joinDeadline'' body) of
        (Some (JNum fee), Some (JNum players), Some (JStr deadline)) \<Rightarrow>
          if \<not> 0 < fee then Inl (ZodFailure ''entryFee'')
          else if players \<noteq> of_int \<lfloor>players\<rfloor> \<or> players < 2 then Inl (ZodFailure ''maxPlayers'')
          else if \<not> datetime deadline then Inl (ZodFailure ''joinDeadline'')
          else (case (bounded_text ''stakeToken'' 1 32 body, bounded_text ''name'' 1 120 body,
                      jfield ''txHash'' body) of
                  (Inr token, Inr nm, Some (JStr h)) \<Rightarrow>
                    if TX_HASH_REGEX (js_trim h)
                    then Inr (\<lparr>ci_entryFee = fee, ci_maxPlayers = \<lfloor>players\<rfloor>, ci_joinDeadline = deadline,
                               ci_stakeToken = token, ci_name = nm\<rparr>, js_trim h)
                    else Inl (ZodFailure ''txHash'')
                | _ \<Rightarrow> Inl (ZodFailure ''body''))
      | _ \<Rightarrow> Inl (ZodFailure ''body''))"

section \<open>The service\<close>

text \<open>
  A transaction as \<open>getTransaction\<close> answers it; \<open>rp_addressOf\<close> is
  \<open>Address.fromScAddress(scValToNative(v)).toString()\<close>, which may raise.
\<close>

record 'v chain_tx =
  ct_succeeded :: bool
  ct_contract :: string
  ct_source :: string
  ct_returnValue :: "'v option"

record 'v rpc_module =
  rp_getTransaction :: "string \<Rightarrow> js_error + 'v chain_tx"
  rp_addressOf :: "'v \<Rightarrow> js_error + string"

record deployment_meta =
  dm_input :: create_input
  dm_createdBy :: string
  dm_contractAddress :: string
  dm_txHash :: string
  dm_factoryContractId :: "string option"

record arena_doc =
  ad_id :: string
  ad_metadata :: deployment_meta
  ad_createdAt :: int

definition confirmArenaDeployment ::
    "'v rpc_module option \<Rightarrow> (arena_doc, 'a) coll \<Rightarrow> string option \<Rightarrow> int \<Rightarrow> create_input \<Rightarrow> string \<Rightarrow> string \<Rightarrow> 'a \<Rightarrow>
     (js_error + arena_doc) \<times> 'a" where
  "confirmArenaDeployment sdk A factoryContractId now input createdBy txHash s =
     (if \<not> TX_HASH_REGEX txHash then (Inl (Error ''Invalid transaction hash''), s)
      else (case sdk of
         None \<Rightarrow> (Inl (Error ''Server is not defined''), s)
       | Some R \<Rightarrow>
          (case rp_getTransaction R txHash of
             Inl e \<Rightarrow> (Inl e, s)
           | Inr tx \<Rightarrow>
               if \<not> ct_succeeded tx
               then (Inl (Error (''Arena deployment transaction '' @ txHash @ '' did not succeed on-chain'')), s)
               else (case ct_returnValue tx of
                  None \<Rightarrow> (Inl (Error (''Arena deployment transaction '' @ txHash @ '' returned no arena address'')), s)
                | Some v \<Rightarrow>
                    (case rp_addressOf R v of
                       Inl e \<Rightarrow> (Inl e, s)
                     | Inr arenaId \<Rightarrow>
                         if \<not> CONTRACT_ID_REGEX arenaId
                         then (Inl (Error ''Deployed arena address is not a valid Soroban contract ID''), s)
                         else
                           let d = \<lparr>ad_id = arenaId,
                                 ad_metadata = \<lparr>dm_input = input, dm_createdBy = createdBy, dm_contractAddress = arenaId,
                                   dm_txHash = txHash, dm_factoryContractId = factoryContractId\<rparr>,
                                 ad_createdAt = now\<rparr>
                           in (case c_create A d s of
                                 (Inl e, s') \<Rightarrow> (Inl e, s')
                               | (Inr _, s') \<Rightarrow> (Inr d, s')))))))"

text \<open>What the file imports for these names: nothing. The returned values would be XDR texts.\<close>

definition arenaService_sdk :: "string rpc_module option" where
  "arenaService_sdk = None"

section \<open>The handlers\<close>

text \<open>\<open>wallet\<close> is \<open>req.user?.walletAddress\<close>.\<close>

definition post_arena ::
    "'v rpc_module option \<Rightarrow> (arena_doc, 'a) coll \<Rightarrow> (string \<Rightarrow> bool) \<Rightarrow> string option \<Rightarrow> int \<Rightarrow> string option \<Rightarrow> jval \<Rightarrow> 'a \<Rightarrow>
     (js_error + arena_doc) \<times> 'a" where
  "post_arena sdk A datetime factoryContractId now wallet body s =
     (case CreateArenaSchema datetime body of
        Inl e \<Rightarrow> (Inl e, s)
      | Inr (input, txHash) \<Rightarrow>
          if \<not> truthy wallet then (Inl (HttpErr 401 ''UNAUTHORIZED'' ''Unauthorized''), s)
          else confirmArenaDeployment sdk A factoryContractId now input (the wallet) txHash s)"

text \<open>The pools: a row of the arena's id and the stake; \<open>knows\<close> is the foreign key.\<close>

record pool_doc =
  po_arenaId :: string
  po_stakeAmount :: rat

definition post_pool :: "(pool_doc, 'p) coll \<Rightarrow> (string \<Rightarrow> bool) \<Rightarrow> jval \<Rightarrow> 'p \<Rightarrow> (js_error + pool_doc) \<times> 'p" where
  "post_pool C knows body s =
     (case (jfield ''arenaId'' body, jfield ''stakeAmount'' body) of
        (Some (JStr i), Some (JNum n)) \<Rightarrow>
          if \<not> PoolCreateSchema i n then (Inl (ZodFailure ''body''), s)
          else if \<not> knows i then (Inl (Error ''Foreign key constraint violated''), s)
          else (case c_create C \<lparr>po_arenaId = i, po_stakeAmount = n\<rparr> s of
                  (Inl e, s') \<Rightarrow> (Inl e, s')
                | (Inr _, s') \<Rightarrow> (Inr \<lparr>po_arenaId = i, po_stakeAmount = n\<rparr>, s'))
      | _ \<Rightarrow> (Inl (ZodFailure ''body''), s))"

section \<open>Properties\<close>

lemma schema_hash: "CreateArenaSchema datetime body = Inr (input, h) \<Longrightarrow> TX_HASH_REGEX h"
  by (auto simp: CreateArenaSchema_def split: option.splits jval.splits sum.splits if_splits)

lemma schema_error: "CreateArenaSchema datetime body = Inl e \<Longrightarrow> error_status e = 400"
  by (auto simp: CreateArenaSchema_def split: option.splits jval.splits sum.splits if_splits)

lemma post_arena_unbound:
  "\<exists>e. post_arena arenaService_sdk A datetime f now wallet body s = (Inl e, s) \<and> error_status e \<in> {400, 401, 500}"
  by (auto simp: post_arena_def arenaService_sdk_def confirmArenaDeployment_def schema_hash
      split: sum.splits dest: schema_error)

lemma post_arena_valid:
  "CreateArenaSchema datetime body = Inr (input, h) \<Longrightarrow> truthy wallet \<Longrightarrow>
     post_arena arenaService_sdk A datetime f now wallet body s = (Inl (Error ''Server is not defined''), s)"
  by (simp add: post_arena_def arenaService_sdk_def confirmArenaDeployment_def schema_hash)

definition cx_wallet :: "req_context \<Rightarrow> string option" where
  "cx_wallet c = map_option ru_walletAddress (cx_user c)"


context collection
begin

lemma create_stored: "\<not> conflict d (c_all C s) \<Longrightarrow> \<exists>s'. c_create C d s = (Inr (), s') \<and> d \<in> set (c_all C s')"
  using create_ok [of d s] by auto

end

text \<open>
  With the names imported, the check of a deployment would not look at who made the transaction, nor at the
  contract that it called: any user could register the address that any successful transaction of anyone
  returned, as an arena of their own, although the comment says that the configured factory is checked.
\<close>

theorem any_transaction_registers_arena:
  assumes "collection A conflict" and "TX_HASH_REGEX h"
    and "rp_getTransaction R h = Inr \<lparr>ct_succeeded = True, ct_contract = other, ct_source = owner, ct_returnValue = Some v\<rparr>"
    and "rp_addressOf R v = Inr i" and "CONTRACT_ID_REGEX i"
    and "\<And>d. ad_id d = i \<Longrightarrow> \<not> conflict d (c_all A s)"
  shows "\<exists>d s'. confirmArenaDeployment (Some R) A factory now input w h s = (Inr d, s') \<and> d \<in> set (c_all A s') \<and>
    ad_id d = i \<and> dm_createdBy (ad_metadata d) = w"
proof -
  let ?d = "\<lparr>ad_id = i, ad_metadata = \<lparr>dm_input = input, dm_createdBy = w, dm_contractAddress = i, dm_txHash = h,
    dm_factoryContractId = factory\<rparr>, ad_createdAt = now\<rparr>"
  have "\<not> conflict ?d (c_all A s)" using assms(6) by simp
  then obtain s' where "c_create A ?d s = (Inr (), s')" "?d \<in> set (c_all A s')"
    using collection.create_stored [OF assms(1)] by blast
  then show ?thesis using assms(2-5) by (simp add: confirmArenaDeployment_def)
qed

text \<open>
  The creation of a pool stores exactly one row, of the arena and the stake of the body, or nothing: nothing
  when the body breaks the schema, when the arena is unknown, or when the database refuses.
\<close>

theorem pool_stored_or_refused:
  assumes "collection C conflict" and "post_pool C knows body s = (r, s')"
  shows "(case r of
      Inl e \<Rightarrow> s' = s
    | Inr p \<Rightarrow> c_all C s' = c_all C s @ [p] \<and> PoolCreateSchema (po_arenaId p) (po_stakeAmount p) \<and>
        knows (po_arenaId p) \<and> jfield ''arenaId'' body = Some (JStr (po_arenaId p)) \<and>
        jfield ''stakeAmount'' body = Some (JNum (po_stakeAmount p)))"
  using assms(2)
  by (auto simp: post_pool_def split: option.splits jval.splits if_splits sum.splits prod.splits
      dest: collection.create_result [OF assms(1)])

section \<open>Witnesses\<close>

definition same_arena :: "arena_doc \<Rightarrow> arena_doc list \<Rightarrow> bool" where
  "same_arena d ds = list_ex (\<lambda>e. ad_id e = ad_id d) ds"

definition create_row :: route_row where
  "create_row = \<lparr>rr_method = M_POST, rr_path = [Lit ''api'', Lit ''arenas''], rr_mount = [], rr_guards = [UserAuth],
     rr_endpoint = E_CreateArena, rr_label = ''/''\<rparr>"

lemma create_row_in: "create_row \<in> set route_table"
proof -
  have "list_ex (\<lambda>r. r = create_row) route_table" by code_simp
  then show ?thesis by (simp add: list_ex_iff)
qed

definition toy_create :: http_request where
  "toy_create = (toy_get ''/api/arenas'' (Some ''Bearer t0''))\<lparr>hq_method := M_POST\<rparr>"

definition toy_arena_server ::
    "(nonce_doc list, user_doc list, refresh_doc list, list_store, string \<Rightarrow> nat, list_store \<times> (string \<times> string) list) server" where
  "toy_arena_server = toy_server\<lparr>sv_handler := \<lambda>_ c. map_sum id (\<lambda>d. (201, JStr (ad_id d)))
     (fst (post_arena arenaService_sdk (list_coll same_arena) (\<lambda>_. True) (sv_vars toy_server ''ARENA_FACTORY_CONTRACT_ID'') 0
        (cx_wallet c) (cx_body c) []))\<rparr>"

lemma toy_arena_auth:
  "requireAuth (sv_stores toy_arena_server) (sv_lib toy_arena_server) (sv_config toy_arena_server)
     (sv_env toy_arena_server) (Some ''Bearer t0'') (sv_auth toy_arena_server) =
   Inr \<lparr>ru_id = ''1'', ru_walletAddress = ''W'', ru_jti = ''t0''\<rparr>"
  using toy_auth by (simp add: toy_arena_server_def)

lemma toy_create_reached:
  "\<exists>c. sd_outcome (serve toy_arena_server toy_create l) = Some (Reached E_CreateArena c)"
proof -
  have parts: "path_parts (hq_path toy_create) = [''api'', ''arenas'']"
    by (simp add: toy_create_def toy_get_def path_parts_def Let_def)
  have low: "lower_text ''api'' = ''api''" "lower_text ''arenas'' = ''arenas''"
    by (simp_all add: lower_text_def lower_ascii_def char_class_defs)
  have q: "hq_method toy_create = M_POST" "hq_authorization toy_create = Some ''Bearer t0''"
    "read_body toy_create = Inr (JObj [])"
    by (simp_all add: toy_create_def toy_get_def read_body_def)
  have "row_matches toy_create create_row"
    by (simp add: row_matches_def create_row_def parts low q method_matches_def same_part_def)
  then show ?thesis
    using serve_row [OF create_row_in _ q(3), of toy_arena_server l]
    by (simp add: q run_row_def create_row_def toy_arena_auth routed_def Let_def)
qed


definition toy_deployed :: string where
  "toy_deployed = CHR ''C'' # replicate 55 (CHR ''A'')"

definition toy_sdk :: "string rpc_module" where
  "toy_sdk = \<lparr>rp_getTransaction = (\<lambda>_. Inr \<lparr>ct_succeeded = True, ct_contract = ''other'', ct_source = ''owner'',
     ct_returnValue = Some ''v''\<rparr>), rp_addressOf = (\<lambda>_. Inr toy_deployed)\<rparr>"

theorem any_transaction_registers_arena_witness:
  "\<exists>d s'. confirmArenaDeployment (Some toy_sdk) (list_coll same_arena) (Some ''factory'') 0
      \<lparr>ci_entryFee = 1, ci_maxPlayers = 2, ci_joinDeadline = [], ci_stakeToken = ''XLM'', ci_name = ''mine''\<rparr> ''W''
      (replicate 64 (CHR ''a'')) [] = (Inr d, s') \<and>
    d \<in> set (c_all (list_coll same_arena) s') \<and> ad_id d = toy_deployed \<and> dm_createdBy (ad_metadata d) = ''W''"
proof (rule any_transaction_registers_arena [OF list_coll.collection_axioms])
  show "TX_HASH_REGEX (replicate 64 (CHR ''a''))"
    by (simp add: TX_HASH_REGEX_def list_all_iff is_hex_def char_class_defs)
  show "CONTRACT_ID_REGEX toy_deployed"
    by (simp add: CONTRACT_ID_REGEX_def contract_id_regex_def toy_deployed_def list_all_iff char_class_defs)
qed (simp_all add: toy_sdk_def same_arena_def)

definition same_pool :: "pool_doc \<Rightarrow> pool_doc list \<Rightarrow> bool" where
  "same_pool d ds = False"

theorem pool_stored_or_refused_witness:
  "snd (post_pool (list_coll same_pool) (\<lambda>i. i = toy_deployed)
      (JObj [(''arenaId'', JStr toy_deployed), (''stakeAmount'', JNum 5)]) []) = [\<lparr>po_arenaId = toy_deployed, po_stakeAmount = 5\<rparr>] \<and>
   PoolCreateSchema toy_deployed 5"
proof -
  let ?b = "JObj [(''arenaId'', JStr toy_deployed), (''stakeAmount'', JNum 5)]"
  have ok: "PoolCreateSchema toy_deployed 5"
    by (simp add: PoolCreateSchema_def contract_id_regex_def toy_deployed_def list_all_iff char_class_defs)
  obtain r s' where p: "post_pool (list_coll same_pool) (\<lambda>i. i = toy_deployed) ?b [] = (r, s')" by (cases "post_pool (list_coll same_pool) (\<lambda>i. i = toy_deployed) ?b []") auto
  have "r = Inr \<lparr>po_arenaId = toy_deployed, po_stakeAmount = 5\<rparr>" "s' = [\<lparr>po_arenaId = toy_deployed, po_stakeAmount = 5\<rparr>]"
    using p ok by (auto simp: post_pool_def same_pool_def list_coll_def)
  then show ?thesis using pool_stored_or_refused [OF list_coll.collection_axioms p] p by simp
qed

end
