(* ===== verification/EventFrames.thy ===== *)
theory EventFrames
  imports HttpCache
begin

text \<open>
  The text of the event stream: \<open>sendEvent\<close> and \<open>sendSnapshot\<close> of GET /api/arenas/:id/stream in
  backend/src/routes/arenas.ts, and the reader of the browser, \<open>EventSource\<close>, as the HTML standard
  describes it for lines that end with a line feed.
\<close>

section \<open>Writing\<close>

definition newline :: char where
  "newline = CHR 0x0A"

definition event_frame :: "string \<Rightarrow> string \<Rightarrow> string" where
  "event_frame event data = ''event: '' @ event @ [newline] @ ''data: '' @ data @ [newline, newline]"

text \<open>A response: whether it has ended, and what was written. A payload is sent as JSON.\<close>

record sse_response =
  sr_ended :: bool
  sr_written :: string

definition stream_sendEvent :: "(jval \<Rightarrow> string) \<Rightarrow> string \<Rightarrow> jval \<Rightarrow> sse_response \<Rightarrow> sse_response" where
  "stream_sendEvent stringify event payload r =
     (if sr_ended r then r else r\<lparr>sr_written := sr_written r @ event_frame event (stringify payload)\<rparr>)"

definition stream_sendSnapshot :: "(jval \<Rightarrow> string) \<Rightarrow> jval \<Rightarrow> sse_response \<Rightarrow> sse_response" where
  "stream_sendSnapshot stringify data r =
     (if sr_ended r then r else r\<lparr>sr_written := sr_written r @ event_frame ''snapshot'' (stringify data)\<rparr>)"

datatype stream_write = SendEvent string jval | SendSnapshot jval | CloseStream

fun apply_write :: "(jval \<Rightarrow> string) \<Rightarrow> stream_write \<Rightarrow> sse_response \<Rightarrow> sse_response" where
  "apply_write stringify (SendEvent event payload) r = stream_sendEvent stringify event payload r"
| "apply_write stringify (SendSnapshot data) r = stream_sendSnapshot stringify data r"
| "apply_write stringify CloseStream r = r\<lparr>sr_ended := True\<rparr>"

definition empty_response :: sse_response where
  "empty_response = \<lparr>sr_ended = False, sr_written = []\<rparr>"

text \<open>What the writes before the end amount to.\<close>

fun sent_events :: "stream_write list \<Rightarrow> (string \<times> jval) list" where
  "sent_events [] = []"
| "sent_events (SendEvent event payload # ws) = (event, payload) # sent_events ws"
| "sent_events (SendSnapshot data # ws) = (''snapshot'', data) # sent_events ws"
| "sent_events (CloseStream # ws) = []"

section \<open>Reading\<close>

text \<open>The buffers of the event's name and of its data, and the messages that were dispatched.\<close>

record sse_reader =
  eb_event :: string
  eb_data :: "string list"
  eb_messages :: "(string \<times> string) list"

definition field_value :: "string \<Rightarrow> string" where
  "field_value v = (case v of [] \<Rightarrow> [] | c # cs \<Rightarrow> if c = CHR '' '' then cs else v)"

definition read_line :: "string \<Rightarrow> sse_reader \<Rightarrow> sse_reader" where
  "read_line line r =
     (if line = []
      then \<lparr>eb_event = [], eb_data = [],
            eb_messages = (if eb_data r = [] then eb_messages r
              else eb_messages r @ [(if eb_event r = [] then ''message'' else eb_event r,
                                     tl (concat (map (\<lambda>d. newline # d) (eb_data r))))])\<rparr>
      else (let field = takeWhile (\<lambda>c. c \<noteq> CHR '':'') line; rest = dropWhile (\<lambda>c. c \<noteq> CHR '':'') line in
            if field = ''event'' then r\<lparr>eb_event := field_value (drop 1 rest)\<rparr>
            else if field = ''data'' then r\<lparr>eb_data := eb_data r @ [field_value (drop 1 rest)]\<rparr>
            else r))"

text \<open>A line is complete with its line feed; an incomplete last line waits.\<close>

definition read_stream :: "string \<Rightarrow> sse_reader \<Rightarrow> sse_reader" where
  "read_stream text r = fold read_line (butlast (js_split newline text)) r"

definition opened :: sse_reader where
  "opened = \<lparr>eb_event = [], eb_data = [], eb_messages = []\<rparr>"

section \<open>Properties\<close>

lemma split_two_lines:
  "c \<notin> set E \<Longrightarrow> c \<notin> set D \<Longrightarrow> js_split c (E @ c # D @ c # c # rest) = [E, D, []] @ js_split c rest"
  by (simp add: js_split_append_sep)

lemma split_frame:
  "newline \<notin> set e \<Longrightarrow> newline \<notin> set d \<Longrightarrow>
     js_split newline (event_frame e d @ rest) = [''event: '' @ e, ''data: '' @ d, []] @ js_split newline rest"
  using split_two_lines [of newline "''event: '' @ e" "''data: '' @ d" rest]
  by (simp add: event_frame_def newline_def)

lemma read_frame:
  "e \<noteq> [] \<Longrightarrow> fold read_line [''event: '' @ e, ''data: '' @ d, []] \<lparr>eb_event = [], eb_data = [], eb_messages = ms\<rparr> =
     \<lparr>eb_event = [], eb_data = [], eb_messages = ms @ [(e, d)]\<rparr>"
  by (simp add: read_line_def field_value_def Let_def)

lemma read_frames:
  "\<forall>(e, d)\<in>set es. e \<noteq> [] \<and> newline \<notin> set e \<and> newline \<notin> set d \<Longrightarrow>
     read_stream (concat (map (\<lambda>(e, d). event_frame e d) es)) \<lparr>eb_event = [], eb_data = [], eb_messages = ms\<rparr> =
     \<lparr>eb_event = [], eb_data = [], eb_messages = ms @ es\<rparr>"
proof (induction es arbitrary: ms)
  case (Cons x es)
  obtain e d where x: "x = (e, d)" by (cases x) auto
  have ne: "js_split newline t \<noteq> []" for t by (rule js_split_nonempty)
  have "read_stream (event_frame e d @ t) r = read_stream t (fold read_line [''event: '' @ e, ''data: '' @ d, []] r)" for t r
    using split_frame [of e d t] Cons.prems ne by (simp add: read_stream_def x)
  then show ?case using Cons read_frame [of e d ms] by (simp add: x)
qed (simp add: read_stream_def)

lemma written_after_end: "sr_ended r \<Longrightarrow> sr_written (fold (apply_write f) ws r) = sr_written r"
proof (induction ws arbitrary: r)
  case (Cons w ws)
  then show ?case by (cases w) (simp_all add: stream_sendEvent_def stream_sendSnapshot_def)
qed simp

lemma written_frames:
  "\<not> sr_ended r \<Longrightarrow> sr_written (fold (apply_write f) ws r) =
     sr_written r @ concat (map (\<lambda>(e, d). event_frame e d) (map (\<lambda>(e, v). (e, f v)) (sent_events ws)))"
proof (induction ws arbitrary: r)
  case (Cons w ws)
  then show ?case
    by (cases w) (simp_all add: stream_sendEvent_def stream_sendSnapshot_def written_after_end)
qed simp

text \<open>
  C26: What the route of the stream writes the browser reads back: the messages that an \<open>EventSource\<close>
  dispatches are the events and snapshots sent before the response ended, each once and in order, with their
  names and payloads. The text of JSON has no line feed, and the names of the events have none.
\<close>

theorem stream_read_back:
  assumes "\<forall>(e, v)\<in>set (sent_events ws). e \<noteq> [] \<and> newline \<notin> set e \<and> newline \<notin> set (stringify v) \<and>
      parse (stringify v) = (Inr v :: js_error + jval)"
  shows "map (\<lambda>(e, t). (e, parse t))
      (eb_messages (read_stream (sr_written (fold (apply_write stringify) ws empty_response)) opened)) =
    map (\<lambda>(e, v). (e, Inr v)) (sent_events ws)"
proof -
  let ?es = "map (\<lambda>(e, v). (e, stringify v)) (sent_events ws)"
  have "\<forall>(e, d)\<in>set ?es. e \<noteq> [] \<and> newline \<notin> set e \<and> newline \<notin> set d" using assms by auto
  from read_frames [OF this, of "[]"] show ?thesis
    using written_frames [of empty_response stringify ws] assms by (auto simp: empty_response_def opened_def)
qed

theorem stream_read_back_witness:
  "map (\<lambda>(e, t). (e, (if t = ''null'' then Inr JNull else Inr (JBool True)) :: js_error + jval))
     (eb_messages (read_stream (sr_written (fold (apply_write (\<lambda>v. if v = JNull then ''null'' else ''true''))
        [SendSnapshot JNull, SendEvent ''round_resolved'' (JBool True), CloseStream, SendEvent ''late'' JNull] empty_response)) opened)) =
   [(''snapshot'', Inr JNull), (''round_resolved'', Inr (JBool True))]"
  using stream_read_back [of "[SendSnapshot JNull, SendEvent ''round_resolved'' (JBool True), CloseStream, SendEvent ''late'' JNull]"
      "\<lambda>v. if v = JNull then ''null'' else ''true''" "\<lambda>t. if t = ''null'' then Inr JNull else Inr (JBool True)"]
  by (simp add: newline_def del: apply_write.simps fold_simps)

end
