(* ===== verification/Privacy.thy ===== *)
theory Privacy
  imports Prelude
begin

text \<open>
  What leaves the program in error reports: \<open>scrubStellarAddresses\<close> of frontend/src/lib/sentry.ts with the
  three configurations frontend/sentry.client.config.ts, sentry.server.config.ts and sentry.edge.config.ts, and
  \<open>initSentry\<close>, \<open>reportErrorToSentry\<close> and \<open>maskWalletAddress\<close> of backend/src/utils. The serialisation
  of an event is a parameter.
\<close>

section \<open>Patterns\<close>

text \<open>\<open>c[A-Z2-7]{55}\<close> at the beginning of a text, and anywhere in it.\<close>

definition key_at :: "char \<Rightarrow> string \<Rightarrow> bool" where
  "key_at c s \<longleftrightarrow> 56 \<le> length s \<and> hd s = c \<and> list_all is_base32 (take 55 (drop 1 s))"

fun has_key :: "char \<Rightarrow> string \<Rightarrow> bool" where
  "has_key c [] = False"
| "has_key c (x # s) = (key_at c (x # s) \<or> has_key c s)"

definition STELLAR_ADDRESS :: string where
  "STELLAR_ADDRESS = ''[STELLAR_ADDRESS]''"

text \<open>\<open>text.replace(/G[A-Z2-7]{55}/g, ...)\<close>: from left to right, on behind each match.\<close>

function redactPublicKeys :: "string \<Rightarrow> string" where
  "redactPublicKeys [] = []"
| "redactPublicKeys (x # s) =
     (if key_at (CHR ''G'') (x # s) then STELLAR_ADDRESS @ redactPublicKeys (drop 56 (x # s))
      else x # redactPublicKeys s)"
  by pat_completeness auto
termination
  by (relation "measure length") auto

section \<open>Events\<close>

text \<open>
  The fields of an event that the functions read, and \<open>ev_rest\<close>, what they leave alone: its message, its
  request, its tags and extras. A breadcrumb has a message, the url of its data and the rest of its data.
\<close>

record breadcrumb =
  bc_message :: "string option"
  bc_url :: "string option"
  bc_rest :: "string list"

record event_user =
  eu_id :: "string option"
  eu_rest :: "string list"

record sentry_event =
  ev_user :: "event_user option"
  ev_exceptions :: "string option list"
  ev_breadcrumbs :: "breadcrumb list"
  ev_rest :: "string list"

text \<open>An empty text is left as it is.\<close>

definition redact_field :: "string option \<Rightarrow> string option" where
  "redact_field v = (case v of None \<Rightarrow> None | Some t \<Rightarrow> if t = [] then Some t else Some (redactPublicKeys t))"

definition scrub_breadcrumb :: "breadcrumb \<Rightarrow> breadcrumb" where
  "scrub_breadcrumb b = b\<lparr>bc_message := redact_field (bc_message b), bc_url := redact_field (bc_url b)\<rparr>"

definition scrubStellarAddresses :: "(sentry_event \<Rightarrow> string) \<Rightarrow> sentry_event \<Rightarrow> sentry_event option" where
  "scrubStellarAddresses stringify event =
     (if has_key (CHR ''S'') (stringify event) then None
      else Some (event\<lparr>ev_exceptions := map redact_field (ev_exceptions event),
                       ev_breadcrumbs := map scrub_breadcrumb (ev_breadcrumbs event)\<rparr>))"

text \<open>\<open>beforeSend\<close> of the browser and of the server; the edge runtime has none.\<close>

definition keep_user_id :: "sentry_event \<Rightarrow> sentry_event" where
  "keep_user_id event =
     (case ev_user event of
        None \<Rightarrow> event
      | Some u \<Rightarrow> event\<lparr>ev_user := (if truthy (eu_id u) then Some \<lparr>eu_id = eu_id u, eu_rest = []\<rparr> else None)\<rparr>)"

definition client_beforeSend :: "(sentry_event \<Rightarrow> string) \<Rightarrow> sentry_event \<Rightarrow> sentry_event option" where
  "client_beforeSend stringify event = scrubStellarAddresses stringify (keep_user_id event)"

definition server_beforeSend :: "(sentry_event \<Rightarrow> string) \<Rightarrow> sentry_event \<Rightarrow> sentry_event option" where
  "server_beforeSend stringify event = scrubStellarAddresses stringify (keep_user_id event)"

definition edge_beforeSend :: "sentry_event \<Rightarrow> sentry_event option" where
  "edge_beforeSend event = Some event"

text \<open>\<open>captureReactError\<close>: sent only in production with an address to send to; the component stack is an extra.\<close>

definition SENTRY_ENABLED :: "(string \<Rightarrow> string option) \<Rightarrow> bool" where
  "SENTRY_ENABLED env = (env ''NODE_ENV'' = Some ''production'' \<and> truthy (env ''NEXT_PUBLIC_SENTRY_DSN''))"

definition captureReactError ::
    "(string \<Rightarrow> string option) \<Rightarrow> string \<Rightarrow> string option \<Rightarrow> (string \<times> string) list \<Rightarrow>
     ((string \<times> string) list \<times> (string \<times> string) list \<times> string) option" where
  "captureReactError env error componentStack extra =
     (if \<not> SENTRY_ENABLED env then None
      else Some (AList.updates (map fst extra) (map snd extra)
             [(''componentStack'', (case componentStack of None \<Rightarrow> ''unavailable'' | Some c \<Rightarrow> c))],
           [(''error.source'', ''ErrorBoundary'')], error))"

section \<open>The backend\<close>

text \<open>\<open>s.replace(p, r)\<close> with texts: the first occurrence only.\<close>

fun replace_first :: "string \<Rightarrow> string \<Rightarrow> string \<Rightarrow> string" where
  "replace_first p r [] = (if p = [] then r else [])"
| "replace_first p r (c # s) =
     (if starts_with p (c # s) then r @ drop (length p) (c # s) else c # replace_first p r s)"

definition backend_beforeSend :: "string option \<Rightarrow> sentry_event \<Rightarrow> sentry_event" where
  "backend_beforeSend secret event =
     (case ev_exceptions event of
        Some v # rest \<Rightarrow>
          if truthy secret \<and> str_includes (the secret) v
          then event\<lparr>ev_exceptions := Some (replace_first (the secret) ''[REDACTED]'' v) # rest\<rparr> else event
      | _ \<Rightarrow> event)"

definition maskWalletAddress :: "string option \<Rightarrow> string option" where
  "maskWalletAddress address =
     (case address of
        None \<Rightarrow> None
      | Some a \<Rightarrow> if a = [] \<or> length a < 12 then Some a
                  else Some (take 8 a @ ''...'' @ drop (length a - 4) a))"

text \<open>The context that the error handler builds, and what is attached to the report: extras and tags.\<close>

definition reportErrorToSentry ::
    "string option \<Rightarrow> (string \<times> string) list \<Rightarrow> (string \<times> string) list \<times> (string \<times> string) list" where
  "reportErrorToSentry requestId context =
     (let tags = (if truthy requestId then [(''requestId'', the requestId)] else []);
          c = (if truthy (map_of context ''userWallet'')
               then AList.delete ''userWallet''
                 (AList.update ''userWalletMasked'' (the (maskWalletAddress (map_of context ''userWallet''))) context)
               else context);
          tag = (\<lambda>k t. if truthy (map_of c k) then [(t, the (map_of c k))] else [])
      in (c, tags @ tag ''arenaId'' ''arenaId'' @ tag ''poolId'' ''poolId'' @ tag ''userWalletMasked'' ''userWallet''))"

section \<open>Properties\<close>

lemma key_at_Cons: "key_at c (x # s) \<longleftrightarrow> x = c \<and> 55 \<le> length s \<and> list_all is_base32 (take 55 s)"
  by (auto simp: key_at_def)

definition is_key :: "char \<Rightarrow> string \<Rightarrow> bool" where
  "is_key c k \<longleftrightarrow> length k = 56 \<and> hd k = c \<and> list_all is_base32 (drop 1 k)"

lemma key_at_iff: "key_at c s \<longleftrightarrow> (\<exists>k q. s = k @ q \<and> is_key c k)"
proof
  assume "key_at c s"
  then have "s = take 56 s @ drop 56 s \<and> is_key c (take 56 s)"
    by (cases s) (auto simp: key_at_Cons is_key_def key_at_def)
  then show "\<exists>k q. s = k @ q \<and> is_key c k" by blast
next
  assume "\<exists>k q. s = k @ q \<and> is_key c k"
  then obtain k q where "s = k @ q" "is_key c k" by blast
  then show "key_at c s" by (cases k) (auto simp: key_at_Cons is_key_def)
qed

lemma has_key_suffix: "has_key c t \<longleftrightarrow> (\<exists>p s. t = p @ s \<and> key_at c s)"
proof (induction t)
  case Nil
  then show ?case by (simp add: key_at_def)
next
  case (Cons x t)
  have "(\<exists>p s. x # t = p @ s \<and> key_at c s) \<longleftrightarrow> key_at c (x # t) \<or> (\<exists>p s. t = p @ s \<and> key_at c s)"
    by (metis (no_types) Cons_eq_append_conv append_Cons append_Nil)
  then show ?case using Cons by simp
qed

lemma has_key_factor: "has_key c t \<longleftrightarrow> (\<exists>p k q. t = p @ k @ q \<and> is_key c k)"
  unfolding has_key_suffix key_at_iff by auto

lemma has_key_placeholder: "has_key (CHR ''G'') (STELLAR_ADDRESS @ r) = has_key (CHR ''G'') r"
  by (simp add: STELLAR_ADDRESS_def key_at_Cons)

lemma redact_prefix:
  "n \<le> length (redactPublicKeys s) \<Longrightarrow> list_all is_base32 (take n (redactPublicKeys s)) \<Longrightarrow>
     n \<le> length s \<and> take n s = take n (redactPublicKeys s)"
proof (induction s arbitrary: n rule: redactPublicKeys.induct)
  case (2 x s)
  show ?case
  proof (cases n)
    case (Suc m)
    have "\<not> key_at (CHR ''G'') (x # s)"
      using "2.prems"(2) Suc by (auto simp: STELLAR_ADDRESS_def char_class_defs)
    then show ?thesis using 2 Suc by simp
  qed simp
qed simp

lemma redacted_has_no_key: "\<not> has_key (CHR ''G'') (redactPublicKeys t)"
proof (induction t rule: redactPublicKeys.induct)
  case (2 x s)
  show ?case
  proof (cases "key_at (CHR ''G'') (x # s)")
    case True
    then show ?thesis using 2(1) by (simp add: has_key_placeholder)
  next
    case False
    then have "\<not> key_at (CHR ''G'') (x # redactPublicKeys s)"
      using redact_prefix [of 55 s] by (auto simp: key_at_Cons)
    then show ?thesis using 2(2) False by simp
  qed
qed simp

lemma redact_field_no_key: "redact_field v = Some t \<Longrightarrow> \<not> has_key (CHR ''G'') t"
  by (auto simp: redact_field_def redacted_has_no_key split: option.splits if_splits)

text \<open>The texts of an event, and those that the scrubbing covers.\<close>

definition scrubbed_texts :: "sentry_event \<Rightarrow> string set" where
  "scrubbed_texts e = {t. Some t \<in> set (ev_exceptions e)} \<union>
     {t. \<exists>b\<in>set (ev_breadcrumbs e). bc_message b = Some t \<or> bc_url b = Some t}"

definition event_texts :: "sentry_event \<Rightarrow> string set" where
  "event_texts e = scrubbed_texts e \<union> set (ev_rest e) \<union> (\<Union>b\<in>set (ev_breadcrumbs e). set (bc_rest b))"


text \<open>
  Addresses in the other fields of a report are sent as they are, although the comment says that all fields are
  scrubbed: the message of the event, its request, tags and extras, the data of a breadcrumb other than its url, and
  every field of a report of the edge runtime.
\<close>

theorem other_fields_unscrubbed:
  assumes "\<not> has_key (CHR ''S'') (stringify (keep_user_id event))"
  shows "\<exists>sent. client_beforeSend stringify event = Some sent \<and> ev_rest sent = ev_rest event \<and>
    map bc_rest (ev_breadcrumbs sent) = map bc_rest (ev_breadcrumbs event) \<and> edge_beforeSend event = Some event"
  using assms
  by (auto simp: client_beforeSend_def scrubStellarAddresses_def keep_user_id_def scrub_breadcrumb_def edge_beforeSend_def
      split: option.splits)

lemma replace_first_here: "p \<noteq> [] \<Longrightarrow> replace_first p r (p @ s) = r @ s"
  by (cases p) (simp_all add: starts_with_iff)

text \<open>
  The backend hides the secret of its tokens in an error report once only: a message that holds it twice is sent
  with the secret, and so is one in any exception but the first.
\<close>

theorem secret_sent_twice:
  assumes "truthy (Some secret)" and "ev_exceptions event = Some (secret @ between @ secret) # others"
  shows "ev_exceptions (backend_beforeSend (Some secret) event) = Some (''[REDACTED]'' @ between @ secret) # others"
  using assms replace_first_here [of secret "''[REDACTED]''" "between @ secret"]
  by (auto simp: backend_beforeSend_def str_includes_iff)

text \<open>
  A wallet in the context of an error is reported masked: its first eight and last four characters.
\<close>

theorem wallet_reported_masked:
  assumes "map_of context ''userWallet'' = Some w" and "12 \<le> length w"
    and "reportErrorToSentry requestId context = (extras, tags)"
  shows "map_of extras ''userWallet'' = None \<and>
    (''userWallet'', take 8 w @ ''...'' @ drop (length w - 4) w) \<in> set tags"
proof -
  have "w \<noteq> []" using assms(2) by auto
  then show ?thesis using assms
    by (auto simp: reportErrorToSentry_def maskWalletAddress_def Let_def)
qed

section \<open>Witnesses\<close>

definition toy_key :: "char \<Rightarrow> string" where
  "toy_key c = c # replicate 55 (CHR ''A'')"

definition toy_event :: sentry_event where
  "toy_event = \<lparr>ev_user = None, ev_exceptions = [Some (''no account '' @ toy_key (CHR ''G''))], ev_breadcrumbs = [],
     ev_rest = [toy_key (CHR ''G'')]\<rparr>"

definition text_or_none :: "string option \<Rightarrow> string list" where
  "text_or_none v = (case v of None \<Rightarrow> [] | Some t \<Rightarrow> [t])"

definition toy_texts :: "sentry_event \<Rightarrow> string" where
  "toy_texts e = concat (concat (map text_or_none (ev_exceptions e)) @
     concat (map (\<lambda>b. text_or_none (bc_message b) @ text_or_none (bc_url b) @ bc_rest b) (ev_breadcrumbs e)) @ ev_rest e)"

lemma includes_part: "t \<in> set xs \<Longrightarrow> str_includes k t \<Longrightarrow> str_includes k (concat xs)"
proof -
  assume "t \<in> set xs" and k: "str_includes k t"
  then obtain ys zs where xs: "xs = ys @ t # zs" by (auto simp: in_set_conv_decomp)
  from k obtain p q where t: "t = p @ k @ q" by (auto simp: str_includes_iff)
  have "concat xs = (concat ys @ p) @ k @ (q @ concat zs)" by (simp add: xs t)
  then show ?thesis unfolding str_includes_iff by blast
qed

lemma toy_texts_include:
  assumes "t \<in> event_texts e" and "str_includes k t"
  shows "str_includes k (toy_texts e)"
  unfolding toy_texts_def
  by (rule includes_part [OF _ assms(2)])
    (use assms(1) in \<open>force simp: event_texts_def scrubbed_texts_def text_or_none_def\<close>)

lemma toy_not_S: "\<not> has_key (CHR ''S'') (''no account '' @ toy_key (CHR ''G''))" "\<not> has_key (CHR ''S'') (toy_texts toy_event)"
  by (simp_all add: toy_key_def toy_texts_def toy_event_def text_or_none_def key_at_Cons numeral_eq_Suc)


theorem other_fields_unscrubbed_witness:
  "\<exists>sent. client_beforeSend toy_texts toy_event = Some sent \<and> ev_rest sent = [toy_key (CHR ''G'')]"
  using other_fields_unscrubbed [of toy_texts toy_event] toy_not_S(2) by (auto simp: keep_user_id_def toy_event_def)

theorem secret_sent_twice_witness:
  "ev_exceptions (backend_beforeSend (Some ''k3y'')
      \<lparr>ev_user = None, ev_exceptions = [Some ''k3y or k3y''], ev_breadcrumbs = [], ev_rest = []\<rparr>) =
     [Some ''[REDACTED] or k3y'']"
  using secret_sent_twice [of "''k3y''" "\<lparr>ev_user = None, ev_exceptions = [Some ''k3y or k3y''], ev_breadcrumbs = [], ev_rest = []\<rparr>"
      "'' or ''" "[]"] by simp

theorem wallet_reported_masked_witness:
  "(''userWallet'', ''GABCDEFG...WXYZ'') \<in>
     set (snd (reportErrorToSentry None [(''userWallet'', ''GABCDEFGHIJKWXYZ'')]))"
  using wallet_reported_masked [of "[(''userWallet'', ''GABCDEFGHIJKWXYZ'')]" "''GABCDEFGHIJKWXYZ''" None
      "fst (reportErrorToSentry None [(''userWallet'', ''GABCDEFGHIJKWXYZ'')])"
      "snd (reportErrorToSentry None [(''userWallet'', ''GABCDEFGHIJKWXYZ'')])"] by simp

end
