(* ===== verification/Setup.thy ===== *)
theory Setup
  imports Config AuthResults
begin

text \<open>
  The scripts that prepare a developer's machine: scripts/setup-testnet.ts, which creates accounts and writes
  .env.test, and backend/prisma/seed.ts, which fills the database. The keys, the answers of the faucet and the
  reader of the file (the package dotenv) are arguments. The dash of a comment in the file is written in ASCII.
\<close>

section \<open>The accounts\<close>

record testnet_account =
  ta_label :: string
  ta_envKeySecret :: string
  ta_envKeyPublic :: string
  ta_secret :: string
  ta_public :: string

definition setup_accounts :: "(string \<times> string) list \<Rightarrow> testnet_account list" where
  "setup_accounts keypairs = map2 (\<lambda>(l, s, p) (ks, kp). \<lparr>ta_label = l, ta_envKeySecret = s, ta_envKeyPublic = p,
       ta_secret = ks, ta_public = kp\<rparr>)
     [(''Admin'', ''ADMIN_ACCOUNT_SECRET'', ''ADMIN_ACCOUNT_PUBLIC''),
      (''Payout source'', ''PAYOUT_SOURCE_SECRET'', ''PAYOUT_SOURCE_ACCOUNT''),
      (''Test player 1'', ''TEST_PLAYER_1_SECRET'', ''TEST_PLAYER_1_PUBLIC''),
      (''Test player 2'', ''TEST_PLAYER_2_SECRET'', ''TEST_PLAYER_2_PUBLIC'')] keypairs"

text \<open>The faucet is asked for each account; a failure is recorded and the next account is tried.\<close>

fun fund_accounts :: "(string \<Rightarrow> js_error + unit) \<Rightarrow> testnet_account list \<Rightarrow> string list" where
  "fund_accounts friendbot [] = []"
| "fund_accounts friendbot (a # as) =
     (case friendbot (ta_public a) of
        Inl e \<Rightarrow> ta_label a # fund_accounts friendbot as
      | Inr _ \<Rightarrow> fund_accounts friendbot as)"

section \<open>The file\<close>

definition assignment :: "string \<Rightarrow> string \<Rightarrow> string" where
  "assignment k v = k @ ''='' @ v"

definition account_lines :: "testnet_account \<Rightarrow> string list" where
  "account_lines a =
     [''# '' @ ta_label a, assignment (ta_envKeySecret a) (ta_secret a), assignment (ta_envKeyPublic a) (ta_public a), []]"

definition env_test_lines :: "testnet_account list \<Rightarrow> string list" where
  "env_test_lines accounts =
     [''# Stellar testnet accounts - generated by scripts/setup-testnet.ts'',
      ''# WARNING: This file contains private keys. NEVER commit it.'',
      ''# Use on TESTNET only.'',
      [],
      assignment ''STELLAR_NETWORK'' ''testnet'',
      assignment ''STELLAR_NETWORK_PASSPHRASE'' (''\"'' @ TESTNET_PASSPHRASE @ ''\"''),
      assignment ''SOROBAN_RPC_URL'' ''https://soroban-testnet.stellar.org'',
      assignment ''HORIZON_URL'' ''https://horizon-testnet.stellar.org'',
      []] @
     concat (map account_lines accounts) @
     [''# Contract IDs - fill in after running: make contracts-deploy NETWORK=testnet'',
      assignment ''FACTORY_CONTRACT_ID'' [],
      assignment ''ARENA_CONTRACT_ID'' [],
      assignment ''PAYOUT_CONTRACT_ID'' [],
      assignment ''STAKING_CONTRACT_ID'' [],
      [],
      ''# Backend'',
      assignment ''DATABASE_URL'' ''postgresql://localhost:5432/inversearena_test'',
      assignment ''ADMIN_API_KEY'' ''local-dev-admin-key-change-me'']"

text \<open>\<open>lines.join("\n") + "\n"\<close>\<close>

definition file_text :: "string list \<Rightarrow> string" where
  "file_text ls = js_join [CHR 0x0A] ls @ [CHR 0x0A]"

text \<open>\<open>existing\<close> is the file that is there; the result is the file afterwards and the accounts without funds.\<close>

definition setup_main ::
    "(string \<Rightarrow> js_error + unit) \<Rightarrow> (string \<times> string) list \<Rightarrow> string \<Rightarrow> string option \<Rightarrow> string option \<times> string list" where
  "setup_main friendbot keypairs answer existing =
     (if existing \<noteq> None \<and> js_trim answer \<noteq> ''y'' \<and> js_trim answer \<noteq> ''Y'' then (existing, [])
      else (Some (file_text (env_test_lines (setup_accounts keypairs))), fund_accounts friendbot (setup_accounts keypairs)))"

section \<open>Reading the file\<close>

text \<open>
  The lines that the file has: empty, a comment, or a name with a value that is plain or in double quotes. A reader
  of such files gives each name its value, without the quotes, the last one if there are several.
\<close>

definition name_char :: "char \<Rightarrow> bool" where
  "name_char c \<longleftrightarrow> is_upper c \<or> is_digit c \<or> c = CHR ''_''"

definition value_char :: "char \<Rightarrow> bool" where
  "value_char c \<longleftrightarrow> is_upper c \<or> is_lower c \<or> is_digit c \<or> c \<in> set '':/._-''"

definition plain_value :: "string \<Rightarrow> bool" where
  "plain_value v \<longleftrightarrow> list_all value_char v \<or>
     (\<exists>q. v = ''\"'' @ q @ ''\"'' \<and> list_all (\<lambda>c. value_char c \<or> c = CHR '' '' \<or> c = CHR '';'') q)"

definition plain_line :: "string \<Rightarrow> bool" where
  "plain_line l \<longleftrightarrow> CHR 0x0A \<notin> set l \<and>
     (l = [] \<or> hd l = CHR ''#'' \<or> (\<exists>k v. l = assignment k v \<and> k \<noteq> [] \<and> list_all name_char k \<and> plain_value v))"

definition unquoted :: "string \<Rightarrow> string" where
  "unquoted v = (if starts_with ''\"'' v then butlast (drop 1 v) else v)"

definition line_binding :: "string \<Rightarrow> (string \<times> string) list" where
  "line_binding l =
     (if l = [] \<or> hd l = CHR ''#'' then []
      else [(takeWhile (\<lambda>c. c \<noteq> CHR ''='') l, unquoted (drop 1 (dropWhile (\<lambda>c. c \<noteq> CHR ''='') l)))])"

definition env_of_lines :: "string list \<Rightarrow> environment" where
  "env_of_lines ls = map_of (rev (concat (map line_binding ls)))"

definition reads_env_files :: "(string \<Rightarrow> environment) \<Rightarrow> bool" where
  "reads_env_files parse \<longleftrightarrow> (\<forall>ls. list_all plain_line ls \<longrightarrow> parse (file_text ls) = env_of_lines ls)"

section \<open>Properties of the setup\<close>

lemma split_at_sign:
  "CHR ''='' \<notin> set k \<Longrightarrow> takeWhile (\<lambda>c. c \<noteq> CHR ''='') (k @ CHR ''='' # v) = k \<and>
     dropWhile (\<lambda>c. c \<noteq> CHR ''='') (k @ CHR ''='' # v) = CHR ''='' # v"
  by (induction k) auto

lemma binding_assignment:
  "k \<noteq> [] \<Longrightarrow> hd k \<noteq> CHR ''#'' \<Longrightarrow> CHR ''='' \<notin> set k \<Longrightarrow> line_binding (assignment k v) = [(k, unquoted v)]"
  using split_at_sign [of k v] by (simp add: line_binding_def assignment_def)

lemma binding_comment: "line_binding [] = []" "line_binding (CHR ''#'' # l) = []"
  by (simp_all add: line_binding_def)

lemma name_char_not: "\<not> name_char (CHR ''='')" "\<not> name_char (CHR ''#'')" "\<not> name_char (CHR 0x0A)"
  by (simp_all add: name_char_def char_class_defs)

lemma value_char_not: "\<not> value_char (CHR 0x0A)"
  by (simp add: value_char_def char_class_defs)

lemma base32_value: "list_all is_base32 s \<Longrightarrow> plain_value s"
  by (auto simp: plain_value_def list_all_iff value_char_def char_class_defs)

lemma plain_value_line: "plain_value v \<Longrightarrow> CHR 0x0A \<notin> set v"
  using value_char_not by (auto simp: plain_value_def list_all_iff)

lemma plain_assignment:
  "k \<noteq> [] \<Longrightarrow> list_all name_char k \<Longrightarrow> plain_value v \<Longrightarrow> plain_line (assignment k v)"
  using plain_value_line [of v] name_char_not by (auto simp: plain_line_def assignment_def list_all_iff)

lemma plain_comment: "CHR 0x0A \<notin> set l \<Longrightarrow> plain_line (CHR ''#'' # l)" "plain_line []"
  by (simp_all add: plain_line_def)

lemma name_chars:
  "list_all name_char k \<longleftrightarrow> (\<forall>c\<in>set k. is_upper c \<or> is_digit c \<or> c = CHR ''_'')"
  by (simp add: list_all_iff name_char_def)

definition well_formed_account :: "testnet_account \<Rightarrow> bool" where
  "well_formed_account a \<longleftrightarrow> CHR 0x0A \<notin> set (ta_label a) \<and> ta_envKeySecret a \<noteq> [] \<and> ta_envKeyPublic a \<noteq> [] \<and>
     list_all name_char (ta_envKeySecret a) \<and> list_all name_char (ta_envKeyPublic a) \<and>
     list_all is_base32 (ta_secret a) \<and> list_all is_base32 (ta_public a)"

lemma name_not_hash: "k \<noteq> [] \<Longrightarrow> list_all name_char k \<Longrightarrow> hd k \<noteq> CHR ''#'' \<and> CHR ''='' \<notin> set k"
  using name_char_not by (cases k) (auto simp: list_all_iff)

lemma plain_account: "well_formed_account a \<Longrightarrow> list_all plain_line (account_lines a)"
  using plain_assignment base32_value plain_comment
  by (simp add: account_lines_def well_formed_account_def plain_line_def)

lemma fixed_values: "plain_value ''testnet''" "plain_value (''\"'' @ TESTNET_PASSPHRASE @ ''\"'')"
  "plain_value ''https://soroban-testnet.stellar.org''" "plain_value ''https://horizon-testnet.stellar.org''"
  "plain_value ''postgresql://localhost:5432/inversearena_test''" "plain_value ''local-dev-admin-key-change-me''"
  "plain_value []"
proof -
  show "plain_value (''\"'' @ TESTNET_PASSPHRASE @ ''\"'')"
    unfolding plain_value_def
    by (rule disjI2, rule exI [of _ TESTNET_PASSPHRASE]) (simp add: TESTNET_PASSPHRASE_def value_char_def char_class_defs)
qed (simp_all add: plain_value_def value_char_def char_class_defs)

lemma fixed_names: "list_all name_char k"
  if "k \<in> {''STELLAR_NETWORK'', ''STELLAR_NETWORK_PASSPHRASE'', ''SOROBAN_RPC_URL'', ''HORIZON_URL'', ''FACTORY_CONTRACT_ID'',
    ''ARENA_CONTRACT_ID'', ''PAYOUT_CONTRACT_ID'', ''STAKING_CONTRACT_ID'', ''DATABASE_URL'', ''ADMIN_API_KEY'',
    ''ADMIN_ACCOUNT_SECRET'', ''ADMIN_ACCOUNT_PUBLIC'', ''PAYOUT_SOURCE_SECRET'', ''PAYOUT_SOURCE_ACCOUNT'',
    ''TEST_PLAYER_1_SECRET'', ''TEST_PLAYER_1_PUBLIC'', ''TEST_PLAYER_2_SECRET'', ''TEST_PLAYER_2_PUBLIC''}"
  using that by (elim insertE emptyE) (simp_all add: name_char_def char_class_defs)

lemma accounts_well_formed:
  assumes "length keypairs = 4" and "\<forall>(s, p)\<in>set keypairs. list_all is_base32 s \<and> list_all is_base32 p"
  shows "list_all well_formed_account (setup_accounts keypairs)"
proof -
  obtain a b c d where "keypairs = [a, b, c, d]"
    using assms(1) by (auto simp: length_Suc_conv numeral_eq_Suc)
  then show ?thesis
    using assms(2) fixed_names by (auto simp: setup_accounts_def well_formed_account_def split: prod.splits)
qed

lemma plain_file:
  "list_all well_formed_account accounts \<Longrightarrow> list_all plain_line (env_test_lines accounts)"
  using plain_account
  by (auto simp: env_test_lines_def list_all_iff intro!: plain_assignment fixed_values fixed_values(2) [simplified] fixed_names plain_comment)

definition account_bindings :: "testnet_account \<Rightarrow> (string \<times> string) list" where
  "account_bindings a = [(ta_envKeySecret a, ta_secret a), (ta_envKeyPublic a, ta_public a)]"

lemma base32_unquoted: "list_all is_base32 v \<Longrightarrow> unquoted v = v"
  by (cases v) (auto simp: unquoted_def char_class_defs)

lemma account_lines_bindings:
  "well_formed_account a \<Longrightarrow> concat (map line_binding (account_lines a)) = account_bindings a"
  using name_not_hash
  by (simp add: account_lines_def account_bindings_def well_formed_account_def binding_comment binding_assignment base32_unquoted)

lemma accounts_bindings:
  "list_all well_formed_account accounts \<Longrightarrow>
     concat (map line_binding (concat (map account_lines accounts))) = concat (map account_bindings accounts)"
  by (induction accounts) (simp_all add: account_lines_bindings)

lemma unquoted_fixed: "unquoted (CHR 0x22 # q @ [CHR 0x22]) = q"
  by (simp add: unquoted_def butlast_append)

lemma file_bindings:
  assumes "list_all well_formed_account accounts"
  shows "concat (map line_binding (env_test_lines accounts)) =
    [(''STELLAR_NETWORK'', ''testnet''), (''STELLAR_NETWORK_PASSPHRASE'', TESTNET_PASSPHRASE),
     (''SOROBAN_RPC_URL'', ''https://soroban-testnet.stellar.org''), (''HORIZON_URL'', ''https://horizon-testnet.stellar.org'')] @
    concat (map account_bindings accounts) @
    [(''FACTORY_CONTRACT_ID'', []), (''ARENA_CONTRACT_ID'', []), (''PAYOUT_CONTRACT_ID'', []), (''STAKING_CONTRACT_ID'', []),
     (''DATABASE_URL'', ''postgresql://localhost:5432/inversearena_test''), (''ADMIN_API_KEY'', ''local-dev-admin-key-change-me'')]"
  using accounts_bindings [OF assms]
  by (simp add: env_test_lines_def binding_comment binding_assignment unquoted_fixed, simp add: unquoted_def)

lemma parsed_file:
  assumes "reads_env_files parse" and "length keypairs = 4"
    and "\<forall>(s, p)\<in>set keypairs. list_all is_base32 s \<and> list_all is_base32 p"
  shows "parse (file_text (env_test_lines (setup_accounts keypairs))) = env_of_lines (env_test_lines (setup_accounts keypairs))"
    and "list_all well_formed_account (setup_accounts keypairs)"
  using assms plain_file accounts_well_formed by (auto simp: reads_env_files_def)

definition file_names :: "string list" where
  "file_names =
     [''STELLAR_NETWORK'', ''STELLAR_NETWORK_PASSPHRASE'', ''SOROBAN_RPC_URL'', ''HORIZON_URL'',
      ''ADMIN_ACCOUNT_SECRET'', ''ADMIN_ACCOUNT_PUBLIC'', ''PAYOUT_SOURCE_SECRET'', ''PAYOUT_SOURCE_ACCOUNT'',
      ''TEST_PLAYER_1_SECRET'', ''TEST_PLAYER_1_PUBLIC'', ''TEST_PLAYER_2_SECRET'', ''TEST_PLAYER_2_PUBLIC'',
      ''FACTORY_CONTRACT_ID'', ''ARENA_CONTRACT_ID'', ''PAYOUT_CONTRACT_ID'', ''STAKING_CONTRACT_ID'',
      ''DATABASE_URL'', ''ADMIN_API_KEY'']"

lemma file_names_distinct: "distinct file_names"
  by (simp add: file_names_def)

lemma map_of_rev_distinct: "distinct (map fst bs) \<Longrightarrow> (k, v) \<in> set bs \<Longrightarrow> map_of (rev bs) k = Some v"
  by (subst map_of_eq_Some_iff) (simp_all add: rev_map [symmetric])

lemma setup_reads:
  assumes "reads_env_files parse" and "length keypairs = 4"
    and "\<forall>(s, p)\<in>set keypairs. list_all is_base32 s \<and> list_all is_base32 p"
    and "setup_main friendbot keypairs answer None = (Some text, failed)"
  shows "a \<in> set (setup_accounts keypairs) \<Longrightarrow> (k, v) \<in> set (account_bindings a) \<Longrightarrow> parse text k = Some v"
    and "parse text ''ADMIN_API_KEY'' = Some ''local-dev-admin-key-change-me''"
    and "parse text ''PAYOUT_CONTRACT_ID'' = Some []"
proof -
  let ?bs = "concat (map line_binding (env_test_lines (setup_accounts keypairs)))"
  have bs: "?bs = concat (map line_binding (env_test_lines (setup_accounts keypairs)))" by simp
  note bindings = file_bindings [OF parsed_file(2) [OF assms(1-3)]]
  obtain p q r s where k: "keypairs = [p, q, r, s]"
    using assms(2) by (auto simp: length_Suc_conv numeral_eq_Suc)
  have "map fst (concat (map account_bindings (setup_accounts keypairs))) =
      [''ADMIN_ACCOUNT_SECRET'', ''ADMIN_ACCOUNT_PUBLIC'', ''PAYOUT_SOURCE_SECRET'', ''PAYOUT_SOURCE_ACCOUNT'',
       ''TEST_PLAYER_1_SECRET'', ''TEST_PLAYER_1_PUBLIC'', ''TEST_PLAYER_2_SECRET'', ''TEST_PLAYER_2_PUBLIC'']"
    by (simp add: k setup_accounts_def account_bindings_def split_beta)
  then have d: "distinct (map fst ?bs)"
    using file_names_distinct unfolding bindings file_names_def by (simp only: map_append list.map fst_conv append.simps)
  have "text = file_text (env_test_lines (setup_accounts keypairs))"
    using assms(4) by (simp add: setup_main_def)
  then have parse: "parse text k = Some v" if "(k, v) \<in> set ?bs" for k v
    using parsed_file(1) [OF assms(1-3)] map_of_rev_distinct [OF d that] by (simp add: env_of_lines_def)
  show "parse text ''ADMIN_API_KEY'' = Some ''local-dev-admin-key-change-me''" "parse text ''PAYOUT_CONTRACT_ID'' = Some []"
    by (rule parse, simp only: bindings set_append list.set, simp)+
  show "parse text k = Some v" if "a \<in> set (setup_accounts keypairs)" "(k, v) \<in> set (account_bindings a)"
    by (rule parse) (use that in \<open>auto simp only: bindings set_append set_concat set_map\<close>)
qed

text \<open>
  The file of the setup script gives the accounts back: a reader of such files finds every secret and every
  public key under the name that the script chose for it, whatever the faucet answered.
\<close>

theorem setup_keys_read_back:
  assumes "reads_env_files parse" and "length keypairs = 4"
    and "\<forall>(s, p)\<in>set keypairs. list_all is_base32 s \<and> list_all is_base32 p"
    and "setup_main friendbot keypairs answer None = (Some text, failed)"
  shows "\<forall>a\<in>set (setup_accounts keypairs). parse text (ta_envKeySecret a) = Some (ta_secret a) \<and>
    parse text (ta_envKeyPublic a) = Some (ta_public a)"
  using setup_reads(1) [OF assms] by (simp add: account_bindings_def)

text \<open>
  The environment that the setup script writes does not start the backend: its key of the administrator
  is three characters too short, also after the identifiers of the contracts were filled in, and as long as
  these are not, the payments have no contract.
\<close>

theorem generated_environment_refused:
  assumes "reads_env_files parse" and "length keypairs = 4"
    and "\<forall>(s, p)\<in>set keypairs. list_all is_base32 s \<and> list_all is_base32 p"
    and "setup_main friendbot keypairs answer None = (Some text, failed)"
    and "dom filled \<subseteq> {''FACTORY_CONTRACT_ID'', ''ARENA_CONTRACT_ID'', ''PAYOUT_CONTRACT_ID'', ''STAKING_CONTRACT_ID''}"
  shows "(\<exists>e. validateConfig (parse text ++ filled) = Inl e) \<and>
    (\<exists>e. new_ApiKeyAuthProvider ((parse text ++ filled) ''ADMIN_API_KEY'') = Inl e) \<and>
    (\<exists>e. getPaymentConfig is_url (parse text) = Inl e)"
proof -
  note env = setup_reads(2,3) [OF assms(1-4)]
  have "filled ''ADMIN_API_KEY'' = None" using assms(5) by auto
  then have key: "(parse text ++ filled) ''ADMIN_API_KEY'' = Some ''local-dev-admin-key-change-me''"
    by (simp add: env map_add_def)
  have "checked_id contract_id_regex (parse text ''PAYOUT_CONTRACT_ID'') = None"
    by (simp add: env checked_id_def contract_id_regex_def)
  then have "\<exists>e. getPaymentConfig is_url (parse text) = Inl e"
    by (simp add: getPaymentConfig_def split: sum.split option.split)
  then show ?thesis by (simp add: validateConfig_def new_ApiKeyAuthProvider_def key Let_def)
qed

text \<open>
  A file that exists is replaced only when the answer is y; otherwise nothing is funded and the file stays. A new
  file is written even when no account could be funded.
\<close>

theorem setup_spares_file:
  "(js_trim answer \<notin> {''y'', ''Y''} \<longrightarrow> setup_main friendbot keypairs answer (Some old) = (Some old, [])) \<and>
   fst (setup_main friendbot keypairs answer None) = fst (setup_main (\<lambda>_. Inl e) keypairs answer None)"
  by (simp add: setup_main_def)

section \<open>The seed of the database\<close>

text \<open>
  The tables with the columns that the seed writes. \<open>new_id n\<close> is the n-th generated identifier. The wallet of a
  user, the hash of a transaction and the number of a round within its arena are unique.
\<close>

record seed_transaction =
  st_txHash :: string
  st_userId :: string
  st_amount :: rat
  st_type :: string
  st_status :: string

record seed_db =
  sb_users :: "(string \<times> string) list"
  sb_arenas :: "(string \<times> jval) list"
  sb_pools :: "(string \<times> rat) list"
  sb_rounds :: "(string \<times> string \<times> int) list"
  sb_logs :: "(string \<times> string \<times> string) list"
  sb_transactions :: "seed_transaction list"
  sb_next :: nat

definition upsert_seed_user :: "(nat \<Rightarrow> string) \<Rightarrow> string \<Rightarrow> seed_db \<Rightarrow> string \<times> seed_db" where
  "upsert_seed_user new_id w db =
     (case find (\<lambda>u. snd u = w) (sb_users db) of
        Some u \<Rightarrow> (fst u, db)
      | None \<Rightarrow> (new_id (sb_next db), db\<lparr>sb_users := sb_users db @ [(new_id (sb_next db), w)], sb_next := sb_next db + 1\<rparr>))"

definition create_seed_arena :: "(nat \<Rightarrow> string) \<Rightarrow> jval \<Rightarrow> rat list \<Rightarrow> seed_db \<Rightarrow> string \<times> seed_db" where
  "create_seed_arena new_id meta stakes db =
     (let i = new_id (sb_next db)
      in (i, db\<lparr>sb_arenas := sb_arenas db @ [(i, meta)], sb_pools := sb_pools db @ map (\<lambda>x. (i, x)) stakes,
                sb_next := sb_next db + 1\<rparr>))"

definition create_seed_round :: "(nat \<Rightarrow> string) \<Rightarrow> string \<Rightarrow> int \<Rightarrow> (string \<times> string) list \<Rightarrow> seed_db \<Rightarrow> (js_error + unit) \<times> seed_db" where
  "create_seed_round new_id arenaId roundNumber logs db =
     (if list_ex (\<lambda>(_, i, n). i = arenaId \<and> n = roundNumber) (sb_rounds db)
      then (Inl (Error ''Unique constraint failed''), db)
      else let i = new_id (sb_next db)
           in (Inr (), db\<lparr>sb_rounds := sb_rounds db @ [(i, arenaId, roundNumber)],
                          sb_logs := sb_logs db @ map (\<lambda>(u, r). (i, u, r)) logs, sb_next := sb_next db + 1\<rparr>))"

definition create_seed_transaction :: "seed_transaction \<Rightarrow> seed_db \<Rightarrow> (js_error + unit) \<times> seed_db" where
  "create_seed_transaction t db =
     (if list_ex (\<lambda>u. st_txHash u = st_txHash t) (sb_transactions db)
      then (Inl (Error ''Unique constraint failed''), db)
      else (Inr (), db\<lparr>sb_transactions := sb_transactions db @ [t]\<rparr>))"

definition seed_wallet1 :: string where "seed_wallet1 = ''GCXYZ1234567890ABCDEFGHIJKLMNOPQRSTUVWXYZ''"
definition seed_wallet2 :: string where "seed_wallet2 = ''GDOXYZ0987654321ABCDEFGHIJKLMNOPQRSTUVWXYZ''"

definition seed_arena_meta :: "string \<Rightarrow> rat \<Rightarrow> rat \<Rightarrow> jval" where
  "seed_arena_meta nm lo hi = JObj [(''name'', JStr nm), (''minStake'', JNum lo), (''maxStake'', JNum hi)]"

definition seed_tx :: "string \<Rightarrow> seed_transaction" where
  "seed_tx userId = \<lparr>st_txHash = ''0xabc123def4567890abcdef1234567890abcdef12'', st_userId = userId, st_amount = 100.5,
     st_type = ''DEPOSIT'', st_status = ''SUCCESS''\<rparr>"

definition seed_main :: "(nat \<Rightarrow> string) \<Rightarrow> seed_db \<Rightarrow> (js_error + unit) \<times> seed_db" where
  "seed_main new_id db0 =
     (let (user1, db1) = upsert_seed_user new_id seed_wallet1 db0;
          (user2, db2) = upsert_seed_user new_id seed_wallet2 db1;
          (arena1, db3) = create_seed_arena new_id (seed_arena_meta ''Beginner Arena'' 10 100) [10.5, 50] db2;
          (arena2, db4) = create_seed_arena new_id (seed_arena_meta ''Pro Arena'' 100 1000) [100, 500] db3
      in (case create_seed_round new_id arena1 1 [(user1, ''Failed to predict outcome'')] db4 of
            (Inl e, db5) \<Rightarrow> (Inl e, db5)
          | (Inr _, db5) \<Rightarrow> create_seed_transaction (seed_tx user1) db5))"

definition new_arena_metas :: "jval list" where
  "new_arena_metas = [seed_arena_meta ''Beginner Arena'' 10 100, seed_arena_meta ''Pro Arena'' 100 1000]"

lemma upsert_keeps:
  assumes "upsert_seed_user new_id w db = (i, db')"
  shows "sb_arenas db' = sb_arenas db" "sb_pools db' = sb_pools db" "sb_transactions db' = sb_transactions db"
    "sb_rounds db' = sb_rounds db" "sb_logs db' = sb_logs db" "\<exists>u\<in>set (sb_users db'). snd u = w \<and> fst u = i"
  using assms by (auto simp: upsert_seed_user_def find_Some_iff split: option.splits)

lemma upsert_users: "upsert_seed_user new_id w db = (i, db') \<Longrightarrow> set (sb_users db) \<subseteq> set (sb_users db')"
  by (auto simp: upsert_seed_user_def split: option.splits)

lemma upsert_again:
  "\<exists>u\<in>set (sb_users db). snd u = w \<Longrightarrow> snd (upsert_seed_user new_id w db) = db"
  by (auto simp: upsert_seed_user_def find_None_iff split: option.splits)

lemma seed_run:
  assumes "seed_main new_id db = (r, db')"
  shows "map snd (sb_arenas db') = map snd (sb_arenas db) @ new_arena_metas"
    and "map snd (sb_pools db') = map snd (sb_pools db) @ [10.5, 50, 100, 500]"
    and "\<exists>u\<in>set (sb_users db'). snd u = seed_wallet1" and "\<exists>u\<in>set (sb_users db'). snd u = seed_wallet2"
    and "(case r of Inl e \<Rightarrow> sb_transactions db' = sb_transactions db
         | Inr _ \<Rightarrow> \<exists>i. sb_transactions db' = sb_transactions db @ [seed_tx i])"
    and "\<exists>t\<in>set (sb_transactions db). st_txHash t = st_txHash (seed_tx []) \<Longrightarrow> \<exists>e. r = Inl e"
proof -
  obtain u1 db1 where 1: "upsert_seed_user new_id seed_wallet1 db = (u1, db1)" by fastforce
  obtain u2 db2 where 2: "upsert_seed_user new_id seed_wallet2 db1 = (u2, db2)" by fastforce
  note [simp] = upsert_keeps(1-5) [OF 1] upsert_keeps(1-5) [OF 2]
  have users: "\<exists>u\<in>set (sb_users db2). snd u = seed_wallet1" "\<exists>u\<in>set (sb_users db2). snd u = seed_wallet2"
    using upsert_keeps(6) [OF 1] upsert_keeps(6) [OF 2] upsert_users [OF 2] by blast+
  note run = assms [unfolded seed_main_def 1 2 Let_def case_prod_conv create_seed_arena_def create_seed_round_def
      create_seed_transaction_def]
  show "map snd (sb_arenas db') = map snd (sb_arenas db) @ new_arena_metas"
    "map snd (sb_pools db') = map snd (sb_pools db) @ [10.5, 50, 100, 500]"
    "\<exists>u\<in>set (sb_users db'). snd u = seed_wallet1" "\<exists>u\<in>set (sb_users db'). snd u = seed_wallet2"
    "(case r of Inl e \<Rightarrow> sb_transactions db' = sb_transactions db
       | Inr _ \<Rightarrow> \<exists>i. sb_transactions db' = sb_transactions db @ [seed_tx i])"
    using run users by (auto simp: new_arena_metas_def Let_def split: if_splits)
  show "\<exists>e. r = Inl e" if "\<exists>t\<in>set (sb_transactions db). st_txHash t = st_txHash (seed_tx [])"
    using run that by (auto simp: seed_tx_def list_ex_iff Let_def split: if_splits)
qed

text \<open>
  The seed cannot be run twice: after a run that succeeded, the next fails at the hash of the transaction, and
  because the tables are not written together it leaves both arenas and their pools a second time, while the users
  and the transaction stay single.
\<close>

theorem second_seed_duplicates:
  assumes "seed_main new_id db = (Inr (), db1)"
  shows "\<exists>e db2. seed_main new_id db1 = (Inl e, db2) \<and>
    map snd (sb_arenas db2) = map snd (sb_arenas db) @ new_arena_metas @ new_arena_metas \<and>
    length (sb_pools db2) = length (sb_pools db) + 8 \<and> sb_transactions db2 = sb_transactions db1"
proof -
  obtain i where i: "sb_transactions db1 = sb_transactions db @ [seed_tx i]"
    using seed_run(5) [OF assms] by auto
  obtain r db2 where 2: "seed_main new_id db1 = (r, db2)" by fastforce
  obtain e where e: "r = Inl e" using seed_run(6) [OF 2] i by (auto simp: seed_tx_def)
  have "length (sb_pools db2) = length (map snd (sb_pools db2))" by simp
  then show ?thesis
    using seed_run(1,2,5) [OF 2] seed_run(1,2) [OF assms] 2 e
    by (intro exI [of _ e] exI [of _ db2]) (auto dest: arg_cong [where f = length])
qed

text \<open>
  The users of the seed can never log in: their wallets do not have the shape of an account, so that no nonce
  is issued for them.
\<close>

theorem seeded_users_locked_out:
  assumes "seed_main new_id \<lparr>sb_users = [], sb_arenas = [], sb_pools = [], sb_rounds = [], sb_logs = [],
      sb_transactions = [], sb_next = 0\<rparr> = (r, db)" and "(i, w) \<in> set (sb_users db)"
  shows "requestNonce S cfg env w s = (Inl (StatusError 400 ''Invalid Stellar wallet address''), s)"
proof -
  have "w = seed_wallet1 \<or> w = seed_wallet2"
    using assms
    by (auto simp: seed_main_def upsert_seed_user_def create_seed_arena_def create_seed_round_def create_seed_transaction_def
        Let_def split: if_splits)
  then have "\<not> public_key_regex w"
    by (auto simp: public_key_regex_def seed_wallet1_def seed_wallet2_def)
  then show ?thesis by (simp add: requestNonce_def validateWalletAddress_def)
qed

section \<open>Witnesses\<close>

definition toy_keypairs :: "(string \<times> string) list" where
  "toy_keypairs = [(''SA'', ''GA''), (''SB'', ''GB''), (''SC'', ''GC''), (''SD'', ''GD'')]"

definition toy_reader :: "string \<Rightarrow> environment" where
  "toy_reader text = env_of_lines (js_split (CHR 0x0A) (butlast text))"

lemma split_joined:
  "ls \<noteq> [] \<Longrightarrow> \<forall>l\<in>set ls. c \<notin> set l \<Longrightarrow> js_split c (js_join [c] ls) = ls"
  by (induction "[c]" ls rule: js_join.induct) (simp_all add: js_split_append_sep js_split_no_sep)

lemma toy_reader_reads: "reads_env_files toy_reader"
  unfolding reads_env_files_def
proof (intro allI impI)
  fix ls
  assume "list_all plain_line ls"
  then show "toy_reader (file_text ls) = env_of_lines ls"
    using split_joined [of ls "CHR 0x0A"]
    by (cases "ls = []") (auto simp: toy_reader_def file_text_def list_all_iff plain_line_def env_of_lines_def line_binding_def)
qed

lemma toy_keys: "length toy_keypairs = 4" "\<forall>(s, p)\<in>set toy_keypairs. list_all is_base32 s \<and> list_all is_base32 p"
  by (simp_all add: toy_keypairs_def char_class_defs)

theorem setup_keys_read_back_witness:
  "\<exists>text. fst (setup_main (\<lambda>_. Inl (Error ''busy'')) toy_keypairs [] None) = Some text \<and>
     toy_reader text ''PAYOUT_SOURCE_SECRET'' = Some ''SB''"
proof -
  obtain content failed where m: "setup_main (\<lambda>_. Inl (Error ''busy'')) toy_keypairs [] None = (Some content, failed)"
    by (simp add: setup_main_def)
  have "toy_reader content ''PAYOUT_SOURCE_SECRET'' = Some ''SB''"
    using setup_keys_read_back [OF toy_reader_reads toy_keys m] by (simp add: setup_accounts_def toy_keypairs_def)
  then show ?thesis by (intro exI [of _ content]) (simp add: m)
qed

theorem generated_environment_refused_witness:
  "\<exists>text e. fst (setup_main (\<lambda>_. Inr ()) toy_keypairs [] None) = Some text \<and>
     validateConfig (toy_reader text ++ [''PAYOUT_CONTRACT_ID'' \<mapsto> toy_contract]) = Inl e"
proof -
  obtain content failed where m: "setup_main (\<lambda>_. Inr ()) toy_keypairs [] None = (Some content, failed)"
    by (simp add: setup_main_def)
  show ?thesis
    using generated_environment_refused [OF toy_reader_reads toy_keys m, of "[''PAYOUT_CONTRACT_ID'' \<mapsto> toy_contract]"]
    by (auto simp: m)
qed

definition empty_seed_db :: seed_db where
  "empty_seed_db = \<lparr>sb_users = [], sb_arenas = [], sb_pools = [], sb_rounds = [], sb_logs = [], sb_transactions = [], sb_next = 0\<rparr>"

lemma toy_seed: "\<exists>db. seed_main (\<lambda>n. replicate n (CHR ''i'')) empty_seed_db = (Inr (), db) \<and> (\<exists>i. (i, seed_wallet1) \<in> set (sb_users db))"
  by (simp add: seed_main_def upsert_seed_user_def create_seed_arena_def create_seed_round_def create_seed_transaction_def
      empty_seed_db_def Let_def seed_wallet1_def seed_wallet2_def)

theorem second_seed_duplicates_witness:
  "\<exists>e db1 db2. seed_main (\<lambda>n. replicate n (CHR ''i'')) empty_seed_db = (Inr (), db1) \<and>
     seed_main (\<lambda>n. replicate n (CHR ''i'')) db1 = (Inl e, db2) \<and> length (sb_arenas db2) = 4"
proof -
  obtain db1 where 1: "seed_main (\<lambda>n. replicate n (CHR ''i'')) empty_seed_db = (Inr (), db1)"
    using toy_seed by blast
  then obtain e db2 where "seed_main (\<lambda>n. replicate n (CHR ''i'')) db1 = (Inl e, db2)"
      "map snd (sb_arenas db2) = map snd (sb_arenas empty_seed_db) @ new_arena_metas @ new_arena_metas"
    using second_seed_duplicates [OF 1] by blast
  moreover from this(2) have "length (sb_arenas db2) = 4"
    by (auto simp: empty_seed_db_def new_arena_metas_def dest: arg_cong [where f = length])
  ultimately show ?thesis using 1 by blast
qed

theorem seeded_users_locked_out_witness:
  "\<exists>db i. seed_main (\<lambda>n. replicate n (CHR ''i'')) empty_seed_db = (Inr (), db) \<and> (i, seed_wallet1) \<in> set (sb_users db) \<and>
     requestNonce list_stores toy_cfg toy_env seed_wallet1 toy_state = (Inl (StatusError 400 ''Invalid Stellar wallet address''), toy_state)"
proof -
  obtain db i where db: "seed_main (\<lambda>n. replicate n (CHR ''i'')) empty_seed_db = (Inr (), db)" "(i, seed_wallet1) \<in> set (sb_users db)"
    using toy_seed by blast
  show ?thesis
    using seeded_users_locked_out [OF db(1) [unfolded empty_seed_db_def] db(2)] db by blast
qed

end
