(* ===== verification/AuthHandlers.thy ===== *)
theory AuthHandlers
  imports AuthResults
begin

text \<open>
  The handlers of backend/src/controllers/auth.controller.ts with the schemas of
  backend/src/validation/authSchemas.ts, over the service of theory Auth: what a client of the API sees of a
  login, a logout and a refresh.
\<close>

section \<open>Schemas\<close>

definition wallet_field :: "jval \<Rightarrow> js_error + string" where
  "wallet_field body =
     (case jfield ''walletAddress'' body of
        Some (JStr t) \<Rightarrow>
          if public_key_regex (js_trim t) then Inr (js_trim t) else Inl (ZodFailure ''Invalid Stellar wallet address'')
      | _ \<Rightarrow> Inl (ZodFailure ''walletAddress''))"

definition filled_field :: "string \<Rightarrow> string \<Rightarrow> jval \<Rightarrow> js_error + string" where
  "filled_field k msg body =
     (case jfield k body of
        Some (JStr t) \<Rightarrow> if t = [] then Inl (ZodFailure msg) else Inr t
      | _ \<Rightarrow> Inl (ZodFailure k))"

definition NonceRequestSchema :: "jval \<Rightarrow> js_error + string" where
  "NonceRequestSchema body = wallet_field body"

definition VerifySchema :: "jval \<Rightarrow> js_error + string \<times> string" where
  "VerifySchema body =
     (case wallet_field body of
        Inl e \<Rightarrow> Inl e
      | Inr w \<Rightarrow> map_sum id (Pair w) (filled_field ''signature'' ''Signature is required'' body))"

definition RefreshSchema :: "jval \<Rightarrow> js_error + string" where
  "RefreshSchema body = filled_field ''refreshToken'' ''Refresh token is required'' body"

section \<open>Handlers\<close>

definition post_nonce ::
    "('n, 'u, 't, 'r) auth_stores \<Rightarrow> auth_config \<Rightarrow> auth_env \<Rightarrow> jval \<Rightarrow> ('n, 'u, 't, 'r) auth_state \<Rightarrow>
     (js_error + string \<times> int) \<times> ('n, 'u, 't, 'r) auth_state" where
  "post_nonce S cfg env body s =
     (case NonceRequestSchema body of Inl e \<Rightarrow> (Inl e, s) | Inr w \<Rightarrow> requestNonce S cfg env w s)"

definition post_verify ::
    "('n, 'u, 't, 'r) auth_stores \<Rightarrow> auth_lib \<Rightarrow> auth_config \<Rightarrow> auth_env \<Rightarrow> jval \<Rightarrow> ('n, 'u, 't, 'r) auth_state \<Rightarrow>
     (js_error + token_pair \<times> user_doc) \<times> ('n, 'u, 't, 'r) auth_state" where
  "post_verify S L cfg env body s =
     (case VerifySchema body of Inl e \<Rightarrow> (Inl e, s) | Inr (w, sig) \<Rightarrow> verifySignatureAndLogin S L cfg env w sig s)"

definition post_refresh ::
    "('n, 'u, 't, 'r) auth_stores \<Rightarrow> auth_lib \<Rightarrow> auth_config \<Rightarrow> auth_env \<Rightarrow> jval \<Rightarrow> ('n, 'u, 't, 'r) auth_state \<Rightarrow>
     (js_error + token_pair) \<times> ('n, 'u, 't, 'r) auth_state" where
  "post_refresh S L cfg env body s =
     (case RefreshSchema body of Inl e \<Rightarrow> (Inl e, s) | Inr t \<Rightarrow> refreshTokens S L cfg env t s)"

text \<open>\<open>u\<close> is \<open>req.user\<close>, which the guard before these handlers has set.\<close>

definition post_logout ::
    "('n, 'u, 't, 'r) auth_stores \<Rightarrow> auth_env \<Rightarrow> auth_user \<Rightarrow> ('n, 'u, 't, 'r) auth_state \<Rightarrow>
     string \<times> ('n, 'u, 't, 'r) auth_state" where
  "post_logout S env u s = (''Logged out successfully'', logout S env (ru_jti u) s)"

definition post_revoke_all ::
    "('n, 'u, 't, 'r) auth_stores \<Rightarrow> auth_user \<Rightarrow> ('n, 'u, 't, 'r) auth_state \<Rightarrow> nat \<times> ('n, 'u, 't, 'r) auth_state" where
  "post_revoke_all S u s = revokeAllSessions S (ru_walletAddress u) (ru_id u) s"

definition get_me ::
    "('n, 'u, 't, 'r) auth_stores \<Rightarrow> auth_user \<Rightarrow> ('n, 'u, 't, 'r) auth_state \<Rightarrow> js_error + user_doc" where
  "get_me S u s =
     (case c_findOne (st_users S) (\<lambda>d. us_id d = ru_id u) (au_users s) of
        None \<Rightarrow> Inl (HttpErr 404 ''USER_NOT_FOUND'' ''User not found'')
      | Some d \<Rightarrow> Inr d)"

section \<open>What login leaves\<close>

context auth_service
begin

lemma issue_session:
  assumes "issueTokenPair S L cfg env uid w fam s = (Inr tokens, s')"
    and "ae_accessJti env \<noteq> ae_refreshJti env"
    and "n < ae_now env + max 1 \<lfloor>accessTokenTtlSeconds cfg\<rfloor> * 1000"
  shows "\<exists>secret. getJwtSecret cfg = Inr secret \<and> au_users s' = au_users s \<and> active n (ae_accessJti env) s' \<and>
    tp_accessToken tokens = al_jwtSign L \<lparr>jp_sub = uid, jp_wallet = w, jp_type = AccessToken, jp_jti = ae_accessJti env\<rparr>
      secret (accessTokenTtlSeconds cfg) (ae_now env)"
  using assms
  by (auto simp: issueTokenPair_def Let_def isActive_def redis.add_get split: sum.splits prod.splits)

end

lemma first_of_id:
  assumes "distinct (map us_id ds)" and "d \<in> set ds"
  shows "first_opt (filter (\<lambda>x. us_id x = us_id d) ds) = Some d"
  using assms by (induction ds) (auto simp: image_iff)

lemma login_ok:
  assumes "verifySignatureAndLogin S L cfg env w sig s = (Inr (tokens, user), s')"
  obtains u s1 where "upsert_user (st_users S) env w (au_users s) = (Inr user, u)"
    "issueTokenPair S L cfg env (us_id user) w None s1 = (Inr tokens, s')" "au_users s1 = u"
proof -
  have "validateWalletAddress w \<noteq> Inl e" for e
    using assms by (auto simp: verifySignatureAndLogin_def)
  then obtain a where a: "validateWalletAddress w = Inr a" by (cases "validateWalletAddress w") auto
  have "latest_nonce (st_nonces S) w (ae_now env) (au_nonces s) \<noteq> None"
  proof
    assume "latest_nonce (st_nonces S) w (ae_now env) (au_nonces s) = None"
    then show False using assms by (simp add: verifySignatureAndLogin_def a)
  qed
  then obtain rec where rec: "latest_nonce (st_nonces S) w (ae_now env) (au_nonces s) = Some rec" by blast
  have sig: "al_verifySignature L w (nd_nonce rec) sig = Some True"
  proof (rule ccontr)
    assume "al_verifySignature L w (nd_nonce rec) sig \<noteq> Some True"
    then show False using assms by (simp add: verifySignatureAndLogin_def a rec)
  qed
  let ?n1 = "snd (c_update (st_nonces S) (\<lambda>d. nd_id d = nd_id rec) (\<lambda>d. d\<lparr>nd_used := True\<rparr>) (au_nonces s))"
  note run = assms [unfolded verifySignatureAndLogin_def Let_def a sum.case rec option.case sig not_True_eq_False if_False simp_thms]
  obtain z u where z: "upsert_user (st_users S) env w (au_users s) = (z, u)" by fastforce
  obtain d where d: "z = Inr d"
    using run z by (cases z) simp_all
  obtain x s2 where x: "issueTokenPair S L cfg env (us_id d) w None (s\<lparr>au_nonces := ?n1, au_users := u\<rparr>) = (x, s2)" by fastforce
  have "x = Inr tokens \<and> d = user \<and> s2 = s'"
    using run z d x by (cases x) simp_all
  then show ?thesis using that [of u "s\<lparr>au_nonces := ?n1, au_users := u\<rparr>"] z d x by simp
qed

context collection
begin

lemma findOne_in:
  assumes "d \<in> set (c_all C s)" and "P d" and "\<And>x. x \<in> set (c_all C s) \<Longrightarrow> P x \<Longrightarrow> x = d"
  shows "c_findOne C P s = Some d"
proof (cases "c_findOne C P s")
  case None
  then show ?thesis using findOne_None [of P s] assms(1,2) by blast
next
  case (Some x)
  then show ?thesis using findOne_Some [OF Some] assms(3) by blast
qed

end

lemma upserted_user:
  assumes "collection UC uconf" and "distinct (map us_id (c_all UC u))"
    and "ae_userId env \<notin> us_id ` set (c_all UC u)" and "upsert_user UC env w u = (Inr user, u')"
  shows "us_walletAddress user = w \<and> c_findOne UC (\<lambda>d. us_id d = us_id user) u' = Some user"
proof (cases "c_findOne UC (\<lambda>d. us_walletAddress d = w) u")
  case (Some d)
  let ?f = "\<lambda>x. x\<lparr>us_lastLoginAt := ae_now env\<rparr>"
  have d: "d \<in> set (c_all UC u)" "us_walletAddress d = w"
    using collection.findOne_Some [OF assms(1) Some] by auto
  have user: "user = ?f d" and u': "u' = snd (c_update UC (\<lambda>x. us_id x = us_id d) ?f u)"
    using assms(4) Some by (auto simp: upsert_user_def Let_def)
  have all: "c_all UC u' = map (\<lambda>x. if us_id x = us_id d then ?f x else x) (c_all UC u)"
    unfolding u' by (rule collection.update_all [OF assms(1)])
  have same: "x = d" if "x \<in> set (c_all UC u)" "us_id x = us_id d" for x
    using assms(2) d(1) that by (auto simp: distinct_map inj_on_def)
  have "c_findOne UC (\<lambda>x. us_id x = us_id user) u' = Some user"
  proof (rule collection.findOne_in [OF assms(1)])
    show "user \<in> set (c_all UC u')" using d(1) by (auto simp: all user)
    show "x = user" if "x \<in> set (c_all UC u')" "us_id x = us_id user" for x
      using that same by (auto simp: all user split: if_splits)
  qed simp
  then show ?thesis using d(2) by (simp add: user)
next
  case None
  let ?d = "\<lparr>us_id = ae_userId env, us_walletAddress = w, us_joinedAt = ae_now env, us_lastLoginAt = ae_now env,
    us_displayName = None\<rparr>"
  have user: "user = ?d" and created: "c_create UC ?d u = (Inr (), u')"
    using assms(4) None by (auto simp: upsert_user_def Let_def split: sum.splits prod.splits)
  have all: "c_all UC u' = c_all UC u @ [?d]"
    using collection.create_result [OF assms(1) created] by auto
  have "c_findOne UC (\<lambda>x. us_id x = us_id user) u' = Some user"
  proof (rule collection.findOne_in [OF assms(1)])
    show "user \<in> set (c_all UC u')" by (simp add: all user)
    show "x = user" if "x \<in> set (c_all UC u')" "us_id x = us_id user" for x
      using that assms(3) by (auto simp: all user image_iff)
  qed simp
  then show ?thesis by (simp add: user)
qed

section \<open>Properties\<close>

lemma verify_schema_wallet: "VerifySchema body = Inr (w, sig) \<Longrightarrow> wallet_field body = Inr w"
  by (cases "filled_field ''signature'' ''Signature is required'' body") (auto simp: VerifySchema_def split: sum.splits)

definition jwt_round_trip :: "auth_lib \<Rightarrow> bool" where
  "jwt_round_trip L \<longleftrightarrow> (\<forall>p secret ttl now n. now \<le> n \<and> of_int n < (of_int now :: rat) + ttl * 1000 \<longrightarrow>
     al_jwtVerify L (al_jwtSign L p secret ttl now) secret n = Some p)"



section \<open>Witnesses\<close>

text \<open>A token that carries its payload as text: each part behind its length in ones.\<close>

definition put_part :: "string \<Rightarrow> string \<Rightarrow> string" where
  "put_part a r = replicate (length a) (CHR ''1'') @ CHR ''0'' # a @ r"

definition get_part :: "string \<Rightarrow> string \<times> string" where
  "get_part t = (let n = length (takeWhile (\<lambda>c. c = CHR ''1'') t); r = drop (n + 1) t in (take n r, drop n r))"

lemma get_put_part: "get_part (put_part a r) = (a, r)"
proof -
  have "takeWhile (\<lambda>c. c = CHR ''1'') (replicate n (CHR ''1'') @ CHR ''0'' # t) = replicate n (CHR ''1'')" for n t
    by (induction n) simp_all
  then show ?thesis by (simp add: get_part_def put_part_def Let_def)
qed

definition type_char :: "token_type \<Rightarrow> char" where
  "type_char t = (case t of AccessToken \<Rightarrow> CHR ''A'' | RefreshToken \<Rightarrow> CHR ''R'' | OtherToken \<Rightarrow> CHR ''O'')"

definition text_sign :: "jwt_payload \<Rightarrow> string" where
  "text_sign p = type_char (jp_type p) # put_part (jp_sub p) (put_part (jp_wallet p) (put_part (jp_jti p) []))"

definition text_verify :: "string \<Rightarrow> jwt_payload option" where
  "text_verify t =
     (case t of
        [] \<Rightarrow> None
      | c # r \<Rightarrow>
          let (sub, r1) = get_part r; (w, r2) = get_part r1; (j, _) = get_part r2
          in Some \<lparr>jp_sub = sub, jp_wallet = w,
               jp_type = (if c = CHR ''A'' then AccessToken else if c = CHR ''R'' then RefreshToken else OtherToken), jp_jti = j\<rparr>)"

lemma text_round_trip: "text_verify (text_sign p) = Some p"
  by (cases "jp_type p") (simp_all add: text_verify_def text_sign_def get_put_part type_char_def)

definition text_lib :: auth_lib where
  "text_lib = \<lparr>al_hash = id, al_jwtSign = (\<lambda>p _ _ _. text_sign p), al_jwtVerify = (\<lambda>t _ _. text_verify t),
     al_verifySignature = (\<lambda>_ _ _. Some True)\<rparr>"

definition nonce_state :: "(nonce_doc list, user_doc list, refresh_doc list, list_store) auth_state" where
  "nonce_state = \<lparr>au_nonces = [\<lparr>nd_id = ''d1'', nd_walletAddress = toy_wallet, nd_nonce = ''n'', nd_used = False,
       nd_expiresAt = 301000, nd_createdAt = 1000\<rparr>],
     au_users = [], au_tokens = [], au_redis = \<lparr>ls_strings = [], ls_sets = []\<rparr>\<rparr>"

lemma text_login:
  "\<exists>tokens user s'. post_verify list_stores text_lib toy_cfg toy_env
      (JObj [(''walletAddress'', JStr toy_wallet), (''signature'', JStr ''s'')]) nonce_state = (Inr (tokens, user), s') \<and>
     tp_accessToken tokens \<noteq> []"
proof -
  have body: "VerifySchema (JObj [(''walletAddress'', JStr toy_wallet), (''signature'', JStr ''s'')]) = Inr (toy_wallet, ''s'')"
  proof -
    have "js_trim toy_wallet = toy_wallet"
      by (rule js_trim_id) (simp_all add: toy_wallet_def is_space_def char_class_defs)
    then show ?thesis by (simp add: VerifySchema_def wallet_field_def filled_field_def toy_wallet_key)
  qed
  have sec: "getJwtSecret toy_cfg = Inr (replicate 32 (CHR ''x''))"
    by (simp add: getJwtSecret_def toy_cfg_def)
  have lat: "latest_nonce (list_coll nonce_conflict) toy_wallet (ae_now toy_env) (au_nonces nonce_state) =
      Some \<lparr>nd_id = ''d1'', nd_walletAddress = toy_wallet, nd_nonce = ''n'', nd_used = False, nd_expiresAt = 301000, nd_createdAt = 1000\<rparr>"
    by (simp add: latest_nonce_def nonce_state_def valid_nonce_def toy_env_def)
  have up: "\<exists>d u. upsert_user (list_coll user_conflict) toy_env toy_wallet (au_users nonce_state) = (Inr d, u)"
    by (simp add: upsert_user_def c_findOne_def list_coll_def user_conflict_def Let_def nonce_state_def)
  then obtain d u where up: "upsert_user (list_coll user_conflict) toy_env toy_wallet (au_users nonce_state) = (Inr d, u)" by blast
  have issue: "\<exists>p s2. issueTokenPair list_stores text_lib toy_cfg toy_env uid toy_wallet None s = (Inr p, s2) \<and> tp_accessToken p \<noteq> []"
    if "au_tokens s = []" for uid and s :: "(nonce_doc list, user_doc list, refresh_doc list, list_store) auth_state"
    using that sec by (simp add: issueTokenPair_def Let_def text_lib_def list_coll_def token_conflict_def text_sign_def)
  have tok: "au_tokens (nonce_state\<lparr>au_nonces := x, au_users := y\<rparr>) = []" for x y by (simp add: nonce_state_def)
  obtain p s2 where "issueTokenPair list_stores text_lib toy_cfg toy_env (us_id d) toy_wallet None
      (nonce_state\<lparr>au_nonces := snd (c_update (list_coll nonce_conflict) (\<lambda>x. nd_id x = ''d1'')
         (\<lambda>d. d\<lparr>nd_used := True\<rparr>) (au_nonces nonce_state)), au_users := u\<rparr>) = (Inr p, s2)" "tp_accessToken p \<noteq> []"
    using issue [OF tok] by blast
  moreover have "al_verifySignature text_lib w x y = Some True" for w x y by (simp add: text_lib_def)
  ultimately show ?thesis
    using toy_wallet_key up lat
    by (simp add: post_verify_def body verifySignatureAndLogin_def validateWalletAddress_def Let_def)
qed


definition access_payload :: jwt_payload where
  "access_payload = \<lparr>jp_sub = ''1'', jp_wallet = ''W'', jp_type = AccessToken, jp_jti = ''a''\<rparr>"

definition refresh_payload :: jwt_payload where
  "refresh_payload = \<lparr>jp_sub = ''1'', jp_wallet = ''W'', jp_type = RefreshToken, jp_jti = ''r''\<rparr>"

definition session_state :: "(nonce_doc list, user_doc list, refresh_doc list, list_store) auth_state" where
  "session_state = \<lparr>au_nonces = [], au_users = [],
     au_tokens = [\<lparr>rt_id = ''d0'', rt_tokenHash = text_sign refresh_payload, rt_familyId = ''f0'', rt_userId = ''1'',
       rt_used = False, rt_revoked = False, rt_expiresAt = 99999\<rparr>],
     au_redis = \<lparr>ls_strings = [(jtiKey ''a'', (''W'', 99999)), (jtiKey ''r'', (''W'', 99999))],
       ls_sets = [(walletKey ''W'', [''a'', ''r''])]\<rparr>\<rparr>"

lemma session_guard:
  "requireAuth list_stores text_lib toy_cfg toy_env (Some (''Bearer '' @ text_sign access_payload)) session_state =
     Inr \<lparr>ru_id = ''1'', ru_walletAddress = ''W'', ru_jti = ''a''\<rparr>"
proof -
  have "decode_token text_lib toy_cfg toy_env (text_sign access_payload) = Some access_payload"
    by (simp add: decode_token_def getJwtSecret_def toy_cfg_def text_lib_def text_round_trip)
  moreover have "text_sign access_payload \<noteq> []" by (simp add: text_sign_def)
  ultimately show ?thesis
    by (simp add: requireAuth_def bearer_token_def starts_with_iff verifyAccessToken_def access_payload_def isActive_def
        list_redis_def session_state_def toy_env_def)
qed

lemma session_decode: "decode_token text_lib toy_cfg toy_env (text_sign refresh_payload) = Some refresh_payload"
  by (simp add: decode_token_def getJwtSecret_def toy_cfg_def text_lib_def text_round_trip)

lemma session_refresh:
  "\<exists>t. fst (refreshTokens list_stores text_lib toy_cfg toy_env (text_sign refresh_payload) session_state) = Inr t"
proof -
  have sec: "getJwtSecret toy_cfg = Inr (replicate 32 (CHR ''x''))"
    by (simp add: getJwtSecret_def toy_cfg_def)
  have act: "isActive list_redis 1000 ''r'' (au_redis session_state)"
    by (simp add: isActive_def list_redis_def session_state_def)
  have differ: "text_sign refresh_payload \<noteq> text_sign p" if "jp_jti p \<noteq> ''r''" for p
    using that text_round_trip [of p] text_round_trip [of refresh_payload] by (auto simp: refresh_payload_def)
  have "text_sign \<lparr>jp_sub = ''1'', jp_wallet = ''W'', jp_type = RefreshToken, jp_jti = ''r1''\<rparr> \<noteq> text_sign refresh_payload"
    using differ [of "\<lparr>jp_sub = ''1'', jp_wallet = ''W'', jp_type = RefreshToken, jp_jti = ''r1''\<rparr>"] by simp
  then show ?thesis
    using sec act
    by (simp add: refreshTokens_def session_decode, simp add: refresh_payload_def [symmetric] toy_env_def,
        simp add: refresh_payload_def toy_env_def text_lib_def c_findOne_def session_state_def issueTokenPair_def Let_def list_coll_def token_conflict_def)
qed


end
