(* ===== verification/Startup.thy ===== *)
theory Startup
  imports Config AuthHandlers
begin

text \<open>
  The start of the backend: \<open>main\<close> of backend/src/server.ts with the modules it imports (db/connection.ts) and the
  constructors it calls, over the configuration of theory Config; and the counters of backend/src/utils/roundMetrics.ts.
\<close>

section \<open>The start\<close>

text \<open>
  What happens in order. \<open>mongo\<close> and \<open>redis\<close> are the outcomes of the two connections. A failure ends the
  process with the status 1. The constructor of the payment service reads the configuration of the payments, that of
  the round service a part of it; \<open>createApp\<close> builds the guard of the administrator.
\<close>

datatype start_event =
  SentryStarted | DbConnected | RedisConnected | QueueCreated | ReconcilerStarted | Listening js_num | StartFailed js_error

definition listen_port :: "environment \<Rightarrow> js_num" where
  "listen_port env = env_number env ''PORT'' ''3001''"

definition connection_module :: "environment \<Rightarrow> js_error + string" where
  "connection_module env =
     (if truthy (env ''MONGODB_URI'') then Inr (the (env ''MONGODB_URI''))
      else Inl (Error ''MONGODB_URI environment variable is required''))"

definition server_main ::
    "(string \<Rightarrow> bool) \<Rightarrow> environment \<Rightarrow> (string \<Rightarrow> js_error + unit) \<Rightarrow> js_error + unit \<Rightarrow> start_event list" where
  "server_main is_url env mongo redis =
     (case connection_module env of
        Inl e \<Rightarrow> [StartFailed e]
      | Inr uri \<Rightarrow>
     (case validateConfig env of
        Inl e \<Rightarrow> [StartFailed e]
      | Inr _ \<Rightarrow> (if truthy (env ''SENTRY_DSN'') then [SentryStarted] else []) @
     (case mongo uri of
        Inl e \<Rightarrow> [StartFailed e]
      | Inr _ \<Rightarrow> DbConnected #
     (case redis of
        Inl e \<Rightarrow> [StartFailed e]
      | Inr _ \<Rightarrow> [RedisConnected, QueueCreated] @
     (case getPaymentConfig is_url env of
        Inl e \<Rightarrow> [StartFailed e]
      | Inr paymentConfig \<Rightarrow> ReconcilerStarted #
     (case getStellarConfig is_url env of
        Inl e \<Rightarrow> [StartFailed e]
      | Inr stellarConfig \<Rightarrow>
     (case new_ApiKeyAuthProvider (env ''ADMIN_API_KEY'') of
        Inl e \<Rightarrow> [StartFailed e]
      | Inr key \<Rightarrow> [Listening (listen_port env)])))))))"

section \<open>Properties of the start\<close>

lemma validated_key:
  "validateConfig env = Inr () \<Longrightarrow> \<exists>k. env ''ADMIN_API_KEY'' = Some k \<and> 32 \<le> length k \<and> k \<noteq> ''change-me-in-production''"
  by (auto simp: validateConfig_def Let_def split: option.splits if_splits)

lemma payment_has_stellar: "getPaymentConfig is_url env = Inr c \<Longrightarrow> \<exists>b. getStellarConfig is_url env = Inr b"
  by (auto simp: getPaymentConfig_def split: sum.splits)


text \<open>
  The start does not look at the secret of the tokens: a server without one, or with a short one, starts like any
  other, and then no login succeeds.
\<close>

theorem start_ignores_token_secret:
  assumes "ac_jwtSecret cfg = (env(''JWT_SECRET'' := secret)) ''JWT_SECRET''"
    and "secret = None \<or> length (the secret) < 32"
  shows "server_main is_url (env(''JWT_SECRET'' := secret)) mongo redis = server_main is_url env mongo redis \<and>
    (\<exists>e. fst (post_verify S L cfg auth_e body s) = Inl e)"
proof
  let ?e = "env(''JWT_SECRET'' := secret)"
  have keys: "?e ''ADMIN_API_KEY'' = env ''ADMIN_API_KEY''" "?e ''ADMIN_TOKEN_TTL_SECONDS'' = env ''ADMIN_TOKEN_TTL_SECONDS''"
      "?e ''NODE_ENV'' = env ''NODE_ENV''" "?e ''PAYOUTS_CONFIRM_MAX_POLLS'' = env ''PAYOUTS_CONFIRM_MAX_POLLS''" "?e ''PAYOUTS_CONFIRM_POLL_MS'' = env ''PAYOUTS_CONFIRM_POLL_MS''" "?e ''PAYOUTS_FAILED_RETRY_BASE_MS'' = env
      ''PAYOUTS_FAILED_RETRY_BASE_MS''" "?e ''PAYOUTS_FAILED_RETRY_MAX'' = env ''PAYOUTS_FAILED_RETRY_MAX''" "?e ''PAYOUTS_LIVE_EXECUTION'' = env ''PAYOUTS_LIVE_EXECUTION''" "?e ''PAYOUTS_MAX_ATTEMPTS'' = env
      ''PAYOUTS_MAX_ATTEMPTS''" "?e ''PAYOUTS_MAX_GAS_STROOPS'' = env ''PAYOUTS_MAX_GAS_STROOPS''" "?e ''PAYOUTS_SIGN_WITH_HOT_KEY'' = env ''PAYOUTS_SIGN_WITH_HOT_KEY''" "?e ''PAYOUT_CONTRACT_ID'' = env
      ''PAYOUT_CONTRACT_ID''" "?e ''PAYOUT_HOT_SIGNER_SECRET'' = env ''PAYOUT_HOT_SIGNER_SECRET''" "?e ''PAYOUT_METHOD_NAME'' = env ''PAYOUT_METHOD_NAME''" "?e ''PAYOUT_SOURCE_ACCOUNT'' = env ''PAYOUT_SOURCE_ACCOUNT''"
      "?e ''ROUND_CONFIRM_MAX_POLLS'' = env ''ROUND_CONFIRM_MAX_POLLS''" "?e ''ROUND_CONFIRM_POLL_MS'' = env
      ''ROUND_CONFIRM_POLL_MS''" "?e ''SOROBAN_RPC_URL'' = env ''SOROBAN_RPC_URL''" "?e ''STELLAR_NETWORK_PASSPHRASE'' =
      env ''STELLAR_NETWORK_PASSPHRASE''" "?e ''PORT'' = env ''PORT''" "?e ''SENTRY_DSN'' = env ''SENTRY_DSN''" "?e ''MONGODB_URI'' = env ''MONGODB_URI''"
    by simp_all
  have "getStellarConfig is_url ?e = getStellarConfig is_url env"
    unfolding getStellarConfig_def or_test_default_def env_number_def keys by (rule refl)
  moreover from this have "getPaymentConfig is_url ?e = getPaymentConfig is_url env"
    unfolding getPaymentConfig_def env_number_def keys by (simp only:)
  moreover have "validateConfig ?e = validateConfig env" unfolding validateConfig_def keys by (rule refl)
  moreover have "connection_module ?e = connection_module env" unfolding connection_module_def keys by (rule refl)
  moreover have "listen_port ?e = listen_port env" unfolding listen_port_def env_number_def keys by (rule refl)
  ultimately show "server_main is_url ?e mongo redis = server_main is_url env mongo redis"
    by (simp only: server_main_def keys)
  have "\<exists>e. getJwtSecret cfg = Inl e"
    using assms by (auto simp: getJwtSecret_def split: option.splits)
  then have issue: "fst (issueTokenPair S L cfg auth_e i w f x) \<noteq> Inr t" for i w f x t
    by (auto simp: issueTokenPair_def)
  have "fst (post_verify S L cfg auth_e body s) \<noteq> Inr r" for r
  proof
    assume r: "fst (post_verify S L cfg auth_e body s) = Inr r"
    obtain tokens user where "r = (tokens, user)" by fastforce
    then obtain w sig s' where "verifySignatureAndLogin S L cfg auth_e w sig s = (Inr (tokens, user), s')"
      using r by (cases "VerifySchema body") (auto simp: post_verify_def prod_eq_iff)
    then obtain x where "fst (issueTokenPair S L cfg auth_e (us_id user) w None x) = Inr tokens"
      by (elim login_ok) (metis fst_conv)
    then show False using issue by blast
  qed
  then show "\<exists>e. fst (post_verify S L cfg auth_e body s) = Inl e"
    by (cases "fst (post_verify S L cfg auth_e body s)") auto
qed

definition toy_start :: environment where
  "toy_start = map_of
     [(''SOROBAN_RPC_URL'', ''https://rpc''), (''STELLAR_NETWORK_PASSPHRASE'', ''Test''), (''MONGODB_URI'', ''mongodb://m''),
      (''PAYOUT_CONTRACT_ID'', toy_contract), (''PAYOUT_SOURCE_ACCOUNT'', toy_account),
      (''ADMIN_API_KEY'', replicate 32 (CHR ''k''))]"

lemma toy_start_listens:
  "Listening (listen_port toy_start) \<in> set (server_main (\<lambda>_. True) toy_start (\<lambda>_. Inr ()) (Inr ()))"
proof -
  have "\<exists>b. getStellarConfig (\<lambda>_. True) toy_start = Inr b"
    by (simp add: getStellarConfig_def or_test_default_def env_number_def toy_start_def number_texts toy_numbers)
  then obtain b where b: "getStellarConfig (\<lambda>_. True) toy_start = Inr b" by blast
  then have "\<exists>c. getPaymentConfig (\<lambda>_. True) toy_start = Inr c"
    by (simp add: getPaymentConfig_def env_number_def number_texts toy_numbers checked_id_def toy_start_def toy_ids)
  moreover have "replicate 32 (CHR ''k'') \<noteq> ''change-me-in-production''" by (auto dest: arg_cong [where f = length])
  then have "validateConfig toy_start = Inr ()"
    by (simp add: validateConfig_def toy_start_def parseInt10_def parse_digits_def Let_def)
  moreover have "new_ApiKeyAuthProvider (toy_start ''ADMIN_API_KEY'') = Inr (replicate 32 (CHR ''k''))"
    by (simp add: new_ApiKeyAuthProvider_def toy_start_def)
  moreover have "connection_module toy_start = Inr ''mongodb://m''" by (simp add: connection_module_def toy_start_def)
  ultimately show ?thesis using b by (auto simp: server_main_def)
qed


theorem start_ignores_token_secret_witness:
  "\<exists>e. fst (post_verify list_stores toy_lib (toy_cfg\<lparr>ac_jwtSecret := None\<rparr>) toy_env JNull toy_state) = Inl e"
  using start_ignores_token_secret [of "toy_cfg\<lparr>ac_jwtSecret := None\<rparr>" toy_backend None "\<lambda>_. True" "\<lambda>_. Inr ()" "Inr ()"
      list_stores toy_lib toy_env JNull toy_state]
  by simp

section \<open>Counters of the resolutions\<close>

record round_metrics =
  mt_count :: nat
  mt_errors :: nat
  mt_time :: rat
  mt_eliminations :: "string \<rightharpoonup> nat"

definition new_metrics :: round_metrics where
  "new_metrics = \<lparr>mt_count = 0, mt_errors = 0, mt_time = 0, mt_eliminations = Map.empty\<rparr>"

definition getBucket :: "nat \<Rightarrow> string" where
  "getBucket n =
     (if n = 0 then ''0'' else if n \<le> 2 then ''1-2'' else if n \<le> 5 then ''3-5''
      else if n \<le> 10 then ''6-10'' else ''10+'')"

definition recordResolution :: "rat \<Rightarrow> bool \<Rightarrow> nat \<Rightarrow> round_metrics \<Rightarrow> round_metrics" where
  "recordResolution duration success eliminatedCount m =
     (let bucket = getBucket eliminatedCount
      in m\<lparr>mt_count := mt_count m + 1, mt_time := mt_time m + duration,
           mt_errors := (if success then mt_errors m else mt_errors m + 1),
           mt_eliminations := (mt_eliminations m)(bucket \<mapsto>
             (case mt_eliminations m bucket of None \<Rightarrow> 0 | Some n \<Rightarrow> n) + 1)\<rparr>)"

record metrics_report =
  mr_total :: nat
  mr_errors :: nat
  mr_average :: rat
  mr_distribution :: "string \<rightharpoonup> nat"
  mr_successRate :: rat

definition getMetrics :: "round_metrics \<Rightarrow> metrics_report" where
  "getMetrics m =
     \<lparr>mr_total = mt_count m, mr_errors = mt_errors m,
      mr_average = (if 0 < mt_count m then mt_time m / of_nat (mt_count m) else 0),
      mr_distribution = mt_eliminations m,
      mr_successRate = (if 0 < mt_count m
        then ((of_nat (mt_count m) - of_nat (mt_errors m)) / of_nat (mt_count m)) * 100 else 100)\<rparr>"

definition recorded :: "(rat \<times> bool \<times> nat) list \<Rightarrow> round_metrics" where
  "recorded rs = fold (\<lambda>(d, ok, n). recordResolution d ok n) rs new_metrics"

text \<open>The abstract view: the list of what was recorded.\<close>

definition in_bucket :: "string \<Rightarrow> round_metrics \<Rightarrow> nat" where
  "in_bucket b m = (case mt_eliminations m b of None \<Rightarrow> 0 | Some k \<Rightarrow> k)"

lemma record_fields:
  "mt_count (recordResolution d ok n m) = mt_count m + 1" "mt_time (recordResolution d ok n m) = mt_time m + d"
  "mt_errors (recordResolution d ok n m) = (if ok then mt_errors m else mt_errors m + 1)"
  "in_bucket b (recordResolution d ok n m) = (if getBucket n = b then in_bucket b m + 1 else in_bucket b m)"
  by (simp_all add: recordResolution_def in_bucket_def Let_def)

abbreviation record_all :: "(rat \<times> bool \<times> nat) list \<Rightarrow> round_metrics \<Rightarrow> round_metrics" where
  "record_all rs m \<equiv> fold (\<lambda>(d, ok, n). recordResolution d ok n) rs m"

lemma recorded_fields:
  "mt_count (record_all rs m) = mt_count m + length rs"
  "mt_time (record_all rs m) = mt_time m + sum_list (map fst rs)"
  "mt_errors (record_all rs m) = mt_errors m + length (filter (\<lambda>(d, ok, n). \<not> ok) rs)"
  "in_bucket b (record_all rs m) = in_bucket b m + length (filter (\<lambda>(d, ok, n). getBucket n = b) rs)"
  by (induction rs arbitrary: m) (auto simp: record_fields)

text \<open>
  The report of the resolutions is that of their list: how many there were, how many failed, their average
  duration, how many fall in each class of eliminations, and a success rate between 0 and 100 per cent.
\<close>

theorem metrics_report_list:
  assumes "r = getMetrics (recorded rs)"
  shows "mr_total r = length rs \<and> mr_errors r = length (filter (\<lambda>(d, ok, n). \<not> ok) rs) \<and>
    mr_average r * of_nat (length rs) = sum_list (map fst rs) \<and>
    (\<forall>b. (case mr_distribution r b of None \<Rightarrow> 0 | Some k \<Rightarrow> k) = length (filter (\<lambda>(d, ok, n). getBucket n = b) rs)) \<and>
    0 \<le> mr_successRate r \<and> mr_successRate r \<le> 100"
proof -
  have le: "length (filter (\<lambda>(d, ok, n). \<not> ok) rs) \<le> length rs" by simp
  have "in_bucket b new_metrics = 0" for b by (simp add: in_bucket_def new_metrics_def)
  then have rec: "mt_time (recorded rs) = sum_list (map fst rs)" "mt_count (recorded rs) = length rs"
    "mt_errors (recorded rs) = length (filter (\<lambda>(d, ok, n). \<not> ok) rs)"
    "in_bucket b (recorded rs) = length (filter (\<lambda>(d, ok, n). getBucket n = b) rs)" for b
    unfolding recorded_def recorded_fields by (simp_all add: new_metrics_def)
  have "(of_nat (length rs) - of_nat (length (filter (\<lambda>(d, ok, n). \<not> ok) rs)) :: rat) =
      of_nat (length rs - length (filter (\<lambda>(d, ok, n). \<not> ok) rs))"
    using le by (simp add: of_nat_diff)
  then show ?thesis
    using le by (auto simp: assms getMetrics_def rec in_bucket_def [symmetric] divide_le_eq)
qed

theorem metrics_report_list_witness:
  "mr_total (getMetrics (recorded [(120, True, 3), (80, False, 0)])) = 2 \<and>
   mr_errors (getMetrics (recorded [(120, True, 3), (80, False, 0)])) = 1"
  using metrics_report_list [OF refl, of "[(120, True, 3), (80, False, 0)]"] by simp

end
