(* ===== verification/Widgets.thy ===== *)
theory Widgets
  imports Browser
begin

text \<open>
  Components of the frontend with a state of their own: the results of an arena
  (app/arena/[id]/result/page.tsx), the dialogs that share an arena (components/arena-v2/modals/ShareModal.tsx and
  QRCodeModal.tsx) with the button that saves the settings (app/arena-v2/settings/page.tsx), the tour
  (components/arena-v2/onboarding/OnboardingTour.tsx), the error boundary
  (components/error-boundary/ErrorBoundary.tsx) and the button that connects a wallet
  (components/wallet/ConnectWalletButton.tsx).
\<close>

section \<open>Results of an arena\<close>

record round_summary =
  rn_round :: nat
  rn_eliminated :: nat
  rn_survivors :: nat

record result_data =
  rz_arenaId :: string
  rz_winnerAddress :: string
  rz_entryFeesTotal :: rat
  rz_yieldEarned :: rat
  rz_totalPrize :: rat
  rz_rounds :: "round_summary list"
  rz_totalPlayers :: nat
  rz_userFinishPosition :: "nat option"

definition result_shortAddress :: "string \<Rightarrow> string" where
  "result_shortAddress addr =
     (if length addr < 10 then addr else take 6 addr @ ''...'' @ drop (length addr - 4) addr)"

definition fetchResultData :: "string \<Rightarrow> string option \<Rightarrow> result_data" where
  "fetchResultData arenaId userAddress =
     \<lparr>rz_arenaId = arenaId, rz_winnerAddress = ''GDRXE2BQUC3AZNPVFSCEZ76NJ3WWL25FYFK6RIGLO47E2WU7CXZS7SB'',
      rz_entryFeesTotal = 102400, rz_yieldEarned = 3280.5, rz_totalPrize = 105680.5,
      rz_rounds = map (\<lambda>(r, e, s). \<lparr>rn_round = r, rn_eliminated = e, rn_survivors = s\<rparr>)
        [(1, 512, 512), (2, 256, 256), (3, 128, 128), (4, 64, 64), (5, 63, 1)],
      rz_totalPlayers = 1024, rz_userFinishPosition = (if truthy userAddress then Some 64 else None)\<rparr>"

text \<open>
  The page, with the answers that are still to come: every fetch takes 600 ms, so that they come in the order of
  the calls. The effect runs on mount and when the wallet changes.
\<close>

record result_page =
  rp_arenaId :: string
  rp_publicKey :: "string option"
  rp_result :: "result_data option"
  rp_loading :: bool
  rp_pending :: "result_data list"

definition result_effect :: "result_page \<Rightarrow> result_page" where
  "result_effect p =
     (if rp_arenaId p = [] then p
      else p\<lparr>rp_loading := True, rp_pending := rp_pending p @ [fetchResultData (rp_arenaId p) (rp_publicKey p)]\<rparr>)"

definition mount_result :: "string \<Rightarrow> string option \<Rightarrow> result_page" where
  "mount_result arenaId key =
     result_effect \<lparr>rp_arenaId = arenaId, rp_publicKey = key, rp_result = None, rp_loading = True, rp_pending = []\<rparr>"

definition result_arrives :: "result_page \<Rightarrow> result_page" where
  "result_arrives p =
     (case rp_pending p of
        [] \<Rightarrow> p
      | r # rs \<Rightarrow> p\<lparr>rp_result := Some r, rp_loading := False, rp_pending := rs\<rparr>)"

definition result_wallet :: "string option \<Rightarrow> result_page \<Rightarrow> result_page" where
  "result_wallet key p = (if key = rp_publicKey p then p else result_effect (p\<lparr>rp_publicKey := key\<rparr>))"

datatype result_message = YouWon nat | YouFinished nat nat | NotInArena

datatype result_view = LoadingResults | ResultsUnavailable | Results bool "result_message option"

definition show_result :: "result_page \<Rightarrow> result_view" where
  "show_result p =
     (if rp_loading p then LoadingResults
      else (case rp_result p of
        None \<Rightarrow> ResultsUnavailable
      | Some r \<Rightarrow>
          let isWinner = truthy (rp_publicKey p) \<and> rp_publicKey p = Some (rz_winnerAddress r)
          in Results isWinner
               (if \<not> truthy (rp_publicKey p) then None
                else if isWinner then Some (YouWon (rz_totalPlayers r))
                else (case rz_userFinishPosition r of
                        None \<Rightarrow> Some NotInArena
                      | Some n \<Rightarrow> if n = 0 then Some NotInArena else Some (YouFinished n (rz_totalPlayers r))))))"

inductive result_reach :: "result_page \<Rightarrow> bool" where
  result_mounted: "result_reach (mount_result arenaId key)"
| result_answered: "result_reach p \<Longrightarrow> result_reach (result_arrives p)"
| result_wallet_changed: "result_reach p \<Longrightarrow> result_reach (result_wallet key p)"

text \<open>The answers are those of the calls, the last one that of the current wallet.\<close>

definition result_ok :: "result_page \<Rightarrow> bool" where
  "result_ok p \<longleftrightarrow>
     (\<forall>r \<in> set (rp_pending p) \<union> set_option (rp_result p). \<exists>key. r = fetchResultData (rp_arenaId p) key) \<and>
     (rp_arenaId p \<noteq> [] \<longrightarrow>
        (if rp_pending p = [] then rp_result p else Some (last (rp_pending p))) =
          Some (fetchResultData (rp_arenaId p) (rp_publicKey p))) \<and>
     (rp_arenaId p = [] \<longrightarrow> rp_pending p = []) \<and> (rp_loading p \<or> rp_result p \<noteq> None)"

lemma result_effect_ok: "rp_pending p = [] \<Longrightarrow> rp_result p = None \<Longrightarrow> rp_loading p \<Longrightarrow> result_ok (result_effect p)"
  by (auto simp: result_ok_def result_effect_def)

lemma result_arrives_ok: "result_ok p \<Longrightarrow> result_ok (result_arrives p)"
  by (cases "rp_pending p") (auto simp: result_ok_def result_arrives_def split: if_splits)

lemma result_wallet_ok:
  assumes "result_ok p"
  shows "result_ok (result_wallet key p)"
proof (cases "key = rp_publicKey p \<or> rp_arenaId p = []")
  case True
  then show ?thesis using assms by (auto simp: result_wallet_def result_ok_def result_effect_def)
next
  case False
  then show ?thesis using assms by (auto simp: result_wallet_def result_ok_def result_effect_def)
qed

lemma result_reach_ok: "result_reach p \<Longrightarrow> result_ok p"
proof (induction rule: result_reach.induct)
  case (result_mounted arenaId key)
  show ?case unfolding mount_result_def by (rule result_effect_ok) simp_all
qed (rule result_arrives_ok result_wallet_ok, assumption)+

text \<open>
  Nobody is told to have won: the constant address of the winner has 55 characters, so that it is no account, and
  every connected wallet is shown the position 64, whichever arena it is and whether it played or not; before the
  answer for the wallet has come it may be told that it was not in the arena.
\<close>

theorem nobody_wins_results:
  assumes "result_reach p" and "rp_publicKey p = Some key" and "public_key_regex key" and "rp_arenaId p \<noteq> []"
  shows "show_result p \<in> {LoadingResults, Results False (Some NotInArena), Results False (Some (YouFinished 64 1024))} \<and>
    (rp_pending p = [] \<longrightarrow> show_result p \<in> {LoadingResults, Results False (Some (YouFinished 64 1024))})"
proof -
  have key: "key \<noteq> ''GDRXE2BQUC3AZNPVFSCEZ76NJ3WWL25FYFK6RIGLO47E2WU7CXZS7SB''" "key \<noteq> []"
    using assms(3) by (auto simp: public_key_regex_def)
  note ok = result_reach_ok [OF assms(1)]
  show ?thesis
  proof (cases "rp_result p")
    case None
    then have "rp_loading p" using ok by (simp add: result_ok_def)
    then show ?thesis by (simp add: show_result_def)
  next
    case (Some r)
    then obtain k where "r = fetchResultData (rp_arenaId p) k" using ok by (auto simp: result_ok_def)
    moreover have "rp_pending p = [] \<Longrightarrow> r = fetchResultData (rp_arenaId p) (rp_publicKey p)"
      using ok Some assms(4) by (auto simp: result_ok_def)
    ultimately show ?thesis
      using key Some assms(2) by (auto simp: show_result_def fetchResultData_def Let_def)
  qed
qed

section \<open>Copying and sharing\<close>

text \<open>
  The label of a copy: each press starts a timer that takes the label away, of 2000 ms in the dialogs and of 1800 ms
  on the page of the settings. \<open>elapse d\<close> lets d ms pass.
\<close>

record copy_label =
  cl_copied :: bool
  cl_timers :: "nat list"

definition press_copy :: "nat \<Rightarrow> copy_label \<Rightarrow> copy_label" where
  "press_copy ms l = l\<lparr>cl_copied := True, cl_timers := cl_timers l @ [ms]\<rparr>"

definition handleCopyLink :: "copy_label \<Rightarrow> copy_label" where "handleCopyLink = press_copy 2000"
definition qr_handleCopy :: "copy_label \<Rightarrow> copy_label" where "qr_handleCopy = press_copy 2000"
definition settings_handleSave :: "copy_label \<Rightarrow> copy_label" where "settings_handleSave = press_copy 1800"

definition elapse :: "nat \<Rightarrow> copy_label \<Rightarrow> copy_label" where
  "elapse d l =
     \<lparr>cl_copied = (cl_copied l \<and> \<not> list_ex (\<lambda>t. t \<le> d) (cl_timers l)),
      cl_timers = map (\<lambda>t. t - d) (filter (\<lambda>t. d < t) (cl_timers l))\<rparr>"

definition no_label :: copy_label where
  "no_label = \<lparr>cl_copied = False, cl_timers = []\<rparr>"

text \<open>The address that is shared, and the addresses that are opened to share it.\<close>

definition share_fullUrl :: "string \<Rightarrow> string" where
  "share_fullUrl joinUrl = (if starts_with ''http'' joinUrl then joinUrl else ''https://'' @ joinUrl)"

definition handleShareTwitter :: "(string \<Rightarrow> string) \<Rightarrow> string \<Rightarrow> string \<Rightarrow> string" where
  "handleShareTwitter encodeURIComponent message joinUrl =
     ''https://twitter.com/intent/tweet?text='' @ encodeURIComponent message @ ''&url='' @ encodeURIComponent (share_fullUrl joinUrl)"

definition handleShareTelegram :: "(string \<Rightarrow> string) \<Rightarrow> string \<Rightarrow> string" where
  "handleShareTelegram encodeURIComponent joinUrl =
     ''https://t.me/share/url?url='' @ share_fullUrl joinUrl @ ''&text='' @
       encodeURIComponent (''Join me in the Inverse Arena! '' @ share_fullUrl joinUrl)"

text \<open>What the opened page finds under a name in the query of its address.\<close>

definition query_pairs :: "string \<Rightarrow> (string \<times> string) list" where
  "query_pairs address =
     map (\<lambda>p. (takeWhile (\<lambda>c. c \<noteq> CHR ''='') p, drop 1 (dropWhile (\<lambda>c. c \<noteq> CHR ''='') p)))
       (js_split (CHR ''&'') (drop 1 (dropWhile (\<lambda>c. c \<noteq> CHR ''?'') address)))"

text \<open>
  The label of a copy ends: it is shown while a timer runs, and the time of the last press is an upper bound. But
  the timer of an earlier press is not stopped, so that the label of a second copy within two seconds goes with the
  first one's timer: it is shown for the rest of that time only.
\<close>

theorem second_copy_label_short:
  assumes "0 < d" and "d < 2000"
  shows "cl_copied (handleCopyLink (elapse d (handleCopyLink no_label))) \<and>
    \<not> cl_copied (elapse (2000 - d) (handleCopyLink (elapse d (handleCopyLink no_label)))) \<and>
    \<not> cl_copied (elapse 2000 (handleCopyLink l))"
  using assms by (simp add: handleCopyLink_def press_copy_def elapse_def no_label_def)

lemma split_pair:
  "CHR ''='' \<notin> set k \<Longrightarrow> takeWhile (\<lambda>c. c \<noteq> CHR ''='') (k @ CHR ''='' # v) = k \<and>
     drop 1 (dropWhile (\<lambda>c. c \<noteq> CHR ''='') (k @ CHR ''='' # v)) = v"
  by (induction k) auto

lemma twitter_pairs:
  assumes "CHR ''&'' \<notin> set (enc m)" and "CHR ''&'' \<notin> set (enc (share_fullUrl u))"
  shows "query_pairs (handleShareTwitter enc m u) = [(''text'', enc m), (''url'', enc (share_fullUrl u))]"
proof -
  have "js_split (CHR ''&'') ((''text='' @ enc m) @ CHR ''&'' # (''url='' @ enc (share_fullUrl u))) =
      [''text='' @ enc m, ''url='' @ enc (share_fullUrl u)]"
    using assms by (subst js_split_append_sep) (simp_all add: js_split_no_sep)
  then show ?thesis by (simp add: query_pairs_def handleShareTwitter_def)
qed

lemma telegram_first:
  assumes "CHR ''&'' \<notin> set a" and "share_fullUrl u = a @ rest" and "rest = [] \<or> hd rest = CHR ''&''"
  shows "\<exists>ps. query_pairs (handleShareTelegram enc u) = (''url'', a) # ps"
proof -
  obtain more_text where "share_fullUrl u @ ''&text='' @ enc (''Join me in the Inverse Arena! '' @ share_fullUrl u) = a @ CHR ''&'' # more_text"
    using assms(2,3) by (cases rest) auto
  moreover have "js_split (CHR ''&'') ((''url='' @ a) @ CHR ''&'' # more_text) = (''url='' @ a) # js_split (CHR ''&'') more_text"
    using assms(1) by (subst js_split_append_sep) simp_all
  ultimately show ?thesis by (simp add: query_pairs_def handleShareTelegram_def)
qed

text \<open>
  The link for Twitter carries the address of the arena whatever is in it, because it is encoded; the link for
  Telegram carries it as it is, so that an address with several parameters arrives cut off behind the first.
\<close>

theorem telegram_cuts_address:
  assumes "\<And>t. CHR ''&'' \<notin> set (enc t)" and "\<And>t. dec (enc t) = t"
    and "share_fullUrl joinUrl = a @ CHR ''&'' # b" and "CHR ''&'' \<notin> set a"
  shows "map_option dec (map_of (query_pairs (handleShareTwitter enc m joinUrl)) ''url'') = Some (share_fullUrl joinUrl) \<and>
    map_of (query_pairs (handleShareTelegram enc joinUrl)) ''url'' = Some a"
proof -
  have "\<exists>ps. query_pairs (handleShareTelegram enc joinUrl) = (''url'', a) # ps"
    by (rule telegram_first [OF assms(4,3)]) simp
  then show ?thesis using assms(1,2) by (auto simp: twitter_pairs)
qed

section \<open>The tour\<close>

definition TOUR_STORAGE_KEY :: string where
  "TOUR_STORAGE_KEY = ''inverse.arena-v2.onboarding-complete''"

definition tour_steps :: "string list" where
  "tour_steps = [''THE OBJECTIVE'', ''CHOOSE WISELY'', ''THE REWARD'']"

record tour =
  tr_isOpen :: bool
  tr_stepIndex :: nat
  tr_storage :: local_storage

definition mount_tour :: "local_storage \<Rightarrow> tour" where
  "mount_tour st =
     \<lparr>tr_isOpen = (st TOUR_STORAGE_KEY \<noteq> Some (JsonText (JBool True))), tr_stepIndex = 0, tr_storage = st\<rparr>"

definition closeAndPersist :: "tour \<Rightarrow> tour" where
  "closeAndPersist t = t\<lparr>tr_isOpen := False, tr_storage := (tr_storage t)(TOUR_STORAGE_KEY \<mapsto> JsonText (JBool True))\<rparr>"

datatype tour_press = TourPrevious | TourNext | TourSkip | TourEscape

text \<open>A tour that is closed shows no buttons and does not listen to the keyboard.\<close>

definition press_tour :: "tour_press \<Rightarrow> tour \<Rightarrow> tour" where
  "press_tour b t =
     (if \<not> tr_isOpen t then t
      else (case b of
        TourPrevious \<Rightarrow> t\<lparr>tr_stepIndex := tr_stepIndex t - 1\<rparr>
      | TourNext \<Rightarrow>
          if tr_stepIndex t = length tour_steps - 1 then closeAndPersist t
          else t\<lparr>tr_stepIndex := min (length tour_steps - 1) (tr_stepIndex t + 1)\<rparr>
      | TourSkip \<Rightarrow> closeAndPersist t
      | TourEscape \<Rightarrow> closeAndPersist t))"

definition tour_shown :: "tour \<Rightarrow> string option" where
  "tour_shown t = (if tr_isOpen t \<and> tr_stepIndex t < length tour_steps then Some (tour_steps ! tr_stepIndex t) else None)"

lemma tour_kept:
  assumes "tr_stepIndex t < 3" and "tr_isOpen t \<longleftrightarrow> tr_storage t TOUR_STORAGE_KEY \<noteq> Some (JsonText (JBool True))"
  shows "tr_stepIndex (fold press_tour bs t) < 3 \<and>
    (tr_isOpen (fold press_tour bs t) \<longleftrightarrow> tr_storage (fold press_tour bs t) TOUR_STORAGE_KEY \<noteq> Some (JsonText (JBool True)))"
  using assms
proof (induction bs arbitrary: t)
  case (Cons b bs)
  show ?case
    by (simp, rule Cons.IH; use Cons.prems in \<open>cases b\<close>)
      (auto simp: press_tour_def closeAndPersist_def tour_steps_def)
qed simp

text \<open>
  An open tour always shows one of its steps; it is open as long as the browser does not remember it as
  finished, so that a page that is loaded later shows it exactly if it was not finished here; and three presses of
  Next finish it from wherever it is.
\<close>

theorem tour_shows_until_finished:
  "(let t = fold press_tour bs (mount_tour st)
    in (tr_isOpen t \<longleftrightarrow> tour_shown t \<noteq> None) \<and>
       tr_isOpen (mount_tour (tr_storage t)) = tr_isOpen t \<and>
       \<not> tr_isOpen (fold press_tour [TourNext, TourNext, TourNext] t) \<and>
       (\<forall>k. k \<noteq> TOUR_STORAGE_KEY \<longrightarrow> tr_storage t k = st k))"
proof -
  let ?t = "fold press_tour bs (mount_tour st)"
  have kept: "tr_stepIndex ?t < 3 \<and> (tr_isOpen ?t \<longleftrightarrow> tr_storage ?t TOUR_STORAGE_KEY \<noteq> Some (JsonText (JBool True)))"
    by (rule tour_kept) (simp_all add: mount_tour_def)
  then have "tr_stepIndex ?t = 0 \<or> tr_stepIndex ?t = 1 \<or> tr_stepIndex ?t = 2" by auto
  then have "\<not> tr_isOpen (fold press_tour [TourNext, TourNext, TourNext] ?t)"
    by (auto simp: press_tour_def closeAndPersist_def tour_steps_def)
  moreover have "tr_storage (fold press_tour bs u) k = tr_storage u k" if "k \<noteq> TOUR_STORAGE_KEY" for k u
    using that by (induction bs arbitrary: u) (auto simp: press_tour_def closeAndPersist_def split: tour_press.split)
  ultimately show ?thesis
    using kept by (auto simp: Let_def tour_shown_def tour_steps_def mount_tour_def)
qed

section \<open>The error boundary\<close>

text \<open>
  \<open>custom\<close> tells whether a fallback was given. \<open>eb_reports\<close> are the errors that
  \<open>componentDidCatch\<close> reported.
\<close>

record error_boundary =
  eb_error :: "string option"
  eb_info :: "string option"
  eb_reports :: "string list"

datatype boundary_view = ShowChildren | CustomFallback | DefaultFallback string "string option"

definition new_boundary :: error_boundary where
  "new_boundary = \<lparr>eb_error = None, eb_info = None, eb_reports = []\<rparr>"

definition render_boundary :: "bool \<Rightarrow> error_boundary \<Rightarrow> boundary_view" where
  "render_boundary custom b =
     (case eb_error b of
        None \<Rightarrow> ShowChildren
      | Some e \<Rightarrow> if custom then CustomFallback else DefaultFallback e (eb_info b))"

text \<open>An error of a child: the derived state, then the report. Children that are not shown do not throw.\<close>

definition child_throws :: "string \<Rightarrow> string \<Rightarrow> error_boundary \<Rightarrow> error_boundary" where
  "child_throws e info b =
     (if eb_error b \<noteq> None then b
      else b\<lparr>eb_error := Some e, eb_info := Some info, eb_reports := eb_reports b @ [e]\<rparr>)"

text \<open>\<open>handleReset\<close> is handed to the default fallback only.\<close>

definition handleReset :: "bool \<Rightarrow> error_boundary \<Rightarrow> error_boundary" where
  "handleReset custom b =
     (if eb_error b = None \<or> custom then b else b\<lparr>eb_error := None, eb_info := None\<rparr>)"

datatype boundary_event = ChildThrows string string | PressReset

fun boundary_step :: "bool \<Rightarrow> boundary_event \<Rightarrow> error_boundary \<Rightarrow> error_boundary" where
  "boundary_step custom (ChildThrows e info) b = child_throws e info b"
| "boundary_step custom PressReset b = handleReset custom b"

definition boundary_ok :: "error_boundary \<Rightarrow> bool" where
  "boundary_ok b \<longleftrightarrow> (\<forall>e. eb_error b = Some e \<longrightarrow> eb_reports b \<noteq> [] \<and> last (eb_reports b) = e \<and> eb_info b \<noteq> None)"

lemma boundary_step_ok: "boundary_ok b \<Longrightarrow> boundary_ok (boundary_step custom x b)"
  by (cases x) (auto simp: boundary_ok_def child_throws_def handleReset_def split: if_splits)

lemma boundary_steps_ok: "boundary_ok b \<Longrightarrow> boundary_ok (fold (boundary_step custom) es b)"
  by (induction es arbitrary: b) (simp_all add: boundary_step_ok)

text \<open>
  The boundary shows an error together with where it happened, reports each error that it shows exactly once, and
  shows the children again when it is reset; with a fallback of the program's own there is no way back: the
  fallback stays until the page is loaded again.
\<close>

theorem boundary_reports_what_it_shows:
  "(let b = fold (boundary_step custom) es new_boundary
    in (\<forall>e. eb_error b = Some e \<longrightarrow> eb_reports b \<noteq> [] \<and> last (eb_reports b) = e \<and> eb_info b \<noteq> None) \<and>
       (\<not> custom \<longrightarrow> render_boundary custom (handleReset custom b) = ShowChildren) \<and>
       (custom \<and> eb_error b \<noteq> None \<longrightarrow> render_boundary custom (fold (boundary_step custom) fs b) = CustomFallback))"
proof -
  have shown: "boundary_ok (fold (boundary_step custom) es new_boundary)"
    by (rule boundary_steps_ok) (simp add: boundary_ok_def new_boundary_def)
  have stays: "eb_error (fold (boundary_step True) fs b) = eb_error b" if "eb_error b \<noteq> None" for b
    using that
  proof (induction fs arbitrary: b)
    case (Cons x fs)
    then show ?case by (cases x) (auto simp: child_throws_def handleReset_def)
  qed simp
  show ?thesis
    using shown stays unfolding boundary_ok_def
    by (auto simp: Let_def render_boundary_def handleReset_def split: option.split)
qed

section \<open>The button of the wallets\<close>

definition button_shortAddress :: "string \<Rightarrow> string" where
  "button_shortAddress a = take 6 a @ ''...'' @ drop (length a - 4) a"

record wallet_button =
  wb_wallet :: wallet
  wb_passkey :: passkey_wallet
  wb_prompt :: bool

datatype button_view =
  PasskeyShown string | WalletShown string | RetryShown "string option" | PromptShown | OptionsShown bool

definition show_button :: "wallet_button \<Rightarrow> button_view" where
  "show_button b =
     (if pk_isRegistered (wb_passkey b) \<and> truthy (pk_address (wb_passkey b))
      then PasskeyShown (button_shortAddress (the (pk_address (wb_passkey b))))
      else if wl_status (wb_wallet b) = ConnectedWallet
      then WalletShown (if truthy (wl_address (wb_wallet b)) then button_shortAddress (the (wl_address (wb_wallet b))) else ''Connected'')
      else if wl_status (wb_wallet b) = WalletError then RetryShown (wl_error (wb_wallet b))
      else if wb_prompt b then PromptShown
      else OptionsShown (wl_status (wb_wallet b) = ConnectingWallet))"

text \<open>The press of Disconnect: the button belongs to what is shown.\<close>

definition press_disconnect :: "wallet_button \<Rightarrow> wallet_button" where
  "press_disconnect b =
     (case show_button b of
        PasskeyShown a \<Rightarrow> b\<lparr>wb_passkey := disconnect_passkey (wb_passkey b)\<rparr>
      | WalletShown a \<Rightarrow> b\<lparr>wb_wallet := disconnect_wallet (wb_wallet b)\<rparr>
      | _ \<Rightarrow> b)"

text \<open>
  A registered passkey hides a connected wallet: whatever the wallet is, the button shows the address of the
  passkey, and Disconnect removes the passkey and leaves the wallet connected, which the button shows next; only the
  second press disconnects it.
\<close>

theorem passkey_hides_wallet:
  assumes "pk_isRegistered (wb_passkey b)" and "truthy (pk_address (wb_passkey b))"
    and "wl_status (wb_wallet b) = ConnectedWallet" and "wl_address (wb_wallet b) = Some a" and "a \<noteq> []"
  shows "show_button b = PasskeyShown (button_shortAddress (the (pk_address (wb_passkey b)))) \<and>
    wl_address (wb_wallet (press_disconnect b)) = Some a \<and>
    show_button (press_disconnect b) = WalletShown (button_shortAddress a) \<and>
    show_button (press_disconnect (press_disconnect b)) \<in> {PromptShown, OptionsShown False}"
  using assms by (auto simp: press_disconnect_def show_button_def disconnect_passkey_def disconnect_wallet_def)

section \<open>Witnesses\<close>

theorem nobody_wins_results_witness:
  "show_result (result_arrives (mount_result ''7'' (Some (CHR ''G'' # replicate 55 (CHR ''A''))))) =
     Results False (Some (YouFinished 64 1024))"
proof -
  let ?k = "CHR ''G'' # replicate 55 (CHR ''A'')"
  let ?p = "result_arrives (mount_result ''7'' (Some ?k))"
  have reach: "result_reach ?p" by (rule result_reach.intros)+
  have p: "rp_publicKey ?p = Some ?k" "rp_arenaId ?p \<noteq> []" "rp_pending ?p = []" and shown: "\<not> rp_loading ?p"
    by (simp_all add: result_arrives_def mount_result_def result_effect_def)
  have "public_key_regex ?k" by (simp add: public_key_regex_def list_all_iff char_class_defs)
  then have "show_result ?p \<in> {LoadingResults, Results False (Some (YouFinished 64 1024))}"
    using nobody_wins_results [OF reach p(1)] p by blast
  moreover have "show_result ?p \<noteq> LoadingResults"
    using shown by (simp add: show_result_def Let_def split: option.split)
  ultimately show ?thesis by blast
qed

theorem second_copy_label_short_witness:
  "\<not> cl_copied (elapse 500 (handleCopyLink (elapse 1500 (handleCopyLink no_label))))"
  using second_copy_label_short [of 1500 no_label] by simp

definition escape_char :: "char \<Rightarrow> string" where
  "escape_char c = (if c = CHR ''&'' then ''%26'' else if c = CHR ''%'' then ''%25'' else [c])"

fun unescape :: "string \<Rightarrow> string" where
  "unescape [] = []"
| "unescape (c # s) =
     (if c = CHR ''%'' then (case s of _ # d # r \<Rightarrow> (if d = CHR ''6'' then CHR ''&'' else CHR ''%'') # unescape r | _ \<Rightarrow> [])
      else c # unescape s)"

lemma unescape_escape: "unescape (concat (map escape_char t)) = t"
  by (induction t) (simp_all add: escape_char_def)

lemma escape_no_sign: "CHR ''&'' \<notin> set (concat (map escape_char t))"
  by (induction t) (simp_all add: escape_char_def)

theorem telegram_cuts_address_witness:
  "map_of (query_pairs (handleShareTelegram (\<lambda>t. concat (map escape_char t)) ''https://a?x=1&y=2'')) ''url'' = Some ''https://a?x=1''"
  using telegram_cuts_address [OF escape_no_sign unescape_escape, of "''https://a?x=1&y=2''" "''https://a?x=1''" "''y=2''"]
  by (simp add: share_fullUrl_def)

theorem passkey_hides_wallet_witness:
  "show_button (press_disconnect
     \<lparr>wb_wallet = first_wallet\<lparr>wl_status := ConnectedWallet, wl_address := Some ''GABCDEFGHIJK''\<rparr>,
      wb_passkey = \<lparr>pk_address = Some ''GPASSKEYAAAA'', pk_keyId = Some ''k'', pk_isRegistered = True, pk_error = None, pk_storage = Map.empty\<rparr>,
      wb_prompt = False\<rparr>) = WalletShown ''GABCDE...HIJK''"
  using passkey_hides_wallet
    [of "\<lparr>wb_wallet = first_wallet\<lparr>wl_status := ConnectedWallet, wl_address := Some ''GABCDEFGHIJK''\<rparr>,
      wb_passkey = \<lparr>pk_address = Some ''GPASSKEYAAAA'', pk_keyId = Some ''k'', pk_isRegistered = True, pk_error = None, pk_storage = Map.empty\<rparr>,
      wb_prompt = False\<rparr>" "''GABCDEFGHIJK''"]
  by (simp add: button_shortAddress_def)

end
