(* ===== verification/Spec2Isabelle.thy ===== *)
theory Spec2Isabelle
  imports PayoutCreate WorkerProps RoundValues AuthResults PollerResults Admin
    StellarResults EventParser StreamResults RateLimit ArenaRoutes
    ArenaTimer Polling HealthResults FormResults ArenaPage WalletResults
    CacheResults AuditTrail Simulation LeaderboardPage LobbyResults YieldMath Notifications Dialogs ArenaList
    Tickers Config Proxy Profile Browser Screens ApiDocs
    ArenaCreation EventFrames Privacy Setup Startup Widgets
begin

text \<open>
  Inverse Arena: the backend of a wallet game on Stellar (backend/src) and the client of its contracts
  (frontend/src). Players join an arena, choose in each round, and the players on the wrong side of the
  oracle are eliminated; the last one takes the pool with its yield.

  \<^bold>\<open>How the parts interact.\<close> The routes call controllers behind the guards of middleware/auth.ts
  and the rate limits. The payment service keeps payouts in a transaction repository, has them signed by
  the client, and submits and confirms them through a Soroban circuit breaker; the batch worker and the
  confirmation job drive the same operations in the background. The round service resolves rounds against
  the chain and the database and posts no payouts itself: they are computed and stored with the round. The
  arena poller reads one snapshot for each watched arena and sends the events to all its subscribers, who are
  the stream hooks of the frontend. The administrator forces the same operations under a confirmation token
  and an audit log. The frontend builds contract calls, has the wallet sign them and submits them itself.

  \<^bold>\<open>Conventions\<close> (Prelude). A function that may throw returns \<open>js_error + 'a\<close>; one that also
  changes state returns the pair of that and the new state, because the effects before a throw stay. Time,
  random values and the answers of services are arguments. Texts are \<open>char\<close> lists. Amounts
  that the code keeps as text or bigint are \<open>int\<close>; those it keeps as floating-point numbers are exact
  rationals, so what rounding does to a stake or a yield is not covered. Code between two
  awaits is one step; where two requests may overlap inside one operation, the operation is modelled as
  the parts before and after the await (the breaker, the resolution of a round, the poller).

  \<^bold>\<open>Databases\<close> (Store, TxRepo, TxStores). MongoDB, Prisma and Postgres are a record of operations
  \<open>coll\<close> whose laws are the locale \<open>collection\<close>; \<open>list_coll\<close>, a list of rows with a
  conflict test, is one collection that has them, and the lemma groups of all components are proved in
  extensions of that locale. The interface \<open>TransactionRepository\<close> is the locale
  \<open>tx_repository\<close>: the in-memory repository of repositories/inMemoryTransactionRepository.ts, the Mongo
  one and the SQL one each give it (\<open>mem\<close>, \<open>mongo_tx\<close>, \<open>sql_tx\<close>).

  \<^bold>\<open>Payments.\<close> Breaker is utils/circuitBreaker.ts: counters, states and listeners, with
  \<open>fire\<close> as the steps before and after its await; its lemmas decide when a call is let through and what
  probes do. Amounts is \<open>toStroops\<close> of services/paymentService.ts with the regular expressions of the request
  schema. Payment and PaymentFlow are \<open>PaymentService\<close>: creation, queueing a signed transaction,
  submission, confirmation and polling over any \<open>tx_repository\<close>, and how each moves a record along
  \<open>status_step\<close>. Worker and WorkerFlow are workers/paymentWorker.ts and workers/txReconciler.ts on the
  queue of queues/txQueue.ts. PaymentProps puts all of them into one step relation \<open>pay_step\<close> and shows by
  rule induction what a stored payout keeps; PayoutCreate, PayoutSubmit and WorkerProps hold the results on creation,
  on submission and on the worker.

  \<^bold>\<open>Rounds.\<close> Rounds is types/round.ts and repositories/roundRepository.ts; RoundService is
  services/onChainReader.ts, services/roundService.ts and controllers/round.controller.ts. A resolution is a read, a
  computation and a conditional write. RoundFlow states the tables as the locale
  \<open>round_tables\<close>; RoundProps has the step relation \<open>round_step\<close> of overlapping resolutions, closes and
  creations; RoundResults and RoundValues hold what is stored, what is paid and how the pages cover.

  \<^bold>\<open>Authentication and administration.\<close> Sessions is cache/sessionStore.ts over the locale
  \<open>redis_store\<close>. Auth is services/authService.ts, the confirmation tokens of services/adminService.ts and
  middleware/auth.ts; AuthProps has the step relation \<open>auth_step\<close> and the locales \<open>auth_service\<close> and
  \<open>confirmation_tokens\<close>, AuthResults their interpretations and results on nonces, refresh tokens and
  revocation. Admin is controllers/admin.controller.ts with its audit log (locale \<open>audit_log\<close>).

  \<^bold>\<open>Arenas and the stream.\<close> ArenaStats is services/arenaStatsService.ts and the snapshot of
  services/arenaService.ts. Poller is cache/arenaPoller.ts: the poller states are objects on a heap, because
  the closures of old loops keep them, and \<open>poller_step\<close> interleaves subscriptions, disconnections, timers
  and polls; PollerProps has its invariant, PollerResults what subscribers receive. ArenaStream is
  features/arena/useArenaStream.ts of the frontend, with \<open>stream_step\<close> for the browser's events, and
  StreamResults composes the two: what the hook makes of what the poller sends.

  \<^bold>\<open>Lists.\<close> Leaderboard is controllers/leaderboard.controller.ts and the statistics of
  controllers/users.controller.ts, which compute the same numbers by different code. ArenaRoutes is the
  participants, the synchronisation of players and the elimination history of routes/arenas.ts, routes/pools.ts
  and controllers/arena.controller.ts. RateLimit is middleware/rateLimit.ts and
  frontend/src/server/rate-limit/limiter.ts.

  \<^bold>\<open>Transactions of the frontend\<close> (frontend/src/shared-d/utils). ContractErrors is contract-error.ts and
  contract-error-registry.ts; ScVals is the extraction and encoding of contract values and the schemas;
  CommitReveal is commit-reveal.ts, with local storage as the locale \<open>keyed_store\<close>; StellarTx is
  stellar-transactions.ts and the loader, composer and fee estimator it is split into. StellarResults holds
  what they throw, what a reveal reveals and how a submission ends. EventParser is
  components/hook-d/sorobanEventParser.ts against the events of contract/arena/src/events.rs.

  \<^bold>\<open>Hooks, forms and the page of an arena\<close> (frontend/src). A React hook is a record of its state,
  its refs and what is pending; an event with the render and the effects after it is one step, and
  what returns from an await is a step of its own. Intervals is the ref of an interval with the intervals that run,
  and the locale \<open>interval_hook\<close>: a hook none of whose steps leaks one. ArenaTimer is
  shared-d/hooks/useArenaTimer.ts and Polling is usePolling.ts; both are interpretations of it. ArenaHealth is
  features/arena/useArenaState.ts, Wallets is useWallet.ts, useStellarWallet.ts and the addresses of
  usePasskeyWallet.ts. Forms is form-validation.ts, stellar-fees.ts, pool-schema.ts and the form of
  PoolCreationModal.tsx, over \<open>parseFloat\<close> and \<open>toFixed\<close> of exact numbers; ArenaPage is the game view of
  app/arena/page.tsx over the builders of StellarTx and the commitments of CommitReveal. HealthResults, FormResults and WalletResults
  hold what these keep and where an interleaving breaks it; the others hold it themselves.

  \<^bold>\<open>Answers of the server.\<close> HttpCache is the error handler, the response cache of middleware/cache.ts
  and cache/, the oracle's yield and the webhook that sets it (backend/src), over a store that keeps entries for a
  time; CacheResults shows what a reader of the cache may see and which writes reach it. AuditTrail is
  middleware/auditLog.ts with the routes of routes/admin.ts that it is mounted in. Simulation is the game of
  scripts/simulate-game.ts.

  \<^bold>\<open>Wiring of the server\<close> (backend/src). Routing is app.ts with the routers of routes: a tree of layers with
  the guards before every handler, and a dispatcher that runs them as Express documents it. Serving is a
  request through the whole application, from the parser of the body to the labels of the metrics; it follows
  the routers with patterns instead of paths, so that the tree is shown to be the flat table
  \<open>route_table\<close>. ApiDocs is the document of openapi/registerPaths.ts, compared with that table; it also
  has what the wiring does to bodies, ids and metrics.

  \<^bold>\<open>Pages over these answers\<close> (frontend/src). LeaderboardPage is the hook of features/leaderboard with the
  page of app/dashboard/leaderboard, over the pages that theory Leaderboard serves; Lobby is
  app/arena/[id]/page.tsx, features/arena-lobby and components/arena/ChoiceSubmission.tsx, over the routes of
  ArenaRoutes and the cache; LobbyResults has what the lobby shows and how often a player can choose. ArenaList is
  the list of arenas of shared-d/features/games with its data, filters and searches.

  \<^bold>\<open>Tools of the components\<close> (frontend/src/components). MockFactory is hook-d/mockFactory.ts with its 32-bit
  generator, YieldMath is hook-d/yieldEngine.ts and hook-d/arenaValidation.ts, Notifications is
  ui/NotificationProvider.tsx with its timers, and Dialogs is the focus of ui/Modal.tsx (locale \<open>tab_order\<close>: the
  order in which a browser moves the focus) and the staking, confirmation and joining dialogs. Tickers is
  useLiveTicker.ts, with two more interpretations of \<open>interval_hook\<close>. Screens is the button of
  RoundResolvedOverlay.tsx that has to be held and the administrator's dashboard.

  \<^bold>\<open>Configuration and the browser.\<close> Config reads the environment as backend/src/config and
  frontend/src/lib/stellarConfig.ts do, and shows what a program that starts may rely on; Proxy is frontend/src/proxy.ts.
  Profile is shared-d/features/profile with its page, over the statistics of theory Leaderboard; Browser is what the
  frontend keeps in local storage, settings and passkey (locale \<open>keyed_store\<close>), and the filters it keeps in
  the address of a page.

  \<^bold>\<open>Creating, reporting, starting.\<close> ArenaCreation is \<open>confirmArenaDeployment\<close> of
  services/arenaService.ts with its route and the creation of pools; the names of the SDK that the file uses without
  importing them are an argument, \<open>None\<close> as the file stands. EventFrames is the text of the event stream and
  what an \<open>EventSource\<close> reads from it. AuthHandlers is controllers/auth.controller.ts with its
  schemas: what a client sees of a login, a logout and a refresh. Startup is server.ts on the configuration of Config, and
  utils/roundMetrics.ts. Setup is scripts/setup-testnet.ts, whose file is read back and handed to the configuration,
  and backend/prisma/seed.ts. Privacy is what is removed from error reports (frontend/src/lib/sentry.ts, the
  sentry configurations, backend/src/utils/sentry.ts and logger.ts). Widgets has the components of the frontend
  with a state of their own: the results of an arena, the dialogs that share it, the tour, the error boundary and the
  button of the wallets.

  \<^bold>\<open>Bounds and fuel.\<close> Loops that the code bounds are recursive over that bound:
  the polls of \<open>pollConfirmation\<close> over \<open>maxAttempts\<close>, those of a submission over \<open>submit_maxRetries\<close>
  (10), the reconciler over its number of attempts, a batch over its list. Following the cursors of a
  list takes fuel, and the theorems show that as many steps as the list has entries are
  enough. The loop of the arena poller does not end while somebody listens: each turn of it is a step.

  \<^bold>\<open>Parameters.\<close> The Stellar SDK (\<open>stellar_sdk\<close>, \<open>tx_sdk\<close>), the RPC server, Horizon, sha256,
  JSON web tokens, the signature test, rate-limiter-flexible, Redis, BullMQ and the databases are arguments of the
  definitions that use them. Laws on them are hypotheses of a theorem, and its witness discharges
  these for a concrete instance.

  \<^bold>\<open>Not modelled.\<close> Log lines, the transport of Sentry and the text that Prometheus reads; the schemas of the
  OpenAPI document beyond their names; the headers of Helmet; the markup and the styles of React components, and pages
  that are markup and constants only; the cache of the pages of eliminations; the output of the scripts on the
  terminal; the Rust contracts, apart from the shape of their events.
\<close>

end
